(* ===== verification/Go_Prelude.thy ===== *)
theory Go_Prelude
imports
  Main
  "HOL-Library.Char_ord"
  "HOL-Library.List_Lexorder"
  "HOL-Library.AList"
  "HOL-Library.Multiset"
begin

text \<open>
  What the Go code of PoisonTrace takes from the language and its standard library:
  strings as byte sequences (with \<open>strings.TrimSpace\<close>, \<open>Join\<close>, \<open>Split\<close>, decimal printing and
  parsing, UTF-8 decoding), \<open>int64\<close> wrap-around, \<open>time.Time\<close> and \<open>time.Duration\<close>, error values with
  \<open>errors.Is\<close>, maps with a zero value for a missing key, first-occurrence deduplication, and
  \<open>sort.Slice\<close> with the contract its comparators have to meet.
\<close>

named_theorems go_simps \<open>unfolding of the small library functions\<close>
named_theorems trim_simps \<open>facts about trimmed strings\<close>

section \<open>Strings\<close>

text \<open>A Go string is a sequence of bytes; \<open><\<close> on strings is bytewise and lexicographic, the order
  \<^theory_text>\<open>HOL-Library.List_Lexorder\<close> gives to \<open>char list\<close>.\<close>

definition ascii_space :: "char \<Rightarrow> bool" where
  "ascii_space c \<longleftrightarrow> c = CHR 0x20 \<or> c = CHR 0x09 \<or> c = CHR 0x0A \<or> c = CHR 0x0B \<or> c = CHR 0x0C \<or> c = CHR 0x0D"

text \<open>The UTF-8 encodings of the white space beyond ASCII: U+0085, U+00A0, U+1680, U+2000 to U+200A,
  U+2028, U+2029, U+202F, U+205F and U+3000.\<close>

definition space2 :: "char \<Rightarrow> char \<Rightarrow> bool" where
  "space2 a b \<longleftrightarrow> a = CHR 0xC2 \<and> (b = CHR 0x85 \<or> b = CHR 0xA0)"

definition space3 :: "char \<Rightarrow> char \<Rightarrow> char \<Rightarrow> bool" where
  "space3 a b c \<longleftrightarrow>
     a = CHR 0xE1 \<and> b = CHR 0x9A \<and> c = CHR 0x80
   \<or> a = CHR 0xE2 \<and> b = CHR 0x80 \<and>
       (CHR 0x80 \<le> c \<and> c \<le> CHR 0x8A \<or> c = CHR 0xA8 \<or> c = CHR 0xA9 \<or> c = CHR 0xAF)
   \<or> a = CHR 0xE2 \<and> b = CHR 0x81 \<and> c = CHR 0x9F
   \<or> a = CHR 0xE3 \<and> b = CHR 0x80 \<and> c = CHR 0x80"

text \<open>The number of bytes of the white-space character a string starts with (0 if none), and the
  same for the end of a string, read from its reversal.\<close>

fun lead_len :: "string \<Rightarrow> nat" where
  "lead_len [] = 0"
| "lead_len [a] = (if ascii_space a then 1 else 0)"
| "lead_len [a, b] = (if ascii_space a then 1 else if space2 a b then 2 else 0)"
| "lead_len (a # b # c # _) =
     (if ascii_space a then 1 else if space2 a b then 2 else if space3 a b c then 3 else 0)"

fun tail_len :: "string \<Rightarrow> nat" where
  "tail_len [] = 0"
| "tail_len [a] = (if ascii_space a then 1 else 0)"
| "tail_len [a, b] = (if ascii_space a then 1 else if space2 b a then 2 else 0)"
| "tail_len (a # b # c # _) =
     (if ascii_space a then 1 else if space2 b a then 2 else if space3 c b a then 3 else 0)"

lemma lead_len_le: "lead_len s \<le> length s"
  by (induction s rule: lead_len.induct) auto

lemma tail_len_le: "tail_len s \<le> length s"
  by (induction s rule: tail_len.induct) auto

function drop_lead :: "string \<Rightarrow> string" where
  "drop_lead s = (if lead_len s = 0 then s else drop_lead (drop (lead_len s) s))"
  by pat_completeness auto
termination
proof (relation "measure length", simp)
  fix s :: string assume "lead_len s \<noteq> 0"
  then show "(drop (lead_len s) s, s) \<in> measure length"
    using lead_len_le [of s] by (cases s) auto
qed

function drop_tail :: "string \<Rightarrow> string" where
  "drop_tail s = (if tail_len s = 0 then s else drop_tail (drop (tail_len s) s))"
  by pat_completeness auto
termination
proof (relation "measure length", simp)
  fix s :: string assume "tail_len s \<noteq> 0"
  then show "(drop (tail_len s) s, s) \<in> measure length"
    using tail_len_le [of s] by (cases s) auto
qed

declare drop_lead.simps [simp del] drop_tail.simps [simp del]

text \<open>\<open>strings.TrimSpace\<close>: the tail is trimmed on the reversed string.\<close>

definition trim_space :: "string \<Rightarrow> string" where
  "trim_space s = rev (drop_tail (rev (drop_lead s)))"

lemma drop_lead_id [simp]: "lead_len s = 0 \<Longrightarrow> drop_lead s = s"
  by (simp add: drop_lead.simps)

lemma drop_tail_id [simp]: "tail_len s = 0 \<Longrightarrow> drop_tail s = s"
  by (simp add: drop_tail.simps)

lemma lead_len_drop_lead [simp]: "lead_len (drop_lead s) = 0"
proof (induction s rule: drop_lead.induct)
  case (1 s)
  then show ?case by (cases "lead_len s = 0") (simp_all add: drop_lead.simps [of s])
qed

lemma tail_len_drop_tail [simp]: "tail_len (drop_tail s) = 0"
proof (induction s rule: drop_tail.induct)
  case (1 s)
  then show ?case by (cases "tail_len s = 0") (simp_all add: drop_tail.simps [of s])
qed

lemma drop_tail_suffix: "\<exists>n. drop_tail s = drop n s"
proof (induction s rule: drop_tail.induct)
  case (1 s)
  show ?case
  proof (cases "tail_len s = 0")
    case True
    then have "drop_tail s = drop 0 s" by simp
    then show ?thesis by blast
  next
    case False
    with "1.IH" obtain n where "drop_tail (drop (tail_len s) s) = drop n (drop (tail_len s) s)"
      by blast
    with False have "drop_tail s = drop (n + tail_len s) s"
      by (simp add: drop_tail.simps [of s])
    then show ?thesis by blast
  qed
qed

lemma lead_len_take: "lead_len s = 0 \<Longrightarrow> lead_len (take n s) = 0"
proof (induction s rule: lead_len.induct)
  case (4 a b c xs)
  then show ?case
    by (cases n; cases "n - 1"; cases "n - 2") (auto split: if_splits simp: numeral_2_eq_2)
next
  case (3 a b)
  then show ?case by (cases n; cases "n - 1") (auto split: if_splits)
next
  case (2 a)
  then show ?case by (cases n) auto
qed simp

lemma lead_len_trim [simp]: "lead_len (trim_space s) = 0"
proof -
  obtain n where "drop_tail (rev (drop_lead s)) = drop n (rev (drop_lead s))"
    using drop_tail_suffix by blast
  then have "trim_space s = take (length (drop_lead s) - n) (drop_lead s)"
    by (simp add: trim_space_def rev_drop)
  then show ?thesis by (simp add: lead_len_take)
qed

lemma tail_len_trim [simp]: "tail_len (rev (trim_space s)) = 0"
  by (simp add: trim_space_def)

lemma trim_id: "lead_len s = 0 \<Longrightarrow> tail_len (rev s) = 0 \<Longrightarrow> trim_space s = s"
  by (simp add: trim_space_def)

lemma trim_trim [simp, trim_simps]: "trim_space (trim_space s) = trim_space s"
  by (rule trim_id) simp_all

lemma trim_Nil [simp, trim_simps]: "trim_space [] = []"
  by (simp add: trim_space_def)

fun join :: "string \<Rightarrow> string list \<Rightarrow> string" where
  "join sep [] = []"
| "join sep [x] = x"
| "join sep (x # y # xs) = x @ sep @ join sep (y # xs)"

text \<open>Text that starts and ends with a printing ASCII character has nothing to trim.\<close>

definition visible :: "char \<Rightarrow> bool" where
  "visible c \<longleftrightarrow> CHR ''!'' \<le> c \<and> c \<le> CHR ''~''"

lemma visible_not_space:
  assumes "visible c"
  shows "\<not> ascii_space c" "\<not> space2 c b" "\<not> space2 b c" "\<not> space3 c a b" "\<not> space3 a b c"
  using assms by (auto simp: visible_def ascii_space_def space2_def space3_def less_eq_char_def)

lemma lead_len_visible [simp]: "visible c \<Longrightarrow> lead_len (c # s) = 0"
  by (cases "c # s" rule: lead_len.cases) (simp_all add: visible_not_space)

lemma tail_len_visible [simp]: "visible c \<Longrightarrow> tail_len (c # s) = 0"
  by (cases "c # s" rule: tail_len.cases) (simp_all add: visible_not_space)

definition visible_ends :: "string \<Rightarrow> bool" where
  "visible_ends s \<longleftrightarrow> s \<noteq> [] \<and> visible (hd s) \<and> visible (last s)"

lemma trim_visible: "visible_ends s \<Longrightarrow> trim_space s = s"
proof -
  assume v: "visible_ends s"
  then obtain a t where "s = a # t" "visible a" by (cases s) (auto simp: visible_ends_def)
  moreover from v have "rev s = last s # rev (butlast s)" "visible (last s)"
    by (simp_all add: visible_ends_def flip: rev.simps(2) [of "last s"] rev_append append_butlast_last_id)
  ultimately show ?thesis by (intro trim_id) simp_all
qed

lemma visible_ends_append: "visible_ends s \<Longrightarrow> visible_ends t \<Longrightarrow> visible_ends (s @ u @ t)"
  by (simp add: visible_ends_def)

lemma visible_ends_append2: "visible_ends s \<Longrightarrow> visible_ends t \<Longrightarrow> visible_ends (s @ t)"
  by (simp add: visible_ends_def)

lemma visible_ends_join:
  "xs \<noteq> [] \<Longrightarrow> \<forall>x \<in> set xs. visible_ends x \<Longrightarrow> visible_ends (join sep xs)"
  by (induction sep xs rule: join.induct) (simp_all add: visible_ends_append)

text \<open>\<open>strings.Split\<close> with a one-byte separator: always at least one part.\<close>

fun split_on :: "char \<Rightarrow> string \<Rightarrow> string list" where
  "split_on c [] = [[]]"
| "split_on c (x # xs) =
     (if x = c then [] # split_on c xs
      else (case split_on c xs of [] \<Rightarrow> [[x]] | p # ps \<Rightarrow> (x # p) # ps))"

definition has_prefix :: "string \<Rightarrow> string \<Rightarrow> bool" where
  "has_prefix s p \<longleftrightarrow> take (length p) s = p"

fun contains :: "string \<Rightarrow> string \<Rightarrow> bool" where
  "contains [] p = (p = [])"
| "contains (x # xs) p = (has_prefix (x # xs) p \<or> contains xs p)"

lemma split_on_nonempty [simp]: "split_on c s \<noteq> []"
  by (induction s) (auto split: list.splits)

lemma split_on_append:
  "c \<notin> set x \<Longrightarrow> split_on c (x @ c # s) = x # split_on c s"
  by (induction x) auto

lemma split_on_id: "c \<notin> set x \<Longrightarrow> split_on c x = [x]"
  by (induction x) auto

lemma split_join:
  assumes "xs \<noteq> []" and "\<And>x. x \<in> set xs \<Longrightarrow> c \<notin> set x"
  shows "split_on c (join [c] xs) = xs"
  using assms
proof (induction "[c]" xs rule: join.induct)
  case (3 x y xs)
  then show ?case by (simp add: split_on_append)
qed (simp_all add: split_on_id)

lemma join_eq_Nil: "sep \<noteq> [] \<Longrightarrow> join sep xs = [] \<longleftrightarrow> xs = [] \<or> xs = [[]]"
  by (induction sep xs rule: join.induct) auto

lemma contains_append: "contains (p @ x @ q) x"
proof (induction p)
  case Nil
  have "has_prefix (x @ q) x" by (simp add: has_prefix_def)
  then show ?case by (cases "x @ q") (auto simp: has_prefix_def)
qed simp

section \<open>Paths\<close>

text \<open>\<open>filepath.Clean\<close>, \<open>Dir\<close> and \<open>Join\<close> with the separator of Unix: empty elements and \<open>.\<close> go, \<open>..\<close> takes
  the element before it away unless there is none.\<close>

definition clean_push :: "bool \<Rightarrow> string list \<Rightarrow> string \<Rightarrow> string list" where
  "clean_push rooted stack c =
     (if c = [] \<or> c = ''.'' then stack
      else if c = ''..''
      then (case stack of
          [] \<Rightarrow> if rooted then [] else [c]
        | p # rest \<Rightarrow> if p = ''..'' then c # stack else rest)
      else c # stack)"

definition path_clean :: "string \<Rightarrow> string" where
  "path_clean path =
     (let rooted = has_prefix path ''/'';
          out = (if rooted then ''/'' else []) @
                join ''/'' (rev (foldl (clean_push rooted) [] (split_on CHR ''/'' path)))
      in if out = [] then ''.'' else out)"

definition path_dir :: "string \<Rightarrow> string" where
  "path_dir path = path_clean (rev (dropWhile (\<lambda>c. c \<noteq> CHR ''/'') (rev path)))"

definition path_join :: "string list \<Rightarrow> string" where
  "path_join elems =
     (let parts = filter (\<lambda>e. e \<noteq> []) elems in if parts = [] then [] else path_clean (join ''/'' parts))"

lemma path_samples:
  "path_dir ''out/a/./b.txt'' = ''out/a''" "path_dir ''b.txt'' = ''.''" "path_clean ''../x/../..//y'' = ''../../y''"
  "path_dir ''/b'' = ''/''" "path_join [''a/'', [], ''b''] = ''a/b''"
  by code_simp+

section \<open>Decimal numbers\<close>

fun show_nat :: "nat \<Rightarrow> string" where
  "show_nat n = (if n < 10 then [char_of (48 + n)] else show_nat (n div 10) @ [char_of (48 + n mod 10)])"

declare show_nat.simps [simp del]

definition show_int :: "int \<Rightarrow> string" where
  "show_int i = (if i < 0 then CHR ''-'' # show_nat (nat (- i)) else show_nat (nat i))"

definition is_ascii_digit :: "char \<Rightarrow> bool" where
  "is_ascii_digit c \<longleftrightarrow> CHR ''0'' \<le> c \<and> c \<le> CHR ''9''"

definition digit_val :: "char \<Rightarrow> nat" where
  "digit_val c = of_char c - 48"

fun digits_val :: "nat \<Rightarrow> string \<Rightarrow> nat" where
  "digits_val acc [] = acc"
| "digits_val acc (c # cs) = digits_val (10 * acc + digit_val c) cs"

definition parse_digits :: "string \<Rightarrow> nat option" where
  "parse_digits s = (if s \<noteq> [] \<and> list_all is_ascii_digit s then Some (digits_val 0 s) else None)"

text \<open>\<open>big.Int.SetString(s, 10)\<close>: an optional sign, then one or more ASCII digits, nothing else.\<close>

definition parse_big :: "string \<Rightarrow> int option" where
  "parse_big s = (case s of [] \<Rightarrow> None
     | c # cs \<Rightarrow>
        if c = CHR ''-'' then map_option (\<lambda>n. - int n) (parse_digits cs)
        else if c = CHR ''+'' then map_option int (parse_digits cs)
        else map_option int (parse_digits s))"

text \<open>\<open>strconv.Atoi\<close> and \<open>strconv.ParseInt(s, 10, 64)\<close>: as above, and an error out of the int64 range.\<close>

definition max_int64 :: int where
  "max_int64 = 9223372036854775807"

definition min_int64 :: int where
  "min_int64 = - 9223372036854775808"

definition atoi :: "string \<Rightarrow> int option" where
  "atoi s = (case parse_big s of None \<Rightarrow> None
     | Some n \<Rightarrow> if min_int64 \<le> n \<and> n \<le> max_int64 then Some n else None)"

lemma digits_val_append: "digits_val acc (xs @ [c]) = 10 * digits_val acc xs + digit_val c"
  by (induction xs arbitrary: acc) simp_all

lemma ascii_digit_char_of:
  fixes n :: nat
  assumes "n < 10"
  shows "is_ascii_digit (char_of (48 + n))"
proof -
  from assms
  have "n \<in> {0, 1, 2, 3, 4, 5, 6, 7, 8, 9}" by auto
  then show ?thesis by (auto simp: is_ascii_digit_def less_eq_char_def)
qed

lemma digit_val_char_of: "(n::nat) < 10 \<Longrightarrow> digit_val (char_of (48 + n)) = n"
  by (simp add: digit_val_def)

lemma show_nat_digits: "list_all is_ascii_digit (show_nat n) \<and> show_nat n \<noteq> [] \<and> digits_val 0 (show_nat n) = n"
proof (induction n rule: show_nat.induct)
  case (1 n)
  show ?case
  proof (cases "n < 10")
    case True
    then show ?thesis
      by (simp add: show_nat.simps [of n] ascii_digit_char_of digit_val_char_of)
  next
    case False
    with "1.IH" have "list_all is_ascii_digit (show_nat (n div 10))"
      "digits_val 0 (show_nat (n div 10)) = n div 10" by simp_all
    with False show ?thesis
      by (simp add: show_nat.simps [of n] ascii_digit_char_of digits_val_append digit_val_char_of)
  qed
qed

lemma parse_digits_show_nat [simp]: "parse_digits (show_nat n) = Some n"
  using show_nat_digits [of n] by (simp add: parse_digits_def)

lemma show_nat_inj [simp]: "show_nat m = show_nat n \<longleftrightarrow> m = n"
  by (metis option.inject parse_digits_show_nat)

lemma show_nat_not_in: "\<not> is_ascii_digit c \<Longrightarrow> c \<notin> set (show_nat n)"
  using show_nat_digits [of n] by (auto simp: list_all_iff)

lemma parse_big_show_int: "parse_big (show_int i) = Some i"
proof (cases "i < 0")
  case True
  then show ?thesis by (simp add: parse_big_def show_int_def)
next
  case False
  obtain c cs where s: "show_nat (nat i) = c # cs"
    using show_nat_digits [of "nat i"] by (cases "show_nat (nat i)") auto
  have "is_ascii_digit c" using show_nat_digits [of "nat i"] s by simp
  then have "c \<noteq> CHR ''-''" "c \<noteq> CHR ''+''" by (auto simp: is_ascii_digit_def less_eq_char_def)
  with False s show ?thesis
    using parse_digits_show_nat [of "nat i"] by (simp add: parse_big_def show_int_def)
qed


section \<open>UTF-8 and decimal digits of any script\<close>

text \<open>\<open>utf8.DecodeRune\<close> on a non-empty string: the code point and its length in bytes; an invalid
  encoding is U+FFFD of length 1. \<open>range\<close> over a string visits \<open>runes\<close>.\<close>

definition byte :: "char \<Rightarrow> int" where
  "byte c = of_char c"

definition is_cont :: "int \<Rightarrow> bool" where
  "is_cont b \<longleftrightarrow> 128 \<le> b \<and> b \<le> 191"

definition rune_error :: int where
  "rune_error = 65533"

fun decode_rune :: "int list \<Rightarrow> int \<times> nat" where
  "decode_rune [] = (rune_error, 0)"
| "decode_rune (a # s) =
     (if a < 128 then (a, 1)
      else if 194 \<le> a \<and> a \<le> 223 then
        (case s of b # _ \<Rightarrow>
            if is_cont b then ((a - 192) * 64 + (b - 128), 2) else (rune_error, 1)
         | _ \<Rightarrow> (rune_error, 1))
      else if 224 \<le> a \<and> a \<le> 239 then
        (case s of b # c # _ \<Rightarrow>
            if is_cont b \<and> is_cont c \<and> (a = 224 \<longrightarrow> 160 \<le> b) \<and> (a = 237 \<longrightarrow> b \<le> 159)
            then ((a - 224) * 4096 + (b - 128) * 64 + (c - 128), 3) else (rune_error, 1)
         | _ \<Rightarrow> (rune_error, 1))
      else if 240 \<le> a \<and> a \<le> 244 then
        (case s of b # c # d # _ \<Rightarrow>
            if is_cont b \<and> is_cont c \<and> is_cont d \<and> (a = 240 \<longrightarrow> 144 \<le> b) \<and> (a = 244 \<longrightarrow> b \<le> 143)
            then ((a - 240) * 262144 + (b - 128) * 4096 + (c - 128) * 64 + (d - 128), 4)
            else (rune_error, 1)
         | _ \<Rightarrow> (rune_error, 1))
      else (rune_error, 1))"

declare decode_rune.simps [simp del]

text \<open>The recursion drops at least one byte; \<open>snd (decode_rune _) - 1\<close> of the tail is the rest of
  the character.\<close>

fun runes_bytes :: "int list \<Rightarrow> int list" where
  "runes_bytes [] = []"
| "runes_bytes (a # s) =
     fst (decode_rune (a # s)) # runes_bytes (drop (snd (decode_rune (a # s)) - 1) s)"

definition runes :: "string \<Rightarrow> int list" where
  "runes s = runes_bytes (map byte s)"

text \<open>The category Nd of Unicode 15.0, the version of Go 1.22: every block of ten digits, by its zero.\<close>

definition digit_zeros :: "int list" where
  "digit_zeros =
    [0x30, 0x660, 0x6F0, 0x7C0, 0x966, 0x9E6, 0xA66, 0xAE6, 0xB66, 0xBE6, 0xC66, 0xCE6, 0xD66,
     0xDE6, 0xE50, 0xED0, 0xF20, 0x1040, 0x1090, 0x17E0, 0x1810, 0x1946, 0x19D0, 0x1A80, 0x1A90,
     0x1B50, 0x1BB0, 0x1C40, 0x1C50, 0xA620, 0xA8D0, 0xA900, 0xA9D0, 0xA9F0, 0xAA50, 0xABF0,
     0xFF10, 0x104A0, 0x10D30, 0x11066, 0x110F0, 0x11136, 0x111D0, 0x112F0, 0x11450, 0x114D0,
     0x11650, 0x116C0, 0x11730, 0x118E0, 0x11950, 0x11C50, 0x11D50, 0x11DA0, 0x11F50, 0x16A60,
     0x16AC0, 0x16B50, 0x1D7CE, 0x1D7D8, 0x1D7E2, 0x1D7EC, 0x1D7F6, 0x1E140, 0x1E2F0, 0x1E4F0,
     0x1E950, 0x1FBF0]"

definition is_digit :: "int \<Rightarrow> bool" where
  "is_digit r = list_ex (\<lambda>z. z \<le> r \<and> r < z + 10) digit_zeros"

text \<open>\<open>strings.EqualFold\<close> against lower-case ASCII text: beside the ASCII capitals, only U+212A and
  U+017F fold to an ASCII letter.\<close>

definition fold_rune :: "int \<Rightarrow> int" where
  "fold_rune r = (if 65 \<le> r \<and> r \<le> 90 then r + 32 else if r = 0x212A then 107 else if r = 0x17F then 115 else r)"

definition equal_fold :: "string \<Rightarrow> string \<Rightarrow> bool" where
  "equal_fold s t \<longleftrightarrow> map fold_rune (runes s) = map fold_rune (runes t)"

text \<open>\<open>%q\<close> for ASCII text; other bytes stand for themselves.\<close>

definition quote_char :: "char \<Rightarrow> string" where
  "quote_char c =
     (if c = CHR 0x22 \<or> c = CHR 0x5C then [CHR 0x5C, c]
      else if c = CHR 0x07 then [CHR 0x5C, CHR ''a'']
      else if c = CHR 0x08 then [CHR 0x5C, CHR ''b'']
      else if c = CHR 0x09 then [CHR 0x5C, CHR ''t'']
      else if c = CHR 0x0A then [CHR 0x5C, CHR ''n'']
      else if c = CHR 0x0B then [CHR 0x5C, CHR ''v'']
      else if c = CHR 0x0C then [CHR 0x5C, CHR ''f'']
      else if c = CHR 0x0D then [CHR 0x5C, CHR ''r'']
      else if c < CHR 0x20 \<or> c = CHR 0x7F
      then [CHR 0x5C, CHR ''x''] @ map (\<lambda>d. ''0123456789abcdef'' ! d) [of_char c div 16, of_char c mod 16]
      else [c])"

definition go_quote :: "string \<Rightarrow> string" where
  "go_quote s = CHR 0x22 # concat (map quote_char s) @ [CHR 0x22]"

section \<open>Machine integers and time\<close>

text \<open>The value of an int64 computation: the mathematical result reduced to the signed 64-bit range.\<close>

definition wrap64 :: "int \<Rightarrow> int" where
  "wrap64 x = (x + 9223372036854775808) mod 18446744073709551616 - 9223372036854775808"

lemma wrap64_id: "min_int64 \<le> x \<Longrightarrow> x \<le> max_int64 \<Longrightarrow> wrap64 x = x"
  by (simp add: wrap64_def min_int64_def max_int64_def)

lemma wrap64_range: "min_int64 \<le> wrap64 x \<and> wrap64 x \<le> max_int64"
proof -
  have "0 \<le> (x + 9223372036854775808) mod 18446744073709551616"
    "(x + 9223372036854775808) mod 18446744073709551616 < 18446744073709551616"
    by simp_all
  then show ?thesis by (simp add: wrap64_def min_int64_def max_int64_def)
qed

text \<open>
  An instant is the number of nanoseconds since 0001-01-01T00:00:00Z, so that the zero value of
  \<open>time.Time\<close> is 0; a duration is a number of nanoseconds in the int64 range. \<open>UTC()\<close> changes the
  location only and is the identity here.
\<close>

type_synonym gotime = int
type_synonym duration = int

definition nanos_per_second :: int where "nanos_per_second = 1000000000"
definition nanos_per_hour :: int where "nanos_per_hour = 3600000000000"
definition nanos_per_day :: int where "nanos_per_day = 86400000000000"
definition unix_to_internal :: int where "unix_to_internal = 62135596800"

text \<open>\<open>time.Unix(sec, 0)\<close>: the seconds since year 1 are an int64 sum.\<close>

definition time_unix :: "int \<Rightarrow> gotime" where
  "time_unix sec = wrap64 (sec + unix_to_internal) * nanos_per_second"

definition is_zero_time :: "gotime \<Rightarrow> bool" where
  "is_zero_time t \<longleftrightarrow> t = 0"

text \<open>\<open>Time.Sub\<close> saturates.\<close>

definition sub_time :: "gotime \<Rightarrow> gotime \<Rightarrow> duration" where
  "sub_time t u =
     (if t - u > max_int64 then max_int64 else if t - u < min_int64 then min_int64 else t - u)"

lemma sub_time_pos: "0 < sub_time t u \<longleftrightarrow> u < t"
  by (auto simp: sub_time_def max_int64_def min_int64_def)

lemma sub_time_le: "d < max_int64 \<Longrightarrow> 0 \<le> d \<Longrightarrow> sub_time t u \<le> d \<longleftrightarrow> t - u \<le> d"
  by (auto simp: sub_time_def max_int64_def min_int64_def)

text \<open>\<open>Format(time.RFC3339)\<close> of a UTC time: the civil date of a day number, counted in years that start in
  March, and the time of day; fractions of a second are not printed.\<close>

definition civil_date :: "int \<Rightarrow> int \<times> int \<times> int" where
  "civil_date day =
     (let z = day + 306; era = z div 146097; doe = z mod 146097;
          yoe = (doe - doe div 1460 + doe div 36524 - doe div 146096) div 365;
          doy = doe - (365 * yoe + yoe div 4 - yoe div 100);
          mp = (5 * doy + 2) div 153;
          m = (if mp < 10 then mp + 3 else mp - 9)
      in (yoe + era * 400 + (if m \<le> 2 then 1 else 0), m, doy - (153 * mp + 2) div 5 + 1))"

definition pad :: "nat \<Rightarrow> int \<Rightarrow> string" where
  "pad n i = (let s = show_nat (nat \<bar>i\<bar>) in (if i < 0 then ''-'' else []) @ replicate (n - length s) CHR ''0'' @ s)"

definition format_rfc3339 :: "gotime \<Rightarrow> string" where
  "format_rfc3339 t =
     (let secs = t div nanos_per_second; day = secs div 86400; s = secs mod 86400 in
      case civil_date day of (y, m, d) \<Rightarrow>
        pad 4 y @ ''-'' @ pad 2 m @ ''-'' @ pad 2 d @ ''T'' @ pad 2 (s div 3600) @ '':'' @
        pad 2 (s div 60 mod 60) @ '':'' @ pad 2 (s mod 60) @ ''Z'')"

lemma format_rfc3339_epoch: "format_rfc3339 (time_unix 1709217130) = ''2024-02-29T14:32:10Z''"
  by code_simp

section \<open>Errors\<close>

text \<open>
  An error value with what the program asks of it: \<open>errors.New\<close> and \<open>fmt.Errorf\<close> without \<open>%w\<close>
  (\<open>Err\<close>), \<open>fmt.Errorf\<close> with \<open>%w\<close> (\<open>Wrapped\<close>, with the text before and after the wrapped error), the
  two context errors, \<open>helius.StatusError\<close> (its code and the text its \<open>Error()\<close> gives), an error that
  implements \<open>net.Error\<close>, \<open>retryExhaustedError\<close>, which does not unwrap, and an error that unwraps but has
  a text of its own (\<open>Told\<close>).
\<close>

datatype go_error =
    Err string
  | Wrapped string go_error string
  | Canceled
  | DeadlineExceeded
  | StatusErr int string
  | NetErr string
  | RetryExhaustedErr go_error
  | Told string go_error

primrec err_msg :: "go_error \<Rightarrow> string" where
  "err_msg (Err m) = m"
| "err_msg (Wrapped pre e suf) = pre @ err_msg e @ suf"
| "err_msg Canceled = ''context canceled''"
| "err_msg DeadlineExceeded = ''context deadline exceeded''"
| "err_msg (StatusErr c m) = m"
| "err_msg (NetErr m) = m"
| "err_msg (RetryExhaustedErr e) = ''helius retry exhausted: '' @ err_msg e"
| "err_msg (Told m e) = m"

text \<open>The last error of an unwrapping chain: \<open>errors.Is\<close> and \<open>errors.As\<close> look for their target
  along the chain, and every error the program looks for ends one.\<close>

primrec root_cause :: "go_error \<Rightarrow> go_error" where
  "root_cause (Err m) = Err m"
| "root_cause (Wrapped pre e suf) = root_cause e"
| "root_cause Canceled = Canceled"
| "root_cause DeadlineExceeded = DeadlineExceeded"
| "root_cause (StatusErr c m) = StatusErr c m"
| "root_cause (NetErr m) = NetErr m"
| "root_cause (RetryExhaustedErr e) = RetryExhaustedErr e"
| "root_cause (Told m e) = root_cause e"

definition is_deadline :: "go_error \<Rightarrow> bool" where
  "is_deadline e \<longleftrightarrow> root_cause e = DeadlineExceeded"

definition is_canceled :: "go_error \<Rightarrow> bool" where
  "is_canceled e \<longleftrightarrow> root_cause e = Canceled"

definition is_retry_exhausted :: "go_error \<Rightarrow> bool" where
  "is_retry_exhausted e = (case root_cause e of RetryExhaustedErr _ \<Rightarrow> True | _ \<Rightarrow> False)"

text \<open>\<open>if err != nil { return err }\<close> after a call.\<close>

definition and_then :: "go_error + 'a \<Rightarrow> ('a \<Rightarrow> go_error + 'b) \<Rightarrow> go_error + 'b" where
  "and_then r f = (case r of Inl e \<Rightarrow> Inl e | Inr x \<Rightarrow> f x)"

lemma and_then_simps [simp]: "and_then (Inl e) f = Inl e" "and_then (Inr x) f = f x"
  by (simp_all add: and_then_def)

lemma and_then_Inr: "and_then r f = Inr y \<longleftrightarrow> (\<exists>x. r = Inr x \<and> f x = Inr y)"
  by (cases r) simp_all

text \<open>A list of checks in order: the first that fails is the error.\<close>

fun first_error :: "(bool \<times> go_error) list \<Rightarrow> go_error option" where
  "first_error [] = None"
| "first_error ((bad, e) # rest) = (if bad then Some e else first_error rest)"

lemma first_error_None: "first_error checks = None \<longleftrightarrow> (\<forall>c \<in> set checks. \<not> fst c)"
  by (induction checks rule: first_error.induct) auto

section \<open>Maps\<close>

text \<open>
  A Go map is an association list with distinct keys, so that a loop over it is a recursion; the
  order of the list stands for the order Go visits the keys in, which is not specified, and results
  that do not depend on it are proved to be invariant under permutation. A missing key reads as the
  zero value.
\<close>

definition map_get :: "'v \<Rightarrow> ('k \<times> 'v) list \<Rightarrow> 'k \<Rightarrow> 'v" where
  "map_get zero m k = (case map_of m k of None \<Rightarrow> zero | Some v \<Rightarrow> v)"

definition map_set :: "'k \<Rightarrow> 'v \<Rightarrow> ('k \<times> 'v) list \<Rightarrow> ('k \<times> 'v) list" where
  "map_set k v m = AList.update k v m"

definition map_keys :: "('k \<times> 'v) list \<Rightarrow> 'k list" where
  "map_keys m = map fst m"

lemma map_of_map_set [simp]: "map_of (map_set k v m) = (map_of m)(k \<mapsto> v)"
  by (simp add: map_set_def update_conv')

lemma map_get_map_set: "map_get z (map_set k v m) k' = (if k' = k then v else map_get z m k')"
  by (simp add: map_get_def)

lemma map_get_Nil [simp]: "map_get z [] k = z"
  by (simp add: map_get_def)

lemma distinct_map_set [simp]: "distinct (map fst m) \<Longrightarrow> distinct (map fst (map_set k v m))"
  by (simp add: map_set_def distinct_update)

lemma keys_map_set: "fst ` set (map_set k v m) = insert k (fst ` set m)"
  by (simp add: map_set_def dom_update)

lemma map_get_in:
  "distinct (map fst m) \<Longrightarrow> (k, v) \<in> set m \<Longrightarrow> map_get z m k = v"
  by (simp add: map_get_def)

lemma map_graph:
  assumes "distinct (map fst m)"
  shows "set m = (\<lambda>k. (k, map_get z m k)) ` fst ` set m"
proof -
  have "(\<lambda>k. (k, map_get z m k)) (fst x) = x" if "x \<in> set m" for x
    using map_get_in [OF assms, of "fst x" "snd x" z] that by simp
  then have "(\<lambda>x. (\<lambda>k. (k, map_get z m k)) (fst x)) ` set m = (\<lambda>x. x) ` set m" by (rule image_cong [OF refl])
  then show ?thesis by (simp add: image_image)
qed

text \<open>Two orders of the same map.\<close>

lemma map_perm:
  assumes "distinct (map fst m)" and "mset m = mset m'"
  shows "distinct (map fst m')" and "map_of m = map_of m'"
proof -
  have "mset (map fst m) = mset (map fst m')" using assms(2) by simp
  with assms(1) show d: "distinct (map fst m')" using mset_eq_imp_distinct_iff by blast
  show "map_of m = map_of m'"
    using assms(1) d mset_eq_setD [OF assms(2)] by (simp add: map_of_inject_set)
qed

section \<open>Deduplication\<close>

text \<open>The \<open>seen\<close>-map loop used all over the program: keep the first element for each key.\<close>

fun dedup_by :: "('a \<Rightarrow> 'k) \<Rightarrow> 'k list \<Rightarrow> 'a list \<Rightarrow> 'a list" where
  "dedup_by key seen [] = []"
| "dedup_by key seen (x # xs) =
     (if key x \<in> set seen then dedup_by key seen xs else x # dedup_by key (key x # seen) xs)"

lemma dedup_by_keys: "key ` set (dedup_by key seen xs) = key ` set xs - set seen"
  by (induction xs arbitrary: seen) auto

lemma dedup_by_subset: "set (dedup_by key seen xs) \<subseteq> set xs"
  by (induction xs arbitrary: seen) (auto dest: subsetD)

lemma dedup_by_distinct: "distinct (map key (dedup_by key seen xs))"
proof (induction xs arbitrary: seen)
  case (Cons x xs)
  have "key x \<notin> key ` set (dedup_by key (key x # seen) xs)" by (simp add: dedup_by_keys)
  with Cons.IH show ?case by simp
qed simp

lemma dedup_by_id:
  "distinct (map key xs) \<Longrightarrow> key ` set xs \<inter> set seen = {} \<Longrightarrow> dedup_by key seen xs = xs"
  by (induction xs arbitrary: seen) auto

lemma dedup_by_idem: "dedup_by key [] (dedup_by key [] xs) = dedup_by key [] xs"
  by (rule dedup_by_id) (simp_all add: dedup_by_distinct)

section \<open>Sorting\<close>

lemma sort_distinct: "distinct xs \<Longrightarrow> sort xs = sorted_list_of_set (set xs)"
  by (metis distinct_remdups_id sorted_list_of_set_sort_remdups)

text \<open>
  \<open>sort.Slice\<close> and \<open>sort.SliceStable\<close> as a stable insertion sort over the comparator. \<open>sort.Slice\<close>
  itself promises a sorted permutation only; \<open>slice_order.sort_slice_unique\<close> below says when every
  sorted permutation is this one, which is where the program's results do not depend on it.
\<close>

fun insert_by :: "('a \<Rightarrow> 'a \<Rightarrow> bool) \<Rightarrow> 'a \<Rightarrow> 'a list \<Rightarrow> 'a list" where
  "insert_by lt x [] = [x]"
| "insert_by lt x (y # ys) = (if lt y x then y # insert_by lt x ys else x # y # ys)"

fun sort_slice :: "('a \<Rightarrow> 'a \<Rightarrow> bool) \<Rightarrow> 'a list \<Rightarrow> 'a list" where
  "sort_slice lt [] = []"
| "sort_slice lt (x # xs) = insert_by lt x (sort_slice lt xs)"

lemma mset_insert_by [simp]: "mset (insert_by lt x ys) = add_mset x (mset ys)"
  by (induction ys) auto

lemma mset_sort_slice [simp]: "mset (sort_slice lt xs) = mset xs"
  by (induction xs) auto

lemma set_sort_slice [simp]: "set (sort_slice lt xs) = set xs"
  by (metis mset_sort_slice set_mset_mset)

lemma length_sort_slice [simp]: "length (sort_slice lt xs) = length xs"
  by (metis mset_sort_slice size_mset)

text \<open>The contract of a comparator: a strict weak order.\<close>

locale slice_order =
  fixes lt :: "'a \<Rightarrow> 'a \<Rightarrow> bool"
  assumes lt_irrefl: "\<not> lt x x"
    and lt_trans: "lt x y \<Longrightarrow> lt y z \<Longrightarrow> lt x z"
    and lt_split: "lt x y \<Longrightarrow> lt x z \<or> lt z y"
begin

lemma set_insert_by: "set (insert_by lt x ys) = insert x (set ys)"
  by (induction ys) auto

lemma insert_by_sorted:
  "sorted_wrt (\<lambda>x y. \<not> lt y x) ys \<Longrightarrow> sorted_wrt (\<lambda>x y. \<not> lt y x) (insert_by lt x ys)"
proof (induction ys)
  case (Cons y ys)
  show ?case
  proof (cases "lt y x")
    case True
    then have "\<not> lt x y" using lt_trans lt_irrefl by blast
    with Cons True show ?thesis by (auto simp: set_insert_by)
  next
    case False
    have "\<not> lt z x" if z: "z \<in> set ys" for z
    proof
      assume "lt z x"
      then have "lt z y \<or> lt y x" by (rule lt_split)
      with False Cons.prems z show False by simp
    qed
    with Cons.prems False show ?thesis by simp
  qed
qed simp

lemma sort_slice_sorted: "sorted_wrt (\<lambda>x y. \<not> lt y x) (sort_slice lt xs)"
  by (induction xs) (auto intro: insert_by_sorted)

text \<open>Where the elements are pairwise comparable, any two sorted permutations are equal.\<close>

lemma sorted_unique:
  assumes "sorted_wrt (\<lambda>x y. \<not> lt y x) xs" and "sorted_wrt (\<lambda>x y. \<not> lt y x) ys"
    and "mset xs = mset ys"
    and "\<And>x y. x \<in> set xs \<Longrightarrow> y \<in> set xs \<Longrightarrow> \<not> lt x y \<Longrightarrow> \<not> lt y x \<Longrightarrow> x = y"
  shows "xs = ys"
  using assms
proof (induction xs arbitrary: ys)
  case (Cons x xs)
  then obtain y ys' where ys: "ys = y # ys'" by (cases ys) auto
  have sets: "set (x # xs) = set ys" using Cons.prems(3) by (metis set_mset_mset)
  have "y \<in> insert x (set xs)" and "x \<in> insert y (set ys')" using sets ys by auto
  then have "\<not> lt y x" and "\<not> lt x y" using Cons.prems(1,2) ys lt_irrefl by auto
  moreover have "y \<in> set (x # xs)" using sets ys by simp
  ultimately have xy: "x = y" using Cons.prems(4) [of x y] by simp
  have "xs = ys'"
  proof (rule Cons.IH)
    show "sorted_wrt (\<lambda>x y. \<not> lt y x) xs" using Cons.prems(1) by simp
    show "sorted_wrt (\<lambda>x y. \<not> lt y x) ys'" using Cons.prems(2) ys by simp
    show "mset xs = mset ys'" using Cons.prems(3) ys xy by simp
    show "u = v" if "u \<in> set xs" "v \<in> set xs" "\<not> lt u v" "\<not> lt v u" for u v
      using Cons.prems(4) [of u v] that by simp
  qed
  with ys xy show ?case by simp
qed simp

lemma sort_slice_unique:
  assumes "mset xs = mset ys" and "sorted_wrt (\<lambda>x y. \<not> lt y x) ys"
    and "\<And>x y. x \<in> set xs \<Longrightarrow> y \<in> set xs \<Longrightarrow> \<not> lt x y \<Longrightarrow> \<not> lt y x \<Longrightarrow> x = y"
  shows "sort_slice lt xs = ys"
  using assms by (intro sorted_unique sort_slice_sorted) auto

lemma sort_slice_perm:
  assumes "mset xs = mset ys"
    and "\<And>x y. x \<in> set xs \<Longrightarrow> y \<in> set xs \<Longrightarrow> \<not> lt x y \<Longrightarrow> \<not> lt y x \<Longrightarrow> x = y"
  shows "sort_slice lt xs = sort_slice lt ys"
  using assms by (intro sort_slice_unique sort_slice_sorted) auto

end

text \<open>\<open>sort.Strings\<close>: the library's \<open>sort\<close>; equal strings cannot be told apart.\<close>

interpretation string_order: slice_order "(<) :: string \<Rightarrow> string \<Rightarrow> bool"
  by unfold_locales auto

text \<open>A loop whose steps commute on the states it can reach does not depend on the order of the
  elements.\<close>

locale commuting_loop =
  fixes step :: "'s \<Rightarrow> 'e \<Rightarrow> 's" and inv :: "'s \<Rightarrow> bool"
  assumes step_inv: "inv s \<Longrightarrow> inv (step s a)"
    and step_swap: "inv s \<Longrightarrow> step (step s a) b = step (step s b) a"
begin

lemma loop_inv: "inv s \<Longrightarrow> inv (foldl step s xs)"
  by (induction xs arbitrary: s) (simp_all add: step_inv)

lemma loop_move: "inv s \<Longrightarrow> foldl step s (xs @ a # ys) = foldl step s (a # xs @ ys)"
  by (induction xs arbitrary: s) (simp_all add: step_inv step_swap)

lemma loop_perm: "inv s \<Longrightarrow> mset xs = mset ys \<Longrightarrow> foldl step s xs = foldl step s ys"
proof (induction xs arbitrary: s ys)
  case (Cons x xs)
  then have "x \<in> set ys" by (metis list.set_intros(1) set_mset_mset)
  then obtain p q where ys: "ys = p @ x # q" by (auto simp: in_set_conv_decomp)
  with Cons.prems have "mset xs = mset (p @ q)" by simp
  then have "foldl step (step s x) xs = foldl step (step s x) (p @ q)"
    using Cons.prems(1) step_inv by (intro Cons.IH)
  then show ?case using Cons.prems(1) loop_move [of s p x q] ys by simp
qed simp

end

end
