(* ===== verification/Helius.thy ===== *)
theory Helius
imports Go_Prelude
begin

text \<open>
  The provider side: the enhanced-transaction data of \<open>internal/helius/types.go\<close> and the
  retry classification of \<open>internal/helius/client.go\<close>. The provider is a
  parameter (\<open>Http_Clients\<close> has the client): an \<open>env\<close> is a page-fetching operation and a context-aware sleep over a world state that
  holds everything the program cannot see (the network, the clock, cancellation).
\<close>

section \<open>Enhanced transactions\<close>

record NativeTransfer =
  nat_FromUserAccount :: string
  nat_ToUserAccount :: string
  nat_Amount :: string

record TokenAmount =
  ta_Amount :: string
  ta_Decimals :: "int option"

record TokenTransfer =
  tok_FromUserAccount :: string
  tok_ToUserAccount :: string
  tok_FromTokenAccount :: string
  tok_ToTokenAccount :: string
  tok_Mint :: string
  tok_TokenAmount :: TokenAmount
  tok_TokenStandard :: string
  tok_InstructionIndex :: "int option"
  tok_InnerIndex :: "int option"

text \<open>\<open>TransactionError\<close> is decoded JSON of any shape, of which the program asks only whether it is
  null; it is kept as its JSON text, \<open>None\<close> for null.\<close>

record EnhancedTransaction =
  tx_Signature :: string
  tx_Slot :: int
  tx_TimestampUnix :: int
  tx_TransactionError :: "string option"
  tx_NativeTransfers :: "NativeTransfer list"
  tx_TokenTransfers :: "TokenTransfer list"

record EnhancedPage =
  page_Transactions :: "EnhancedTransaction list"
  page_Before :: string

definition BlockTimeUTC :: "EnhancedTransaction \<Rightarrow> gotime" where
  "BlockTimeUTC t = time_unix (tx_TimestampUnix t)"

definition IsSuccess :: "EnhancedTransaction \<Rightarrow> bool" where
  "IsSuccess t \<longleftrightarrow> tx_TransactionError t = None"

section \<open>Retry classification\<close>

text \<open>\<open>strings.ToLower\<close> as far as a comparison with ASCII text can see: the ASCII letters, and the two
  characters beyond ASCII whose lower case is ASCII (U+0130 to \<open>i\<close>, U+212A to \<open>k\<close>); every other
  byte stands for itself.\<close>

fun to_lower :: "string \<Rightarrow> string" where
  "to_lower [] = []"
| "to_lower (a # s) =
     (if CHR ''A'' \<le> a \<and> a \<le> CHR ''Z'' then char_of (of_char a + 32 :: nat) # to_lower s
      else if a = CHR 0xC4 \<and> take 1 s = [CHR 0xB0] then CHR ''i'' # to_lower (drop 1 s)
      else if a = CHR 0xE2 \<and> take 2 s = [CHR 0x84, CHR 0xAA] then CHR ''k'' # to_lower (drop 2 s)
      else a # to_lower s)"

definition IsRetryable :: "go_error \<Rightarrow> bool" where
  "IsRetryable err =
     (if is_canceled err \<or> is_deadline err then False
      else case root_cause err of
        StatusErr code _ \<Rightarrow> code = 429 \<or> code \<ge> 500
      | NetErr _ \<Rightarrow> True
      | _ \<Rightarrow> (let msg = to_lower (err_msg err) in
          contains msg ''connection reset'' \<or> contains msg ''broken pipe'' \<or>
          contains msg ''eof'' \<or> contains msg ''timeout''))"

lemma retryable_not_context: "IsRetryable err \<Longrightarrow> \<not> is_canceled err \<and> \<not> is_deadline err"
  by (simp add: IsRetryable_def split: if_splits)

lemma retryable_status: "root_cause err = StatusErr code m \<Longrightarrow> IsRetryable err \<longleftrightarrow> code = 429 \<or> code \<ge> 500"
  by (simp add: IsRetryable_def is_canceled_def is_deadline_def)

lemma retryable_wrapped_status [simp]: "IsRetryable (Wrapped p (StatusErr code m) s) \<longleftrightarrow> code = 429 \<or> code \<ge> 500"
  by (simp add: retryable_status)

section \<open>The provider and the clock\<close>

record 'w env =
  env_FetchEnhancedPage :: "'w \<Rightarrow> string \<Rightarrow> string \<Rightarrow> (go_error + EnhancedPage) \<times> 'w"
  env_sleepContext :: "'w \<Rightarrow> duration \<Rightarrow> go_error option \<times> 'w"

text \<open>The same provider with a counter of the pages asked for: what the bounds are stated over.\<close>

definition counting :: "'w env \<Rightarrow> ('w \<times> nat) env" where
  "counting E =
     \<lparr> env_FetchEnhancedPage = (\<lambda>(w, n) wallet before.
          (case env_FetchEnhancedPage E w wallet before of (r, w') \<Rightarrow> (r, (w', Suc n)))),
       env_sleepContext = (\<lambda>(w, n) d.
          (case env_sleepContext E w d of (r, w') \<Rightarrow> (r, (w', n)))) \<rparr>"

lemma counting_fetch [simp]:
  "env_FetchEnhancedPage (counting E) (w, n) wallet before =
     (fst (env_FetchEnhancedPage E w wallet before), (snd (env_FetchEnhancedPage E w wallet before), Suc n))"
  by (simp add: counting_def split: prod.splits)

lemma counting_sleep [simp]:
  "env_sleepContext (counting E) (w, n) d =
     (fst (env_sleepContext E w d), (snd (env_sleepContext E w d), n))"
  by (simp add: counting_def split: prod.splits)

end
