(* ===== verification/Transactions.thy ===== *)
theory Transactions
imports Helius
begin

text \<open>
  \<open>internal/transactions\<close>: the transfer fingerprint and the normalizer that expands an enhanced
  transaction into owner-level transfer events. SHA-256 enters as the parameter \<open>sha\<close> (the lower-case
  hexadecimal digest of a string), so every fact holds for any hash; where two fingerprints have to
  differ the fact is stated about what is hashed.
\<close>

section \<open>Types\<close>

datatype NormalizationStatus =
    NormalizationResolved
  | NormalizationUnresolvedOwner
  | NormalizationUnsupportedAsset
  | NormalizationFailed

datatype DustStatus = DustTrue | DustFalse | DustUnknown

datatype AssetType = AssetTypeNativeSOL | AssetTypeSPLFungible | AssetTypeOther

primrec asset_type_str :: "AssetType \<Rightarrow> string" where
  "asset_type_str AssetTypeNativeSOL = ''native_sol''"
| "asset_type_str AssetTypeSPLFungible = ''spl_fungible''"
| "asset_type_str AssetTypeOther = ''other''"

record NormalizedTransfer =
  tr_Signature :: string
  tr_TransferIndex :: int
  tr_TransferFingerprint :: string
  tr_Slot :: int
  tr_BlockTime :: gotime
  tr_SourceOwnerAddress :: string
  tr_DestinationOwnerAddress :: string
  tr_SourceTokenAccount :: string
  tr_DestinationTokenAccount :: string
  tr_AmountRaw :: string
  tr_TokenMint :: string
  tr_AssetType :: AssetType
  tr_AssetKey :: string
  tr_Decimals :: "int option"
  tr_NormalizationStatus :: NormalizationStatus
  tr_NormalizationReasonCode :: string
  tr_PoisoningEligible :: bool
  tr_DustStatus :: DustStatus
  tr_IsSuccess :: bool

section \<open>Fingerprint\<close>

definition fingerprint_seed ::
  "string \<Rightarrow> string \<Rightarrow> string \<Rightarrow> string \<Rightarrow> string \<Rightarrow> string \<Rightarrow> AssetType \<Rightarrow> string" where
  "fingerprint_seed signature instructionRef srcOwner dstOwner mint amountRaw assetType =
     join ''|'' [signature, instructionRef, srcOwner, dstOwner, mint, amountRaw, asset_type_str assetType]"

definition BuildTransferFingerprint ::
  "(string \<Rightarrow> string) \<Rightarrow> string \<Rightarrow> string \<Rightarrow> string \<Rightarrow> string \<Rightarrow> string \<Rightarrow> string \<Rightarrow> AssetType \<Rightarrow> string" where
  "BuildTransferFingerprint sha signature instructionRef srcOwner dstOwner mint amountRaw assetType =
     ''sha256:'' @ sha (fingerprint_seed signature instructionRef srcOwner dstOwner mint amountRaw assetType)"

section \<open>Normalization\<close>

definition sanitizeRawAmount :: "string \<Rightarrow> string \<times> bool" where
  "sanitizeRawAmount v =
     (let value = trim_space v in
      if value = '''' then (''0'', False)
      else if list_all is_digit (runes value) then (value, True)
      else (''0'', False))"

text \<open>The status, reason code and eligibility of a native transfer.\<close>

definition native_status :: "string \<Rightarrow> string \<Rightarrow> NormalizationStatus \<times> string \<times> bool" where
  "native_status src dst =
     (if src = '''' \<or> dst = '''' then (NormalizationFailed, ''missing_native_owner_endpoint'', False)
      else if src = dst then (NormalizationResolved, ''self_transfer_owner_level'', False)
      else (NormalizationResolved, '''', True))"

definition native_event ::
  "(string \<Rightarrow> string) \<Rightarrow> EnhancedTransaction \<Rightarrow> nat \<Rightarrow> NativeTransfer \<Rightarrow> NormalizedTransfer" where
  "native_event sha tx idx nt =
     (let src = trim_space (nat_FromUserAccount nt); dst = trim_space (nat_ToUserAccount nt);
          (status, reason, eligible) = native_status src dst
      in \<lparr> tr_Signature = tx_Signature tx,
           tr_TransferIndex = int idx,
           tr_TransferFingerprint =
             BuildTransferFingerprint sha (tx_Signature tx) (''native:'' @ show_nat idx) src dst ''''
               (nat_Amount nt) AssetTypeNativeSOL,
           tr_Slot = tx_Slot tx,
           tr_BlockTime = BlockTimeUTC tx,
           tr_SourceOwnerAddress = src,
           tr_DestinationOwnerAddress = dst,
           tr_SourceTokenAccount = '''',
           tr_DestinationTokenAccount = '''',
           tr_AmountRaw = nat_Amount nt,
           tr_TokenMint = '''',
           tr_AssetType = AssetTypeNativeSOL,
           tr_AssetKey = ''SOL'',
           tr_Decimals = None,
           tr_NormalizationStatus = status,
           tr_NormalizationReasonCode = reason,
           tr_PoisoningEligible = eligible,
           tr_DustStatus = DustUnknown,
           tr_IsSuccess = IsSuccess tx \<rparr>)"

definition is_fungible :: "string \<Rightarrow> bool" where
  "is_fungible std \<longleftrightarrow> std = ''Fungible'' \<or> std = ''fungible'' \<or> std = ''FUNGIBLE''"

text \<open>The checks of a token transfer in the code's order; a later one overwrites an earlier one.\<close>

definition token_status ::
  "string \<Rightarrow> string \<Rightarrow> bool \<Rightarrow> TokenTransfer \<Rightarrow> NormalizationStatus \<times> string \<times> bool \<times> AssetType" where
  "token_status src dst amountOK tt =
     (if \<not> is_fungible (tok_TokenStandard tt)
      then (NormalizationUnsupportedAsset, ''unsupported_token_standard'', False, AssetTypeOther)
      else
        let s0 = (NormalizationResolved, '''', True);
            s1 = (if \<not> amountOK then (NormalizationFailed, ''malformed_spl_amount'', False) else s0);
            s2 = (if src = '''' \<or> dst = ''''
                  then (NormalizationUnresolvedOwner, ''missing_spl_owner_endpoint'', False) else s1);
            s3 = (if src \<noteq> '''' \<and> src = tok_FromTokenAccount tt
                  then (NormalizationUnresolvedOwner, ''owner_equals_token_account_source'', False) else s2);
            s4 = (if dst \<noteq> '''' \<and> dst = tok_ToTokenAccount tt
                  then (NormalizationUnresolvedOwner, ''owner_equals_token_account_destination'', False) else s3);
            s5 = (if src \<noteq> '''' \<and> dst \<noteq> '''' \<and> src = dst \<and> fst s4 = NormalizationResolved
                  then (fst s4, ''self_transfer_owner_level'', False) else s4)
        in (fst s5, fst (snd s5), snd (snd s5), AssetTypeSPLFungible))"

definition instruction_ref :: "nat \<Rightarrow> TokenTransfer \<Rightarrow> string" where
  "instruction_ref idx tt =
     (case tok_InstructionIndex tt of
        Some i \<Rightarrow>
          (case tok_InnerIndex tt of
             Some j \<Rightarrow> ''spl:'' @ show_int i @ '':'' @ show_int j
           | None \<Rightarrow> ''spl:'' @ show_int i)
      | None \<Rightarrow> ''spl_fallback:'' @ show_nat idx)"

definition token_event ::
  "(string \<Rightarrow> string) \<Rightarrow> EnhancedTransaction \<Rightarrow> nat \<Rightarrow> TokenTransfer \<Rightarrow> NormalizedTransfer" where
  "token_event sha tx idx tt =
     (let src = trim_space (tok_FromUserAccount tt); dst = trim_space (tok_ToUserAccount tt);
          (amountRaw, amountOK) = sanitizeRawAmount (ta_Amount (tok_TokenAmount tt));
          (status, reason, eligible, assetType) = token_status src dst amountOK tt
      in \<lparr> tr_Signature = tx_Signature tx,
           tr_TransferIndex = int idx,
           tr_TransferFingerprint =
             BuildTransferFingerprint sha (tx_Signature tx) (instruction_ref idx tt) src dst (tok_Mint tt)
               amountRaw assetType,
           tr_Slot = tx_Slot tx,
           tr_BlockTime = BlockTimeUTC tx,
           tr_SourceOwnerAddress = src,
           tr_DestinationOwnerAddress = dst,
           tr_SourceTokenAccount = tok_FromTokenAccount tt,
           tr_DestinationTokenAccount = tok_ToTokenAccount tt,
           tr_AmountRaw = amountRaw,
           tr_TokenMint = tok_Mint tt,
           tr_AssetType = assetType,
           tr_AssetKey = tok_Mint tt,
           tr_Decimals = ta_Decimals (tok_TokenAmount tt),
           tr_NormalizationStatus = status,
           tr_NormalizationReasonCode = reason,
           tr_PoisoningEligible = eligible,
           tr_DustStatus = DustUnknown,
           tr_IsSuccess = IsSuccess tx \<rparr>)"

text \<open>A loop with the running index \<open>idx\<close>.\<close>

fun events_from :: "(nat \<Rightarrow> 'a \<Rightarrow> 'b) \<Rightarrow> nat \<Rightarrow> 'a list \<Rightarrow> 'b list" where
  "events_from f idx [] = []"
| "events_from f idx (x # xs) = f idx x # events_from f (Suc idx) xs"

definition NormalizeEnhancedTx ::
  "(string \<Rightarrow> string) \<Rightarrow> EnhancedTransaction \<Rightarrow> go_error + NormalizedTransfer list" where
  "NormalizeEnhancedTx sha tx =
     (if tx_Signature tx = '''' then Inl (Err ''normalize tx: missing signature'')
      else Inr (events_from (native_event sha tx) 0 (tx_NativeTransfers tx)
              @ events_from (token_event sha tx) (length (tx_NativeTransfers tx)) (tx_TokenTransfers tx)))"

section \<open>Lemmas\<close>

lemma length_events_from [simp]: "length (events_from f i xs) = length xs"
  by (induction xs arbitrary: i) auto

lemma set_events_from: "y \<in> set (events_from f i xs) \<longleftrightarrow> (\<exists>k < length xs. y = f (i + k) (xs ! k))"
proof (induction xs arbitrary: i)
  case (Cons x xs)
  show ?case
  proof
    assume "y \<in> set (events_from f i (x # xs))"
    then consider "y = f i x" | "y \<in> set (events_from f (Suc i) xs)" by auto
    then show "\<exists>k<length (x # xs). y = f (i + k) ((x # xs) ! k)"
    proof cases
      case 1
      then show ?thesis by (intro exI [of _ 0]) simp
    next
      case 2
      then obtain k where "k < length xs" "y = f (Suc i + k) (xs ! k)" using Cons.IH by blast
      then show ?thesis by (intro exI [of _ "Suc k"]) simp
    qed
  next
    assume "\<exists>k<length (x # xs). y = f (i + k) ((x # xs) ! k)"
    then obtain k where k: "k < Suc (length xs)" "y = f (i + k) ((x # xs) ! k)" by auto
    show "y \<in> set (events_from f i (x # xs))"
    proof (cases k)
      case (Suc k')
      with k have "k' < length xs" "y = f (Suc i + k') (xs ! k')" by simp_all
      then show ?thesis using Cons.IH [of "Suc i"] by auto
    qed (use k in simp)
  qed
qed simp

lemma map_events_from:
  "(\<And>k x. g (f k x) = h k) \<Longrightarrow> map g (events_from f i xs) = map h [i ..< i + length xs]"
proof (induction xs arbitrary: i)
  case (Cons x xs)
  then show ?case using upt_conv_Cons [of i "i + length (x # xs)"] by simp
qed simp

lemma native_status_eligible:
  "snd (snd (native_status src dst)) \<longleftrightarrow> src \<noteq> '''' \<and> dst \<noteq> '''' \<and> src \<noteq> dst"
  by (simp add: native_status_def)

lemma token_status_eligible:
  "fst (snd (snd (token_status src dst ok tt))) \<longleftrightarrow>
     is_fungible (tok_TokenStandard tt) \<and> ok \<and> src \<noteq> '''' \<and> dst \<noteq> '''' \<and> src \<noteq> dst \<and>
     src \<noteq> tok_FromTokenAccount tt \<and> dst \<noteq> tok_ToTokenAccount tt"
  by (auto simp: token_status_def Let_def)

lemma eligible_status:
  "snd (snd (native_status src dst)) \<Longrightarrow> fst (native_status src dst) = NormalizationResolved"
  "fst (snd (snd (token_status src dst ok tt))) \<Longrightarrow> fst (token_status src dst ok tt) = NormalizationResolved"
  "fst (snd (snd (token_status src dst ok tt))) \<Longrightarrow> snd (snd (snd (token_status src dst ok tt))) = AssetTypeSPLFungible"
  by (auto simp: native_status_def token_status_def Let_def split: if_splits)

lemmas event_defs = native_event_def token_event_def

lemma native_event_simps [simp]:
  "tr_Signature (native_event sha tx i nt) = tx_Signature tx"
  "tr_TransferIndex (native_event sha tx i nt) = int i"
  "tr_BlockTime (native_event sha tx i nt) = BlockTimeUTC tx"
  "tr_SourceOwnerAddress (native_event sha tx i nt) = trim_space (nat_FromUserAccount nt)"
  "tr_DestinationOwnerAddress (native_event sha tx i nt) = trim_space (nat_ToUserAccount nt)"
  "tr_AssetType (native_event sha tx i nt) = AssetTypeNativeSOL"
  "tr_DustStatus (native_event sha tx i nt) = DustUnknown"
  "tr_IsSuccess (native_event sha tx i nt) = IsSuccess tx"
  by (simp_all add: native_event_def Let_def split: prod.splits)

lemma token_event_simps [simp]:
  "tr_Signature (token_event sha tx i tt) = tx_Signature tx"
  "tr_TransferIndex (token_event sha tx i tt) = int i"
  "tr_BlockTime (token_event sha tx i tt) = BlockTimeUTC tx"
  "tr_SourceOwnerAddress (token_event sha tx i tt) = trim_space (tok_FromUserAccount tt)"
  "tr_DestinationOwnerAddress (token_event sha tx i tt) = trim_space (tok_ToUserAccount tt)"
  "tr_SourceTokenAccount (token_event sha tx i tt) = tok_FromTokenAccount tt"
  "tr_DestinationTokenAccount (token_event sha tx i tt) = tok_ToTokenAccount tt"
  "tr_DustStatus (token_event sha tx i tt) = DustUnknown"
  "tr_IsSuccess (token_event sha tx i tt) = IsSuccess tx"
  by (simp_all add: token_event_def Let_def split: prod.splits)

text \<open>What the rest of the program relies on in a normalized transfer.\<close>

definition owner_level :: "NormalizedTransfer \<Rightarrow> bool" where
  "owner_level tr \<longleftrightarrow>
     tr_NormalizationStatus tr = NormalizationResolved \<and>
     tr_AssetType tr \<in> {AssetTypeNativeSOL, AssetTypeSPLFungible} \<and>
     tr_SourceOwnerAddress tr \<noteq> '''' \<and> tr_DestinationOwnerAddress tr \<noteq> '''' \<and>
     tr_SourceOwnerAddress tr \<noteq> tr_DestinationOwnerAddress tr \<and>
     (tr_AssetType tr = AssetTypeSPLFungible \<longrightarrow>
        tr_SourceOwnerAddress tr \<noteq> tr_SourceTokenAccount tr \<and>
        tr_DestinationOwnerAddress tr \<noteq> tr_DestinationTokenAccount tr)"

lemma native_event_eligible:
  "tr_PoisoningEligible (native_event sha tx i nt) \<Longrightarrow> owner_level (native_event sha tx i nt)"
  using native_status_eligible [of "trim_space (nat_FromUserAccount nt)" "trim_space (nat_ToUserAccount nt)"]
    eligible_status(1) [of "trim_space (nat_FromUserAccount nt)" "trim_space (nat_ToUserAccount nt)"]
  by (simp add: owner_level_def native_event_def Let_def split: prod.splits)

lemma token_event_eligible:
  assumes "tr_PoisoningEligible (token_event sha tx i tt)"
  shows "owner_level (token_event sha tx i tt)"
proof -
  define ok where "ok = snd (sanitizeRawAmount (ta_Amount (tok_TokenAmount tt)))"
  define st where "st = token_status (trim_space (tok_FromUserAccount tt)) (trim_space (tok_ToUserAccount tt)) ok tt"
  have fields: "tr_PoisoningEligible (token_event sha tx i tt) = fst (snd (snd st))"
    "tr_NormalizationStatus (token_event sha tx i tt) = fst st"
    "tr_AssetType (token_event sha tx i tt) = snd (snd (snd st))"
    by (simp_all add: token_event_def st_def ok_def Let_def split: prod.splits)
  with assms have "fst (snd (snd st))" by simp
  then have "fst st = NormalizationResolved" "snd (snd (snd st)) = AssetTypeSPLFungible"
    unfolding st_def by (rule eligible_status)+
  moreover from \<open>fst (snd (snd st))\<close> token_status_eligible
  have "trim_space (tok_FromUserAccount tt) \<noteq> [] \<and> trim_space (tok_ToUserAccount tt) \<noteq> [] \<and>
      trim_space (tok_FromUserAccount tt) \<noteq> trim_space (tok_ToUserAccount tt) \<and>
      trim_space (tok_FromUserAccount tt) \<noteq> tok_FromTokenAccount tt \<and>
      trim_space (tok_ToUserAccount tt) \<noteq> tok_ToTokenAccount tt"
    unfolding st_def by blast
  ultimately show ?thesis by (simp add: owner_level_def fields)
qed

lemma NormalizeEnhancedTx_cases:
  assumes "NormalizeEnhancedTx sha tx = Inr trs" and "tr \<in> set trs"
  obtains k where "k < length (tx_NativeTransfers tx)" and "tr = native_event sha tx k (tx_NativeTransfers tx ! k)"
  | k where "k < length (tx_TokenTransfers tx)"
      and "tr = token_event sha tx (length (tx_NativeTransfers tx) + k) (tx_TokenTransfers tx ! k)"
  using assms by (auto simp: NormalizeEnhancedTx_def set_events_from split: if_splits)

lemma normalize_signature:
  "NormalizeEnhancedTx sha tx = Inr trs \<Longrightarrow> tr \<in> set trs \<Longrightarrow>
     tr_Signature tr = tx_Signature tx \<and> tr_BlockTime tr = BlockTimeUTC tx \<and> tr_IsSuccess tr = IsSuccess tx"
  by (erule NormalizeEnhancedTx_cases) auto

lemma normalize_trimmed:
  "NormalizeEnhancedTx sha tx = Inr trs \<Longrightarrow> tr \<in> set trs \<Longrightarrow>
     trim_space (tr_SourceOwnerAddress tr) = tr_SourceOwnerAddress tr \<and>
     trim_space (tr_DestinationOwnerAddress tr) = tr_DestinationOwnerAddress tr"
  by (erule NormalizeEnhancedTx_cases) auto

section \<open>Fingerprints within a transaction\<close>

lemma show_int_inj [simp]: "show_int i = show_int j \<longleftrightarrow> i = j"
  by (metis option.inject parse_big_show_int)

lemma show_int_not_in: "\<not> is_ascii_digit c \<Longrightarrow> c \<noteq> CHR ''-'' \<Longrightarrow> c \<notin> set (show_int i)"
  by (simp add: show_int_def show_nat_not_in)

lemma not_digit [simp]: "\<not> is_ascii_digit CHR ''|''" "\<not> is_ascii_digit CHR '':''"
  by (simp_all add: is_ascii_digit_def less_eq_char_def)

lemma append_sep_inj: "c \<notin> set x \<Longrightarrow> c \<notin> set y \<Longrightarrow> x @ c # r = y @ c # s \<longleftrightarrow> x = y \<and> r = s"
  by (auto simp: append_eq_append_conv2 append_eq_Cons_conv Cons_eq_append_conv)

lemma seed_unfold:
  "fingerprint_seed sig ref src dst mint amt aty =
     sig @ CHR ''|'' # ref @ CHR ''|'' # src @ CHR ''|'' # dst @ CHR ''|'' # mint @ CHR ''|'' # amt @ CHR ''|'' # asset_type_str aty"
  by (simp add: fingerprint_seed_def)

lemma seed_ref_inj:
  assumes "fingerprint_seed sig r1 a1 b1 c1 d1 e1 = fingerprint_seed sig r2 a2 b2 c2 d2 e2"
    and "CHR ''|'' \<notin> set r1" and "CHR ''|'' \<notin> set r2"
  shows "r1 = r2"
  using assms by (simp add: seed_unfold append_sep_inj)

text \<open>The instruction reference and the hashed text of the \<open>k\<close>-th event of a transaction.\<close>

definition event_ref :: "EnhancedTransaction \<Rightarrow> nat \<Rightarrow> string" where
  "event_ref tx k =
     (if k < length (tx_NativeTransfers tx) then ''native:'' @ show_nat k
      else instruction_ref k (tx_TokenTransfers tx ! (k - length (tx_NativeTransfers tx))))"

definition event_seed :: "EnhancedTransaction \<Rightarrow> nat \<Rightarrow> string" where
  "event_seed tx k =
     (if k < length (tx_NativeTransfers tx)
      then let nt = tx_NativeTransfers tx ! k in
        fingerprint_seed (tx_Signature tx) (event_ref tx k) (trim_space (nat_FromUserAccount nt))
          (trim_space (nat_ToUserAccount nt)) [] (nat_Amount nt) AssetTypeNativeSOL
      else let tt = tx_TokenTransfers tx ! (k - length (tx_NativeTransfers tx)) in
        fingerprint_seed (tx_Signature tx) (event_ref tx k) (trim_space (tok_FromUserAccount tt))
          (trim_space (tok_ToUserAccount tt)) (tok_Mint tt)
          (fst (sanitizeRawAmount (ta_Amount (tok_TokenAmount tt))))
          (if is_fungible (tok_TokenStandard tt) then AssetTypeSPLFungible else AssetTypeOther))"

lemma token_status_asset:
  "snd (snd (snd (token_status src dst ok tt))) =
     (if is_fungible (tok_TokenStandard tt) then AssetTypeSPLFungible else AssetTypeOther)"
  by (simp add: token_status_def Let_def)

lemma native_event_fingerprint:
  "k < length (tx_NativeTransfers tx) \<Longrightarrow>
   tr_TransferFingerprint (native_event sha tx k (tx_NativeTransfers tx ! k)) = ''sha256:'' @ sha (event_seed tx k)"
  by (simp add: native_event_def event_seed_def event_ref_def BuildTransferFingerprint_def Let_def split: prod.splits)

lemma token_event_fingerprint:
  "tr_TransferFingerprint (token_event sha tx (length (tx_NativeTransfers tx) + k) (tx_TokenTransfers tx ! k))
     = ''sha256:'' @ sha (event_seed tx (length (tx_NativeTransfers tx) + k))"
proof -
  let ?tt = "tx_TokenTransfers tx ! k"
  obtain amt ok where a: "sanitizeRawAmount (ta_Amount (tok_TokenAmount ?tt)) = (amt, ok)" by fastforce
  obtain st r e aty where
    b: "token_status (trim_space (tok_FromUserAccount ?tt)) (trim_space (tok_ToUserAccount ?tt)) ok ?tt = (st, r, e, aty)"
    by (metis prod_cases4)
  then have "aty = (if is_fungible (tok_TokenStandard ?tt) then AssetTypeSPLFungible else AssetTypeOther)"
    by (metis token_status_asset snd_conv)
  then show ?thesis
    by (simp add: token_event_def event_seed_def event_ref_def BuildTransferFingerprint_def Let_def a b)
qed

lemma nth_events_from: "k < length xs \<Longrightarrow> events_from f i xs ! k = f (i + k) (xs ! k)"
proof (induction xs arbitrary: i k)
  case (Cons x xs)
  then show ?case by (cases k) simp_all
qed simp

lemma nth_fingerprint:
  assumes "NormalizeEnhancedTx sha tx = Inr trs" and "k < length trs"
  shows "tr_TransferFingerprint (trs ! k) = ''sha256:'' @ sha (event_seed tx k)"
proof (cases "k < length (tx_NativeTransfers tx)")
  case True
  with assms show ?thesis
    by (auto simp: NormalizeEnhancedTx_def nth_append nth_events_from native_event_fingerprint split: if_splits)
next
  case False
  then have "length (tx_NativeTransfers tx) + (k - length (tx_NativeTransfers tx)) = k" by simp
  with False assms show ?thesis
    using token_event_fingerprint [of sha tx "k - length (tx_NativeTransfers tx)"]
    by (auto simp: NormalizeEnhancedTx_def nth_append nth_events_from split: if_splits)
qed

lemma event_ref_no_bar: "CHR ''|'' \<notin> set (event_ref tx k)"
  by (auto simp: event_ref_def instruction_ref_def show_nat_not_in show_int_not_in split: option.splits)

lemma instruction_ref_eq:
  assumes "instruction_ref i s = instruction_ref j t"
  shows "i = j \<or> (tok_InstructionIndex s \<noteq> None \<and> tok_InstructionIndex s = tok_InstructionIndex t \<and>
                    tok_InnerIndex s = tok_InnerIndex t)"
proof -
  have no_colon: "CHR '':'' \<notin> set (show_int x)" for x by (simp add: show_int_not_in)
  have colon: "show_int x @ CHR '':'' # r \<noteq> show_int y" for x y r
  proof
    assume "show_int x @ CHR '':'' # r = show_int y"
    then have "CHR '':'' \<in> set (show_int y)" by (metis in_set_conv_decomp)
    then show False by (simp add: no_colon)
  qed
  with assms show ?thesis
    by (auto simp: instruction_ref_def append_sep_inj no_colon colon [symmetric] split: option.splits)
qed

lemma event_seed_eq:
  assumes "event_seed tx i = event_seed tx j" and "i \<noteq> j"
  shows "length (tx_NativeTransfers tx) \<le> i \<and> length (tx_NativeTransfers tx) \<le> j \<and>
    (let s = tx_TokenTransfers tx ! (i - length (tx_NativeTransfers tx));
         t = tx_TokenTransfers tx ! (j - length (tx_NativeTransfers tx))
     in tok_InstructionIndex s \<noteq> None \<and> tok_InstructionIndex s = tok_InstructionIndex t \<and>
        tok_InnerIndex s = tok_InnerIndex t)"
proof -
  have "event_ref tx i = event_ref tx j"
    using assms(1) event_ref_no_bar [of tx]
    by (auto simp: event_seed_def Let_def split: if_splits elim!: seed_ref_inj)
  moreover have native: "instruction_ref k t \<noteq> ''native:'' @ show_nat l" for k t l
    by (auto simp: instruction_ref_def split: option.splits)
  moreover have native': "''native:'' @ show_nat l \<noteq> instruction_ref k t" for k t l
    using native by (rule not_sym)
  ultimately have "length (tx_NativeTransfers tx) \<le> i \<and> length (tx_NativeTransfers tx) \<le> j"
    using assms(2)
    by (cases "i < length (tx_NativeTransfers tx)"; cases "j < length (tx_NativeTransfers tx)")
      (simp_all add: event_ref_def)
  with \<open>event_ref tx i = event_ref tx j\<close> show ?thesis
    using assms(2) instruction_ref_eq
      [of i "tx_TokenTransfers tx ! (i - length (tx_NativeTransfers tx))" j
         "tx_TokenTransfers tx ! (j - length (tx_NativeTransfers tx))"]
    by (auto simp: event_ref_def Let_def)
qed

section \<open>Properties\<close>

text \<open>C20. Fail-closed normalization: a transfer that \<open>NormalizeEnhancedTx\<close> marks eligible for
  poisoning detection is resolved, of a supported asset type, has two non-empty owner endpoints that
  differ, and for an SPL transfer neither owner is the token account named on its side.\<close>

theorem eligible_owner_level:
  assumes "NormalizeEnhancedTx sha tx = Inr trs" and "tr \<in> set trs" and "tr_PoisoningEligible tr"
  shows "owner_level tr"
  using assms by (elim NormalizeEnhancedTx_cases) (auto intro: native_event_eligible token_event_eligible)

text \<open>Deterministic order: the events of a transaction carry its signature and the indices
  0, 1, 2, and so on, native transfers first, one event per transfer of the input; nothing is dropped.\<close>

theorem transfer_indices:
  assumes "NormalizeEnhancedTx sha tx = Inr trs"
  shows "map tr_TransferIndex trs = map int [0 ..< length trs] \<and>
         length trs = length (tx_NativeTransfers tx) + length (tx_TokenTransfers tx) \<and>
         map tr_Signature trs = replicate (length trs) (tx_Signature tx)"
proof -
  let ?n = "length (tx_NativeTransfers tx)" and ?m = "length (tx_TokenTransfers tx)"
  have trs: "trs = events_from (native_event sha tx) 0 (tx_NativeTransfers tx)
              @ events_from (token_event sha tx) ?n (tx_TokenTransfers tx)"
    using assms by (simp add: NormalizeEnhancedTx_def split: if_splits)
  have "map tr_TransferIndex trs = map int ([0 ..< ?n] @ [?n ..< ?n + ?m])"
    by (simp add: trs map_events_from [where h = int])
  also have "[0 ..< ?n] @ [?n ..< ?n + ?m] = [0 ..< ?n + ?m]"
    by (rule upt_add_eq_append [symmetric]) simp
  finally have "map tr_TransferIndex trs = map int [0 ..< length trs]" by (simp add: trs)
  moreover have "map tr_Signature trs = map (\<lambda>_. tx_Signature tx) trs"
    using normalize_signature [OF assms] by simp
  then have "map tr_Signature trs = replicate (length trs) (tx_Signature tx)"
    by (simp add: map_replicate_const)
  ultimately show ?thesis by (simp add: trs)
qed


text \<open>Two different events of one transaction get the same fingerprint only if both are SPL
  transfers of the same instruction index and inner index (the case the fingerprint is meant to merge),
  for any hash that does not collide on the texts hashed for this transaction. A native transfer, or a
  transfer without instruction metadata, never shares its fingerprint.\<close>

theorem fingerprint_collision:
  assumes "NormalizeEnhancedTx sha tx = Inr trs" and "i < length trs" and "j < length trs" and "i \<noteq> j"
    and "tr_TransferFingerprint (trs ! i) = tr_TransferFingerprint (trs ! j)"
    and "inj_on sha (event_seed tx ` {..< length trs})"
  shows "length (tx_NativeTransfers tx) \<le> i \<and> length (tx_NativeTransfers tx) \<le> j \<and>
    (let s = tx_TokenTransfers tx ! (i - length (tx_NativeTransfers tx));
         t = tx_TokenTransfers tx ! (j - length (tx_NativeTransfers tx))
     in tok_InstructionIndex s \<noteq> None \<and> tok_InstructionIndex s = tok_InstructionIndex t \<and>
        tok_InnerIndex s = tok_InnerIndex t)"
proof -
  have "sha (event_seed tx i) = sha (event_seed tx j)"
    using assms(5) nth_fingerprint [OF assms(1)] assms(2,3) by simp
  then have "event_seed tx i = event_seed tx j"
    using assms(2,3,6) by (auto dest: inj_onD)
  then show ?thesis using assms(4) by (rule event_seed_eq)
qed

section \<open>Witnesses\<close>

definition sample_tx :: EnhancedTransaction where
  "sample_tx = \<lparr> tx_Signature = ''sig1'', tx_Slot = 7, tx_TimestampUnix = 1700000000, tx_TransactionError = None,
     tx_NativeTransfers =
       [\<lparr> nat_FromUserAccount = '' alice'', nat_ToUserAccount = ''bob'', nat_Amount = ''5'' \<rparr>],
     tx_TokenTransfers =
       [\<lparr> tok_FromUserAccount = ''alice'', tok_ToUserAccount = ''bob'', tok_FromTokenAccount = ''ta'',
          tok_ToTokenAccount = ''tb'', tok_Mint = ''m'',
          tok_TokenAmount = \<lparr> ta_Amount = ''0'', ta_Decimals = Some 6 \<rparr>,
          tok_TokenStandard = ''Fungible'', tok_InstructionIndex = Some 2, tok_InnerIndex = None \<rparr>,
        \<lparr> tok_FromUserAccount = ''alice'', tok_ToUserAccount = ''bob'', tok_FromTokenAccount = ''ta'',
          tok_ToTokenAccount = ''tb'', tok_Mint = ''m'',
          tok_TokenAmount = \<lparr> ta_Amount = ''0'', ta_Decimals = Some 6 \<rparr>,
          tok_TokenStandard = ''Fungible'', tok_InstructionIndex = Some 2, tok_InnerIndex = None \<rparr>] \<rparr>"

definition sample_trs :: "NormalizedTransfer list" where
  "sample_trs = (case NormalizeEnhancedTx (\<lambda>s. s) sample_tx of Inr trs \<Rightarrow> trs | Inl _ \<Rightarrow> [])"

lemma sample_normalize: "NormalizeEnhancedTx (\<lambda>s. s) sample_tx = Inr sample_trs"
  by (simp add: sample_trs_def NormalizeEnhancedTx_def sample_tx_def)

lemma sample_eligible: "length sample_trs = 3 \<and> list_all tr_PoisoningEligible sample_trs"
  by code_simp

lemma sample_same_fingerprint: "tr_TransferFingerprint (sample_trs ! 1) = tr_TransferFingerprint (sample_trs ! 2)"
  by code_simp

theorem eligible_owner_level_witness: "sample_trs \<noteq> [] \<and> owner_level (sample_trs ! 0)"
proof -
  have "sample_trs ! 0 \<in> set sample_trs" and "tr_PoisoningEligible (sample_trs ! 0)"
    using sample_eligible by (auto simp: list_all_length)
  with sample_normalize have "owner_level (sample_trs ! 0)" by (rule eligible_owner_level)
  then show ?thesis using sample_eligible by auto
qed

theorem transfer_indices_witness: "map tr_TransferIndex sample_trs = [0, 1, 2]"
  using transfer_indices [OF sample_normalize] sample_eligible by (simp add: numeral_3_eq_3)

theorem fingerprint_collision_witness:
  "length sample_trs = 3 \<and> tok_InstructionIndex (tx_TokenTransfers sample_tx ! 0) \<noteq> None"
proof -
  have "length (tx_NativeTransfers sample_tx) = 1" by (simp add: sample_tx_def)
  moreover have "inj_on (\<lambda>s. s) (event_seed sample_tx ` {..< length sample_trs})" by (simp add: inj_on_def)
  ultimately show ?thesis
    using fingerprint_collision [OF sample_normalize, of 1 2] sample_same_fingerprint sample_eligible
    by (auto simp: Let_def)
qed

end
