(* ===== verification/Counterparties.thy ===== *)
theory Counterparties
imports Transactions
begin

text \<open>
  \<open>internal/counterparties\<close>: which relation an owner-level transfer gives the focal wallet, and the
  per-counterparty summary that \<open>ApplyEvent\<close> keeps of the events seen so far. The counters are
  mathematical integers: a run would need \<open>2 ^ 63\<close> events to wrap one.
\<close>

section \<open>Types\<close>

datatype RelationType = RelationSender | RelationReceiver

record Event =
  ev_FocalWalletID :: int
  ev_CounterpartyAddress :: string
  ev_RelationType :: RelationType
  ev_OccurredAt :: gotime

record RelationMapping =
  rm_RelationType :: RelationType
  rm_CounterpartyAddress :: string

record Counterparty =
  cp_ID :: int
  cp_FocalWalletID :: int
  cp_CounterpartyAddress :: string
  cp_FirstSeenAt :: gotime
  cp_LastSeenAt :: gotime
  cp_InteractionCount :: int
  cp_FirstInboundAt :: "gotime option"
  cp_LastInboundAt :: "gotime option"
  cp_InboundCount :: int
  cp_FirstOutboundAt :: "gotime option"
  cp_LastOutboundAt :: "gotime option"
  cp_OutboundCount :: int
  cp_CreatedAt :: gotime
  cp_UpdatedAt :: gotime

definition zero_counterparty :: Counterparty where
  "zero_counterparty =
     \<lparr> cp_ID = 0, cp_FocalWalletID = 0, cp_CounterpartyAddress = [], cp_FirstSeenAt = 0, cp_LastSeenAt = 0,
       cp_InteractionCount = 0, cp_FirstInboundAt = None, cp_LastInboundAt = None, cp_InboundCount = 0,
       cp_FirstOutboundAt = None, cp_LastOutboundAt = None, cp_OutboundCount = 0, cp_CreatedAt = 0,
       cp_UpdatedAt = 0 \<rparr>"

section \<open>Relations\<close>

text \<open>The result of a Go function returning a value and \<open>ok\<close> is an option.\<close>

definition MapWalletRelation :: "string \<Rightarrow> NormalizedTransfer \<Rightarrow> RelationMapping option" where
  "MapWalletRelation focalWalletAddress tr =
     (let focal = trim_space focalWalletAddress;
          src = trim_space (tr_SourceOwnerAddress tr);
          dst = trim_space (tr_DestinationOwnerAddress tr)
      in if focal = [] \<or> src = [] \<or> dst = [] then None
         else if src = dst then None
         else if src = focal then Some \<lparr> rm_RelationType = RelationSender, rm_CounterpartyAddress = dst \<rparr>
         else if dst = focal then Some \<lparr> rm_RelationType = RelationReceiver, rm_CounterpartyAddress = src \<rparr>
         else None)"

definition DeriveEvent :: "int \<Rightarrow> string \<Rightarrow> NormalizedTransfer \<Rightarrow> Event option" where
  "DeriveEvent focalWalletID focalWalletAddress tr =
     (case MapWalletRelation focalWalletAddress tr of
        None \<Rightarrow> None
      | Some mapping \<Rightarrow> Some
          \<lparr> ev_FocalWalletID = focalWalletID, ev_CounterpartyAddress = rm_CounterpartyAddress mapping,
            ev_RelationType = rm_RelationType mapping, ev_OccurredAt = tr_BlockTime tr \<rparr>)"

section \<open>Accumulation\<close>

text \<open>The update of a first-seen and a last-seen pointer.\<close>

definition first_at :: "gotime option \<Rightarrow> gotime \<Rightarrow> gotime option" where
  "first_at cur t = (case cur of None \<Rightarrow> Some t | Some u \<Rightarrow> if t < u then Some t else cur)"

definition last_at :: "gotime option \<Rightarrow> gotime \<Rightarrow> gotime option" where
  "last_at cur t = (case cur of None \<Rightarrow> Some t | Some u \<Rightarrow> if u < t then Some t else cur)"

definition ApplyEvent :: "Counterparty \<Rightarrow> Event \<Rightarrow> Counterparty" where
  "ApplyEvent cp event =
     (let t = ev_OccurredAt event;
          cp1 = (if cp_InteractionCount cp = 0 \<or> t < cp_FirstSeenAt cp
                 then cp\<lparr> cp_FirstSeenAt := t \<rparr> else cp);
          cp2 = (if cp_LastSeenAt cp1 < t then cp1\<lparr> cp_LastSeenAt := t \<rparr> else cp1);
          cp3 = cp2\<lparr> cp_InteractionCount := cp_InteractionCount cp2 + 1 \<rparr>
      in case ev_RelationType event of
           RelationReceiver \<Rightarrow>
             cp3\<lparr> cp_InboundCount := cp_InboundCount cp3 + 1,
                  cp_FirstInboundAt := first_at (cp_FirstInboundAt cp3) t,
                  cp_LastInboundAt := last_at (cp_LastInboundAt cp3) t \<rparr>
         | RelationSender \<Rightarrow>
             cp3\<lparr> cp_OutboundCount := cp_OutboundCount cp3 + 1,
                  cp_FirstOutboundAt := first_at (cp_FirstOutboundAt cp3) t,
                  cp_LastOutboundAt := last_at (cp_LastOutboundAt cp3) t \<rparr>)"

lemma ApplyEvent_fields [simp]:
  "cp_ID (ApplyEvent cp e) = cp_ID cp"
  "cp_FocalWalletID (ApplyEvent cp e) = cp_FocalWalletID cp"
  "cp_CounterpartyAddress (ApplyEvent cp e) = cp_CounterpartyAddress cp"
  "cp_FirstSeenAt (ApplyEvent cp e) =
     (if cp_InteractionCount cp = 0 then ev_OccurredAt e else min (cp_FirstSeenAt cp) (ev_OccurredAt e))"
  "cp_LastSeenAt (ApplyEvent cp e) = max (cp_LastSeenAt cp) (ev_OccurredAt e)"
  "cp_InteractionCount (ApplyEvent cp e) = cp_InteractionCount cp + 1"
  "cp_InboundCount (ApplyEvent cp e) =
     cp_InboundCount cp + (if ev_RelationType e = RelationReceiver then 1 else 0)"
  "cp_OutboundCount (ApplyEvent cp e) =
     cp_OutboundCount cp + (if ev_RelationType e = RelationSender then 1 else 0)"
  "cp_FirstInboundAt (ApplyEvent cp e) =
     (if ev_RelationType e = RelationReceiver then first_at (cp_FirstInboundAt cp) (ev_OccurredAt e)
      else cp_FirstInboundAt cp)"
  "cp_LastInboundAt (ApplyEvent cp e) =
     (if ev_RelationType e = RelationReceiver then last_at (cp_LastInboundAt cp) (ev_OccurredAt e)
      else cp_LastInboundAt cp)"
  "cp_FirstOutboundAt (ApplyEvent cp e) =
     (if ev_RelationType e = RelationSender then first_at (cp_FirstOutboundAt cp) (ev_OccurredAt e)
      else cp_FirstOutboundAt cp)"
  "cp_LastOutboundAt (ApplyEvent cp e) =
     (if ev_RelationType e = RelationSender then last_at (cp_LastOutboundAt cp) (ev_OccurredAt e)
      else cp_LastOutboundAt cp)"
  "cp_CreatedAt (ApplyEvent cp e) = cp_CreatedAt cp"
  "cp_UpdatedAt (ApplyEvent cp e) = cp_UpdatedAt cp"
  by (cases "ev_RelationType e"; simp add: ApplyEvent_def Let_def)+

section \<open>The summary of a list of events\<close>

definition times_of :: "RelationType \<Rightarrow> Event list \<Rightarrow> gotime list" where
  "times_of r es = map ev_OccurredAt (filter (\<lambda>e. ev_RelationType e = r) es)"

definition earliest :: "gotime list \<Rightarrow> gotime option" where
  "earliest ts = (if ts = [] then None else Some (Min (set ts)))"

definition latest :: "gotime list \<Rightarrow> gotime option" where
  "latest ts = (if ts = [] then None else Some (Max (set ts)))"

text \<open>What the counterparty of the events \<open>es\<close> has to be, field by field.\<close>

definition summary :: "Event list \<Rightarrow> Counterparty" where
  "summary es = zero_counterparty
     \<lparr> cp_FirstSeenAt := (if es = [] then 0 else Min (set (map ev_OccurredAt es))),
       cp_LastSeenAt := Max (insert 0 (set (map ev_OccurredAt es))),
       cp_InteractionCount := int (length es),
       cp_FirstInboundAt := earliest (times_of RelationReceiver es),
       cp_LastInboundAt := latest (times_of RelationReceiver es),
       cp_InboundCount := int (length (times_of RelationReceiver es)),
       cp_FirstOutboundAt := earliest (times_of RelationSender es),
       cp_LastOutboundAt := latest (times_of RelationSender es),
       cp_OutboundCount := int (length (times_of RelationSender es)) \<rparr>"

lemma times_of_snoc: "times_of r (es @ [e]) = times_of r es @ (if ev_RelationType e = r then [ev_OccurredAt e] else [])"
  by (simp add: times_of_def)

lemma first_at_simps [simp]: "first_at None t = Some t" "first_at (Some u) t = Some (min u t)"
  by (auto simp: first_at_def)

lemma last_at_simps [simp]: "last_at None t = Some t" "last_at (Some u) t = Some (max u t)"
  by (auto simp: last_at_def)

lemma Min_snoc: "xs \<noteq> [] \<Longrightarrow> Min (set (xs @ [x])) = min (Min (set xs)) (x::int)"
  by (simp add: min.commute)

lemma Max_snoc: "xs \<noteq> [] \<Longrightarrow> Max (set (xs @ [x])) = max (Max (set xs)) (x::int)"
  by (simp add: max.commute)

lemma earliest_snoc: "earliest (ts @ [t]) = first_at (earliest ts) t"
  using Min_snoc [of ts t] by (cases "ts = []") (simp_all add: earliest_def)

lemma latest_snoc: "latest (ts @ [t]) = last_at (latest ts) t"
  using Max_snoc [of ts t] by (cases "ts = []") (simp_all add: latest_def)

lemma first_seen_snoc:
  "cp_FirstSeenAt (ApplyEvent (summary es) e) = cp_FirstSeenAt (summary (es @ [e]))"
  using Min_snoc [of "map ev_OccurredAt es" "ev_OccurredAt e"]
  by (cases "es = []") (simp_all add: summary_def)

lemma last_seen_snoc:
  "cp_LastSeenAt (ApplyEvent (summary es) e) = cp_LastSeenAt (summary (es @ [e]))"
  using Max_snoc [of "0 # map ev_OccurredAt es" "ev_OccurredAt e"] by (simp add: summary_def)

lemma summary_snoc: "ApplyEvent (summary es) e = summary (es @ [e])"
proof (rule Counterparty.equality)
  show "cp_FirstSeenAt (ApplyEvent (summary es) e) = cp_FirstSeenAt (summary (es @ [e]))"
    by (rule first_seen_snoc)
  show "cp_LastSeenAt (ApplyEvent (summary es) e) = cp_LastSeenAt (summary (es @ [e]))"
    by (rule last_seen_snoc)
qed (simp_all add: summary_def zero_counterparty_def times_of_snoc earliest_snoc latest_snoc)

lemma summary_Nil: "summary [] = zero_counterparty"
  by (simp add: summary_def zero_counterparty_def times_of_def earliest_def latest_def)

lemma foldl_summary: "foldl ApplyEvent (summary es) fs = summary (es @ fs)"
  by (induction fs arbitrary: es) (simp_all add: summary_snoc)

lemma first_at_swap: "first_at (first_at c t) u = first_at (first_at c u) t"
  by (cases c) (simp_all add: min.assoc min.commute)

lemma last_at_swap: "last_at (last_at c t) u = last_at (last_at c u) t"
  by (cases c) (simp_all add: max.assoc max.commute)

definition nonneg_count :: "Counterparty \<Rightarrow> bool" where
  "nonneg_count cp \<longleftrightarrow> 0 \<le> cp_InteractionCount cp"

interpretation apply_event: commuting_loop ApplyEvent nonneg_count
proof
  show "nonneg_count cp \<Longrightarrow> nonneg_count (ApplyEvent cp a)" for cp a
    by (simp add: nonneg_count_def)
  show "ApplyEvent (ApplyEvent cp a) b = ApplyEvent (ApplyEvent cp b) a" if "nonneg_count cp" for cp a b
    using that
    by (intro Counterparty.equality) (auto simp: nonneg_count_def max.assoc max.commute first_at_swap last_at_swap)
qed

lemma MapWalletRelation_SomeD:
  assumes "MapWalletRelation focal tr = Some m"
  shows "rm_CounterpartyAddress m \<noteq> [] \<and> rm_CounterpartyAddress m \<noteq> trim_space focal \<and>
    trim_space (rm_CounterpartyAddress m) = rm_CounterpartyAddress m"
  using assms by (auto simp: MapWalletRelation_def Let_def split: if_splits)

section \<open>Properties\<close>

text \<open>The relation of a transfer to the focal wallet: it exists exactly when both owner endpoints are
  present, differ and one of them is the focal wallet; that endpoint decides the relation, the other
  one is the counterparty.\<close>

theorem relation_iff:
  "MapWalletRelation focal tr = Some m \<longleftrightarrow>
    (let src = trim_space (tr_SourceOwnerAddress tr); dst = trim_space (tr_DestinationOwnerAddress tr);
         cp = rm_CounterpartyAddress m
     in trim_space focal \<noteq> [] \<and> cp \<noteq> [] \<and> cp \<noteq> trim_space focal \<and>
        (case rm_RelationType m of
           RelationSender \<Rightarrow> src = trim_space focal \<and> dst = cp
         | RelationReceiver \<Rightarrow> dst = trim_space focal \<and> src = cp))"
  by (cases m; cases "rm_RelationType m") (auto simp: MapWalletRelation_def Let_def)

text \<open>The counterparty that \<open>ApplyEvent\<close> builds from the zero value is the summary of its events:
  first and last times, counts, and the same per direction, each a minimum, maximum or number of
  elements.\<close>

theorem counterparty_summary: "foldl ApplyEvent zero_counterparty es = summary es"
  using foldl_summary [of "[]" es] by (simp add: summary_Nil)

text \<open>It does not matter in which order the events arrive, whatever was accumulated before.\<close>

theorem counterparty_order:
  assumes "mset es = mset fs" and "nonneg_count cp"
  shows "foldl ApplyEvent cp es = foldl ApplyEvent cp fs"
  using assms by (intro apply_event.loop_perm)

definition sample_event :: "RelationType \<Rightarrow> gotime \<Rightarrow> Event" where
  "sample_event r t = \<lparr> ev_FocalWalletID = 1, ev_CounterpartyAddress = ''c'', ev_RelationType = r, ev_OccurredAt = t \<rparr>"

theorem counterparty_order_witness:
  "foldl ApplyEvent zero_counterparty [sample_event RelationSender 5, sample_event RelationReceiver 3] =
   foldl ApplyEvent zero_counterparty [sample_event RelationReceiver 3, sample_event RelationSender 5]"
  by (rule counterparty_order) (simp_all add: nonneg_count_def zero_counterparty_def)

end
