(* ===== verification/Detection.thy ===== *)
theory Detection
imports Counterparties
begin

text \<open>
  \<open>internal/pipeline/detection.go\<close>: the eleven required gates of a poisoning candidate and the
  fail-closed decision over them.
\<close>

section \<open>Gates\<close>

datatype GateState = GatePass | GateFail | GateUnknown

record CandidateGate =
  g_NormalizationResolved :: GateState
  g_PoisoningEligible :: GateState
  g_AssetTypeSupported :: GateState
  g_Inbound :: GateState
  g_ZeroOrDust :: GateState
  g_NewCounterparty :: GateState
  g_BaselineComplete :: GateState
  g_LookalikeMatch :: GateState
  g_RecencyValid :: GateState
  g_AddressInequality :: GateState
  g_MinInjectionCountMet :: GateState

record CandidateDecision =
  d_CanEmit :: bool
  d_IncompleteWindow :: bool
  d_UnknownGateReason :: string

definition required_gates :: "CandidateGate \<Rightarrow> (string \<times> GateState) list" where
  "required_gates g =
    [(''normalization_resolved'', g_NormalizationResolved g),
     (''poisoning_eligible'', g_PoisoningEligible g),
     (''asset_type_supported'', g_AssetTypeSupported g),
     (''inbound'', g_Inbound g),
     (''zero_or_dust'', g_ZeroOrDust g),
     (''is_new_counterparty'', g_NewCounterparty g),
     (''baseline_complete'', g_BaselineComplete g),
     (''lookalike_match'', g_LookalikeMatch g),
     (''recency_valid'', g_RecencyValid g),
     (''address_inequality'', g_AddressInequality g),
     (''min_injection_count_met'', g_MinInjectionCountMet g)]"

definition unknown_prefix :: string where
  "unknown_prefix = ''unknown_required_gates:''"

definition EvaluateCandidate :: "CandidateGate \<Rightarrow> CandidateDecision" where
  "EvaluateCandidate g =
     (let required = required_gates g;
          unknown = map fst (filter (\<lambda>gate. snd gate = GateUnknown) required)
      in if unknown \<noteq> [] then
           \<lparr> d_CanEmit = False, d_IncompleteWindow = True,
             d_UnknownGateReason = unknown_prefix @ join '','' unknown \<rparr>
         else if list_ex (\<lambda>gate. snd gate \<noteq> GatePass) required then
           \<lparr> d_CanEmit = False, d_IncompleteWindow = False, d_UnknownGateReason = [] \<rparr>
         else \<lparr> d_CanEmit = True, d_IncompleteWindow = False, d_UnknownGateReason = [] \<rparr>)"

definition CanEmitCandidate :: "CandidateGate \<Rightarrow> bool" where
  "CanEmitCandidate g = d_CanEmit (EvaluateCandidate g)"

definition IsZeroOrDust :: "NormalizedTransfer \<Rightarrow> bool" where
  "IsZeroOrDust t \<longleftrightarrow> tr_AmountRaw t = ''0'' \<or> tr_DustStatus t = DustTrue"

section \<open>Lemmas\<close>

definition unknown_names :: "CandidateGate \<Rightarrow> string list" where
  "unknown_names g = map fst (filter (\<lambda>gate. snd gate = GateUnknown) (required_gates g))"

definition gate_names :: "string list" where
  "gate_names =
    [''normalization_resolved'', ''poisoning_eligible'', ''asset_type_supported'', ''inbound'',
     ''zero_or_dust'', ''is_new_counterparty'', ''baseline_complete'', ''lookalike_match'',
     ''recency_valid'', ''address_inequality'', ''min_injection_count_met'']"

lemma map_fst_required: "map fst (required_gates g) = gate_names"
  by (simp add: required_gates_def gate_names_def)

lemma unknown_names_subset: "set (unknown_names g) \<subseteq> set gate_names"
proof -
  have "set (unknown_names g) \<subseteq> fst ` set (required_gates g)" by (auto simp: unknown_names_def)
  then show ?thesis by (metis map_fst_required set_map)
qed

lemma gate_names_plain:
  assumes "n \<in> set gate_names"
  shows "n \<noteq> []" and "CHR '','' \<notin> set n" and "visible_ends n" and "trim_space n = n"
proof -
  have "list_all (\<lambda>n. CHR '','' \<notin> set n \<and> visible_ends n) gate_names"
    by code_simp
  with assms have a: "CHR '','' \<notin> set n \<and> visible_ends n"
    unfolding list_all_iff by blast
  then show "n \<noteq> []" "CHR '','' \<notin> set n" "visible_ends n" "trim_space n = n"
    by (simp_all add: visible_ends_def trim_visible)
qed

lemma visible_unknown_prefix [simp]: "visible_ends unknown_prefix"
  by code_simp

lemma unknown_reason_visible:
  "names \<noteq> [] \<Longrightarrow> set names \<subseteq> set gate_names \<Longrightarrow> visible_ends (unknown_prefix @ join '','' names)"
  using gate_names_plain by (intro visible_ends_append2 visible_ends_join) auto

lemma EvaluateCandidate_unknown:
  "unknown_names g \<noteq> [] \<Longrightarrow> EvaluateCandidate g =
     \<lparr> d_CanEmit = False, d_IncompleteWindow = True,
       d_UnknownGateReason = unknown_prefix @ join '','' (unknown_names g) \<rparr>"
  by (simp add: EvaluateCandidate_def unknown_names_def Let_def)

lemma EvaluateCandidate_known:
  "unknown_names g = [] \<Longrightarrow> EvaluateCandidate g =
     \<lparr> d_CanEmit = list_all (\<lambda>gate. snd gate = GatePass) (required_gates g), d_IncompleteWindow = False,
       d_UnknownGateReason = [] \<rparr>"
  by (auto simp: EvaluateCandidate_def unknown_names_def Let_def list_ex_iff list_all_iff)

lemma incomplete_iff [simp]: "d_IncompleteWindow (EvaluateCandidate g) \<longleftrightarrow> unknown_names g \<noteq> []"
  by (cases "unknown_names g = []") (simp_all add: EvaluateCandidate_unknown EvaluateCandidate_known)

lemma unknown_not_emitted: "d_IncompleteWindow (EvaluateCandidate g) \<Longrightarrow> \<not> d_CanEmit (EvaluateCandidate g)"
  by (simp add: EvaluateCandidate_unknown)

lemma can_emit_all:
  "d_CanEmit (EvaluateCandidate g) \<longleftrightarrow> list_all (\<lambda>gate. snd gate = GatePass) (required_gates g)"
proof (cases "unknown_names g = []")
  case False
  then have "filter (\<lambda>gate. snd gate = GateUnknown) (required_gates g) \<noteq> []" by (simp add: unknown_names_def)
  then obtain gate where "gate \<in> set (required_gates g)" and "snd gate = GateUnknown"
    by (metis (mono_tags, lifting) filter_False)
  then have "\<not> list_all (\<lambda>gate. snd gate = GatePass) (required_gates g)"
    by (auto simp: list_all_iff intro!: bexI [of _ gate])
  with False show ?thesis by (simp add: EvaluateCandidate_unknown)
qed (simp add: EvaluateCandidate_known)

lemma decision_names:
  "unknown_names g \<noteq> [] \<Longrightarrow> split_on CHR '','' (join '','' (unknown_names g)) = unknown_names g"
  using unknown_names_subset [of g] by (intro split_join) (auto dest: gate_names_plain)

section \<open>Properties\<close>

text \<open>C2. The decision is fail-closed: a candidate can be emitted exactly when all eleven gates pass;
  the window is incomplete exactly when some gate is unknown, and then nothing is emitted whatever the
  other gates say, and the reason names the unknown gates, in order, in a form that can be parsed back.\<close>

theorem decision_fail_closed:
  "(d_CanEmit (EvaluateCandidate g) \<longleftrightarrow> (\<forall>(n, s) \<in> set (required_gates g). s = GatePass)) \<and>
   (d_IncompleteWindow (EvaluateCandidate g) \<longleftrightarrow> (\<exists>(n, s) \<in> set (required_gates g). s = GateUnknown)) \<and>
   \<not> (d_CanEmit (EvaluateCandidate g) \<and> d_IncompleteWindow (EvaluateCandidate g)) \<and>
   (d_IncompleteWindow (EvaluateCandidate g) \<longrightarrow>
      has_prefix (d_UnknownGateReason (EvaluateCandidate g)) unknown_prefix \<and>
      split_on CHR '','' (drop (length unknown_prefix) (d_UnknownGateReason (EvaluateCandidate g)))
        = [n. (n, s) \<leftarrow> required_gates g, s = GateUnknown])"
proof -
  have names: "unknown_names g = [n. (n, s) \<leftarrow> required_gates g, s = GateUnknown]"
  proof -
    have "map fst (filter (\<lambda>gate. snd gate = GateUnknown) xs) = [n. (n, s) \<leftarrow> xs, s = GateUnknown]"
      for xs :: "(string \<times> GateState) list"
      by (induction xs) auto
    then show ?thesis by (simp add: unknown_names_def)
  qed
  have "unknown_names g \<noteq> [] \<longleftrightarrow> (\<exists>(n, s) \<in> set (required_gates g). s = GateUnknown)"
    by (force simp: unknown_names_def filter_empty_conv)
  moreover have "has_prefix (d_UnknownGateReason (EvaluateCandidate g)) unknown_prefix \<and>
      split_on CHR '','' (drop (length unknown_prefix) (d_UnknownGateReason (EvaluateCandidate g))) = unknown_names g"
    if u: "unknown_names g \<noteq> []"
  proof -
    from u have "split_on CHR '','' (join '','' (unknown_names g)) = unknown_names g"
      by (rule decision_names)
    with u show ?thesis by (simp add: EvaluateCandidate_unknown has_prefix_def)
  qed
  ultimately show ?thesis
    using unknown_not_emitted [of g] by (auto simp: can_emit_all list_all_iff names)
qed

text \<open>A decision with an unknown and a failed gate: incomplete, not a plain rejection.\<close>

definition sample_gate :: CandidateGate where
  "sample_gate =
     \<lparr> g_NormalizationResolved = GatePass, g_PoisoningEligible = GatePass, g_AssetTypeSupported = GatePass,
       g_Inbound = GateFail, g_ZeroOrDust = GateUnknown, g_NewCounterparty = GatePass,
       g_BaselineComplete = GatePass, g_LookalikeMatch = GatePass, g_RecencyValid = GatePass,
       g_AddressInequality = GatePass, g_MinInjectionCountMet = GateUnknown \<rparr>"

theorem decision_fail_closed_witness:
  "d_IncompleteWindow (EvaluateCandidate sample_gate) \<and>
   split_on CHR '','' (drop (length unknown_prefix) (d_UnknownGateReason (EvaluateCandidate sample_gate)))
     = [''zero_or_dust'', ''min_injection_count_met'']"
  using decision_fail_closed [of sample_gate] by (simp add: sample_gate_def required_gates_def)

end
