(* ===== verification/Materialize.thy ===== *)
theory Materialize
imports Detection
begin

text \<open>
  \<open>internal/pipeline/candidate_materialize.go\<close> and the parameter checks of \<open>validation.go\<close>: the gates of
  every scan observation against the indexed baseline, and the candidates that pass all of them. The
  specification is written over the observation lists alone, without the indexes.
\<close>

section \<open>Types\<close>

record WalletTransferObservation =
  obs_Transfer :: NormalizedTransfer
  obs_RelationType :: RelationType
  obs_CounterpartyAddress :: string

record CandidateMaterializeParams =
  mp_BaselineComplete :: bool
  mp_LookalikeRecencyDays :: int
  mp_LookalikePrefixMin :: int
  mp_LookalikeSuffixMin :: int
  mp_LookalikeSingleSideMin :: int
  mp_MinInjectionCount :: int

record PoisoningCandidate =
  pc_Signature :: string
  pc_TransferIndex :: int
  pc_SuspiciousCounterparty :: string
  pc_MatchedLegitCounterparty :: string
  pc_TokenMint :: string
  pc_AmountRaw :: string
  pc_BlockTime :: gotime
  pc_IsZeroValue :: bool
  pc_IsDust :: bool
  pc_IsNewCounterparty :: bool
  pc_IsInbound :: bool
  pc_LegitLastSeenAt :: gotime
  pc_RecencyDays :: int
  pc_RepeatInjectionCount :: int
  pc_IncompleteWindow :: bool
  pc_UnknownGateReason :: string
  pc_MatchRuleVersion :: string

record CandidateMaterializationResult =
  mr_Candidates :: "PoisoningCandidate list"
  mr_IncompleteWindow :: bool
  mr_UnknownGateReason :: string
  mr_UnknownGateBlocks :: int
  mr_CandidateBlocks :: int

record inboundCounterpartyStats =
  st_KnownQualifying :: int
  st_UnknownPotential :: int

record candidateBaseEmissionGates =
  bg_NormalizationResolved :: GateState
  bg_PoisoningEligible :: GateState
  bg_AssetTypeSupported :: GateState
  bg_Inbound :: GateState

section \<open>Parameter checks\<close>

definition validateLookalikeAndInjectionParams ::
  "int \<Rightarrow> int \<Rightarrow> int \<Rightarrow> int \<Rightarrow> int \<Rightarrow> go_error option" where
  "validateLookalikeAndInjectionParams recencyDays prefixMin suffixMin singleSideMin minInjectionCount =
     (if recencyDays < 1 then Some (Err ''lookalike recency days must be >= 1'')
      else if prefixMin < 1 \<or> suffixMin < 1 \<or> singleSideMin < 1
      then Some (Err ''lookalike thresholds must be >= 1'')
      else if prefixMin < 4 \<or> suffixMin < 4 \<or> singleSideMin < 6
      then Some (Err ''lookalike thresholds must satisfy phase1 minimums: prefix>=4, suffix>=4, single-side>=6'')
      else if minInjectionCount < 1 then Some (Err ''min injection count must be >= 1'')
      else None)"

definition ValidateCandidateMaterializeParams :: "CandidateMaterializeParams \<Rightarrow> go_error option" where
  "ValidateCandidateMaterializeParams p =
     validateLookalikeAndInjectionParams (mp_LookalikeRecencyDays p) (mp_LookalikePrefixMin p)
       (mp_LookalikeSuffixMin p) (mp_LookalikeSingleSideMin p) (mp_MinInjectionCount p)"

section \<open>Single gates\<close>

definition gateBool :: "bool \<Rightarrow> GateState" where
  "gateBool v = (if v then GatePass else GateFail)"

definition gateNormalizationResolved :: "NormalizedTransfer \<Rightarrow> GateState" where
  "gateNormalizationResolved tr =
     (if tr_NormalizationStatus tr = NormalizationResolved then GatePass else GateFail)"

definition gateSupportedAssetType :: "AssetType \<Rightarrow> GateState" where
  "gateSupportedAssetType assetType =
     (case assetType of AssetTypeNativeSOL \<Rightarrow> GatePass | AssetTypeSPLFungible \<Rightarrow> GatePass | _ \<Rightarrow> GateFail)"

definition gateRelationInbound :: "RelationType \<Rightarrow> GateState" where
  "gateRelationInbound relation = (if relation = RelationReceiver then GatePass else GateFail)"

text \<open>The pair is the value and whether the amount could be read.\<close>

definition isAmountZero :: "string \<Rightarrow> bool \<times> bool" where
  "isAmountZero raw =
     (if trim_space raw = [] then (False, False)
      else case parse_big (trim_space raw) of
          None \<Rightarrow> (False, False)
        | Some v \<Rightarrow> (v = 0, True))"

definition gateZeroOrDust :: "NormalizedTransfer \<Rightarrow> GateState" where
  "gateZeroOrDust tr =
     (case isAmountZero (tr_AmountRaw tr) of (isZero, known) \<Rightarrow>
        if isZero \<and> known then GatePass
        else case tr_DustStatus tr of DustTrue \<Rightarrow> GatePass | DustFalse \<Rightarrow> GateFail | _ \<Rightarrow> GateUnknown)"

definition gateNewCounterparty :: "bool \<Rightarrow> bool \<Rightarrow> GateState" where
  "gateNewCounterparty baselineComplete hadPreWindowInteraction =
     (if \<not> baselineComplete then GateUnknown
      else if hadPreWindowInteraction then GateFail
      else GatePass)"

definition gateAddressInequality :: "string \<Rightarrow> string \<Rightarrow> GateState \<Rightarrow> GateState" where
  "gateAddressInequality suspicious matched lookalikeGate =
     (if lookalikeGate = GateUnknown then GateUnknown
      else if lookalikeGate \<noteq> GatePass then GateFail
      else if trim_space suspicious = [] \<or> trim_space matched = [] then GateFail
      else if suspicious = matched then GateFail
      else GatePass)"

definition gateMinInjectionCount :: "inboundCounterpartyStats \<Rightarrow> int \<Rightarrow> GateState" where
  "gateMinInjectionCount stats lowest =
     (let m = (if lowest < 1 then 1 else lowest) in
      if st_KnownQualifying stats \<ge> m then GatePass
      else if st_KnownQualifying stats + st_UnknownPotential stats < m then GateFail
      else GateUnknown)"

definition evaluateBaseEmissionGates :: "WalletTransferObservation \<Rightarrow> candidateBaseEmissionGates" where
  "evaluateBaseEmissionGates obs =
     \<lparr> bg_NormalizationResolved = gateNormalizationResolved (obs_Transfer obs),
       bg_PoisoningEligible = gateBool (tr_PoisoningEligible (obs_Transfer obs)),
       bg_AssetTypeSupported = gateSupportedAssetType (tr_AssetType (obs_Transfer obs)),
       bg_Inbound = gateRelationInbound (obs_RelationType obs) \<rparr>"

definition canQualifyForMinInjection :: "candidateBaseEmissionGates \<Rightarrow> bool" where
  "canQualifyForMinInjection g \<longleftrightarrow>
     bg_Inbound g = GatePass \<and> bg_NormalizationResolved g = GatePass \<and>
     bg_PoisoningEligible g = GatePass \<and> bg_AssetTypeSupported g = GatePass"

section \<open>Indexes\<close>

definition buildPreWindowInteractionSet :: "WalletTransferObservation list \<Rightarrow> (string \<times> bool) list" where
  "buildPreWindowInteractionSet baseline =
     foldl (\<lambda>out obs.
        if trim_space (obs_CounterpartyAddress obs) = [] then out
        else map_set (obs_CounterpartyAddress obs) True out) [] baseline"

definition is_legit :: "WalletTransferObservation \<Rightarrow> bool" where
  "is_legit obs \<longleftrightarrow>
     \<not> (obs_RelationType obs \<noteq> RelationSender \<or> trim_space (obs_CounterpartyAddress obs) = [] \<or>
        tr_NormalizationStatus (obs_Transfer obs) \<noteq> NormalizationResolved \<or>
        \<not> tr_PoisoningEligible (obs_Transfer obs) \<or>
        tr_DustStatus (obs_Transfer obs) \<noteq> DustFalse)"

definition buildLegitBaselineCounterparties :: "WalletTransferObservation list \<Rightarrow> (string \<times> gotime) list" where
  "buildLegitBaselineCounterparties baseline =
     foldl (\<lambda>out obs.
        if \<not> is_legit obs then out
        else let lastSeen = map_get 0 out (obs_CounterpartyAddress obs); t = tr_BlockTime (obs_Transfer obs) in
          if is_zero_time lastSeen \<or> lastSeen < t then map_set (obs_CounterpartyAddress obs) t out
          else out) [] baseline"

definition zero_stats :: inboundCounterpartyStats where
  "zero_stats = \<lparr> st_KnownQualifying = 0, st_UnknownPotential = 0 \<rparr>"

definition bump_stats :: "GateState \<Rightarrow> inboundCounterpartyStats \<Rightarrow> inboundCounterpartyStats" where
  "bump_stats g stats =
     (case g of
        GatePass \<Rightarrow> stats\<lparr> st_KnownQualifying := st_KnownQualifying stats + 1 \<rparr>
      | GateUnknown \<Rightarrow> stats\<lparr> st_UnknownPotential := st_UnknownPotential stats + 1 \<rparr>
      | GateFail \<Rightarrow> stats)"

definition buildInboundCounterpartyStats ::
  "WalletTransferObservation list \<Rightarrow> (string \<times> inboundCounterpartyStats) list" where
  "buildInboundCounterpartyStats scan =
     foldl (\<lambda>out obs.
        if \<not> canQualifyForMinInjection (evaluateBaseEmissionGates obs) then out
        else let cp = trim_space (obs_CounterpartyAddress obs) in
          if cp = [] then out
          else map_set cp (bump_stats (gateZeroOrDust (obs_Transfer obs)) (map_get zero_stats out cp)) out)
       [] scan"

section \<open>Lookalikes\<close>

fun commonPrefixLength :: "string \<Rightarrow> string \<Rightarrow> int" where
  "commonPrefixLength (a # as) (b # bs) = (if a = b then 1 + commonPrefixLength as bs else 0)"
| "commonPrefixLength _ _ = 0"

definition commonSuffixLength :: "string \<Rightarrow> string \<Rightarrow> int" where
  "commonSuffixLength a b = commonPrefixLength (rev a) (rev b)"

definition passesLookalikeThreshold :: "int \<Rightarrow> int \<Rightarrow> CandidateMaterializeParams \<Rightarrow> bool" where
  "passesLookalikeThreshold pre suf p \<longleftrightarrow>
     (pre \<ge> mp_LookalikePrefixMin p \<and> suf \<ge> mp_LookalikeSuffixMin p) \<or>
     pre \<ge> mp_LookalikeSingleSideMin p \<or> suf \<ge> mp_LookalikeSingleSideMin p"

text \<open>The loop over the legitimate counterparties, with \<open>bestScore\<close> and \<open>matchedLegit\<close>.\<close>

fun best_match_loop ::
  "string \<Rightarrow> CandidateMaterializeParams \<Rightarrow> int \<Rightarrow> string \<Rightarrow> string list \<Rightarrow> int \<times> string" where
  "best_match_loop addr p bestScore matchedLegit [] = (bestScore, matchedLegit)"
| "best_match_loop addr p bestScore matchedLegit (candidate # rest) =
     (let pre = commonPrefixLength addr candidate; suf = commonSuffixLength addr candidate in
      if \<not> passesLookalikeThreshold pre suf p then best_match_loop addr p bestScore matchedLegit rest
      else let score = pre + suf in
        if score > bestScore \<or> (score = bestScore \<and> candidate < matchedLegit)
        then best_match_loop addr p score candidate rest
        else best_match_loop addr p bestScore matchedLegit rest)"

text \<open>\<open>int(delta.Hours() / 24)\<close> is the number of whole days: block times are whole seconds, for which
  the \<open>float64\<close> quotient truncates to the same integer.\<close>

definition whole_days :: "duration \<Rightarrow> int" where
  "whole_days d = d div nanos_per_day"

definition recency_limit :: "int \<Rightarrow> duration" where
  "recency_limit days = wrap64 (wrap64 (days * 24) * nanos_per_hour)"

definition evaluateLookalikeAndRecency ::
  "WalletTransferObservation \<Rightarrow> (string \<times> gotime) list \<Rightarrow> CandidateMaterializeParams
     \<Rightarrow> string \<times> int \<times> GateState \<times> GateState" where
  "evaluateLookalikeAndRecency obs legit p =
     (if \<not> mp_BaselineComplete p then ([], 0, GateUnknown, GateUnknown)
      else case best_match_loop (obs_CounterpartyAddress obs) p (- 1) [] (map_keys legit) of
        (bestScore, matchedLegit) \<Rightarrow>
          if matchedLegit = [] then ([], 0, GateFail, GateFail)
          else let legitAt = map_get 0 legit matchedLegit; suspiciousAt = tr_BlockTime (obs_Transfer obs) in
            if is_zero_time legitAt \<or> is_zero_time suspiciousAt then (matchedLegit, 0, GateUnknown, GatePass)
            else let delta = sub_time suspiciousAt legitAt in
              if delta \<le> 0 then (matchedLegit, 0, GateFail, GatePass)
              else if delta > recency_limit (mp_LookalikeRecencyDays p)
              then (matchedLegit, whole_days delta, GateFail, GatePass)
              else (matchedLegit, whole_days delta, GatePass, GatePass))"

section \<open>Reasons\<close>

text \<open>A set of names, as the list of its elements in insertion order.\<close>

definition set_add :: "'a \<Rightarrow> 'a list \<Rightarrow> 'a list" where
  "set_add x xs = (if x \<in> set xs then xs else xs @ [x])"

definition addUnknownGates :: "string list \<Rightarrow> string \<Rightarrow> string list" where
  "addUnknownGates names reason =
     (let trimmed = trim_space reason in
      if trimmed = [] then names
      else if has_prefix trimmed unknown_prefix
      then foldl (\<lambda>out name. if trim_space name = [] then out else set_add (trim_space name) out) names
             (split_on CHR '','' (drop (length unknown_prefix) trimmed))
      else set_add trimmed names)"

definition buildUnknownGateReason :: "string list \<Rightarrow> string" where
  "buildUnknownGateReason names =
     (if names = [] then [] else unknown_prefix @ join '','' (sort names))"

section \<open>Materialization\<close>

definition gates_of ::
  "CandidateMaterializeParams \<Rightarrow> (string \<times> bool) list \<Rightarrow> (string \<times> gotime) list
     \<Rightarrow> (string \<times> inboundCounterpartyStats) list \<Rightarrow> WalletTransferObservation \<Rightarrow> CandidateGate" where
  "gates_of p preWindowSeen legitBaseline inboundStats obs =
     (let baseGates = evaluateBaseEmissionGates obs in
      case evaluateLookalikeAndRecency obs legitBaseline p of
        (matchedLegit, recencyDays, recencyGate, lookalikeGate) \<Rightarrow>
         \<lparr> g_NormalizationResolved = bg_NormalizationResolved baseGates,
           g_PoisoningEligible = bg_PoisoningEligible baseGates,
           g_AssetTypeSupported = bg_AssetTypeSupported baseGates,
           g_Inbound = bg_Inbound baseGates,
           g_ZeroOrDust = gateZeroOrDust (obs_Transfer obs),
           g_NewCounterparty = gateNewCounterparty (mp_BaselineComplete p)
             (map_get False preWindowSeen (obs_CounterpartyAddress obs)),
           g_BaselineComplete = gateBool (mp_BaselineComplete p),
           g_LookalikeMatch = lookalikeGate,
           g_RecencyValid = recencyGate,
           g_AddressInequality = gateAddressInequality (obs_CounterpartyAddress obs) matchedLegit lookalikeGate,
           g_MinInjectionCountMet = gateMinInjectionCount
             (map_get zero_stats inboundStats (obs_CounterpartyAddress obs)) (mp_MinInjectionCount p) \<rparr>)"

definition candidate_of ::
  "CandidateMaterializeParams \<Rightarrow> (string \<times> gotime) list \<Rightarrow> (string \<times> inboundCounterpartyStats) list
     \<Rightarrow> WalletTransferObservation \<Rightarrow> PoisoningCandidate" where
  "candidate_of p legitBaseline inboundStats obs =
     (case evaluateLookalikeAndRecency obs legitBaseline p of
        (matchedLegit, recencyDays, recencyGate, lookalikeGate) \<Rightarrow>
         \<lparr> pc_Signature = tr_Signature (obs_Transfer obs),
           pc_TransferIndex = tr_TransferIndex (obs_Transfer obs),
           pc_SuspiciousCounterparty = obs_CounterpartyAddress obs,
           pc_MatchedLegitCounterparty = matchedLegit,
           pc_TokenMint = tr_TokenMint (obs_Transfer obs),
           pc_AmountRaw = tr_AmountRaw (obs_Transfer obs),
           pc_BlockTime = tr_BlockTime (obs_Transfer obs),
           pc_IsZeroValue = fst (isAmountZero (tr_AmountRaw (obs_Transfer obs))),
           pc_IsDust = (tr_DustStatus (obs_Transfer obs) = DustTrue),
           pc_IsNewCounterparty = True,
           pc_IsInbound = True,
           pc_LegitLastSeenAt = map_get 0 legitBaseline matchedLegit,
           pc_RecencyDays = recencyDays,
           pc_RepeatInjectionCount =
             st_KnownQualifying (map_get zero_stats inboundStats (obs_CounterpartyAddress obs)),
           pc_IncompleteWindow = False,
           pc_UnknownGateReason = [],
           pc_MatchRuleVersion = ''phase1-v1'' \<rparr>)"

definition empty_result :: CandidateMaterializationResult where
  "empty_result = \<lparr> mr_Candidates = [], mr_IncompleteWindow = False, mr_UnknownGateReason = [],
     mr_UnknownGateBlocks = 0, mr_CandidateBlocks = 0 \<rparr>"

text \<open>One round of the loop over the scan, with the result so far and the unknown gates so far.\<close>

definition materialize_step ::
  "CandidateMaterializeParams \<Rightarrow> (string \<times> bool) list \<Rightarrow> (string \<times> gotime) list
     \<Rightarrow> (string \<times> inboundCounterpartyStats) list
     \<Rightarrow> CandidateMaterializationResult \<times> string list \<Rightarrow> WalletTransferObservation
     \<Rightarrow> CandidateMaterializationResult \<times> string list" where
  "materialize_step p preWindowSeen legitBaseline inboundStats st obs =
     (let (res, unknownGates) = st;
          decision = EvaluateCandidate (gates_of p preWindowSeen legitBaseline inboundStats obs);
          (res1, unknown1) =
            (if d_IncompleteWindow decision
             then (res\<lparr> mr_IncompleteWindow := True, mr_UnknownGateBlocks := mr_UnknownGateBlocks res + 1 \<rparr>,
                   addUnknownGates unknownGates (d_UnknownGateReason decision))
             else (res, unknownGates))
      in if \<not> d_CanEmit decision
         then (res1\<lparr> mr_CandidateBlocks := mr_CandidateBlocks res1 + 1 \<rparr>, unknown1)
         else (res1\<lparr> mr_Candidates := mr_Candidates res1 @ [candidate_of p legitBaseline inboundStats obs] \<rparr>,
               unknown1))"

definition MaterializeCandidates ::
  "WalletTransferObservation list \<Rightarrow> WalletTransferObservation list \<Rightarrow> CandidateMaterializeParams
     \<Rightarrow> CandidateMaterializationResult" where
  "MaterializeCandidates baseline scan p =
     (case ValidateCandidateMaterializeParams p of
        Some err \<Rightarrow> empty_result\<lparr> mr_IncompleteWindow := True,
                      mr_UnknownGateReason := ''invalid_candidate_params:'' @ err_msg err \<rparr>
      | None \<Rightarrow>
          (let preWindowSeen = buildPreWindowInteractionSet baseline;
               legitBaseline = buildLegitBaselineCounterparties baseline;
               inboundStats = buildInboundCounterpartyStats scan;
               (res, unknownGates) =
                 foldl (materialize_step p preWindowSeen legitBaseline inboundStats) (empty_result, []) scan
           in if mr_IncompleteWindow res
              then res\<lparr> mr_UnknownGateReason := buildUnknownGateReason unknownGates \<rparr> else res))"

end
