(* ===== verification/Fetch.thy ===== *)
theory Fetch
imports Helius
begin

text \<open>
  \<open>internal/pipeline/fetch.go\<close>: the bounded pagination over a window and the retried page fetch. Both
  loops are total: the page loop by the number of pages left, the retry loop by the number of
  attempts left. The provider and the clock are the parameter \<open>env\<close>; \<open>None\<close> stands for a nil client.
\<close>

section \<open>Retries\<close>

definition nanos_per_milli :: int where "nanos_per_milli = 1000000"

definition retryBackoff :: "int \<Rightarrow> duration" where
  "retryBackoff attempt0 =
     (let attempt = (if attempt0 < 0 then 0 else attempt0);
          shift = (if attempt > 5 then 5 else attempt);
          backoff0 = (200 * nanos_per_milli) * 2 ^ nat shift;
          backoff = (if backoff0 > 5 * nanos_per_second then 5 * nanos_per_second else backoff0);
          jitterSeed = attempt mod 97;
          jitter = ((jitterSeed * 37) mod 97) * nanos_per_milli
      in backoff + jitter)"

function fetch_retry_loop ::
  "'w env \<Rightarrow> string \<Rightarrow> string \<Rightarrow> int \<Rightarrow> int \<Rightarrow> 'w \<Rightarrow> (go_error + EnhancedPage) \<times> 'w" where
  "fetch_retry_loop E wallet before maxRetries attempt w =
     (case env_FetchEnhancedPage E w wallet before of
        (Inr page, w1) \<Rightarrow> (Inr page, w1)
      | (Inl err, w1) \<Rightarrow>
          if \<not> IsRetryable err then (Inl err, w1)
          else if attempt \<ge> maxRetries then (Inl (RetryExhaustedErr err), w1)
          else case env_sleepContext E w1 (retryBackoff attempt) of
              (Some sleepErr, w2) \<Rightarrow> (Inl sleepErr, w2)
            | (None, w2) \<Rightarrow> fetch_retry_loop E wallet before maxRetries (attempt + 1) w2)"
  by pat_completeness auto
termination by (relation "measure (\<lambda>(E, wallet, before, maxRetries, attempt, w). nat (maxRetries - attempt))") auto

declare fetch_retry_loop.simps [simp del]

definition fetchPageWithRetry ::
  "'w env \<Rightarrow> string \<Rightarrow> string \<Rightarrow> int \<Rightarrow> 'w \<Rightarrow> (go_error + EnhancedPage) \<times> 'w" where
  "fetchPageWithRetry E wallet before maxRetries w =
     fetch_retry_loop E wallet before (if maxRetries < 0 then 0 else maxRetries) 0 w"

section \<open>Windows\<close>

record FetchWindowResult =
  fr_Transactions :: "EnhancedTransaction list"
  fr_Partial :: bool
  fr_TruncationCode :: string
  fr_RetryExhausted :: bool

record FetchWindowParams =
  fp_Start :: gotime
  fp_End :: gotime
  fp_MaxPages :: int
  fp_MaxTx :: int
  fp_MaxRetries :: int
  fp_RequestDelay :: duration

definition empty_fetch :: FetchWindowResult where
  "empty_fetch = \<lparr> fr_Transactions = [], fr_Partial = False, fr_TruncationCode = [], fr_RetryExhausted = False \<rparr>"

definition truncated :: "FetchWindowResult \<Rightarrow> string \<Rightarrow> FetchWindowResult" where
  "truncated r code = r\<lparr> fr_Partial := True, fr_TruncationCode := code \<rparr>"

text \<open>The loop over one page: the result, \<open>reachedBeforeWindow\<close>, and whether it returned at the cap.\<close>

fun page_loop ::
  "FetchWindowParams \<Rightarrow> FetchWindowResult \<Rightarrow> bool \<Rightarrow> EnhancedTransaction list
     \<Rightarrow> FetchWindowResult \<times> bool \<times> bool" where
  "page_loop p result reached [] = (result, reached, False)"
| "page_loop p result reached (tx # txs) =
     (let blockTime = BlockTimeUTC tx in
      if \<not> blockTime < fp_End p then page_loop p result reached txs
      else if blockTime < fp_Start p then page_loop p result True txs
      else let result1 = result\<lparr> fr_Transactions := fr_Transactions result @ [tx] \<rparr> in
        if int (length (fr_Transactions result1)) \<ge> fp_MaxTx p
        then (truncated result1 ''max_tx_per_wallet_reached'', reached, True)
        else page_loop p result1 reached txs)"

definition next_before :: "EnhancedPage \<Rightarrow> string" where
  "next_before page =
     (if page_Before page = [] then tx_Signature (last (page_Transactions page)) else page_Before page)"

text \<open>A return of the Go function is a result and an error.\<close>

function fetch_loop ::
  "'w env \<Rightarrow> string \<Rightarrow> FetchWindowParams \<Rightarrow> FetchWindowResult \<Rightarrow> string \<Rightarrow> int \<Rightarrow> 'w
     \<Rightarrow> (FetchWindowResult \<times> go_error option) \<times> 'w" where
  "fetch_loop E wallet p result before pageCount w =
     (if pageCount \<ge> fp_MaxPages p
      then ((truncated result ''max_tx_pages_per_wallet_reached'', None), w)
      else if int (length (fr_Transactions result)) \<ge> fp_MaxTx p
      then ((truncated result ''max_tx_per_wallet_reached'', None), w)
      else case (if pageCount > 0 \<and> fp_RequestDelay p > 0 then env_sleepContext E w (fp_RequestDelay p)
                 else (None, w)) of
          (Some err, w1) \<Rightarrow> ((result, Some err), w1)
        | (None, w1) \<Rightarrow>
            (case fetchPageWithRetry E wallet before (fp_MaxRetries p) w1 of
               (Inl err, w2) \<Rightarrow>
                 if is_retry_exhausted err
                 then (((truncated result ''helius_retry_exhausted'')\<lparr> fr_RetryExhausted := True \<rparr>, None), w2)
                 else ((result, Some err), w2)
             | (Inr page, w2) \<Rightarrow>
                 if page_Transactions page = [] then ((result, None), w2)
                 else case page_loop p result False (page_Transactions page) of
                   (result1, reachedBeforeWindow, capped) \<Rightarrow>
                     if capped then ((result1, None), w2)
                     else if reachedBeforeWindow then ((result1, None), w2)
                     else if next_before page = [] \<or> next_before page = before then ((result1, None), w2)
                     else fetch_loop E wallet p result1 (next_before page) (pageCount + 1) w2))"
  by pat_completeness auto
termination by (relation "measure (\<lambda>(E, wallet, p, result, before, pageCount, w). nat (fp_MaxPages p - pageCount))") auto

declare fetch_loop.simps [simp del]

definition FetchEnhancedWindow ::
  "'w env option \<Rightarrow> string \<Rightarrow> FetchWindowParams \<Rightarrow> 'w \<Rightarrow> (FetchWindowResult \<times> go_error option) \<times> 'w" where
  "FetchEnhancedWindow client wallet p w =
     (case client of
        None \<Rightarrow> ((empty_fetch, Some (Err ''helius client is required'')), w)
      | Some E \<Rightarrow>
          if fp_MaxPages p < 1 then ((empty_fetch, Some (Err ''max pages must be >= 1'')), w)
          else if fp_MaxTx p < 1 then ((empty_fetch, Some (Err ''max tx must be >= 1'')), w)
          else if \<not> fp_Start p < fp_End p
          then ((empty_fetch, Some (Err ''window must satisfy start < end'')), w)
          else fetch_loop E wallet p empty_fetch [] 0 w)"

section \<open>One page\<close>

definition in_window :: "FetchWindowParams \<Rightarrow> EnhancedTransaction \<Rightarrow> bool" where
  "in_window p tx \<longleftrightarrow> fp_Start p \<le> BlockTimeUTC tx \<and> BlockTimeUTC tx < fp_End p"

lemma truncated_simps [simp]:
  "fr_Transactions (truncated r c) = fr_Transactions r" "fr_Partial (truncated r c)"
  "fr_TruncationCode (truncated r c) = c" "fr_RetryExhausted (truncated r c) = fr_RetryExhausted r"
  by (simp_all add: truncated_def)

lemma page_loop_uncapped:
  assumes "page_loop p r reached txs = (r', reached', False)" and "fp_Start p < fp_End p"
  shows "r' = r\<lparr> fr_Transactions := fr_Transactions r @ filter (in_window p) txs \<rparr> \<and>
    (reached' \<longleftrightarrow> reached \<or> (\<exists>tx \<in> set txs. BlockTimeUTC tx < fp_Start p))"
  using assms
proof (induction p r reached txs rule: page_loop.induct)
  case (2 p r reached tx txs)
  consider "\<not> BlockTimeUTC tx < fp_End p" | "BlockTimeUTC tx < fp_Start p" "BlockTimeUTC tx < fp_End p"
    | "in_window p tx" unfolding in_window_def by linarith
  then show ?case
  proof cases
    case 1
    with 2 show ?thesis by (auto simp: in_window_def)
  next
    case 2: 2
    with "2.IH"(2) "2.prems" show ?thesis by (auto simp: in_window_def)
  next
    case 3
    with 2 show ?thesis by (auto simp: in_window_def Let_def split: if_splits)
  qed
qed auto

lemma page_loop_capped:
  assumes "page_loop p r reached txs = (r', reached', True)" and "int (length (fr_Transactions r)) < fp_MaxTx p"
  shows "\<exists>pre post. filter (in_window p) txs = pre @ post \<and> fr_Transactions r' = fr_Transactions r @ pre \<and>
    fr_Partial r' \<and> fr_TruncationCode r' = ''max_tx_per_wallet_reached'' \<and>
    fr_RetryExhausted r' = fr_RetryExhausted r \<and> int (length (fr_Transactions r')) = fp_MaxTx p"
  using assms
proof (induction p r reached txs rule: page_loop.induct)
  case (2 p r reached tx txs)
  let ?r1 = "r\<lparr> fr_Transactions := fr_Transactions r @ [tx] \<rparr>"
  consider "\<not> BlockTimeUTC tx < fp_End p" | "BlockTimeUTC tx < fp_Start p" "BlockTimeUTC tx < fp_End p"
    | "in_window p tx" "int (length (fr_Transactions ?r1)) \<ge> fp_MaxTx p"
    | "in_window p tx" "\<not> int (length (fr_Transactions ?r1)) \<ge> fp_MaxTx p"
    unfolding in_window_def by linarith
  then show ?case
  proof cases
    case 1
    with 2 show ?thesis by (auto simp: in_window_def)
  next
    case 2: 2
    with "2.IH"(2) "2.prems" show ?thesis by (auto simp: in_window_def)
  next
    case 3
    with 2 have "r' = truncated ?r1 ''max_tx_per_wallet_reached''" by (auto simp: in_window_def Let_def)
    with 3 "2.prems"(2) show ?thesis by (intro exI [of _ "[tx]"] exI [of _ "filter (in_window p) txs"]) auto
  next
    case 4
    obtain pre post where
      "filter (in_window p) txs = pre @ post" "fr_Transactions r' = fr_Transactions ?r1 @ pre"
      "fr_Partial r'" "fr_TruncationCode r' = ''max_tx_per_wallet_reached''"
      "fr_RetryExhausted r' = fr_RetryExhausted r" "int (length (fr_Transactions r')) = fp_MaxTx p"
      using "2.IH"(3) [OF refl _ _ refl] "2.prems" 4(1) [unfolded in_window_def] 4(2) by (auto simp: Let_def)
    with 4 show ?thesis by (intro exI [of _ "tx # pre"] exI [of _ post]) auto
  qed
qed auto

lemma page_loop_uncapped_length:
  "page_loop p r reached txs = (r', reached', False) \<Longrightarrow> int (length (fr_Transactions r)) < fp_MaxTx p
     \<Longrightarrow> int (length (fr_Transactions r')) \<le> fp_MaxTx p"
  by (induction p r reached txs rule: page_loop.induct) (auto simp: Let_def split: if_splits)

section \<open>The loop\<close>

text \<open>What one step of the retry loop and of the page loop can be.\<close>

lemma fetch_retry_loop_cases:
  obtains (page) page w1 where "env_FetchEnhancedPage E w wallet before = (Inr page, w1)"
      "fetch_retry_loop E wallet before m k w = (Inr page, w1)"
  | (fatal) err w1 where "env_FetchEnhancedPage E w wallet before = (Inl err, w1)" "\<not> IsRetryable err"
      "fetch_retry_loop E wallet before m k w = (Inl err, w1)"
  | (exhausted) err w1 where "env_FetchEnhancedPage E w wallet before = (Inl err, w1)" "IsRetryable err" "m \<le> k"
      "fetch_retry_loop E wallet before m k w = (Inl (RetryExhaustedErr err), w1)"
  | (interrupted) err w1 e w2 where "env_FetchEnhancedPage E w wallet before = (Inl err, w1)" "IsRetryable err" "k < m"
      "env_sleepContext E w1 (retryBackoff k) = (Some e, w2)"
      "fetch_retry_loop E wallet before m k w = (Inl e, w2)"
  | (again) err w1 w2 where "env_FetchEnhancedPage E w wallet before = (Inl err, w1)" "IsRetryable err" "k < m"
      "env_sleepContext E w1 (retryBackoff k) = (None, w2)"
      "fetch_retry_loop E wallet before m k w = fetch_retry_loop E wallet before m (k + 1) w2"
proof -
  obtain r w1 where r: "env_FetchEnhancedPage E w wallet before = (r, w1)" by fastforce
  obtain s w2 where s: "env_sleepContext E w1 (retryBackoff k) = (s, w2)" by fastforce
  show thesis
  proof (cases r)
    case (Inr p)
    with r show thesis by (intro page) (simp_all add: fetch_retry_loop.simps [of E wallet before m k w])
  next
    case (Inl err)
    consider "\<not> IsRetryable err" | "IsRetryable err" "m \<le> k" | "IsRetryable err" "k < m" "s \<noteq> None"
      | "IsRetryable err" "k < m" "s = None" by linarith
    then show thesis
      using r s Inl
      by cases (auto simp: fetch_retry_loop.simps [of E wallet before m k w]
          intro: fatal exhausted interrupted again)
  qed
qed

lemma fetch_retry_page:
  "fetch_retry_loop E wallet before m k w = (Inr page, w') \<Longrightarrow>
     \<exists>w0. env_FetchEnhancedPage E w0 wallet before = (Inr page, w')"
proof (induction E wallet before m k w rule: fetch_retry_loop.induct)
  case (1 E wallet before m k w)
  show ?case
    using fetch_retry_loop_cases [of E w wallet before m k]
  proof cases
    case (again err w1 w2)
    then show ?thesis using "1.IH" "1.prems" by simp
  qed (use "1.prems" in auto)
qed

lemma fetch_page_provider:
  "fetchPageWithRetry E wallet before m w = (Inr page, w') \<Longrightarrow>
     \<exists>w0. env_FetchEnhancedPage E w0 wallet before = (Inr page, w')"
  by (simp add: fetchPageWithRetry_def fetch_retry_page)

text \<open>The ways a step of the page loop can end, with the world left out where it does not matter.\<close>

lemma fetch_loop_cases:
  obtains (pages) "fp_MaxPages p \<le> n"
      "fetch_loop E wallet p r before n w = ((truncated r ''max_tx_pages_per_wallet_reached'', None), w)"
  | (full) "n < fp_MaxPages p" "fp_MaxTx p \<le> int (length (fr_Transactions r))"
      "fetch_loop E wallet p r before n w = ((truncated r ''max_tx_per_wallet_reached'', None), w)"
  | (error) e w' where "n < fp_MaxPages p" "int (length (fr_Transactions r)) < fp_MaxTx p"
      "fetch_loop E wallet p r before n w = ((r, Some e), w')"
  | (exhausted) w' where "n < fp_MaxPages p" "int (length (fr_Transactions r)) < fp_MaxTx p"
      "fetch_loop E wallet p r before n w =
         (((truncated r ''helius_retry_exhausted'')\<lparr> fr_RetryExhausted := True \<rparr>, None), w')"
  | (page) w0 page w1 r1 reached capped where "n < fp_MaxPages p" "int (length (fr_Transactions r)) < fp_MaxTx p"
      "fetchPageWithRetry E wallet before (fp_MaxRetries p) w0 = (Inr page, w1)"
      "page_loop p r False (page_Transactions page) = (r1, reached, capped)"
      "fetch_loop E wallet p r before n w =
         (if page_Transactions page = [] then ((r, None), w1)
          else if capped \<or> reached \<or> next_before page = [] \<or> next_before page = before then ((r1, None), w1)
          else fetch_loop E wallet p r1 (next_before page) (n + 1) w1)"
proof -
  note unf = fetch_loop.simps [of E wallet p r before n w]
  obtain s w0 where s: "(if n > 0 \<and> fp_RequestDelay p > 0 then env_sleepContext E w (fp_RequestDelay p)
                 else (None, w)) = (s, w0)" by fastforce
  obtain f w1 where f: "fetchPageWithRetry E wallet before (fp_MaxRetries p) w0 = (f, w1)" by fastforce
  consider "fp_MaxPages p \<le> n" | "n < fp_MaxPages p" "fp_MaxTx p \<le> int (length (fr_Transactions r))"
    | "n < fp_MaxPages p" "int (length (fr_Transactions r)) < fp_MaxTx p" by linarith
  then show thesis
  proof cases
    case 3
    show thesis
    proof (cases s)
      case (Some e)
      with 3 s show thesis by (intro error) (simp_all add: unf)
    next
      case None
      show thesis
      proof (cases f)
        case (Inl e)
        show thesis
        proof (cases "is_retry_exhausted e")
          case True
          with 3 s f None Inl show thesis by (intro exhausted) (simp_all add: unf)
        next
          case False
          with 3 s f None Inl show thesis by (intro error) (simp_all add: unf)
        qed
      next
        case (Inr pg)
        obtain r1 rc cp where "page_loop p r False (page_Transactions pg) = (r1, rc, cp)" by (metis prod_cases3)
        with 3 s f None Inr show thesis by (intro page) (auto simp: unf)
      qed
    qed
  qed (auto simp: unf intro: pages full)
qed

end
