(* ===== verification/Block_Scrape.thy ===== *)
theory Block_Scrape
imports Helius Complex_Main
begin

text \<open>
  \<open>internal/walletsource/block_scrape.go\<close>: wallets scraped from recent blocks. The RPC client and the random
  offset are parameters; a block is the decoded JSON, of which an instruction's \<open>info\<close> keeps the kinds of
  value the program asks for. The HTTP client behind the RPC interface is in \<open>Http_Clients\<close>.
\<close>

section \<open>Blocks\<close>

text \<open>A value of \<open>Info\<close>: a string, one of the number types \<open>parsedLamports\<close> knows (a \<open>float64\<close> is a rational),
  or anything else.\<close>

datatype info_value =
    InfoString string
  | InfoFloat rat
  | InfoInt64 int
  | InfoInt int
  | InfoNumber string
  | InfoOther

record RPCAccountKey =
  ak_Pubkey :: string
  ak_Signer :: bool
  ak_Writable :: bool
  ak_Source :: string

record RPCParsedInstruction =
  pi_Type :: string
  pi_Info :: "(string \<times> info_value) list option"

record RPCInstruction =
  ix_Program :: string
  ix_Parsed :: "RPCParsedInstruction option"

text \<open>The envelope with its \<open>transaction\<close> and \<open>meta\<close>; \<open>Err\<close> is \<open>None\<close> for null.\<close>

record RPCBlockTx =
  bt_Signatures :: "string list"
  bt_AccountKeys :: "RPCAccountKey list"
  bt_Instructions :: "RPCInstruction list"
  bt_Err :: "string option"

record RPCBlock =
  bl_BlockTime :: "int option"
  bl_Transactions :: "RPCBlockTx list"

record ScrapeOptions =
  so_StartSlot :: int
  so_BlockLookback :: int
  so_MaxBlocks :: int
  so_MaxWallets :: int
  so_MaxTXPerBlock :: int
  so_MaxNoisyInstructions :: int
  so_MinNativeLamports :: int
  so_MinScrapeCount :: int

record ScrapedWallet =
  sw_Address :: string
  sw_Count :: int
  sw_Outbound :: int
  sw_Inbound :: int

record blockWalletStats =
  bs_count :: int
  bs_outbound :: int
  bs_inbound :: int

record blockWalletObservation =
  bo_address :: string
  bo_outbound :: bool

text \<open>The client, and \<open>Intn\<close> of the seeded generator.\<close>

record 'w rpc =
  rpc_GetSlot :: "'w \<Rightarrow> (go_error + int) \<times> 'w"
  rpc_GetBlock :: "'w \<Rightarrow> int \<Rightarrow> (go_error + RPCBlock) \<times> 'w"
  rpc_Intn :: "'w \<Rightarrow> int \<Rightarrow> int \<times> 'w"

section \<open>Instructions\<close>

definition parsedInstructionType :: "RPCInstruction \<Rightarrow> string" where
  "parsedInstructionType ix = (case ix_Parsed ix of Some parsed \<Rightarrow> pi_Type parsed | None \<Rightarrow> ix_Program ix)"

definition instruction_kind :: "RPCInstruction \<Rightarrow> string" where
  "instruction_kind ix = to_lower (trim_space (parsedInstructionType ix))"

definition is_transfer_kind :: "string \<Rightarrow> bool" where
  "is_transfer_kind ixType \<longleftrightarrow> ixType = ''transfer'' \<or> ixType = ''transferchecked''"

fun quiet_counts :: "RPCInstruction list \<Rightarrow> int \<Rightarrow> int \<Rightarrow> int \<times> int" where
  "quiet_counts [] transferCount noisyCount = (transferCount, noisyCount)"
| "quiet_counts (ix # instructions) transferCount noisyCount =
     (let ixType = instruction_kind ix in
      if is_transfer_kind ixType then quiet_counts instructions (transferCount + 1) noisyCount
      else if ixType \<in> {''createaccount'', ''closeaccount'', ''syncnative''}
      then quiet_counts instructions transferCount noisyCount
      else if ixType \<in> {''setcomputeunitlimit'', ''setcomputeunitprice''}
      then quiet_counts instructions transferCount (noisyCount + 1)
      else quiet_counts instructions transferCount (if ixType \<noteq> [] then noisyCount + 1 else noisyCount))"

definition quietTransferLike :: "RPCInstruction list \<Rightarrow> int \<Rightarrow> bool" where
  "quietTransferLike instructions maxNoisy =
     (if instructions = [] then False
      else case quiet_counts instructions 0 0 of (transferCount, noisyCount) \<Rightarrow>
        transferCount > 0 \<and> noisyCount \<le> maxNoisy)"

text \<open>\<open>int64(v)\<close> of a \<open>float64\<close> truncates; out of the range the result is up to the implementation, \<open>wild\<close>.\<close>

definition float_to_int64 :: "(rat \<Rightarrow> int) \<Rightarrow> rat \<Rightarrow> int" where
  "float_to_int64 wild x =
     (let n = (if x < 0 then - \<lfloor>- x\<rfloor> else \<lfloor>x\<rfloor>) in if min_int64 \<le> n \<and> n \<le> max_int64 then n else wild x)"

definition parsedLamports :: "(rat \<Rightarrow> int) \<Rightarrow> info_value \<Rightarrow> int \<times> bool" where
  "parsedLamports wild value =
     (case value of
        InfoFloat x \<Rightarrow> (float_to_int64 wild x, True)
      | InfoInt64 n \<Rightarrow> (n, True)
      | InfoInt n \<Rightarrow> (n, True)
      | InfoNumber s \<Rightarrow> (case atoi s of Some n \<Rightarrow> (n, True) | None \<Rightarrow> (0, False))
      | _ \<Rightarrow> (0, False))"

text \<open>\<open>Info[key].(string)\<close> with the zero value for anything else, trimmed.\<close>

definition info_string :: "(string \<times> info_value) list \<Rightarrow> string \<Rightarrow> string" where
  "info_string info key = trim_space (case map_of info key of Some (InfoString s) \<Rightarrow> s | _ \<Rightarrow> [])"

definition observed :: "string \<Rightarrow> bool \<Rightarrow> blockWalletObservation list" where
  "observed address outbound =
     (if address \<noteq> [] then [\<lparr> bo_address = address, bo_outbound = outbound \<rparr>] else [])"

definition transferOwnerObservations ::
  "(rat \<Rightarrow> int) \<Rightarrow> RPCInstruction \<Rightarrow> (string \<times> info_value) list \<Rightarrow> int \<Rightarrow> blockWalletObservation list" where
  "transferOwnerObservations wild ix info minNativeLamports =
     (let observations = observed (info_string info ''authority'') True in
      if equal_fold (ix_Program ix) ''system''
      then (case parsedLamports wild (case map_of info ''lamports'' of Some v \<Rightarrow> v | None \<Rightarrow> InfoOther) of
          (lamports, ok) \<Rightarrow>
            if ok \<and> lamports < minNativeLamports then observations
            else observations @ observed (info_string info ''source'') True @
                   observed (info_string info ''destination'') False)
      else observations)"

text \<open>The instructions that carry a parsed transfer, with what it says.\<close>

definition transfer_info :: "RPCInstruction \<Rightarrow> (string \<times> info_value) list option" where
  "transfer_info ix =
     (if \<not> is_transfer_kind (instruction_kind ix) then None
      else case ix_Parsed ix of None \<Rightarrow> None | Some parsed \<Rightarrow> pi_Info parsed)"

fun parsed_observations ::
  "(rat \<Rightarrow> int) \<Rightarrow> int \<Rightarrow> blockWalletObservation list \<Rightarrow> bool \<Rightarrow> RPCInstruction list
     \<Rightarrow> blockWalletObservation list \<times> bool" where
  "parsed_observations wild minNativeLamports out hasParsedTransfer [] = (out, hasParsedTransfer)"
| "parsed_observations wild minNativeLamports out hasParsedTransfer (ix # instructions) =
     (case transfer_info ix of
        None \<Rightarrow> parsed_observations wild minNativeLamports out hasParsedTransfer instructions
      | Some info \<Rightarrow>
          parsed_observations wild minNativeLamports
            (foldl (\<lambda>out obs. if obs \<in> set out then out else out @ [obs]) out
               (transferOwnerObservations wild ix info minNativeLamports)) True instructions)"

definition parsedTransferOwnerObservations ::
  "(rat \<Rightarrow> int) \<Rightarrow> RPCInstruction list \<Rightarrow> int \<Rightarrow> blockWalletObservation list \<times> bool" where
  "parsedTransferOwnerObservations wild instructions minNativeLamports =
     parsed_observations wild minNativeLamports [] False instructions"

definition signerWallets :: "RPCAccountKey list \<Rightarrow> string list" where
  "signerWallets keys =
     map ak_Pubkey (filter (\<lambda>key. \<not> (\<not> ak_Signer key \<or> \<not> ak_Writable key \<or> ak_Source key = ''lookupTable'') \<and>
       trim_space (ak_Pubkey key) \<noteq> []) keys)"

section \<open>Scraping\<close>

definition withScrapeDefaults :: "ScrapeOptions \<Rightarrow> ScrapeOptions" where
  "withScrapeDefaults opts0 =
     (let lookback = (if so_BlockLookback opts0 \<le> 0 then 100 else so_BlockLookback opts0) in opts0
      \<lparr> so_BlockLookback := lookback,
        so_MaxBlocks := (if so_MaxBlocks opts0 \<le> 0 then lookback else so_MaxBlocks opts0),
        so_MaxWallets := (if so_MaxWallets opts0 \<le> 0 then 100 else so_MaxWallets opts0),
        so_MaxTXPerBlock := (if so_MaxTXPerBlock opts0 \<le> 0 then 200 else so_MaxTXPerBlock opts0),
        so_MaxNoisyInstructions := (if so_MaxNoisyInstructions opts0 < 0 then 0 else so_MaxNoisyInstructions opts0),
        so_MinNativeLamports := (if so_MinNativeLamports opts0 < 0 then 0 else so_MinNativeLamports opts0),
        so_MinScrapeCount := (if so_MinScrapeCount opts0 < 0 then 0 else so_MinScrapeCount opts0) \<rparr>)"

definition zero_wallet_stats :: blockWalletStats where
  "zero_wallet_stats = \<lparr> bs_count = 0, bs_outbound = 0, bs_inbound = 0 \<rparr>"

definition add_block_observation ::
  "(string \<times> blockWalletStats) list \<Rightarrow> blockWalletObservation \<Rightarrow> (string \<times> blockWalletStats) list" where
  "add_block_observation stats obs =
     (let rec = map_get zero_wallet_stats stats (bo_address obs);
          rec1 = rec\<lparr> bs_count := bs_count rec + 1 \<rparr>;
          rec2 = (if bo_outbound obs then rec1\<lparr> bs_outbound := bs_outbound rec1 + 1 \<rparr>
                  else rec1\<lparr> bs_inbound := bs_inbound rec1 + 1 \<rparr>)
      in map_set (bo_address obs) rec2 stats)"

text \<open>What a transaction contributes, the signers standing in where no transfer could be read.\<close>

definition tx_observations :: "(rat \<Rightarrow> int) \<Rightarrow> ScrapeOptions \<Rightarrow> RPCBlockTx \<Rightarrow> blockWalletObservation list" where
  "tx_observations wild opts tx =
     (case parsedTransferOwnerObservations wild (bt_Instructions tx) (so_MinNativeLamports opts) of
        (observations, hasParsedTransfer) \<Rightarrow>
          if observations = [] \<and> \<not> hasParsedTransfer
          then map (\<lambda>address. \<lparr> bo_address = address, bo_outbound = True \<rparr>) (signerWallets (bt_AccountKeys tx))
          else observations)"

fun inspect_block ::
  "(rat \<Rightarrow> int) \<Rightarrow> ScrapeOptions \<Rightarrow> int \<Rightarrow> (string \<times> blockWalletStats) list \<Rightarrow> RPCBlockTx list
     \<Rightarrow> (string \<times> blockWalletStats) list" where
  "inspect_block wild opts inspected stats [] = stats"
| "inspect_block wild opts inspected stats (tx # txs) =
     (if bt_Err tx \<noteq> None then inspect_block wild opts inspected stats txs
      else if \<not> quietTransferLike (bt_Instructions tx) (so_MaxNoisyInstructions opts)
      then inspect_block wild opts inspected stats txs
      else if so_MaxTXPerBlock opts > 0 \<and> inspected + 1 > so_MaxTXPerBlock opts then stats
      else inspect_block wild opts (inspected + 1)
             (foldl add_block_observation stats (tx_observations wild opts tx)) txs)"

function scrape_blocks ::
  "(rat \<Rightarrow> int) \<Rightarrow> 'w rpc \<Rightarrow> ScrapeOptions \<Rightarrow> int \<Rightarrow> int \<Rightarrow> (string \<times> blockWalletStats) list \<Rightarrow> 'w
     \<Rightarrow> (string \<times> blockWalletStats) list \<times> 'w" where
  "scrape_blocks wild rpc opts startSlot checked stats w =
     (if \<not> checked < so_BlockLookback opts then (stats, w)
      else if so_MaxBlocks opts > 0 \<and> checked \<ge> so_MaxBlocks opts then (stats, w)
      else if startSlot - checked \<le> 0 then (stats, w)
      else case rpc_GetBlock rpc w (startSlot - checked) of
          (Inl err, w1) \<Rightarrow> scrape_blocks wild rpc opts startSlot (checked + 1) stats w1
        | (Inr block, w1) \<Rightarrow>
            scrape_blocks wild rpc opts startSlot (checked + 1)
              (inspect_block wild opts 0 stats (bl_Transactions block)) w1)"
  by pat_completeness auto
termination
  by (relation "measure (\<lambda>(wild, rpc, opts, startSlot, checked, stats, w). nat (so_BlockLookback opts - checked))") auto

declare scrape_blocks.simps [simp del]

definition keeps_wallet :: "ScrapeOptions \<Rightarrow> blockWalletStats \<Rightarrow> bool" where
  "keeps_wallet opts stat \<longleftrightarrow>
     \<not> (bs_outbound stat = 0 \<or> bs_inbound stat > bs_outbound stat) \<and> \<not> bs_count stat < so_MinScrapeCount opts"

definition scored_lt :: "string \<times> blockWalletStats \<Rightarrow> string \<times> blockWalletStats \<Rightarrow> bool" where
  "scored_lt a b \<longleftrightarrow>
     (if bs_count (snd a) = bs_count (snd b) then fst a < fst b else bs_count (snd a) < bs_count (snd b))"

definition scraped_wallet :: "string \<times> blockWalletStats \<Rightarrow> ScrapedWallet" where
  "scraped_wallet w =
     \<lparr> sw_Address = fst w, sw_Count = bs_count (snd w), sw_Outbound = bs_outbound (snd w),
       sw_Inbound = bs_inbound (snd w) \<rparr>"

text \<open>The loop over the sorted wallets stops once \<open>MaxWallets\<close> are out.\<close>

fun output_wallets :: "int \<Rightarrow> ScrapedWallet list \<Rightarrow> (string \<times> blockWalletStats) list \<Rightarrow> ScrapedWallet list" where
  "output_wallets maxWallets out [] = out"
| "output_wallets maxWallets out (wallet # wallets) =
     (let out1 = out @ [scraped_wallet wallet] in
      if maxWallets > 0 \<and> int (length out1) \<ge> maxWallets then out1
      else output_wallets maxWallets out1 wallets)"

definition select_wallets :: "ScrapeOptions \<Rightarrow> (string \<times> blockWalletStats) list \<Rightarrow> ScrapedWallet list" where
  "select_wallets opts stats =
     output_wallets (so_MaxWallets opts) []
       (sort_slice scored_lt (filter (\<lambda>(address, stat). keeps_wallet opts stat) stats))"

definition start_slot :: "'w rpc \<Rightarrow> ScrapeOptions \<Rightarrow> 'w \<Rightarrow> (go_error + int) \<times> 'w" where
  "start_slot rpc opts w =
     (if so_StartSlot opts \<noteq> 0 then (Inr (so_StartSlot opts), w)
      else case rpc_GetSlot rpc w of
          (Inl err, w1) \<Rightarrow> (Inl (Wrapped ''get latest slot: '' err []), w1)
        | (Inr latest, w1) \<Rightarrow>
            if so_BlockLookback opts > 1
            then (case rpc_Intn rpc w1 (so_BlockLookback opts) of (offset, w2) \<Rightarrow> (Inr (wrap64 (latest - offset)), w2))
            else (Inr latest, w1))"

definition ScrapeRecentWallets ::
  "(rat \<Rightarrow> int) \<Rightarrow> 'w rpc option \<Rightarrow> ScrapeOptions \<Rightarrow> 'w \<Rightarrow> (go_error + ScrapedWallet list) \<times> 'w" where
  "ScrapeRecentWallets wild client opts0 w =
     (case client of
        None \<Rightarrow> (Inl (Err ''rpc client is required''), w)
      | Some rpc \<Rightarrow>
          let opts = withScrapeDefaults opts0 in
          (case start_slot rpc opts w of
             (Inl err, w1) \<Rightarrow> (Inl err, w1)
           | (Inr startSlot, w1) \<Rightarrow>
               (case scrape_blocks wild rpc opts startSlot 0 [] w1 of (stats, w2) \<Rightarrow>
                  (Inr (select_wallets opts stats), w2))))"

end
