(* ===== verification/Wallet_Stats.thy ===== *)
theory Wallet_Stats
imports Materialize Fetch Block_Scrape
begin

text \<open>
  \<open>internal/walletsource/source.go\<close>, the judgement of one wallet: the numbers taken from a sample of its
  transactions, the score, and the reasons to reject it. The functions on common prefixes and suffixes
  are those of \<open>Materialize\<close>, of which the package has its own copies.
\<close>

section \<open>Types\<close>

record walletStats =
  ws_address :: string
  ws_scrapeCount :: int
  ws_scrapeOutbound :: int
  ws_scrapeInbound :: int
  ws_sampleTransactions :: int
  ws_outboundTransfers :: int
  ws_inboundTransfers :: int
  ws_uniqueCounterparties :: int
  ws_legitOutboundCounterparties :: int
  ws_scanInboundDustTransfers :: int
  ws_uniqueDustRecipients :: int
  ws_repeatedInboundDustCounterparts :: int
  ws_lookalikeInboundDustMatches :: int
  ws_sourceScore :: int
  ws_maxSameTimestampTX :: int
  ws_maxTransfersPerTX :: int
  ws_unknownDustSPL :: int
  ws_discoveredFromSeeds :: int

record SourceOptions =
  op_SeedWalletFile :: string
  op_SeedWallets :: "string list"
  op_ScrapeStats :: "(string \<times> ScrapedWallet) list"
  op_ScoreSeedWallets :: bool
  op_DiscoverNeighbors :: bool
  op_OutPath :: string
  op_RejectedOutPath :: string
  op_ScanStart :: gotime
  op_ScanEnd :: gotime
  op_BaselineLookback :: duration
  op_TargetCount :: int
  op_MaxSeedWallets :: int
  op_MaxCandidates :: int
  op_SeedMaxPages :: int
  op_CandidateMaxPages :: int
  op_MaxTXPerWallet :: int
  op_MaxRetries :: int
  op_RequestDelay :: duration
  op_MinOutbound :: int
  op_MaxAcceptedTX :: int
  op_MaxSameTimestampTX :: int
  op_MaxTransfersPerTX :: int
  op_MaxUnknownDustSPL :: int
  op_MinScanInboundDust :: int
  op_MinUniqueDustRecipients :: int
  op_KnownDustAssetKeys :: "string list"
  op_DeepDiveTopN :: int
  op_DeepDiveMaxPages :: int
  op_DeepDiveMaxTX :: int
  op_DeepDiveMinScore :: int
  op_SourceMode :: string

definition SourceModeVictimInboundDust :: string where
  "SourceModeVictimInboundDust = ''victim_inbound_dust''"

definition SourceModeAttackerOutboundDust :: string where
  "SourceModeAttackerOutboundDust = ''attacker_outbound_dust''"

definition normalizeSourceMode :: "string \<Rightarrow> string" where
  "normalizeSourceMode mode =
     (if trim_space mode = [] \<or> trim_space mode = SourceModeVictimInboundDust then SourceModeVictimInboundDust
      else if trim_space mode = SourceModeAttackerOutboundDust then SourceModeAttackerOutboundDust
      else SourceModeVictimInboundDust)"

section \<open>Amounts\<close>

text \<open>A loop over the runes of a text that looks for one that is not a digit finds one exactly when some byte
  is not one: every byte of a longer encoding is above the ASCII range.\<close>

definition amountRawIsZero :: "string \<Rightarrow> bool" where
  "amountRawIsZero v0 =
     (let v = trim_space v0 in if v = [] then False else list_all (\<lambda>r. r = CHR ''0'') v)"

definition amountRawLTE :: "string \<Rightarrow> int \<Rightarrow> bool" where
  "amountRawLTE v0 threshold =
     (let v = trim_space v0 in
      if v = [] then False
      else if \<not> list_all is_ascii_digit v then False
      else
      let trimmed = dropWhile (\<lambda>r. r = CHR ''0'') v in
      if trimmed = [] then True
      else
      let thresholdText = show_int threshold in
      if length trimmed \<noteq> length thresholdText then length trimmed < length thresholdText
      else trimmed \<le> thresholdText)"

section \<open>Dust\<close>

definition DefaultKnownDustThresholds :: "(string \<times> int) list" where
  "DefaultKnownDustThresholds =
     [(''SOL'', 1000), (''So11111111111111111111111111111111111111112'', 1000),
      (''EPjFWdd5AufqSSqeM2qN1xzybapC8G4wEGGkZwyTDt1v'', 1000),
      (''Es9vMFrzaCERmJfrF4H2FYD4KCoNkY11McCe8BenwNYB'', 1000)]"

definition DefaultKnownDustAssetKeys :: "string list" where
  "DefaultKnownDustAssetKeys = sort (map fst DefaultKnownDustThresholds)"

definition knownDustThresholdMap :: "string list \<Rightarrow> (string \<times> int) list" where
  "knownDustThresholdMap keys =
     foldl (\<lambda>out key0. let key = trim_space key0 in
       if key = [] then out
       else case map_of DefaultKnownDustThresholds key of
           None \<Rightarrow> out
         | Some threshold \<Rightarrow> map_set key threshold out) [] keys"

definition sourceDustStatus :: "NormalizedTransfer \<Rightarrow> (string \<times> int) list \<Rightarrow> DustStatus" where
  "sourceDustStatus tr knownDustThresholds =
     (if amountRawIsZero (tr_AmountRaw tr) then DustTrue
      else if tr_AssetType tr \<noteq> AssetTypeNativeSOL \<and> tr_AssetType tr \<noteq> AssetTypeSPLFungible then DustUnknown
      else case map_of knownDustThresholds (tr_AssetKey tr) of
          None \<Rightarrow> DustUnknown
        | Some threshold \<Rightarrow> if amountRawLTE (tr_AmountRaw tr) threshold then DustTrue else DustFalse)"

definition transferNeedsKnownDustThreshold :: "NormalizedTransfer \<Rightarrow> (string \<times> int) list \<Rightarrow> bool" where
  "transferNeedsKnownDustThreshold tr knownDustThresholds =
     (if tr_AssetType tr \<noteq> AssetTypeSPLFungible then False
      else if amountRawIsZero (tr_AmountRaw tr) then False
      else map_of knownDustThresholds (tr_AssetKey tr) = None)"

definition hasLookalikeMatch :: "string \<Rightarrow> string list \<Rightarrow> bool" where
  "hasLookalikeMatch suspicious legit =
     list_ex (\<lambda>candidate.
       let prefix = commonPrefixLength suspicious candidate; suffix = commonSuffixLength suspicious candidate in
       (prefix \<ge> 4 \<and> suffix \<ge> 4) \<or> prefix \<ge> 6 \<or> suffix \<ge> 6) legit"

section \<open>The sample of a wallet\<close>

text \<open>The variables of \<open>summarizeWallet\<close>. A set is the list of its members.\<close>

record summary =
  sm_stats :: walletStats
  sm_counterparties :: "string list"
  sm_legitOutbound :: "string list"
  sm_dust :: "(string \<times> int) list"
  sm_sameTimestamp :: "(int \<times> int) list"

definition empty_stats :: "string \<Rightarrow> int \<Rightarrow> walletStats" where
  "empty_stats address n =
     \<lparr> ws_address = address, ws_scrapeCount = 0, ws_scrapeOutbound = 0, ws_scrapeInbound = 0,
       ws_sampleTransactions = n, ws_outboundTransfers = 0, ws_inboundTransfers = 0, ws_uniqueCounterparties = 0,
       ws_legitOutboundCounterparties = 0, ws_scanInboundDustTransfers = 0, ws_uniqueDustRecipients = 0,
       ws_repeatedInboundDustCounterparts = 0, ws_lookalikeInboundDustMatches = 0, ws_sourceScore = 0,
       ws_maxSameTimestampTX = 0, ws_maxTransfersPerTX = 0, ws_unknownDustSPL = 0, ws_discoveredFromSeeds = 0 \<rparr>"

definition sourceScore :: "walletStats \<Rightarrow> int" where
  "sourceScore stats =
     ws_lookalikeInboundDustMatches stats * 100 + ws_repeatedInboundDustCounterparts stats * 50 +
     ws_scanInboundDustTransfers stats * 10 + ws_legitOutboundCounterparties stats * 3 + ws_discoveredFromSeeds stats"

definition usable :: "NormalizedTransfer \<Rightarrow> bool" where
  "usable tr \<longleftrightarrow> \<not> (\<not> tr_PoisoningEligible tr \<or> tr_NormalizationStatus tr \<noteq> NormalizationResolved)"

definition count_dust :: "string \<Rightarrow> summary \<Rightarrow> summary" where
  "count_dust counterparty s =
     s\<lparr> sm_dust := map_set counterparty (map_get 0 (sm_dust s) counterparty + 1) (sm_dust s) \<rparr>"

definition count_unknown :: "NormalizedTransfer \<Rightarrow> (string \<times> int) list \<Rightarrow> summary \<Rightarrow> summary" where
  "count_unknown tr known s =
     (if transferNeedsKnownDustThreshold tr known
      then s\<lparr> sm_stats := (sm_stats s)\<lparr> ws_unknownDustSPL := ws_unknownDustSPL (sm_stats s) + 1 \<rparr> \<rparr> else s)"

text \<open>\<open>early\<close> is \<open>tx.BlockTimeUTC().Before(scanStart)\<close>.\<close>

definition outbound_case ::
  "string \<Rightarrow> (string \<times> int) list \<Rightarrow> bool \<Rightarrow> NormalizedTransfer \<Rightarrow> summary \<Rightarrow> summary" where
  "outbound_case address known early tr s0 =
     (let s = s0\<lparr> sm_stats := (sm_stats s0)\<lparr> ws_outboundTransfers := ws_outboundTransfers (sm_stats s0) + 1 \<rparr> \<rparr>;
          d = tr_DestinationOwnerAddress tr;
          s1 = (if d \<noteq> [] \<and> d \<noteq> address
                then s\<lparr> sm_counterparties := List.insert d (sm_counterparties s),
                       sm_legitOutbound := (if early \<and> sourceDustStatus tr known = DustFalse
                          then List.insert d (sm_legitOutbound s) else sm_legitOutbound s) \<rparr>
                else s)
      in count_unknown tr known s1)"

definition inbound_case ::
  "string \<Rightarrow> string \<Rightarrow> (string \<times> int) list \<Rightarrow> bool \<Rightarrow> NormalizedTransfer \<Rightarrow> summary \<Rightarrow> summary" where
  "inbound_case address mode known early tr s0 =
     (let s = s0\<lparr> sm_stats := (sm_stats s0)\<lparr> ws_inboundTransfers := ws_inboundTransfers (sm_stats s0) + 1 \<rparr> \<rparr>;
          c = tr_SourceOwnerAddress tr;
          s1 = (if c \<noteq> [] \<and> c \<noteq> address
                then (let s' = s\<lparr> sm_counterparties := List.insert c (sm_counterparties s) \<rparr> in
                  if mode = SourceModeVictimInboundDust \<and> \<not> early \<and> sourceDustStatus tr known = DustTrue
                  then count_dust c s' else s')
                else s)
      in count_unknown tr known s1)"

text \<open>One transfer; the number is \<open>transfersInTx\<close>.\<close>

definition summarize_transfer ::
  "string \<Rightarrow> string \<Rightarrow> (string \<times> int) list \<Rightarrow> bool \<Rightarrow> summary \<times> int \<Rightarrow> NormalizedTransfer \<Rightarrow> summary \<times> int" where
  "summarize_transfer address mode known early acc tr =
     (case acc of (s, n) \<Rightarrow>
      if \<not> usable tr then (s, n)
      else
      let (s1, n1) =
            (if tr_SourceOwnerAddress tr = address then (outbound_case address known early tr s, n + 1)
             else if tr_DestinationOwnerAddress tr = address then (inbound_case address mode known early tr s, n + 1)
             else (s, n));
          d = tr_DestinationOwnerAddress tr
      in if mode = SourceModeAttackerOutboundDust \<and> tr_SourceOwnerAddress tr = address \<and> d \<noteq> [] \<and> d \<noteq> address \<and>
            \<not> early \<and> sourceDustStatus tr known = DustTrue
         then (count_dust d s1, n1) else (s1, n1))"

definition count_timestamp :: "int \<Rightarrow> summary \<Rightarrow> summary" where
  "count_timestamp t s =
     (let n = map_get 0 (sm_sameTimestamp s) t + 1 in s
      \<lparr> sm_sameTimestamp := map_set t n (sm_sameTimestamp s),
        sm_stats := (if n > ws_maxSameTimestampTX (sm_stats s)
                     then (sm_stats s)\<lparr> ws_maxSameTimestampTX := n \<rparr> else sm_stats s) \<rparr>)"

definition summarize_tx ::
  "(string \<Rightarrow> string) \<Rightarrow> string \<Rightarrow> gotime \<Rightarrow> (string \<times> int) list \<Rightarrow> string \<Rightarrow> summary \<Rightarrow> EnhancedTransaction \<Rightarrow> summary" where
  "summarize_tx sha address scanStart known mode s0 tx =
     (let s = count_timestamp (tx_TimestampUnix tx) s0 in
      case NormalizeEnhancedTx sha tx of
        Inl _ \<Rightarrow> s
      | Inr transfers \<Rightarrow>
          (case foldl (summarize_transfer address mode known (BlockTimeUTC tx < scanStart)) (s, 0) transfers of
             (s1, n) \<Rightarrow>
               if n > ws_maxTransfersPerTX (sm_stats s1)
               then s1\<lparr> sm_stats := (sm_stats s1)\<lparr> ws_maxTransfersPerTX := n \<rparr> \<rparr> else s1))"

text \<open>The last loop and the assignments around it.\<close>

definition count_counterparty :: "string list \<Rightarrow> walletStats \<Rightarrow> string \<times> int \<Rightarrow> walletStats" where
  "count_counterparty legitOutbound stats kv =
     (case kv of (counterparty, n) \<Rightarrow> stats
      \<lparr> ws_scanInboundDustTransfers := ws_scanInboundDustTransfers stats + n,
        ws_repeatedInboundDustCounterparts := ws_repeatedInboundDustCounterparts stats + (if n \<ge> 2 then 1 else 0),
        ws_lookalikeInboundDustMatches := ws_lookalikeInboundDustMatches stats +
          (if hasLookalikeMatch counterparty legitOutbound then 1 else 0) \<rparr>)"

definition finish_summary :: "summary \<Rightarrow> walletStats" where
  "finish_summary s =
     (let stats0 = (sm_stats s)
            \<lparr> ws_uniqueCounterparties := int (length (sm_counterparties s)),
              ws_legitOutboundCounterparties := int (length (sm_legitOutbound s)) \<rparr>;
          stats1 = foldl (count_counterparty (sm_legitOutbound s)) stats0 (sm_dust s);
          stats2 = stats1\<lparr> ws_uniqueDustRecipients := int (length (sm_dust s)) \<rparr>
      in stats2\<lparr> ws_sourceScore := sourceScore stats2 \<rparr>)"

definition summarizeWallet ::
  "(string \<Rightarrow> string) \<Rightarrow> string \<Rightarrow> EnhancedTransaction list \<Rightarrow> gotime \<Rightarrow> (string \<times> int) list \<Rightarrow> string \<Rightarrow> walletStats" where
  "summarizeWallet sha address txs scanStart known mode =
     finish_summary (foldl (summarize_tx sha address scanStart known mode)
       \<lparr> sm_stats = empty_stats address (int (length txs)), sm_counterparties = [], sm_legitOutbound = [], sm_dust = [],
         sm_sameTimestamp = [] \<rparr> txs)"

section \<open>The judgement\<close>

definition shouldDeepDive :: "walletStats \<Rightarrow> string \<Rightarrow> SourceOptions \<Rightarrow> bool" where
  "shouldDeepDive stats truncationCode opts =
     (if op_DeepDiveTopN opts \<le> 0 then False
      else if truncationCode \<noteq> ''max_tx_pages_per_wallet_reached'' \<and> truncationCode \<noteq> ''max_tx_per_wallet_reached''
      then False
      else if ws_scanInboundDustTransfers stats < op_MinScanInboundDust opts then False
      else if op_SourceMode opts = SourceModeAttackerOutboundDust then True
      else if ws_sourceScore stats < op_DeepDiveMinScore opts then False
      else True)"

definition statsRejectReason :: "walletStats \<Rightarrow> SourceOptions \<Rightarrow> string option" where
  "statsRejectReason stats opts =
     (if ws_sampleTransactions stats = 0 then Some ''no_sample_transactions''
      else if ws_sampleTransactions stats > op_MaxAcceptedTX opts then Some ''too_many_sample_transactions''
      else if ws_outboundTransfers stats < op_MinOutbound opts then Some ''insufficient_outbound_history''
      else if ws_maxSameTimestampTX stats > op_MaxSameTimestampTX opts then Some ''bursty_same_timestamp_activity''
      else if ws_maxTransfersPerTX stats > op_MaxTransfersPerTX opts then Some ''batch_transfer_activity''
      else if ws_unknownDustSPL stats > op_MaxUnknownDustSPL opts then Some ''unknown_dust_spl_activity''
      else if ws_scanInboundDustTransfers stats < op_MinScanInboundDust opts
      then (if op_SourceMode opts = SourceModeAttackerOutboundDust then Some ''insufficient_outbound_dust_activity''
            else Some ''insufficient_inbound_dust_activity'')
      else if op_SourceMode opts = SourceModeAttackerOutboundDust \<and>
              ws_uniqueDustRecipients stats < op_MinUniqueDustRecipients opts
      then Some ''insufficient_unique_dust_recipients''
      else None)"

end
