(* ===== verification/Runs_Wallets.thy ===== *)
theory Runs_Wallets
imports Go_Prelude Complex_Main
begin

text \<open>
  \<open>internal/runs\<close> (statuses, counters, the two sync windows) and \<open>internal/wallets\<close> (the wallet lists
  a run starts from). \<open>TruncationWalletRate\<close> is the exact quotient; the code keeps the nearest
  \<open>float64\<close>. A wallet file is a parameter: the lines the scanner yields and the error it reports.
\<close>

section \<open>Runs\<close>

datatype RunStatus =
    RunStatusRunning
  | RunStatusSucceeded
  | RunStatusPartiallySucceeded
  | RunStatusFailed
  | RunStatusTimedOut
  | RunStatusCancelled

datatype WalletStatus =
    WalletStatusNone
  | WalletStatusQueued
  | WalletStatusRunning
  | WalletStatusSucceeded
  | WalletStatusPartial
  | WalletStatusFailed
  | WalletStatusRateLimited
  | WalletStatusTimedOut
  | WalletStatusSkippedInvalid
  | WalletStatusSkippedBudget

text \<open>\<open>WalletStatusNone\<close> is the empty string, the status of a report nobody filled in.\<close>

record WalletSyncWindow =
  win_BaselineStart :: gotime
  win_BaselineEnd :: gotime
  win_ScanStart :: gotime
  win_ScanEnd :: gotime

record Counters =
  c_WalletsRequested :: int
  c_WalletsProcessed :: int
  c_WalletsFailed :: int
  c_WalletsSkipped :: int
  c_WalletTimeoutCount :: int
  c_WalletCapHitCount :: int
  c_TruncationWalletCount :: int
  c_TruncationWalletRate :: rat
  c_TransactionsFetched :: int
  c_TransactionsInserted :: int
  c_TransactionsLinked :: int
  c_TransactionsFailedNormalize :: int
  c_OwnerUnresolvedCount :: int
  c_UnsupportedAssetCount :: int
  c_DecimalsUnresolvedCount :: int
  c_UnknownGateBlockCount :: int
  c_CandidateBlockCount :: int
  c_CounterpartiesCreated :: int
  c_CounterpartiesUpdated :: int
  c_PoisoningCandidatesInserted :: int
  c_RetryExhaustedCount :: int

definition zero_counters :: Counters where
  "zero_counters =
     \<lparr> c_WalletsRequested = 0, c_WalletsProcessed = 0, c_WalletsFailed = 0, c_WalletsSkipped = 0,
       c_WalletTimeoutCount = 0, c_WalletCapHitCount = 0, c_TruncationWalletCount = 0,
       c_TruncationWalletRate = 0, c_TransactionsFetched = 0, c_TransactionsInserted = 0,
       c_TransactionsLinked = 0, c_TransactionsFailedNormalize = 0, c_OwnerUnresolvedCount = 0,
       c_UnsupportedAssetCount = 0, c_DecimalsUnresolvedCount = 0, c_UnknownGateBlockCount = 0,
       c_CandidateBlockCount = 0, c_CounterpartiesCreated = 0, c_CounterpartiesUpdated = 0,
       c_PoisoningCandidatesInserted = 0, c_RetryExhaustedCount = 0 \<rparr>"

definition IsPartial :: "bool \<Rightarrow> bool \<Rightarrow> bool" where
  "IsPartial progressPersisted hardFailure \<longleftrightarrow> progressPersisted \<and> hardFailure"

text \<open>\<open>AddDate(0, 0, -n)\<close> on a UTC time is a shift by whole days.\<close>

definition BuildWindow :: "gotime \<Rightarrow> gotime \<Rightarrow> int \<Rightarrow> WalletSyncWindow" where
  "BuildWindow scanStart scanEnd baselineLookbackDays =
     \<lparr> win_BaselineStart = scanStart - baselineLookbackDays * nanos_per_day,
       win_BaselineEnd = scanStart,
       win_ScanStart = scanStart,
       win_ScanEnd = scanEnd \<rparr>"

lemma BuildWindow_simps [simp]:
  "win_BaselineEnd (BuildWindow s e n) = s" "win_ScanStart (BuildWindow s e n) = s"
  "win_ScanEnd (BuildWindow s e n) = e"
  "win_BaselineStart (BuildWindow s e n) = s - n * nanos_per_day"
  by (simp_all add: BuildWindow_def)

lemma BuildWindow_baseline: "1 \<le> n \<Longrightarrow> win_BaselineStart (BuildWindow s e n) < win_BaselineEnd (BuildWindow s e n)"
  by (simp add: nanos_per_day_def)

section \<open>Wallet lists\<close>

text \<open>A line counts unless it is blank or a comment.\<close>

definition is_address_line :: "string \<Rightarrow> bool" where
  "is_address_line addr \<longleftrightarrow> addr \<noteq> [] \<and> \<not> has_prefix addr ''#''"

text \<open>What a \<open>bufio.Scanner\<close> over a wallet file does: the lines it yields, what \<open>Err()\<close> says if the
  loop stops after \<open>k\<close> of them, and what it says after the last.\<close>

record WalletFile =
  wf_lines :: "string list"
  wf_break_err :: "nat \<Rightarrow> go_error option"
  wf_end_err :: "go_error option"

fun collect_addresses ::
  "string list \<Rightarrow> int \<Rightarrow> nat \<Rightarrow> string list \<Rightarrow> string list \<Rightarrow> string list \<Rightarrow> string list \<times> nat option" where
  "collect_addresses excluded limit k seen out [] = (out, None)"
| "collect_addresses excluded limit k seen out (line # lines) =
     (let addr = trim_space line in
      if \<not> is_address_line addr then collect_addresses excluded limit (Suc k) seen out lines
      else if addr \<in> set excluded then collect_addresses excluded limit (Suc k) seen out lines
      else if addr \<in> set seen then collect_addresses excluded limit (Suc k) seen out lines
      else let out' = out @ [addr] in
        if limit > 0 \<and> int (length out') \<ge> limit then (out', Some (Suc k))
        else collect_addresses excluded limit (Suc k) (addr # seen) out' lines)"

definition load_addresses ::
  "(string \<Rightarrow> go_error + WalletFile) \<Rightarrow> string list \<Rightarrow> string \<Rightarrow> int \<Rightarrow> go_error + string list" where
  "load_addresses fs excluded path limit =
     (case fs path of
        Inl e \<Rightarrow> Inl (Wrapped ''open wallet file: '' e [])
      | Inr f \<Rightarrow>
          (case collect_addresses excluded limit 0 [] [] (wf_lines f) of (out, stopped) \<Rightarrow>
             (case (case stopped of None \<Rightarrow> wf_end_err f | Some k \<Rightarrow> wf_break_err f k) of
                Some e \<Rightarrow> Inl (Wrapped ''read wallet file: '' e [])
              | None \<Rightarrow> Inr out)))"

text \<open>The call for the exclusion file has no exclusion file of its own, so the recursion ends there.\<close>

definition LoadAddressesExcludingFile ::
  "(string \<Rightarrow> go_error + WalletFile) \<Rightarrow> string \<Rightarrow> string \<Rightarrow> int \<Rightarrow> go_error + string list" where
  "LoadAddressesExcludingFile fs path excludePath limit =
     (if excludePath = [] then load_addresses fs [] path limit
      else case load_addresses fs [] excludePath 0 of
          Inl e \<Rightarrow> Inl (Wrapped ''load excluded wallet file: '' e [])
        | Inr excluded \<Rightarrow> load_addresses fs excluded path limit)"

definition LoadAddressesFromFile ::
  "(string \<Rightarrow> go_error + WalletFile) \<Rightarrow> string \<Rightarrow> int \<Rightarrow> go_error + string list" where
  "LoadAddressesFromFile fs path limit = LoadAddressesExcludingFile fs path [] limit"

fun normalize_loop :: "int \<Rightarrow> string list \<Rightarrow> string list \<Rightarrow> string list \<Rightarrow> string list \<times> string list" where
  "normalize_loop limit seen out [] = (out, seen)"
| "normalize_loop limit seen out (raw # addresses) =
     (let addr = trim_space raw in
      if \<not> is_address_line addr then normalize_loop limit seen out addresses
      else if addr \<in> set seen then normalize_loop limit seen out addresses
      else if limit > 0 \<and> int (length out) \<ge> limit then normalize_loop limit (addr # seen) out addresses
      else normalize_loop limit (addr # seen) (out @ [addr]) addresses)"

definition NormalizeAddresses :: "string list \<Rightarrow> int \<Rightarrow> string list \<times> int" where
  "NormalizeAddresses addresses limit =
     (case normalize_loop limit [] [] addresses of (out, seen) \<Rightarrow> (out, int (length seen)))"

section \<open>What the lists are\<close>

definition listed :: "string list \<Rightarrow> string list \<Rightarrow> string list" where
  "listed excluded lines =
     dedup_by (\<lambda>a. a) [] (filter (\<lambda>a. is_address_line a \<and> a \<notin> set excluded) (map trim_space lines))"

definition bounded :: "int \<Rightarrow> 'a list \<Rightarrow> 'a list" where
  "bounded limit xs = (if limit > 0 then take (nat limit) xs else xs)"

lemma collect_addresses_eq:
  assumes "limit > 0 \<longrightarrow> int (length out) < limit"
  shows "fst (collect_addresses excluded limit k seen out lines) =
    bounded limit (out @ dedup_by (\<lambda>a. a) seen (filter (\<lambda>a. is_address_line a \<and> a \<notin> set excluded) (map trim_space lines)))"
  using assms
proof (induction lines arbitrary: k seen out)
  case (Cons line lines)
  have "take (nat limit) (out @ trim_space line # r) = out @ [trim_space line]"
    if "limit > 0" "int (length out) + 1 \<ge> limit" for r
  proof -
    have "nat limit = Suc (length out)" using Cons.prems that by auto
    then show ?thesis by simp
  qed
  with Cons show ?case by (auto simp: Let_def bounded_def)
qed (auto simp: bounded_def)

lemma collect_addresses_listed:
  "fst (collect_addresses excluded limit k [] [] lines) = bounded limit (listed excluded lines)"
  by (simp add: collect_addresses_eq listed_def)

lemma load_addresses_InrD:
  assumes "load_addresses fs excluded path limit = Inr out"
  shows "\<exists>f. fs path = Inr f \<and> out = bounded limit (listed excluded (wf_lines f))"
proof (cases "fs path")
  case (Inr f)
  then have "out = fst (collect_addresses excluded limit 0 [] [] (wf_lines f))"
    using assms by (auto simp: load_addresses_def split: prod.splits option.splits)
  with Inr show ?thesis by (simp add: collect_addresses_listed)
qed (use assms in \<open>simp add: load_addresses_def\<close>)

lemma normalize_loop_out:
  assumes "limit > 0 \<longrightarrow> int (length out) \<le> limit"
  shows "fst (normalize_loop limit seen out xs) =
    bounded limit (out @ dedup_by (\<lambda>a. a) seen (filter is_address_line (map trim_space xs)))"
  using assms by (induction xs arbitrary: seen out) (auto simp: Let_def bounded_def)

lemma normalize_loop_seen:
  "snd (normalize_loop limit seen out xs) =
     rev (dedup_by (\<lambda>a. a) seen (filter is_address_line (map trim_space xs))) @ seen"
  by (induction xs arbitrary: seen out) (auto simp: Let_def)

lemma set_dedup_id [simp]: "set (dedup_by (\<lambda>a. a) seen xs) = set xs - set seen"
  using dedup_by_keys [of "\<lambda>a. a" seen xs] by simp

lemma set_listed:
  "set (listed excluded lines) = {a. \<exists>l \<in> set lines. a = trim_space l \<and> is_address_line a \<and> a \<notin> set excluded}"
  by (auto simp: listed_def)

lemma distinct_listed: "distinct (listed excluded lines)"
  using dedup_by_distinct [of "\<lambda>a. a" "[]"] by (simp add: listed_def)

lemma set_bounded: "set (bounded limit xs) \<subseteq> set xs"
  by (auto simp: bounded_def dest: in_set_takeD)

lemma distinct_bounded: "distinct xs \<Longrightarrow> distinct (bounded limit xs)"
  by (simp add: bounded_def)

lemma length_bounded: "limit > 0 \<Longrightarrow> int (length (bounded limit xs)) \<le> limit"
  by (simp add: bounded_def)

lemma NormalizeAddresses_eq:
  "NormalizeAddresses xs limit = (bounded limit (listed [] xs), int (length (listed [] xs)))"
proof -
  have "fst (normalize_loop limit [] [] xs) = bounded limit (listed [] xs)"
    by (simp add: normalize_loop_out listed_def)
  moreover have "length (snd (normalize_loop limit [] [] xs)) = length (listed [] xs)"
    by (simp add: normalize_loop_seen listed_def)
  ultimately show ?thesis by (cases "normalize_loop limit [] [] xs") (simp add: NormalizeAddresses_def)
qed

section \<open>Properties\<close>

text \<open>A wallet list read from a file, if the read succeeds: no address twice, at most \<open>limit\<close> of
  them (for a positive limit), none blank, padded, a comment, or listed in the exclusion file; and
  without a limit it holds every such address.\<close>

theorem wallet_list:
  assumes "LoadAddressesExcludingFile fs path excludePath limit = Inr out"
  shows "\<exists>f. fs path = Inr f \<and> distinct out \<and> (limit > 0 \<longrightarrow> int (length out) \<le> limit) \<and>
    (\<exists>excluded. (if excludePath = [] then excluded = [] else LoadAddressesFromFile fs excludePath 0 = Inr excluded) \<and>
       (let eligible = {a. \<exists>l \<in> set (wf_lines f). a = trim_space l \<and> is_address_line a \<and> a \<notin> set excluded}
        in set out \<subseteq> eligible \<and> (limit \<le> 0 \<longrightarrow> set out = eligible)))"
proof -
  obtain excluded where
    ex: "if excludePath = [] then excluded = [] else LoadAddressesFromFile fs excludePath 0 = Inr excluded"
    and l: "load_addresses fs excluded path limit = Inr out"
    using assms
    by (cases "excludePath = []")
      (auto simp: LoadAddressesExcludingFile_def LoadAddressesFromFile_def split: sum.splits)
  from load_addresses_InrD [OF l] obtain f
    where f: "fs path = Inr f" and out: "out = bounded limit (listed excluded (wf_lines f))" by blast
  have "limit \<le> 0 \<longrightarrow> out = listed excluded (wf_lines f)" by (simp add: out bounded_def)
  then show ?thesis
    using f ex set_bounded [of limit "listed excluded (wf_lines f)"] set_listed [of excluded "wf_lines f"]
    by (intro exI [of _ f] conjI exI [of _ excluded])
      (auto simp: Let_def out distinct_bounded distinct_listed length_bounded)
qed

text \<open>An explicit wallet list is refused exactly when it has more distinct addresses than the
  limit; otherwise none is lost.\<close>

theorem explicit_list_complete:
  assumes "0 < limit" and "NormalizeAddresses xs limit = (out, n)"
  shows "(n > int (length out) \<longleftrightarrow> int (card {a. \<exists>x \<in> set xs. a = trim_space x \<and> is_address_line a}) > limit) \<and>
    (n \<le> int (length out) \<longrightarrow> set out = {a. \<exists>x \<in> set xs. a = trim_space x \<and> is_address_line a}) \<and>
    distinct out \<and> int (length out) \<le> limit"
proof -
  have n: "n = int (length (listed [] xs))" and out: "out = bounded limit (listed [] xs)"
    using assms(2) by (simp_all add: NormalizeAddresses_eq)
  have s: "set (listed [] xs) = {a. \<exists>x \<in> set xs. a = trim_space x \<and> is_address_line a}"
    by (simp add: set_listed)
  then have "card {a. \<exists>x \<in> set xs. a = trim_space x \<and> is_address_line a} = length (listed [] xs)"
    using distinct_card [OF distinct_listed, of "[]" xs] by simp
  moreover have len: "length out = min (length (listed [] xs)) (nat limit)"
    using assms(1) by (simp add: out bounded_def)
  then have "n > int (length out) \<longleftrightarrow> int (length (listed [] xs)) > limit"
    using assms(1) unfolding n by linarith
  moreover have "n \<le> int (length out) \<longrightarrow> set out = set (listed [] xs)"
  proof
    assume "n \<le> int (length out)"
    then have "length (listed [] xs) \<le> nat limit" unfolding n len by linarith
    then show "set out = set (listed [] xs)" by (simp add: out bounded_def)
  qed
  moreover have "distinct out" by (simp add: out distinct_bounded distinct_listed)
  moreover have "int (length out) \<le> limit" using assms(1) len by linarith
  ultimately show ?thesis by (simp add: s)
qed

section \<open>Witnesses\<close>

text \<open>Two files: a list with a comment, padding and a duplicate, and a list of addresses to skip.\<close>

definition sample_fs :: "string \<Rightarrow> go_error + WalletFile" where
  "sample_fs path =
     (if path = ''wallets.txt''
      then Inr \<lparr> wf_lines = [''# header'', '' a'', ''b'', ''a'', ''c''], wf_break_err = (\<lambda>_. None), wf_end_err = None \<rparr>
      else if path = ''skip.txt''
      then Inr \<lparr> wf_lines = [''b''], wf_break_err = (\<lambda>_. None), wf_end_err = None \<rparr>
      else Inl (Err ''no such file''))"

lemma sample_load: "LoadAddressesExcludingFile sample_fs ''wallets.txt'' ''skip.txt'' 5 = Inr [''a'', ''c'']"
  by code_simp

theorem wallet_list_witness:
  "\<exists>f. sample_fs ''wallets.txt'' = Inr f \<and> length (wf_lines f) = 5 \<and> distinct [''a'', ''c'']"
  using wallet_list [OF sample_load] by (auto simp: sample_fs_def)

lemma sample_explicit: "NormalizeAddresses ['' a'', ''b'', ''a'', ''#x'', ''c''] 2 = ([''a'', ''b''], 3)"
  by code_simp

theorem explicit_list_complete_witness:
  "card {a. \<exists>x \<in> set ['' a'', ''b'', ''a'', ''#x'', ''c'']. a = trim_space x \<and> is_address_line a} > 2"
  using explicit_list_complete [OF _ sample_explicit] by simp

end
