(* ===== verification/Wallet_Source.thy ===== *)
theory Wallet_Source
imports Wallet_Stats Runs_Wallets
begin

text \<open>
  \<open>internal/walletsource/source.go\<close>, the sourcing of wallets: seeds, discovery of their neighbours, a sample
  of every candidate, a deeper second sample of the promising ones whose first was cut, and the ranking.
  The provider is the \<open>env\<close> of \<open>Helius\<close>, the files are \<open>files\<close>; both act on the world. The order in which Go
  visits the map of discovered wallets is that of the list; the sort that follows it hides it.
\<close>

section \<open>Types\<close>

datatype deepDiveStatus =
    deepDiveStatusNotQueued
  | deepDiveStatusQueuedTopNSkip
  | deepDiveStatusRetriedQualified
  | deepDiveStatusRetriedCapHit
  | deepDiveStatusRetriedOtherReject

primrec deep_dive_str :: "deepDiveStatus \<Rightarrow> string" where
  "deep_dive_str deepDiveStatusNotQueued = ''not_queued''"
| "deep_dive_str deepDiveStatusQueuedTopNSkip = ''queued_top_n_skip''"
| "deep_dive_str deepDiveStatusRetriedQualified = ''retried_qualified''"
| "deep_dive_str deepDiveStatusRetriedCapHit = ''retried_cap_hit''"
| "deep_dive_str deepDiveStatusRetriedOtherReject = ''retried_other_reject''"

record AcceptedWallet =
  aw_Address :: string
  aw_ScrapeCount :: int
  aw_ScrapeOutbound :: int
  aw_ScrapeInbound :: int
  aw_SampleTransactions :: int
  aw_OutboundTransfers :: int
  aw_InboundTransfers :: int
  aw_UniqueCounterparties :: int
  aw_LegitOutboundCounterparties :: int
  aw_ScanInboundDustTransfers :: int
  aw_UniqueDustRecipients :: int
  aw_RepeatedInboundDustCounterparts :: int
  aw_LookalikeInboundDustMatches :: int
  aw_SourceScore :: int
  aw_DiscoveredFromSeeds :: int

text \<open>A rejected wallet has the same numbers, with the reason and the state of the deep dive.\<close>

record RejectedWallet =
  rj_Wallet :: AcceptedWallet
  rj_Reason :: string
  rj_DeepDiveStatus :: deepDiveStatus

record SourceResult =
  sr_Accepted :: "AcceptedWallet list"
  sr_Rejected :: "RejectedWallet list"

record candidateDiscovery =
  dc_address :: string
  dc_seeds :: "string list"

record deepDiveCandidate =
  dd_discovery :: candidateDiscovery
  dd_initialStats :: walletStats
  dd_truncationCode :: string

text \<open>\<open>os.MkdirAll\<close> and \<open>os.WriteFile\<close>.\<close>

record 'w files =
  fl_MkdirAll :: "string \<Rightarrow> 'w \<Rightarrow> go_error option \<times> 'w"
  fl_WriteFile :: "string \<Rightarrow> string \<Rightarrow> 'w \<Rightarrow> go_error option \<times> 'w"

definition acceptedFromStats :: "walletStats \<Rightarrow> AcceptedWallet" where
  "acceptedFromStats s =
     \<lparr> aw_Address = ws_address s, aw_ScrapeCount = ws_scrapeCount s, aw_ScrapeOutbound = ws_scrapeOutbound s,
       aw_ScrapeInbound = ws_scrapeInbound s, aw_SampleTransactions = ws_sampleTransactions s,
       aw_OutboundTransfers = ws_outboundTransfers s, aw_InboundTransfers = ws_inboundTransfers s,
       aw_UniqueCounterparties = ws_uniqueCounterparties s,
       aw_LegitOutboundCounterparties = ws_legitOutboundCounterparties s,
       aw_ScanInboundDustTransfers = ws_scanInboundDustTransfers s,
       aw_UniqueDustRecipients = ws_uniqueDustRecipients s,
       aw_RepeatedInboundDustCounterparts = ws_repeatedInboundDustCounterparts s,
       aw_LookalikeInboundDustMatches = ws_lookalikeInboundDustMatches s,
       aw_SourceScore = ws_sourceScore s, aw_DiscoveredFromSeeds = ws_discoveredFromSeeds s \<rparr>"

definition rejectedFromStatsWithDeepDiveStatus :: "walletStats \<Rightarrow> string \<Rightarrow> deepDiveStatus \<Rightarrow> RejectedWallet" where
  "rejectedFromStatsWithDeepDiveStatus s reason status =
     \<lparr> rj_Wallet = acceptedFromStats s, rj_Reason = reason, rj_DeepDiveStatus = status \<rparr>"

definition rejectedFromStats :: "walletStats \<Rightarrow> string \<Rightarrow> RejectedWallet" where
  "rejectedFromStats s reason = rejectedFromStatsWithDeepDiveStatus s reason deepDiveStatusNotQueued"

section \<open>Options and seeds\<close>

definition withDefaults :: "SourceOptions \<Rightarrow> SourceOptions" where
  "withDefaults o0 =
     (let pos = (\<lambda>x d. if x \<le> 0 then d else x);
          pages = pos (op_CandidateMaxPages o0) (5 :: int);
          maxTx = pos (op_MaxTXPerWallet o0) 400
      in o0
      \<lparr> op_TargetCount := pos (op_TargetCount o0) 30,
        op_MaxSeedWallets := pos (op_MaxSeedWallets o0) 10,
        op_MaxCandidates := pos (op_MaxCandidates o0) 100,
        op_SeedMaxPages := pos (op_SeedMaxPages o0) 3,
        op_CandidateMaxPages := pages,
        op_MaxTXPerWallet := maxTx,
        op_MinOutbound := pos (op_MinOutbound o0) 1,
        op_MinUniqueDustRecipients := pos (op_MinUniqueDustRecipients o0) 10,
        op_MaxAcceptedTX := pos (op_MaxAcceptedTX o0) maxTx,
        op_MaxSameTimestampTX := pos (op_MaxSameTimestampTX o0) 5,
        op_MaxTransfersPerTX := pos (op_MaxTransfersPerTX o0) 4,
        op_DeepDiveTopN := (if op_DeepDiveTopN o0 < 0 then 0 else op_DeepDiveTopN o0),
        op_DeepDiveMaxPages := pos (op_DeepDiveMaxPages o0) (wrap64 (pages + 2)),
        op_DeepDiveMaxTX := pos (op_DeepDiveMaxTX o0) (wrap64 (maxTx + 200)),
        op_DeepDiveMinScore := pos (op_DeepDiveMinScore o0) 40,
        op_KnownDustAssetKeys := (if op_KnownDustAssetKeys o0 = [] then DefaultKnownDustAssetKeys else op_KnownDustAssetKeys o0),
        op_DiscoverNeighbors := (if \<not> op_ScoreSeedWallets o0 \<and> \<not> op_DiscoverNeighbors o0 then True else op_DiscoverNeighbors o0),
        op_SourceMode := normalizeSourceMode (op_SourceMode o0) \<rparr>)"

text \<open>A line of the file without its comment.\<close>

definition wallet_line :: "string \<Rightarrow> string" where
  "wallet_line text =
     (let line = trim_space text in
      if CHR ''#'' \<in> set line then trim_space (takeWhile (\<lambda>c. c \<noteq> CHR ''#'') line) else line)"

definition readWalletLines :: "(string \<Rightarrow> go_error + WalletFile) \<Rightarrow> string \<Rightarrow> go_error + string list" where
  "readWalletLines fs path =
     (case fs path of
        Inl e \<Rightarrow> Inl (Wrapped (''open wallet file '' @ path @ '': '') e [])
      | Inr f \<Rightarrow>
          (let out = dedup_by (\<lambda>a. a) [] (filter (\<lambda>line. line \<noteq> []) (map wallet_line (wf_lines f))) in
           case wf_end_err f of
             Some e \<Rightarrow> Inl (Wrapped (''read wallet file '' @ path @ '': '') e [])
           | None \<Rightarrow> Inr out))"

definition loadSeedWallets ::
  "(string \<Rightarrow> go_error + WalletFile) \<Rightarrow> string \<Rightarrow> string list \<Rightarrow> go_error + string list" where
  "loadSeedWallets fs path explicit =
     (let out = dedup_by (\<lambda>a. a) [] (filter (\<lambda>wallet. wallet \<noteq> []) (map trim_space explicit)) in
      if path = [] then Inr out
      else case readWalletLines fs path of
          Inl e \<Rightarrow> Inl e
        | Inr fromFile \<Rightarrow> Inr (out @ dedup_by (\<lambda>a. a) out fromFile))"

section \<open>Discovery\<close>

text \<open>\<open>seedSet\<close> is \<open>None\<close> for the nil map.\<close>

definition addDiscovered ::
  "string \<Rightarrow> string list option \<Rightarrow> (string \<times> candidateDiscovery) list \<Rightarrow> string \<Rightarrow> (string \<times> candidateDiscovery) list" where
  "addDiscovered seed seedSet discovered address0 =
     (let address = trim_space address0 in
      if address = [] then discovered
      else if (case seedSet of None \<Rightarrow> False | Some seeds \<Rightarrow> address \<in> set seeds) then discovered
      else let rec = map_get \<lparr> dc_address = address, dc_seeds = [] \<rparr> discovered address in
        map_set address (rec\<lparr> dc_seeds := List.insert seed (dc_seeds rec) \<rparr>) discovered)"

definition discovery_lt :: "candidateDiscovery \<Rightarrow> candidateDiscovery \<Rightarrow> bool" where
  "discovery_lt a b \<longleftrightarrow>
     (if length (dc_seeds a) = length (dc_seeds b) then dc_address a < dc_address b
      else length (dc_seeds a) > length (dc_seeds b))"

definition sortedDiscoveries :: "(string \<times> candidateDiscovery) list \<Rightarrow> candidateDiscovery list" where
  "sortedDiscoveries discovered = sort_slice discovery_lt (map snd discovered)"

definition source_window :: "SourceOptions \<Rightarrow> int \<Rightarrow> int \<Rightarrow> FetchWindowParams" where
  "source_window opts pages maxTx =
     \<lparr> fp_Start = op_ScanStart opts - op_BaselineLookback opts, fp_End = op_ScanEnd opts, fp_MaxPages = pages,
       fp_MaxTx = maxTx, fp_MaxRetries = op_MaxRetries opts, fp_RequestDelay = op_RequestDelay opts \<rparr>"

definition discover_neighbors ::
  "(string \<Rightarrow> string) \<Rightarrow> string \<Rightarrow> string list \<Rightarrow> (string \<times> candidateDiscovery) list \<Rightarrow> EnhancedTransaction list
     \<Rightarrow> (string \<times> candidateDiscovery) list" where
  "discover_neighbors sha seed seedSet discovered txs =
     foldl (\<lambda>discovered tx. case NormalizeEnhancedTx sha tx of
         Inl _ \<Rightarrow> discovered
       | Inr transfers \<Rightarrow>
           foldl (\<lambda>discovered tr. addDiscovered seed (Some seedSet)
               (addDiscovered seed (Some seedSet) discovered (tr_SourceOwnerAddress tr)) (tr_DestinationOwnerAddress tr))
             discovered transfers) discovered txs"

fun discover ::
  "(string \<Rightarrow> string) \<Rightarrow> 'w env option \<Rightarrow> SourceOptions \<Rightarrow> string list \<Rightarrow> (string \<times> candidateDiscovery) list
     \<Rightarrow> string list \<Rightarrow> 'w \<Rightarrow> (go_error + (string \<times> candidateDiscovery) list) \<times> 'w" where
  "discover sha client opts seedSet0 discovered0 [] w = (Inr discovered0, w)"
| "discover sha client opts seedSet0 discovered0 (seed # seeds) w =
     (let seedSet = List.insert seed seedSet0;
          discovered = (if op_ScoreSeedWallets opts then addDiscovered seed None discovered0 seed else discovered0)
      in if \<not> op_DiscoverNeighbors opts then discover sha client opts seedSet discovered seeds w
      else case FetchEnhancedWindow client seed
                 (source_window opts (op_SeedMaxPages opts) (op_MaxTXPerWallet opts)) w of
          ((_, Some fetchErr), w1) \<Rightarrow> (Inl (Wrapped (''fetch seed wallet '' @ seed @ '': '') fetchErr []), w1)
        | ((page, None), w1) \<Rightarrow>
            discover sha client opts seedSet
              (discover_neighbors sha seed seedSet discovered (fr_Transactions page)) seeds w1)"

section \<open>Candidates\<close>

text \<open>The lists \<open>Source\<close> fills.\<close>

record sourcing =
  sc_eligible :: "walletStats list"
  sc_queue :: "deepDiveCandidate list"
  sc_rejected :: "RejectedWallet list"

definition reject :: "RejectedWallet \<Rightarrow> sourcing \<Rightarrow> sourcing" where
  "reject r st = st\<lparr> sc_rejected := sc_rejected st @ [r] \<rparr>"

definition qualify :: "walletStats \<Rightarrow> sourcing \<Rightarrow> sourcing" where
  "qualify stats st = st\<lparr> sc_eligible := sc_eligible st @ [stats] \<rparr>"

definition enqueue :: "deepDiveCandidate \<Rightarrow> sourcing \<Rightarrow> sourcing" where
  "enqueue c st = st\<lparr> sc_queue := sc_queue st @ [c] \<rparr>"

definition zero_scraped :: ScrapedWallet where
  "zero_scraped = \<lparr> sw_Address = [], sw_Count = 0, sw_Outbound = 0, sw_Inbound = 0 \<rparr>"

definition with_scrape :: "ScrapedWallet \<Rightarrow> walletStats \<Rightarrow> walletStats" where
  "with_scrape scrape stats = stats
     \<lparr> ws_scrapeCount := sw_Count scrape, ws_scrapeOutbound := sw_Outbound scrape,
       ws_scrapeInbound := sw_Inbound scrape \<rparr>"

definition fetch_error_reject :: "SourceOptions \<Rightarrow> candidateDiscovery \<Rightarrow> RejectedWallet" where
  "fetch_error_reject opts c =
     rejectedFromStats
       ((with_scrape (map_get zero_scraped (op_ScrapeStats opts) (dc_address c)) (empty_stats (dc_address c) 0))
         \<lparr> ws_discoveredFromSeeds := int (length (dc_seeds c)) \<rparr>) ''fetch_error''"

text \<open>The numbers of a candidate's sample, with those of the scrape and the final score.\<close>

definition sample_stats ::
  "(string \<Rightarrow> string) \<Rightarrow> SourceOptions \<Rightarrow> (string \<times> int) list \<Rightarrow> candidateDiscovery \<Rightarrow> EnhancedTransaction list \<Rightarrow> walletStats" where
  "sample_stats sha opts known c txs =
     (let stats0 = summarizeWallet sha (dc_address c) txs (op_ScanStart opts) known (op_SourceMode opts);
          stats1 = (case map_of (op_ScrapeStats opts) (dc_address c) of
              None \<Rightarrow> stats0 | Some scrape \<Rightarrow> with_scrape scrape stats0);
          stats2 = stats1\<lparr> ws_discoveredFromSeeds := int (length (dc_seeds c)) \<rparr>
      in stats2\<lparr> ws_sourceScore := sourceScore stats2 \<rparr>)"

definition cap_reason :: "string \<Rightarrow> string" where
  "cap_reason code = ''activity_cap_reached:'' @ code"

definition judge_candidate ::
  "SourceOptions \<Rightarrow> candidateDiscovery \<Rightarrow> FetchWindowResult \<Rightarrow> walletStats \<Rightarrow> sourcing \<Rightarrow> sourcing" where
  "judge_candidate opts c page stats st =
     (if fr_Partial page
      then (if shouldDeepDive stats (fr_TruncationCode page) opts
            then enqueue \<lparr> dd_discovery = c, dd_initialStats = stats, dd_truncationCode = fr_TruncationCode page \<rparr> st
            else reject (rejectedFromStats stats (cap_reason (fr_TruncationCode page))) st)
      else if fr_RetryExhausted page then reject (rejectedFromStats stats ''helius_retry_exhausted'') st
      else case statsRejectReason stats opts of
          Some reason \<Rightarrow> reject (rejectedFromStats stats reason) st
        | None \<Rightarrow> qualify stats st)"

fun score_loop ::
  "(string \<Rightarrow> string) \<Rightarrow> 'w env option \<Rightarrow> SourceOptions \<Rightarrow> (string \<times> int) list \<Rightarrow> sourcing \<Rightarrow> candidateDiscovery list
     \<Rightarrow> 'w \<Rightarrow> sourcing \<times> 'w" where
  "score_loop sha client opts known st [] w = (st, w)"
| "score_loop sha client opts known st (c # candidates) w =
     (case FetchEnhancedWindow client (dc_address c)
             (source_window opts (op_CandidateMaxPages opts) (op_MaxTXPerWallet opts)) w of
        ((_, Some fetchErr), w1) \<Rightarrow>
          score_loop sha client opts known (reject (fetch_error_reject opts c) st) candidates w1
      | ((page, None), w1) \<Rightarrow>
          score_loop sha client opts known
            (judge_candidate opts c page (sample_stats sha opts known c (fr_Transactions page)) st) candidates w1)"

section \<open>Deep dives\<close>

definition deep_lt :: "deepDiveCandidate \<Rightarrow> deepDiveCandidate \<Rightarrow> bool" where
  "deep_lt a b \<longleftrightarrow>
     (if ws_sourceScore (dd_initialStats a) = ws_sourceScore (dd_initialStats b)
      then ws_address (dd_initialStats a) < ws_address (dd_initialStats b)
      else ws_sourceScore (dd_initialStats a) > ws_sourceScore (dd_initialStats b))"

definition judge_deep ::
  "SourceOptions \<Rightarrow> FetchWindowResult \<Rightarrow> walletStats \<Rightarrow> sourcing \<Rightarrow> sourcing" where
  "judge_deep opts page stats st =
     (if fr_Partial page
      then reject (rejectedFromStatsWithDeepDiveStatus stats (cap_reason (fr_TruncationCode page)) deepDiveStatusRetriedCapHit) st
      else if fr_RetryExhausted page
      then reject (rejectedFromStatsWithDeepDiveStatus stats ''helius_retry_exhausted'' deepDiveStatusRetriedOtherReject) st
      else case statsRejectReason stats opts of
          Some reason \<Rightarrow> reject (rejectedFromStatsWithDeepDiveStatus stats reason deepDiveStatusRetriedOtherReject) st
        | None \<Rightarrow> qualify stats st)"

fun deep_loop ::
  "(string \<Rightarrow> string) \<Rightarrow> 'w env option \<Rightarrow> SourceOptions \<Rightarrow> (string \<times> int) list \<Rightarrow> int \<Rightarrow> sourcing
     \<Rightarrow> deepDiveCandidate list \<Rightarrow> 'w \<Rightarrow> sourcing \<times> 'w" where
  "deep_loop sha client opts known idx st [] w = (st, w)"
| "deep_loop sha client opts known idx st (cand # queue) w =
     (if idx \<ge> op_DeepDiveTopN opts
      then deep_loop sha client opts known (idx + 1)
             (reject (rejectedFromStatsWithDeepDiveStatus (dd_initialStats cand) (cap_reason (dd_truncationCode cand))
                        deepDiveStatusQueuedTopNSkip) st) queue w
      else if op_TargetCount opts > 0 \<and> int (length (sc_eligible st)) \<ge> op_TargetCount opts
      then deep_loop sha client opts known (idx + 1)
             (reject (rejectedFromStatsWithDeepDiveStatus (dd_initialStats cand) ''target_count_reached''
                        deepDiveStatusQueuedTopNSkip) st) queue w
      else case FetchEnhancedWindow client (dc_address (dd_discovery cand))
                  (source_window opts (op_DeepDiveMaxPages opts) (op_DeepDiveMaxTX opts)) w of
          ((_, Some err), w1) \<Rightarrow>
            deep_loop sha client opts known (idx + 1)
              (reject (rejectedFromStatsWithDeepDiveStatus (dd_initialStats cand) ''deep_dive_fetch_error''
                         deepDiveStatusRetriedOtherReject) st) queue w1
        | ((reFetched, None), w1) \<Rightarrow>
            deep_loop sha client opts known (idx + 1)
              (judge_deep opts reFetched
                 (sample_stats sha opts known (dd_discovery cand) (fr_Transactions reFetched)) st) queue w1)"

definition deep_stage ::
  "(string \<Rightarrow> string) \<Rightarrow> 'w env option \<Rightarrow> SourceOptions \<Rightarrow> (string \<times> int) list \<Rightarrow> sourcing \<Rightarrow> 'w \<Rightarrow> sourcing \<times> 'w" where
  "deep_stage sha client opts known st w =
     (if sc_queue st \<noteq> [] \<and> op_DeepDiveTopN opts > 0
      then deep_loop sha client opts known 0 st (sort_slice deep_lt (sc_queue st)) w
      else (st, w))"

section \<open>Output\<close>

definition rank_lt :: "walletStats \<Rightarrow> walletStats \<Rightarrow> bool" where
  "rank_lt a b \<longleftrightarrow>
     (if ws_sourceScore a = ws_sourceScore b
      then if ws_scanInboundDustTransfers a = ws_scanInboundDustTransfers b
        then if ws_legitOutboundCounterparties a = ws_legitOutboundCounterparties b
          then ws_address a < ws_address b
          else ws_legitOutboundCounterparties a > ws_legitOutboundCounterparties b
        else ws_scanInboundDustTransfers a > ws_scanInboundDustTransfers b
      else ws_sourceScore a > ws_sourceScore b)"

fun accept_loop :: "int \<Rightarrow> int \<Rightarrow> SourceResult \<Rightarrow> walletStats list \<Rightarrow> SourceResult" where
  "accept_loop target i result [] = result"
| "accept_loop target i result (stats # eligible) =
     (if target > 0 \<and> i \<ge> target
      then accept_loop target (i + 1)
             (result\<lparr> sr_Rejected := sr_Rejected result @ [rejectedFromStats stats ''target_count_reached''] \<rparr>) eligible
      else accept_loop target (i + 1)
             (result\<lparr> sr_Accepted := sr_Accepted result @ [acceptedFromStats stats] \<rparr>) eligible)"

definition write_text :: "'w files \<Rightarrow> string \<Rightarrow> string \<Rightarrow> string \<Rightarrow> 'w \<Rightarrow> go_error option \<times> 'w" where
  "write_text fl what path text w =
     (case fl_MkdirAll fl (path_dir path) w of
        (Some err, w1) \<Rightarrow>
          if path_dir path \<noteq> ''.'' then (Some (Wrapped (''create '' @ what @ '' output dir: '') err []), w1)
          else fl_WriteFile fl path text w1
      | (None, w1) \<Rightarrow> fl_WriteFile fl path text w1)"

definition accepted_text :: "AcceptedWallet list \<Rightarrow> string" where
  "accepted_text accepted = join [CHR 0x0A] (map aw_Address accepted) @ [CHR 0x0A]"

definition writeAccepted :: "'w files \<Rightarrow> string \<Rightarrow> AcceptedWallet list \<Rightarrow> 'w \<Rightarrow> go_error option \<times> 'w" where
  "writeAccepted fl path accepted w = write_text fl ''accepted'' path (accepted_text accepted) w"

definition rejected_header :: "string list" where
  "rejected_header =
     [''address'', ''reason'', ''deep_dive_status'', ''scrape_count'', ''scrape_outbound'', ''scrape_inbound'',
      ''sample_transactions'', ''outbound_transfers'', ''inbound_transfers'', ''unique_counterparties'',
      ''legit_outbound_counterparties'', ''scan_inbound_dust_transfers'', ''unique_dust_recipients'',
      ''repeated_inbound_dust_counterparties'', ''lookalike_inbound_dust_matches'', ''source_score'',
      ''discovered_from_seeds'']"

definition rejected_fields :: "RejectedWallet \<Rightarrow> string list" where
  "rejected_fields r =
     (let a = rj_Wallet r in
      [aw_Address a, rj_Reason r, deep_dive_str (rj_DeepDiveStatus r)] @
      map (\<lambda>f. show_int (f a))
        [aw_ScrapeCount, aw_ScrapeOutbound, aw_ScrapeInbound, aw_SampleTransactions, aw_OutboundTransfers,
         aw_InboundTransfers, aw_UniqueCounterparties, aw_LegitOutboundCounterparties,
         aw_ScanInboundDustTransfers, aw_UniqueDustRecipients, aw_RepeatedInboundDustCounterparts,
         aw_LookalikeInboundDustMatches, aw_SourceScore, aw_DiscoveredFromSeeds])"

definition tsv_line :: "string list \<Rightarrow> string" where
  "tsv_line cols = join [CHR 0x09] cols @ [CHR 0x0A]"

definition rejected_text :: "RejectedWallet list \<Rightarrow> string" where
  "rejected_text rejected = concat (map tsv_line (rejected_header # map rejected_fields rejected))"

definition writeRejected :: "'w files \<Rightarrow> string \<Rightarrow> RejectedWallet list \<Rightarrow> 'w \<Rightarrow> go_error option \<times> 'w" where
  "writeRejected fl path rejected w = write_text fl ''rejected'' path (rejected_text rejected) w"

section \<open>The whole\<close>

text \<open>From the candidates to the result, before anything is written.\<close>

definition source_result ::
  "(string \<Rightarrow> string) \<Rightarrow> 'w env option \<Rightarrow> SourceOptions \<Rightarrow> candidateDiscovery list \<Rightarrow> 'w \<Rightarrow> SourceResult \<times> 'w" where
  "source_result sha client opts candidates w =
     (let known = knownDustThresholdMap (op_KnownDustAssetKeys opts) in
      case score_loop sha client opts known \<lparr> sc_eligible = [], sc_queue = [], sc_rejected = [] \<rparr> candidates w of
        (st1, w1) \<Rightarrow>
      case deep_stage sha client opts known st1 w1 of
        (st2, w2) \<Rightarrow>
          (accept_loop (op_TargetCount opts) 0 \<lparr> sr_Accepted = [], sr_Rejected = sc_rejected st2 \<rparr>
             (sort_slice rank_lt (sc_eligible st2)), w2))"

definition write_result :: "'w files \<Rightarrow> SourceOptions \<Rightarrow> SourceResult \<Rightarrow> 'w \<Rightarrow> (go_error + SourceResult) \<times> 'w" where
  "write_result fl opts result w =
     (case writeAccepted fl (op_OutPath opts) (sr_Accepted result) w of
        (Some err, w1) \<Rightarrow> (Inl err, w1)
      | (None, w1) \<Rightarrow>
          (case writeRejected fl (op_RejectedOutPath opts) (sr_Rejected result) w1 of
             (Some err, w2) \<Rightarrow> (Inl err, w2)
           | (None, w2) \<Rightarrow> (Inr result, w2)))"

definition at_most :: "int \<Rightarrow> 'a list \<Rightarrow> 'a list" where
  "at_most limit xs = (if limit > 0 \<and> int (length xs) > limit then take (nat limit) xs else xs)"

definition Source ::
  "(string \<Rightarrow> string) \<Rightarrow> (string \<Rightarrow> go_error + WalletFile) \<Rightarrow> 'w files \<Rightarrow> 'w env option \<Rightarrow> SourceOptions \<Rightarrow> 'w
     \<Rightarrow> (go_error + SourceResult) \<times> 'w" where
  "Source sha fs fl client opts0 w =
     (if Option.is_none client then (Inl (Err ''helius client is required''), w)
      else if op_SeedWalletFile opts0 = [] \<and> op_SeedWallets opts0 = []
      then (Inl (Err ''seed wallet file or seed wallets are required''), w)
      else if op_OutPath opts0 = [] then (Inl (Err ''out path is required''), w)
      else if op_RejectedOutPath opts0 = [] then (Inl (Err ''rejected out path is required''), w)
      else if \<not> op_ScanStart opts0 < op_ScanEnd opts0
      then (Inl (Err ''scan window must satisfy start < end''), w)
      else
      let opts = withDefaults opts0 in
      case loadSeedWallets fs (op_SeedWalletFile opts) (op_SeedWallets opts) of
        Inl err \<Rightarrow> (Inl err, w)
      | Inr seeds \<Rightarrow>
      if seeds = [] then (Inl (Err ''seed wallet file has no wallets''), w)
      else
      (case discover sha client opts [] [] (at_most (op_MaxSeedWallets opts) seeds) w of
        (Inl err, w1) \<Rightarrow> (Inl err, w1)
      | (Inr discovered, w1) \<Rightarrow>
      (case source_result sha client opts (at_most (op_MaxCandidates opts) (sortedDiscoveries discovered)) w1 of
        (result, w2) \<Rightarrow> write_result fl opts result w2)))"

definition SourceDiscovered ::
  "(string \<Rightarrow> string) \<Rightarrow> (string \<Rightarrow> go_error + WalletFile) \<Rightarrow> 'w files \<Rightarrow> 'w env option \<Rightarrow> string list \<Rightarrow> SourceOptions
     \<Rightarrow> 'w \<Rightarrow> (go_error + SourceResult) \<times> 'w" where
  "SourceDiscovered sha fs fl client seeds opts w =
     Source sha fs fl client
       (opts\<lparr> op_SeedWallets := seeds, op_SeedWalletFile := [], op_ScoreSeedWallets := True,
             op_DiscoverNeighbors := False \<rparr>) w"

end
