(* ===== verification/Fetch_Spec.thy ===== *)
theory Fetch_Spec
imports Fetch
begin

text \<open>
  What the bounded fetch promises: bounds on the result and on the number of provider calls for any
  provider, and completeness for a provider that serves a newest-first history page by page.
\<close>

section \<open>Results\<close>

definition fetch_good :: "FetchWindowParams \<Rightarrow> FetchWindowResult \<Rightarrow> bool" where
  "fetch_good p r \<longleftrightarrow>
     list_all (in_window p) (fr_Transactions r) \<and> int (length (fr_Transactions r)) \<le> fp_MaxTx p \<and>
     fr_TruncationCode r \<in> {[], ''max_tx_pages_per_wallet_reached'', ''max_tx_per_wallet_reached'', ''helius_retry_exhausted''} \<and>
     (fr_Partial r \<longleftrightarrow> fr_TruncationCode r \<noteq> []) \<and>
     (fr_RetryExhausted r \<longleftrightarrow> fr_TruncationCode r = ''helius_retry_exhausted'') \<and>
     (fr_TruncationCode r = ''max_tx_per_wallet_reached'' \<longrightarrow> int (length (fr_Transactions r)) = fp_MaxTx p)"

lemma fetch_good_truncated:
  assumes "fetch_good p r" and "\<not> fr_Partial r"
  shows "fetch_good p (truncated r ''max_tx_pages_per_wallet_reached'')"
    and "fp_MaxTx p \<le> int (length (fr_Transactions r)) \<Longrightarrow> fetch_good p (truncated r ''max_tx_per_wallet_reached'')"
    and "fetch_good p ((truncated r ''helius_retry_exhausted'')\<lparr> fr_RetryExhausted := True \<rparr>)"
  using assms by (auto simp: fetch_good_def)

lemma page_loop_good:
  assumes "fetch_good p r" and "\<not> fr_Partial r" and "fp_Start p < fp_End p"
    and "int (length (fr_Transactions r)) < fp_MaxTx p"
    and "page_loop p r reached txs = (r1, reached1, capped)"
  shows "fetch_good p r1 \<and> (\<not> capped \<longrightarrow> \<not> fr_Partial r1)"
proof (cases capped)
  case True
  with assms(5) have l: "page_loop p r reached txs = (r1, reached1, True)" by simp
  obtain pre post where s: "filter (in_window p) txs = pre @ post" "fr_Transactions r1 = fr_Transactions r @ pre"
    "fr_Partial r1" "fr_TruncationCode r1 = ''max_tx_per_wallet_reached''"
    "fr_RetryExhausted r1 = fr_RetryExhausted r" "int (length (fr_Transactions r1)) = fp_MaxTx p"
    using page_loop_capped [OF l assms(4)] by blast
  have "list_all (in_window p) pre"
  proof -
    have "set (pre @ post) \<subseteq> Collect (in_window p)" unfolding s(1) [symmetric] by auto
    then show ?thesis by (auto simp: list_all_iff)
  qed
  then show ?thesis using assms(1,2) s True by (auto simp: fetch_good_def)
next
  case False
  with assms(5) have l: "page_loop p r reached txs = (r1, reached1, False)" by simp
  note u = page_loop_uncapped [OF l assms(3)]
  moreover have "int (length (fr_Transactions r1)) \<le> fp_MaxTx p"
    using l assms(4) by (rule page_loop_uncapped_length)
  ultimately show ?thesis using assms(1,2) False by (auto simp: fetch_good_def list_all_iff)
qed

lemma fetch_loop_good:
  assumes "fetch_loop E wallet p r before n w = ((res, e), w')"
    and "fetch_good p r" and "\<not> fr_Partial r" and "fp_Start p < fp_End p"
  shows "fetch_good p res \<and> (e \<noteq> None \<longrightarrow> \<not> fr_Partial res)"
  using assms
proof (induction "nat (fp_MaxPages p - n)" arbitrary: r before n w rule: less_induct)
  case less
  show ?case
    using fetch_loop_cases [of p n E wallet r before w]
  proof cases
    case (page w0 pg w1 r1 reached capped)
    note good = page_loop_good [OF less.prems(2-4) page(2,4)]
    show ?thesis
    proof (cases "page_Transactions pg = [] \<or> capped \<or> reached \<or> next_before pg = [] \<or> next_before pg = before")
      case True
      then show ?thesis using page(5) good less.prems by (auto split: if_splits)
    next
      case False
      then have "fetch_loop E wallet p r1 (next_before pg) (n + 1) w1 = ((res, e), w')"
        using page(5) less.prems(1) by simp
      moreover have "nat (fp_MaxPages p - (n + 1)) < nat (fp_MaxPages p - n)" using page(1) by simp
      ultimately show ?thesis using less.hyps good False less.prems(4) by blast
    qed
  qed (use less.prems fetch_good_truncated [OF less.prems(2,3)] in auto)
qed

section \<open>Provider calls\<close>

text \<open>Counting the calls does not change the run, and the counter stays within the bounds.\<close>

lemma counting_retry:
  "\<exists>c'. fetch_retry_loop (counting E) wallet before m k (w, c) =
      (fst (fetch_retry_loop E wallet before m k w), (snd (fetch_retry_loop E wallet before m k w), c'))
    \<and> c' \<le> c + nat (m - k) + 1"
proof (induction "nat (m - k)" arbitrary: k w c rule: less_induct)
  case less
  note unf = fetch_retry_loop.simps [of "counting E" wallet before m k "(w, c)"]
  show ?case
    using fetch_retry_loop_cases [of E w wallet before m k]
  proof cases
    case (again err w1 w2)
    then obtain c' where "fetch_retry_loop (counting E) wallet before m (k + 1) (w2, Suc c) =
        (fst (fetch_retry_loop E wallet before m k w), (snd (fetch_retry_loop E wallet before m k w), c'))"
      "c' \<le> Suc c + nat (m - (k + 1)) + 1"
      using less [of "k + 1" w2 "Suc c"] by auto
    with again show ?thesis by (intro exI [of _ c']) (auto simp: unf)
  qed (auto simp: unf)
qed

lemma counting_page:
  "\<exists>c'. fetchPageWithRetry (counting E) wallet before m (w, c) =
      (fst (fetchPageWithRetry E wallet before m w), (snd (fetchPageWithRetry E wallet before m w), c'))
    \<and> c' \<le> c + (nat m + 1)"
  using counting_retry [of E wallet before "if m < 0 then 0 else m" 0 w c]
  by (auto simp: fetchPageWithRetry_def split: if_splits)

lemma counting_loop:
  "\<exists>c'. fetch_loop (counting E) wallet p r before n (w, c) =
      (fst (fetch_loop E wallet p r before n w), (snd (fetch_loop E wallet p r before n w), c'))
    \<and> c' \<le> c + nat (fp_MaxPages p - n) * (nat (fp_MaxRetries p) + 1)"
proof (induction "nat (fp_MaxPages p - n)" arbitrary: r before n w c rule: less_induct)
  case less
  let ?b = "nat (fp_MaxRetries p) + 1"
  note unf = fetch_loop.simps [of _ wallet p r before n]
  consider "fp_MaxPages p \<le> n" | "fp_MaxTx p \<le> int (length (fr_Transactions r))"
    | "n < fp_MaxPages p" "int (length (fr_Transactions r)) < fp_MaxTx p" by linarith
  then show ?case
  proof cases
    case 3
    obtain s w0 where s: "(if n > 0 \<and> fp_RequestDelay p > 0 then env_sleepContext E w (fp_RequestDelay p)
                 else (None, w)) = (s, w0)" by fastforce
    have s': "(if n > 0 \<and> fp_RequestDelay p > 0 then env_sleepContext (counting E) (w, c) (fp_RequestDelay p)
                 else (None, (w, c))) = (s, (w0, c))" using s by (auto split: if_splits)
    obtain f w1 where f: "fetchPageWithRetry E wallet before (fp_MaxRetries p) w0 = (f, w1)" by fastforce
    obtain c1 where f': "fetchPageWithRetry (counting E) wallet before (fp_MaxRetries p) (w0, c) = (f, (w1, c1))"
      and c1: "c1 \<le> c + ?b"
      using counting_page [of E wallet before "fp_MaxRetries p" w0 c] f by auto
    have left: "nat (fp_MaxPages p - n) = Suc (nat (fp_MaxPages p - (n + 1)))" using 3 by simp
    have stop: "c \<le> c + nat (fp_MaxPages p - n) * ?b" "c1 \<le> c + nat (fp_MaxPages p - n) * ?b"
      using c1 by (simp_all add: left)
    show ?thesis
    proof (cases "s = None \<and> (\<exists>page. f = Inr page)")
      case True
      then obtain pg where sf: "s = None" "f = Inr pg" by blast
      obtain r1 rc cp where pl: "page_loop p r False (page_Transactions pg) = (r1, rc, cp)" by (metis prod_cases3)
      show ?thesis
      proof (cases "page_Transactions pg = [] \<or> cp \<or> rc \<or> next_before pg = [] \<or> next_before pg = before")
        case True
        then show ?thesis using 3 s s' f f' sf pl stop
          by (intro exI [of _ c1]) (auto simp: unf)
      next
        case False
        obtain c' where "fetch_loop (counting E) wallet p r1 (next_before pg) (n + 1) (w1, c1) =
            (fst (fetch_loop E wallet p r1 (next_before pg) (n + 1) w1),
              (snd (fetch_loop E wallet p r1 (next_before pg) (n + 1) w1), c'))"
          "c' \<le> c1 + nat (fp_MaxPages p - (n + 1)) * ?b"
          using less [of "n + 1" r1 "next_before pg" w1 c1] 3 by auto
        then show ?thesis using 3 s s' f f' sf pl False c1
          by (intro exI [of _ c']) (auto simp: unf left)
      qed
    next
      case False
      then show ?thesis
      proof (cases s)
        case None
        with False obtain e where "f = Inl e" by (cases f) auto
        with None 3 s s' f f' stop show ?thesis by (intro exI [of _ c1]) (auto simp: unf)
      next
        case (Some e)
        with 3 s s' stop show ?thesis by (intro exI [of _ c]) (auto simp: unf)
      qed
    qed
  qed (auto simp: unf)
qed

section \<open>A provider that serves a history\<close>

definition newest_first :: "EnhancedTransaction list \<Rightarrow> bool" where
  "newest_first hist \<longleftrightarrow>
     sorted_wrt (\<lambda>a b. BlockTimeUTC b \<le> BlockTimeUTC a) hist \<and> distinct (map tx_Signature hist) \<and>
     (\<forall>t \<in> set hist. tx_Signature t \<noteq> [])"

definition after_sig :: "string \<Rightarrow> EnhancedTransaction list \<Rightarrow> EnhancedTransaction list" where
  "after_sig before hist =
     (if before = [] then hist else tl (dropWhile (\<lambda>t. tx_Signature t \<noteq> before) hist))"

text \<open>Every page that arrives continues the history where \<open>before\<close> left it, is empty only at the end, and
  names its last transaction as the place to go on, or nothing. Calls may fail in any way.\<close>

definition serves :: "'w env \<Rightarrow> string \<Rightarrow> EnhancedTransaction list \<Rightarrow> bool" where
  "serves E wallet hist \<longleftrightarrow>
     (\<forall>w before page w'. env_FetchEnhancedPage E w wallet before = (Inr page, w') \<longrightarrow>
        (\<exists>n. page_Transactions page = take n (after_sig before hist)) \<and>
        (page_Transactions page = [] \<longrightarrow> after_sig before hist = []) \<and>
        (page_Transactions page \<noteq> [] \<longrightarrow>
           page_Before page \<in> {[], tx_Signature (last (page_Transactions page))}))"

definition cursor :: "EnhancedTransaction list \<Rightarrow> string" where
  "cursor seen = (if seen = [] then [] else tx_Signature (last seen))"

lemma after_cursor:
  assumes "newest_first (seen @ rest)"
  shows "after_sig (cursor seen) (seen @ rest) = rest"
proof (cases seen rule: rev_cases)
  case (snoc ds d)
  have "tx_Signature d \<noteq> []" and d: "tx_Signature d \<notin> tx_Signature ` set ds"
    using assms by (auto simp: newest_first_def snoc)
  then have "\<forall>x \<in> set ds. tx_Signature x \<noteq> tx_Signature d" by (metis imageI)
  then have "dropWhile (\<lambda>t. tx_Signature t \<noteq> tx_Signature d) (ds @ [d] @ rest) = d # rest"
    by (simp add: dropWhile_append2)
  with \<open>tx_Signature d \<noteq> []\<close> show ?thesis by (simp add: after_sig_def cursor_def snoc)
qed (simp add: after_sig_def cursor_def)

lemma old_rest:
  assumes "newest_first (seen @ rest)" and "t \<in> set seen" and "BlockTimeUTC t < fp_Start p"
  shows "filter (in_window p) rest = []"
  using assms by (force simp: newest_first_def sorted_wrt_append filter_empty_conv in_window_def)

text \<open>A page of a served history: the rest splits into the page and what comes after it, and the cursor moves to
  the end of the page.\<close>

lemma served_page:
  assumes "serves E wallet (seen @ rest)" and "newest_first (seen @ rest)"
    and "fetchPageWithRetry E wallet (cursor seen) m w = (Inr pg, w')"
  obtains rest' where "rest = page_Transactions pg @ rest'" "page_Transactions pg = [] \<Longrightarrow> rest = []"
    "next_before pg \<noteq> [] \<and> next_before pg \<noteq> cursor seen \<and> next_before pg = cursor (seen @ page_Transactions pg)
      \<or> page_Transactions pg = []"
proof -
  let ?txs = "page_Transactions pg"
  obtain w0 where prov: "env_FetchEnhancedPage E w0 wallet (cursor seen) = (Inr pg, w')"
    using fetch_page_provider [OF assms(3)] by blast
  obtain k where k: "?txs = take k rest" and stop: "?txs = [] \<longrightarrow> rest = []"
    and bef: "?txs \<noteq> [] \<longrightarrow> page_Before pg \<in> {[], tx_Signature (last ?txs)}"
    using assms(1) prov after_cursor [OF assms(2)] unfolding serves_def by metis
  have rest: "rest = ?txs @ drop k rest" by (simp add: k)
  have on: "next_before pg \<noteq> [] \<and> next_before pg \<noteq> cursor seen \<and> next_before pg = cursor (seen @ ?txs)" if nonempty: "?txs \<noteq> []"
  proof -
    obtain ys y where ys: "?txs = ys @ [y]" using nonempty by (cases ?txs rule: rev_cases) auto
    have "newest_first (seen @ (ys @ [y]) @ drop k rest)" using assms(2) rest unfolding ys by metis
    then have "tx_Signature y \<noteq> []" "tx_Signature y \<noteq> cursor seen"
      by (auto simp: newest_first_def cursor_def split: if_splits)
    then show ?thesis using bef by (auto simp: next_before_def cursor_def ys)
  qed
  show thesis by (rule that [OF rest]) (use stop on in blast)+
qed

lemma fetch_loop_complete:
  assumes "serves E wallet (seen @ rest)" and "newest_first (seen @ rest)" and "fp_Start p < fp_End p"
    and "fetch_loop E wallet p r (cursor seen) n w = ((res, e), w')"
    and "fr_Transactions r = filter (in_window p) seen" and "\<not> fr_Partial r"
  shows "(\<exists>post. filter (in_window p) (seen @ rest) = fr_Transactions res @ post) \<and>
    (e = None \<and> \<not> fr_Partial res \<longrightarrow> fr_Transactions res = filter (in_window p) (seen @ rest))"
  using assms
proof (induction "nat (fp_MaxPages p - n)" arbitrary: seen rest r n w rule: less_induct)
  case less
  show ?case
    using fetch_loop_cases [of p n E wallet r "cursor seen" w]
  proof cases
    case (page w0 pg w1 r1 reached capped)
    let ?txs = "page_Transactions pg"
    obtain rest' where rest: "rest = ?txs @ rest'" and stop: "?txs = [] \<Longrightarrow> rest = []"
      and on: "next_before pg \<noteq> [] \<and> next_before pg \<noteq> cursor seen \<and> next_before pg = cursor (seen @ ?txs) \<or> ?txs = []"
      using served_page [OF less.prems(1,2) page(3)] by metis
    show ?thesis
    proof (cases "?txs = []")
      case True
      then show ?thesis using page(5) less.prems(4,5) stop by simp
    next
      case False
      have nf: "newest_first ((seen @ ?txs) @ rest')" using less.prems(2) rest by simp
      show ?thesis
      proof (cases capped)
        case True
        with page(4) have "page_loop p r False ?txs = (r1, reached, True)" by simp
        from page_loop_capped [OF this page(2)] obtain pre post where
          "filter (in_window p) ?txs = pre @ post" "fr_Transactions r1 = fr_Transactions r @ pre" "fr_Partial r1"
          by blast
        with True False page(5) less.prems(4,5) show ?thesis by (subst rest) simp
      next
        case uncapped: False
        with page(4) have "page_loop p r False ?txs = (r1, reached, False)" by simp
        from page_loop_uncapped [OF this less.prems(3)]
        have r1: "fr_Transactions r1 = filter (in_window p) (seen @ ?txs)" "\<not> fr_Partial r1"
          and re: "reached \<longleftrightarrow> (\<exists>tx \<in> set ?txs. BlockTimeUTC tx < fp_Start p)"
          using less.prems(5,6) by auto
        show ?thesis
        proof (cases reached)
          case True
          with re obtain t where "t \<in> set (seen @ ?txs)" "BlockTimeUTC t < fp_Start p" by auto
          with nf have "filter (in_window p) rest' = []" by (rule old_rest)
          then have "filter (in_window p) (seen @ rest) = fr_Transactions r1" by (subst rest) (simp add: r1)
          with True False page(5) less.prems(4) show ?thesis by auto
        next
          case unreached: False
          have "fetch_loop E wallet p r1 (cursor (seen @ ?txs)) (n + 1) w1 = ((res, e), w')"
            using page(5) False uncapped unreached less.prems(4) on by (metis (no_types, lifting))
          moreover have "nat (fp_MaxPages p - (n + 1)) < nat (fp_MaxPages p - n)" using page(1) by simp
          moreover have "serves E wallet ((seen @ ?txs) @ rest')" using less.prems(1) rest by simp
          ultimately show ?thesis
            using less.hyps [of "n + 1" "seen @ ?txs" rest' r1 w1] nf less.prems(3) r1 rest by simp
        qed
      qed
    qed
  qed (use less.prems in auto)
qed

lemma fetch_window_result:
  assumes "FetchEnhancedWindow client wallet p w = ((res, e), w')" and "1 \<le> fp_MaxTx p"
  shows "fetch_good p res \<and> (e \<noteq> None \<longrightarrow> \<not> fr_Partial res)"
proof -
  have "fetch_good p empty_fetch" "\<not> fr_Partial empty_fetch"
    using assms(2) by (simp_all add: fetch_good_def empty_fetch_def)
  then show ?thesis
    using assms(1) fetch_loop_good [of _ wallet p empty_fetch "[]" 0 w res e w']
    by (auto simp: FetchEnhancedWindow_def split: option.splits if_splits)
qed

lemma fetch_window_good:
  "FetchEnhancedWindow client wallet p w = ((res, e), w') \<Longrightarrow> 1 \<le> fp_MaxTx p \<Longrightarrow> fetch_good p res"
  by (rule fetch_window_result [THEN conjunct1])

lemma fetch_window_complete:
  assumes "serves E wallet hist" and "newest_first hist"
    and "FetchEnhancedWindow (Some E) wallet p w = ((res, e), w')"
  shows "(\<exists>older. filter (in_window p) hist = fr_Transactions res @ older) \<and>
    (e = None \<and> \<not> fr_Partial res \<longrightarrow> fr_Transactions res = filter (in_window p) hist)"
  using assms fetch_loop_complete [of E wallet "[]" hist p empty_fetch 0 w res e w']
  by (auto simp: FetchEnhancedWindow_def cursor_def empty_fetch_def split: if_splits)

section \<open>Properties\<close>

text \<open>The result of a window fetch, for any provider: every transaction lies in the window, there are at
  most \<open>MaxTx\<close> of them, the result is partial exactly when it carries one of the three truncation
  codes, and a fetch that returns an error is not marked partial.\<close>

theorem fetch_bounds:
  assumes "FetchEnhancedWindow client wallet p w = ((res, e), w')" and "1 \<le> fp_MaxTx p"
  shows "fetch_good p res \<and> (e \<noteq> None \<longrightarrow> \<not> fr_Partial res)"
  using assms by (rule fetch_window_result)

text \<open>C40. A window fetch asks the provider for at most \<open>MaxPages\<close> pages, each tried at most
  \<open>MaxRetries + 1\<close> times; counting the calls changes nothing else about the run.\<close>

theorem fetch_calls_bounded:
  "\<exists>c. FetchEnhancedWindow (Some (counting E)) wallet p (w, 0) =
      (fst (FetchEnhancedWindow (Some E) wallet p w), (snd (FetchEnhancedWindow (Some E) wallet p w), c))
    \<and> c \<le> nat (fp_MaxPages p) * (nat (fp_MaxRetries p) + 1)"
  using counting_loop [of E wallet p empty_fetch "[]" 0 w 0]
  by (auto simp: FetchEnhancedWindow_def)

text \<open>C15. Against a provider that serves a newest-first history, the transactions returned are always the
  newest of the window, without gaps; if the fetch neither fails nor is marked partial, they are all of
  the window. This is what makes a baseline that is not partial complete.\<close>

theorem fetch_complete:
  assumes "serves E wallet hist" and "newest_first hist"
    and "FetchEnhancedWindow (Some E) wallet p w = ((res, e), w')"
  shows "(\<exists>older. filter (in_window p) hist = fr_Transactions res @ older) \<and>
    (e = None \<and> \<not> fr_Partial res \<longrightarrow> fr_Transactions res = filter (in_window p) hist)"
  using assms by (rule fetch_window_complete)

text \<open>The pause between two attempts is between 200 milliseconds and 5.096 seconds, whatever the number
  of the attempt.\<close>

theorem backoff_bounds: "200 * nanos_per_milli \<le> retryBackoff k \<and> retryBackoff k \<le> 5096 * nanos_per_milli"
proof -
  define s where "s = (if (if k < 0 then 0 else k) > 5 then 5 else if k < 0 then 0 else k)"
  define q where "q = (2::int) ^ nat s"
  have q: "1 \<le> q" unfolding q_def by simp
  define j where "j = ((if k < 0 then 0 else k) mod 97 * 37) mod 97"
  have j: "0 \<le> j" "j \<le> 96" unfolding j_def by (simp, smt (verit) pos_mod_bound)
  have "retryBackoff k = (if (200 * nanos_per_milli) * q > 5 * nanos_per_second then 5 * nanos_per_second
      else (200 * nanos_per_milli) * q) + j * nanos_per_milli"
    by (simp add: retryBackoff_def s_def q_def j_def Let_def)
  with q j show ?thesis by (simp add: nanos_per_milli_def nanos_per_second_def)
qed

section \<open>Witnesses\<close>

text \<open>A provider of three transactions, one a page.\<close>

definition sample_history :: "EnhancedTransaction list" where
  "sample_history = map (\<lambda>(s, t). \<lparr> tx_Signature = s, tx_Slot = 0, tx_TimestampUnix = t,
     tx_TransactionError = None, tx_NativeTransfers = [], tx_TokenTransfers = [] \<rparr>)
     [(''c'', 300), (''b'', 200), (''a'', 100)]"

definition sample_env :: "unit env" where
  "sample_env =
     \<lparr> env_FetchEnhancedPage = (\<lambda>w wallet before.
          (Inr \<lparr> page_Transactions = take 1 (after_sig before sample_history), page_Before = [] \<rparr>, w)),
       env_sleepContext = (\<lambda>w d. (None, w)) \<rparr>"

definition sample_fetch :: FetchWindowParams where
  "sample_fetch = \<lparr> fp_Start = time_unix 150, fp_End = time_unix 400, fp_MaxPages = 10, fp_MaxTx = 5,
     fp_MaxRetries = 2, fp_RequestDelay = 0 \<rparr>"

lemma sample_serves: "serves sample_env wallet sample_history"
  by (auto simp: serves_def sample_env_def)

lemma sample_newest_first: "newest_first sample_history"
  by (simp add: newest_first_def sample_history_def BlockTimeUTC_def time_unix_def wrap64_id
        unix_to_internal_def min_int64_def max_int64_def nanos_per_second_def)

lemma sample_fetched:
  "FetchEnhancedWindow (Some sample_env) ''w'' sample_fetch () =
     ((\<lparr> fr_Transactions = take 2 sample_history, fr_Partial = False, fr_TruncationCode = [],
         fr_RetryExhausted = False \<rparr>, None), ())"
  by code_simp

theorem fetch_bounds_witness: "list_all (in_window sample_fetch) (take 2 sample_history)"
  using fetch_bounds [OF sample_fetched] by (simp add: sample_fetch_def fetch_good_def)

theorem fetch_complete_witness: "take 2 sample_history = filter (in_window sample_fetch) sample_history"
  using fetch_complete [OF sample_serves sample_newest_first sample_fetched] by simp

end
