(* ===== verification/Metered.thy ===== *)
theory Metered
imports Fetch_Spec
begin

text \<open>
  What a client costs: a meter on the world that every page asked for moves by at most \<open>price\<close> and that
  waiting does not move. The bound of a window fetch, and of all that is built of fetches, follows.
\<close>

locale metered_client =
  fixes E :: "'w env" and cost :: "'w \<Rightarrow> int" and price :: int
  assumes price_pos: "0 \<le> price"
    and fetch_cost: "cost (snd (env_FetchEnhancedPage E w a b)) \<le> cost w + price"
    and sleep_cost: "cost (snd (env_sleepContext E w d)) \<le> cost w"
begin

lemma retry_cost:
  "cost (snd (fetch_retry_loop E a b m n w)) \<le> cost w + price * (int (nat (m - n)) + 1)"
proof (induction "nat (m - n)" arbitrary: n w rule: less_induct)
  case less
  obtain r w1 where f: "env_FetchEnhancedPage E w a b = (r, w1)" by fastforce
  obtain s w2 where d: "env_sleepContext E w1 (retryBackoff n) = (s, w2)" by fastforce
  have c: "cost w1 \<le> cost w + price" "cost w2 \<le> cost w1"
    using fetch_cost [of w a b] sleep_cost [of w1 "retryBackoff n"] f d by simp_all
  define B where "B = price * (int (nat (m - n)) + 1)"
  have "price \<le> B" using price_pos by (simp add: B_def distrib_left)
  with c have w1: "cost w1 \<le> cost w + B" and w2: "cost w2 \<le> cost w + B" by simp_all
  have "cost (snd (fetch_retry_loop E a b m (n + 1) w2)) \<le> cost w + B" if "n < m"
  proof -
    from that have eq: "int (nat (m - n)) = int (nat (m - (n + 1))) + 1" by simp
    have "cost (snd (fetch_retry_loop E a b m (n + 1) w2)) \<le> cost w2 + price * (int (nat (m - (n + 1))) + 1)"
      using that by (intro less.hyps) simp
    then show ?thesis using c unfolding B_def eq by (simp add: distrib_left)
  qed
  with w1 w2 have "cost (snd (fetch_retry_loop E a b m n w)) \<le> cost w + B"
    using f d by (subst fetch_retry_loop.simps) (auto split: sum.split option.split)
  then show ?case by (simp only: B_def)
qed

lemma page_cost:
  "cost (snd (fetchPageWithRetry E a b m w)) \<le> cost w + price * (int (nat m) + 1)"
  using retry_cost [of a b "if m < 0 then 0 else m" 0 w] by (simp add: fetchPageWithRetry_def split: if_splits)

lemma loop_cost:
  "cost (snd (fetch_loop E a p r before n w)) \<le>
     cost w + price * ((int (nat (fp_MaxRetries p)) + 1) * int (nat (fp_MaxPages p - n)))"
proof (induction "nat (fp_MaxPages p - n)" arbitrary: n r before w rule: less_induct)
  case less
  define t where "t = int (nat (fp_MaxRetries p)) + 1"
  obtain s w1 where d: "(if n > 0 \<and> fp_RequestDelay p > 0 then env_sleepContext E w (fp_RequestDelay p) else (None, w)) = (s, w1)"
    by fastforce
  obtain f w2 where f: "fetchPageWithRetry E a before (fp_MaxRetries p) w1 = (f, w2)" by fastforce
  have c: "cost w1 \<le> cost w" "cost w2 \<le> cost w1 + price * t"
    using sleep_cost [of w "fp_RequestDelay p"] d page_cost [of a before "fp_MaxRetries p" w1] f
    by (auto simp: t_def split: if_splits)
  define B where "B = price * (t * int (nat (fp_MaxPages p - n)))"
  have w0: "0 \<le> B" using price_pos by (simp add: B_def t_def)
  have "cost (snd (fetch_loop E a p r before n w)) \<le> cost w + B"
  proof (cases "n < fp_MaxPages p")
    case False
    then show ?thesis using w0 by (subst fetch_loop.simps) simp
  next
    case True
    then have eq: "int (nat (fp_MaxPages p - n)) = int (nat (fp_MaxPages p - (n + 1))) + 1" by simp
    have "price * t \<le> B"
      using price_pos True unfolding B_def by (intro mult_left_mono) (simp_all add: t_def)
    with c w0 have w1: "cost w1 \<le> cost w + B" and w2: "cost w2 \<le> cost w + B" by linarith+
    have ih: "cost (snd (fetch_loop E a p r' before' (n + 1) w2)) \<le> cost w + B" for r' before'
    proof -
      have "cost (snd (fetch_loop E a p r' before' (n + 1) w2)) \<le>
          cost w2 + price * (t * int (nat (fp_MaxPages p - (n + 1))))"
        using True by (intro less.hyps [folded t_def]) simp
      then show ?thesis using c unfolding B_def eq by (simp only: distrib_left)
    qed
    show ?thesis
      using d f w0 w1 w2 ih
      by (subst fetch_loop.simps) (auto simp: Let_def split: sum.split option.split prod.split)
  qed
  then show ?case by (simp only: B_def t_def)
qed

lemma window_cost:
  "cost (snd (FetchEnhancedWindow (Some E) a p w)) \<le>
     cost w + price * ((int (nat (fp_MaxRetries p)) + 1) * int (nat (fp_MaxPages p)))"
proof -
  define B where "B = price * ((int (nat (fp_MaxRetries p)) + 1) * int (nat (fp_MaxPages p)))"
  have "0 \<le> B" using price_pos by (simp add: B_def)
  moreover have "cost (snd (fetch_loop E a p empty_fetch [] 0 w)) \<le> cost w + B"
    using loop_cost [of a p empty_fetch "[]" 0 w] by (simp only: B_def diff_zero)
  ultimately have "cost (snd (FetchEnhancedWindow (Some E) a p w)) \<le> cost w + B"
    by (simp add: FetchEnhancedWindow_def)
  then show ?thesis by (simp only: B_def)
qed

end

interpretation counted_client: metered_client "counting E" "\<lambda>w. int (snd w)" 1 for E
  by unfold_locales (auto simp: split: prod.splits)

end
