(* ===== verification/Block_Scrape_Spec.thy ===== *)
theory Block_Scrape_Spec
imports Block_Scrape
begin

text \<open>
  Scraping: the wallets that come out are the eligible ones of the observations of the inspected
  transactions, in the order of the ranking, cut at the limit; and the number of RPC calls is bounded.
\<close>

section \<open>The tally\<close>

definition wallet_of :: "blockWalletObservation list \<Rightarrow> string \<Rightarrow> ScrapedWallet" where
  "wallet_of obs a =
     (let mine = filter (\<lambda>ob. bo_address ob = a) obs in
      \<lparr> sw_Address = a, sw_Count = int (length mine), sw_Outbound = int (length (filter bo_outbound mine)),
        sw_Inbound = int (length (filter (\<lambda>ob. \<not> bo_outbound ob) mine)) \<rparr>)"

definition stats_of :: "blockWalletObservation list \<Rightarrow> string \<Rightarrow> blockWalletStats" where
  "stats_of obs a =
     \<lparr> bs_count = sw_Count (wallet_of obs a), bs_outbound = sw_Outbound (wallet_of obs a),
       bs_inbound = sw_Inbound (wallet_of obs a) \<rparr>"

lemma stats_of_snoc:
  "stats_of (obs @ [ob]) a =
     (if bo_address ob = a
      then (let r = stats_of obs a; r1 = r\<lparr> bs_count := bs_count r + 1 \<rparr> in
        if bo_outbound ob then r1\<lparr> bs_outbound := bs_outbound r1 + 1 \<rparr> else r1\<lparr> bs_inbound := bs_inbound r1 + 1 \<rparr>)
      else stats_of obs a)"
  by (simp add: stats_of_def wallet_of_def Let_def)

lemma add_block_observation_keys:
  "fst ` set (add_block_observation m ob) = insert (bo_address ob) (fst ` set m)"
  "distinct (map fst m) \<Longrightarrow> distinct (map fst (add_block_observation m ob))"
  by (simp_all add: add_block_observation_def Let_def keys_map_set)

lemma tally_stats:
  "map_get zero_wallet_stats (foldl add_block_observation [] obs) = stats_of obs \<and>
   fst ` set (foldl add_block_observation [] obs) = bo_address ` set obs \<and>
   distinct (map fst (foldl add_block_observation [] obs))"
proof (induction obs rule: rev_induct)
  case Nil
  show ?case by (simp add: fun_eq_iff stats_of_def wallet_of_def zero_wallet_stats_def)
next
  case (snoc ob obs)
  define m where "m = foldl add_block_observation [] obs"
  have m: "map_get zero_wallet_stats m a = stats_of obs a" for a using snoc by (simp add: m_def)
  have "map_get zero_wallet_stats (add_block_observation m ob) = stats_of (obs @ [ob])"
    by (simp add: fun_eq_iff add_block_observation_def map_get_map_set m stats_of_snoc Let_def)
  then show ?case using snoc by (simp add: add_block_observation_keys flip: m_def)
qed

section \<open>The inspected transactions\<close>

definition inspected_txs :: "ScrapeOptions \<Rightarrow> RPCBlockTx list \<Rightarrow> RPCBlockTx list" where
  "inspected_txs opts txs =
     take (nat (so_MaxTXPerBlock opts))
       (filter (\<lambda>tx. bt_Err tx = None \<and> quietTransferLike (bt_Instructions tx) (so_MaxNoisyInstructions opts)) txs)"

definition block_observations :: "(rat \<Rightarrow> int) \<Rightarrow> ScrapeOptions \<Rightarrow> RPCBlock \<Rightarrow> blockWalletObservation list" where
  "block_observations wild opts block = concat (map (tx_observations wild opts) (inspected_txs opts (bl_Transactions block)))"

lemma inspect_block_eq:
  assumes "0 < so_MaxTXPerBlock opts" and "0 \<le> n"
  shows "inspect_block wild opts n stats txs =
    foldl add_block_observation stats (concat (map (tx_observations wild opts)
      (take (nat (so_MaxTXPerBlock opts - n)) (filter (\<lambda>tx. bt_Err tx = None \<and>
         quietTransferLike (bt_Instructions tx) (so_MaxNoisyInstructions opts)) txs))))"
  using assms(2)
proof (induction txs arbitrary: n stats)
  case (Cons tx txs)
  show ?case
  proof (cases "so_MaxTXPerBlock opts \<le> n")
    case True
    with Cons assms(1) show ?thesis by auto
  next
    case False
    then have "nat (so_MaxTXPerBlock opts - n) = Suc (nat (so_MaxTXPerBlock opts - (n + 1)))"
      using Cons.prems by simp
    with Cons assms(1) False show ?thesis by simp
  qed
qed simp

lemma inspect_block_observations:
  "0 < so_MaxTXPerBlock opts \<Longrightarrow>
     inspect_block wild opts 0 stats (bl_Transactions block) =
       foldl add_block_observation stats (block_observations wild opts block)"
  by (simp add: inspect_block_eq block_observations_def inspected_txs_def)

text \<open>The blocks a scrape has read: answers of the client for slots above zero, at most \<open>MaxBlocks\<close>.\<close>

definition block_read :: "'w rpc \<Rightarrow> RPCBlock \<Rightarrow> bool" where
  "block_read rpc block \<longleftrightarrow> (\<exists>w slot w'. 0 < slot \<and> rpc_GetBlock rpc w slot = (Inr block, w'))"

lemma scrape_blocks_read:
  assumes "scrape_blocks wild rpc opts startSlot n stats w = (stats', w')"
    and "0 < so_MaxTXPerBlock opts" and "0 < so_MaxBlocks opts"
  shows "\<exists>blocks. length blocks \<le> nat (so_MaxBlocks opts - n) \<and> list_all (block_read rpc) blocks \<and>
    stats' = foldl add_block_observation stats (concat (map (block_observations wild opts) blocks))"
  using assms(1)
proof (induction "nat (so_BlockLookback opts - n)" arbitrary: n stats w rule: less_induct)
  case less
  show ?case
  proof (cases "n < so_BlockLookback opts \<and> n < so_MaxBlocks opts \<and> 0 < startSlot - n")
    case False
    with less.prems assms(3) have "stats' = stats"
      by (subst (asm) scrape_blocks.simps) (auto split: if_splits)
    then show ?thesis by (intro exI [of _ "[]"]) simp
  next
    case True
    obtain r w1 where g: "rpc_GetBlock rpc w (startSlot - n) = (r, w1)" by fastforce
    have dec: "nat (so_BlockLookback opts - (n + 1)) < nat (so_BlockLookback opts - n)" using True by simp
    show ?thesis
    proof (cases r)
      case (Inl e)
      have "scrape_blocks wild rpc opts startSlot (n + 1) stats w1 = (stats', w')"
        using less.prems True g Inl by (subst (asm) scrape_blocks.simps) simp
      from less.hyps [OF dec this] obtain blocks where
        "length blocks \<le> nat (so_MaxBlocks opts - (n + 1))" "list_all (block_read rpc) blocks"
        "stats' = foldl add_block_observation stats (concat (map (block_observations wild opts) blocks))" by blast
      then show ?thesis by (intro exI [of _ blocks]) simp
    next
      case (Inr block)
      have "scrape_blocks wild rpc opts startSlot (n + 1)
          (foldl add_block_observation stats (block_observations wild opts block)) w1 = (stats', w')"
        using less.prems True g Inr
        by (subst (asm) scrape_blocks.simps) (simp add: inspect_block_observations assms(2))
      from less.hyps [OF dec this] obtain blocks where b:
        "length blocks \<le> nat (so_MaxBlocks opts - (n + 1))" "list_all (block_read rpc) blocks"
        "stats' = foldl add_block_observation (foldl add_block_observation stats (block_observations wild opts block))
           (concat (map (block_observations wild opts) blocks))" by blast
      have "block_read rpc block" using g Inr True unfolding block_read_def by blast
      moreover have "Suc (length blocks) \<le> nat (so_MaxBlocks opts - n)" using b(1) True by linarith
      ultimately show ?thesis using b by (intro exI [of _ "block # blocks"]) simp
    qed
  qed
qed

section \<open>The selection\<close>

definition eligible_wallet :: "ScrapeOptions \<Rightarrow> ScrapedWallet \<Rightarrow> bool" where
  "eligible_wallet opts x \<longleftrightarrow>
     1 \<le> sw_Outbound x \<and> sw_Inbound x \<le> sw_Outbound x \<and> so_MinScrapeCount opts \<le> sw_Count x"

definition quieter :: "ScrapedWallet \<Rightarrow> ScrapedWallet \<Rightarrow> bool" where
  "quieter x y \<longleftrightarrow> sw_Count x < sw_Count y \<or> sw_Count x = sw_Count y \<and> sw_Address x < sw_Address y"

interpretation scored: slice_order scored_lt
proof
  fix x y z :: "string \<times> blockWalletStats"
  show "\<not> scored_lt x x" by (simp add: scored_lt_def)
  show "scored_lt x y \<Longrightarrow> scored_lt y z \<Longrightarrow> scored_lt x z"
    by (auto simp: scored_lt_def split: if_splits)
  show "scored_lt x y \<Longrightarrow> scored_lt x z \<or> scored_lt z y"
    by (auto simp: scored_lt_def split: if_splits)
qed

lemma output_wallets_eq:
  assumes "0 < m" and "int (length out) < m"
  shows "output_wallets m out ws = take (nat m) (out @ map scraped_wallet ws)"
  using assms(2)
proof (induction ws arbitrary: out)
  case (Cons x ws)
  show ?case
  proof (cases "int (length out) + 1 \<ge> m")
    case True
    with Cons.prems have "nat m = Suc (length out)" by simp
    with assms(1) True show ?thesis by simp
  next
    case False
    with Cons.IH [of "out @ [scraped_wallet x]"] assms(1) show ?thesis by simp
  qed
qed (use assms in simp)

lemma keeps_wallet_eligible:
  "keeps_wallet opts (stats_of obs a) \<longleftrightarrow> eligible_wallet opts (wallet_of obs a)"
proof -
  have "0 \<le> sw_Outbound (wallet_of obs a)" by (simp add: wallet_of_def Let_def)
  then show ?thesis by (auto simp: keeps_wallet_def eligible_wallet_def stats_of_def)
qed

lemma eligible_observed: "eligible_wallet opts (wallet_of obs a) \<Longrightarrow> a \<in> bo_address ` set obs"
proof (rule ccontr)
  assume "eligible_wallet opts (wallet_of obs a)" and "a \<notin> bo_address ` set obs"
  moreover from this(2) have "filter (\<lambda>ob. bo_address ob = a) obs = []" by (auto simp: filter_empty_conv)
  ultimately show False by (simp add: eligible_wallet_def wallet_of_def)
qed

lemma sorted_strict:
  assumes "sorted_wrt (\<lambda>x y. \<not> lt y x) xs" and "distinct xs"
    and "\<And>x y. x \<in> set xs \<Longrightarrow> y \<in> set xs \<Longrightarrow> \<not> lt x y \<Longrightarrow> \<not> lt y x \<Longrightarrow> x = y"
  shows "sorted_wrt lt xs"
  using assms
proof (induction xs)
  case (Cons x xs)
  have "lt x y" if "y \<in> set xs" for y
    using that Cons.prems(1,2) Cons.prems(3) [of x y] by auto
  with Cons show ?case by auto
qed simp

lemma tally_pairs:
  "set (foldl add_block_observation [] obs) = (\<lambda>a. (a, stats_of obs a)) ` bo_address ` set obs"
  using map_graph [of "foldl add_block_observation [] obs" zero_wallet_stats] tally_stats [of obs] by simp

lemma scraped_pair: "scraped_wallet (a, stats_of obs a) = wallet_of obs a"
  by (simp add: scraped_wallet_def stats_of_def wallet_of_def Let_def)

lemma select_wallets_ranked:
  assumes "0 < so_MaxWallets opts"
  shows "\<exists>ranked. set ranked = {a. eligible_wallet opts (wallet_of obs a)} \<and>
    sorted_wrt quieter (map (wallet_of obs) ranked) \<and>
    select_wallets opts (foldl add_block_observation [] obs) =
      take (nat (so_MaxWallets opts)) (map (wallet_of obs) ranked)"
proof -
  let ?m = "foldl add_block_observation [] obs"
  let ?kept = "filter (\<lambda>(address, stat). keeps_wallet opts stat) ?m"
  let ?s = "sort_slice scored_lt ?kept"
  note t = tally_stats [of obs]
  have pairs: "x = (fst x, stats_of obs (fst x))" if "x \<in> set ?m" for x
    using that unfolding tally_pairs by auto
  have distinct: "distinct ?s"
  proof -
    have "distinct ?m" using t by (simp add: distinct_map)
    then have "distinct ?kept" by simp
    then show ?thesis by (metis mset_eq_imp_distinct_iff mset_sort_slice)
  qed
  have "x = y" if "x \<in> set ?s" "y \<in> set ?s" "\<not> scored_lt x y" "\<not> scored_lt y x" for x y
  proof -
    from that have "fst x = fst y" by (auto simp: scored_lt_def split: if_splits)
    with that(1,2) pairs [of x] pairs [of y] show ?thesis by auto
  qed
  with scored.sort_slice_sorted distinct have strict: "sorted_wrt scored_lt ?s" by (rule sorted_strict)
  have sub: "set ?s \<subseteq> set ?m" by auto
  have eq: "map scraped_wallet ?s = map (wallet_of obs) (map fst ?s)"
    unfolding map_map
  proof (rule map_cong [OF refl])
    fix x assume "x \<in> set ?s"
    then have "x = (fst x, stats_of obs (fst x))" using pairs sub by blast
    then show "scraped_wallet x = (wallet_of obs \<circ> fst) x" using scraped_pair [of "fst x" obs] by simp
  qed
  have "sorted_wrt quieter (map scraped_wallet ?s)"
    unfolding sorted_wrt_map
    by (rule sorted_wrt_mono_rel [OF _ strict]) (auto simp: scored_lt_def quieter_def scraped_wallet_def split: if_splits)
  moreover have "set (map fst ?s) = {a. eligible_wallet opts (wallet_of obs a)}"
    using eligible_observed by (force simp: tally_pairs keeps_wallet_eligible image_iff)
  moreover have "select_wallets opts ?m = take (nat (so_MaxWallets opts)) (map scraped_wallet ?s)"
    using assms by (simp add: select_wallets_def output_wallets_eq)
  ultimately show ?thesis unfolding eq by blast
qed

lemma scrape_defaults [simp]:
  "0 < so_BlockLookback (withScrapeDefaults opts)" "0 < so_MaxBlocks (withScrapeDefaults opts)"
  "0 < so_MaxWallets (withScrapeDefaults opts)" "0 < so_MaxTXPerBlock (withScrapeDefaults opts)"
  by (simp_all add: withScrapeDefaults_def Let_def)

section \<open>Calls\<close>

text \<open>What the calls of a client cost: \<open>cost\<close> reads a meter off the world.\<close>

locale metered_rpc =
  fixes rpc :: "'w rpc" and cost :: "'w \<Rightarrow> int"
  assumes slot_cost: "cost (snd (rpc_GetSlot rpc w)) \<le> cost w + 1"
    and block_cost: "cost (snd (rpc_GetBlock rpc w slot)) \<le> cost w + 1"
    and random_cost: "cost (snd (rpc_Intn rpc w n)) \<le> cost w"
begin

lemma start_slot_cost: "cost (snd (start_slot rpc opts w)) \<le> cost w + 1"
proof -
  obtain r w1 where s: "rpc_GetSlot rpc w = (r, w1)" by fastforce
  obtain k w2 where i: "rpc_Intn rpc w1 (so_BlockLookback opts) = (k, w2)" by fastforce
  have "cost w1 \<le> cost w + 1" "cost w2 \<le> cost w1"
    using slot_cost [of w] random_cost [of w1 "so_BlockLookback opts"] s i by simp_all
  with s i show ?thesis by (simp add: start_slot_def split: sum.splits)
qed

lemma scrape_blocks_cost:
  "0 < so_MaxBlocks opts \<Longrightarrow>
     cost (snd (scrape_blocks wild rpc opts startSlot n stats w)) \<le> cost w + int (nat (so_MaxBlocks opts - n))"
proof (induction "nat (so_BlockLookback opts - n)" arbitrary: n stats w rule: less_induct)
  case less
  show ?case
  proof (cases "n < so_BlockLookback opts \<and> n < so_MaxBlocks opts \<and> 0 < startSlot - n")
    case False
    with less.prems show ?thesis by (subst scrape_blocks.simps) auto
  next
    case True
    obtain r w1 where g: "rpc_GetBlock rpc w (startSlot - n) = (r, w1)" by fastforce
    have c: "cost w1 \<le> cost w + 1" using block_cost [of w "startSlot - n"] g by simp
    have ih: "cost (snd (scrape_blocks wild rpc opts startSlot (n + 1) st w1)) \<le>
        cost w1 + int (nat (so_MaxBlocks opts - (n + 1)))" for st
      by (rule less.hyps) (use True less.prems in auto)
    have m: "int (nat (so_MaxBlocks opts - (n + 1))) + 1 = int (nat (so_MaxBlocks opts - n))" using True by simp
    show ?thesis
    proof (cases r)
      case (Inl e)
      with True g ih [of stats] c m show ?thesis by (subst scrape_blocks.simps) simp
    next
      case (Inr block)
      with True g ih [of "inspect_block wild opts 0 stats (bl_Transactions block)"] c m
      show ?thesis by (subst scrape_blocks.simps) simp
    qed
  qed
qed

lemma scrape_cost:
  "cost (snd (ScrapeRecentWallets wild (Some rpc) opts w)) \<le> cost w + 1 + so_MaxBlocks (withScrapeDefaults opts)"
proof -
  let ?o = "withScrapeDefaults opts"
  obtain r w1 where s: "start_slot rpc ?o w = (r, w1)" by fastforce
  have c: "cost w1 \<le> cost w + 1" using start_slot_cost [of ?o w] s by simp
  have m: "0 < so_MaxBlocks ?o" by simp
  show ?thesis
  proof (cases r)
    case (Inl e)
    with s c m show ?thesis by (simp add: ScrapeRecentWallets_def del: scrape_defaults)
  next
    case (Inr k)
    obtain st w2 where b: "scrape_blocks wild rpc ?o k 0 [] w1 = (st, w2)" by fastforce
    have "cost w2 \<le> cost w1 + so_MaxBlocks ?o" using scrape_blocks_cost [OF m, of wild k 0 "[]" w1] b m by simp
    with s c Inr b show ?thesis by (simp add: ScrapeRecentWallets_def)
  qed
qed

end

text \<open>The client with a counter of its calls.\<close>

definition counting_rpc :: "'w rpc \<Rightarrow> ('w \<times> int) rpc" where
  "counting_rpc rpc =
     \<lparr> rpc_GetSlot = (\<lambda>(w, n). case rpc_GetSlot rpc w of (r, w') \<Rightarrow> (r, (w', n + 1))),
       rpc_GetBlock = (\<lambda>(w, n) slot. case rpc_GetBlock rpc w slot of (r, w') \<Rightarrow> (r, (w', n + 1))),
       rpc_Intn = (\<lambda>(w, n) k. case rpc_Intn rpc w k of (r, w') \<Rightarrow> (r, (w', n))) \<rparr>"

interpretation counted_rpc: metered_rpc "counting_rpc rpc" snd for rpc
  by unfold_locales (simp_all add: counting_rpc_def split: prod.splits)

section \<open>Properties\<close>

text \<open>What a scrape returns: from at most \<open>MaxBlocks\<close> blocks the client answered, and of each the first
  \<open>MaxTXPerBlock\<close> successful quiet transfers, exactly the wallets seen often enough that send and do not
  receive more often than they send, with their exact counts, the least seen first and cut at \<open>MaxWallets\<close>;
  the order in which Go visits its map has no influence.\<close>

theorem scraped_wallets:
  assumes "ScrapeRecentWallets wild (Some rpc) opts0 w = (Inr ws, w')"
  shows "\<exists>blocks ranked. let opts = withScrapeDefaults opts0;
      obs = concat (map (block_observations wild opts) blocks) in
    int (length blocks) \<le> so_MaxBlocks opts \<and> list_all (block_read rpc) blocks \<and>
    set ranked = {a. eligible_wallet opts (wallet_of obs a)} \<and>
    sorted_wrt quieter (map (wallet_of obs) ranked) \<and>
    ws = take (nat (so_MaxWallets opts)) (map (wallet_of obs) ranked)"
proof -
  let ?o = "withScrapeDefaults opts0"
  obtain k w1 stats where b: "scrape_blocks wild rpc ?o k 0 [] w1 = (stats, w')" and ws: "ws = select_wallets ?o stats"
    using assms by (auto simp: ScrapeRecentWallets_def Let_def split: prod.splits sum.splits)
  from scrape_blocks_read [OF b] obtain blocks where
    "length blocks \<le> nat (so_MaxBlocks ?o)" "list_all (block_read rpc) blocks"
    and st: "stats = foldl add_block_observation [] (concat (map (block_observations wild ?o) blocks))" by auto
  moreover have "0 < so_MaxBlocks ?o" by simp
  ultimately show ?thesis
    using select_wallets_ranked [of ?o "concat (map (block_observations wild ?o) blocks)"]
    unfolding ws st Let_def by (intro exI [of _ blocks]) (simp add: le_nat_iff)
qed

text \<open>A scrape makes at most one call for the latest slot and \<open>MaxBlocks\<close> calls for blocks, whatever the
  client answers.\<close>

theorem scrape_calls_bounded:
  "snd (snd (ScrapeRecentWallets wild (Some (counting_rpc rpc)) opts (w, 0)))
     \<le> 1 + so_MaxBlocks (withScrapeDefaults opts)"
  using counted_rpc.scrape_cost [of wild rpc opts "(w, 0)"] by simp

section \<open>Witnesses\<close>

text \<open>One block at every slot: a system transfer of twice the least amount, and a failed transaction.\<close>

definition sample_transfer_tx :: RPCBlockTx where
  "sample_transfer_tx = \<lparr> bt_Signatures = [''s''], bt_AccountKeys = [],
     bt_Instructions = [\<lparr> ix_Program = ''System'', ix_Parsed = Some \<lparr> pi_Type = ''Transfer'',
        pi_Info = Some [(''source'', InfoString '' alice''), (''destination'', InfoString ''bob''),
          (''lamports'', InfoFloat 20000)] \<rparr> \<rparr>], bt_Err = None \<rparr>"

definition sample_rpc :: "unit rpc" where
  "sample_rpc =
     \<lparr> rpc_GetSlot = (\<lambda>w. (Inr 7, w)),
       rpc_GetBlock = (\<lambda>w slot. (if slot = 6 then Inl (Err ''skipped'') else Inr \<lparr> bl_BlockTime = None,
          bl_Transactions = [sample_transfer_tx, sample_transfer_tx\<lparr> bt_Err := Some ''{}'' \<rparr>] \<rparr>, w)),
       rpc_Intn = (\<lambda>w n. (0, w)) \<rparr>"

definition sample_scrape :: ScrapeOptions where
  "sample_scrape = \<lparr> so_StartSlot = 0, so_BlockLookback = 3, so_MaxBlocks = 0, so_MaxWallets = 0,
     so_MaxTXPerBlock = 0, so_MaxNoisyInstructions = 0, so_MinNativeLamports = 10000, so_MinScrapeCount = 2 \<rparr>"

lemma sample_scraped:
  "ScrapeRecentWallets (\<lambda>_. 0) (Some sample_rpc) sample_scrape () =
     (Inr [\<lparr> sw_Address = ''alice'', sw_Count = 2, sw_Outbound = 2, sw_Inbound = 0 \<rparr>], ())"
  by code_simp

theorem scraped_wallets_witness:
  "\<exists>blocks. int (length blocks) \<le> 3 \<and>
     wallet_of (concat (map (block_observations (\<lambda>_. 0) (withScrapeDefaults sample_scrape)) blocks)) ''alice'' =
       \<lparr> sw_Address = ''alice'', sw_Count = 2, sw_Outbound = 2, sw_Inbound = 0 \<rparr>"
proof -
  let ?x = "\<lparr> sw_Address = ''alice'', sw_Count = 2, sw_Outbound = 2, sw_Inbound = 0 \<rparr>"
  have o: "so_MaxBlocks (withScrapeDefaults sample_scrape) = 3" by (simp add: sample_scrape_def withScrapeDefaults_def)
  from scraped_wallets [OF sample_scraped] obtain blocks ranked where len: "int (length blocks) \<le> 3"
    and eq: "[?x] = take (nat (so_MaxWallets (withScrapeDefaults sample_scrape)))
      (map (wallet_of (concat (map (block_observations (\<lambda>_. 0) (withScrapeDefaults sample_scrape)) blocks))) ranked)"
    unfolding Let_def o by blast
  have "?x \<in> set (map (wallet_of (concat (map (block_observations (\<lambda>_. 0) (withScrapeDefaults sample_scrape)) blocks))) ranked)"
    by (rule in_set_takeD [of _ "nat (so_MaxWallets (withScrapeDefaults sample_scrape))"]) (simp flip: eq)
  then obtain a where a: "?x = wallet_of (concat (map (block_observations (\<lambda>_. 0) (withScrapeDefaults sample_scrape)) blocks)) a"
    by auto
  then have "a = ''alice''" by (simp add: wallet_of_def Let_def)
  with a len show ?thesis by auto
qed

end
