(* ===== verification/Wallet_Source_Spec.thy ===== *)
theory Wallet_Source_Spec
imports Wallet_Source Metered Block_Scrape_Spec
begin

text \<open>
  Sourcing: every candidate ends accepted or rejected, once; what an accepted wallet went through; the
  ranking; and the bound on the pages asked for.
\<close>

section \<open>Ranking\<close>

interpretation rank: slice_order rank_lt
proof
  fix x y z :: walletStats
  show "\<not> rank_lt x x" by (simp add: rank_lt_def)
  show "rank_lt x y \<Longrightarrow> rank_lt y z \<Longrightarrow> rank_lt x z" by (auto simp: rank_lt_def split: if_splits)
  show "rank_lt x y \<Longrightarrow> rank_lt x z \<or> rank_lt z y" by (auto simp: rank_lt_def split: if_splits)
qed

interpretation discovery: slice_order discovery_lt
proof
  fix x y z :: candidateDiscovery
  show "\<not> discovery_lt x x" by (simp add: discovery_lt_def)
  show "discovery_lt x y \<Longrightarrow> discovery_lt y z \<Longrightarrow> discovery_lt x z"
    by (auto simp: discovery_lt_def split: if_splits)
  show "discovery_lt x y \<Longrightarrow> discovery_lt x z \<or> discovery_lt z y"
    by (auto simp: discovery_lt_def split: if_splits)
qed

interpretation deep: slice_order deep_lt
proof
  fix x y z :: deepDiveCandidate
  show "\<not> deep_lt x x" by (simp add: deep_lt_def)
  show "deep_lt x y \<Longrightarrow> deep_lt y z \<Longrightarrow> deep_lt x z" by (auto simp: deep_lt_def split: if_splits)
  show "deep_lt x y \<Longrightarrow> deep_lt x z \<or> deep_lt z y" by (auto simp: deep_lt_def split: if_splits)
qed

section \<open>Where the addresses go\<close>

abbreviation rejected_address :: "RejectedWallet \<Rightarrow> string" where
  "rejected_address r \<equiv> aw_Address (rj_Wallet r)"

definition sourcing_addresses :: "sourcing \<Rightarrow> string multiset" where
  "sourcing_addresses st =
     mset (map ws_address (sc_eligible st)) + mset (map (\<lambda>c. dc_address (dd_discovery c)) (sc_queue st)) +
     mset (map rejected_address (sc_rejected st))"

lemma reject_stats_address [simp]:
  "rejected_address (rejectedFromStatsWithDeepDiveStatus s reason status) = ws_address s"
  "rejected_address (rejectedFromStats s reason) = ws_address s"
  by (simp_all add: rejectedFromStats_def rejectedFromStatsWithDeepDiveStatus_def acceptedFromStats_def)

lemma foldl_keeps: "(\<And>s x. f (g s x) = f s) \<Longrightarrow> f (foldl g s xs) = f s"
  by (induction xs arbitrary: s) simp_all

lemma count_address [simp]:
  "ws_address (sm_stats (count_dust c s)) = ws_address (sm_stats s)"
  "ws_address (sm_stats (count_unknown tr known s)) = ws_address (sm_stats s)"
  "ws_address (sm_stats (count_timestamp t s)) = ws_address (sm_stats s)"
  "ws_address (count_counterparty legit stats kv) = ws_address stats"
  by (simp_all add: count_dust_def count_unknown_def count_timestamp_def count_counterparty_def Let_def split: prod.splits)

lemma summarize_transfer_address: "ws_address (sm_stats (fst (summarize_transfer a mode known early acc tr))) = ws_address (sm_stats (fst acc))"
  by (cases acc) (simp add: summarize_transfer_def outbound_case_def inbound_case_def Let_def)

lemma summarize_tx_address: "ws_address (sm_stats (summarize_tx sha a t known mode s tx)) = ws_address (sm_stats s)"
proof (cases "NormalizeEnhancedTx sha tx")
  case (Inr transfers)
  let ?s = "count_timestamp (tx_TimestampUnix tx) s"
  let ?r = "foldl (summarize_transfer a mode known (BlockTimeUTC tx < t)) (?s, 0) transfers"
  have "ws_address (sm_stats (fst ?r)) = ws_address (sm_stats s)"
    by (subst foldl_keeps [where f = "\<lambda>acc. ws_address (sm_stats (fst acc))"]) (simp_all add: summarize_transfer_address)
  with Inr show ?thesis by (cases ?r) (simp add: summarize_tx_def Let_def)
qed (simp add: summarize_tx_def Let_def)

lemma finish_summary_address: "ws_address (finish_summary s) = ws_address (sm_stats s)"
proof -
  have "ws_address (foldl (count_counterparty l) x xs) = ws_address x" for l x xs
    by (rule foldl_keeps) simp
  then show ?thesis by (simp add: finish_summary_def Let_def)
qed

lemma summarizeWallet_address: "ws_address (summarizeWallet sha a txs t known mode) = a"
proof -
  have "ws_address (sm_stats (foldl (summarize_tx sha a t known mode) s txs)) = ws_address (sm_stats s)" for s
    by (rule foldl_keeps [where f = "\<lambda>s. ws_address (sm_stats s)"]) (rule summarize_tx_address)
  then show ?thesis by (simp add: summarizeWallet_def finish_summary_address empty_stats_def)
qed

lemma sample_stats_address [simp]: "ws_address (sample_stats sha opts known c txs) = dc_address c"
  by (simp add: sample_stats_def Let_def with_scrape_def summarizeWallet_address split: option.splits)

lemma sourcing_simps [simp]:
  "sourcing_addresses (reject r st) = add_mset (rejected_address r) (sourcing_addresses st)"
  "sourcing_addresses (qualify stats st) = add_mset (ws_address stats) (sourcing_addresses st)"
  "sourcing_addresses (enqueue c st) = add_mset (dc_address (dd_discovery c)) (sourcing_addresses st)"
  by (simp_all add: sourcing_addresses_def reject_def qualify_def enqueue_def)

lemma judge_candidate_address:
  "ws_address stats = dc_address c \<Longrightarrow>
     sourcing_addresses (judge_candidate opts c page stats st) = add_mset (dc_address c) (sourcing_addresses st)"
  by (simp add: judge_candidate_def split: option.splits)

lemma fetch_error_address [simp]: "rejected_address (fetch_error_reject opts c) = dc_address c"
  by (simp add: fetch_error_reject_def with_scrape_def empty_stats_def)

text \<open>What the queue holds: nothing where there are no deep dives, and the candidate's own numbers.\<close>

definition queued_ok :: "SourceOptions \<Rightarrow> sourcing \<Rightarrow> bool" where
  "queued_ok opts st \<longleftrightarrow> list_all (\<lambda>c. ws_address (dd_initialStats c) = dc_address (dd_discovery c)) (sc_queue st) \<and>
     (sc_queue st \<noteq> [] \<longrightarrow> 0 < op_DeepDiveTopN opts)"

lemma queued_ok_simps [simp]:
  "queued_ok opts (reject r st) = queued_ok opts st" "queued_ok opts (qualify stats st) = queued_ok opts st"
  by (simp_all add: queued_ok_def reject_def qualify_def)

lemma judge_candidate_queued:
  "queued_ok opts st \<Longrightarrow> ws_address stats = dc_address c \<Longrightarrow> queued_ok opts (judge_candidate opts c page stats st)"
  by (auto simp: judge_candidate_def split: option.splits)
    (auto simp: queued_ok_def enqueue_def shouldDeepDive_def split: if_splits)

lemma score_loop_addresses:
  assumes "score_loop sha client opts known st cs w = (st', w')" and "queued_ok opts st"
  shows "sourcing_addresses st' = sourcing_addresses st + mset (map dc_address cs) \<and> queued_ok opts st'"
  using assms
proof (induction cs arbitrary: st w)
  case (Cons c cs)
  obtain page e w1 where f: "FetchEnhancedWindow client (dc_address c)
      (source_window opts (op_CandidateMaxPages opts) (op_MaxTXPerWallet opts)) w = ((page, e), w1)" by (metis prod.exhaust)
  define st1 where "st1 = (case e of None \<Rightarrow> judge_candidate opts c page (sample_stats sha opts known c (fr_Transactions page)) st
     | Some _ \<Rightarrow> reject (fetch_error_reject opts c) st)"
  have "score_loop sha client opts known st1 cs w1 = (st', w')"
    using Cons.prems(1) f by (cases e) (simp_all add: st1_def)
  moreover have "queued_ok opts st1" and "sourcing_addresses st1 = add_mset (dc_address c) (sourcing_addresses st)"
    using Cons.prems(2) by (cases e; simp add: st1_def judge_candidate_queued judge_candidate_address)+
  ultimately show ?case using Cons.IH by simp
qed simp

lemma judge_deep_address:
  "sc_queue (judge_deep opts page stats st) = sc_queue st \<and>
   sourcing_addresses (judge_deep opts page stats st) = add_mset (ws_address stats) (sourcing_addresses st)"
  by (auto simp: judge_deep_def split: option.splits) (auto simp: reject_def qualify_def)

lemma deep_loop_addresses:
  assumes "deep_loop sha client opts known i st cs w = (st', w')"
    and "list_all (\<lambda>c. ws_address (dd_initialStats c) = dc_address (dd_discovery c)) cs"
  shows "sourcing_addresses st' = sourcing_addresses st + mset (map (\<lambda>c. dc_address (dd_discovery c)) cs) \<and>
    sc_queue st' = sc_queue st"
  using assms
proof (induction cs arbitrary: i st w)
  case (Cons c cs)
  obtain page e w1 where f: "FetchEnhancedWindow client (dc_address (dd_discovery c))
      (source_window opts (op_DeepDiveMaxPages opts) (op_DeepDiveMaxTX opts)) w = ((page, e), w1)" by (metis prod.exhaust)
  have rj: "sc_queue (reject r st) = sc_queue st" for r by (simp add: reject_def)
  have ih: "sourcing_addresses st' = sourcing_addresses st1 + mset (map (\<lambda>c. dc_address (dd_discovery c)) cs) \<and>
      sc_queue st' = sc_queue st1" if "deep_loop sha client opts known (i + 1) st1 cs w2 = (st', w')" for st1 w2
    using Cons.IH [OF that] Cons.prems(2) by simp
  consider "i \<ge> op_DeepDiveTopN opts"
    | "i < op_DeepDiveTopN opts" "op_TargetCount opts > 0 \<and> int (length (sc_eligible st)) \<ge> op_TargetCount opts"
    | "i < op_DeepDiveTopN opts" "\<not> (op_TargetCount opts > 0 \<and> int (length (sc_eligible st)) \<ge> op_TargetCount opts)"
    by linarith
  then show ?case
  proof cases
    case 1
    then show ?thesis using ih [of _ w] Cons.prems rj by fastforce
  next
    case 2
    then show ?thesis using ih [of _ w] Cons.prems rj by fastforce
  next
    case 3
    show ?thesis
    proof (cases e)
      case None
      with 3 Cons.prems(1) f have d: "deep_loop sha client opts known (i + 1)
         (judge_deep opts page (sample_stats sha opts known (dd_discovery c) (fr_Transactions page)) st) cs w1 = (st', w')"
        by auto
      show ?thesis using ih [OF d] by (simp add: judge_deep_address)
    next
      case (Some err)
      with 3 Cons.prems(1) f have d: "deep_loop sha client opts known (i + 1)
         (reject (rejectedFromStatsWithDeepDiveStatus (dd_initialStats c) ''deep_dive_fetch_error''
            deepDiveStatusRetriedOtherReject) st) cs w1 = (st', w')"
        by auto
      show ?thesis using ih [OF d] Cons.prems(2) by (simp add: rj)
    qed
  qed
qed simp

definition finished_addresses :: "sourcing \<Rightarrow> string multiset" where
  "finished_addresses st = mset (map ws_address (sc_eligible st)) + mset (map rejected_address (sc_rejected st))"

lemma deep_stage_addresses:
  assumes "deep_stage sha client opts known st w = (st', w')" and "queued_ok opts st"
  shows "finished_addresses st' = sourcing_addresses st"
proof (cases "sc_queue st = []")
  case True
  with assms(1) show ?thesis by (auto simp: deep_stage_def finished_addresses_def sourcing_addresses_def)
next
  case False
  with assms have d: "deep_loop sha client opts known 0 st (sort_slice deep_lt (sc_queue st)) w = (st', w')"
    by (simp add: deep_stage_def queued_ok_def)
  have q: "list_all (\<lambda>c. ws_address (dd_initialStats c) = dc_address (dd_discovery c)) (sort_slice deep_lt (sc_queue st))"
    using assms(2) by (simp add: queued_ok_def list_all_iff)
  have m: "mset (map (\<lambda>c. dc_address (dd_discovery c)) (sort_slice deep_lt (sc_queue st))) =
      mset (map (\<lambda>c. dc_address (dd_discovery c)) (sc_queue st))" by simp
  have split: "sourcing_addresses s = finished_addresses s + mset (map (\<lambda>c. dc_address (dd_discovery c)) (sc_queue s))" for s
    by (simp add: finished_addresses_def sourcing_addresses_def ac_simps)
  from deep_loop_addresses [OF d q] show ?thesis unfolding m split by auto
qed

lemma accept_loop_eq:
  assumes "0 < target" and "0 \<le> i"
  shows "accept_loop target i r xs =
    \<lparr> sr_Accepted = sr_Accepted r @ map acceptedFromStats (take (nat (target - i)) xs),
      sr_Rejected = sr_Rejected r @ map (\<lambda>s. rejectedFromStats s ''target_count_reached'') (drop (nat (target - i)) xs) \<rparr>"
  using assms(2)
proof (induction xs arbitrary: i r)
  case (Cons x xs)
  show ?case
  proof (cases "target \<le> i")
    case True
    with Cons assms(1) show ?thesis by simp
  next
    case False
    then have "nat (target - i) = Suc (nat (target - (i + 1)))" by simp
    with Cons assms(1) False show ?thesis by simp
  qed
qed simp

section \<open>Discovered wallets\<close>

definition discovered_ok :: "(string \<times> candidateDiscovery) list \<Rightarrow> bool" where
  "discovered_ok m \<longleftrightarrow> distinct (map fst m) \<and>
     (\<forall>(k, v) \<in> set m. dc_address v = k \<and> dc_seeds v \<noteq> [] \<and> distinct (dc_seeds v) \<and> k \<noteq> [] \<and> trim_space k = k)"

lemma map_set_in: "distinct (map fst m) \<Longrightarrow> (a, b) \<in> set (map_set k v m) \<longleftrightarrow> (if a = k then b = v else (a, b) \<in> set m)"
  using map_of_map_set [of k v m] distinct_map_set [of m k v]
  by (metis fun_upd_apply map_of_eq_Some_iff option.inject)

lemma insert_not_Nil [simp]: "List.insert x xs \<noteq> []"
  by (cases xs) (auto simp: List.insert_def)

lemma addDiscovered_ok:
  assumes "discovered_ok m"
  shows "discovered_ok (addDiscovered seed skip m a)"
proof -
  have d: "distinct (map fst m)" using assms by (simp add: discovered_ok_def)
  let ?k = "trim_space a" and ?old = "map_get \<lparr> dc_address = trim_space a, dc_seeds = [] \<rparr> m (trim_space a)"
  have "dc_address ?old = ?k \<and> distinct (dc_seeds ?old)"
    using assms by (auto simp: map_get_def discovered_ok_def split: option.splits dest: map_of_SomeD)
  then show ?thesis
    using assms d
    by (auto simp: addDiscovered_def discovered_ok_def Let_def map_set_in split: if_splits option.splits)
qed

lemma foldl_inv: "P s \<Longrightarrow> (\<And>s x. P s \<Longrightarrow> P (f s x)) \<Longrightarrow> P (foldl f s xs)"
  by (induction xs arbitrary: s) simp_all

lemma discover_neighbors_ok: "discovered_ok m \<Longrightarrow> discovered_ok (discover_neighbors sha seed seeds m txs)"
  unfolding discover_neighbors_def
  by (rule foldl_inv) (auto intro!: foldl_inv addDiscovered_ok split: sum.split)

lemma discover_ok:
  "discover sha client opts seen m seeds w = (Inr m', w') \<Longrightarrow> discovered_ok m \<Longrightarrow> discovered_ok m'"
proof (induction seeds arbitrary: seen m w)
  case (Cons seed seeds)
  obtain page e w1 where f: "FetchEnhancedWindow client seed
      (source_window opts (op_SeedMaxPages opts) (op_MaxTXPerWallet opts)) w = ((page, e), w1)" by (metis prod.exhaust)
  have "discovered_ok (if op_ScoreSeedWallets opts then addDiscovered seed None m seed else m)"
    using Cons.prems(2) by (simp add: addDiscovered_ok)
  with Cons f show ?case
    by (cases e) (auto simp: Let_def discover_neighbors_ok split: if_splits)
qed simp

lemma sortedDiscoveries_ok:
  assumes "discovered_ok m"
  shows "sorted_wrt discovery_lt (sortedDiscoveries m)" and "distinct (map dc_address (sortedDiscoveries m))"
    and "mset (sortedDiscoveries m) = mset (map snd m)" and "\<forall>c \<in> set (sortedDiscoveries m). dc_address c \<noteq> [] \<and> trim_space (dc_address c) = dc_address c"
proof -
  show m: "mset (sortedDiscoveries m) = mset (map snd m)" by (simp add: sortedDiscoveries_def)
  have keys: "map dc_address (map snd m) = map fst m"
    using assms by (auto simp: discovered_ok_def)
  from m have "mset (map dc_address (sortedDiscoveries m)) = mset (map dc_address (map snd m))" by (metis mset_map)
  with keys assms show d: "distinct (map dc_address (sortedDiscoveries m))"
    by (metis discovered_ok_def mset_eq_imp_distinct_iff)
  show "sorted_wrt discovery_lt (sortedDiscoveries m)"
  proof (rule sorted_strict)
    show "sorted_wrt (\<lambda>x y. \<not> discovery_lt y x) (sortedDiscoveries m)"
      unfolding sortedDiscoveries_def by (rule discovery.sort_slice_sorted)
    show "distinct (sortedDiscoveries m)" using d by (simp add: distinct_map)
    fix x y assume "x \<in> set (sortedDiscoveries m)" "y \<in> set (sortedDiscoveries m)" "\<not> discovery_lt x y" "\<not> discovery_lt y x"
    moreover from this have "dc_address x = dc_address y" by (auto simp: discovery_lt_def split: if_splits)
    ultimately show "x = y" using d by (simp add: distinct_map inj_on_def)
  qed
  show "\<forall>c \<in> set (sortedDiscoveries m). dc_address c \<noteq> [] \<and> trim_space (dc_address c) = dc_address c"
    using assms mset_eq_setD [OF m] by (auto simp: discovered_ok_def)
qed

section \<open>A run that succeeds\<close>

lemma Source_InrD:
  assumes "Source sha fs fl client opts0 w = (Inr r, w')"
  obtains E seeds discovered w1 w2 where "client = Some E"
    and "loadSeedWallets fs (op_SeedWalletFile opts0) (op_SeedWallets opts0) = Inr seeds"
    and "discover sha client (withDefaults opts0) [] [] (at_most (op_MaxSeedWallets (withDefaults opts0)) seeds) w = (Inr discovered, w1)"
    and "source_result sha client (withDefaults opts0)
      (at_most (op_MaxCandidates (withDefaults opts0)) (sortedDiscoveries discovered)) w1 = (r, w2)"
    and "write_result fl (withDefaults opts0) r w2 = (Inr r, w')"
proof -
  have o: "op_SeedWalletFile (withDefaults opts0) = op_SeedWalletFile opts0"
    "op_SeedWallets (withDefaults opts0) = op_SeedWallets opts0" by (simp_all add: withDefaults_def Let_def)
  have wr: "write_result fl opts r1 w2 = (Inr r, w') \<Longrightarrow> r1 = r" for opts r1 w2
    by (auto simp: write_result_def split: prod.splits option.splits)
  from assms obtain E seeds discovered w1 r1 w2 where "client = Some E"
    and "loadSeedWallets fs (op_SeedWalletFile opts0) (op_SeedWallets opts0) = Inr seeds"
    and "discover sha client (withDefaults opts0) [] [] (at_most (op_MaxSeedWallets (withDefaults opts0)) seeds) w = (Inr discovered, w1)"
    and "source_result sha client (withDefaults opts0)
      (at_most (op_MaxCandidates (withDefaults opts0)) (sortedDiscoveries discovered)) w1 = (r1, w2)"
    and "write_result fl (withDefaults opts0) r1 w2 = (Inr r, w')"
    by (auto simp: Source_def Let_def o Option.is_none_def split: if_splits sum.splits prod.splits option.splits)
  with wr that show thesis by blast
qed

lemma source_result_InrD:
  assumes "source_result sha client opts cs w = (r, w')" and "0 < op_TargetCount opts"
  obtains st1 w1 st2 where "score_loop sha client opts (knownDustThresholdMap (op_KnownDustAssetKeys opts))
      \<lparr> sc_eligible = [], sc_queue = [], sc_rejected = [] \<rparr> cs w = (st1, w1)"
    and "deep_stage sha client opts (knownDustThresholdMap (op_KnownDustAssetKeys opts)) st1 w1 = (st2, w')"
    and "sr_Accepted r = map acceptedFromStats (take (nat (op_TargetCount opts)) (sort_slice rank_lt (sc_eligible st2)))"
    and "sr_Rejected r = sc_rejected st2 @ map (\<lambda>s. rejectedFromStats s ''target_count_reached'')
      (drop (nat (op_TargetCount opts)) (sort_slice rank_lt (sc_eligible st2)))"
proof -
  let ?known = "knownDustThresholdMap (op_KnownDustAssetKeys opts)"
  obtain st1 w1 where a: "score_loop sha client opts ?known \<lparr> sc_eligible = [], sc_queue = [], sc_rejected = [] \<rparr> cs w = (st1, w1)"
    by fastforce
  obtain st2 w2 where b: "deep_stage sha client opts ?known st1 w1 = (st2, w2)" by fastforce
  from assms a b show thesis
    by (intro that [OF a]) (auto simp: source_result_def Let_def accept_loop_eq)
qed

lemma target_pos [simp]: "0 < op_TargetCount (withDefaults opts)" "0 < op_MaxCandidates (withDefaults opts)"
  "0 < op_MaxSeedWallets (withDefaults opts)"
  by (simp_all add: withDefaults_def Let_def)

lemma at_most_take: "0 < n \<Longrightarrow> at_most n xs = take (nat n) xs"
  by (auto simp: at_most_def)

lemma at_most_length: "0 < n \<Longrightarrow> int (length (at_most n xs)) \<le> n"
  by (auto simp: at_most_def)

lemma source_result_addresses:
  assumes "source_result sha client opts cs w = (r, w')" and "0 < op_TargetCount opts"
  shows "mset (map aw_Address (sr_Accepted r) @ map rejected_address (sr_Rejected r)) = mset (map dc_address cs)"
proof (rule source_result_InrD [OF assms])
  fix st1 w1 and st2 :: sourcing
  let ?known = "knownDustThresholdMap (op_KnownDustAssetKeys opts)"
  let ?s = "sort_slice rank_lt (sc_eligible st2)" and ?n = "nat (op_TargetCount opts)"
  assume a: "score_loop sha client opts ?known \<lparr> sc_eligible = [], sc_queue = [], sc_rejected = [] \<rparr> cs w = (st1, w1)"
    and b: "deep_stage sha client opts ?known st1 w1 = (st2, w')"
    and c: "sr_Accepted r = map acceptedFromStats (take ?n ?s)"
    and d: "sr_Rejected r = sc_rejected st2 @ map (\<lambda>s. rejectedFromStats s ''target_count_reached'') (drop ?n ?s)"
  have q: "queued_ok opts \<lparr> sc_eligible = [], sc_queue = [], sc_rejected = [] \<rparr>" by (simp add: queued_ok_def)
  from score_loop_addresses [OF a q] deep_stage_addresses [OF b]
  have f: "finished_addresses st2 = mset (map dc_address cs)" by (simp add: sourcing_addresses_def)
  have "mset (map ws_address (take ?n ?s)) + mset (map ws_address (drop ?n ?s)) = mset (map ws_address (sc_eligible st2))"
    by (metis append_take_drop_id map_append mset_append mset_map mset_sort_slice)
  moreover have "map aw_Address (sr_Accepted r) = map ws_address (take ?n ?s)" by (simp add: c acceptedFromStats_def)
  moreover have "map rejected_address (sr_Rejected r) = map rejected_address (sc_rejected st2) @ map ws_address (drop ?n ?s)"
    by (simp add: d)
  ultimately show ?thesis using f by (simp add: finished_addresses_def ac_simps)
qed

section \<open>What qualified\<close>

text \<open>A complete sample: a fetch, with some limits, that was not cut.\<close>

definition complete_sample :: "'w env option \<Rightarrow> SourceOptions \<Rightarrow> string \<Rightarrow> EnhancedTransaction list \<Rightarrow> bool" where
  "complete_sample client opts a txs \<longleftrightarrow>
     (\<exists>pages maxTx w0 page w1. FetchEnhancedWindow client a (source_window opts pages maxTx) w0 = ((page, None), w1) \<and>
        \<not> fr_Partial page \<and> txs = fr_Transactions page)"

definition qualifies ::
  "(string \<Rightarrow> string) \<Rightarrow> 'w env option \<Rightarrow> SourceOptions \<Rightarrow> (string \<times> int) list \<Rightarrow> walletStats \<Rightarrow> bool" where
  "qualifies sha client opts known stats \<longleftrightarrow> statsRejectReason stats opts = None \<and>
     (\<exists>c txs. complete_sample client opts (dc_address c) txs \<and> stats = sample_stats sha opts known c txs)"

lemma qualifiedI:
  assumes "FetchEnhancedWindow client (dc_address c) (source_window opts pages maxTx) w0 = ((page, None), w1)"
    and "\<not> fr_Partial page" and "statsRejectReason (sample_stats sha opts known c (fr_Transactions page)) opts = None"
  shows "qualifies sha client opts known (sample_stats sha opts known c (fr_Transactions page))"
  unfolding qualifies_def complete_sample_def using assms by blast

lemma eligible_simps [simp]:
  "sc_eligible (reject r st) = sc_eligible st" "sc_eligible (qualify stats st) = sc_eligible st @ [stats]"
  "sc_eligible (enqueue c st) = sc_eligible st"
  by (simp_all add: reject_def qualify_def enqueue_def)

lemma score_loop_qualified:
  assumes "score_loop sha client opts known st cs w = (st', w')"
    and "list_all (qualifies sha client opts known) (sc_eligible st)"
  shows "list_all (qualifies sha client opts known) (sc_eligible st')"
  using assms
proof (induction cs arbitrary: st w)
  case (Cons c cs)
  obtain page e w1 where f: "FetchEnhancedWindow client (dc_address c)
      (source_window opts (op_CandidateMaxPages opts) (op_MaxTXPerWallet opts)) w = ((page, e), w1)" by (metis prod.exhaust)
  show ?case
  proof (cases e)
    case None
    let ?st = "judge_candidate opts c page (sample_stats sha opts known c (fr_Transactions page)) st"
    have "list_all (qualifies sha client opts known) (sc_eligible ?st)"
      using Cons.prems(2) qualifiedI [OF f [unfolded None]] by (auto simp: judge_candidate_def split: option.splits)
    then show ?thesis using Cons.IH Cons.prems(1) f None by simp
  next
    case (Some err)
    then show ?thesis using Cons f by simp
  qed
qed simp

lemma deep_loop_qualified:
  assumes "deep_loop sha client opts known i st cs w = (st', w')"
    and "list_all (qualifies sha client opts known) (sc_eligible st)"
  shows "list_all (qualifies sha client opts known) (sc_eligible st')"
  using assms
proof (induction cs arbitrary: i st w)
  case (Cons c cs)
  obtain page e w1 where f: "FetchEnhancedWindow client (dc_address (dd_discovery c))
      (source_window opts (op_DeepDiveMaxPages opts) (op_DeepDiveMaxTX opts)) w = ((page, e), w1)" by (metis prod.exhaust)
  let ?st = "judge_deep opts page (sample_stats sha opts known (dd_discovery c) (fr_Transactions page)) st"
  have "list_all (qualifies sha client opts known) (sc_eligible ?st)" if "e = None"
    using Cons.prems(2) qualifiedI [OF f [unfolded that]] by (auto simp: judge_deep_def split: option.splits)
  then show ?case using Cons f by (cases e) (auto split: if_splits)
qed simp

lemma serves_sample:
  assumes "complete_sample (Some E) opts a txs" and "serves E a hist" and "newest_first hist"
  shows "txs = filter (in_window (source_window opts 0 0)) hist"
proof -
  from assms(1) obtain pages maxTx w0 page w1 where
    f: "FetchEnhancedWindow (Some E) a (source_window opts pages maxTx) w0 = ((page, None), w1)"
    and "\<not> fr_Partial page" and txs: "txs = fr_Transactions page" unfolding complete_sample_def by blast
  with fetch_window_complete [OF assms(2,3) f]
  have "txs = filter (in_window (source_window opts pages maxTx)) hist" by simp
  also have "in_window (source_window opts pages maxTx) = in_window (source_window opts 0 0)"
    by (simp add: fun_eq_iff in_window_def source_window_def)
  finally show ?thesis .
qed

text \<open>The transactions of a history the candidates are judged on.\<close>

definition judged_txs :: "SourceOptions \<Rightarrow> EnhancedTransaction list \<Rightarrow> EnhancedTransaction list" where
  "judged_txs opts hist =
     filter (\<lambda>tx. op_ScanStart opts - op_BaselineLookback opts \<le> BlockTimeUTC tx \<and> BlockTimeUTC tx < op_ScanEnd opts) hist"

lemma judged_txs_window: "judged_txs opts = filter (in_window (source_window opts 0 0))"
  by (simp add: judged_txs_def fun_eq_iff in_window_def [abs_def] source_window_def)

lemma qualified_served:
  assumes "qualifies sha (Some E) opts known stats" and "\<And>a. serves E a (hist a) \<and> newest_first (hist a)"
  shows "statsRejectReason stats opts = None \<and>
    (\<exists>c. stats = sample_stats sha opts known c (judged_txs opts (hist (ws_address stats))))"
proof -
  from assms(1) obtain c txs where "complete_sample (Some E) opts (dc_address c) txs"
    and st: "stats = sample_stats sha opts known c txs" and "statsRejectReason stats opts = None"
    unfolding qualifies_def by blast
  moreover have "txs = judged_txs opts (hist (dc_address c))"
    using serves_sample calculation(1) assms(2) unfolding judged_txs_window by blast
  ultimately show ?thesis by auto
qed

section \<open>What a source costs\<close>

locale metered_source = metered_client +
  fixes fl :: "'a files"
  assumes mkdir_cost: "cost (snd (fl_MkdirAll fl path w)) \<le> cost w"
    and write_cost: "cost (snd (fl_WriteFile fl path body w)) \<le> cost w"
begin

text \<open>The most one wallet's fetch can cost with so many pages.\<close>

definition window_price :: "SourceOptions \<Rightarrow> int \<Rightarrow> int" where
  "window_price opts pages = price * ((int (nat (op_MaxRetries opts)) + 1) * int (nat pages))"

lemma window_price_pos [simp]: "0 \<le> window_price opts pages"
  using price_pos by (simp add: window_price_def)

lemma source_window_cost:
  "FetchEnhancedWindow (Some E) a (source_window opts pages maxTx) w = ((page, e), w') \<Longrightarrow>
     cost w' \<le> cost w + window_price opts pages"
  using window_cost [of a "source_window opts pages maxTx" w] by (simp add: window_price_def source_window_def)

lemma score_loop_cost:
  "score_loop sha (Some E) opts known st cs w = (st', w') \<Longrightarrow>
     cost w' \<le> cost w + int (length cs) * window_price opts (op_CandidateMaxPages opts)"
proof (induction cs arbitrary: st w)
  case (Cons c cs)
  obtain page e w1 where f: "FetchEnhancedWindow (Some E) (dc_address c)
      (source_window opts (op_CandidateMaxPages opts) (op_MaxTXPerWallet opts)) w = ((page, e), w1)" by (metis prod.exhaust)
  from Cons.prems f obtain st1 where "score_loop sha (Some E) opts known st1 cs w1 = (st', w')" by (cases e) auto
  from Cons.IH [OF this] source_window_cost [OF f] show ?case by (simp add: distrib_right)
qed simp

lemma deep_loop_cost:
  assumes "deep_loop sha (Some E) opts known i st cs w = (st', w')"
  shows "cost w' \<le> cost w + int (nat (op_DeepDiveTopN opts - i)) * window_price opts (op_DeepDiveMaxPages opts)"
  using assms
proof (induction cs arbitrary: i st w)
  case (Cons c cs)
  let ?b = "window_price opts (op_DeepDiveMaxPages opts)"
  have step: "int (nat (op_DeepDiveTopN opts - (i + 1))) * ?b \<le> int (nat (op_DeepDiveTopN opts - i)) * ?b"
    by (intro mult_right_mono) simp_all
  obtain page e w1 where f: "FetchEnhancedWindow (Some E) (dc_address (dd_discovery c))
      (source_window opts (op_DeepDiveMaxPages opts) (op_DeepDiveMaxTX opts)) w = ((page, e), w1)" by (metis prod.exhaust)
  show ?case
  proof (cases "\<exists>st1. deep_loop sha (Some E) opts known (i + 1) st1 cs w = (st', w')")
    case True
    with Cons.IH step show ?thesis by force
  next
    case False
    with Cons.prems have i: "i < op_DeepDiveTopN opts"
      by (metis (no_types, lifting) deep_loop.simps(2) linorder_not_le)
    from Cons.prems False f obtain st1 where "deep_loop sha (Some E) opts known (i + 1) st1 cs w1 = (st', w')"
      by (cases e) (auto split: if_splits)
    from Cons.IH [OF this] source_window_cost [OF f]
    have "cost w' \<le> cost w + (int (nat (op_DeepDiveTopN opts - (i + 1))) + 1) * ?b" by (simp add: distrib_right)
    moreover have "int (nat (op_DeepDiveTopN opts - (i + 1))) + 1 = int (nat (op_DeepDiveTopN opts - i))" using i by simp
    ultimately show ?thesis by simp
  qed
qed simp

lemma discover_cost:
  assumes "discover sha (Some E) opts seen m seeds w = (r, w')"
  shows "cost w' \<le> cost w + (if op_DiscoverNeighbors opts
    then int (length seeds) * window_price opts (op_SeedMaxPages opts) else 0)"
  using assms
proof (induction seeds arbitrary: seen m w)
  case (Cons seed seeds)
  obtain page e w1 where f: "FetchEnhancedWindow (Some E) seed
      (source_window opts (op_SeedMaxPages opts) (op_MaxTXPerWallet opts)) w = ((page, e), w1)" by (metis prod.exhaust)
  show ?case
  proof (cases "op_DiscoverNeighbors opts")
    case False
    with Cons show ?thesis by (auto simp: Let_def)
  next
    case True
    note c = source_window_cost [OF f]
    have pos: "0 \<le> int (length seeds) * window_price opts (op_SeedMaxPages opts)" by simp
    consider "w' = w1" | seen' m' where "discover sha (Some E) opts seen' m' seeds w1 = (r, w')"
      using Cons.prems True f by (cases e) (auto simp: Let_def)
    then show ?thesis
    proof cases
      case 1
      have eq: "int (length (seed # seeds)) * window_price opts (op_SeedMaxPages opts) =
          int (length seeds) * window_price opts (op_SeedMaxPages opts) + window_price opts (op_SeedMaxPages opts)"
        by (simp add: distrib_right)
      have "cost w1 \<le> cost w + int (length (seed # seeds)) * window_price opts (op_SeedMaxPages opts)"
        using c pos unfolding eq by linarith
      with 1 True show ?thesis by simp
    next
      case 2
      from Cons.IH [OF this] True c show ?thesis by (simp add: distrib_right)
    qed
  qed
qed simp

lemma write_result_cost: "cost (snd (write_result fl opts r w)) \<le> cost w"
proof -
  have t: "cost (snd (write_text fl what path body w)) \<le> cost w" for what path body w
    using mkdir_cost [of "path_dir path" w] write_cost [of path body "snd (fl_MkdirAll fl (path_dir path) w)"]
    by (auto simp: write_text_def split: prod.splits option.splits)
  have "cost (snd (writeAccepted fl path xs w)) \<le> cost w" "cost (snd (writeRejected fl path ys w)) \<le> cost w" for path xs ys w
    by (simp_all add: writeAccepted_def writeRejected_def t)
  then show ?thesis
    unfolding write_result_def by (auto split: prod.split option.split) (metis order_trans snd_conv)+
qed

definition source_price :: "SourceOptions \<Rightarrow> int" where
  "source_price opts =
     (if op_DiscoverNeighbors opts then op_MaxSeedWallets opts * window_price opts (op_SeedMaxPages opts) else 0) +
     op_MaxCandidates opts * window_price opts (op_CandidateMaxPages opts) +
     op_DeepDiveTopN opts * window_price opts (op_DeepDiveMaxPages opts)"

lemma source_cost: "cost (snd (Source sha fs fl (Some E) opts0 w)) \<le> cost w + source_price (withDefaults opts0)"
proof -
  let ?o = "withDefaults opts0"
  have top: "0 \<le> op_DeepDiveTopN ?o" by (simp add: withDefaults_def Let_def)
  have pos: "0 \<le> op_MaxCandidates ?o * window_price ?o (op_CandidateMaxPages ?o)"
      "0 \<le> op_DeepDiveTopN ?o * window_price ?o (op_DeepDiveMaxPages ?o)"
      "0 \<le> op_MaxSeedWallets ?o * window_price ?o (op_SeedMaxPages ?o)"
    using top less_imp_le [OF target_pos(2)] less_imp_le [OF target_pos(3)] by simp_all
  have early: "cost w \<le> cost w + source_price ?o" using pos by (simp add: source_price_def)
  have "cost w' \<le> cost w + source_price ?o"
    if d: "discover sha (Some E) ?o [] [] (at_most (op_MaxSeedWallets ?o) seeds) w = (Inr disc, w1)"
      and r: "source_result sha (Some E) ?o (at_most (op_MaxCandidates ?o) (sortedDiscoveries disc)) w1 = (res, w2)"
      and wr: "write_result fl ?o res w2 = (out, w')" for seeds disc w1 res w2 out w'
  proof -
    let ?c = "at_most (op_MaxCandidates ?o) (sortedDiscoveries disc)"
    have seeds: "cost w1 \<le> cost w + (if op_DiscoverNeighbors ?o
        then op_MaxSeedWallets ?o * window_price ?o (op_SeedMaxPages ?o) else 0)"
    proof -
      have "int (length (at_most (op_MaxSeedWallets ?o) seeds)) * window_price ?o (op_SeedMaxPages ?o)
          \<le> op_MaxSeedWallets ?o * window_price ?o (op_SeedMaxPages ?o)"
        by (intro mult_right_mono at_most_length) simp_all
      then show ?thesis using discover_cost [OF d] by (auto split: if_splits)
    qed
    have "cost w2 \<le> cost w1 + op_MaxCandidates ?o * window_price ?o (op_CandidateMaxPages ?o) +
        op_DeepDiveTopN ?o * window_price ?o (op_DeepDiveMaxPages ?o)"
    proof (rule source_result_InrD [OF r target_pos(1)])
      fix st1 w3 and st2 :: sourcing
      let ?known = "knownDustThresholdMap (op_KnownDustAssetKeys ?o)"
      assume a: "score_loop sha (Some E) ?o ?known \<lparr> sc_eligible = [], sc_queue = [], sc_rejected = [] \<rparr> ?c w1 = (st1, w3)"
        and b: "deep_stage sha (Some E) ?o ?known st1 w3 = (st2, w2)"
      have "int (length ?c) * window_price ?o (op_CandidateMaxPages ?o)
          \<le> op_MaxCandidates ?o * window_price ?o (op_CandidateMaxPages ?o)"
        by (intro mult_right_mono at_most_length) simp_all
      with score_loop_cost [OF a]
      have c3: "cost w3 \<le> cost w1 + op_MaxCandidates ?o * window_price ?o (op_CandidateMaxPages ?o)" by linarith
      have "cost w2 \<le> cost w3 + op_DeepDiveTopN ?o * window_price ?o (op_DeepDiveMaxPages ?o)"
        using b deep_loop_cost [of sha ?o ?known 0] top pos(2)
        by (auto simp: deep_stage_def split: if_splits)
      with c3 show ?thesis by linarith
    qed
    moreover have "cost w' \<le> cost w2" using write_result_cost [of ?o res w2] wr by simp
    ultimately show ?thesis using seeds by (simp add: source_price_def)
  qed
  moreover have "cost w1 \<le> cost w + source_price ?o"
    if d: "discover sha (Some E) ?o [] [] (at_most (op_MaxSeedWallets ?o) seeds) w = (Inl e, w1)" for seeds e w1
  proof -
    have "int (length (at_most (op_MaxSeedWallets ?o) seeds)) * window_price ?o (op_SeedMaxPages ?o)
        \<le> op_MaxSeedWallets ?o * window_price ?o (op_SeedMaxPages ?o)"
      by (intro mult_right_mono at_most_length) simp_all
    then show ?thesis using discover_cost [OF d] pos by (auto simp: source_price_def split: if_splits)
  qed
  ultimately show ?thesis
    using early by (auto simp: Source_def Let_def split: sum.split prod.split) (metis prod.collapse)+
qed

end

section \<open>Properties\<close>

text \<open>Every candidate is accounted for: the addresses of the accepted and the rejected wallets together are
  those of the candidates, each once; the candidates are different wallets, at most \<open>MaxCandidates\<close>, those
  found from the most seeds first.\<close>

theorem source_accounts:
  assumes "Source sha fs fl client opts w = (Inr r, w')"
  shows "\<exists>candidates. mset (map aw_Address (sr_Accepted r) @ map rejected_address (sr_Rejected r)) = mset (map dc_address candidates) \<and>
    distinct (map dc_address candidates) \<and> sorted_wrt discovery_lt candidates \<and>
    int (length candidates) \<le> op_MaxCandidates (withDefaults opts) \<and>
    (\<forall>c \<in> set candidates. dc_address c \<noteq> [] \<and> trim_space (dc_address c) = dc_address c)"
proof (rule Source_InrD [OF assms])
  fix E seeds discovered w1 and w2 :: 'a
  let ?o = "withDefaults opts"
  let ?c = "at_most (op_MaxCandidates ?o) (sortedDiscoveries discovered)"
  assume "discover sha client ?o [] [] (at_most (op_MaxSeedWallets ?o) seeds) w = (Inr discovered, w1)"
  then have "discovered_ok discovered" by (rule discover_ok) (simp add: discovered_ok_def)
  note s = sortedDiscoveries_ok [OF this]
  assume "source_result sha client ?o ?c w1 = (r, w2)"
  then have "mset (map aw_Address (sr_Accepted r) @ map rejected_address (sr_Rejected r)) = mset (map dc_address ?c)"
    by (rule source_result_addresses) simp
  moreover have "?c = take (nat (op_MaxCandidates ?o)) (sortedDiscoveries discovered)" by (rule at_most_take) simp
  moreover have "distinct (map dc_address (take n (sortedDiscoveries discovered)))" for n
    using s(2) by (metis distinct_take take_map)
  moreover have "sorted_wrt discovery_lt (take n (sortedDiscoveries discovered))" for n
    using s(1) by (rule sorted_wrt_take)
  moreover have "int (length ?c) \<le> op_MaxCandidates ?o" by (rule at_most_length) simp
  ultimately show ?thesis using s(4) by (intro exI [of _ ?c]) (auto dest: in_set_takeD)
qed


end
