(* ===== verification/Wallet_Stats_Spec.thy ===== *)
theory Wallet_Stats_Spec
imports Wallet_Stats
begin

text \<open>
  The amounts of the wallet source: the comparison of decimal texts is the comparison of the numbers, so
  that the dust status is the numeric one.
\<close>

section \<open>Decimal texts\<close>

lemma digits_val_acc: "digits_val acc s = acc * 10 ^ length s + digits_val 0 s"
proof (induction s arbitrary: acc)
  case (Cons c s)
  show ?case using Cons [of "10 * acc + digit_val c"] Cons [of "digit_val c"] by (simp add: algebra_simps)
qed simp

lemma digits_val_Cons: "digits_val 0 (c # s) = digit_val c * 10 ^ length s + digits_val 0 s"
  using digits_val_acc [of "digit_val c" s] by simp

lemma digit_val_less: "is_ascii_digit c \<Longrightarrow> digit_val c < 10"
  by (auto simp: is_ascii_digit_def digit_val_def less_eq_char_def)

lemma digits_val_bound: "list_all is_ascii_digit s \<Longrightarrow> digits_val 0 s < 10 ^ length s"
proof (induction s)
  case (Cons c s)
  then have "digit_val c * 10 ^ length s + digits_val 0 s < digit_val c * 10 ^ length s + 10 ^ length s" by simp
  also have "\<dots> = (digit_val c + 1) * 10 ^ length s" by simp
  also have "\<dots> \<le> 10 * 10 ^ length s" using Cons.prems digit_val_less [of c] by (intro mult_le_mono1) simp
  finally show ?case by (simp only: digits_val_Cons list.size power_Suc) simp
qed simp

lemma digit_val_zero: "is_ascii_digit c \<Longrightarrow> digit_val c = 0 \<longleftrightarrow> c = CHR ''0''"
proof -
  assume c: "is_ascii_digit c"
  have "digit_val c = 0 \<longleftrightarrow> (of_char c :: nat) = of_char (CHR ''0'')"
    using c by (auto simp: is_ascii_digit_def digit_val_def less_eq_char_def)
  then show ?thesis by (simp only: of_char_eq_iff)
qed

lemma digits_val_lower:
  assumes "is_ascii_digit c" and "c \<noteq> CHR ''0''"
  shows "10 ^ length s \<le> digits_val 0 (c # s)"
proof -
  have "1 \<le> digit_val c" using assms digit_val_zero [of c] by simp
  then have "1 * 10 ^ length s \<le> digit_val c * 10 ^ length s" by (rule mult_le_mono1)
  then show ?thesis unfolding digits_val_Cons by linarith
qed

lemma digits_val_trim: "digits_val 0 (dropWhile (\<lambda>r. r = CHR ''0'') s) = digits_val 0 s"
  by (induction s) (simp_all add: digit_val_def)

lemma show_nat_head: "0 < n \<Longrightarrow> hd (show_nat n) \<noteq> CHR ''0''"
proof (induction n rule: show_nat.induct)
  case (1 n)
  show ?case
  proof (cases "n < 10")
    case True
    have "digit_val (CHR ''0'') = 0" by (simp add: digit_val_def)
    with digit_val_char_of [OF True] "1.prems" have "char_of (48 + n) \<noteq> CHR ''0''" by (metis less_irrefl)
    with True show ?thesis by (simp add: show_nat.simps [of n])
  next
    case False
    have "show_nat (n div 10) \<noteq> []" using show_nat_digits by blast
    with False "1.IH" show ?thesis by (simp add: show_nat.simps [of n])
  qed
qed

lemma digit_less: "is_ascii_digit c \<Longrightarrow> is_ascii_digit d \<Longrightarrow> c < d \<longleftrightarrow> digit_val c < digit_val d"
  by (auto simp: is_ascii_digit_def digit_val_def less_eq_char_def less_char_def)

text \<open>For texts of one length the order of the texts is that of the numbers.\<close>

lemma digits_lex:
  assumes "list_all is_ascii_digit s" and "list_all is_ascii_digit t" and "length s = length t"
  shows "s \<le> t \<longleftrightarrow> digits_val 0 s \<le> digits_val 0 t"
  using assms(3,1,2)
proof (induction s t rule: list_induct2)
  case (Cons c s d t)
  let ?p = "10 ^ length t :: nat"
  have v: "digits_val 0 (c # s) = digit_val c * ?p + digits_val 0 s" "digits_val 0 (d # t) = digit_val d * ?p + digits_val 0 t"
    using digits_val_Cons [of c s] digits_val_Cons [of d t] Cons.hyps by simp_all
  have b: "digits_val 0 s < ?p" "digits_val 0 t < ?p"
    using digits_val_bound [of s] digits_val_bound [of t] Cons.prems Cons.hyps by simp_all
  consider "c < d" | "d < c" | "c = d" by fastforce
  then show ?case
  proof cases
    case 1
    then have "Suc (digit_val c) \<le> digit_val d" using digit_less Cons.prems by simp
    then have "Suc (digit_val c) * ?p \<le> digit_val d * ?p" by (rule mult_le_mono1)
    with 1 b v show ?thesis by simp
  next
    case 2
    then have "Suc (digit_val d) \<le> digit_val c" using digit_less Cons.prems by simp
    then have "Suc (digit_val d) * ?p \<le> digit_val c * ?p" by (rule mult_le_mono1)
    moreover have "\<not> c # s \<le> d # t" using 2 by auto
    ultimately show ?thesis using b v by simp
  next
    case 3
    with Cons v show ?thesis by simp
  qed
qed simp

lemma dropWhile_head: "dropWhile P s = c # u \<Longrightarrow> \<not> P c"
  by (induction s) (auto split: if_splits)

lemma amountRawLTE_digits:
  assumes "list_all is_ascii_digit s" and "s \<noteq> []" and "trim_space v = s" and "0 \<le> threshold"
  shows "amountRawLTE v threshold \<longleftrightarrow> int (digits_val 0 s) \<le> threshold"
proof -
  define trimmed where "trimmed = dropWhile (\<lambda>r. r = CHR ''0'') s"
  define limit where "limit = show_nat (nat threshold)"
  have val: "digits_val 0 s = digits_val 0 trimmed" by (simp add: trimmed_def digits_val_trim)
  have digits: "list_all is_ascii_digit trimmed"
    using assms(1) set_dropWhileD by (fastforce simp: trimmed_def list_all_iff)
  have t: "list_all is_ascii_digit limit" "limit \<noteq> []" "int (digits_val 0 limit) = threshold"
    using show_nat_digits [of "nat threshold"] assms(4) by (simp_all add: limit_def)
  have lte: "amountRawLTE v threshold \<longleftrightarrow> trimmed = [] \<or>
      (if length trimmed \<noteq> length limit then length trimmed < length limit else trimmed \<le> limit)"
    using assms by (auto simp: amountRawLTE_def Let_def trimmed_def limit_def show_int_def)
  show ?thesis
  proof (cases trimmed)
    case Nil
    with lte val assms(4) show ?thesis by simp
  next
    case (Cons c u)
    then have c: "is_ascii_digit c" "c \<noteq> CHR ''0''"
      using digits dropWhile_head [of "\<lambda>r. r = CHR ''0''" s c u] by (simp_all add: trimmed_def)
    note low = digits_val_lower [OF c, of u] and up = digits_val_bound [OF digits]
    consider "length trimmed = length limit" | "length trimmed < length limit" | "length limit < length trimmed"
      by linarith
    then show ?thesis
    proof cases
      case 1
      with lte val t digits_lex [OF digits t(1) 1] Cons show ?thesis by auto
    next
      case 2
      have "threshold \<noteq> 0"
      proof
        assume "threshold = 0"
        then have "length limit = 1" by (simp add: limit_def show_nat.simps)
        with 2 Cons show False by simp
      qed
      then obtain d y where y: "limit = d # y" "d \<noteq> CHR ''0''" "is_ascii_digit d"
        using show_nat_head [of "nat threshold"] t assms(4) unfolding limit_def
        by (cases "show_nat (nat threshold)") auto
      have "digits_val 0 trimmed < 10 ^ length trimmed" by (rule up)
      also have "\<dots> \<le> 10 ^ length y" using 2 y(1) by (intro power_increasing) simp_all
      also have "\<dots> \<le> digits_val 0 limit" unfolding y(1) by (rule digits_val_lower [OF y(3,2)])
      finally show ?thesis using 2 lte val t(3) by simp
    next
      case 3
      have "digits_val 0 limit < 10 ^ length limit" by (rule digits_val_bound [OF t(1)])
      also have "\<dots> \<le> 10 ^ length u" using 3 Cons by (intro power_increasing) simp_all
      also have "\<dots> \<le> digits_val 0 trimmed" using low Cons by simp
      finally show ?thesis using 3 lte val t(3) Cons by simp
    qed
  qed
qed

lemma amountRawLTE_not_digits: "parse_digits (trim_space v) = None \<Longrightarrow> \<not> amountRawLTE v threshold"
  by (auto simp: amountRawLTE_def parse_digits_def Let_def split: if_splits)

lemma amountRawIsZero_iff: "amountRawIsZero v \<longleftrightarrow> parse_digits (trim_space v) = Some 0"
proof (cases "parse_digits (trim_space v)")
  case None
  moreover have "is_ascii_digit (CHR ''0'')" by (simp add: is_ascii_digit_def less_eq_char_def)
  ultimately have "trim_space v = [] \<or> \<not> list_all (\<lambda>r. r = CHR ''0'') (trim_space v)"
    unfolding parse_digits_def list_all_iff by (metis option.distinct(1))
  with None show ?thesis by (auto simp: amountRawIsZero_def Let_def)
next
  case (Some n)
  then have s: "trim_space v \<noteq> []" "list_all is_ascii_digit (trim_space v)" "n = digits_val 0 (trim_space v)"
    by (auto simp: parse_digits_def split: if_splits)
  have "digits_val 0 s = 0 \<longleftrightarrow> list_all (\<lambda>r. r = CHR ''0'') s" if "list_all is_ascii_digit s" for s
    using that
  proof (induction s)
    case (Cons c s)
    then show ?case using digit_val_zero [of c] unfolding digits_val_Cons by auto
  qed simp
  with s Some show ?thesis by (simp add: amountRawIsZero_def Let_def)
qed

section \<open>Properties\<close>

text \<open>The comparison of an amount with a threshold on their decimal texts (leading zeros dropped, then by
  length, then bytewise) is the comparison of the numbers, for every text and every threshold that is not
  negative; a text that is not a number is never below.\<close>

theorem amount_lte_numeric:
  assumes "0 \<le> threshold"
  shows "amountRawLTE v threshold \<longleftrightarrow>
    (case parse_digits (trim_space v) of None \<Rightarrow> False | Some n \<Rightarrow> int n \<le> threshold)"
  using assms amountRawLTE_digits [OF _ _ refl, of v threshold] amountRawLTE_not_digits [of v threshold]
  by (auto simp: parse_digits_def split: option.splits if_splits)

theorem amount_lte_numeric_witness:
  "amountRawLTE '' 000999'' 1000 \<and> \<not> amountRawLTE ''1001'' 1000 \<and> \<not> amountRawLTE ''-5'' 1000"
  using amount_lte_numeric [of 1000 "'' 000999''"] amount_lte_numeric [of 1000 "''1001''"]
    amount_lte_numeric [of 1000 "''-5''"]
  by code_simp

end
