(* ===== verification/Wallet_Source_Results.thy ===== *)
theory Wallet_Source_Results
imports Wallet_Source_Spec Wallet_Stats_Spec
begin

text \<open>
  More of what sourcing returns: which of the scraped seeds become candidates, the reasons a wallet can be
  rejected for, and the file of accepted wallets, which the run that follows reads back.
\<close>

section \<open>Scored seeds\<close>

definition seed_discovery :: "string \<Rightarrow> candidateDiscovery" where
  "seed_discovery s = \<lparr> dc_address = s, dc_seeds = [s] \<rparr>"

lemma discover_scored:
  assumes "op_ScoreSeedWallets opts" and "\<not> op_DiscoverNeighbors opts"
  shows "discover sha client opts seen m seeds w = (Inr (foldl (\<lambda>m s. addDiscovered s None m s) m seeds), w)"
  using assms by (induction seeds arbitrary: seen m) (simp_all add: Let_def)

lemma scored_discoveries:
  assumes "\<forall>s \<in> set seeds. s \<noteq> [] \<and> trim_space s = s" and "distinct seeds"
  shows "map snd (foldl (\<lambda>m s. addDiscovered s None m s) [] seeds) = map seed_discovery seeds"
proof -
  have "foldl (\<lambda>m s. addDiscovered s None m s) [] seeds = map (\<lambda>s. (s, seed_discovery s)) seeds"
    using assms
  proof (induction seeds rule: rev_induct)
    case (snoc s seeds)
    have "map_of (map (\<lambda>s. (s, seed_discovery s)) seeds) s = None"
      using snoc.prems by (auto simp: map_of_eq_None_iff)
    moreover have "AList.update s v xs = xs @ [(s, v)]" if "map_of xs s = None" for v and xs :: "(string \<times> candidateDiscovery) list"
      using that by (induction xs) (auto split: if_splits)
    ultimately show ?case
      using snoc by (simp add: addDiscovered_def map_get_def map_set_def seed_discovery_def)
  qed simp
  then show ?thesis by (simp add: comp_def)
qed

lemma sorted_scored:
  assumes "distinct seeds"
  shows "sort_slice discovery_lt (map seed_discovery seeds) = map seed_discovery (sort seeds)"
proof (rule discovery.sort_slice_unique)
  show "mset (map seed_discovery seeds) = mset (map seed_discovery (sort seeds))" by simp
  have "sorted_wrt (<) (sort seeds)" using assms by (simp add: strict_sorted_iff)
  then show "sorted_wrt (\<lambda>x y. \<not> discovery_lt y x) (map seed_discovery (sort seeds))"
    unfolding sorted_wrt_map by (rule sorted_wrt_mono_rel [rotated]) (auto simp: discovery_lt_def seed_discovery_def)
  fix x y assume "x \<in> set (map seed_discovery seeds)" "y \<in> set (map seed_discovery seeds)"
    "\<not> discovery_lt x y" "\<not> discovery_lt y x"
  then show "x = y" by (auto simp: discovery_lt_def seed_discovery_def)
qed

lemma loadSeedWallets_ok:
  assumes "loadSeedWallets fs path explicit = Inr seeds"
  shows "distinct seeds \<and> (\<forall>s \<in> set seeds. s \<noteq> [] \<and> trim_space s = s)"
proof -
  let ?out = "dedup_by (\<lambda>a. a) [] (filter (\<lambda>wallet. wallet \<noteq> []) (map trim_space explicit))"
  have distinct: "distinct (dedup_by (\<lambda>a. a) seen xs)" for seen and xs :: "string list"
    using dedup_by_distinct [of "\<lambda>a. a" seen xs] by simp
  have out: "\<forall>s \<in> set ?out. s \<noteq> [] \<and> trim_space s = s" by auto
  show ?thesis
  proof (cases "path = []")
    case True
    with assms have "seeds = ?out" by (simp add: loadSeedWallets_def Let_def)
    then show ?thesis using out distinct by blast
  next
    case False
    with assms obtain lines where r: "readWalletLines fs path = Inr lines"
      and s: "seeds = ?out @ dedup_by (\<lambda>a. a) ?out lines"
      by (auto simp: loadSeedWallets_def Let_def split: sum.splits)
    have "\<forall>l \<in> set lines. l \<noteq> [] \<and> trim_space l = l"
      using r by (auto simp: readWalletLines_def wallet_line_def Let_def split: sum.splits option.splits if_splits)
    moreover have "set (dedup_by (\<lambda>a. a) ?out lines) = set lines - set ?out" by (rule set_dedup_id)
    ultimately show ?thesis using out distinct unfolding s distinct_append set_append by blast
  qed
qed

lemma scored_candidates:
  assumes "distinct seeds" and "\<forall>s \<in> set seeds. s \<noteq> [] \<and> trim_space s = s"
    and "op_ScoreSeedWallets opts" and "\<not> op_DiscoverNeighbors opts"
    and "discover sha client opts [] [] seeds w = (Inr m, w')"
  shows "map dc_address (sortedDiscoveries m) = sort seeds"
  using assms
  by (auto simp: discover_scored sortedDiscoveries_def scored_discoveries sorted_scored seed_discovery_def comp_def)

section \<open>Reasons\<close>

definition stats_reasons :: "string set" where
  "stats_reasons =
     {''no_sample_transactions'', ''too_many_sample_transactions'', ''insufficient_outbound_history'',
      ''bursty_same_timestamp_activity'', ''batch_transfer_activity'', ''unknown_dust_spl_activity'',
      ''insufficient_outbound_dust_activity'', ''insufficient_inbound_dust_activity'',
      ''insufficient_unique_dust_recipients''}"

definition source_reasons :: "string set" where
  "source_reasons = stats_reasons \<union> {''fetch_error'', ''deep_dive_fetch_error'', ''target_count_reached''} \<union>
     cap_reason ` {''max_tx_pages_per_wallet_reached'', ''max_tx_per_wallet_reached'', ''helius_retry_exhausted''}"

lemma statsRejectReason_reasons: "statsRejectReason stats opts = Some reason \<Longrightarrow> reason \<in> stats_reasons"
  by (auto simp: statsRejectReason_def stats_reasons_def split: if_splits)

lemma window_codes:
  assumes "FetchEnhancedWindow client a p w = ((page, None), w')"
  shows "fr_RetryExhausted page \<longrightarrow> fr_Partial page"
    and "fr_Partial page \<longrightarrow> fr_TruncationCode page \<in>
      {''max_tx_pages_per_wallet_reached'', ''max_tx_per_wallet_reached'', ''helius_retry_exhausted''}"
proof -
  have "1 \<le> fp_MaxTx p" using assms by (auto simp: FetchEnhancedWindow_def split: option.splits if_splits)
  with assms have "fetch_good p page" by (rule fetch_window_good)
  then show "fr_RetryExhausted page \<longrightarrow> fr_Partial page"
    and "fr_Partial page \<longrightarrow> fr_TruncationCode page \<in>
      {''max_tx_pages_per_wallet_reached'', ''max_tx_per_wallet_reached'', ''helius_retry_exhausted''}"
    by (auto simp: fetch_good_def)
qed

definition reasons_ok :: "sourcing \<Rightarrow> bool" where
  "reasons_ok st \<longleftrightarrow> (\<forall>r \<in> set (sc_rejected st). rj_Reason r \<in> source_reasons) \<and>
     (\<forall>c \<in> set (sc_queue st). cap_reason (dd_truncationCode c) \<in> source_reasons)"

lemma reject_reason [simp]:
  "rj_Reason (rejectedFromStatsWithDeepDiveStatus s reason status) = reason"
  "rj_Reason (rejectedFromStats s reason) = reason" "rj_Reason (fetch_error_reject opts c) = ''fetch_error''"
  by (simp_all add: rejectedFromStats_def rejectedFromStatsWithDeepDiveStatus_def fetch_error_reject_def)

lemma reasons_ok_simps [simp]:
  "reasons_ok (reject r st) \<longleftrightarrow> rj_Reason r \<in> source_reasons \<and> reasons_ok st"
  "reasons_ok (qualify s st) = reasons_ok st"
  "reasons_ok (enqueue c st) \<longleftrightarrow> cap_reason (dd_truncationCode c) \<in> source_reasons \<and> reasons_ok st"
  by (auto simp: reasons_ok_def reject_def qualify_def enqueue_def)

lemma source_reasons_mem [simp]:
  "''fetch_error'' \<in> source_reasons" "''deep_dive_fetch_error'' \<in> source_reasons" "''target_count_reached'' \<in> source_reasons"
  "reason \<in> stats_reasons \<Longrightarrow> reason \<in> source_reasons"
  by (simp_all add: source_reasons_def)

lemma judge_reasons:
  assumes "FetchEnhancedWindow client a p w = ((page, None), w')" and "reasons_ok st"
  shows "reasons_ok (judge_candidate opts c page stats st)" and "reasons_ok (judge_deep opts page stats st)"
proof -
  note codes = window_codes [OF assms(1)]
  have "fr_Partial page \<Longrightarrow> cap_reason (fr_TruncationCode page) \<in> source_reasons"
    using codes(2) by (auto simp: source_reasons_def)
  then show "reasons_ok (judge_candidate opts c page stats st)" and "reasons_ok (judge_deep opts page stats st)"
    using codes(1) assms(2) statsRejectReason_reasons
    by (auto simp: judge_candidate_def judge_deep_def split: option.split)
qed

lemma score_loop_reasons:
  "score_loop sha client opts known st cs w = (st', w') \<Longrightarrow> reasons_ok st \<Longrightarrow> reasons_ok st'"
proof (induction cs arbitrary: st w)
  case (Cons c cs)
  obtain page e w1 where f: "FetchEnhancedWindow client (dc_address c)
      (source_window opts (op_CandidateMaxPages opts) (op_MaxTXPerWallet opts)) w = ((page, e), w1)" by (metis prod.exhaust)
  show ?case
  proof (cases e)
    case None
    then show ?thesis using Cons f judge_reasons(1) [OF f [unfolded None]] by simp
  qed (use Cons f in simp)
qed simp

lemma deep_loop_reasons:
  "deep_loop sha client opts known i st cs w = (st', w') \<Longrightarrow> reasons_ok st \<Longrightarrow>
     \<forall>c \<in> set cs. cap_reason (dd_truncationCode c) \<in> source_reasons \<Longrightarrow> reasons_ok st'"
proof (induction cs arbitrary: i st w)
  case (Cons c cs)
  obtain page e w1 where f: "FetchEnhancedWindow client (dc_address (dd_discovery c))
      (source_window opts (op_DeepDiveMaxPages opts) (op_DeepDiveMaxTX opts)) w = ((page, e), w1)" by (metis prod.exhaust)
  have "reasons_ok (judge_deep opts page (sample_stats sha opts known (dd_discovery c) (fr_Transactions page)) st)" if "e = None"
    using judge_reasons(2) [OF f [unfolded that]] Cons.prems(2) by simp
  then show ?case using Cons f by (cases e) (auto split: if_splits)
qed simp

lemma deep_stage_reasons:
  "deep_stage sha client opts known st w = (st', w') \<Longrightarrow> reasons_ok st \<Longrightarrow> reasons_ok st'"
  using deep_loop_reasons [of sha client opts known 0 st "sort_slice deep_lt (sc_queue st)" w st' w']
  by (auto simp: deep_stage_def reasons_ok_def split: if_splits)

lemma source_result_reasons:
  assumes "source_result sha client opts cs w = (r, w')" and "0 < op_TargetCount opts" and "x \<in> set (sr_Rejected r)"
  shows "rj_Reason x \<in> source_reasons"
proof (rule source_result_InrD [OF assms(1,2)])
  fix st1 w1 and st2 :: sourcing
  let ?known = "knownDustThresholdMap (op_KnownDustAssetKeys opts)"
  assume a: "score_loop sha client opts ?known \<lparr> sc_eligible = [], sc_queue = [], sc_rejected = [] \<rparr> cs w = (st1, w1)"
    and b: "deep_stage sha client opts ?known st1 w1 = (st2, w')"
    and r: "sr_Rejected r = sc_rejected st2 @ map (\<lambda>s. rejectedFromStats s ''target_count_reached'')
        (drop (nat (op_TargetCount opts)) (sort_slice rank_lt (sc_eligible st2)))"
  have "reasons_ok st2"
    by (rule deep_stage_reasons [OF b], rule score_loop_reasons [OF a]) (simp add: reasons_ok_def)
  then show ?thesis using assms(3) r by (auto simp: reasons_ok_def)
qed

section \<open>The file of accepted wallets\<close>

text \<open>\<open>bufio.ScanLines\<close>: the text is cut at every newline, a last line that is empty is none, and one carriage
  return at the end of a line goes.\<close>

definition drop_cr :: "string \<Rightarrow> string" where
  "drop_cr l = (if l \<noteq> [] \<and> last l = CHR 0x0D then butlast l else l)"

definition scan_lines :: "string \<Rightarrow> string list" where
  "scan_lines body =
     (let parts = split_on CHR 0x0A body in
      map drop_cr (if last parts = [] then butlast parts else parts))"

definition plain_address :: "string \<Rightarrow> bool" where
  "plain_address a \<longleftrightarrow> is_address_line a \<and> trim_space a = a \<and> CHR 0x0A \<notin> set a"

lemma split_on_snoc: "split_on c (s @ [c]) = split_on c s @ [[]]"
  by (induction s) (auto split: list.split)

lemma scan_accepted:
  assumes "\<forall>a \<in> set (map aw_Address accepted). plain_address a" and "accepted \<noteq> []"
  shows "scan_lines (accepted_text accepted) = map aw_Address accepted"
proof -
  have "split_on CHR 0x0A (join [CHR 0x0A] (map aw_Address accepted)) = map aw_Address accepted"
    by (rule split_join) (use assms in \<open>auto simp: plain_address_def\<close>)
  moreover have "drop_cr a = a" if "plain_address a" for a
  proof -
    have "last a \<noteq> CHR 0x0D" if "a \<noteq> []"
    proof
      assume cr: "last a = CHR 0x0D"
      then obtain s where "rev a = CHR 0x0D # s" using \<open>a \<noteq> []\<close> by (metis append_butlast_last_id rev.simps(2) rev_rev_ident rev_swap)
      moreover have "tail_len (rev a) = 0" using \<open>plain_address a\<close> tail_len_trim [of a] by (simp add: plain_address_def)
      moreover have "tail_len (CHR 0x0D # s) = 1"
        by (cases "CHR 0x0D # s" rule: tail_len.cases) (simp_all add: ascii_space_def)
      ultimately show False by simp
    qed
    then show ?thesis by (auto simp: drop_cr_def)
  qed
  ultimately show ?thesis
    using assms by (simp add: scan_lines_def accepted_text_def split_on_snoc map_idI)
qed

lemma listed_plain: "distinct xs \<Longrightarrow> \<forall>a \<in> set xs. plain_address a \<Longrightarrow> listed [] xs = xs"
proof -
  assume d: "distinct xs" and p: "\<forall>a \<in> set xs. plain_address a"
  have "map trim_space xs = xs" using p by (intro map_idI) (simp add: plain_address_def)
  moreover have "filter (\<lambda>a. is_address_line a \<and> a \<notin> set []) xs = xs" using p by (simp add: plain_address_def)
  ultimately show ?thesis using dedup_by_id [of "\<lambda>a. a" xs "[]"] d by (simp add: listed_def)
qed

section \<open>Properties\<close>

text \<open>When the seeds themselves are scored (as the daemon does), the candidates are the alphabetically first
  \<open>MaxCandidates\<close> of the first \<open>MaxSeedWallets\<close> seeds: every seed was found from one seed, so that the order the
  seeds came in, which is the ranking of the scrape, does not matter for this cut.\<close>

theorem scored_seeds_alphabetical:
  assumes "Source sha fs fl client opts w = (Inr r, w')" and "op_ScoreSeedWallets opts" and "\<not> op_DiscoverNeighbors opts"
  shows "\<exists>seeds. loadSeedWallets fs (op_SeedWalletFile opts) (op_SeedWallets opts) = Inr seeds \<and>
    mset (map aw_Address (sr_Accepted r) @ map rejected_address (sr_Rejected r)) =
      mset (take (nat (op_MaxCandidates (withDefaults opts))) (sort (take (nat (op_MaxSeedWallets (withDefaults opts))) seeds)))"
proof (rule Source_InrD [OF assms(1)])
  fix E seeds discovered w1 and w2 :: 'a
  let ?o = "withDefaults opts"
  have o: "op_ScoreSeedWallets ?o" "\<not> op_DiscoverNeighbors ?o" using assms(2,3) by (simp_all add: withDefaults_def Let_def)
  assume l: "loadSeedWallets fs (op_SeedWalletFile opts) (op_SeedWallets opts) = Inr seeds"
    and d: "discover sha client ?o [] [] (at_most (op_MaxSeedWallets ?o) seeds) w = (Inr discovered, w1)"
    and c: "source_result sha client ?o (at_most (op_MaxCandidates ?o) (sortedDiscoveries discovered)) w1 = (r, w2)"
  have "distinct (at_most (op_MaxSeedWallets ?o) seeds)" "\<forall>s \<in> set (at_most (op_MaxSeedWallets ?o) seeds). s \<noteq> [] \<and> trim_space s = s"
    using loadSeedWallets_ok [OF l] by (auto simp: at_most_take dest: in_set_takeD)
  from scored_candidates [OF this o d]
  have "map dc_address (sortedDiscoveries discovered) = sort (take (nat (op_MaxSeedWallets ?o)) seeds)"
    by (simp add: at_most_take)
  moreover have "mset (map aw_Address (sr_Accepted r) @ map rejected_address (sr_Rejected r)) =
      mset (take (nat (op_MaxCandidates ?o)) (map dc_address (sortedDiscoveries discovered)))"
    using source_result_addresses [OF c] by (simp add: at_most_take take_map)
  ultimately show ?thesis using l by auto
qed

text \<open>The reasons in the file of rejected wallets are the ones of \<open>statsRejectReason\<close>, a failed fetch, the
  target reached, or a cap with the truncation code of the fetch; in particular a fetch whose retries were
  used up is always reported as a reached activity cap, and never as \<open>helius_retry_exhausted\<close>.\<close>

theorem rejection_reasons:
  assumes "Source sha fs fl client opts w = (Inr r, w')" and "x \<in> set (sr_Rejected r)"
  shows "rj_Reason x \<in> source_reasons \<and> rj_Reason x \<noteq> ''helius_retry_exhausted''"
proof -
  have r: "rj_Reason x \<in> source_reasons"
    by (rule Source_InrD [OF assms(1)]) (rule source_result_reasons [OF _ _ assms(2)], auto)
  have "''helius_retry_exhausted'' \<notin> source_reasons"
    by (simp add: source_reasons_def stats_reasons_def cap_reason_def)
  with r show ?thesis by metis
qed

text \<open>The file of accepted wallets, written by \<open>writeAccepted\<close> and read by the run with
  \<open>LoadAddressesFromFile\<close>, gives back the accepted addresses in their order, for any addresses a line can hold
  and a limit that admits them.\<close>

theorem accepted_file_roundtrip:
  assumes "distinct (map aw_Address accepted)" and "\<forall>a \<in> set accepted. plain_address (aw_Address a)"
    and "limit \<le> 0 \<or> int (length accepted) \<le> limit"
    and "fs path = Inr \<lparr> wf_lines = scan_lines (accepted_text accepted), wf_break_err = (\<lambda>_. None), wf_end_err = None \<rparr>"
  shows "LoadAddressesFromFile fs path limit = Inr (map aw_Address accepted)"
proof -
  have l: "listed [] (scan_lines (accepted_text accepted)) = map aw_Address accepted"
  proof (cases "accepted = []")
    case True
    then show ?thesis by (simp add: accepted_text_def scan_lines_def listed_def drop_cr_def is_address_line_def)
  next
    case False
    with assms(1,2) show ?thesis by (simp add: scan_accepted listed_plain)
  qed
  have "bounded limit (map aw_Address accepted) = map aw_Address accepted"
    using assms(3) by (auto simp: bounded_def)
  then show ?thesis
    using assms(4) collect_addresses_listed [of "[]" limit 0 "scan_lines (accepted_text accepted)"]
    by (auto simp: LoadAddressesFromFile_def LoadAddressesExcludingFile_def load_addresses_def l
        split: prod.split option.split)
qed

section \<open>Witnesses\<close>

text \<open>A provider with one transaction for everybody, in which \<open>w1\<close> pays \<open>bob\<close>.\<close>

definition source_history :: "EnhancedTransaction list" where
  "source_history = [\<lparr> tx_Signature = ''sig'', tx_Slot = 1, tx_TimestampUnix = 200, tx_TransactionError = None,
     tx_NativeTransfers = [\<lparr> nat_FromUserAccount = ''w1'', nat_ToUserAccount = ''bob'', nat_Amount = ''5'' \<rparr>],
     tx_TokenTransfers = [] \<rparr>]"

definition source_env :: "unit env" where
  "source_env =
     \<lparr> env_FetchEnhancedPage = (\<lambda>w wallet before.
          (Inr \<lparr> page_Transactions = after_sig before source_history, page_Before = [] \<rparr>, w)),
       env_sleepContext = (\<lambda>w d. (None, w)) \<rparr>"

definition sample_files :: "unit files" where
  "sample_files = \<lparr> fl_MkdirAll = (\<lambda>path w. (None, w)), fl_WriteFile = (\<lambda>path body w. (None, w)) \<rparr>"

definition sample_source :: SourceOptions where
  "sample_source =
     \<lparr> op_SeedWalletFile = [], op_SeedWallets = [''w2'', '' w1 ''], op_ScrapeStats = [], op_ScoreSeedWallets = True,
       op_DiscoverNeighbors = False, op_OutPath = ''out/a.txt'', op_RejectedOutPath = ''out/r.tsv'',
       op_ScanStart = time_unix 150, op_ScanEnd = time_unix 400, op_BaselineLookback = 0, op_TargetCount = 0,
       op_MaxSeedWallets = 0, op_MaxCandidates = 0, op_SeedMaxPages = 0, op_CandidateMaxPages = 0, op_MaxTXPerWallet = 0,
       op_MaxRetries = 0, op_RequestDelay = 0, op_MinOutbound = 0, op_MaxAcceptedTX = 0, op_MaxSameTimestampTX = 0,
       op_MaxTransfersPerTX = 0, op_MaxUnknownDustSPL = 0, op_MinScanInboundDust = 0, op_MinUniqueDustRecipients = 0,
       op_KnownDustAssetKeys = [], op_DeepDiveTopN = 0, op_DeepDiveMaxPages = 0, op_DeepDiveMaxTX = 0,
       op_DeepDiveMinScore = 0, op_SourceMode = [] \<rparr>"

definition sample_sourced :: SourceResult where
  "sample_sourced = (case Source (\<lambda>s. s) (\<lambda>_. Inl (Err ''no file'')) sample_files (Some source_env) sample_source () of
     (Inr r, _) \<Rightarrow> r | _ \<Rightarrow> \<lparr> sr_Accepted = [], sr_Rejected = [] \<rparr>)"

lemma sample_source_run:
  "Source (\<lambda>s. s) (\<lambda>_. Inl (Err ''no file'')) sample_files (Some source_env) sample_source () = (Inr sample_sourced, ())"
  by code_simp

lemma sample_sourced_lists:
  "map aw_Address (sr_Accepted sample_sourced) = [''w1'']"
  "map (\<lambda>x. (rejected_address x, rj_Reason x)) (sr_Rejected sample_sourced) = [(''w2'', ''insufficient_outbound_history'')]"
  by code_simp+

lemma take_some: "\<exists>n. xs = take n xs"
  by (metis order_refl take_all)

lemma source_env_serves: "serves source_env a source_history \<and> newest_first source_history"
  by (simp add: serves_def source_env_def take_some) (simp add: newest_first_def source_history_def)

lemma sample_rejected:
  "map rejected_address (sr_Rejected sample_sourced) = [''w2'']"
  "map rj_Reason (sr_Rejected sample_sourced) = [''insufficient_outbound_history'']"
  using arg_cong [OF sample_sourced_lists(2), of "map fst"] arg_cong [OF sample_sourced_lists(2), of "map snd"]
  by (simp_all add: comp_def)

theorem source_accounts_witness:
  "\<exists>candidates. mset [''w1'', ''w2''] = mset (map dc_address candidates) \<and> sorted_wrt discovery_lt candidates"
  using source_accounts [OF sample_source_run] unfolding sample_sourced_lists(1) sample_rejected(1) by auto


theorem scored_seeds_alphabetical_witness:
  "mset [''w1'', ''w2''] = mset (take 100 (sort (take 10 [''w2'', ''w1''])))"
proof -
  have o: "op_ScoreSeedWallets sample_source" "\<not> op_DiscoverNeighbors sample_source"
    "nat (op_MaxCandidates (withDefaults sample_source)) = 100" "nat (op_MaxSeedWallets (withDefaults sample_source)) = 10"
    by (simp_all add: sample_source_def withDefaults_def Let_def)
  have seeds: "loadSeedWallets (\<lambda>_. Inl (Err ''no file'')) (op_SeedWalletFile sample_source) (op_SeedWallets sample_source) =
      Inr [''w2'', ''w1'']" by code_simp
  from scored_seeds_alphabetical [OF sample_source_run o(1,2)] show ?thesis
    unfolding seeds o(3,4) sample_sourced_lists(1) sample_rejected(1) by auto
qed

theorem rejection_reasons_witness: "''insufficient_outbound_history'' \<in> source_reasons"
proof -
  obtain x where "x \<in> set (sr_Rejected sample_sourced)" and "rj_Reason x = ''insufficient_outbound_history''"
    using sample_rejected(2) by (auto simp: map_eq_Cons_conv)
  then show ?thesis using rejection_reasons [OF sample_source_run, of x] by simp
qed

theorem accepted_file_roundtrip_witness:
  "LoadAddressesFromFile (\<lambda>_. Inr \<lparr> wf_lines = scan_lines (accepted_text (sr_Accepted sample_sourced)),
     wf_break_err = (\<lambda>_. None), wf_end_err = None \<rparr>) ''out/a.txt'' 5 = Inr [''w1'']"
proof -
  have "plain_address ''w1''" by code_simp
  moreover have "length (sr_Accepted sample_sourced) = 1" using sample_sourced_lists(1) by (auto simp: map_eq_Cons_conv)
  moreover have "\<forall>a \<in> set (sr_Accepted sample_sourced). aw_Address a = ''w1''"
    using sample_sourced_lists(1) by (auto simp: map_eq_Cons_conv)
  ultimately show ?thesis
    using accepted_file_roundtrip [of "sr_Accepted sample_sourced" 5] sample_sourced_lists(1) by simp
qed

end
