(* ===== verification/Injection_Spec.thy ===== *)
theory Injection_Spec
imports Materialize
begin

text \<open>
  What \<open>MaterializeCandidates\<close> promises: a specification of a poisoning injection over the baseline and
  scan observations, and the proof that the indexed computation finds exactly the injections.
\<close>

section \<open>The specification\<close>

text \<open>What \<open>normalizeWindow\<close> guarantees of every observation: a trimmed counterparty and a block time
  inside a window.\<close>

definition wf_obs :: "WalletTransferObservation \<Rightarrow> bool" where
  "wf_obs obs \<longleftrightarrow>
     trim_space (obs_CounterpartyAddress obs) = obs_CounterpartyAddress obs \<and>
     obs_CounterpartyAddress obs \<noteq> [] \<and> 0 < tr_BlockTime (obs_Transfer obs)"

definition qualifying :: "WalletTransferObservation \<Rightarrow> bool" where
  "qualifying obs \<longleftrightarrow>
     obs_RelationType obs = RelationReceiver \<and>
     tr_NormalizationStatus (obs_Transfer obs) = NormalizationResolved \<and>
     tr_PoisoningEligible (obs_Transfer obs) \<and>
     tr_AssetType (obs_Transfer obs) \<in> {AssetTypeNativeSOL, AssetTypeSPLFungible}"

definition zero_amount :: "NormalizedTransfer \<Rightarrow> bool" where
  "zero_amount tr \<longleftrightarrow> parse_big (trim_space (tr_AmountRaw tr)) = Some 0"

definition tiny :: "NormalizedTransfer \<Rightarrow> bool" where
  "tiny tr \<longleftrightarrow> zero_amount tr \<or> tr_DustStatus tr = DustTrue"

definition maybe_tiny :: "NormalizedTransfer \<Rightarrow> bool" where
  "maybe_tiny tr \<longleftrightarrow> zero_amount tr \<or> tr_DustStatus tr \<noteq> DustFalse"

definition from_to :: "string \<Rightarrow> WalletTransferObservation list \<Rightarrow> WalletTransferObservation list" where
  "from_to a obss = filter (\<lambda>obs. obs_CounterpartyAddress obs = a) obss"

text \<open>The addresses the wallet really paid, and when it last did.\<close>

definition legit_times :: "WalletTransferObservation list \<Rightarrow> string \<Rightarrow> gotime list" where
  "legit_times baseline a = map (\<lambda>obs. tr_BlockTime (obs_Transfer obs)) (filter is_legit (from_to a baseline))"

definition last_sent :: "WalletTransferObservation list \<Rightarrow> string \<Rightarrow> gotime" where
  "last_sent baseline a = Max (set (legit_times baseline a))"

definition score :: "string \<Rightarrow> string \<Rightarrow> int" where
  "score x a = commonPrefixLength x a + commonSuffixLength x a"

definition lookalike :: "CandidateMaterializeParams \<Rightarrow> string \<Rightarrow> string \<Rightarrow> bool" where
  "lookalike p x a \<longleftrightarrow> passesLookalikeThreshold (commonPrefixLength x a) (commonSuffixLength x a) p"

text \<open>The closest lookalike among \<open>S\<close>, the lexically first one of those that score the same.\<close>

definition best_in :: "CandidateMaterializeParams \<Rightarrow> string \<Rightarrow> string set \<Rightarrow> string \<Rightarrow> bool" where
  "best_in p x S l \<longleftrightarrow> l \<in> S \<and> lookalike p x l \<and>
     (\<forall>m \<in> S. lookalike p x m \<longrightarrow> score x m < score x l \<or> score x m = score x l \<and> l \<le> m)"

definition injections :: "WalletTransferObservation list \<Rightarrow> string \<Rightarrow> int" where
  "injections scan a = int (length (filter (\<lambda>obs. qualifying obs \<and> tiny (obs_Transfer obs)) (from_to a scan)))"

definition possible_injections :: "WalletTransferObservation list \<Rightarrow> string \<Rightarrow> int" where
  "possible_injections scan a =
     int (length (filter (\<lambda>obs. qualifying obs \<and> maybe_tiny (obs_Transfer obs)) (from_to a scan)))"

text \<open>The observation \<open>obs\<close> of the scan is a poisoning injection that imitates \<open>l\<close>: the wallet received
  a zero or dust amount from an address it never dealt with in a complete baseline, which looks like one
  it paid recently, and often enough.\<close>

definition injection ::
  "CandidateMaterializeParams \<Rightarrow> WalletTransferObservation list \<Rightarrow> WalletTransferObservation list
     \<Rightarrow> WalletTransferObservation \<Rightarrow> string \<Rightarrow> bool" where
  "injection p baseline scan obs l \<longleftrightarrow>
     mp_BaselineComplete p \<and> qualifying obs \<and> tiny (obs_Transfer obs) \<and>
     from_to (obs_CounterpartyAddress obs) baseline = [] \<and>
     best_in p (obs_CounterpartyAddress obs) {a. legit_times baseline a \<noteq> []} l \<and>
     last_sent baseline l < tr_BlockTime (obs_Transfer obs) \<and>
     tr_BlockTime (obs_Transfer obs) - last_sent baseline l \<le> mp_LookalikeRecencyDays p * nanos_per_day \<and>
     mp_MinInjectionCount p \<le> injections scan (obs_CounterpartyAddress obs)"

definition injection_record ::
  "WalletTransferObservation list \<Rightarrow> WalletTransferObservation list \<Rightarrow> WalletTransferObservation
     \<Rightarrow> string \<Rightarrow> PoisoningCandidate" where
  "injection_record baseline scan obs l =
     \<lparr> pc_Signature = tr_Signature (obs_Transfer obs),
       pc_TransferIndex = tr_TransferIndex (obs_Transfer obs),
       pc_SuspiciousCounterparty = obs_CounterpartyAddress obs,
       pc_MatchedLegitCounterparty = l,
       pc_TokenMint = tr_TokenMint (obs_Transfer obs),
       pc_AmountRaw = tr_AmountRaw (obs_Transfer obs),
       pc_BlockTime = tr_BlockTime (obs_Transfer obs),
       pc_IsZeroValue = zero_amount (obs_Transfer obs),
       pc_IsDust = (tr_DustStatus (obs_Transfer obs) = DustTrue),
       pc_IsNewCounterparty = True,
       pc_IsInbound = True,
       pc_LegitLastSeenAt = last_sent baseline l,
       pc_RecencyDays = (tr_BlockTime (obs_Transfer obs) - last_sent baseline l) div nanos_per_day,
       pc_RepeatInjectionCount = injections scan (obs_CounterpartyAddress obs),
       pc_IncompleteWindow = False,
       pc_UnknownGateReason = [],
       pc_MatchRuleVersion = ''phase1-v1'' \<rparr>"

section \<open>The gates\<close>

lemma gateBool_simps [simp]:
  "gateBool v = GatePass \<longleftrightarrow> v" "gateBool v \<noteq> GateUnknown"
  by (simp_all add: gateBool_def)

lemma base_gates [simp]:
  "gateNormalizationResolved tr = GatePass \<longleftrightarrow> tr_NormalizationStatus tr = NormalizationResolved"
  "gateNormalizationResolved tr \<noteq> GateUnknown"
  "gateSupportedAssetType a = GatePass \<longleftrightarrow> a \<in> {AssetTypeNativeSOL, AssetTypeSPLFungible}"
  "gateSupportedAssetType a \<noteq> GateUnknown"
  "gateRelationInbound r = GatePass \<longleftrightarrow> r = RelationReceiver"
  "gateRelationInbound r \<noteq> GateUnknown"
  by (simp_all add: gateNormalizationResolved_def gateSupportedAssetType_def gateRelationInbound_def
        split: AssetType.splits)

lemma canQualify_iff [simp]: "canQualifyForMinInjection (evaluateBaseEmissionGates obs) \<longleftrightarrow> qualifying obs"
  by (simp add: canQualifyForMinInjection_def evaluateBaseEmissionGates_def qualifying_def)

lemma isAmountZero_eq: "isAmountZero raw = (parse_big (trim_space raw) = Some 0, parse_big (trim_space raw) \<noteq> None)"
  by (simp add: isAmountZero_def parse_big_def split: option.splits list.splits)

lemma gateZeroOrDust_iff:
  "gateZeroOrDust tr = GatePass \<longleftrightarrow> tiny tr"
  "gateZeroOrDust tr = GateFail \<longleftrightarrow> \<not> maybe_tiny tr"
  by (auto simp: gateZeroOrDust_def isAmountZero_eq tiny_def maybe_tiny_def zero_amount_def split: DustStatus.splits)

lemma gateNewCounterparty_iff:
  "gateNewCounterparty c h = GatePass \<longleftrightarrow> c \<and> \<not> h" "gateNewCounterparty c h = GateUnknown \<longleftrightarrow> \<not> c"
  by (simp_all add: gateNewCounterparty_def)

lemma gateMinInjectionCount_pass:
  "gateMinInjectionCount st m = GatePass \<longleftrightarrow> (if m < 1 then 1 else m) \<le> st_KnownQualifying st"
  by (simp add: gateMinInjectionCount_def Let_def)

section \<open>The indexes\<close>

lemma from_to_snoc: "from_to a (obss @ [obs]) = from_to a obss @ (if obs_CounterpartyAddress obs = a then [obs] else [])"
  by (simp add: from_to_def)

lemma preWindow_index:
  "map_get False (buildPreWindowInteractionSet baseline) a \<longleftrightarrow> trim_space a \<noteq> [] \<and> from_to a baseline \<noteq> []"
proof (induction baseline rule: rev_induct)
  case Nil
  then show ?case by (simp add: buildPreWindowInteractionSet_def from_to_def)
next
  case (snoc obs baseline)
  then show ?case
    by (auto simp: buildPreWindowInteractionSet_def from_to_snoc map_get_map_set)
qed

lemma legit_keys_distinct: "distinct (map_keys (buildLegitBaselineCounterparties baseline))"
  by (induction baseline rule: rev_induct)
    (simp_all add: buildLegitBaselineCounterparties_def map_keys_def Let_def)

lemma legit_times_snoc:
  "legit_times (baseline @ [obs]) a =
     legit_times baseline a @ (if is_legit obs \<and> obs_CounterpartyAddress obs = a then [tr_BlockTime (obs_Transfer obs)] else [])"
  by (simp add: legit_times_def from_to_snoc)

lemma legit_times_pos: "\<forall>obs \<in> set baseline. wf_obs obs \<Longrightarrow> t \<in> set (legit_times baseline a) \<Longrightarrow> 0 < t"
  by (auto simp: legit_times_def from_to_def wf_obs_def)

lemma legit_index:
  assumes "\<forall>obs \<in> set baseline. wf_obs obs"
  shows "map_of (buildLegitBaselineCounterparties baseline) a =
    (if legit_times baseline a = [] then None else Some (last_sent baseline a))"
  using assms
proof (induction baseline arbitrary: a rule: rev_induct)
  case Nil
  then show ?case by (simp add: buildLegitBaselineCounterparties_def legit_times_def from_to_def)
next
  case (snoc obs baseline)
  let ?a = "obs_CounterpartyAddress obs" and ?t = "tr_BlockTime (obs_Transfer obs)"
    and ?m = "buildLegitBaselineCounterparties baseline"
  have m: "map_of ?m b = (if legit_times baseline b = [] then None else Some (last_sent baseline b))" for b
    using snoc by simp
  have step: "buildLegitBaselineCounterparties (baseline @ [obs]) =
      (if \<not> is_legit obs then ?m
       else if is_zero_time (map_get 0 ?m ?a) \<or> map_get 0 ?m ?a < ?t then map_set ?a ?t ?m else ?m)"
    by (simp add: buildLegitBaselineCounterparties_def Let_def)
  have new: "last_sent (baseline @ [obs]) ?a = (if legit_times baseline ?a = [] then ?t
      else max (last_sent baseline ?a) ?t)" if "is_legit obs"
    using that Max_snoc [of "legit_times baseline ?a" ?t]
    by (cases "legit_times baseline ?a = []") (simp_all add: last_sent_def legit_times_snoc)
  have pos: "0 < last_sent baseline ?a" if "legit_times baseline ?a \<noteq> []"
    using that legit_times_pos [of baseline "last_sent baseline ?a" ?a] snoc.prems
    by (simp add: last_sent_def)
  show ?case
  proof (cases "is_legit obs \<and> a = ?a")
    case True
    then show ?thesis
      using new pos by (auto simp: step m map_get_def is_zero_time_def legit_times_snoc)
  next
    case False
    then have "legit_times (baseline @ [obs]) a = legit_times baseline a" by (auto simp: legit_times_snoc)
    moreover from this have "last_sent (baseline @ [obs]) a = last_sent baseline a" by (simp add: last_sent_def)
    ultimately show ?thesis using False by (auto simp: step m)
  qed
qed

lemma stats_index:
  assumes "\<forall>obs \<in> set scan. wf_obs obs"
  shows "st_KnownQualifying (map_get zero_stats (buildInboundCounterpartyStats scan) a) = injections scan a \<and>
    st_KnownQualifying (map_get zero_stats (buildInboundCounterpartyStats scan) a) +
    st_UnknownPotential (map_get zero_stats (buildInboundCounterpartyStats scan) a) = possible_injections scan a"
  using assms
proof (induction scan rule: rev_induct)
  case Nil
  then show ?case
    by (simp add: buildInboundCounterpartyStats_def zero_stats_def injections_def possible_injections_def from_to_def)
next
  case (snoc obs scan)
  let ?m = "buildInboundCounterpartyStats scan" and ?a = "obs_CounterpartyAddress obs"
  have wf: "trim_space ?a = ?a" "?a \<noteq> []" using snoc.prems by (simp_all add: wf_obs_def)
  have step: "buildInboundCounterpartyStats (scan @ [obs]) =
      (if \<not> qualifying obs then ?m
       else map_set ?a (bump_stats (gateZeroOrDust (obs_Transfer obs)) (map_get zero_stats ?m ?a)) ?m)"
    by (simp add: buildInboundCounterpartyStats_def Let_def wf)
  have tm: "tiny (obs_Transfer obs) \<Longrightarrow> maybe_tiny (obs_Transfer obs)" by (auto simp: tiny_def maybe_tiny_def)
  show ?case
    using snoc gateZeroOrDust_iff [of "obs_Transfer obs"] tm
    by (cases "gateZeroOrDust (obs_Transfer obs)")
      (auto simp: step map_get_map_set bump_stats_def injections_def possible_injections_def from_to_snoc)
qed

section \<open>The best match\<close>

lemma commonPrefixLength_nonneg [simp]: "0 \<le> commonPrefixLength a b"
  by (induction a b rule: commonPrefixLength.induct) simp_all

lemma score_nonneg [simp]: "0 \<le> score x a"
  by (simp add: score_def commonSuffixLength_def)

lemma best_in_mono:
  "best_in p x S l \<Longrightarrow> \<not> lookalike p x a \<Longrightarrow> best_in p x (insert a S) l"
  by (auto simp: best_in_def)

lemma best_in_keep:
  "best_in p x S l \<Longrightarrow> score x a < score x l \<or> score x a = score x l \<and> l \<le> a \<Longrightarrow> best_in p x (insert a S) l"
  by (auto simp: best_in_def)

lemma best_in_replace:
  assumes "best_in p x S l" and "lookalike p x a"
    and "score x l < score x a \<or> score x a = score x l \<and> a < l"
  shows "best_in p x (insert a S) a"
  using assms by (fastforce simp: best_in_def)

lemma best_in_unique: "best_in p x S l \<Longrightarrow> best_in p x S m \<Longrightarrow> l = m"
  by (fastforce simp: best_in_def)

lemma best_match_loop_some:
  assumes "best_in p x S m"
  shows "best_in p x (S \<union> set rest) (snd (best_match_loop x p (score x m) m rest))"
  using assms
proof (induction rest arbitrary: S m)
  case (Cons a rest)
  let ?thr = "passesLookalikeThreshold (commonPrefixLength x a) (commonSuffixLength x a) p"
  have sc: "commonPrefixLength x a + commonSuffixLength x a = score x a" by (simp add: score_def)
  have ext: "S \<union> set (a # rest) = insert a S \<union> set rest" by auto
  consider "\<not> lookalike p x a" | "lookalike p x a" "score x a > score x m \<or> score x a = score x m \<and> a < m"
    | "lookalike p x a" "\<not> (score x a > score x m \<or> score x a = score x m \<and> a < m)" by blast
  then show ?case
  proof cases
    case 1
    with Cons have "best_in p x (insert a S) m" by (intro best_in_mono)
    from Cons.IH [OF this] 1 show ?thesis by (simp add: lookalike_def ext Let_def)
  next
    case 2
    with Cons have "best_in p x (insert a S) a" by (intro best_in_replace) auto
    from Cons.IH [OF this] 2 show ?thesis by (simp add: lookalike_def ext Let_def sc)
  next
    case 3
    with Cons have "best_in p x (insert a S) m" by (intro best_in_keep) auto
    from Cons.IH [OF this] 3 show ?thesis by (auto simp: lookalike_def ext Let_def sc)
  qed
qed simp

lemma best_match_loop_none:
  assumes "[] \<notin> set rest"
  shows "case snd (best_match_loop x p (- 1) [] rest) of
      [] \<Rightarrow> \<forall>a \<in> set rest. \<not> lookalike p x a
    | c # cs \<Rightarrow> best_in p x (set rest) (c # cs)"
  using assms
proof (induction rest)
  case (Cons a rest)
  show ?case
  proof (cases "lookalike p x a")
    case True
    let ?r = "snd (best_match_loop x p (score x a) a rest)"
    from True have "best_in p x {a} a" by (simp add: best_in_def)
    from best_match_loop_some [OF this, of rest] have b: "best_in p x (set (a # rest)) ?r" by simp
    then have "?r \<in> set (a # rest)" unfolding best_in_def by blast
    with Cons.prems have "?r \<noteq> []" by metis
    moreover have "- 1 < score x a" using score_nonneg [of x a] by linarith
    then have "best_match_loop x p (- 1) [] (a # rest) = best_match_loop x p (score x a) a rest"
      using True by (simp add: lookalike_def Let_def score_def)
    ultimately show ?thesis using b by (cases ?r) (simp_all del: best_match_loop.simps)
  next
    case False
    with Cons show ?thesis
      by (auto simp: lookalike_def Let_def best_in_def split: list.splits)
  qed
qed simp

text \<open>The match does not depend on the order in which Go visits the map.\<close>

definition best_match :: "string \<Rightarrow> CandidateMaterializeParams \<Rightarrow> string list \<Rightarrow> string" where
  "best_match x p names = snd (best_match_loop x p (- 1) [] names)"

lemma best_match_iff:
  assumes "[] \<notin> set names" and "l \<noteq> []"
  shows "best_match x p names = l \<longleftrightarrow> best_in p x (set names) l"
proof
  assume "best_match x p names = l"
  with assms best_match_loop_none [OF assms(1), where x = x and p = p] show "best_in p x (set names) l"
    by (auto simp: best_match_def split: list.splits)
next
  assume b: "best_in p x (set names) l"
  with best_match_loop_none [OF assms(1), where x = x and p = p] show "best_match x p names = l"
    by (auto simp: best_match_def best_in_def [of p x "set names" l] split: list.splits
        dest: best_in_unique [OF b])
qed

lemma best_match_Nil:
  "[] \<notin> set names \<Longrightarrow> best_match x p names = [] \<longleftrightarrow> (\<forall>a \<in> set names. \<not> lookalike p x a)"
  using best_match_loop_none [of names, where x = x and p = p] by (auto simp: best_match_def best_in_def split: list.splits)

lemma best_match_set:
  assumes "set xs = set ys" and "[] \<notin> set xs"
  shows "best_match x p xs = best_match x p ys"
proof (cases "best_match x p xs = []")
  case True
  then have "best_match x p ys = []" using assms by (simp add: best_match_Nil)
  with True show ?thesis by simp
next
  case False
  then have "best_in p x (set ys) (best_match x p xs)"
    using assms best_match_iff [of xs "best_match x p xs" x p] by simp
  with False assms have "best_match x p ys = best_match x p xs"
    by (intro best_match_iff [THEN iffD2]) simp_all
  then show ?thesis by simp
qed

section \<open>The lookalike and recency gates\<close>

lemma legit_keys:
  assumes "\<forall>obs \<in> set baseline. wf_obs obs"
  shows "set (map_keys (buildLegitBaselineCounterparties baseline)) = {a. legit_times baseline a \<noteq> []}"
    and "[] \<notin> set (map_keys (buildLegitBaselineCounterparties baseline))"
proof -
  have "a \<in> set (map_keys (buildLegitBaselineCounterparties baseline)) \<longleftrightarrow> legit_times baseline a \<noteq> []" for a
    using legit_index [OF assms, of a]
    by (simp add: map_keys_def dom_map_of_conv_image_fst [symmetric] domIff)
  then show keys: "set (map_keys (buildLegitBaselineCounterparties baseline)) = {a. legit_times baseline a \<noteq> []}"
    by blast
  have "legit_times baseline [] = []"
    by (simp add: legit_times_def from_to_def filter_empty_conv is_legit_def)
  then show "[] \<notin> set (map_keys (buildLegitBaselineCounterparties baseline))" by (simp add: keys)
qed

lemma last_sent_pos:
  "\<forall>obs \<in> set baseline. wf_obs obs \<Longrightarrow> legit_times baseline a \<noteq> [] \<Longrightarrow> 0 < last_sent baseline a"
  using legit_times_pos [of baseline "last_sent baseline a" a] by (simp add: last_sent_def)

definition max_recency_days :: int where
  "max_recency_days = 106751"

lemma recency_limit_eq:
  "1 \<le> days \<Longrightarrow> days \<le> max_recency_days \<Longrightarrow>
     recency_limit days = days * nanos_per_day \<and> 0 \<le> recency_limit days \<and> recency_limit days < max_int64"
  by (simp add: recency_limit_def max_recency_days_def wrap64_id min_int64_def max_int64_def
        nanos_per_hour_def nanos_per_day_def)

lemma evaluateLookalikeAndRecency_eq:
  assumes "mp_BaselineComplete p" and "l = best_match (obs_CounterpartyAddress obs) p (map_keys m)"
    and "t = tr_BlockTime (obs_Transfer obs)"
  shows "evaluateLookalikeAndRecency obs m p =
      (if l = [] then ([], 0, GateFail, GateFail)
       else if is_zero_time (map_get 0 m l) \<or> is_zero_time t then (l, 0, GateUnknown, GatePass)
       else if sub_time t (map_get 0 m l) \<le> 0 then (l, 0, GateFail, GatePass)
       else if sub_time t (map_get 0 m l) > recency_limit (mp_LookalikeRecencyDays p)
       then (l, whole_days (sub_time t (map_get 0 m l)), GateFail, GatePass)
       else (l, whole_days (sub_time t (map_get 0 m l)), GatePass, GatePass))"
  using assms
  by (cases "best_match_loop (obs_CounterpartyAddress obs) p (- 1) [] (map_keys m)")
    (simp add: evaluateLookalikeAndRecency_def best_match_def Let_def)

text \<open>For observations of the kind \<open>normalizeWindow\<close> makes the times are exact.\<close>

lemma lookalike_eq:
  fixes baseline obs p
  defines "m \<equiv> buildLegitBaselineCounterparties baseline" and "t \<equiv> tr_BlockTime (obs_Transfer obs)"
  defines "l \<equiv> best_match (obs_CounterpartyAddress obs) p (map_keys m)"
  assumes "\<forall>b \<in> set baseline. wf_obs b" and "wf_obs obs" and "mp_BaselineComplete p"
    and "1 \<le> mp_LookalikeRecencyDays p" and "mp_LookalikeRecencyDays p \<le> max_recency_days"
    and "l = [] \<or> legit_times baseline l \<noteq> []"
  shows "evaluateLookalikeAndRecency obs m p =
      (if l = [] then ([], 0, GateFail, GateFail)
       else if \<not> 0 < t - last_sent baseline l then (l, 0, GateFail, GatePass)
       else if \<not> t - last_sent baseline l \<le> mp_LookalikeRecencyDays p * nanos_per_day
       then (l, whole_days (sub_time t (last_sent baseline l)), GateFail, GatePass)
       else (l, whole_days (t - last_sent baseline l), GatePass, GatePass))"
proof (cases "l = []")
  case True
  then show ?thesis
    using evaluateLookalikeAndRecency_eq [OF assms(6), of l obs m, OF _ refl] by (simp add: l_def)
next
  case False
  let ?d = "sub_time t (last_sent baseline l)"
  have nonempty: "legit_times baseline l \<noteq> []" using assms(9) False by simp
  then have g: "map_get 0 m l = last_sent baseline l"
    by (simp add: m_def map_get_def legit_index [OF assms(4)])
  have pos: "0 < last_sent baseline l" using last_sent_pos [OF assms(4) nonempty] .
  have tpos: "0 < t" using assms(5) by (simp add: wf_obs_def t_def)
  note lim = recency_limit_eq [OF assms(7,8)]
  have pos_iff: "0 < ?d \<longleftrightarrow> 0 < t - last_sent baseline l" by (simp add: sub_time_pos)
  have le_iff: "?d \<le> recency_limit (mp_LookalikeRecencyDays p)
      \<longleftrightarrow> t - last_sent baseline l \<le> mp_LookalikeRecencyDays p * nanos_per_day"
    using lim by (simp add: sub_time_le)
  have sub_eq: "?d = t - last_sent baseline l" if "?d \<le> recency_limit (mp_LookalikeRecencyDays p)" and "0 < ?d"
    using that lim by (auto simp: sub_time_def max_int64_def min_int64_def split: if_splits)
  have "evaluateLookalikeAndRecency obs m p =
      (if is_zero_time (last_sent baseline l) \<or> is_zero_time t then (l, 0, GateUnknown, GatePass)
       else if ?d \<le> 0 then (l, 0, GateFail, GatePass)
       else if ?d > recency_limit (mp_LookalikeRecencyDays p) then (l, whole_days ?d, GateFail, GatePass)
       else (l, whole_days ?d, GatePass, GatePass))"
    using evaluateLookalikeAndRecency_eq [OF assms(6), of l obs m t] False by (simp add: l_def t_def g [unfolded l_def])
  then show ?thesis
    using False pos tpos pos_iff le_iff sub_eq by (simp add: is_zero_time_def not_le [symmetric])
qed

text \<open>The two gates together, for a complete baseline.\<close>

lemma lookalike_gates:
  assumes "\<forall>b \<in> set baseline. wf_obs b" and "wf_obs obs" and "mp_BaselineComplete p"
    and "1 \<le> mp_LookalikeRecencyDays p" and "mp_LookalikeRecencyDays p \<le> max_recency_days"
    and "evaluateLookalikeAndRecency obs (buildLegitBaselineCounterparties baseline) p = (l, d, rg, lg)"
  shows "(lg = GatePass \<longleftrightarrow> best_in p (obs_CounterpartyAddress obs) {a. legit_times baseline a \<noteq> []} l) \<and>
    (lg = GatePass \<longrightarrow> l \<noteq> []) \<and> lg \<noteq> GateUnknown \<and> rg \<noteq> GateUnknown \<and>
    (lg = GateFail \<longrightarrow> (\<forall>l. \<not> best_in p (obs_CounterpartyAddress obs) {a. legit_times baseline a \<noteq> []} l)) \<and>
    (lg = GatePass \<longrightarrow> (rg = GatePass \<longleftrightarrow> last_sent baseline l < tr_BlockTime (obs_Transfer obs) \<and>
        tr_BlockTime (obs_Transfer obs) - last_sent baseline l \<le> mp_LookalikeRecencyDays p * nanos_per_day)) \<and>
    (lg = GatePass \<and> rg = GatePass \<longrightarrow> d = (tr_BlockTime (obs_Transfer obs) - last_sent baseline l) div nanos_per_day \<and>
        map_get 0 (buildLegitBaselineCounterparties baseline) l = last_sent baseline l)"
proof -
  let ?m = "buildLegitBaselineCounterparties baseline" and ?x = "obs_CounterpartyAddress obs"
    and ?S = "{a. legit_times baseline a \<noteq> []}" and ?t = "tr_BlockTime (obs_Transfer obs)"
  note keys = legit_keys [OF assms(1)]
  define l' where "l' = best_match ?x p (map_keys ?m)"
  have match: "best_in p ?x ?S l'" if "l' \<noteq> []"
    using that best_match_iff [OF keys(2), of l' ?x p] by (simp add: l'_def [symmetric] keys(1))
  then have in_S: "l' = [] \<or> legit_times baseline l' \<noteq> []" by (auto simp: best_in_def)
  note ev = lookalike_eq [OF assms(1-5) in_S [unfolded l'_def], folded l'_def, unfolded assms(6)]
  show ?thesis
  proof (cases "l' = []")
    case True
    then have "\<forall>a \<in> ?S. \<not> lookalike p ?x a"
      using best_match_Nil [OF keys(2), of ?x p] by (simp add: l'_def keys(1))
    then have "\<not> best_in p ?x ?S a" for a by (auto simp: best_in_def)
    with True ev show ?thesis by simp
  next
    case False
    then have "map_get 0 ?m l' = last_sent baseline l'"
      using in_S by (simp add: map_get_def legit_index [OF assms(1)])
    with ev match False show ?thesis by (auto simp: whole_days_def split: if_splits)
  qed
qed

section \<open>The loop\<close>

lemma materialize_step_fields:
  fixes p pre legit stats obs st
  defines "d \<equiv> EvaluateCandidate (gates_of p pre legit stats obs)"
    and "st' \<equiv> materialize_step p pre legit stats st obs"
  shows "mr_Candidates (fst st') =
      mr_Candidates (fst st) @ (if d_CanEmit d then [candidate_of p legit stats obs] else [])"
    and "mr_IncompleteWindow (fst st') \<longleftrightarrow> mr_IncompleteWindow (fst st) \<or> d_IncompleteWindow d"
    and "mr_UnknownGateReason (fst st') = mr_UnknownGateReason (fst st)"
    and "mr_UnknownGateBlocks (fst st') = mr_UnknownGateBlocks (fst st) + of_bool (d_IncompleteWindow d)"
    and "mr_CandidateBlocks (fst st') = mr_CandidateBlocks (fst st) + of_bool (\<not> d_CanEmit d)"
    and "snd st' = (if d_IncompleteWindow d then addUnknownGates (snd st) (d_UnknownGateReason d) else snd st)"
  unfolding st'_def d_def
  by (cases st; simp add: materialize_step_def Let_def)+

definition emits ::
  "CandidateMaterializeParams \<Rightarrow> WalletTransferObservation list \<Rightarrow> WalletTransferObservation list
     \<Rightarrow> WalletTransferObservation \<Rightarrow> CandidateDecision" where
  "emits p baseline scan obs =
     EvaluateCandidate (gates_of p (buildPreWindowInteractionSet baseline)
       (buildLegitBaselineCounterparties baseline) (buildInboundCounterpartyStats scan) obs)"

lemma materialize_loop:
  fixes p baseline scan obss st
  defines "d \<equiv> emits p baseline scan"
    and "st' \<equiv> foldl (materialize_step p (buildPreWindowInteractionSet baseline)
       (buildLegitBaselineCounterparties baseline) (buildInboundCounterpartyStats scan)) st obss"
  shows "mr_Candidates (fst st') = mr_Candidates (fst st) @
      map (candidate_of p (buildLegitBaselineCounterparties baseline) (buildInboundCounterpartyStats scan))
        (filter (\<lambda>obs. d_CanEmit (d obs)) obss)
    \<and> (mr_IncompleteWindow (fst st') \<longleftrightarrow> mr_IncompleteWindow (fst st) \<or> (\<exists>obs \<in> set obss. d_IncompleteWindow (d obs)))
    \<and> mr_UnknownGateReason (fst st') = mr_UnknownGateReason (fst st)
    \<and> mr_UnknownGateBlocks (fst st') = mr_UnknownGateBlocks (fst st) + int (length (filter (\<lambda>obs. d_IncompleteWindow (d obs)) obss))
    \<and> mr_CandidateBlocks (fst st') = mr_CandidateBlocks (fst st) + int (length (filter (\<lambda>obs. \<not> d_CanEmit (d obs)) obss))
    \<and> snd st' = foldl (\<lambda>names obs. addUnknownGates names (d_UnknownGateReason (d obs))) (snd st)
        (filter (\<lambda>obs. d_IncompleteWindow (d obs)) obss)"
  unfolding st'_def
proof (induction obss arbitrary: st)
  case (Cons obs obss)
  show ?case
    using Cons.IH [of "materialize_step p (buildPreWindowInteractionSet baseline)
        (buildLegitBaselineCounterparties baseline) (buildInboundCounterpartyStats scan) st obs"]
    by (simp add: materialize_step_fields d_def emits_def)
qed (simp add: d_def)

lemma MaterializeCandidates_fields:
  assumes "ValidateCandidateMaterializeParams p = None"
  shows "mr_Candidates (MaterializeCandidates baseline scan p) =
      map (candidate_of p (buildLegitBaselineCounterparties baseline) (buildInboundCounterpartyStats scan))
        (filter (\<lambda>obs. d_CanEmit (emits p baseline scan obs)) scan)"
    and "mr_IncompleteWindow (MaterializeCandidates baseline scan p) \<longleftrightarrow>
      (\<exists>obs \<in> set scan. d_IncompleteWindow (emits p baseline scan obs))"
    and "mr_UnknownGateBlocks (MaterializeCandidates baseline scan p) =
      int (length (filter (\<lambda>obs. d_IncompleteWindow (emits p baseline scan obs)) scan))"
    and "mr_CandidateBlocks (MaterializeCandidates baseline scan p) =
      int (length (filter (\<lambda>obs. \<not> d_CanEmit (emits p baseline scan obs)) scan))"
    and "mr_UnknownGateReason (MaterializeCandidates baseline scan p) =
      (if \<exists>obs \<in> set scan. d_IncompleteWindow (emits p baseline scan obs)
       then buildUnknownGateReason (foldl (\<lambda>names obs. addUnknownGates names (d_UnknownGateReason (emits p baseline scan obs))) []
              (filter (\<lambda>obs. d_IncompleteWindow (emits p baseline scan obs)) scan))
       else [])"
proof -
  let ?st = "foldl (materialize_step p (buildPreWindowInteractionSet baseline)
     (buildLegitBaselineCounterparties baseline) (buildInboundCounterpartyStats scan)) (empty_result, []) scan"
  have "MaterializeCandidates baseline scan p =
      (if mr_IncompleteWindow (fst ?st) then (fst ?st)\<lparr> mr_UnknownGateReason := buildUnknownGateReason (snd ?st) \<rparr>
       else fst ?st)"
    using assms by (simp add: MaterializeCandidates_def Let_def split: prod.splits)
  moreover note materialize_loop [of p baseline scan "(empty_result, [])" scan]
  ultimately show "mr_Candidates (MaterializeCandidates baseline scan p) =
      map (candidate_of p (buildLegitBaselineCounterparties baseline) (buildInboundCounterpartyStats scan))
        (filter (\<lambda>obs. d_CanEmit (emits p baseline scan obs)) scan)"
    "mr_IncompleteWindow (MaterializeCandidates baseline scan p) \<longleftrightarrow>
      (\<exists>obs \<in> set scan. d_IncompleteWindow (emits p baseline scan obs))"
    "mr_UnknownGateBlocks (MaterializeCandidates baseline scan p) =
      int (length (filter (\<lambda>obs. d_IncompleteWindow (emits p baseline scan obs)) scan))"
    "mr_CandidateBlocks (MaterializeCandidates baseline scan p) =
      int (length (filter (\<lambda>obs. \<not> d_CanEmit (emits p baseline scan obs)) scan))"
    "mr_UnknownGateReason (MaterializeCandidates baseline scan p) =
      (if \<exists>obs \<in> set scan. d_IncompleteWindow (emits p baseline scan obs)
       then buildUnknownGateReason (foldl (\<lambda>names obs. addUnknownGates names (d_UnknownGateReason (emits p baseline scan obs))) []
              (filter (\<lambda>obs. d_IncompleteWindow (emits p baseline scan obs)) scan))
       else [])"
    by (simp_all add: empty_result_def)
qed

section \<open>Emission is injection\<close>

lemma valid_params_iff:
  "ValidateCandidateMaterializeParams p = None \<longleftrightarrow>
     1 \<le> mp_LookalikeRecencyDays p \<and> 4 \<le> mp_LookalikePrefixMin p \<and> 4 \<le> mp_LookalikeSuffixMin p \<and>
     6 \<le> mp_LookalikeSingleSideMin p \<and> 1 \<le> mp_MinInjectionCount p"
  by (auto simp: ValidateCandidateMaterializeParams_def validateLookalikeAndInjectionParams_def)

lemma emits_incomplete_baseline:
  "\<not> mp_BaselineComplete p \<Longrightarrow> d_IncompleteWindow (emits p baseline scan obs) \<and> \<not> d_CanEmit (emits p baseline scan obs)"
  by (simp add: emits_def unknown_names_def required_gates_def gates_of_def evaluateLookalikeAndRecency_def
        can_emit_all gateNewCounterparty_def Let_def)

text \<open>The hypotheses under which the specification speaks: checked parameters, a recency limit that does
  not overflow a duration, and observations of the kind \<open>normalizeWindow\<close> makes.\<close>

definition usable ::
  "CandidateMaterializeParams \<Rightarrow> WalletTransferObservation list \<Rightarrow> WalletTransferObservation list \<Rightarrow> bool" where
  "usable p baseline scan \<longleftrightarrow>
     ValidateCandidateMaterializeParams p = None \<and> mp_LookalikeRecencyDays p \<le> max_recency_days \<and>
     (\<forall>obs \<in> set baseline \<union> set scan. wf_obs obs)"

lemma best_in_trim:
  assumes "\<forall>b \<in> set baseline. wf_obs b" and "best_in p x {a. legit_times baseline a \<noteq> []} l"
  shows "trim_space l \<noteq> []"
proof -
  have "legit_times baseline l \<noteq> []" using assms(2) by (simp add: best_in_def)
  then obtain b where "b \<in> set (filter is_legit (from_to l baseline))"
    unfolding legit_times_def by (metis list.map_disc_iff list.set_intros(1) neq_Nil_conv)
  then show ?thesis using assms(1) by (auto simp: from_to_def wf_obs_def)
qed

lemma emits_injection:
  assumes "usable p baseline scan" and "obs \<in> set scan" and "mp_BaselineComplete p"
  defines "l \<equiv> fst (evaluateLookalikeAndRecency obs (buildLegitBaselineCounterparties baseline) p)"
  shows "(d_CanEmit (emits p baseline scan obs) \<longleftrightarrow> injection p baseline scan obs l) \<and>
    (\<forall>l'. injection p baseline scan obs l' \<longrightarrow> l' = l) \<and>
    (injection p baseline scan obs l \<longrightarrow>
       candidate_of p (buildLegitBaselineCounterparties baseline) (buildInboundCounterpartyStats scan) obs
         = injection_record baseline scan obs l)"
proof -
  have wfb: "\<forall>b \<in> set baseline. wf_obs b" and wfs: "\<forall>b \<in> set scan. wf_obs b" and wfo: "wf_obs obs"
    and days: "1 \<le> mp_LookalikeRecencyDays p" "mp_LookalikeRecencyDays p \<le> max_recency_days"
    and mi: "1 \<le> mp_MinInjectionCount p"
    using assms(1,2) by (simp_all add: usable_def valid_params_iff)
  obtain d rg lg where ev: "evaluateLookalikeAndRecency obs (buildLegitBaselineCounterparties baseline) p = (l, d, rg, lg)"
    unfolding l_def by (metis prod_cases4 fst_conv)
  note g = lookalike_gates [OF wfb wfo assms(3) days ev]
  have cp: "trim_space (obs_CounterpartyAddress obs) = obs_CounterpartyAddress obs" "obs_CounterpartyAddress obs \<noteq> []"
    using wfo by (simp_all add: wf_obs_def)
  have new: "gateNewCounterparty (mp_BaselineComplete p)
      (map_get False (buildPreWindowInteractionSet baseline) (obs_CounterpartyAddress obs)) = GatePass
      \<longleftrightarrow> from_to (obs_CounterpartyAddress obs) baseline = []"
    using cp assms(3) by (simp add: gateNewCounterparty_iff preWindow_index)
  have differ: "obs_CounterpartyAddress obs \<noteq> l"
    if "from_to (obs_CounterpartyAddress obs) baseline = []"
      "best_in p (obs_CounterpartyAddress obs) {a. legit_times baseline a \<noteq> []} l"
    using that by (auto simp: best_in_def legit_times_def)
  note ltrim = best_in_trim [OF wfb]
  have ineq: "gateAddressInequality (obs_CounterpartyAddress obs) l lg = GatePass \<longleftrightarrow>
      lg = GatePass \<and> trim_space l \<noteq> [] \<and> obs_CounterpartyAddress obs \<noteq> l"
    using cp by (auto simp: gateAddressInequality_def)
  have stats: "st_KnownQualifying (map_get zero_stats (buildInboundCounterpartyStats scan) (obs_CounterpartyAddress obs))
      = injections scan (obs_CounterpartyAddress obs)"
    using stats_index [OF wfs] by blast
  have "d_CanEmit (emits p baseline scan obs) \<longleftrightarrow> injection p baseline scan obs l"
    using g new differ ltrim ineq stats mi assms(3)
    by (auto simp: emits_def can_emit_all required_gates_def gates_of_def ev evaluateBaseEmissionGates_def Let_def
        injection_def qualifying_def gateZeroOrDust_iff gateMinInjectionCount_pass)
  moreover have "l' = l" if i: "injection p baseline scan obs l'" for l'
  proof -
    have b: "best_in p (obs_CounterpartyAddress obs) {a. legit_times baseline a \<noteq> []} l'"
      using i by (simp add: injection_def)
    then have "lg = GatePass" using g by (cases lg) auto
    then show ?thesis using g b best_in_unique by blast
  qed
  moreover have "candidate_of p (buildLegitBaselineCounterparties baseline) (buildInboundCounterpartyStats scan) obs
      = injection_record baseline scan obs l" if i: "injection p baseline scan obs l"
  proof -
    have "lg = GatePass \<and> rg = GatePass" using g i by (auto simp: injection_def)
    then show ?thesis
      using g by (simp add: candidate_of_def injection_record_def ev stats isAmountZero_eq zero_amount_def)
  qed
  ultimately show ?thesis by blast
qed

section \<open>Reasons\<close>

lemma set_set_add [simp]: "set (set_add x xs) = insert x (set xs)"
  by (auto simp: set_add_def)

lemma distinct_set_add [simp]: "distinct xs \<Longrightarrow> distinct (set_add x xs)"
  by (auto simp: set_add_def)

lemma add_names:
  fixes names :: "string list"
  assumes "set new \<subseteq> set gate_names"
  defines "out \<equiv> foldl (\<lambda>out name. if trim_space name = [] then out else set_add (trim_space name) out) names new"
  shows "set out = set names \<union> set new \<and> (distinct names \<longrightarrow> distinct out)"
  using assms(1) unfolding out_def
proof (induction new arbitrary: names)
  case (Cons n new)
  then have "trim_space n = n" "n \<noteq> []" using gate_names_plain by auto
  with Cons show ?case by auto
qed simp

lemma addUnknownGates_decision:
  assumes "unknown_names g \<noteq> []"
  shows "set (addUnknownGates names (d_UnknownGateReason (EvaluateCandidate g))) = set names \<union> set (unknown_names g) \<and>
    (distinct names \<longrightarrow> distinct (addUnknownGates names (d_UnknownGateReason (EvaluateCandidate g))))"
proof -
  let ?r = "d_UnknownGateReason (EvaluateCandidate g)"
  have r: "?r = unknown_prefix @ join '','' (unknown_names g)" using assms by (simp add: EvaluateCandidate_unknown)
  have "trim_space ?r = ?r" unfolding r
    using assms unknown_names_subset by (intro trim_visible unknown_reason_visible)
  moreover have "split_on CHR '','' (drop (length unknown_prefix) ?r) = unknown_names g"
    using assms decision_names by (simp add: r)
  ultimately show ?thesis
    using add_names [OF unknown_names_subset [of g], of names]
    by (auto simp: addUnknownGates_def r has_prefix_def unknown_prefix_def Let_def)
qed

lemma unknown_set:
  fixes names :: "string list"
  assumes "\<forall>obs \<in> set obss. unknown_names (gt obs) \<noteq> []"
  defines "out \<equiv> foldl (\<lambda>names obs. addUnknownGates names (d_UnknownGateReason (EvaluateCandidate (gt obs)))) names obss"
  shows "set out = set names \<union> (\<Union>obs \<in> set obss. set (unknown_names (gt obs))) \<and> (distinct names \<longrightarrow> distinct out)"
  using assms(1) unfolding out_def
proof (induction obss arbitrary: names)
  case (Cons obs obss)
  then show ?case using addUnknownGates_decision [of "gt obs" names] by auto
qed simp

definition gates_for ::
  "CandidateMaterializeParams \<Rightarrow> WalletTransferObservation list \<Rightarrow> WalletTransferObservation list
     \<Rightarrow> WalletTransferObservation \<Rightarrow> CandidateGate" where
  "gates_for p baseline scan obs = gates_of p (buildPreWindowInteractionSet baseline)
     (buildLegitBaselineCounterparties baseline) (buildInboundCounterpartyStats scan) obs"

lemma emits_gates: "emits p baseline scan obs = EvaluateCandidate (gates_for p baseline scan obs)"
  by (simp add: emits_def gates_for_def)

lemma reason_sorted:
  fixes baseline scan :: "WalletTransferObservation list"
  assumes "ValidateCandidateMaterializeParams p = None"
  defines "r \<equiv> MaterializeCandidates baseline scan p"
  assumes "mr_IncompleteWindow r"
  shows "(\<Union>obs \<in> set scan. set (unknown_names (gates_for p baseline scan obs))) \<noteq> {} \<and>
    mr_UnknownGateReason r = unknown_prefix @ join '',''
      (sorted_list_of_set (\<Union>obs \<in> set scan. set (unknown_names (gates_for p baseline scan obs))))"
proof -
  let ?inc = "filter (\<lambda>obs. unknown_names (gates_for p baseline scan obs) \<noteq> []) scan"
  define names where "names = foldl (\<lambda>names obs. addUnknownGates names
      (d_UnknownGateReason (EvaluateCandidate (gates_for p baseline scan obs)))) [] ?inc"
  have n: "set names = (\<Union>obs \<in> set scan. set (unknown_names (gates_for p baseline scan obs))) \<and> distinct names"
    using unknown_set [of ?inc "gates_for p baseline scan" "[]"] by (auto simp: names_def)
  have ex: "\<exists>obs \<in> set scan. d_IncompleteWindow (emits p baseline scan obs)"
    using assms(3) by (simp add: r_def MaterializeCandidates_fields [OF assms(1)])
  then have "names \<noteq> []" using n by (auto simp: emits_gates)
  moreover have "mr_UnknownGateReason r = buildUnknownGateReason names"
    using ex by (simp add: r_def MaterializeCandidates_fields [OF assms(1)] emits_gates names_def)
  moreover have "sort names = sorted_list_of_set (set names)"
    using n by (intro sort_distinct) blast
  moreover have "set names \<noteq> {}" using \<open>names \<noteq> []\<close> by simp
  ultimately show ?thesis using n by (simp add: buildUnknownGateReason_def)
qed

lemma materialized_reason_visible:
  assumes "ValidateCandidateMaterializeParams p = None"
    and "mr_IncompleteWindow (MaterializeCandidates baseline scan p)"
  shows "visible_ends (mr_UnknownGateReason (MaterializeCandidates baseline scan p))"
proof -
  let ?u = "\<Union>obs \<in> set scan. set (unknown_names (gates_for p baseline scan obs))"
  note r = reason_sorted [OF assms]
  have "set (sorted_list_of_set ?u) \<subseteq> set gate_names" using unknown_names_subset by simp blast
  moreover have "sorted_list_of_set ?u \<noteq> []" using r by simp
  ultimately show ?thesis using r by (simp add: unknown_reason_visible)
qed

lemma blocks_none:
  "ValidateCandidateMaterializeParams p = None \<Longrightarrow> \<not> mp_BaselineComplete p \<Longrightarrow>
     mr_Candidates (MaterializeCandidates baseline scan p) = []"
  using emits_incomplete_baseline [of p baseline scan] by (simp add: MaterializeCandidates_fields filter_empty_conv)

lemma injections_exact:
  assumes "usable p baseline scan"
  shows "list_all2 (\<lambda>obs c. \<exists>l. injection p baseline scan obs l \<and> c = injection_record baseline scan obs l)
    (filter (\<lambda>obs. \<exists>l. injection p baseline scan obs l) scan)
    (mr_Candidates (MaterializeCandidates baseline scan p))"
proof -
  have v: "ValidateCandidateMaterializeParams p = None" using assms by (simp add: usable_def)
  have emit: "d_CanEmit (emits p baseline scan obs) \<longleftrightarrow> (\<exists>l. injection p baseline scan obs l)"
    if "obs \<in> set scan" for obs
  proof (cases "mp_BaselineComplete p")
    case True
    then show ?thesis using emits_injection [OF assms that] by blast
  qed (simp add: emits_incomplete_baseline injection_def)
  have "\<exists>l. injection p baseline scan obs l \<and>
      candidate_of p (buildLegitBaselineCounterparties baseline) (buildInboundCounterpartyStats scan) obs
        = injection_record baseline scan obs l"
    if "obs \<in> set scan" "\<exists>l. injection p baseline scan obs l" for obs
  proof -
    have "mp_BaselineComplete p" using that(2) by (auto simp: injection_def)
    then show ?thesis using emits_injection [OF assms that(1)] that(2) by blast
  qed
  then show ?thesis
    using emit by (auto simp: MaterializeCandidates_fields [OF v] list_all2_map2 list.rel_refl_strong
        intro!: list.rel_refl_strong cong: filter_cong)
qed

section \<open>Properties\<close>

text \<open>C1. The candidates of a window are exactly its poisoning injections, one for each, in the order of the
  scan, with the matched address and every other field as the specification gives it.\<close>

theorem candidates_are_injections:
  assumes "usable p baseline scan"
  shows "list_all2 (\<lambda>obs c. \<exists>l. injection p baseline scan obs l \<and> c = injection_record baseline scan obs l)
    (filter (\<lambda>obs. \<exists>l. injection p baseline scan obs l) scan)
    (mr_Candidates (MaterializeCandidates baseline scan p))"
  using assms by (rule injections_exact)

text \<open>C36. Nothing is lost: every scan observation is emitted or counted as blocked, the blocks for
  unknown gates are among those, and the window is incomplete exactly when there are some. An incomplete
  baseline blocks every observation for unknown gates.\<close>

theorem blocks_account:
  fixes baseline scan :: "WalletTransferObservation list"
  assumes "ValidateCandidateMaterializeParams p = None"
  defines "r \<equiv> MaterializeCandidates baseline scan p"
  shows "mr_CandidateBlocks r + int (length (mr_Candidates r)) = int (length scan) \<and>
    0 \<le> mr_UnknownGateBlocks r \<and> mr_UnknownGateBlocks r \<le> mr_CandidateBlocks r \<and>
    (mr_IncompleteWindow r \<longleftrightarrow> 0 < mr_UnknownGateBlocks r) \<and>
    (\<not> mp_BaselineComplete p \<longrightarrow> mr_Candidates r = [] \<and> mr_UnknownGateBlocks r = int (length scan))"
proof -
  let ?d = "emits p baseline scan"
  have "length (filter (\<lambda>obs. \<not> d_CanEmit (?d obs)) scan) + length (filter (\<lambda>obs. d_CanEmit (?d obs)) scan) = length scan"
    using sum_length_filter_compl [of "\<lambda>obs. d_CanEmit (?d obs)" scan] by simp
  moreover have "length (filter (\<lambda>obs. d_IncompleteWindow (?d obs)) scan) \<le> length (filter (\<lambda>obs. \<not> d_CanEmit (?d obs)) scan)"
  proof -
    have "d_IncompleteWindow (?d obs) \<Longrightarrow> \<not> d_CanEmit (?d obs)" for obs
      unfolding emits_gates by (rule unknown_not_emitted)
    then have "filter (\<lambda>obs. d_IncompleteWindow (?d obs)) scan =
        filter (\<lambda>obs. d_IncompleteWindow (?d obs)) (filter (\<lambda>obs. \<not> d_CanEmit (?d obs)) scan)"
      by (auto intro: filter_cong)
    then show ?thesis by (metis length_filter_le)
  qed
  moreover have "(\<exists>obs \<in> set scan. d_IncompleteWindow (?d obs)) \<longleftrightarrow> 0 < length (filter (\<lambda>obs. d_IncompleteWindow (?d obs)) scan)"
    by (auto simp: filter_empty_conv)
  ultimately show ?thesis
    using emits_incomplete_baseline [of p baseline scan]
    unfolding r_def MaterializeCandidates_fields [OF assms(1)]
    by (auto simp: filter_empty_conv)
qed

text \<open>The reason of an incomplete window is the sorted set of all the gates that were unknown for some
  observation of the scan, so it does not depend on the order of the observations or of a map.\<close>

theorem unknown_reason_set:
  fixes baseline scan :: "WalletTransferObservation list"
  assumes "ValidateCandidateMaterializeParams p = None"
  defines "r \<equiv> MaterializeCandidates baseline scan p"
  assumes "mr_IncompleteWindow r"
  shows "mr_UnknownGateReason r = unknown_prefix @ join '',''
      (sorted_list_of_set (\<Union>obs \<in> set scan. set (unknown_names (gates_for p baseline scan obs))))"
  using reason_sorted [OF assms(1,3) [unfolded r_def]] by (simp add: r_def)

text \<open>Go visits a map in no fixed order; the lookalike match does not depend on it: for any two orders of
  the legitimate counterparties the result is the same.\<close>

theorem match_order_irrelevant:
  assumes "distinct (map_keys m)" and "mset m = mset m'" and "[] \<notin> set (map_keys m)"
  shows "evaluateLookalikeAndRecency obs m p = evaluateLookalikeAndRecency obs m' p"
proof -
  have keys: "set (map_keys m) = set (map_keys m')" "[] \<notin> set (map_keys m')"
    using mset_eq_setD [OF assms(2)] assms(3) by (simp_all add: map_keys_def)
  have "map_of m = map_of m'"
    using assms(1,2) unfolding map_keys_def by (rule map_perm(2))
  then have get: "map_get z m k = map_get z m' k" for z k by (simp add: map_get_def)
  have best: "best_match (obs_CounterpartyAddress obs) p (map_keys m) = best_match (obs_CounterpartyAddress obs) p (map_keys m')"
    using keys(1) assms(3) by (rule best_match_set)
  show ?thesis
  proof (cases "mp_BaselineComplete p")
    case True
    show ?thesis
      unfolding evaluateLookalikeAndRecency_eq [OF True refl refl] best get ..
  qed (simp add: evaluateLookalikeAndRecency_def)
qed

section \<open>Witnesses\<close>

text \<open>A wallet that paid one address and then gets a zero transfer from one that looks like it.\<close>

definition sample_transfer :: "string \<Rightarrow> gotime \<Rightarrow> DustStatus \<Rightarrow> NormalizedTransfer" where
  "sample_transfer amount t dust =
     \<lparr> tr_Signature = ''sig'', tr_TransferIndex = 0, tr_TransferFingerprint = ''fp'', tr_Slot = 1,
       tr_BlockTime = t, tr_SourceOwnerAddress = ''s'', tr_DestinationOwnerAddress = ''d'',
       tr_SourceTokenAccount = [], tr_DestinationTokenAccount = [], tr_AmountRaw = amount, tr_TokenMint = [],
       tr_AssetType = AssetTypeNativeSOL, tr_AssetKey = ''SOL'', tr_Decimals = None,
       tr_NormalizationStatus = NormalizationResolved, tr_NormalizationReasonCode = [],
       tr_PoisoningEligible = True, tr_DustStatus = dust, tr_IsSuccess = True \<rparr>"

definition sample_baseline :: "WalletTransferObservation list" where
  "sample_baseline =
     [\<lparr> obs_Transfer = sample_transfer ''5000'' (10 * nanos_per_day) DustFalse,
        obs_RelationType = RelationSender, obs_CounterpartyAddress = ''LegitAddress1'' \<rparr>]"

definition sample_scan :: "WalletTransferObservation list" where
  "sample_scan =
     [\<lparr> obs_Transfer = sample_transfer ''0'' (12 * nanos_per_day) DustTrue,
        obs_RelationType = RelationReceiver, obs_CounterpartyAddress = ''LegitXXXXess1'' \<rparr>]"

definition sample_params :: CandidateMaterializeParams where
  "sample_params =
     \<lparr> mp_BaselineComplete = True, mp_LookalikeRecencyDays = 30, mp_LookalikePrefixMin = 4,
       mp_LookalikeSuffixMin = 4, mp_LookalikeSingleSideMin = 6, mp_MinInjectionCount = 1 \<rparr>"

lemma sample_usable: "usable sample_params sample_baseline sample_scan"
  unfolding usable_def Ball_set_list_all by code_simp

lemma sample_one: "length (mr_Candidates (MaterializeCandidates sample_baseline sample_scan sample_params)) = 1"
  by code_simp

theorem candidates_are_injections_witness:
  "\<exists>l. injection sample_params sample_baseline sample_scan (sample_scan ! 0) l"
proof -
  have "length (filter (\<lambda>obs. \<exists>l. injection sample_params sample_baseline sample_scan obs l) sample_scan) = 1"
    using list_all2_lengthD [OF candidates_are_injections [OF sample_usable]] sample_one by simp
  then show ?thesis by (auto simp: sample_scan_def split: if_splits)
qed

definition sample_blind :: CandidateMaterializeParams where
  "sample_blind = sample_params\<lparr> mp_BaselineComplete := False \<rparr>"

lemma sample_blind_valid: "ValidateCandidateMaterializeParams sample_blind = None"
  by code_simp

theorem blocks_account_witness:
  "mr_UnknownGateBlocks (MaterializeCandidates sample_baseline sample_scan sample_blind) = 1"
  using blocks_account [OF sample_blind_valid, of sample_baseline sample_scan]
  by (simp add: sample_scan_def sample_blind_def)

theorem unknown_reason_set_witness:
  "has_prefix (mr_UnknownGateReason (MaterializeCandidates sample_baseline sample_scan sample_blind)) unknown_prefix"
proof -
  have "mr_IncompleteWindow (MaterializeCandidates sample_baseline sample_scan sample_blind)" by code_simp
  from unknown_reason_set [OF sample_blind_valid this] show ?thesis by (simp add: has_prefix_def)
qed

theorem match_order_irrelevant_witness:
  "evaluateLookalikeAndRecency (sample_scan ! 0) [(''LegitAddress1'', 5), (''LegitAddressess1'', 7)] sample_params =
   evaluateLookalikeAndRecency (sample_scan ! 0) [(''LegitAddressess1'', 7), (''LegitAddress1'', 5)] sample_params"
  by (rule match_order_irrelevant) (simp_all add: map_keys_def)

end
