(* ===== verification/Dust.thy ===== *)
theory Dust
imports Injection_Spec
begin

text \<open>
  The dust thresholds of \<open>internal/pipeline/wallet_runner.go\<close> (\<open>buildDustClassifier\<close>): the index of
  the threshold rows per asset, the refusal of overlapping windows, and the classifier; with the
  contract of a classifier that the candidate gates rely on.
\<close>

section \<open>Threshold rows\<close>

record DustThresholdRecord =
  dt_AssetKey :: string
  dt_AmountRaw :: string
  dt_ActiveFrom :: gotime
  dt_ActiveTo :: "gotime option"

record dustRule =
  dr_From :: gotime
  dr_To :: "gotime option"
  dr_Threshold :: int

text \<open>The checks of one row, in the code's order.\<close>

definition dust_rule :: "DustThresholdRecord \<Rightarrow> go_error + string \<times> dustRule" where
  "dust_rule rec =
     (let asset = trim_space (dt_AssetKey rec) in
      if asset = []
      then Inl (Err (''invalid dust threshold row: asset_key is empty (active_from='' @
             format_rfc3339 (dt_ActiveFrom rec) @ '')''))
      else let bad = Inl (Err (''invalid dust threshold row for asset '' @ asset @
             '': dust_amount_raw_threshold='' @ go_quote (dt_AmountRaw rec)))
        in case parse_big (trim_space (dt_AmountRaw rec)) of
            None \<Rightarrow> bad
          | Some v \<Rightarrow>
              if v < 0 then bad
              else if (case dt_ActiveTo rec of None \<Rightarrow> False | Some to \<Rightarrow> \<not> dt_ActiveFrom rec < to)
              then Inl (Err (''invalid dust threshold window for asset '' @ asset @
                     '': active_to must be greater than active_from''))
              else Inr (asset, \<lparr> dr_From = dt_ActiveFrom rec, dr_To = dt_ActiveTo rec, dr_Threshold = v \<rparr>))"

fun dust_index ::
  "(string \<times> dustRule list) list \<Rightarrow> DustThresholdRecord list \<Rightarrow> go_error + (string \<times> dustRule list) list" where
  "dust_index index [] = Inr index"
| "dust_index index (rec # recs) =
     and_then (dust_rule rec) (\<lambda>(asset, rule).
       dust_index (map_set asset (map_get [] index asset @ [rule]) index) recs)"

definition rule_lt :: "dustRule \<Rightarrow> dustRule \<Rightarrow> bool" where
  "rule_lt a b \<longleftrightarrow> dr_From a < dr_From b"

fun check_overlap :: "string \<Rightarrow> dustRule list \<Rightarrow> go_error option" where
  "check_overlap asset (prev # cur # rules) =
     (if (case dr_To prev of None \<Rightarrow> True | Some to \<Rightarrow> dr_From cur < to)
      then Some (Err (''overlapping dust threshold windows for asset '' @ asset))
      else check_overlap asset (cur # rules))"
| "check_overlap asset _ = None"

fun finish_index :: "(string \<times> dustRule list) list \<Rightarrow> go_error + (string \<times> dustRule list) list" where
  "finish_index [] = Inr []"
| "finish_index ((asset, rules) # index) =
     (let ordered = sort_slice rule_lt rules in
      case check_overlap asset ordered of
        Some e \<Rightarrow> Inl e
      | None \<Rightarrow> and_then (finish_index index) (\<lambda>rest. Inr ((asset, ordered) # rest)))"

section \<open>Classification\<close>

text \<open>The loop from the last rule down, here over the reversed list.\<close>

fun pick_rule :: "gotime \<Rightarrow> int \<Rightarrow> dustRule list \<Rightarrow> DustStatus" where
  "pick_rule at amount [] = DustUnknown"
| "pick_rule at amount (rule # rules) =
     (if at < dr_From rule then pick_rule at amount rules
      else if (case dr_To rule of None \<Rightarrow> False | Some to \<Rightarrow> \<not> at < to) then pick_rule at amount rules
      else if amount \<le> dr_Threshold rule then DustTrue
      else DustFalse)"

definition classify_dust :: "(string \<times> dustRule list) list \<Rightarrow> NormalizedTransfer \<Rightarrow> DustStatus" where
  "classify_dust index tr =
     (case parse_big (trim_space (tr_AmountRaw tr)) of
        None \<Rightarrow> DustUnknown
      | Some amount \<Rightarrow>
          if amount < 0 then DustUnknown
          else if amount = 0 then DustTrue
          else let rules = map_get [] index (trim_space (tr_AssetKey tr)) in
            if rules = [] then DustUnknown
            else pick_rule (tr_BlockTime tr) amount (rev rules))"

definition dust_classifier_of :: "DustThresholdRecord list \<Rightarrow> go_error + (NormalizedTransfer \<Rightarrow> DustStatus)" where
  "dust_classifier_of recs =
     and_then (dust_index [] recs) (\<lambda>index. and_then (finish_index index) (\<lambda>ordered. Inr (classify_dust ordered)))"

section \<open>The contract of a classifier\<close>

text \<open>What the gates need of a classifier: an amount of zero is dust, an unreadable or negative one unknown.\<close>

locale dust_classifier =
  fixes classify :: "NormalizedTransfer \<Rightarrow> DustStatus"
  assumes zero_is_dust: "parse_big (trim_space (tr_AmountRaw tr)) = Some 0 \<Longrightarrow> classify tr = DustTrue"
    and unreadable_unknown: "parse_big (trim_space (tr_AmountRaw tr)) = None \<Longrightarrow> classify tr = DustUnknown"
    and negative_unknown: "parse_big (trim_space (tr_AmountRaw tr)) = Some n \<Longrightarrow> n < 0 \<Longrightarrow> classify tr = DustUnknown"
begin

lemma classified_gate:
  "gateZeroOrDust (tr\<lparr> tr_DustStatus := classify tr \<rparr>) =
     (case classify tr of DustTrue \<Rightarrow> GatePass | DustFalse \<Rightarrow> GateFail | DustUnknown \<Rightarrow> GateUnknown)"
  using zero_is_dust [of tr]
  by (cases "parse_big (trim_space (tr_AmountRaw tr)) = Some 0")
    (simp_all add: gateZeroOrDust_def isAmountZero_eq split: DustStatus.splits)

lemma classified_tiny: "tiny (tr\<lparr> tr_DustStatus := classify tr \<rparr>) \<longleftrightarrow> classify tr = DustTrue"
  using zero_is_dust [of tr] by (auto simp: tiny_def zero_amount_def)

lemma known_readable:
  "classify tr \<noteq> DustUnknown \<Longrightarrow> \<exists>n \<ge> 0. parse_big (trim_space (tr_AmountRaw tr)) = Some n"
  using unreadable_unknown negative_unknown by (cases "parse_big (trim_space (tr_AmountRaw tr))") fastforce+

end

interpretation dust_rules: dust_classifier "classify_dust index" for index
  by unfold_locales (simp_all add: classify_dust_def)

interpretation rule_order: slice_order rule_lt
  by unfold_locales (auto simp: rule_lt_def)

section \<open>The specification\<close>

definition rule_active :: "dustRule \<Rightarrow> gotime \<Rightarrow> bool" where
  "rule_active rule at \<longleftrightarrow> dr_From rule \<le> at \<and> (case dr_To rule of None \<Rightarrow> True | Some to \<Rightarrow> at < to)"

definition row_applies :: "NormalizedTransfer \<Rightarrow> DustThresholdRecord \<Rightarrow> bool" where
  "row_applies tr rec \<longleftrightarrow>
     trim_space (dt_AssetKey rec) = trim_space (tr_AssetKey tr) \<and> dt_ActiveFrom rec \<le> tr_BlockTime tr \<and>
     (case dt_ActiveTo rec of None \<Rightarrow> True | Some to \<Rightarrow> tr_BlockTime tr < to)"

definition row_threshold :: "DustThresholdRecord \<Rightarrow> int" where
  "row_threshold rec = (case parse_big (trim_space (dt_AmountRaw rec)) of Some v \<Rightarrow> v | None \<Rightarrow> 0)"

definition dust_spec :: "DustThresholdRecord list \<Rightarrow> NormalizedTransfer \<Rightarrow> DustStatus" where
  "dust_spec recs tr =
     (case parse_big (trim_space (tr_AmountRaw tr)) of
        None \<Rightarrow> DustUnknown
      | Some n \<Rightarrow>
          if n < 0 then DustUnknown else if n = 0 then DustTrue
          else case filter (row_applies tr) recs of
              [] \<Rightarrow> DustUnknown
            | rec # _ \<Rightarrow> if n \<le> row_threshold rec then DustTrue else DustFalse)"

lemma pick_rule_filter:
  "pick_rule at n rules = (case filter (\<lambda>r. rule_active r at) rules of [] \<Rightarrow> DustUnknown
     | r # _ \<Rightarrow> if n \<le> dr_Threshold r then DustTrue else DustFalse)"
  by (induction rules) (auto simp: rule_active_def split: option.splits)

text \<open>The index holds the rules of the rows of an asset, in order.\<close>

definition rule_of_row :: "DustThresholdRecord \<Rightarrow> dustRule" where
  "rule_of_row rec = \<lparr> dr_From = dt_ActiveFrom rec, dr_To = dt_ActiveTo rec, dr_Threshold = row_threshold rec \<rparr>"

definition rule_wf :: "dustRule \<Rightarrow> bool" where
  "rule_wf r \<longleftrightarrow> (case dr_To r of None \<Rightarrow> True | Some to \<Rightarrow> dr_From r < to)"

lemma dust_rule_Inr:
  "dust_rule rec = Inr (asset, rule) \<Longrightarrow> asset = trim_space (dt_AssetKey rec) \<and> rule = rule_of_row rec \<and> rule_wf rule"
  by (auto simp: dust_rule_def rule_of_row_def row_threshold_def rule_wf_def Let_def split: option.splits if_splits)

definition asset_rows :: "string \<Rightarrow> DustThresholdRecord list \<Rightarrow> DustThresholdRecord list" where
  "asset_rows a recs = filter (\<lambda>rec. trim_space (dt_AssetKey rec) = a) recs"

lemma dust_index_Inr:
  "dust_index index recs = Inr index' \<Longrightarrow>
     map_get [] index' a = map_get [] index a @ map rule_of_row (asset_rows a recs) \<and>
     (\<forall>rec \<in> set recs. rule_wf (rule_of_row rec))"
proof (induction recs arbitrary: index)
  case (Cons rec recs)
  then obtain asset rule where r: "dust_rule rec = Inr (asset, rule)"
    and "dust_index (map_set asset (map_get [] index asset @ [rule]) index) recs = Inr index'"
    by (auto simp: and_then_Inr)
  from Cons.IH [OF this(2)] dust_rule_Inr [OF r] show ?case
    by (auto simp: map_get_map_set asset_rows_def)
qed (simp add: asset_rows_def)

lemma finish_index_Inr:
  "finish_index index = Inr ordered \<Longrightarrow> map_get [] ordered a = sort_slice rule_lt (map_get [] index a) \<and>
     check_overlap a (map_get [] ordered a) = None"
proof (induction index arbitrary: ordered rule: finish_index.induct)
  case (2 asset rules index)
  then obtain rest where o: "ordered = (asset, sort_slice rule_lt rules) # rest"
    and c: "check_overlap asset (sort_slice rule_lt rules) = None" and r: "finish_index index = Inr rest"
    by (auto simp: and_then_Inr Let_def split: option.splits)
  have "map_get [] rest a = sort_slice rule_lt (map_get [] index a) \<and> check_overlap a (map_get [] rest a) = None"
    using "2.IH" [OF refl c r] .
  with c show ?case by (auto simp: o map_get_def)
qed (simp add: map_get_def)

definition ends_before :: "dustRule \<Rightarrow> dustRule \<Rightarrow> bool" where
  "ends_before a b \<longleftrightarrow> (case dr_To a of None \<Rightarrow> False | Some to \<Rightarrow> to \<le> dr_From b)"

lemma check_overlap_sorted:
  "check_overlap a rules = None \<Longrightarrow> \<forall>r \<in> set rules. rule_wf r \<Longrightarrow> sorted_wrt ends_before rules"
proof (induction a rules rule: check_overlap.induct)
  case (1 a prev cur rules)
  then obtain to where to: "dr_To prev = Some to" "to \<le> dr_From cur" and c: "check_overlap a (cur # rules) = None"
    by (auto split: if_splits option.splits)
  have s: "sorted_wrt ends_before (cur # rules)"
    using 1 to c by (simp split: if_splits)
  have e: "ends_before prev cur" and w: "rule_wf cur"
    using 1 to by (simp_all add: ends_before_def)
  have "ends_before prev r" if "ends_before cur r" for r
    using e w that by (auto simp: ends_before_def rule_wf_def split: option.splits)
  with s e show ?case by auto
qed simp_all

lemma one_active: "sorted_wrt ends_before rules \<Longrightarrow> length (filter (\<lambda>r. rule_active r at) rules) \<le> 1"
proof (induction rules)
  case (Cons r rules)
  show ?case
  proof (cases "rule_active r at")
    case True
    with Cons.prems have "\<not> rule_active q at" if "q \<in> set rules" for q
      using that by (force simp: ends_before_def rule_active_def split: option.splits)
    then show ?thesis by (simp add: filter_empty_conv)
  qed (use Cons in simp)
qed simp

lemma short_perm: "mset xs = mset ys \<Longrightarrow> length xs \<le> 1 \<Longrightarrow> xs = ys"
  by (cases xs; cases ys) auto

lemma rule_row_applies:
  "trim_space (dt_AssetKey rec) = trim_space (tr_AssetKey tr) \<Longrightarrow>
     rule_active (rule_of_row rec) (tr_BlockTime tr) \<longleftrightarrow> row_applies tr rec"
  by (simp add: rule_active_def rule_of_row_def row_applies_def)

lemma classifier_rows:
  assumes "dust_classifier_of recs = Inr f"
  obtains ordered where "f = classify_dust ordered"
    and "filter (\<lambda>r. rule_active r (tr_BlockTime tr)) (rev (map_get [] ordered (trim_space (tr_AssetKey tr))))
      = map rule_of_row (filter (row_applies tr) recs)"
    and "length (filter (row_applies tr) recs) \<le> 1"
proof -
  let ?a = "trim_space (tr_AssetKey tr)" and ?act = "\<lambda>r. rule_active r (tr_BlockTime tr)"
  obtain index ordered where i: "dust_index [] recs = Inr index" and fi: "finish_index index = Inr ordered"
    and f: "f = classify_dust ordered"
    using assms by (auto simp: dust_classifier_of_def and_then_Inr)
  have o: "map_get [] ordered ?a = sort_slice rule_lt (map rule_of_row (asset_rows ?a recs))"
    and c: "check_overlap ?a (map_get [] ordered ?a) = None"
    and w: "\<forall>r \<in> set (map_get [] ordered ?a). rule_wf r"
    using dust_index_Inr [OF i, of ?a] finish_index_Inr [OF fi, of ?a] by (auto simp: asset_rows_def)
  have len: "length (filter ?act (map_get [] ordered ?a)) \<le> 1"
    by (rule one_active [OF check_overlap_sorted [OF c w]])
  have "filter ?act (map rule_of_row (asset_rows ?a recs)) = map rule_of_row (filter (row_applies tr) recs)"
    by (induction recs) (auto simp: asset_rows_def rule_row_applies, auto simp: row_applies_def)
  moreover have "mset (filter ?act (rev (sort_slice rule_lt xs))) = mset (filter ?act xs)" for xs
    by (simp add: mset_filter)
  ultimately have m: "mset (filter ?act (rev (map_get [] ordered ?a))) = mset (map rule_of_row (filter (row_applies tr) recs))"
    unfolding o by metis
  have l: "length (filter ?act (rev (map_get [] ordered ?a))) \<le> 1" using len by (simp flip: rev_filter)
  have "length (filter (row_applies tr) recs) \<le> 1"
    using l mset_eq_length [OF m] by simp
  then show thesis using that f short_perm [OF m l] by blast
qed

section \<open>Properties\<close>

text \<open>C35. The dust classifier built from the threshold rows: for a transfer of a positive amount at most one row
  applies (its asset, and its window contains the block time), that row decides between dust and not
  dust, and without one the status is unknown; zero is dust, an unreadable amount unknown.\<close>

theorem dust_classifier_spec:
  assumes "dust_classifier_of recs = Inr f"
  shows "f tr = dust_spec recs tr \<and> length (filter (row_applies tr) recs) \<le> 1"
proof -
  obtain ordered where f: "f = classify_dust ordered"
    and a: "filter (\<lambda>r. rule_active r (tr_BlockTime tr)) (rev (map_get [] ordered (trim_space (tr_AssetKey tr))))
      = map rule_of_row (filter (row_applies tr) recs)"
    and l: "length (filter (row_applies tr) recs) \<le> 1"
    using classifier_rows [OF assms] by metis
  have "map_get [] ordered (trim_space (tr_AssetKey tr)) = [] \<Longrightarrow> filter (row_applies tr) recs = []"
    using a by simp
  then have "f tr = dust_spec recs tr"
    by (auto simp: f classify_dust_def dust_spec_def pick_rule_filter a Let_def rule_of_row_def
        split: option.splits list.splits)
  with l show ?thesis by simp
qed

text \<open>For a classified transfer the zero-or-dust gate is the classification: dust passes, not dust fails,
  unknown stays unknown, so that a missing threshold can never let a candidate through.\<close>

theorem classified_transfer_gate:
  "gateZeroOrDust (tr\<lparr> tr_DustStatus := classify_dust index tr \<rparr>) =
     (case classify_dust index tr of DustTrue \<Rightarrow> GatePass | DustFalse \<Rightarrow> GateFail | DustUnknown \<Rightarrow> GateUnknown)"
  by (rule dust_rules.classified_gate)

section \<open>Witnesses\<close>

definition sample_rows :: "DustThresholdRecord list" where
  "sample_rows =
     [\<lparr> dt_AssetKey = '' SOL'', dt_AmountRaw = ''2000'', dt_ActiveFrom = 500, dt_ActiveTo = None \<rparr>,
      \<lparr> dt_AssetKey = ''SOL'', dt_AmountRaw = ''1000'', dt_ActiveFrom = 100, dt_ActiveTo = Some 500 \<rparr>]"

lemma sample_rows_accepted: "\<exists>f. dust_classifier_of sample_rows = Inr f"
proof -
  have "(case dust_classifier_of sample_rows of Inr _ \<Rightarrow> True | Inl _ \<Rightarrow> False)" by code_simp
  then show ?thesis by (auto split: sum.splits)
qed

theorem dust_classifier_spec_witness:
  "\<exists>f. dust_classifier_of sample_rows = Inr f \<and> f (sample_transfer ''1500'' 300 DustUnknown) = DustFalse \<and>
     f (sample_transfer ''1500'' 700 DustUnknown) = DustTrue"
proof -
  obtain f where f: "dust_classifier_of sample_rows = Inr f" using sample_rows_accepted by blast
  moreover have "dust_spec sample_rows (sample_transfer ''1500'' 300 DustUnknown) = DustFalse"
    "dust_spec sample_rows (sample_transfer ''1500'' 700 DustUnknown) = DustTrue" by code_simp+
  ultimately show ?thesis using dust_classifier_spec [OF f] by metis
qed

end
