(* ===== verification/Storage.thy ===== *)
theory Storage
imports Dust Runs_Wallets
begin

text \<open>
  \<open>internal/storage/repository.go\<close>: the data and the operations the pipeline asks of its store. The
  operations of the repository interfaces are the fields of \<open>store\<close>, world-passing functions that may
  fail; \<open>Postgres\<close> gives the implementation.
\<close>

record WalletSyncProgress =
  sp_BaselineComplete :: bool
  sp_IncompleteWindow :: bool
  sp_UnknownGateReason :: string
  sp_TruncationReason :: string
  sp_TransactionsFetched :: int
  sp_TransactionsInserted :: int
  sp_TransactionsLinked :: int
  sp_TransactionsFailedNormalize :: int
  sp_CounterpartiesCreated :: int
  sp_CounterpartiesUpdated :: int
  sp_UnsupportedAssetCount :: int
  sp_UnknownGateBlockCount :: int
  sp_CandidateBlockCount :: int
  sp_PoisoningCandidatesInserted :: int

definition zero_progress :: WalletSyncProgress where
  "zero_progress =
     \<lparr> sp_BaselineComplete = False, sp_IncompleteWindow = False, sp_UnknownGateReason = [],
       sp_TruncationReason = [], sp_TransactionsFetched = 0, sp_TransactionsInserted = 0,
       sp_TransactionsLinked = 0, sp_TransactionsFailedNormalize = 0, sp_CounterpartiesCreated = 0,
       sp_CounterpartiesUpdated = 0, sp_UnsupportedAssetCount = 0, sp_UnknownGateBlockCount = 0,
       sp_CandidateBlockCount = 0, sp_PoisoningCandidatesInserted = 0 \<rparr>"

record CandidateRecord =
  cd_Signature :: string
  cd_TransferIndex :: int
  cd_SuspiciousCounterparty :: string
  cd_MatchedLegitCounterparty :: string
  cd_TokenMint :: string
  cd_AmountRaw :: string
  cd_BlockTime :: gotime
  cd_IsZeroValue :: bool
  cd_IsDust :: bool
  cd_IsNewCounterparty :: bool
  cd_IsInbound :: bool
  cd_LegitLastSeenAt :: gotime
  cd_RecencyDays :: int
  cd_RepeatInjectionCount :: int
  cd_IncompleteWindow :: bool
  cd_UnknownGateReason :: string
  cd_MatchRuleVersion :: string

type_synonym ('a, 'w) call = "'w \<Rightarrow> (go_error + 'a) \<times> 'w"

text \<open>\<open>UpsertNormalizedTransfers\<close> returns the numbers inserted and updated, \<open>UpsertCounterpartyEvent\<close>
  whether it created and whether it updated, \<open>AcquireWalletLock\<close> whether it acquired and the token.\<close>

record 'w store =
  st_CreateIngestionRun :: "gotime \<Rightarrow> (int, 'w) call"
  st_FinalizeIngestionRun :: "int \<Rightarrow> RunStatus \<Rightarrow> gotime \<Rightarrow> Counters \<Rightarrow> string \<Rightarrow> (unit, 'w) call"
  st_CreateWalletSyncRun :: "int \<Rightarrow> int \<Rightarrow> WalletSyncWindow \<Rightarrow> gotime \<Rightarrow> (int, 'w) call"
  st_UpdateWalletSyncProgress :: "int \<Rightarrow> WalletSyncProgress \<Rightarrow> (unit, 'w) call"
  st_FinalizeWalletSyncRun :: "int \<Rightarrow> WalletStatus \<Rightarrow> gotime \<Rightarrow> bool \<Rightarrow> string \<Rightarrow> string \<Rightarrow> string \<Rightarrow> string \<Rightarrow> (unit, 'w) call"
  st_UpsertNormalizedTransfers :: "NormalizedTransfer list \<Rightarrow> (int \<times> int, 'w) call"
  st_EnsureWallet :: "string \<Rightarrow> (int, 'w) call"
  st_UpdateWalletLastSyncedAt :: "int \<Rightarrow> gotime \<Rightarrow> (unit, 'w) call"
  st_LinkWalletTransfer :: "int \<Rightarrow> RelationType \<Rightarrow> NormalizedTransfer \<Rightarrow> (bool, 'w) call"
  st_UpsertCounterpartyEvent :: "Event \<Rightarrow> (bool \<times> bool, 'w) call"
  st_InsertPoisoningCandidates :: "int \<Rightarrow> int \<Rightarrow> CandidateRecord list \<Rightarrow> (int, 'w) call"
  st_ListDustThresholds :: "gotime \<Rightarrow> gotime \<Rightarrow> (DustThresholdRecord list, 'w) call"
  st_AcquireWalletLock :: "string \<Rightarrow> int \<Rightarrow> (bool \<times> string, 'w) call"
  st_ReleaseWalletLock :: "string \<Rightarrow> string \<Rightarrow> (unit, 'w) call"

section \<open>The lock contract\<close>

text \<open>What a worker relies on when it works under a wallet lock: a lease acquired excludes the others and
  survives everything they do, until it is released with its own token (or runs out, which ends
  \<open>held\<close>).\<close>

locale lock_service =
  fixes acquire :: "string \<Rightarrow> int \<Rightarrow> (bool \<times> string, 'w) call"
    and release :: "string \<Rightarrow> string \<Rightarrow> (unit, 'w) call"
    and held :: "'w \<Rightarrow> string \<Rightarrow> 'l \<Rightarrow> bool"
    and token :: "'l \<Rightarrow> string"
  assumes acquire_held: "acquire a n w = (Inr (True, t), w') \<Longrightarrow> \<exists>l. held w' a l \<and> token l = t"
    and acquire_blocked: "held w a l \<Longrightarrow> fst (acquire a n w) \<noteq> Inr (True, t)"
    and acquire_keeps: "held w a l \<Longrightarrow> held (snd (acquire b n w)) a l"
    and release_keeps: "held w a l \<Longrightarrow> (b, t) \<noteq> (a, token l) \<Longrightarrow> held (snd (release b t w)) a l"
    and release_frees: "release a t w = (Inr (), w') \<Longrightarrow> held w' a l \<Longrightarrow> token l \<noteq> t"
begin

text \<open>What other workers do to the locks.\<close>

definition others :: "(string \<times> int) + (string \<times> string) \<Rightarrow> 'w \<Rightarrow> 'w" where
  "others op w = (case op of Inl (b, n) \<Rightarrow> snd (acquire b n w) | Inr (b, t) \<Rightarrow> snd (release b t w))"

lemma lease_survives:
  "held w a l \<Longrightarrow> Inr (a, token l) \<notin> set ops \<Longrightarrow> held (foldl (\<lambda>w op. others op w) w ops) a l"
proof (induction ops arbitrary: w)
  case (Cons op ops)
  have "held (others op w) a l"
    using Cons.prems by (cases op) (auto simp: others_def intro: acquire_keeps release_keeps)
  with Cons show ?case by simp
qed simp

lemma lease_exclusive:
  "acquire a n w = (Inr (True, t), w1) \<Longrightarrow> Inr (a, t) \<notin> set ops \<Longrightarrow>
     fst (acquire a m (foldl (\<lambda>w op. others op w) w1 ops)) \<noteq> Inr (True, t')"
  using acquire_held lease_survives acquire_blocked by metis

end

end
