(* ===== verification/Postgres.thy ===== *)
theory Postgres
imports Storage
begin

text \<open>
  \<open>internal/storage/postgres_repository.go\<close> over the schema of \<open>db/migrations\<close>. The state is the
  tables, each an association list from its key (the columns of its UNIQUE constraint, or its id) to
  the rest of the row; a statement is a function on it that checks the schema's CHECK and foreign-key
  constraints. What the database driver can do besides is in the world \<open>Pg\<close>: whether the next call to
  it fails (with no effect), the clock, and the random source. A value the database stores as NULL is
  \<open>None\<close>; numeric columns keep the text they were given.
\<close>

section \<open>Tables\<close>

record IngestionRunRow =
  ir_status :: RunStatus
  ir_started_at :: gotime
  ir_completed_at :: "gotime option"
  ir_counters :: Counters
  ir_notes :: "string option"

record WalletSyncRunRow =
  ws_wallet_id :: int
  ws_ingestion_run_id :: int
  ws_status :: WalletStatus
  ws_started_at :: gotime
  ws_completed_at :: "gotime option"
  ws_window :: WalletSyncWindow
  ws_baseline_complete :: bool
  ws_incomplete_window :: bool
  ws_unknown_gate_reason :: "string option"
  ws_truncation_reason :: "string option"
  ws_transactions_fetched :: int
  ws_transactions_inserted :: int
  ws_transactions_linked :: int
  ws_transactions_failed_to_normalize :: int
  ws_counterparties_created :: int
  ws_counterparties_updated :: int
  ws_unsupported_asset_count :: int
  ws_unknown_gate_block_count :: int
  ws_candidate_block_count :: int
  ws_poisoning_candidates_inserted :: int
  ws_error_code :: "string option"
  ws_error_message :: "string option"
  ws_notes :: "string option"

record CandidateRow =
  pr_focal_wallet_id :: int
  pr_record :: CandidateRecord
  pr_unknown_gate_reason :: "string option"

record ThresholdRow =
  th_asset_key :: string
  th_threshold :: int
  th_active_from :: gotime
  th_active_to :: "gotime option"

record LockRow =
  lk_acquired_at :: gotime
  lk_acquired_until :: gotime
  lk_holder_token :: string

record ConfigOverrideRecord =
  ov_MaxWalletsPerRun :: "int option"
  ov_MaxTXPagesPerWallet :: "int option"
  ov_MaxTXPerWallet :: "int option"
  ov_MaxConcurrentWallets :: "int option"
  ov_WalletSyncTimeoutSeconds :: "int option"
  ov_RunTimeoutSeconds :: "int option"
  ov_MaxHeliusRetries :: "int option"
  ov_HeliusRequestDelayMS :: "int option"
  ov_BaselineLookbackDays :: "int option"
  ov_ScanWindowDays :: "int option"
  ov_LookalikeRecencyDays :: "int option"
  ov_LookalikePrefixMin :: "int option"
  ov_LookalikeSuffixMin :: "int option"
  ov_LookalikeSingleSideMin :: "int option"
  ov_MinInjectionCount :: "int option"
  ov_UpdatedAt :: "gotime option"

record ExportJobRow =
  ej_run_id :: int
  ej_status :: string
  ej_out_dir :: string
  ej_error_message :: "string option"
  ej_created_at :: gotime
  ej_started_at :: "gotime option"
  ej_completed_at :: "gotime option"

text \<open>\<open>transactions\<close> is keyed by signature and fingerprint and holds the id and the row, \<open>wallets\<close> by
  address with the id and \<open>last_synced_at\<close>, \<open>counterparties\<close> by wallet and address,
  \<open>poisoning_candidates\<close> by run, signature and index; \<open>app_config_overrides\<close> has at most one row.\<close>

record Db =
  db_next_id :: int
  db_ingestion_runs :: "(int \<times> IngestionRunRow) list"
  db_wallets :: "(string \<times> (int \<times> gotime option)) list"
  db_wallet_sync_runs :: "(int \<times> WalletSyncRunRow) list"
  db_transactions :: "((string \<times> string) \<times> (int \<times> NormalizedTransfer)) list"
  db_wallet_transactions :: "(int \<times> int \<times> RelationType) list"
  db_counterparties :: "((int \<times> string) \<times> Counterparty) list"
  db_poisoning_candidates :: "((int \<times> string \<times> int) \<times> CandidateRow) list"
  db_asset_thresholds :: "ThresholdRow list"
  db_wallet_locks :: "(string \<times> LockRow) list"
  db_config_override :: "ConfigOverrideRecord option"
  db_export_jobs :: "(int \<times> ExportJobRow) list"

record Pg =
  pg_db :: Db
  pg_now :: gotime
  pg_calls :: nat
  pg_fault :: "nat \<Rightarrow> go_error option"
  pg_draws :: nat
  pg_random :: "nat \<Rightarrow> go_error + string"

section \<open>Calls to the driver\<close>

text \<open>One call: it may fail on its own, or because the statement is refused.\<close>

definition driver_call :: "(gotime \<Rightarrow> Db \<Rightarrow> go_error + 'a \<times> Db) \<Rightarrow> ('a, Pg) call" where
  "driver_call stmt w =
     (let w1 = w\<lparr> pg_calls := Suc (pg_calls w) \<rparr> in
      case pg_fault w (pg_calls w) of
        Some e \<Rightarrow> (Inl e, w1)
      | None \<Rightarrow> (case stmt (pg_now w) (pg_db w) of
            Inl e \<Rightarrow> (Inl e, w1)
          | Inr (x, db) \<Rightarrow> (Inr x, w1\<lparr> pg_db := db \<rparr>)))"

text \<open>A call that changes nothing: begin, prepare, commit, reading the number of affected rows.\<close>

definition driver_noop :: "(unit, Pg) call" where
  "driver_noop w = driver_call (\<lambda>now db. Inr ((), db)) w"

text \<open>\<open>Exec\<close> and \<open>RowsAffected\<close>, with the three errors an update reports.\<close>

definition exec_update :: "string \<Rightarrow> (gotime \<Rightarrow> Db \<Rightarrow> go_error + int \<times> Db) \<Rightarrow> (unit, Pg) call" where
  "exec_update what stmt w =
     (case driver_call stmt w of
        (Inl e, w1) \<Rightarrow> (Inl (Wrapped (what @ '': '') e []), w1)
      | (Inr rows, w1) \<Rightarrow>
          (case driver_noop w1 of
             (Inl e, w2) \<Rightarrow> (Inl (Wrapped (what @ '' rows affected: '') e []), w2)
           | (Inr _, w2) \<Rightarrow>
               if rows = 0 then (Inl (Err (what @ '': not found'')), w2) else (Inr (), w2)))"

definition nullableText :: "string \<Rightarrow> string option" where
  "nullableText v = (if v = [] then None else Some v)"

definition check_violation :: go_error where
  "check_violation = Err ''violates check constraint''"

definition fk_violation :: go_error where
  "fk_violation = Err ''violates foreign key constraint''"

text \<open>The CHECK of migration 3: an incomplete window needs a reason that is not blank.
  \<open>BTRIM\<close> removes spaces only.\<close>

definition reason_check :: "bool \<Rightarrow> string option \<Rightarrow> bool" where
  "reason_check incomplete reason \<longleftrightarrow>
     \<not> incomplete \<or> (case reason of None \<Rightarrow> False | Some r \<Rightarrow> list_ex (\<lambda>c. c \<noteq> CHR '' '') r)"

definition wallet_ids :: "Db \<Rightarrow> int list" where
  "wallet_ids db = map (fst \<circ> snd) (db_wallets db)"

definition fresh :: "Db \<Rightarrow> int \<times> Db" where
  "fresh db = (db_next_id db, db\<lparr> db_next_id := db_next_id db + 1 \<rparr>)"

section \<open>Runs\<close>

definition CreateIngestionRun :: "gotime \<Rightarrow> (int, Pg) call" where
  "CreateIngestionRun startedAt w =
     (case driver_call (\<lambda>now db. case fresh db of (i, db1) \<Rightarrow>
          Inr (i, db1\<lparr> db_ingestion_runs := (i, \<lparr> ir_status = RunStatusRunning, ir_started_at = startedAt,
            ir_completed_at = None, ir_counters = zero_counters, ir_notes = None \<rparr>) # db_ingestion_runs db1 \<rparr>)) w of
        (Inl e, w1) \<Rightarrow> (Inl (Wrapped ''create ingestion run: '' e []), w1)
      | (Inr i, w1) \<Rightarrow> (Inr i, w1))"

definition FinalizeIngestionRun :: "int \<Rightarrow> RunStatus \<Rightarrow> gotime \<Rightarrow> Counters \<Rightarrow> string \<Rightarrow> (unit, Pg) call" where
  "FinalizeIngestionRun runID status completedAt counters notes =
     exec_update (''finalize ingestion run '' @ show_int runID) (\<lambda>now db.
       case map_of (db_ingestion_runs db) runID of
         None \<Rightarrow> Inr (0, db)
       | Some row \<Rightarrow> Inr (1, db\<lparr> db_ingestion_runs := map_set runID
           (row\<lparr> ir_status := status, ir_completed_at := Some completedAt,
              ir_counters := counters, ir_notes := nullableText notes \<rparr>) (db_ingestion_runs db) \<rparr>))"

definition CreateWalletSyncRun :: "int \<Rightarrow> int \<Rightarrow> WalletSyncWindow \<Rightarrow> gotime \<Rightarrow> (int, Pg) call" where
  "CreateWalletSyncRun runID walletID window startedAt w =
     (case driver_call (\<lambda>now db. case fresh db of (i, db1) \<Rightarrow>
          if walletID \<notin> set (wallet_ids db) \<or> runID \<notin> set (map_keys (db_ingestion_runs db)) then Inl fk_violation
          else Inr (i, db1\<lparr> db_wallet_sync_runs := (i,
            \<lparr> ws_wallet_id = walletID, ws_ingestion_run_id = runID, ws_status = WalletStatusRunning,
              ws_started_at = startedAt, ws_completed_at = None, ws_window = window,
              ws_baseline_complete = False, ws_incomplete_window = False, ws_unknown_gate_reason = None,
              ws_truncation_reason = None, ws_transactions_fetched = 0, ws_transactions_inserted = 0,
              ws_transactions_linked = 0, ws_transactions_failed_to_normalize = 0,
              ws_counterparties_created = 0, ws_counterparties_updated = 0, ws_unsupported_asset_count = 0,
              ws_unknown_gate_block_count = 0, ws_candidate_block_count = 0,
              ws_poisoning_candidates_inserted = 0, ws_error_code = None, ws_error_message = None,
              ws_notes = None \<rparr>) # db_wallet_sync_runs db1 \<rparr>)) w of
        (Inl e, w1) \<Rightarrow> (Inl (Wrapped (''create wallet sync run for wallet '' @ show_int walletID @ '': '') e []), w1)
      | (Inr i, w1) \<Rightarrow> (Inr i, w1))"

definition update_sync_run ::
  "int \<Rightarrow> (WalletSyncRunRow \<Rightarrow> WalletSyncRunRow) \<Rightarrow> gotime \<Rightarrow> Db \<Rightarrow> go_error + int \<times> Db" where
  "update_sync_run i f now db =
     (case map_of (db_wallet_sync_runs db) i of
        None \<Rightarrow> Inr (0, db)
      | Some row \<Rightarrow>
          if reason_check (ws_incomplete_window (f row)) (ws_unknown_gate_reason (f row))
          then Inr (1, db\<lparr> db_wallet_sync_runs := map_set i (f row) (db_wallet_sync_runs db) \<rparr>)
          else Inl check_violation)"

definition UpdateWalletSyncProgress :: "int \<Rightarrow> WalletSyncProgress \<Rightarrow> (unit, Pg) call" where
  "UpdateWalletSyncProgress walletSyncRunID progress =
     exec_update (''update wallet sync progress '' @ show_int walletSyncRunID)
       (update_sync_run walletSyncRunID (\<lambda>row. row
         \<lparr> ws_baseline_complete := sp_BaselineComplete progress,
           ws_incomplete_window := sp_IncompleteWindow progress,
           ws_unknown_gate_reason :=
             (if \<not> sp_IncompleteWindow progress then None else nullableText (sp_UnknownGateReason progress)),
           ws_truncation_reason := nullableText (sp_TruncationReason progress),
           ws_transactions_fetched := sp_TransactionsFetched progress,
           ws_transactions_inserted := sp_TransactionsInserted progress,
           ws_transactions_linked := sp_TransactionsLinked progress,
           ws_transactions_failed_to_normalize := sp_TransactionsFailedNormalize progress,
           ws_counterparties_created := sp_CounterpartiesCreated progress,
           ws_counterparties_updated := sp_CounterpartiesUpdated progress,
           ws_unsupported_asset_count := sp_UnsupportedAssetCount progress,
           ws_unknown_gate_block_count := sp_UnknownGateBlockCount progress,
           ws_candidate_block_count := sp_CandidateBlockCount progress,
           ws_poisoning_candidates_inserted := sp_PoisoningCandidatesInserted progress \<rparr>))"

definition FinalizeWalletSyncRun ::
  "int \<Rightarrow> WalletStatus \<Rightarrow> gotime \<Rightarrow> bool \<Rightarrow> string \<Rightarrow> string \<Rightarrow> string \<Rightarrow> string \<Rightarrow> (unit, Pg) call" where
  "FinalizeWalletSyncRun walletSyncRunID status completedAt incompleteWindow unknownGateReason errorCode errorMessage notes =
     exec_update (''finalize wallet sync run '' @ show_int walletSyncRunID)
       (update_sync_run walletSyncRunID (\<lambda>row. row
         \<lparr> ws_status := status,
           ws_completed_at := Some completedAt,
           ws_incomplete_window := incompleteWindow,
           ws_unknown_gate_reason := (if \<not> incompleteWindow then None else nullableText unknownGateReason),
           ws_error_code := nullableText errorCode,
           ws_error_message := nullableText errorMessage,
           ws_notes := nullableText notes \<rparr>))"

section \<open>Wallets\<close>

definition EnsureWallet :: "string \<Rightarrow> (int, Pg) call" where
  "EnsureWallet walletAddress w =
     (case driver_call (\<lambda>now db. case fresh db of (i, db1) \<Rightarrow>
          case map_of (db_wallets db) walletAddress of
            Some (j, _) \<Rightarrow> Inr (j, db1)
          | None \<Rightarrow> Inr (i, db1\<lparr> db_wallets := map_set walletAddress (i, None) (db_wallets db1) \<rparr>)) w of
        (Inl e, w1) \<Rightarrow> (Inl (Wrapped (''ensure wallet '' @ walletAddress @ '': '') e []), w1)
      | (Inr i, w1) \<Rightarrow> (Inr i, w1))"

text \<open>\<open>GREATEST(COALESCE(last_synced_at, to_timestamp(0)), $2)\<close>.\<close>

definition UpdateWalletLastSyncedAt :: "int \<Rightarrow> gotime \<Rightarrow> (unit, Pg) call" where
  "UpdateWalletLastSyncedAt walletID syncedAt =
     exec_update (''update wallet '' @ show_int walletID @ '' last_synced_at'') (\<lambda>now db.
       case filter (\<lambda>row. fst (snd row) = walletID) (db_wallets db) of
         [] \<Rightarrow> Inr (0, db)
       | (address, i, last_synced) # _ \<Rightarrow>
           Inr (1, db\<lparr> db_wallets := map_set address
             (i, Some (max (case last_synced of None \<Rightarrow> time_unix 0 | Some t \<Rightarrow> t) syncedAt)) (db_wallets db) \<rparr>))"

section \<open>Transfers\<close>

definition transfer_key :: "NormalizedTransfer \<Rightarrow> string \<times> string" where
  "transfer_key tr = (tr_Signature tr, tr_TransferFingerprint tr)"

definition upsert_transfer :: "NormalizedTransfer \<Rightarrow> gotime \<Rightarrow> Db \<Rightarrow> go_error + bool \<times> Db" where
  "upsert_transfer tr now db =
     (case fresh db of (i, db1) \<Rightarrow>
        case map_of (db_transactions db) (transfer_key tr) of
          None \<Rightarrow> Inr (True, db1\<lparr> db_transactions := map_set (transfer_key tr) (i, tr) (db_transactions db1) \<rparr>)
        | Some (j, _) \<Rightarrow>
            Inr (False, db1\<lparr> db_transactions := map_set (transfer_key tr) (j, tr) (db_transactions db1) \<rparr>))"

text \<open>\<open>tx.Rollback()\<close>: the tables as they were when the transaction began.\<close>

definition rollback :: "Pg \<Rightarrow> Pg \<Rightarrow> Pg" where
  "rollback w0 w = w\<lparr> pg_db := pg_db w0 \<rparr>"

fun upsert_rows :: "NormalizedTransfer list \<Rightarrow> int \<Rightarrow> int \<Rightarrow> (int \<times> int, Pg) call" where
  "upsert_rows [] inserted updated w = (Inr (inserted, updated), w)"
| "upsert_rows (tr # transfers) inserted updated w =
     (case driver_call (upsert_transfer tr) w of
        (Inl e, w1) \<Rightarrow> (Inl (Wrapped (''upsert transfer signature='' @ tr_Signature tr @ '' fingerprint='' @
                         tr_TransferFingerprint tr @ '': '') e []), w1)
      | (Inr wasInserted, w1) \<Rightarrow>
          if wasInserted then upsert_rows transfers (inserted + 1) updated w1
          else upsert_rows transfers inserted (updated + 1) w1)"

definition UpsertNormalizedTransfers :: "NormalizedTransfer list \<Rightarrow> (int \<times> int, Pg) call" where
  "UpsertNormalizedTransfers transfers w =
     (if transfers = [] then (Inr (0, 0), w)
      else case driver_noop w of
        (Inl e, w1) \<Rightarrow> (Inl (Wrapped ''begin upsert normalized transfers: '' e []), w1)
      | (Inr _, w1) \<Rightarrow>
      (case driver_noop w1 of
        (Inl e, w2) \<Rightarrow> (Inl (Wrapped ''prepare transfer upsert: '' e []), rollback w w2)
      | (Inr _, w2) \<Rightarrow>
      (case upsert_rows transfers 0 0 w2 of
        (Inl e, w3) \<Rightarrow> (Inl e, rollback w w3)
      | (Inr counts, w3) \<Rightarrow>
      (case driver_noop w3 of
        (Inl e, w4) \<Rightarrow> (Inl (Wrapped ''commit transfer upserts: '' e []), rollback w w4)
      | (Inr _, w4) \<Rightarrow> (Inr counts, w4)))))"

definition link_stmt :: "int \<Rightarrow> RelationType \<Rightarrow> string \<times> string \<Rightarrow> gotime \<Rightarrow> Db \<Rightarrow> go_error + (bool \<times> bool) \<times> Db" where
  "link_stmt walletID relationType key now db =
     (case map_of (db_transactions db) key of
        None \<Rightarrow> Inr ((False, False), db)
      | Some (i, _) \<Rightarrow>
          if (walletID, i, relationType) \<in> set (db_wallet_transactions db) then Inr ((True, False), db)
          else if walletID \<notin> set (wallet_ids db) then Inl fk_violation
          else Inr ((True, True),
            db\<lparr> db_wallet_transactions := (walletID, i, relationType) # db_wallet_transactions db \<rparr>))"

definition LinkWalletTransfer :: "int \<Rightarrow> RelationType \<Rightarrow> NormalizedTransfer \<Rightarrow> (bool, Pg) call" where
  "LinkWalletTransfer walletID relationType transfer w =
     (let what = ''link wallet transfer wallet='' @ show_int walletID @ '' signature='' @ tr_Signature transfer @
            '' fingerprint='' @ tr_TransferFingerprint transfer @ '': '' in
      case driver_call (link_stmt walletID relationType (transfer_key transfer)) w of
        (Inl e, w1) \<Rightarrow> (Inl (Wrapped what e []), w1)
      | (Inr (txExists, inserted), w1) \<Rightarrow>
          if \<not> txExists then (Inl (Err (what @ ''backing transaction not found'')), w1) else (Inr inserted, w1))"

section \<open>Counterparties\<close>

definition inserted_counterparty :: "int \<Rightarrow> gotime \<Rightarrow> Event \<Rightarrow> Counterparty" where
  "inserted_counterparty i now event =
     (let t = ev_OccurredAt event; inbound = (ev_RelationType event = RelationReceiver);
          outbound = (ev_RelationType event = RelationSender)
      in \<lparr> cp_ID = i, cp_FocalWalletID = ev_FocalWalletID event,
           cp_CounterpartyAddress = ev_CounterpartyAddress event,
           cp_FirstSeenAt = t, cp_LastSeenAt = t, cp_InteractionCount = 1,
           cp_FirstInboundAt = (if inbound then Some t else None),
           cp_LastInboundAt = (if inbound then Some t else None),
           cp_InboundCount = (if inbound then 1 else 0),
           cp_FirstOutboundAt = (if outbound then Some t else None),
           cp_LastOutboundAt = (if outbound then Some t else None),
           cp_OutboundCount = (if outbound then 1 else 0),
           cp_CreatedAt = now, cp_UpdatedAt = now \<rparr>)"

text \<open>The CASE expressions: \<open>pick\<close> is \<open>LEAST\<close> or \<open>GREATEST\<close>.\<close>

definition merge_at :: "(gotime \<Rightarrow> gotime \<Rightarrow> gotime) \<Rightarrow> gotime option \<Rightarrow> gotime option \<Rightarrow> gotime option" where
  "merge_at pick old new =
     (case new of None \<Rightarrow> old | Some t \<Rightarrow> (case old of None \<Rightarrow> new | Some u \<Rightarrow> Some (pick u t)))"

definition merged_counterparty :: "Counterparty \<Rightarrow> Counterparty \<Rightarrow> gotime \<Rightarrow> Counterparty" where
  "merged_counterparty old new now = old
     \<lparr> cp_FirstSeenAt := min (cp_FirstSeenAt old) (cp_FirstSeenAt new),
       cp_LastSeenAt := max (cp_LastSeenAt old) (cp_LastSeenAt new),
       cp_InteractionCount := cp_InteractionCount old + cp_InteractionCount new,
       cp_FirstInboundAt := merge_at min (cp_FirstInboundAt old) (cp_FirstInboundAt new),
       cp_LastInboundAt := merge_at max (cp_LastInboundAt old) (cp_LastInboundAt new),
       cp_InboundCount := cp_InboundCount old + cp_InboundCount new,
       cp_FirstOutboundAt := merge_at min (cp_FirstOutboundAt old) (cp_FirstOutboundAt new),
       cp_LastOutboundAt := merge_at max (cp_LastOutboundAt old) (cp_LastOutboundAt new),
       cp_OutboundCount := cp_OutboundCount old + cp_OutboundCount new,
       cp_UpdatedAt := now \<rparr>"

definition upsert_counterparty :: "Event \<Rightarrow> gotime \<Rightarrow> Db \<Rightarrow> go_error + bool \<times> Db" where
  "upsert_counterparty event now db =
     (let key = (ev_FocalWalletID event, ev_CounterpartyAddress event) in
      case fresh db of (i, db1) \<Rightarrow>
        case map_of (db_counterparties db) key of
          None \<Rightarrow>
            if ev_FocalWalletID event \<notin> set (wallet_ids db) then Inl fk_violation
            else Inr (True, db1\<lparr> db_counterparties :=
              map_set key (inserted_counterparty i now event) (db_counterparties db1) \<rparr>)
        | Some old \<Rightarrow> Inr (False, db1\<lparr> db_counterparties :=
              map_set key (merged_counterparty old (inserted_counterparty i now event) now) (db_counterparties db1) \<rparr>))"

definition UpsertCounterpartyEvent :: "Event \<Rightarrow> (bool \<times> bool, Pg) call" where
  "UpsertCounterpartyEvent event w =
     (if ev_FocalWalletID event = 0 then (Inl (Err ''counterparty event focal wallet id is required''), w)
      else if ev_CounterpartyAddress event = []
      then (Inl (Err ''counterparty event counterparty address is required''), w)
      else case driver_call (upsert_counterparty event) w of
          (Inl e, w1) \<Rightarrow> (Inl (Wrapped (''upsert counterparty event wallet='' @ show_int (ev_FocalWalletID event) @
                 '' counterparty='' @ ev_CounterpartyAddress event @ '': '') e []), w1)
        | (Inr wasInserted, w1) \<Rightarrow> (Inr (wasInserted, \<not> wasInserted), w1))"

section \<open>Candidates and thresholds\<close>

definition insert_candidate :: "int \<Rightarrow> int \<Rightarrow> CandidateRecord \<Rightarrow> gotime \<Rightarrow> Db \<Rightarrow> go_error + bool \<times> Db" where
  "insert_candidate walletSyncRunID focalWalletID c now db =
     (let key = (walletSyncRunID, cd_Signature c, cd_TransferIndex c);
          reason = (if \<not> cd_IncompleteWindow c then None else nullableText (cd_UnknownGateReason c))
      in if \<not> reason_check (cd_IncompleteWindow c) reason then Inl check_violation
         else if key \<in> set (map_keys (db_poisoning_candidates db)) then Inr (False, db)
         else if walletSyncRunID \<notin> set (map_keys (db_wallet_sync_runs db)) \<or> focalWalletID \<notin> set (wallet_ids db)
         then Inl fk_violation
         else Inr (True, db\<lparr> db_poisoning_candidates := map_set key
           \<lparr> pr_focal_wallet_id = focalWalletID, pr_record = c, pr_unknown_gate_reason = reason \<rparr>
           (db_poisoning_candidates db) \<rparr>))"

fun insert_candidate_rows :: "int \<Rightarrow> int \<Rightarrow> CandidateRecord list \<Rightarrow> int \<Rightarrow> (int, Pg) call" where
  "insert_candidate_rows run wallet [] inserted w = (Inr inserted, w)"
| "insert_candidate_rows run wallet (c # candidates) inserted w =
     (case driver_call (insert_candidate run wallet c) w of
        (Inl e, w1) \<Rightarrow> (Inl (Wrapped (''insert poisoning candidate signature='' @ cd_Signature c @
               '' transfer_index='' @ show_int (cd_TransferIndex c) @ '': '') e []), w1)
      | (Inr isNew, w1) \<Rightarrow>
          insert_candidate_rows run wallet candidates (if isNew then inserted + 1 else inserted) w1)"

definition InsertPoisoningCandidates :: "int \<Rightarrow> int \<Rightarrow> CandidateRecord list \<Rightarrow> (int, Pg) call" where
  "InsertPoisoningCandidates walletSyncRunID focalWalletID candidates w =
     (if candidates = [] then (Inr 0, w)
      else case driver_noop w of
        (Inl e, w1) \<Rightarrow> (Inl (Wrapped ''begin poisoning candidate insert: '' e []), w1)
      | (Inr _, w1) \<Rightarrow>
      (case driver_noop w1 of
        (Inl e, w2) \<Rightarrow> (Inl (Wrapped ''prepare poisoning candidate insert: '' e []), rollback w w2)
      | (Inr _, w2) \<Rightarrow>
      (case insert_candidate_rows walletSyncRunID focalWalletID candidates 0 w2 of
        (Inl e, w3) \<Rightarrow> (Inl e, rollback w w3)
      | (Inr inserted, w3) \<Rightarrow>
      (case driver_noop w3 of
        (Inl e, w4) \<Rightarrow> (Inl (Wrapped ''commit poisoning candidate inserts: '' e []), rollback w w4)
      | (Inr _, w4) \<Rightarrow> (Inr inserted, w4)))))"

text \<open>\<open>ORDER BY asset_key, active_from DESC\<close>.\<close>

definition threshold_lt :: "ThresholdRow \<Rightarrow> ThresholdRow \<Rightarrow> bool" where
  "threshold_lt a b \<longleftrightarrow> th_asset_key a < th_asset_key b \<or>
     th_asset_key a = th_asset_key b \<and> th_active_from b < th_active_from a"

definition threshold_record :: "ThresholdRow \<Rightarrow> DustThresholdRecord" where
  "threshold_record row = \<lparr> dt_AssetKey = th_asset_key row, dt_AmountRaw = show_int (th_threshold row),
     dt_ActiveFrom = th_active_from row, dt_ActiveTo = th_active_to row \<rparr>"

text \<open>Beside the query, scanning a row and the end of the iteration can fail.\<close>

fun scan_rows :: "ThresholdRow list \<Rightarrow> DustThresholdRecord list \<Rightarrow> (DustThresholdRecord list, Pg) call" where
  "scan_rows [] out w =
     (case driver_noop w of
        (Inl e, w1) \<Rightarrow> (Inl (Wrapped ''iterate dust thresholds: '' e []), w1)
      | (Inr _, w1) \<Rightarrow> (Inr out, w1))"
| "scan_rows (row # rows) out w =
     (case driver_noop w of
        (Inl e, w1) \<Rightarrow> (Inl (Wrapped ''scan dust threshold: '' e []), w1)
      | (Inr _, w1) \<Rightarrow> scan_rows rows (out @ [threshold_record row]) w1)"

definition ListDustThresholds :: "gotime \<Rightarrow> gotime \<Rightarrow> (DustThresholdRecord list, Pg) call" where
  "ListDustThresholds startInclusive endExclusive w =
     (case driver_call (\<lambda>now db. Inr (sort_slice threshold_lt (filter (\<lambda>row. th_active_from row < endExclusive \<and>
          (case th_active_to row of None \<Rightarrow> True | Some to \<Rightarrow> startInclusive < to)) (db_asset_thresholds db)), db)) w of
        (Inl e, w1) \<Rightarrow> (Inl (Wrapped ''list dust thresholds: '' e []), w1)
      | (Inr rows, w1) \<Rightarrow> scan_rows rows [] w1)"

section \<open>Locks\<close>

definition newHolderToken :: "(string, Pg) call" where
  "newHolderToken w =
     (let w1 = w\<lparr> pg_draws := Suc (pg_draws w) \<rparr> in
      case pg_random w (pg_draws w) of
        Inl e \<Rightarrow> (Inl e, w1)
      | Inr hex \<Rightarrow> (Inr (''rnd:'' @ hex), w1))"

definition acquire_stmt :: "string \<Rightarrow> int \<Rightarrow> string \<Rightarrow> gotime \<Rightarrow> Db \<Rightarrow> go_error + int \<times> Db" where
  "acquire_stmt walletAddress ttlSeconds holder now db =
     (let row = \<lparr> lk_acquired_at = now, lk_acquired_until = now + ttlSeconds * nanos_per_second,
                  lk_holder_token = holder \<rparr>;
          taken = db\<lparr> db_wallet_locks := map_set walletAddress row (db_wallet_locks db) \<rparr>
      in case map_of (db_wallet_locks db) walletAddress of
           None \<Rightarrow> Inr (1, taken)
         | Some old \<Rightarrow> if lk_acquired_until old \<le> now then Inr (1, taken) else Inr (0, db))"

definition AcquireWalletLock :: "string \<Rightarrow> int \<Rightarrow> (bool \<times> string, Pg) call" where
  "AcquireWalletLock walletAddress ttlSeconds w =
     (if walletAddress = [] then (Inl (Err ''wallet address is required''), w)
      else if ttlSeconds < 1 then (Inl (Err ''ttlSeconds must be >= 1''), w)
      else case newHolderToken w of
        (Inl e, w1) \<Rightarrow> (Inl (Wrapped ''generate holder token: '' e []), w1)
      | (Inr holder, w1) \<Rightarrow>
      (case driver_call (acquire_stmt walletAddress ttlSeconds holder) w1 of
        (Inl e, w2) \<Rightarrow> (Inl (Wrapped (''acquire wallet lock '' @ walletAddress @ '': '') e []), w2)
      | (Inr rows, w2) \<Rightarrow>
      (case driver_noop w2 of
        (Inl e, w3) \<Rightarrow> (Inl (Wrapped (''acquire wallet lock '' @ walletAddress @ '' rows affected: '') e []), w3)
      | (Inr _, w3) \<Rightarrow> if rows = 0 then (Inr (False, []), w3) else (Inr (True, holder), w3))))"

definition release_stmt :: "string \<Rightarrow> string \<Rightarrow> gotime \<Rightarrow> Db \<Rightarrow> go_error + unit \<times> Db" where
  "release_stmt walletAddress holderToken now db =
     Inr ((), db\<lparr> db_wallet_locks := filter (\<lambda>(a, row). \<not> (a = walletAddress \<and> lk_holder_token row = holderToken))
       (db_wallet_locks db) \<rparr>)"

definition ReleaseWalletLock :: "string \<Rightarrow> string \<Rightarrow> (unit, Pg) call" where
  "ReleaseWalletLock walletAddress holderToken w =
     (if walletAddress = [] then (Inl (Err ''wallet address is required''), w)
      else if holderToken = [] then (Inl (Err ''holder token is required''), w)
      else case driver_call (release_stmt walletAddress holderToken) w of
          (Inl e, w1) \<Rightarrow> (Inl (Wrapped (''release wallet lock '' @ walletAddress @ '': '') e []), w1)
        | (Inr _, w1) \<Rightarrow> (Inr (), w1))"

section \<open>The store\<close>

definition PostgresStore :: "Pg store" where
  "PostgresStore =
     \<lparr> st_CreateIngestionRun = CreateIngestionRun,
       st_FinalizeIngestionRun = FinalizeIngestionRun,
       st_CreateWalletSyncRun = CreateWalletSyncRun,
       st_UpdateWalletSyncProgress = UpdateWalletSyncProgress,
       st_FinalizeWalletSyncRun = FinalizeWalletSyncRun,
       st_UpsertNormalizedTransfers = UpsertNormalizedTransfers,
       st_EnsureWallet = EnsureWallet,
       st_UpdateWalletLastSyncedAt = UpdateWalletLastSyncedAt,
       st_LinkWalletTransfer = LinkWalletTransfer,
       st_UpsertCounterpartyEvent = UpsertCounterpartyEvent,
       st_InsertPoisoningCandidates = InsertPoisoningCandidates,
       st_ListDustThresholds = ListDustThresholds,
       st_AcquireWalletLock = AcquireWalletLock,
       st_ReleaseWalletLock = ReleaseWalletLock \<rparr>"

end
