(* ===== verification/Export_Data.thy ===== *)
theory Export_Data
imports Postgres
begin

text \<open>
  \<open>internal/storage/export_repository.go\<close>: the queries behind the dataset exports, over the tables of \<open>Postgres\<close>.
  What depends on the database's configuration is in \<open>sql_text\<close>: the order its collation gives to text, how it
  prints the truncation rate, and how a time of its session's zone prints in JSON.
\<close>

section \<open>Records\<close>

record ExportFilter =
  ef_RunID :: "int option"
  ef_StartedAtFrom :: "gotime option"
  ef_StartedAtTo :: "gotime option"

record IngestionRunExportRecord =
  xi_ID :: int
  xi_Status :: string
  xi_StartedAt :: gotime
  xi_CompletedAt :: "gotime option"
  xi_WalletsRequested :: int
  xi_WalletsProcessed :: int
  xi_WalletsFailed :: int
  xi_WalletsSkipped :: int
  xi_TruncationWalletCount :: int
  xi_TruncationWalletRate :: string
  xi_TransactionsFetched :: int
  xi_TransactionsInserted :: int
  xi_TransactionsLinked :: int
  xi_TransactionsFailedNormalize :: int
  xi_OwnerUnresolvedCount :: int
  xi_DecimalsUnresolvedCount :: int
  xi_CounterpartiesCreated :: int
  xi_CounterpartiesUpdated :: int
  xi_PoisoningCandidatesInserted :: int
  xi_RetryExhaustedCount :: int
  xi_Notes :: string

record WalletSyncRunExportRecord =
  xw_WalletSyncRunID :: int
  xw_IngestionRunID :: int
  xw_FocalWallet :: string
  xw_Status :: string
  xw_StartedAt :: gotime
  xw_CompletedAt :: "gotime option"
  xw_BaselineStartAt :: gotime
  xw_BaselineEndAt :: gotime
  xw_ScanStartAt :: gotime
  xw_ScanEndAt :: gotime
  xw_BaselineComplete :: bool
  xw_IncompleteWindow :: bool
  xw_UnknownGateReason :: string
  xw_TruncationReason :: string
  xw_TransactionsFetched :: int
  xw_TransactionsInserted :: int
  xw_TransactionsLinked :: int
  xw_TransactionsFailedNormalize :: int
  xw_CounterpartiesCreated :: int
  xw_CounterpartiesUpdated :: int
  xw_PoisoningCandidatesInserted :: int
  xw_ErrorCode :: string
  xw_ErrorMessage :: string
  xw_Notes :: string

record PoisoningCandidateExportRecord =
  xc_IngestionRunID :: int
  xc_WalletSyncRunID :: int
  xc_FocalWallet :: string
  xc_Signature :: string
  xc_TransferIndex :: int
  xc_SuspiciousCounterparty :: string
  xc_MatchedLegitCounterparty :: string
  xc_TokenMint :: string
  xc_AmountRaw :: string
  xc_BlockTime :: gotime
  xc_IsZeroValue :: bool
  xc_IsDust :: bool
  xc_IsNewCounterparty :: bool
  xc_IsInbound :: bool
  xc_LegitLastSeenAt :: gotime
  xc_RecencyDays :: int
  xc_RepeatInjectionCount :: int
  xc_IncompleteWindow :: bool
  xc_UnknownGateReason :: string
  xc_MatchRuleVersion :: string

record CandidateExplanationExportRecord =
  xe_IngestionRunID :: int
  xe_WalletSyncRunID :: int
  xe_FocalWallet :: string
  xe_Signature :: string
  xe_TransferIndex :: int
  xe_BlockTime :: gotime
  xe_SuspiciousCounterparty :: string
  xe_MatchedLegitCounterparty :: string
  xe_RelationType :: string
  xe_AssetType :: string
  xe_NormalizationStatus :: string
  xe_PoisoningEligible :: bool
  xe_SourceOwner :: string
  xe_DestinationOwner :: string
  xe_FromTokenAccount :: string
  xe_ToTokenAccount :: string
  xe_TokenMint :: string
  xe_AmountRaw :: string
  xe_DustStatus :: string
  xe_IsDust :: bool
  xe_IsZeroValue :: bool
  xe_IsInbound :: bool
  xe_IsNewCounterparty :: bool
  xe_RecencyDays :: int
  xe_RepeatInjectionCount :: int
  xe_BaselineStartAt :: gotime
  xe_BaselineEndAt :: gotime
  xe_ScanStartAt :: gotime
  xe_ScanEndAt :: gotime
  xe_BaselineComplete :: bool
  xe_IncompleteWindow :: bool
  xe_UnknownGateReason :: string
  xe_MatchRuleVersion :: string

record WalletInspectionSummaryExportRecord =
  xs_IngestionRunID :: int
  xs_WalletSyncRunID :: int
  xs_FocalWallet :: string
  xs_CandidateCount :: int
  xs_UnknownGateBlockCount :: int
  xs_IncompleteWindow :: bool
  xs_UnknownGateReason :: string
  xs_TruncationReason :: string
  xs_BaselineComplete :: bool
  xs_BaselineStartAt :: gotime
  xs_BaselineEndAt :: gotime
  xs_ScanStartAt :: gotime
  xs_ScanEndAt :: gotime
  xs_TransactionsFetched :: int
  xs_PoisoningCandidatesSeen :: int

record sql_text =
  sq_less :: "string \<Rightarrow> string \<Rightarrow> bool"
  sq_numeric :: "rat \<Rightarrow> string"
  sq_time :: "gotime \<Rightarrow> string"

section \<open>Columns as text\<close>

primrec run_status_str :: "RunStatus \<Rightarrow> string" where
  "run_status_str RunStatusRunning = ''running''"
| "run_status_str RunStatusSucceeded = ''succeeded''"
| "run_status_str RunStatusPartiallySucceeded = ''partially_succeeded''"
| "run_status_str RunStatusFailed = ''failed''"
| "run_status_str RunStatusTimedOut = ''timed_out''"
| "run_status_str RunStatusCancelled = ''cancelled''"

primrec wallet_status_str :: "WalletStatus \<Rightarrow> string" where
  "wallet_status_str WalletStatusNone = []"
| "wallet_status_str WalletStatusQueued = ''queued''"
| "wallet_status_str WalletStatusRunning = ''running''"
| "wallet_status_str WalletStatusSucceeded = ''succeeded''"
| "wallet_status_str WalletStatusPartial = ''partial''"
| "wallet_status_str WalletStatusFailed = ''failed''"
| "wallet_status_str WalletStatusRateLimited = ''rate_limited''"
| "wallet_status_str WalletStatusTimedOut = ''timed_out''"
| "wallet_status_str WalletStatusSkippedInvalid = ''skipped_invalid''"
| "wallet_status_str WalletStatusSkippedBudget = ''skipped_budget''"

primrec normalization_status_str :: "NormalizationStatus \<Rightarrow> string" where
  "normalization_status_str NormalizationResolved = ''resolved''"
| "normalization_status_str NormalizationUnresolvedOwner = ''unresolved_owner''"
| "normalization_status_str NormalizationUnsupportedAsset = ''unsupported_asset''"
| "normalization_status_str NormalizationFailed = ''failed''"

primrec dust_status_str :: "DustStatus \<Rightarrow> string" where
  "dust_status_str DustTrue = ''true''"
| "dust_status_str DustFalse = ''false''"
| "dust_status_str DustUnknown = ''unknown''"

primrec relation_str :: "RelationType \<Rightarrow> string" where
  "relation_str RelationSender = ''sender''"
| "relation_str RelationReceiver = ''receiver''"

definition coalesce_text :: "string option \<Rightarrow> string" where
  "coalesce_text v = (case v of None \<Rightarrow> [] | Some s \<Rightarrow> s)"

text \<open>\<open>BTRIM\<close> removes spaces only.\<close>

definition btrim :: "string \<Rightarrow> string" where
  "btrim s = rev (dropWhile (\<lambda>c. c = CHR '' '') (rev (dropWhile (\<lambda>c. c = CHR '' '') s)))"

text \<open>\<open>amount_raw::TEXT\<close>: the digits of the number that was stored.\<close>

definition numeric_text :: "string \<Rightarrow> string" where
  "numeric_text s = (case parse_big s of None \<Rightarrow> s | Some i \<Rightarrow> show_int i)"

section \<open>Queries\<close>

text \<open>A query whose rows are read one by one: it, any row and the end of the iteration can fail.\<close>

fun scan_records :: "string \<Rightarrow> string \<Rightarrow> 'e list \<Rightarrow> 'e list \<Rightarrow> ('e list, Pg) call" where
  "scan_records scan iterate [] out w =
     (case driver_noop w of
        (Inl e, w1) \<Rightarrow> (Inl (Wrapped (iterate @ '': '') e []), w1)
      | (Inr _, w1) \<Rightarrow> (Inr out, w1))"
| "scan_records scan iterate (row # rows) out w =
     (case driver_noop w of
        (Inl e, w1) \<Rightarrow> (Inl (Wrapped (scan @ '': '') e []), w1)
      | (Inr _, w1) \<Rightarrow> scan_records scan iterate rows (out @ [row]) w1)"

definition list_query :: "string \<Rightarrow> string \<Rightarrow> string \<Rightarrow> (Db \<Rightarrow> 'e list) \<Rightarrow> ('e list, Pg) call" where
  "list_query what scan iterate select w =
     (case driver_call (\<lambda>now db. Inr (select db, db)) w of
        (Inl e, w1) \<Rightarrow> (Inl (Wrapped (what @ '': '') e []), w1)
      | (Inr rows, w1) \<Rightarrow> scan_records scan iterate rows [] w1)"

datatype export_clause = RunIdIs int | StartedAtLeast gotime | StartedBefore gotime

primrec clause_holds :: "export_clause \<Rightarrow> int \<Rightarrow> IngestionRunRow \<Rightarrow> bool" where
  "clause_holds (RunIdIs i) runID run \<longleftrightarrow> runID = i"
| "clause_holds (StartedAtLeast t) runID run \<longleftrightarrow> t \<le> ir_started_at run"
| "clause_holds (StartedBefore t) runID run \<longleftrightarrow> ir_started_at run < t"

definition buildExportFilterWhere :: "ExportFilter \<Rightarrow> go_error + export_clause list" where
  "buildExportFilterWhere flt =
     (if ef_RunID flt \<noteq> None \<and> (ef_StartedAtFrom flt \<noteq> None \<or> ef_StartedAtTo flt \<noteq> None)
      then Inl (Err ''export filter: run_id cannot be combined with started_at range'')
      else Inr
        ((case ef_RunID flt of None \<Rightarrow> [] | Some i \<Rightarrow> [RunIdIs i]) @
         (case ef_StartedAtFrom flt of None \<Rightarrow> [] | Some t \<Rightarrow> [StartedAtLeast t]) @
         (case ef_StartedAtTo flt of None \<Rightarrow> [] | Some t \<Rightarrow> [StartedBefore t])))"

definition run_selected :: "export_clause list \<Rightarrow> int \<Rightarrow> IngestionRunRow \<Rightarrow> bool" where
  "run_selected clauses runID run \<longleftrightarrow> list_all (\<lambda>c. clause_holds c runID run) clauses"

definition export_query ::
  "string \<Rightarrow> string \<Rightarrow> string \<Rightarrow> ExportFilter \<Rightarrow> (export_clause list \<Rightarrow> Db \<Rightarrow> 'e list) \<Rightarrow> ('e list, Pg) call" where
  "export_query what scan iterate flt select w =
     (case buildExportFilterWhere flt of
        Inl e \<Rightarrow> (Inl e, w)
      | Inr clauses \<Rightarrow> list_query what scan iterate (select clauses) w)"

section \<open>Runs\<close>

definition ingestion_record :: "sql_text \<Rightarrow> int \<Rightarrow> IngestionRunRow \<Rightarrow> IngestionRunExportRecord" where
  "ingestion_record sq i row =
     \<lparr> xi_ID = i, xi_Status = run_status_str (ir_status row), xi_StartedAt = ir_started_at row,
       xi_CompletedAt = ir_completed_at row, xi_WalletsRequested = c_WalletsRequested (ir_counters row),
       xi_WalletsProcessed = c_WalletsProcessed (ir_counters row),
       xi_WalletsFailed = c_WalletsFailed (ir_counters row),
       xi_WalletsSkipped = c_WalletsSkipped (ir_counters row),
       xi_TruncationWalletCount = c_TruncationWalletCount (ir_counters row),
       xi_TruncationWalletRate = sq_numeric sq (c_TruncationWalletRate (ir_counters row)),
       xi_TransactionsFetched = c_TransactionsFetched (ir_counters row),
       xi_TransactionsInserted = c_TransactionsInserted (ir_counters row),
       xi_TransactionsLinked = c_TransactionsLinked (ir_counters row),
       xi_TransactionsFailedNormalize = c_TransactionsFailedNormalize (ir_counters row),
       xi_OwnerUnresolvedCount = c_OwnerUnresolvedCount (ir_counters row),
       xi_DecimalsUnresolvedCount = c_DecimalsUnresolvedCount (ir_counters row),
       xi_CounterpartiesCreated = c_CounterpartiesCreated (ir_counters row),
       xi_CounterpartiesUpdated = c_CounterpartiesUpdated (ir_counters row),
       xi_PoisoningCandidatesInserted = c_PoisoningCandidatesInserted (ir_counters row),
       xi_RetryExhaustedCount = c_RetryExhaustedCount (ir_counters row), xi_Notes = coalesce_text (ir_notes row) \<rparr>"

definition ingestion_rows :: "sql_text \<Rightarrow> export_clause list \<Rightarrow> Db \<Rightarrow> IngestionRunExportRecord list" where
  "ingestion_rows sq clauses db =
     sort_slice (\<lambda>a b. xi_ID a < xi_ID b)
       [ingestion_record sq i row. (i, row) \<leftarrow> db_ingestion_runs db, run_selected clauses i row]"

definition ListIngestionRunsForExport :: "sql_text \<Rightarrow> ExportFilter \<Rightarrow> (IngestionRunExportRecord list, Pg) call" where
  "ListIngestionRunsForExport sq flt =
     export_query ''list ingestion runs for export'' ''scan ingestion export row'' ''iterate ingestion export rows''
       flt (ingestion_rows sq)"

text \<open>\<open>wallet_sync_runs\<close> joined with its wallet and its run, where the run is selected.\<close>

definition selected_sync_runs :: "export_clause list \<Rightarrow> Db \<Rightarrow> (int \<times> WalletSyncRunRow \<times> string) list" where
  "selected_sync_runs clauses db =
     [(i, row, address).
        (i, row) \<leftarrow> db_wallet_sync_runs db,
        (address, walletID, synced) \<leftarrow> db_wallets db, walletID = ws_wallet_id row,
        (runID, run) \<leftarrow> db_ingestion_runs db, runID = ws_ingestion_run_id row \<and> run_selected clauses runID run]"

definition wallet_sync_record :: "int \<Rightarrow> WalletSyncRunRow \<Rightarrow> string \<Rightarrow> WalletSyncRunExportRecord" where
  "wallet_sync_record i row address =
     \<lparr> xw_WalletSyncRunID = i, xw_IngestionRunID = ws_ingestion_run_id row, xw_FocalWallet = address,
       xw_Status = wallet_status_str (ws_status row), xw_StartedAt = ws_started_at row,
       xw_CompletedAt = ws_completed_at row, xw_BaselineStartAt = win_BaselineStart (ws_window row),
       xw_BaselineEndAt = win_BaselineEnd (ws_window row), xw_ScanStartAt = win_ScanStart (ws_window row),
       xw_ScanEndAt = win_ScanEnd (ws_window row), xw_BaselineComplete = ws_baseline_complete row,
       xw_IncompleteWindow = ws_incomplete_window row,
       xw_UnknownGateReason = coalesce_text (ws_unknown_gate_reason row),
       xw_TruncationReason = coalesce_text (ws_truncation_reason row),
       xw_TransactionsFetched = ws_transactions_fetched row,
       xw_TransactionsInserted = ws_transactions_inserted row,
       xw_TransactionsLinked = ws_transactions_linked row,
       xw_TransactionsFailedNormalize = ws_transactions_failed_to_normalize row,
       xw_CounterpartiesCreated = ws_counterparties_created row,
       xw_CounterpartiesUpdated = ws_counterparties_updated row,
       xw_PoisoningCandidatesInserted = ws_poisoning_candidates_inserted row,
       xw_ErrorCode = coalesce_text (ws_error_code row),
       xw_ErrorMessage = coalesce_text (ws_error_message row), xw_Notes = coalesce_text (ws_notes row) \<rparr>"

definition wallet_sync_order :: "(string \<Rightarrow> string \<Rightarrow> bool) \<Rightarrow> WalletSyncRunExportRecord \<Rightarrow> WalletSyncRunExportRecord \<Rightarrow> bool" where
  "wallet_sync_order lt a b \<longleftrightarrow>
     lt (xw_FocalWallet a) (xw_FocalWallet b) \<or>
     \<not> lt (xw_FocalWallet b) (xw_FocalWallet a) \<and>
       (xw_ScanStartAt a < xw_ScanStartAt b \<or>
        xw_ScanStartAt a = xw_ScanStartAt b \<and> xw_WalletSyncRunID a < xw_WalletSyncRunID b)"

definition wallet_sync_rows :: "sql_text \<Rightarrow> export_clause list \<Rightarrow> Db \<Rightarrow> WalletSyncRunExportRecord list" where
  "wallet_sync_rows sq clauses db =
     sort_slice (wallet_sync_order (sq_less sq))
       (map (\<lambda>(i, row, address). wallet_sync_record i row address) (selected_sync_runs clauses db))"

definition ListWalletSyncRunsForExport :: "sql_text \<Rightarrow> ExportFilter \<Rightarrow> (WalletSyncRunExportRecord list, Pg) call" where
  "ListWalletSyncRunsForExport sq flt =
     export_query ''list wallet sync runs for export'' ''scan wallet sync export row'' ''iterate wallet sync export rows''
       flt (wallet_sync_rows sq)"

section \<open>Candidates\<close>

text \<open>\<open>poisoning_candidates\<close> joined with its wallet run, its focal wallet and its run.\<close>

definition selected_candidates ::
  "export_clause list \<Rightarrow> Db \<Rightarrow> (int \<times> WalletSyncRunRow \<times> string \<times> CandidateRow) list" where
  "selected_candidates clauses db =
     [(i, row, address, c).
        ((i, key), c) \<leftarrow> db_poisoning_candidates db,
        (j, row) \<leftarrow> db_wallet_sync_runs db, j = i,
        (address, walletID, synced) \<leftarrow> db_wallets db, walletID = pr_focal_wallet_id c,
        (runID, run) \<leftarrow> db_ingestion_runs db, runID = ws_ingestion_run_id row \<and> run_selected clauses runID run]"

definition candidate_export_record ::
  "int \<Rightarrow> WalletSyncRunRow \<Rightarrow> string \<Rightarrow> CandidateRow \<Rightarrow> PoisoningCandidateExportRecord" where
  "candidate_export_record i row address c =
     \<lparr> xc_IngestionRunID = ws_ingestion_run_id row, xc_WalletSyncRunID = i, xc_FocalWallet = address,
       xc_Signature = cd_Signature (pr_record c), xc_TransferIndex = cd_TransferIndex (pr_record c),
       xc_SuspiciousCounterparty = cd_SuspiciousCounterparty (pr_record c),
       xc_MatchedLegitCounterparty = cd_MatchedLegitCounterparty (pr_record c),
       xc_TokenMint = cd_TokenMint (pr_record c), xc_AmountRaw = numeric_text (cd_AmountRaw (pr_record c)),
       xc_BlockTime = cd_BlockTime (pr_record c), xc_IsZeroValue = cd_IsZeroValue (pr_record c),
       xc_IsDust = cd_IsDust (pr_record c), xc_IsNewCounterparty = cd_IsNewCounterparty (pr_record c),
       xc_IsInbound = cd_IsInbound (pr_record c), xc_LegitLastSeenAt = cd_LegitLastSeenAt (pr_record c),
       xc_RecencyDays = cd_RecencyDays (pr_record c),
       xc_RepeatInjectionCount = cd_RepeatInjectionCount (pr_record c),
       xc_IncompleteWindow = cd_IncompleteWindow (pr_record c),
       xc_UnknownGateReason = coalesce_text (pr_unknown_gate_reason c),
       xc_MatchRuleVersion = cd_MatchRuleVersion (pr_record c) \<rparr>"

definition candidate_order ::
  "(string \<Rightarrow> string \<Rightarrow> bool) \<Rightarrow> PoisoningCandidateExportRecord \<Rightarrow> PoisoningCandidateExportRecord \<Rightarrow> bool" where
  "candidate_order lt a b \<longleftrightarrow>
     lt (xc_FocalWallet a) (xc_FocalWallet b) \<or>
     \<not> lt (xc_FocalWallet b) (xc_FocalWallet a) \<and>
       (xc_BlockTime a < xc_BlockTime b \<or> xc_BlockTime a = xc_BlockTime b \<and>
         (lt (xc_Signature a) (xc_Signature b) \<or>
          \<not> lt (xc_Signature b) (xc_Signature a) \<and> xc_TransferIndex a < xc_TransferIndex b))"

definition candidate_results :: "export_clause list \<Rightarrow> Db \<Rightarrow> PoisoningCandidateExportRecord list" where
  "candidate_results clauses db =
     map (\<lambda>(i, row, address, c). candidate_export_record i row address c) (selected_candidates clauses db)"

definition candidate_rows :: "sql_text \<Rightarrow> export_clause list \<Rightarrow> Db \<Rightarrow> PoisoningCandidateExportRecord list" where
  "candidate_rows sq clauses db = sort_slice (candidate_order (sq_less sq)) (candidate_results clauses db)"

definition ListPoisoningCandidatesForExport :: "sql_text \<Rightarrow> ExportFilter \<Rightarrow> (PoisoningCandidateExportRecord list, Pg) call" where
  "ListPoisoningCandidatesForExport sq flt =
     export_query ''list poisoning candidates for export'' ''scan poisoning candidate export row''
       ''iterate poisoning candidate export rows'' flt (candidate_rows sq)"

text \<open>The transfers a candidate is joined with: of its signature and index, with the links of the wallet that was
  scanned.\<close>

definition explaining_transfers :: "Db \<Rightarrow> WalletSyncRunRow \<Rightarrow> CandidateRow \<Rightarrow> (NormalizedTransfer \<times> RelationType) list" where
  "explaining_transfers db row c =
     [(tr, rel).
        (key, txID, tr) \<leftarrow> db_transactions db,
        tr_Signature tr = cd_Signature (pr_record c) \<and> tr_TransferIndex tr = cd_TransferIndex (pr_record c),
        (walletID, linkedID, rel) \<leftarrow> db_wallet_transactions db, linkedID = txID \<and> walletID = ws_wallet_id row]"

definition explanation_record ::
  "int \<Rightarrow> WalletSyncRunRow \<Rightarrow> string \<Rightarrow> CandidateRow \<Rightarrow> NormalizedTransfer \<Rightarrow> RelationType
     \<Rightarrow> CandidateExplanationExportRecord" where
  "explanation_record i row address c tr rel =
     \<lparr> xe_IngestionRunID = ws_ingestion_run_id row, xe_WalletSyncRunID = i, xe_FocalWallet = address,
       xe_Signature = cd_Signature (pr_record c), xe_TransferIndex = cd_TransferIndex (pr_record c),
       xe_BlockTime = cd_BlockTime (pr_record c),
       xe_SuspiciousCounterparty = cd_SuspiciousCounterparty (pr_record c),
       xe_MatchedLegitCounterparty = cd_MatchedLegitCounterparty (pr_record c),
       xe_RelationType = relation_str rel, xe_AssetType = asset_type_str (tr_AssetType tr),
       xe_NormalizationStatus = normalization_status_str (tr_NormalizationStatus tr),
       xe_PoisoningEligible = tr_PoisoningEligible tr, xe_SourceOwner = tr_SourceOwnerAddress tr,
       xe_DestinationOwner = tr_DestinationOwnerAddress tr, xe_FromTokenAccount = tr_SourceTokenAccount tr,
       xe_ToTokenAccount = tr_DestinationTokenAccount tr, xe_TokenMint = tr_TokenMint tr,
       xe_AmountRaw = numeric_text (tr_AmountRaw tr), xe_DustStatus = dust_status_str (tr_DustStatus tr),
       xe_IsDust = cd_IsDust (pr_record c), xe_IsZeroValue = cd_IsZeroValue (pr_record c),
       xe_IsInbound = cd_IsInbound (pr_record c), xe_IsNewCounterparty = cd_IsNewCounterparty (pr_record c),
       xe_RecencyDays = cd_RecencyDays (pr_record c),
       xe_RepeatInjectionCount = cd_RepeatInjectionCount (pr_record c),
       xe_BaselineStartAt = win_BaselineStart (ws_window row),
       xe_BaselineEndAt = win_BaselineEnd (ws_window row), xe_ScanStartAt = win_ScanStart (ws_window row),
       xe_ScanEndAt = win_ScanEnd (ws_window row), xe_BaselineComplete = ws_baseline_complete row,
       xe_IncompleteWindow = cd_IncompleteWindow (pr_record c),
       xe_UnknownGateReason = coalesce_text (pr_unknown_gate_reason c),
       xe_MatchRuleVersion = cd_MatchRuleVersion (pr_record c) \<rparr>"

definition explanation_order ::
  "(string \<Rightarrow> string \<Rightarrow> bool) \<Rightarrow> CandidateExplanationExportRecord \<Rightarrow> CandidateExplanationExportRecord \<Rightarrow> bool" where
  "explanation_order lt a b \<longleftrightarrow>
     lt (xe_FocalWallet a) (xe_FocalWallet b) \<or>
     \<not> lt (xe_FocalWallet b) (xe_FocalWallet a) \<and>
       (xe_BlockTime a < xe_BlockTime b \<or> xe_BlockTime a = xe_BlockTime b \<and>
         (lt (xe_Signature a) (xe_Signature b) \<or>
          \<not> lt (xe_Signature b) (xe_Signature a) \<and> xe_TransferIndex a < xe_TransferIndex b))"

definition explanation_results :: "export_clause list \<Rightarrow> Db \<Rightarrow> CandidateExplanationExportRecord list" where
  "explanation_results clauses db =
     [explanation_record i row address c tr rel.
        (i, row, address, c) \<leftarrow> selected_candidates clauses db, (tr, rel) \<leftarrow> explaining_transfers db row c]"

definition explanation_rows :: "sql_text \<Rightarrow> export_clause list \<Rightarrow> Db \<Rightarrow> CandidateExplanationExportRecord list" where
  "explanation_rows sq clauses db = sort_slice (explanation_order (sq_less sq)) (explanation_results clauses db)"

definition ListCandidateExplanationsForExport ::
  "sql_text \<Rightarrow> ExportFilter \<Rightarrow> (CandidateExplanationExportRecord list, Pg) call" where
  "ListCandidateExplanationsForExport sq flt =
     export_query ''list candidate explanations for export'' ''scan candidate explanation export row''
       ''iterate candidate explanation export rows'' flt (explanation_rows sq)"

section \<open>Wallet summaries\<close>

definition summary_record :: "Db \<Rightarrow> int \<Rightarrow> WalletSyncRunRow \<Rightarrow> string \<Rightarrow> WalletInspectionSummaryExportRecord" where
  "summary_record db i row address =
     \<lparr> xs_IngestionRunID = ws_ingestion_run_id row, xs_WalletSyncRunID = i, xs_FocalWallet = address,
       xs_CandidateCount = int (length (filter (\<lambda>(key, c). fst key = i) (db_poisoning_candidates db))),
       xs_UnknownGateBlockCount = (if ws_incomplete_window row \<and> btrim (coalesce_text (ws_unknown_gate_reason row)) \<noteq> [] then 1 else 0),
       xs_IncompleteWindow = ws_incomplete_window row,
       xs_UnknownGateReason = coalesce_text (ws_unknown_gate_reason row),
       xs_TruncationReason = coalesce_text (ws_truncation_reason row),
       xs_BaselineComplete = ws_baseline_complete row, xs_BaselineStartAt = win_BaselineStart (ws_window row),
       xs_BaselineEndAt = win_BaselineEnd (ws_window row), xs_ScanStartAt = win_ScanStart (ws_window row),
       xs_ScanEndAt = win_ScanEnd (ws_window row), xs_TransactionsFetched = ws_transactions_fetched row,
       xs_PoisoningCandidatesSeen = ws_poisoning_candidates_inserted row \<rparr>"

definition summary_order ::
  "(string \<Rightarrow> string \<Rightarrow> bool) \<Rightarrow> WalletInspectionSummaryExportRecord \<Rightarrow> WalletInspectionSummaryExportRecord \<Rightarrow> bool" where
  "summary_order lt a b \<longleftrightarrow>
     lt (xs_FocalWallet a) (xs_FocalWallet b) \<or>
     \<not> lt (xs_FocalWallet b) (xs_FocalWallet a) \<and>
       (xs_ScanEndAt a < xs_ScanEndAt b \<or>
        xs_ScanEndAt a = xs_ScanEndAt b \<and> xs_WalletSyncRunID a < xs_WalletSyncRunID b)"

definition summary_rows :: "sql_text \<Rightarrow> export_clause list \<Rightarrow> Db \<Rightarrow> WalletInspectionSummaryExportRecord list" where
  "summary_rows sq clauses db =
     sort_slice (summary_order (sq_less sq))
       (map (\<lambda>(i, row, address). summary_record db i row address) (selected_sync_runs clauses db))"

definition ListWalletInspectionSummaryForExport ::
  "sql_text \<Rightarrow> ExportFilter \<Rightarrow> (WalletInspectionSummaryExportRecord list, Pg) call" where
  "ListWalletInspectionSummaryForExport sq flt =
     export_query ''list wallet inspection summary for export'' ''scan wallet inspection summary export row''
       ''iterate wallet inspection summary export rows'' flt (summary_rows sq)"

end
