(* ===== verification/Go_Encoding.thy ===== *)
theory Go_Encoding
imports Go_Prelude
begin

text \<open>
  What the exports take from \<open>encoding/csv\<close>, \<open>encoding/json\<close> and \<open>time\<close>: the text of a table of fields, of a
  value and of an instant. A reader of CSV text says what the fields of such a text are.
\<close>

section \<open>CSV\<close>

text \<open>\<open>csv.Writer\<close> with its default comma: a field is quoted when it could be misread. A writer into a buffer
  does not fail.\<close>

definition csv_special :: "char \<Rightarrow> bool" where
  "csv_special c \<longleftrightarrow> c = CHR 0x0A \<or> c = CHR 0x0D \<or> c = CHR 0x22 \<or> c = CHR '',''"

definition csv_needs_quotes :: "string \<Rightarrow> bool" where
  "csv_needs_quotes field \<longleftrightarrow>
     field \<noteq> [] \<and> (field = [CHR 0x5C, CHR ''.''] \<or> list_ex csv_special field \<or> 0 < lead_len field)"

definition csv_field :: "string \<Rightarrow> string" where
  "csv_field field =
     (if csv_needs_quotes field
      then CHR 0x22 # concat (map (\<lambda>c. if c = CHR 0x22 then [CHR 0x22, CHR 0x22] else [c]) field) @ [CHR 0x22]
      else field)"

definition csv_line :: "string list \<Rightarrow> string" where
  "csv_line fields = join '','' (map csv_field fields) @ [CHR 0x0A]"

definition csv_text :: "string list list \<Rightarrow> string" where
  "csv_text rows = concat (map csv_line rows)"

datatype csv_state = FieldStart | Bare | Quoted | QuoteSeen

text \<open>Reading: \<open>cur\<close> is the field read so far, \<open>row\<close> the fields before it.\<close>

fun csv_read :: "csv_state \<Rightarrow> string \<Rightarrow> string list \<Rightarrow> string \<Rightarrow> string list list option" where
  "csv_read st cur row [] = (if st = FieldStart \<and> row = [] then Some [] else None)"
| "csv_read FieldStart cur row (c # s) =
     (if c = CHR 0x22 then csv_read Quoted [] row s
      else if c = CHR '','' then csv_read FieldStart [] (row @ [[]]) s
      else if c = CHR 0x0A then map_option (\<lambda>rows. (row @ [[]]) # rows) (csv_read FieldStart [] [] s)
      else csv_read Bare [c] row s)"
| "csv_read Bare cur row (c # s) =
     (if c = CHR '','' then csv_read FieldStart [] (row @ [cur]) s
      else if c = CHR 0x0A then map_option (\<lambda>rows. (row @ [cur]) # rows) (csv_read FieldStart [] [] s)
      else csv_read Bare (cur @ [c]) row s)"
| "csv_read Quoted cur row (c # s) =
     (if c = CHR 0x22 then csv_read QuoteSeen cur row s else csv_read Quoted (cur @ [c]) row s)"
| "csv_read QuoteSeen cur row (c # s) =
     (if c = CHR 0x22 then csv_read Quoted (cur @ [c]) row s
      else if c = CHR '','' then csv_read FieldStart [] (row @ [cur]) s
      else if c = CHR 0x0A then map_option (\<lambda>rows. (row @ [cur]) # rows) (csv_read FieldStart [] [] s)
      else None)"

definition csv_rows :: "string \<Rightarrow> string list list option" where
  "csv_rows s = csv_read FieldStart [] [] s"

text \<open>What follows a field: the next one, or the end of the row.\<close>

definition csv_next :: "string list \<Rightarrow> char \<Rightarrow> string \<Rightarrow> string list list option" where
  "csv_next row sep s =
     (if sep = CHR '','' then csv_read FieldStart [] row s
      else map_option (\<lambda>rows. row # rows) (csv_read FieldStart [] [] s))"

lemma csv_read_bare:
  "\<not> list_ex csv_special field \<Longrightarrow> sep = CHR '','' \<or> sep = CHR 0x0A \<Longrightarrow>
     csv_read Bare cur row (field @ sep # s) = csv_next (row @ [cur @ field]) sep s"
  by (induction field arbitrary: cur) (auto simp: csv_special_def csv_next_def)

lemma csv_read_quoted:
  "sep = CHR '','' \<or> sep = CHR 0x0A \<Longrightarrow>
     csv_read Quoted cur row (concat (map (\<lambda>c. if c = CHR 0x22 then [CHR 0x22, CHR 0x22] else [c]) field) @ CHR 0x22 # sep # s) =
     csv_next (row @ [cur @ field]) sep s"
  by (induction field arbitrary: cur) (auto simp: csv_next_def)

lemma csv_read_field:
  assumes "sep = CHR '','' \<or> sep = CHR 0x0A"
  shows "csv_read FieldStart cur row (csv_field field @ sep # s) = csv_next (row @ [field]) sep s"
proof (cases "csv_needs_quotes field")
  case True
  then show ?thesis using csv_read_quoted [OF assms, of "[]" row field s] by (simp add: csv_field_def)
next
  case False
  then have plain: "\<not> list_ex csv_special field" by (auto simp: csv_needs_quotes_def)
  show ?thesis
  proof (cases field)
    case Nil
    then show ?thesis using assms by (auto simp: csv_field_def csv_needs_quotes_def csv_next_def)
  next
    case (Cons c cs)
    then have "csv_read FieldStart cur row (field @ sep # s) = csv_read Bare [c] row (cs @ sep # s)"
      using plain by (auto simp: csv_special_def)
    also have "\<dots> = csv_next (row @ [field]) sep s"
      using csv_read_bare [of cs sep "[c]" row s] plain assms Cons by simp
    finally show ?thesis using False by (simp add: csv_field_def)
  qed
qed

lemma csv_read_line:
  assumes "fields \<noteq> []"
  shows "csv_read FieldStart cur row (csv_line fields @ s) =
    map_option (\<lambda>rows. (row @ fields) # rows) (csv_read FieldStart [] [] s)"
  using assms
proof (induction fields arbitrary: row cur rule: induct_list012)
  case (2 x)
  show ?case using csv_read_field [of "CHR 0x0A" cur row x s] by (simp add: csv_line_def csv_next_def)
next
  case (3 x y zs)
  have "csv_read FieldStart cur row (csv_line (x # y # zs) @ s) =
      csv_read FieldStart [] (row @ [x]) (csv_line (y # zs) @ s)"
    using csv_read_field [of "CHR '',''" cur row x] by (simp add: csv_line_def csv_next_def)
  also have "\<dots> = map_option (\<lambda>rows. (row @ x # y # zs) # rows) (csv_read FieldStart [] [] s)"
    using "3.IH"(2) [of "[]" "row @ [x]"] by simp
  finally show ?case .
qed simp

text \<open>Reading back what was written gives the fields.\<close>

lemma csv_rows_text: "list_all (\<lambda>fields. fields \<noteq> []) rows \<Longrightarrow> csv_rows (csv_text rows) = Some rows"
  by (induction rows) (simp_all add: csv_rows_def csv_text_def csv_read_line)

section \<open>JSON\<close>

datatype json =
    JNull
  | JBool bool
  | JInt int
  | JString string
  | JArray "json list"
  | JObject "(string \<times> json) list"

text \<open>A string as Go 1.22 writes it, with \<open><\<close>, \<open>>\<close> and \<open>&\<close> escaped, invalid UTF-8 replaced and the two line
  separators escaped.\<close>

definition hex_digit :: "int \<Rightarrow> char" where
  "hex_digit n = ''0123456789abcdef'' ! nat n"

definition json_ascii :: "char \<Rightarrow> string" where
  "json_ascii c =
     (if c = CHR 0x22 \<or> c = CHR 0x5C then [CHR 0x5C, c]
      else if c = CHR 0x08 then [CHR 0x5C, CHR ''b'']
      else if c = CHR 0x0C then [CHR 0x5C, CHR ''f'']
      else if c = CHR 0x0A then [CHR 0x5C, CHR ''n'']
      else if c = CHR 0x0D then [CHR 0x5C, CHR ''r'']
      else if c = CHR 0x09 then [CHR 0x5C, CHR ''t'']
      else if c < CHR 0x20 \<or> c = CHR ''<'' \<or> c = CHR ''>'' \<or> c = CHR ''&''
      then CHR 0x5C # ''u00'' @ [hex_digit (byte c div 16), hex_digit (byte c mod 16)]
      else [c])"

fun json_chars :: "string \<Rightarrow> string" where
  "json_chars [] = []"
| "json_chars (c # s) =
     (if byte c < 128 then json_ascii c @ json_chars s
      else let r = fst (decode_rune (map byte (c # s))); n = snd (decode_rune (map byte (c # s))) in
        if r = rune_error \<and> n = 1 then CHR 0x5C # ''ufffd'' @ json_chars s
        else if r = 0x2028 \<or> r = 0x2029 then CHR 0x5C # ''u202'' @ [hex_digit (r mod 16)] @ json_chars (drop (n - 1) s)
        else c # take (n - 1) s @ json_chars (drop (n - 1) s))"

definition json_string :: "string \<Rightarrow> string" where
  "json_string s = CHR 0x22 # json_chars s @ [CHR 0x22]"

fun json_text :: "json \<Rightarrow> string" where
  "json_text JNull = ''null''"
| "json_text (JBool b) = (if b then ''true'' else ''false'')"
| "json_text (JInt i) = show_int i"
| "json_text (JString s) = json_string s"
| "json_text (JArray xs) = ''['' @ join '','' (map json_text xs) @ '']''"
| "json_text (JObject fs) = CHR 0x7B # join '','' (map (\<lambda>(k, v). json_string k @ '':'' @ json_text v) fs) @ [CHR 0x7D]"

text \<open>\<open>json.MarshalIndent\<close> with two spaces.\<close>

definition json_break :: "nat \<Rightarrow> string" where
  "json_break depth = CHR 0x0A # replicate (2 * depth) CHR '' ''"

fun json_indent :: "nat \<Rightarrow> json \<Rightarrow> string" where
  "json_indent d (JArray xs) =
     (if xs = [] then ''[]''
      else ''['' @ json_break (Suc d) @ join ('','' @ json_break (Suc d)) (map (json_indent (Suc d)) xs) @ json_break d @ '']'')"
| "json_indent d (JObject fs) =
     (if fs = [] then [CHR 0x7B, CHR 0x7D]
      else CHR 0x7B # json_break (Suc d) @
        join ('','' @ json_break (Suc d)) (map (\<lambda>(k, v). json_string k @ '': '' @ json_indent (Suc d) v) fs) @
        json_break d @ [CHR 0x7D])"
| "json_indent d v = json_text v"

text \<open>Compact JSON has no control characters, so a line of it is a line.\<close>

definition printing :: "string \<Rightarrow> bool" where
  "printing s \<longleftrightarrow> list_all (\<lambda>c. 32 \<le> byte c) s"

lemma printing_simps [simp]:
  "printing []" "printing (c # s) \<longleftrightarrow> 32 \<le> byte c \<and> printing s" "printing (s @ t) \<longleftrightarrow> printing s \<and> printing t"
  by (simp_all add: printing_def)

lemma printing_drop: "printing s \<Longrightarrow> printing (drop n s)" "printing s \<Longrightarrow> printing (take n s)"
  by (auto simp: printing_def list_all_iff dest: in_set_dropD in_set_takeD)

lemma byte_nat: "byte c = int (of_char c)"
  by (simp add: byte_def of_char_def)

lemma byte_literals [simp]:
  "byte (CHR 0x22) = 34" "byte (CHR 0x5C) = 92" "byte (CHR 0x7B) = 123" "byte (CHR 0x7D) = 125" "byte (CHR ''['') = 91" "byte (CHR '']'') = 93" "byte (CHR '','') = 44" "byte (CHR '':'') = 58" "byte (CHR ''-'') = 45" "byte (CHR ''b'') = 98" "byte (CHR ''f'') = 102" "byte (CHR ''n'') = 110" "byte (CHR ''r'') = 114" "byte (CHR ''t'') = 116" "byte (CHR ''u'') = 117" "byte (CHR ''0'') = 48" "byte (CHR ''2'') = 50" "byte (CHR ''d'') = 100" "byte (CHR ''a'') = 97" "byte (CHR ''l'') = 108" "byte (CHR ''s'') = 115" "byte (CHR ''e'') = 101"
  by (simp_all add: byte_def)

lemma byte_nonneg [simp]: "0 \<le> byte c"
  by (simp add: byte_nat)

lemma byte_less_eq: "c < d \<longleftrightarrow> byte c < byte d" "c \<le> d \<longleftrightarrow> byte c \<le> byte d"
  by (simp_all add: byte_nat less_char_def less_eq_char_def)

lemma hex_digit_printing: "0 \<le> n \<Longrightarrow> n < 16 \<Longrightarrow> 32 \<le> byte (hex_digit n)"
proof -
  assume "0 \<le> n" "n < 16"
  then have "nat n \<in> {0..<16}" by auto
  moreover have "list_all (\<lambda>k. 32 \<le> byte (''0123456789abcdef'' ! k)) [0..<16]" by code_simp
  ultimately show ?thesis by (simp add: hex_digit_def list_all_iff)
qed

lemma json_ascii_printing: "byte c < 128 \<Longrightarrow> printing (json_ascii c)"
proof -
  assume "byte c < 128"
  then have "byte c div 16 < 16" "0 \<le> byte c div 16" "byte c mod 16 < 16" "0 \<le> byte c mod 16"
    by (simp_all add: pos_imp_zdiv_nonneg_iff)
  then have "32 \<le> byte (hex_digit (byte c div 16))" "32 \<le> byte (hex_digit (byte c mod 16))"
    by (intro hex_digit_printing; simp)+
  moreover have "32 \<le> byte c" if "\<not> c < CHR 0x20"
    using that by (simp add: byte_less_eq(1) byte_def [of "CHR 0x20"])
  ultimately show ?thesis by (simp add: json_ascii_def)
qed

lemma decode_rune_conts:
  assumes "decode_rune (a # s) = (r, n)" and "128 \<le> a" and "\<not> (r = rune_error \<and> n = 1)"
  shows "list_all (\<lambda>b. 128 \<le> b) (take (n - 1) s)"
  using assms by (auto simp: decode_rune.simps is_cont_def split: if_splits list.splits)

lemma json_chars_printing: "printing (json_chars s)"
proof (induction s rule: json_chars.induct)
  case (2 c s)
  obtain r n where d: "decode_rune (map byte (c # s)) = (r, n)" by fastforce
  show ?case
  proof (cases "byte c < 128")
    case True
    with 2 json_ascii_printing show ?thesis by simp
  next
    case False
    have conts: "printing (take (n - 1) s)" if "\<not> (r = rune_error \<and> n = 1)"
      using decode_rune_conts [of "byte c" "map byte s" r n] d False that
      by (force simp: printing_def list_all_iff take_map)
    have hex: "32 \<le> byte (hex_digit (r mod 16))" by (rule hex_digit_printing) simp_all
    show ?thesis
      using 2 d False conts hex by (auto simp: Let_def)
  qed
qed simp

lemma printing_join: "printing sep \<Longrightarrow> list_all printing xs \<Longrightarrow> printing (join sep xs)"
  by (induction sep xs rule: join.induct) simp_all

lemma show_nat_printing: "printing (show_nat n)"
proof -
  have "CHR ''0'' \<le> c" if "c \<in> set (show_nat n)" for c
    using show_nat_digits [of n] that by (auto simp: list_all_iff is_ascii_digit_def)
  then have "48 \<le> byte c" if "c \<in> set (show_nat n)" for c
    using that by (force simp: byte_less_eq(2))
  then show ?thesis by (force simp: printing_def list_all_iff)
qed

lemma json_text_printing: "printing (json_text v)"
proof (induction v rule: json_text.induct)
  case (3 i)
  show ?case by (simp add: show_int_def show_nat_printing)
next
  case (4 s)
  show ?case by (simp add: json_string_def json_chars_printing)
next
  case (5 xs)
  then show ?case by (simp add: list_all_iff printing_join)
next
  case (6 fs)
  have "list_all printing (map (\<lambda>(k, v). json_string k @ '':'' @ json_text v) fs)"
    using 6 by (force simp: list_all_iff json_string_def json_chars_printing)
  then show ?case by (simp add: printing_join)
qed simp_all

lemma printing_no_newline: "printing s \<Longrightarrow> CHR 0x0A \<notin> set s"
  by (auto simp: printing_def list_all_iff byte_def)

section \<open>Instants\<close>

text \<open>\<open>Format(time.RFC3339Nano)\<close> of a UTC time: trailing zeros of the fraction are left out.\<close>

definition trim_zeros :: "string \<Rightarrow> string" where
  "trim_zeros s = rev (dropWhile (\<lambda>c. c = CHR ''0'') (rev s))"

definition format_rfc3339_nano :: "gotime \<Rightarrow> string" where
  "format_rfc3339_nano t =
     (let nanos = t mod nanos_per_second in
      if nanos = 0 then format_rfc3339 t
      else butlast (format_rfc3339 t) @ ''.'' @ trim_zeros (pad 9 nanos) @ ''Z'')"

end
