(* ===== verification/Exports.thy ===== *)
theory Exports
imports Export_Data Go_Encoding Wallet_Source
begin

text \<open>
  \<open>internal/exports/dataset.go\<close>: a dataset directory of eight files and a manifest that says what they hold. The
  source of the rows and the files are parameters; \<open>json.Marshal\<close> does not fail on these records (years 0 to
  9999).
\<close>

section \<open>Types\<close>

record 'w DatasetSource =
  ds_ListIngestionRuns :: "ExportFilter \<Rightarrow> 'w \<Rightarrow> (go_error + IngestionRunExportRecord list) \<times> 'w"
  ds_ListWalletSyncRuns :: "ExportFilter \<Rightarrow> 'w \<Rightarrow> (go_error + WalletSyncRunExportRecord list) \<times> 'w"
  ds_ListPoisoningCandidates :: "ExportFilter \<Rightarrow> 'w \<Rightarrow> (go_error + PoisoningCandidateExportRecord list) \<times> 'w"
  ds_ListCandidateExplanations :: "ExportFilter \<Rightarrow> 'w \<Rightarrow> (go_error + CandidateExplanationExportRecord list) \<times> 'w"
  ds_ListWalletInspectionSummary :: "ExportFilter \<Rightarrow> 'w \<Rightarrow> (go_error + WalletInspectionSummaryExportRecord list) \<times> 'w"

record ExportOptions =
  xo_OutDir :: string
  xo_Filter :: ExportFilter

record SourceFilters =
  sf_RunID :: "int option"
  sf_StartedAtFrom :: string
  sf_StartedAtTo :: string

record ManifestFile =
  mf_Name :: string
  mf_RowCount :: int
  mf_SHA256 :: string

record Manifest =
  mn_SchemaVersion :: string
  mn_GeneratedAt :: string
  mn_SourceFilters :: SourceFilters
  mn_Files :: "ManifestFile list"

definition schemaVersion :: string where "schemaVersion = ''phase6-v1''"

section \<open>Order\<close>

definition ingestion_order :: "IngestionRunExportRecord \<Rightarrow> IngestionRunExportRecord \<Rightarrow> bool" where
  "ingestion_order a b \<longleftrightarrow>
     (if xi_StartedAt a = xi_StartedAt b then xi_ID a < xi_ID b else xi_StartedAt a < xi_StartedAt b)"

definition sortIngestionRuns :: "IngestionRunExportRecord list \<Rightarrow> IngestionRunExportRecord list" where
  "sortIngestionRuns = sort_slice ingestion_order"

text \<open>The other orders are those of the queries, with Go's order of strings.\<close>

definition sortWalletSyncRuns :: "WalletSyncRunExportRecord list \<Rightarrow> WalletSyncRunExportRecord list" where
  "sortWalletSyncRuns = sort_slice (wallet_sync_order (<))"

definition sortPoisoningCandidates :: "PoisoningCandidateExportRecord list \<Rightarrow> PoisoningCandidateExportRecord list" where
  "sortPoisoningCandidates = sort_slice (candidate_order (<))"

definition sortCandidateExplanations :: "CandidateExplanationExportRecord list \<Rightarrow> CandidateExplanationExportRecord list" where
  "sortCandidateExplanations = sort_slice (explanation_order (<))"

definition sortWalletInspectionSummary :: "WalletInspectionSummaryExportRecord list \<Rightarrow> WalletInspectionSummaryExportRecord list" where
  "sortWalletInspectionSummary = sort_slice (summary_order (<))"

section \<open>Failure classes\<close>

definition classifyRunFailure :: "string \<Rightarrow> string" where
  "classifyRunFailure status =
     (if status = ''timed_out'' then ''timeout''
      else if status = ''cancelled'' then ''canceled''
      else if status = ''failed'' then ''upstream_error''
      else if status = ''partially_succeeded'' then ''partial''
      else if status = ''succeeded'' then ''none''
      else ''other'')"

definition classifyWalletFailure :: "string \<Rightarrow> string \<Rightarrow> string \<Rightarrow> string" where
  "classifyWalletFailure status unknownGateReason errorCode =
     (if status = ''timed_out'' then ''timeout''
      else if status = ''cancelled'' then ''canceled''
      else if contains unknownGateReason ''retry_exhausted'' then ''retry_exhausted''
      else if has_prefix errorCode ''lock_'' then ''lock_conflict''
      else if trim_space errorCode \<noteq> [] then ''persistence_error''
      else if contains unknownGateReason ''unknown_required_gates:'' then ''unknown_required_gate''
      else if status = ''failed'' then ''upstream_error''
      else if status = ''partial'' then ''partial''
      else if status = ''succeeded'' then ''none''
      else ''other'')"

record operationalHealthRunRow =
  oh_IngestionRunID :: int
  oh_Status :: string
  oh_FailureClass :: string
  oh_RetryExhaustedCount :: int
  oh_WalletsRequested :: int
  oh_WalletsProcessed :: int
  oh_WalletsFailed :: int
  oh_WalletsSkipped :: int
  oh_TruncationWalletRate :: string

definition buildOperationalHealthRuns :: "IngestionRunExportRecord list \<Rightarrow> operationalHealthRunRow list" where
  "buildOperationalHealthRuns rows =
     map (\<lambda>row. \<lparr> oh_IngestionRunID = xi_ID row, oh_Status = xi_Status row,
       oh_FailureClass = classifyRunFailure (xi_Status row), oh_RetryExhaustedCount = xi_RetryExhaustedCount row,
       oh_WalletsRequested = xi_WalletsRequested row, oh_WalletsProcessed = xi_WalletsProcessed row,
       oh_WalletsFailed = xi_WalletsFailed row, oh_WalletsSkipped = xi_WalletsSkipped row,
       oh_TruncationWalletRate = xi_TruncationWalletRate row \<rparr>) rows"

section \<open>JSON\<close>

text \<open>Without tags, fields have the names of the Go struct.\<close>

definition json_time :: "sql_text \<Rightarrow> gotime \<Rightarrow> json" where
  "json_time sq t = JString (sq_time sq t)"

definition json_time_ptr :: "sql_text \<Rightarrow> gotime option \<Rightarrow> json" where
  "json_time_ptr sq v = (case v of None \<Rightarrow> JNull | Some t \<Rightarrow> json_time sq t)"

definition ingestion_json :: "sql_text \<Rightarrow> IngestionRunExportRecord \<Rightarrow> json" where
  "ingestion_json sq r = JObject
     [(''ID'', JInt (xi_ID r)), (''Status'', JString (xi_Status r)),
      (''StartedAt'', json_time sq (xi_StartedAt r)), (''CompletedAt'', json_time_ptr sq (xi_CompletedAt r)),
      (''WalletsRequested'', JInt (xi_WalletsRequested r)),
      (''WalletsProcessed'', JInt (xi_WalletsProcessed r)), (''WalletsFailed'', JInt (xi_WalletsFailed r)),
      (''WalletsSkipped'', JInt (xi_WalletsSkipped r)),
      (''TruncationWalletCount'', JInt (xi_TruncationWalletCount r)),
      (''TruncationWalletRate'', JString (xi_TruncationWalletRate r)),
      (''TransactionsFetched'', JInt (xi_TransactionsFetched r)),
      (''TransactionsInserted'', JInt (xi_TransactionsInserted r)),
      (''TransactionsLinked'', JInt (xi_TransactionsLinked r)),
      (''TransactionsFailedNormalize'', JInt (xi_TransactionsFailedNormalize r)),
      (''OwnerUnresolvedCount'', JInt (xi_OwnerUnresolvedCount r)),
      (''DecimalsUnresolvedCount'', JInt (xi_DecimalsUnresolvedCount r)),
      (''CounterpartiesCreated'', JInt (xi_CounterpartiesCreated r)),
      (''CounterpartiesUpdated'', JInt (xi_CounterpartiesUpdated r)),
      (''PoisoningCandidatesInserted'', JInt (xi_PoisoningCandidatesInserted r)),
      (''RetryExhaustedCount'', JInt (xi_RetryExhaustedCount r)), (''Notes'', JString (xi_Notes r))]"

definition wallet_sync_json :: "sql_text \<Rightarrow> WalletSyncRunExportRecord \<Rightarrow> json" where
  "wallet_sync_json sq r = JObject
     [(''WalletSyncRunID'', JInt (xw_WalletSyncRunID r)), (''IngestionRunID'', JInt (xw_IngestionRunID r)),
      (''FocalWallet'', JString (xw_FocalWallet r)), (''Status'', JString (xw_Status r)),
      (''StartedAt'', json_time sq (xw_StartedAt r)), (''CompletedAt'', json_time_ptr sq (xw_CompletedAt r)),
      (''BaselineStartAt'', json_time sq (xw_BaselineStartAt r)),
      (''BaselineEndAt'', json_time sq (xw_BaselineEndAt r)),
      (''ScanStartAt'', json_time sq (xw_ScanStartAt r)), (''ScanEndAt'', json_time sq (xw_ScanEndAt r)),
      (''BaselineComplete'', JBool (xw_BaselineComplete r)),
      (''IncompleteWindow'', JBool (xw_IncompleteWindow r)),
      (''UnknownGateReason'', JString (xw_UnknownGateReason r)),
      (''TruncationReason'', JString (xw_TruncationReason r)),
      (''TransactionsFetched'', JInt (xw_TransactionsFetched r)),
      (''TransactionsInserted'', JInt (xw_TransactionsInserted r)),
      (''TransactionsLinked'', JInt (xw_TransactionsLinked r)),
      (''TransactionsFailedNormalize'', JInt (xw_TransactionsFailedNormalize r)),
      (''CounterpartiesCreated'', JInt (xw_CounterpartiesCreated r)),
      (''CounterpartiesUpdated'', JInt (xw_CounterpartiesUpdated r)),
      (''PoisoningCandidatesInserted'', JInt (xw_PoisoningCandidatesInserted r)),
      (''ErrorCode'', JString (xw_ErrorCode r)), (''ErrorMessage'', JString (xw_ErrorMessage r)),
      (''Notes'', JString (xw_Notes r))]"

definition candidate_json :: "sql_text \<Rightarrow> PoisoningCandidateExportRecord \<Rightarrow> json" where
  "candidate_json sq r = JObject
     [(''IngestionRunID'', JInt (xc_IngestionRunID r)), (''WalletSyncRunID'', JInt (xc_WalletSyncRunID r)),
      (''FocalWallet'', JString (xc_FocalWallet r)), (''Signature'', JString (xc_Signature r)),
      (''TransferIndex'', JInt (xc_TransferIndex r)),
      (''SuspiciousCounterparty'', JString (xc_SuspiciousCounterparty r)),
      (''MatchedLegitCounterparty'', JString (xc_MatchedLegitCounterparty r)),
      (''TokenMint'', JString (xc_TokenMint r)), (''AmountRaw'', JString (xc_AmountRaw r)),
      (''BlockTime'', json_time sq (xc_BlockTime r)), (''IsZeroValue'', JBool (xc_IsZeroValue r)),
      (''IsDust'', JBool (xc_IsDust r)), (''IsNewCounterparty'', JBool (xc_IsNewCounterparty r)),
      (''IsInbound'', JBool (xc_IsInbound r)), (''LegitLastSeenAt'', json_time sq (xc_LegitLastSeenAt r)),
      (''RecencyDays'', JInt (xc_RecencyDays r)),
      (''RepeatInjectionCount'', JInt (xc_RepeatInjectionCount r)),
      (''IncompleteWindow'', JBool (xc_IncompleteWindow r)),
      (''UnknownGateReason'', JString (xc_UnknownGateReason r)),
      (''MatchRuleVersion'', JString (xc_MatchRuleVersion r))]"

definition explanation_json :: "sql_text \<Rightarrow> CandidateExplanationExportRecord \<Rightarrow> json" where
  "explanation_json sq r = JObject
     [(''IngestionRunID'', JInt (xe_IngestionRunID r)), (''WalletSyncRunID'', JInt (xe_WalletSyncRunID r)),
      (''FocalWallet'', JString (xe_FocalWallet r)), (''Signature'', JString (xe_Signature r)),
      (''TransferIndex'', JInt (xe_TransferIndex r)), (''BlockTime'', json_time sq (xe_BlockTime r)),
      (''SuspiciousCounterparty'', JString (xe_SuspiciousCounterparty r)),
      (''MatchedLegitCounterparty'', JString (xe_MatchedLegitCounterparty r)),
      (''RelationType'', JString (xe_RelationType r)), (''AssetType'', JString (xe_AssetType r)),
      (''NormalizationStatus'', JString (xe_NormalizationStatus r)),
      (''PoisoningEligible'', JBool (xe_PoisoningEligible r)), (''SourceOwner'', JString (xe_SourceOwner r)),
      (''DestinationOwner'', JString (xe_DestinationOwner r)),
      (''FromTokenAccount'', JString (xe_FromTokenAccount r)),
      (''ToTokenAccount'', JString (xe_ToTokenAccount r)), (''TokenMint'', JString (xe_TokenMint r)),
      (''AmountRaw'', JString (xe_AmountRaw r)), (''DustStatus'', JString (xe_DustStatus r)),
      (''IsDust'', JBool (xe_IsDust r)), (''IsZeroValue'', JBool (xe_IsZeroValue r)),
      (''IsInbound'', JBool (xe_IsInbound r)), (''IsNewCounterparty'', JBool (xe_IsNewCounterparty r)),
      (''RecencyDays'', JInt (xe_RecencyDays r)),
      (''RepeatInjectionCount'', JInt (xe_RepeatInjectionCount r)),
      (''BaselineStartAt'', json_time sq (xe_BaselineStartAt r)),
      (''BaselineEndAt'', json_time sq (xe_BaselineEndAt r)),
      (''ScanStartAt'', json_time sq (xe_ScanStartAt r)), (''ScanEndAt'', json_time sq (xe_ScanEndAt r)),
      (''BaselineComplete'', JBool (xe_BaselineComplete r)),
      (''IncompleteWindow'', JBool (xe_IncompleteWindow r)),
      (''UnknownGateReason'', JString (xe_UnknownGateReason r)),
      (''MatchRuleVersion'', JString (xe_MatchRuleVersion r))]"

definition health_json :: "operationalHealthRunRow \<Rightarrow> json" where
  "health_json r = JObject
     [(''ingestion_run_id'', JInt (oh_IngestionRunID r)), (''status'', JString (oh_Status r)),
      (''failure_class'', JString (oh_FailureClass r)), (''retry_exhausted_count'', JInt (oh_RetryExhaustedCount r)),
      (''wallets_requested'', JInt (oh_WalletsRequested r)), (''wallets_processed'', JInt (oh_WalletsProcessed r)),
      (''wallets_failed'', JInt (oh_WalletsFailed r)), (''wallets_skipped'', JInt (oh_WalletsSkipped r)),
      (''truncation_wallet_rate'', JString (oh_TruncationWalletRate r))]"

definition encodeJSONL :: "json list \<Rightarrow> string" where
  "encodeJSONL rows = concat (map (\<lambda>row. json_text row @ [CHR 0x0A]) rows)"

section \<open>CSV\<close>

definition show_bool :: "bool \<Rightarrow> string" where
  "show_bool b = (if b then ''true'' else ''false'')"

definition explanation_header :: "string list" where
  "explanation_header =
     [''ingestion_run_id'', ''wallet_sync_run_id'', ''focal_wallet'', ''signature'', ''transfer_index'',
      ''block_time'', ''suspicious_counterparty'', ''matched_legit_counterparty'', ''relation_type'',
      ''asset_type'', ''normalization_status'', ''poisoning_eligible'', ''source_owner'',
      ''destination_owner'', ''from_token_account'', ''to_token_account'', ''token_mint'', ''amount_raw'',
      ''dust_status'', ''is_dust'', ''is_zero_value'', ''is_inbound'', ''is_new_counterparty'',
      ''recency_days'', ''repeat_injection_count'', ''baseline_start_at'', ''baseline_end_at'',
      ''scan_start_at'', ''scan_end_at'', ''baseline_complete'', ''incomplete_window'',
      ''unknown_gate_reason'', ''match_rule_version'']"

definition explanation_fields :: "CandidateExplanationExportRecord \<Rightarrow> string list" where
  "explanation_fields r =
     [show_int (xe_IngestionRunID r), show_int (xe_WalletSyncRunID r), xe_FocalWallet r, xe_Signature r,
      show_int (xe_TransferIndex r), format_rfc3339 (xe_BlockTime r), xe_SuspiciousCounterparty r,
      xe_MatchedLegitCounterparty r, xe_RelationType r, xe_AssetType r, xe_NormalizationStatus r,
      show_bool (xe_PoisoningEligible r), xe_SourceOwner r, xe_DestinationOwner r, xe_FromTokenAccount r,
      xe_ToTokenAccount r, xe_TokenMint r, xe_AmountRaw r, xe_DustStatus r, show_bool (xe_IsDust r),
      show_bool (xe_IsZeroValue r), show_bool (xe_IsInbound r), show_bool (xe_IsNewCounterparty r),
      show_int (xe_RecencyDays r), show_int (xe_RepeatInjectionCount r),
      format_rfc3339 (xe_BaselineStartAt r), format_rfc3339 (xe_BaselineEndAt r),
      format_rfc3339 (xe_ScanStartAt r), format_rfc3339 (xe_ScanEndAt r), show_bool (xe_BaselineComplete r),
      show_bool (xe_IncompleteWindow r), xe_UnknownGateReason r, xe_MatchRuleVersion r]"

definition encodeCandidateExplanationsCSV :: "CandidateExplanationExportRecord list \<Rightarrow> string" where
  "encodeCandidateExplanationsCSV rows = csv_text (explanation_header # map explanation_fields rows)"

definition summary_header :: "string list" where
  "summary_header =
     [''ingestion_run_id'', ''wallet_sync_run_id'', ''focal_wallet'', ''candidate_count'',
      ''unknown_gate_block_count'', ''incomplete_window'', ''unknown_gate_reason'', ''truncation_reason'',
      ''baseline_complete'', ''baseline_start_at'', ''baseline_end_at'', ''scan_start_at'', ''scan_end_at'',
      ''transactions_fetched'', ''poisoning_candidates_inserted'']"

definition summary_fields :: "WalletInspectionSummaryExportRecord \<Rightarrow> string list" where
  "summary_fields r =
     [show_int (xs_IngestionRunID r), show_int (xs_WalletSyncRunID r), xs_FocalWallet r,
      show_int (xs_CandidateCount r), show_int (xs_UnknownGateBlockCount r),
      show_bool (xs_IncompleteWindow r), xs_UnknownGateReason r, xs_TruncationReason r,
      show_bool (xs_BaselineComplete r), format_rfc3339 (xs_BaselineStartAt r),
      format_rfc3339 (xs_BaselineEndAt r), format_rfc3339 (xs_ScanStartAt r),
      format_rfc3339 (xs_ScanEndAt r), show_int (xs_TransactionsFetched r),
      show_int (xs_PoisoningCandidatesSeen r)]"

definition encodeWalletInspectionSummaryCSV :: "WalletInspectionSummaryExportRecord list \<Rightarrow> string" where
  "encodeWalletInspectionSummaryCSV rows = csv_text (summary_header # map summary_fields rows)"

definition wallet_health_header :: "string list" where
  "wallet_health_header =
     [''ingestion_run_id'', ''wallet_sync_run_id'', ''focal_wallet'', ''status'', ''failure_class'',
      ''baseline_complete'', ''incomplete_window'', ''unknown_gate_reason'', ''truncation_reason'',
      ''error_code'', ''transactions_fetched'', ''transactions_inserted'', ''transactions_linked'',
      ''transactions_failed_to_normalize'']"

definition wallet_health_fields :: "WalletSyncRunExportRecord \<Rightarrow> string list" where
  "wallet_health_fields r =
     [show_int (xw_IngestionRunID r), show_int (xw_WalletSyncRunID r), xw_FocalWallet r, xw_Status r,
      classifyWalletFailure (xw_Status r) (xw_UnknownGateReason r) (xw_ErrorCode r),
      show_bool (xw_BaselineComplete r), show_bool (xw_IncompleteWindow r), xw_UnknownGateReason r,
      xw_TruncationReason r, xw_ErrorCode r, show_int (xw_TransactionsFetched r),
      show_int (xw_TransactionsInserted r), show_int (xw_TransactionsLinked r),
      show_int (xw_TransactionsFailedNormalize r)]"

definition encodeOperationalHealthWalletSyncCSV :: "WalletSyncRunExportRecord list \<Rightarrow> string" where
  "encodeOperationalHealthWalletSyncCSV rows = csv_text (wallet_health_header # map wallet_health_fields rows)"

section \<open>The manifest\<close>

definition deriveGeneratedAt :: "IngestionRunExportRecord list \<Rightarrow> string" where
  "deriveGeneratedAt runs =
     (if runs = [] then format_rfc3339_nano (time_unix 0)
      else format_rfc3339_nano (foldl (\<lambda>maxAt run.
        let candidate = (case xi_CompletedAt run of None \<Rightarrow> xi_StartedAt run | Some t \<Rightarrow> t)
        in if maxAt < candidate then candidate else maxAt) (time_unix 0) runs))"

definition buildSourceFilters :: "ExportFilter \<Rightarrow> SourceFilters" where
  "buildSourceFilters flt =
     (let text = (\<lambda>v. case v of None \<Rightarrow> [] | Some t \<Rightarrow> format_rfc3339 t) in
      \<lparr> sf_RunID = ef_RunID flt, sf_StartedAtFrom = text (ef_StartedAtFrom flt), sf_StartedAtTo = text (ef_StartedAtTo flt) \<rparr>)"

text \<open>\<open>omitempty\<close> leaves out a nil pointer and an empty string.\<close>

definition omit_empty :: "string \<Rightarrow> string \<Rightarrow> (string \<times> json) list" where
  "omit_empty name v = (if v = [] then [] else [(name, JString v)])"

definition manifest_json :: "Manifest \<Rightarrow> json" where
  "manifest_json m = JObject
     [(''schema_version'', JString (mn_SchemaVersion m)), (''generated_at'', JString (mn_GeneratedAt m)),
      (''source_filters'', JObject
        ((case sf_RunID (mn_SourceFilters m) of None \<Rightarrow> [] | Some i \<Rightarrow> [(''run_id'', JInt i)]) @
         omit_empty ''started_at_from'' (sf_StartedAtFrom (mn_SourceFilters m)) @
         omit_empty ''started_at_to'' (sf_StartedAtTo (mn_SourceFilters m)))),
      (''files'', JArray (map (\<lambda>f. JObject
        [(''name'', JString (mf_Name f)), (''row_count'', JInt (mf_RowCount f)), (''sha256'', JString (mf_SHA256 f))])
        (mn_Files m)))]"

section \<open>The export\<close>

record artifact =
  af_name :: string
  af_rows :: int
  af_payload :: string

definition artifacts ::
  "sql_text \<Rightarrow> IngestionRunExportRecord list \<Rightarrow> WalletSyncRunExportRecord list \<Rightarrow> PoisoningCandidateExportRecord list
     \<Rightarrow> CandidateExplanationExportRecord list \<Rightarrow> WalletInspectionSummaryExportRecord list \<Rightarrow> artifact list" where
  "artifacts sq runs syncs candidates explanations summaries =
     [\<lparr> af_name = ''ingestion_runs.jsonl'', af_rows = int (length runs),
        af_payload = encodeJSONL (map (ingestion_json sq) runs) \<rparr>,
      \<lparr> af_name = ''wallet_sync_runs.jsonl'', af_rows = int (length syncs),
        af_payload = encodeJSONL (map (wallet_sync_json sq) syncs) \<rparr>,
      \<lparr> af_name = ''poisoning_candidates.jsonl'', af_rows = int (length candidates),
        af_payload = encodeJSONL (map (candidate_json sq) candidates) \<rparr>,
      \<lparr> af_name = ''candidate_explanations.jsonl'', af_rows = int (length explanations),
        af_payload = encodeJSONL (map (explanation_json sq) explanations) \<rparr>,
      \<lparr> af_name = ''candidate_explanations.csv'', af_rows = int (length explanations),
        af_payload = encodeCandidateExplanationsCSV explanations \<rparr>,
      \<lparr> af_name = ''wallet_inspection_summary.csv'', af_rows = int (length summaries),
        af_payload = encodeWalletInspectionSummaryCSV summaries \<rparr>,
      \<lparr> af_name = ''operational_health_runs.jsonl'', af_rows = int (length runs),
        af_payload = encodeJSONL (map health_json (buildOperationalHealthRuns runs)) \<rparr>,
      \<lparr> af_name = ''operational_health_wallet_sync.csv'', af_rows = int (length syncs),
        af_payload = encodeOperationalHealthWalletSyncCSV syncs \<rparr>]"

definition manifest_file :: "(string \<Rightarrow> string) \<Rightarrow> artifact \<Rightarrow> ManifestFile" where
  "manifest_file sha a = \<lparr> mf_Name = af_name a, mf_RowCount = af_rows a, mf_SHA256 = sha (af_payload a) \<rparr>"

definition manifest_text :: "Manifest \<Rightarrow> string" where
  "manifest_text m = json_indent 0 (manifest_json m) @ [CHR 0x0A]"

fun write_artifacts :: "'w files \<Rightarrow> string \<Rightarrow> artifact list \<Rightarrow> 'w \<Rightarrow> go_error option \<times> 'w" where
  "write_artifacts fl dir [] w = (None, w)"
| "write_artifacts fl dir (a # as) w =
     (case fl_WriteFile fl (path_join [dir, af_name a]) (af_payload a) w of
        (Some err, w1) \<Rightarrow> (Some (Wrapped (''write '' @ af_name a @ '': '') err []), w1)
      | (None, w1) \<Rightarrow> write_artifacts fl dir as w1)"

definition build_manifest :: "(string \<Rightarrow> string) \<Rightarrow> ExportFilter \<Rightarrow> IngestionRunExportRecord list \<Rightarrow> artifact list \<Rightarrow> Manifest" where
  "build_manifest sha flt runs as =
     \<lparr> mn_SchemaVersion = schemaVersion, mn_GeneratedAt = deriveGeneratedAt runs,
       mn_SourceFilters = buildSourceFilters flt,
       mn_Files = sort_slice (\<lambda>a b. mf_Name a < mf_Name b) (map (manifest_file sha) as) \<rparr>"

text \<open>What is written once the rows are there.\<close>

definition write_dataset ::
  "(string \<Rightarrow> string) \<Rightarrow> 'w files \<Rightarrow> ExportOptions \<Rightarrow> IngestionRunExportRecord list \<Rightarrow> artifact list \<Rightarrow> 'w
     \<Rightarrow> (go_error + Manifest) \<times> 'w" where
  "write_dataset sha fl opts runs as w =
     (case fl_MkdirAll fl (xo_OutDir opts) w of
        (Some err, w1) \<Rightarrow> (Inl (Wrapped ''create out dir: '' err []), w1)
      | (None, w1) \<Rightarrow>
      (case write_artifacts fl (xo_OutDir opts) as w1 of
        (Some err, w2) \<Rightarrow> (Inl err, w2)
      | (None, w2) \<Rightarrow>
      let m = build_manifest sha (xo_Filter opts) runs as in
      (case fl_WriteFile fl (path_join [xo_OutDir opts, ''report_manifest.json'']) (manifest_text m) w2 of
        (Some err, w3) \<Rightarrow> (Inl (Wrapped ''write report_manifest.json: '' err []), w3)
      | (None, w3) \<Rightarrow> (Inr m, w3))))"

definition ExportDataset ::
  "(string \<Rightarrow> string) \<Rightarrow> sql_text \<Rightarrow> 'w files \<Rightarrow> 'w DatasetSource option \<Rightarrow> ExportOptions \<Rightarrow> 'w
     \<Rightarrow> (go_error + Manifest) \<times> 'w" where
  "ExportDataset sha sq fl source opts w =
     (let flt = xo_Filter opts in
      if trim_space (xo_OutDir opts) = [] then (Inl (Err ''out dir is required''), w)
      else case source of None \<Rightarrow> (Inl (Err ''dataset source is required''), w)
      | Some src \<Rightarrow>
      if ef_RunID flt = None \<and> (ef_StartedAtFrom flt = None \<or> ef_StartedAtTo flt = None)
      then (Inl (Err ''export filter requires either run_id or both started_at_from and started_at_to''), w)
      else
      (case ds_ListIngestionRuns src flt w of
        (Inl err, w1) \<Rightarrow> (Inl err, w1)
      | (Inr runs, w1) \<Rightarrow>
      (case ds_ListWalletSyncRuns src flt w1 of
        (Inl err, w2) \<Rightarrow> (Inl err, w2)
      | (Inr syncs, w2) \<Rightarrow>
      (case ds_ListPoisoningCandidates src flt w2 of
        (Inl err, w3) \<Rightarrow> (Inl err, w3)
      | (Inr candidates, w3) \<Rightarrow>
      (case ds_ListCandidateExplanations src flt w3 of
        (Inl err, w4) \<Rightarrow> (Inl err, w4)
      | (Inr explanations, w4) \<Rightarrow>
      (case ds_ListWalletInspectionSummary src flt w4 of
        (Inl err, w5) \<Rightarrow> (Inl err, w5)
      | (Inr summaries, w5) \<Rightarrow>
          write_dataset sha fl opts (sortIngestionRuns runs)
            (artifacts sq (sortIngestionRuns runs) (sortWalletSyncRuns syncs) (sortPoisoningCandidates candidates)
              (sortCandidateExplanations explanations) (sortWalletInspectionSummary summaries)) w5))))))"

text \<open>\<open>PostgresStore\<close> as a source.\<close>

definition pg_source :: "sql_text \<Rightarrow> Pg DatasetSource" where
  "pg_source sq =
     \<lparr> ds_ListIngestionRuns = ListIngestionRunsForExport sq, ds_ListWalletSyncRuns = ListWalletSyncRunsForExport sq,
       ds_ListPoisoningCandidates = ListPoisoningCandidatesForExport sq,
       ds_ListCandidateExplanations = ListCandidateExplanationsForExport sq,
       ds_ListWalletInspectionSummary = ListWalletInspectionSummaryForExport sq \<rparr>"

end
