(* ===== verification/Core_Sync.thy ===== *)
theory Core_Sync
imports Injection_Spec Fetch_Spec
begin

text \<open>
  \<open>internal/pipeline/core.go\<close>: the two-window sync of one wallet, from the bounded fetches through
  normalization to the counterparties and candidates, with the reasons of an incomplete window.
\<close>

section \<open>Types\<close>

record CoreSyncParams =
  cs_FocalWalletAddress :: string
  cs_BaselineStart :: gotime
  cs_BaselineEnd :: gotime
  cs_ScanStart :: gotime
  cs_ScanEnd :: gotime
  cs_MaxTXPagesPerWallet :: int
  cs_MaxTXPerWallet :: int
  cs_MaxHeliusRetries :: int
  cs_HeliusRequestDelay :: duration
  cs_LookalikeRecencyDays :: int
  cs_LookalikePrefixMin :: int
  cs_LookalikeSuffixMin :: int
  cs_LookalikeSingleSideMin :: int
  cs_MinInjectionCount :: int
  cs_ClassifyDust :: "(NormalizedTransfer \<Rightarrow> DustStatus) option"

record CoreSyncResult =
  cr_BaselineTransfers :: "NormalizedTransfer list"
  cr_ScanTransfers :: "NormalizedTransfer list"
  cr_BaselineObservations :: "WalletTransferObservation list"
  cr_ScanObservations :: "WalletTransferObservation list"
  cr_Counterparties :: "(string \<times> Counterparty) list"
  cr_Candidates :: "PoisoningCandidate list"
  cr_BaselineComplete :: bool
  cr_IncompleteWindow :: bool
  cr_UnknownGateReason :: string
  cr_BaselineTruncation :: string
  cr_ScanTruncation :: string
  cr_TransactionsFetched :: int
  cr_TransactionsFailedNormalize :: int
  cr_OwnerUnresolvedCount :: int
  cr_UnsupportedAssetCount :: int
  cr_DecimalsUnresolvedCount :: int
  cr_UnknownGateBlockCount :: int
  cr_CandidateBlockCount :: int
  cr_RetryExhausted :: bool

record normalizeWindowResult =
  nw_Transfers :: "NormalizedTransfer list"
  nw_Observations :: "WalletTransferObservation list"
  nw_FetchedTx :: int
  nw_FailedNormalize :: int
  nw_OwnerUnresolved :: int
  nw_UnsupportedAsset :: int
  nw_DecimalsUnresolved :: int

section \<open>Parameter checks\<close>

definition ValidateCoreSyncParams :: "CoreSyncParams \<Rightarrow> go_error option" where
  "ValidateCoreSyncParams p =
     (if trim_space (cs_FocalWalletAddress p) = [] then Some (Err ''focal wallet address is required'')
      else if \<not> cs_BaselineStart p < cs_BaselineEnd p \<or> \<not> cs_ScanStart p < cs_ScanEnd p
      then Some (Err ''invalid baseline/scan windows'')
      else if cs_BaselineEnd p \<noteq> cs_ScanStart p then Some (Err ''baseline end must equal scan start'')
      else if cs_MaxTXPagesPerWallet p < 1 then Some (Err ''max tx pages per wallet must be >= 1'')
      else if cs_MaxTXPerWallet p < 1 then Some (Err ''max tx per wallet must be >= 1'')
      else if cs_MaxHeliusRetries p < 0 then Some (Err ''max helius retries must be >= 0'')
      else if cs_HeliusRequestDelay p < 0 then Some (Err ''helius request delay must be >= 0'')
      else validateLookalikeAndInjectionParams (cs_LookalikeRecencyDays p) (cs_LookalikePrefixMin p)
             (cs_LookalikeSuffixMin p) (cs_LookalikeSingleSideMin p) (cs_MinInjectionCount p))"

section \<open>Normalization of a window\<close>

text \<open>One transfer: classified, stored, counted, and observed if it concerns the focal wallet.\<close>

definition add_transfer ::
  "string \<Rightarrow> (NormalizedTransfer \<Rightarrow> DustStatus) option \<Rightarrow> normalizeWindowResult \<Rightarrow> NormalizedTransfer
     \<Rightarrow> normalizeWindowResult" where
  "add_transfer focalWallet classifyDust out tr0 =
     (let tr = (case classifyDust of None \<Rightarrow> tr0 | Some f \<Rightarrow> tr0\<lparr> tr_DustStatus := f tr0 \<rparr>);
          out1 = out\<lparr> nw_Transfers := nw_Transfers out @ [tr],
            nw_FailedNormalize := nw_FailedNormalize out +
              (if tr_NormalizationStatus tr \<noteq> NormalizationResolved then 1 else 0),
            nw_OwnerUnresolved := nw_OwnerUnresolved out +
              (if tr_NormalizationStatus tr = NormalizationUnresolvedOwner then 1 else 0),
            nw_UnsupportedAsset := nw_UnsupportedAsset out +
              (if tr_NormalizationStatus tr = NormalizationUnsupportedAsset then 1 else 0),
            nw_DecimalsUnresolved := nw_DecimalsUnresolved out +
              (if tr_AssetType tr = AssetTypeSPLFungible \<and> tr_Decimals tr = None then 1 else 0) \<rparr>
      in case MapWalletRelation focalWallet tr of
           None \<Rightarrow> out1
         | Some mapping \<Rightarrow> out1\<lparr> nw_Observations := nw_Observations out1 @
             [\<lparr> obs_Transfer = tr, obs_RelationType = rm_RelationType mapping,
                obs_CounterpartyAddress = rm_CounterpartyAddress mapping \<rparr>] \<rparr>)"

fun normalize_txs ::
  "(string \<Rightarrow> string) \<Rightarrow> string \<Rightarrow> (NormalizedTransfer \<Rightarrow> DustStatus) option \<Rightarrow> normalizeWindowResult
     \<Rightarrow> EnhancedTransaction list \<Rightarrow> go_error + normalizeWindowResult" where
  "normalize_txs sha focalWallet classifyDust out [] = Inr out"
| "normalize_txs sha focalWallet classifyDust out (tx # txs) =
     and_then (NormalizeEnhancedTx sha tx) (\<lambda>normalized.
       normalize_txs sha focalWallet classifyDust (foldl (add_transfer focalWallet classifyDust) out normalized) txs)"

definition normalizeWindow ::
  "(string \<Rightarrow> string) \<Rightarrow> string \<Rightarrow> EnhancedTransaction list \<Rightarrow> (NormalizedTransfer \<Rightarrow> DustStatus) option
     \<Rightarrow> go_error + normalizeWindowResult" where
  "normalizeWindow sha focalWallet txs classifyDust =
     normalize_txs sha focalWallet classifyDust
       \<lparr> nw_Transfers = [], nw_Observations = [], nw_FetchedTx = int (length txs), nw_FailedNormalize = 0,
         nw_OwnerUnresolved = 0, nw_UnsupportedAsset = 0, nw_DecimalsUnresolved = 0 \<rparr> txs"

section \<open>Counterparties and reasons\<close>

definition observation_event :: "WalletTransferObservation \<Rightarrow> Event" where
  "observation_event obs =
     \<lparr> ev_FocalWalletID = 0, ev_CounterpartyAddress = trim_space (obs_CounterpartyAddress obs),
       ev_RelationType = obs_RelationType obs, ev_OccurredAt = tr_BlockTime (obs_Transfer obs) \<rparr>"

definition apply_observation ::
  "(string \<times> Counterparty) list \<Rightarrow> WalletTransferObservation \<Rightarrow> (string \<times> Counterparty) list" where
  "apply_observation st obs =
     (let cpAddr = trim_space (obs_CounterpartyAddress obs) in
      if cpAddr = [] then st
      else let cp = map_get zero_counterparty st cpAddr;
               cp1 = (if cp_CounterpartyAddress cp = [] then cp\<lparr> cp_CounterpartyAddress := cpAddr \<rparr> else cp)
        in map_set cpAddr (ApplyEvent cp1 (observation_event obs)) st)"

definition applyObservationsToCounterparties ::
  "(string \<times> Counterparty) list \<Rightarrow> WalletTransferObservation list \<Rightarrow> (string \<times> Counterparty) list" where
  "applyObservationsToCounterparties st observations = foldl apply_observation st observations"

definition truncationReason :: "string \<Rightarrow> string \<Rightarrow> string" where
  "truncationReason window code =
     (if trim_space code = [] then [] else window @ ''_truncation:'' @ code)"

definition mergeReasons :: "string list \<Rightarrow> string" where
  "mergeReasons reasons =
     join '';'' (sort (foldl (\<lambda>uniq reason.
       if trim_space reason = [] then uniq else set_add (trim_space reason) uniq) [] reasons))"

section \<open>The sync\<close>

definition fetch_params :: "CoreSyncParams \<Rightarrow> gotime \<Rightarrow> gotime \<Rightarrow> FetchWindowParams" where
  "fetch_params p s e =
     \<lparr> fp_Start = s, fp_End = e, fp_MaxPages = cs_MaxTXPagesPerWallet p, fp_MaxTx = cs_MaxTXPerWallet p,
       fp_MaxRetries = cs_MaxHeliusRetries p, fp_RequestDelay = cs_HeliusRequestDelay p \<rparr>"

definition materialize_params :: "CoreSyncParams \<Rightarrow> bool \<Rightarrow> CandidateMaterializeParams" where
  "materialize_params p baselineComplete =
     \<lparr> mp_BaselineComplete = baselineComplete, mp_LookalikeRecencyDays = cs_LookalikeRecencyDays p,
       mp_LookalikePrefixMin = cs_LookalikePrefixMin p, mp_LookalikeSuffixMin = cs_LookalikeSuffixMin p,
       mp_LookalikeSingleSideMin = cs_LookalikeSingleSideMin p, mp_MinInjectionCount = cs_MinInjectionCount p \<rparr>"

text \<open>What the sync makes of the two fetches and the two normalized windows.\<close>

definition core_result ::
  "CoreSyncParams \<Rightarrow> FetchWindowResult \<Rightarrow> FetchWindowResult \<Rightarrow> normalizeWindowResult \<Rightarrow> normalizeWindowResult
     \<Rightarrow> CoreSyncResult" where
  "core_result p baselineFetch scanFetch baselineNormalized scanNormalized =
     (let cpState = applyObservationsToCounterparties
            (applyObservationsToCounterparties [] (nw_Observations baselineNormalized)) (nw_Observations scanNormalized);
          baselineComplete = (\<not> fr_Partial baselineFetch);
          materialized = MaterializeCandidates (nw_Observations baselineNormalized) (nw_Observations scanNormalized)
            (materialize_params p baselineComplete);
          incomplete = (fr_Partial baselineFetch \<or> fr_Partial scanFetch \<or> mr_IncompleteWindow materialized);
          reason = mergeReasons [mr_UnknownGateReason materialized,
            truncationReason ''baseline'' (fr_TruncationCode baselineFetch),
            truncationReason ''scan'' (fr_TruncationCode scanFetch)]
      in \<lparr> cr_BaselineTransfers = nw_Transfers baselineNormalized,
           cr_ScanTransfers = nw_Transfers scanNormalized,
           cr_BaselineObservations = nw_Observations baselineNormalized,
           cr_ScanObservations = nw_Observations scanNormalized,
           cr_Counterparties = cpState,
           cr_Candidates = mr_Candidates materialized,
           cr_BaselineComplete = baselineComplete,
           cr_IncompleteWindow = incomplete,
           cr_UnknownGateReason = reason,
           cr_BaselineTruncation = fr_TruncationCode baselineFetch,
           cr_ScanTruncation = fr_TruncationCode scanFetch,
           cr_TransactionsFetched = nw_FetchedTx baselineNormalized + nw_FetchedTx scanNormalized,
           cr_TransactionsFailedNormalize = nw_FailedNormalize baselineNormalized + nw_FailedNormalize scanNormalized,
           cr_OwnerUnresolvedCount = nw_OwnerUnresolved baselineNormalized + nw_OwnerUnresolved scanNormalized,
           cr_UnsupportedAssetCount = nw_UnsupportedAsset baselineNormalized + nw_UnsupportedAsset scanNormalized,
           cr_DecimalsUnresolvedCount = nw_DecimalsUnresolved baselineNormalized + nw_DecimalsUnresolved scanNormalized,
           cr_UnknownGateBlockCount = mr_UnknownGateBlocks materialized,
           cr_CandidateBlockCount = mr_CandidateBlocks materialized,
           cr_RetryExhausted = (fr_RetryExhausted baselineFetch \<or> fr_RetryExhausted scanFetch) \<rparr>)"

definition RunWalletCoreSync ::
  "(string \<Rightarrow> string) \<Rightarrow> 'w env option \<Rightarrow> CoreSyncParams \<Rightarrow> 'w \<Rightarrow> (go_error + CoreSyncResult) \<times> 'w" where
  "RunWalletCoreSync sha client p w =
     (case ValidateCoreSyncParams p of Some err \<Rightarrow> (Inl err, w)
      | None \<Rightarrow>
      if Option.is_none client then (Inl (Err ''helius client is required''), w)
      else
      (case FetchEnhancedWindow client (cs_FocalWalletAddress p)
              (fetch_params p (cs_BaselineStart p) (cs_BaselineEnd p)) w of
        ((_, Some err), w1) \<Rightarrow> (Inl (Wrapped ''fetch baseline enhanced tx: '' err []), w1)
      | ((baselineFetch, None), w1) \<Rightarrow>
      (case FetchEnhancedWindow client (cs_FocalWalletAddress p)
              (fetch_params p (cs_ScanStart p) (cs_ScanEnd p)) w1 of
        ((_, Some err), w2) \<Rightarrow> (Inl (Wrapped ''fetch scan enhanced tx: '' err []), w2)
      | ((scanFetch, None), w2) \<Rightarrow>
      (case normalizeWindow sha (cs_FocalWalletAddress p) (fr_Transactions baselineFetch) (cs_ClassifyDust p) of
        Inl err \<Rightarrow> (Inl (Wrapped ''normalize baseline transfers: '' err []), w2)
      | Inr baselineNormalized \<Rightarrow>
      (case normalizeWindow sha (cs_FocalWalletAddress p) (fr_Transactions scanFetch) (cs_ClassifyDust p) of
        Inl err \<Rightarrow> (Inl (Wrapped ''normalize scan transfers: '' err []), w2)
      | Inr scanNormalized \<Rightarrow>
          (Inr (core_result p baselineFetch scanFetch baselineNormalized scanNormalized), w2))))))"

section \<open>A sync that succeeds\<close>

lemma core_sync_InrD:
  assumes "RunWalletCoreSync sha client p w = (Inr r, w')"
  obtains E bf w1 sf bn sn where "ValidateCoreSyncParams p = None" and "client = Some E"
    and "FetchEnhancedWindow client (cs_FocalWalletAddress p)
           (fetch_params p (cs_BaselineStart p) (cs_BaselineEnd p)) w = ((bf, None), w1)"
    and "FetchEnhancedWindow client (cs_FocalWalletAddress p)
           (fetch_params p (cs_ScanStart p) (cs_ScanEnd p)) w1 = ((sf, None), w')"
    and "normalizeWindow sha (cs_FocalWalletAddress p) (fr_Transactions bf) (cs_ClassifyDust p) = Inr bn"
    and "normalizeWindow sha (cs_FocalWalletAddress p) (fr_Transactions sf) (cs_ClassifyDust p) = Inr sn"
    and "r = core_result p bf sf bn sn"
  using assms
  by (auto simp: RunWalletCoreSync_def Option.is_none_def split: option.splits prod.splits sum.splits if_splits)

lemma valid_core_params:
  assumes "ValidateCoreSyncParams p = None"
  shows "1 \<le> cs_MaxTXPagesPerWallet p" "1 \<le> cs_MaxTXPerWallet p" "cs_BaselineStart p < cs_BaselineEnd p"
    "cs_BaselineEnd p = cs_ScanStart p" "cs_ScanStart p < cs_ScanEnd p"
    "ValidateCandidateMaterializeParams (materialize_params p b) = None"
    "trim_space (cs_FocalWalletAddress p) \<noteq> []"
  using assms
  by (auto simp: ValidateCoreSyncParams_def ValidateCandidateMaterializeParams_def materialize_params_def
      split: if_splits)

text \<open>The windows of a normalization: what it stores and observes is determined transfer by transfer.\<close>

definition classified :: "(NormalizedTransfer \<Rightarrow> DustStatus) option \<Rightarrow> NormalizedTransfer \<Rightarrow> NormalizedTransfer" where
  "classified classifyDust tr = (case classifyDust of None \<Rightarrow> tr | Some f \<Rightarrow> tr\<lparr> tr_DustStatus := f tr \<rparr>)"

definition observe :: "string \<Rightarrow> NormalizedTransfer \<Rightarrow> WalletTransferObservation option" where
  "observe focal tr = map_option (\<lambda>m. \<lparr> obs_Transfer = tr, obs_RelationType = rm_RelationType m,
     obs_CounterpartyAddress = rm_CounterpartyAddress m \<rparr>) (MapWalletRelation focal tr)"

lemma add_transfer_fields [simp]:
  "nw_Transfers (add_transfer focal cl out tr) = nw_Transfers out @ [classified cl tr]"
  "nw_Observations (add_transfer focal cl out tr) =
     nw_Observations out @ (case observe focal (classified cl tr) of None \<Rightarrow> [] | Some obs \<Rightarrow> [obs])"
  "nw_FetchedTx (add_transfer focal cl out tr) = nw_FetchedTx out"
  by (simp_all add: add_transfer_def classified_def observe_def Let_def split: option.splits)

lemma foldl_add_transfer:
  "nw_Transfers (foldl (add_transfer focal cl) out trs) = nw_Transfers out @ map (classified cl) trs"
  "nw_Observations (foldl (add_transfer focal cl) out trs) =
     nw_Observations out @ List.map_filter (observe focal) (map (classified cl) trs)"
  by (induction trs arbitrary: out) (simp_all add: List.map_filter_simps split: option.split)

definition normalized_of :: "(string \<Rightarrow> string) \<Rightarrow> EnhancedTransaction \<Rightarrow> NormalizedTransfer list" where
  "normalized_of sha tx = (case NormalizeEnhancedTx sha tx of Inr trs \<Rightarrow> trs | Inl _ \<Rightarrow> [])"

lemma map_filter_append: "List.map_filter f (xs @ ys) = List.map_filter f xs @ List.map_filter f ys"
  by (induction xs) (simp_all add: List.map_filter_simps split: option.split)

lemma normalize_txs_Inr:
  "normalize_txs sha focal cl out txs = Inr nw \<Longrightarrow>
     nw_Transfers nw = nw_Transfers out @ map (classified cl) (concat (map (normalized_of sha) txs)) \<and>
     nw_Observations nw = nw_Observations out @
       List.map_filter (observe focal) (map (classified cl) (concat (map (normalized_of sha) txs))) \<and>
     (\<forall>tx \<in> set txs. \<exists>trs. NormalizeEnhancedTx sha tx = Inr trs)"
proof (induction txs arbitrary: out)
  case (Cons tx txs)
  then obtain trs where n: "NormalizeEnhancedTx sha tx = Inr trs"
    and "normalize_txs sha focal cl (foldl (add_transfer focal cl) out trs) txs = Inr nw"
    by (auto simp: and_then_Inr)
  from Cons.IH [OF this(2)] n show ?case
    by (simp add: foldl_add_transfer normalized_of_def map_filter_append)
qed (simp add: List.map_filter_simps)

lemma normalizeWindow_Inr:
  assumes "normalizeWindow sha focal txs cl = Inr nw"
  shows "nw_Transfers nw = map (classified cl) (concat (map (normalized_of sha) txs))"
    and "nw_Observations nw = List.map_filter (observe focal) (map (classified cl) (concat (map (normalized_of sha) txs)))"
    and "tx \<in> set txs \<Longrightarrow> \<exists>trs. NormalizeEnhancedTx sha tx = Inr trs"
  using normalize_txs_Inr [OF assms [unfolded normalizeWindow_def]] by simp_all

section \<open>Reasons\<close>

definition reason_set :: "string list \<Rightarrow> string set" where
  "reason_set reasons = trim_space ` set reasons - {[]}"

lemma mergeReasons_eq: "mergeReasons reasons = join '';'' (sorted_list_of_set (reason_set reasons))"
proof -
  have u: "set (foldl (\<lambda>uniq reason. if trim_space reason = [] then uniq else set_add (trim_space reason) uniq) u rs)
        = set u \<union> reason_set rs \<and>
      (distinct u \<longrightarrow> distinct (foldl (\<lambda>uniq reason. if trim_space reason = [] then uniq else set_add (trim_space reason) uniq) u rs))"
    for u rs
    by (induction rs arbitrary: u) (auto simp: reason_set_def)
  show ?thesis
    using u [of "[]" reasons] by (simp add: mergeReasons_def sort_distinct)
qed

lemma reason_set_finite [simp]: "finite (reason_set reasons)"
  by (simp add: reason_set_def)

lemma mergeReasons_Nil: "mergeReasons reasons = [] \<longleftrightarrow> reason_set reasons = {}"
proof
  assume "mergeReasons reasons = []"
  then have "sorted_list_of_set (reason_set reasons) = [] \<or> sorted_list_of_set (reason_set reasons) = [[]]"
    by (simp add: mergeReasons_eq join_eq_Nil)
  moreover have "[] \<notin> reason_set reasons" by (simp add: reason_set_def)
  then have "[] \<notin> set (sorted_list_of_set (reason_set reasons))" by simp
  ultimately show "reason_set reasons = {}"
    by (metis list.set_intros(1) reason_set_finite sorted_list_of_set_eq_Nil_iff)
qed (simp add: mergeReasons_eq)

definition plain_reason :: "string \<Rightarrow> bool" where
  "plain_reason r \<longleftrightarrow> r = [] \<or> visible_ends r"

lemma plain_trim: "plain_reason r \<Longrightarrow> trim_space r = r"
  by (auto simp: plain_reason_def trim_visible)

lemma mergeReasons_plain:
  assumes "\<forall>r \<in> set reasons. plain_reason r"
  shows "plain_reason (mergeReasons reasons)" and "mergeReasons reasons = [] \<longleftrightarrow> (\<forall>r \<in> set reasons. r = [])"
proof -
  have rs: "reason_set reasons = set reasons - {[]}"
    using assms plain_trim by (force simp: reason_set_def)
  then show "mergeReasons reasons = [] \<longleftrightarrow> (\<forall>r \<in> set reasons. r = [])"
    unfolding mergeReasons_Nil by auto
  show "plain_reason (mergeReasons reasons)"
  proof (cases "reason_set reasons = {}")
    case True
    then show ?thesis by (simp add: plain_reason_def mergeReasons_Nil)
  next
    case False
    then have "visible_ends (mergeReasons reasons)"
      unfolding mergeReasons_eq using assms
      by (intro visible_ends_join) (auto simp: rs plain_reason_def)
    then show ?thesis by (simp add: plain_reason_def)
  qed
qed

definition truncation_codes :: "string set" where
  "truncation_codes = {[], ''max_tx_pages_per_wallet_reached'', ''max_tx_per_wallet_reached'', ''helius_retry_exhausted''}"

lemma truncationReason_plain:
  assumes "code \<in> truncation_codes"
    and "visible_ends window"
  shows "plain_reason (truncationReason window code)" and "truncationReason window code = [] \<longleftrightarrow> code = []"
proof -
  have "code = [] \<or> visible_ends code"
    using assms(1) by (auto simp: truncation_codes_def visible_ends_def visible_def less_eq_char_def)
  then show "plain_reason (truncationReason window code)" "truncationReason window code = [] \<longleftrightarrow> code = []"
    using assms(2) visible_ends_append [of window code "''_truncation:''"]
    by (auto simp: truncationReason_def plain_reason_def trim_visible visible_ends_def)
qed

lemma materialized_reason:
  fixes bs ss :: "WalletTransferObservation list"
  assumes "ValidateCandidateMaterializeParams p = None"
  defines "r \<equiv> MaterializeCandidates bs ss p"
  shows "plain_reason (mr_UnknownGateReason r)" and "mr_UnknownGateReason r = [] \<longleftrightarrow> \<not> mr_IncompleteWindow r"
proof -
  have "visible_ends (mr_UnknownGateReason r)" if "mr_IncompleteWindow r"
    unfolding r_def using assms(1) that [unfolded r_def] by (rule materialized_reason_visible)
  moreover have "mr_UnknownGateReason r = []" if "\<not> mr_IncompleteWindow r"
    using that by (auto simp: r_def MaterializeCandidates_fields [OF assms(1)])
  ultimately show "plain_reason (mr_UnknownGateReason r)" "mr_UnknownGateReason r = [] \<longleftrightarrow> \<not> mr_IncompleteWindow r"
    by (auto simp: plain_reason_def visible_ends_def)
qed

section \<open>Observations\<close>

lemma in_map_filter: "y \<in> set (List.map_filter f xs) \<longleftrightarrow> (\<exists>x \<in> set xs. f x = Some y)"
  by (induction xs) (auto simp: List.map_filter_simps split: option.splits)

lemma classified_simps [simp]:
  "tr_BlockTime (classified cl tr) = tr_BlockTime tr" "tr_Signature (classified cl tr) = tr_Signature tr"
  "tr_TransferFingerprint (classified cl tr) = tr_TransferFingerprint tr"
  by (simp_all add: classified_def split: option.splits)

lemma observe_SomeD:
  assumes "observe focal tr = Some obs"
  shows "obs_Transfer obs = tr \<and> obs_CounterpartyAddress obs \<noteq> [] \<and>
    obs_CounterpartyAddress obs \<noteq> trim_space focal \<and>
    trim_space (obs_CounterpartyAddress obs) = obs_CounterpartyAddress obs"
  using assms MapWalletRelation_SomeD [of focal tr] by (auto simp: observe_def)

lemma window_observations:
  assumes "normalizeWindow sha focal txs cl = Inr nw" and "list_all (in_window q) txs"
    and "obs \<in> set (nw_Observations nw)" and "0 < fp_Start q"
  shows "wf_obs obs"
proof -
  obtain tx tr where tx: "tx \<in> set txs" and tr: "tr \<in> set (normalized_of sha tx)"
    and o: "observe focal (classified cl tr) = Some obs"
    using assms(3) unfolding normalizeWindow_Inr(2) [OF assms(1)] in_map_filter by auto
  obtain trs where "NormalizeEnhancedTx sha tx = Inr trs"
    using normalizeWindow_Inr(3) [OF assms(1) tx] by blast
  with tr have "tr_BlockTime tr = BlockTimeUTC tx"
    using normalize_signature by (simp add: normalized_of_def)
  moreover have "fp_Start q \<le> BlockTimeUTC tx"
    using assms(2) tx by (simp add: list_all_iff in_window_def)
  ultimately show ?thesis
    using observe_SomeD [OF o] assms(4) by (simp add: wf_obs_def)
qed

text \<open>What a successful sync knows of its two fetches.\<close>

lemma core_fetches:
  assumes "RunWalletCoreSync sha client p w = (Inr r, w')"
  obtains bf sf bn sn where "r = core_result p bf sf bn sn"
    and "fetch_good (fetch_params p (cs_BaselineStart p) (cs_BaselineEnd p)) bf"
    and "fetch_good (fetch_params p (cs_ScanStart p) (cs_ScanEnd p)) sf"
    and "normalizeWindow sha (cs_FocalWalletAddress p) (fr_Transactions bf) (cs_ClassifyDust p) = Inr bn"
    and "normalizeWindow sha (cs_FocalWalletAddress p) (fr_Transactions sf) (cs_ClassifyDust p) = Inr sn"
    and "ValidateCoreSyncParams p = None"
proof -
  from core_sync_InrD [OF assms] obtain E bf w1 sf bn sn where d:
    "ValidateCoreSyncParams p = None"
    "FetchEnhancedWindow client (cs_FocalWalletAddress p) (fetch_params p (cs_BaselineStart p) (cs_BaselineEnd p)) w = ((bf, None), w1)"
    "FetchEnhancedWindow client (cs_FocalWalletAddress p) (fetch_params p (cs_ScanStart p) (cs_ScanEnd p)) w1 = ((sf, None), w')"
    "normalizeWindow sha (cs_FocalWalletAddress p) (fr_Transactions bf) (cs_ClassifyDust p) = Inr bn"
    "normalizeWindow sha (cs_FocalWalletAddress p) (fr_Transactions sf) (cs_ClassifyDust p) = Inr sn"
    "r = core_result p bf sf bn sn" by metis
  have "1 \<le> fp_MaxTx (fetch_params p s e)" for s e
    using valid_core_params(2) [OF d(1)] by (simp add: fetch_params_def)
  then show thesis
    using that [OF d(6) _ _ d(4,5,1)] fetch_window_good [OF d(2)] fetch_window_good [OF d(3)] by blast
qed

section \<open>Counterparties of a sync\<close>

lemma ApplyEvent_address:
  "ApplyEvent (cp\<lparr> cp_CounterpartyAddress := a \<rparr>) e = (ApplyEvent cp e)\<lparr> cp_CounterpartyAddress := a \<rparr>"
  by (rule Counterparty.equality) simp_all

definition entry :: "string \<Rightarrow> WalletTransferObservation list \<Rightarrow> Counterparty option" where
  "entry a obss = (if from_to a obss = [] then None
     else Some ((summary (map observation_event (from_to a obss)))\<lparr> cp_CounterpartyAddress := a \<rparr>))"

lemma summary_address [simp]: "cp_CounterpartyAddress (summary es) = []"
  by (simp add: summary_def zero_counterparty_def)

lemma apply_observations_entry:
  assumes "\<forall>obs \<in> set obss. trim_space (obs_CounterpartyAddress obs) = obs_CounterpartyAddress obs \<and> obs_CounterpartyAddress obs \<noteq> []"
  shows "map_of (foldl apply_observation [] obss) a = entry a obss"
  using assms
proof (induction obss arbitrary: a rule: rev_induct)
  case Nil
  then show ?case by (simp add: entry_def from_to_def)
next
  case (snoc obs obss)
  let ?a = "obs_CounterpartyAddress obs" and ?m = "foldl apply_observation [] obss"
    and ?es = "map observation_event (from_to (obs_CounterpartyAddress obs) obss)"
  have wf: "trim_space ?a = ?a" "?a \<noteq> []" using snoc.prems by simp_all
  have m: "map_of ?m b = entry b obss" for b using snoc by simp
  define cp where "cp = map_get zero_counterparty ?m ?a"
  have "(if cp_CounterpartyAddress cp = [] then cp\<lparr> cp_CounterpartyAddress := ?a \<rparr> else cp)
      = (summary ?es)\<lparr> cp_CounterpartyAddress := ?a \<rparr>"
    using wf by (simp add: cp_def map_get_def m entry_def summary_Nil) (simp add: zero_counterparty_def)
  then have "foldl apply_observation [] (obss @ [obs]) =
      map_set ?a ((summary (?es @ [observation_event obs]))\<lparr> cp_CounterpartyAddress := ?a \<rparr>) ?m"
    using wf by (simp add: apply_observation_def Let_def cp_def [symmetric] ApplyEvent_address summary_snoc)
  then show ?case by (simp add: m entry_def from_to_snoc)
qed

lemma observations_trimmed:
  assumes "normalizeWindow sha focal txs cl = Inr nw" and "obs \<in> set (nw_Observations nw)"
  shows "trim_space (obs_CounterpartyAddress obs) = obs_CounterpartyAddress obs \<and> obs_CounterpartyAddress obs \<noteq> []"
  using assms(2) observe_SomeD unfolding normalizeWindow_Inr(2) [OF assms(1)] in_map_filter by blast

text \<open>What a result says about its own completeness.\<close>

lemma core_reasons:
  assumes "RunWalletCoreSync sha client p w = (Inr r, w')"
  shows "plain_reason (cr_UnknownGateReason r)"
    and "cr_IncompleteWindow r \<longleftrightarrow> cr_UnknownGateReason r \<noteq> []"
    and "cr_BaselineComplete r \<longleftrightarrow> cr_BaselineTruncation r = []"
    and "cr_BaselineTruncation r \<noteq> [] \<or> cr_ScanTruncation r \<noteq> [] \<Longrightarrow> cr_IncompleteWindow r"
    and "cr_RetryExhausted r \<Longrightarrow> cr_IncompleteWindow r"
    and "\<not> cr_BaselineComplete r \<Longrightarrow> cr_Candidates r = []"
    and "cr_BaselineTruncation r \<in> truncation_codes" and "cr_ScanTruncation r \<in> truncation_codes"
proof -
  obtain bf sf bn sn where r: "r = core_result p bf sf bn sn"
    and good: "fetch_good (fetch_params p (cs_BaselineStart p) (cs_BaselineEnd p)) bf"
      "fetch_good (fetch_params p (cs_ScanStart p) (cs_ScanEnd p)) sf"
    and v: "ValidateCoreSyncParams p = None"
    using core_fetches [OF assms] by metis
  define m where "m = MaterializeCandidates (nw_Observations bn) (nw_Observations sn) (materialize_params p (\<not> fr_Partial bf))"
  let ?rs = "[mr_UnknownGateReason m, truncationReason ''baseline'' (fr_TruncationCode bf),
      truncationReason ''scan'' (fr_TruncationCode sf)]"
  note mv = valid_core_params(6) [OF v, of "\<not> fr_Partial bf"]
  have vis: "visible_ends ''baseline''" "visible_ends ''scan''"
    by (simp_all add: visible_ends_def visible_def less_eq_char_def)
  have codes: "fr_TruncationCode f \<in> truncation_codes"
    "fr_Partial f \<longleftrightarrow> fr_TruncationCode f \<noteq> []" "fr_RetryExhausted f \<longrightarrow> fr_Partial f"
    if "fetch_good q f" for q f using that by (auto simp: fetch_good_def truncation_codes_def)
  have mreason: "plain_reason (mr_UnknownGateReason m)" "mr_UnknownGateReason m = [] \<longleftrightarrow> \<not> mr_IncompleteWindow m"
    unfolding m_def by (rule materialized_reason [OF mv])+
  have plain: "\<forall>x \<in> set ?rs. plain_reason x"
    using mreason(1) truncationReason_plain(1) [OF codes(1)] good vis by simp
  have "mergeReasons ?rs = [] \<longleftrightarrow> \<not> (fr_Partial bf \<or> fr_Partial sf \<or> mr_IncompleteWindow m)"
    using mergeReasons_plain(2) [OF plain] mreason(2) codes(2) [OF good(1)] codes(2) [OF good(2)]
      truncationReason_plain(2) [OF codes(1) [OF good(1)] vis(1)]
      truncationReason_plain(2) [OF codes(1) [OF good(2)] vis(2)]
    by auto
  moreover have "mr_Candidates m = []" if "fr_Partial bf"
    unfolding m_def using that by (intro blocks_none [OF mv]) (simp add: materialize_params_def)
  moreover have "cr_IncompleteWindow r \<longleftrightarrow> fr_Partial bf \<or> fr_Partial sf \<or> mr_IncompleteWindow m"
    "cr_UnknownGateReason r = mergeReasons ?rs" "cr_Candidates r = mr_Candidates m"
    "cr_BaselineComplete r \<longleftrightarrow> \<not> fr_Partial bf" "cr_BaselineTruncation r = fr_TruncationCode bf"
    "cr_ScanTruncation r = fr_TruncationCode sf" "cr_RetryExhausted r \<longleftrightarrow> fr_RetryExhausted bf \<or> fr_RetryExhausted sf"
    by (simp_all add: r core_result_def Let_def m_def)
  ultimately show "plain_reason (cr_UnknownGateReason r)"
    and "cr_IncompleteWindow r \<longleftrightarrow> cr_UnknownGateReason r \<noteq> []"
    and "cr_BaselineComplete r \<longleftrightarrow> cr_BaselineTruncation r = []"
    and "cr_BaselineTruncation r \<noteq> [] \<or> cr_ScanTruncation r \<noteq> [] \<Longrightarrow> cr_IncompleteWindow r"
    and "cr_RetryExhausted r \<Longrightarrow> cr_IncompleteWindow r"
    and "\<not> cr_BaselineComplete r \<Longrightarrow> cr_Candidates r = []"
    and "cr_BaselineTruncation r \<in> truncation_codes" and "cr_ScanTruncation r \<in> truncation_codes"
    using codes [OF good(1)] codes [OF good(2)] mergeReasons_plain(1) [OF plain] by auto
qed

section \<open>Properties\<close>

text \<open>C21. A sync that returns a result explains itself: the window is incomplete exactly when the reason is
  not blank, a truncated baseline is never complete, any truncation makes the window incomplete, and
  without a complete baseline there is no candidate.\<close>

theorem incomplete_has_reason:
  assumes "RunWalletCoreSync sha client p w = (Inr r, w')"
  shows "(cr_IncompleteWindow r \<longleftrightarrow> trim_space (cr_UnknownGateReason r) \<noteq> []) \<and>
    (cr_BaselineComplete r \<longleftrightarrow> cr_BaselineTruncation r = []) \<and>
    (cr_BaselineTruncation r \<noteq> [] \<or> cr_ScanTruncation r \<noteq> [] \<longrightarrow> cr_IncompleteWindow r) \<and>
    (cr_RetryExhausted r \<longrightarrow> cr_IncompleteWindow r) \<and>
    (\<not> cr_BaselineComplete r \<longrightarrow> cr_Candidates r = [])"
  using core_reasons [OF assms] plain_trim by simp

text \<open>C3. The candidates of a sync are the poisoning injections of its own observations: the specification of
  an injection holds end to end, from the provider's pages to the candidates.\<close>

theorem core_candidates:
  assumes "RunWalletCoreSync sha client p w = (Inr r, w')"
    and "0 < cs_BaselineStart p" and "cs_LookalikeRecencyDays p \<le> max_recency_days"
  defines "mp \<equiv> materialize_params p (cr_BaselineComplete r)"
  shows "list_all2
    (\<lambda>obs c. \<exists>l. injection mp (cr_BaselineObservations r) (cr_ScanObservations r) obs l \<and>
       c = injection_record (cr_BaselineObservations r) (cr_ScanObservations r) obs l)
    (filter (\<lambda>obs. \<exists>l. injection mp (cr_BaselineObservations r) (cr_ScanObservations r) obs l) (cr_ScanObservations r))
    (cr_Candidates r)"
proof -
  obtain bf sf bn sn where r: "r = core_result p bf sf bn sn"
    and good: "fetch_good (fetch_params p (cs_BaselineStart p) (cs_BaselineEnd p)) bf"
      "fetch_good (fetch_params p (cs_ScanStart p) (cs_ScanEnd p)) sf"
    and nb: "normalizeWindow sha (cs_FocalWalletAddress p) (fr_Transactions bf) (cs_ClassifyDust p) = Inr bn"
    and ns: "normalizeWindow sha (cs_FocalWalletAddress p) (fr_Transactions sf) (cs_ClassifyDust p) = Inr sn"
    and v: "ValidateCoreSyncParams p = None"
    using core_fetches [OF assms(1)] by metis
  have fields: "cr_BaselineObservations r = nw_Observations bn" "cr_ScanObservations r = nw_Observations sn"
    "cr_Candidates r = mr_Candidates (MaterializeCandidates (nw_Observations bn) (nw_Observations sn) mp)"
    by (simp_all add: r core_result_def Let_def mp_def)
  have starts: "0 < fp_Start (fetch_params p (cs_BaselineStart p) (cs_BaselineEnd p))"
    "0 < fp_Start (fetch_params p (cs_ScanStart p) (cs_ScanEnd p))"
    using assms(2) valid_core_params(3,4) [OF v] by (simp_all add: fetch_params_def)
  have inb: "list_all (in_window (fetch_params p (cs_BaselineStart p) (cs_BaselineEnd p))) (fr_Transactions bf)"
    and ins: "list_all (in_window (fetch_params p (cs_ScanStart p) (cs_ScanEnd p))) (fr_Transactions sf)"
    using good unfolding fetch_good_def by simp_all
  have "wf_obs obs" if "obs \<in> set (nw_Observations bn) \<union> set (nw_Observations sn)" for obs
    using that window_observations [OF nb inb _ starts(1)] window_observations [OF ns ins _ starts(2)] by blast
  then have "usable mp (nw_Observations bn) (nw_Observations sn)"
    using valid_core_params(6) [OF v] assms(3) by (auto simp: usable_def mp_def materialize_params_def)
  then show ?thesis unfolding fields by (rule injections_exact)
qed

text \<open>The counterparty map of a sync: an entry for exactly the addresses it observed, each the summary of
  all its events, baseline and scan together.\<close>

theorem core_counterparties:
  assumes "RunWalletCoreSync sha client p w = (Inr r, w')"
  shows "map_of (cr_Counterparties r) a =
    (let es = map observation_event (from_to a (cr_BaselineObservations r @ cr_ScanObservations r))
     in if es = [] then None else Some ((summary es)\<lparr> cp_CounterpartyAddress := a \<rparr>))"
proof -
  obtain bf sf bn sn where r: "r = core_result p bf sf bn sn"
    and nb: "normalizeWindow sha (cs_FocalWalletAddress p) (fr_Transactions bf) (cs_ClassifyDust p) = Inr bn"
    and ns: "normalizeWindow sha (cs_FocalWalletAddress p) (fr_Transactions sf) (cs_ClassifyDust p) = Inr sn"
    using core_fetches [OF assms] by metis
  have "cr_Counterparties r = foldl apply_observation [] (nw_Observations bn @ nw_Observations sn)"
    by (simp add: r core_result_def Let_def applyObservationsToCounterparties_def)
  moreover have "map_of (foldl apply_observation [] (nw_Observations bn @ nw_Observations sn)) a =
      entry a (nw_Observations bn @ nw_Observations sn)"
    using observations_trimmed [OF nb] observations_trimmed [OF ns] by (intro apply_observations_entry) auto
  ultimately show ?thesis by (simp add: r core_result_def Let_def entry_def)
qed

text \<open>C13. Against a provider that serves a newest-first history, a sync that is not incomplete has looked at
  everything: its baseline and scan transfers come from all the transactions of the two windows, each
  normalized and classified, none missing and none twice.\<close>

theorem core_complete:
  assumes "RunWalletCoreSync sha (Some E) p w = (Inr r, w')" and "\<not> cr_IncompleteWindow r"
    and "serves E (cs_FocalWalletAddress p) hist" and "newest_first hist"
  defines "window \<equiv> \<lambda>s e. filter (\<lambda>tx. s \<le> BlockTimeUTC tx \<and> BlockTimeUTC tx < e) hist"
  shows "cr_BaselineTransfers r = map (classified (cs_ClassifyDust p))
        (concat (map (normalized_of sha) (window (cs_BaselineStart p) (cs_BaselineEnd p)))) \<and>
    cr_ScanTransfers r = map (classified (cs_ClassifyDust p))
        (concat (map (normalized_of sha) (window (cs_ScanStart p) (cs_ScanEnd p))))"
proof -
  from core_sync_InrD [OF assms(1)] obtain bf w1 sf bn sn where d:
    "FetchEnhancedWindow (Some E) (cs_FocalWalletAddress p) (fetch_params p (cs_BaselineStart p) (cs_BaselineEnd p)) w = ((bf, None), w1)"
    "FetchEnhancedWindow (Some E) (cs_FocalWalletAddress p) (fetch_params p (cs_ScanStart p) (cs_ScanEnd p)) w1 = ((sf, None), w')"
    "normalizeWindow sha (cs_FocalWalletAddress p) (fr_Transactions bf) (cs_ClassifyDust p) = Inr bn"
    "normalizeWindow sha (cs_FocalWalletAddress p) (fr_Transactions sf) (cs_ClassifyDust p) = Inr sn"
    "r = core_result p bf sf bn sn" by metis
  have np: "\<not> fr_Partial bf" "\<not> fr_Partial sf" using assms(2) d(5) by (auto simp: core_result_def Let_def)
  have inw: "in_window (fetch_params p s e) = (\<lambda>tx. s \<le> BlockTimeUTC tx \<and> BlockTimeUTC tx < e)" for s e
    by (auto simp: fun_eq_iff in_window_def fetch_params_def)
  have "fr_Transactions bf = window (cs_BaselineStart p) (cs_BaselineEnd p)"
    using fetch_window_complete [OF assms(3,4) d(1)] np by (simp add: inw window_def)
  moreover have "fr_Transactions sf = window (cs_ScanStart p) (cs_ScanEnd p)"
    using fetch_window_complete [OF assms(3,4) d(2)] np by (simp add: inw window_def)
  ultimately show ?thesis
    using normalizeWindow_Inr(1) [OF d(3)] normalizeWindow_Inr(1) [OF d(4)]
    by (simp add: d(5) core_result_def Let_def)
qed

section \<open>Witnesses\<close>

text \<open>A wallet with one payment in the baseline and one zero transfer from a lookalike in the scan.\<close>

definition sample_chain :: "EnhancedTransaction list" where
  "sample_chain = map (\<lambda>(sig, t, src, dst, amount).
     \<lparr> tx_Signature = sig, tx_Slot = 0, tx_TimestampUnix = t, tx_TransactionError = None,
       tx_NativeTransfers = [\<lparr> nat_FromUserAccount = src, nat_ToUserAccount = dst, nat_Amount = amount \<rparr>],
       tx_TokenTransfers = [] \<rparr>)
     [(''s2'', 2100000, ''LegitXXXXess1'', ''wallet'', ''0''), (''s1'', 1900000, ''wallet'', ''LegitAddress1'', ''5000'')]"

definition sample_provider :: "unit env" where
  "sample_provider =
     \<lparr> env_FetchEnhancedPage = (\<lambda>w wallet before.
          (Inr \<lparr> page_Transactions = take 1 (after_sig before sample_chain), page_Before = [] \<rparr>, w)),
       env_sleepContext = (\<lambda>w d. (None, w)) \<rparr>"

definition sample_core_params :: CoreSyncParams where
  "sample_core_params =
     \<lparr> cs_FocalWalletAddress = ''wallet'', cs_BaselineStart = time_unix 1000000, cs_BaselineEnd = time_unix 2000000,
       cs_ScanStart = time_unix 2000000, cs_ScanEnd = time_unix 3000000, cs_MaxTXPagesPerWallet = 10,
       cs_MaxTXPerWallet = 50, cs_MaxHeliusRetries = 2, cs_HeliusRequestDelay = 0, cs_LookalikeRecencyDays = 30,
       cs_LookalikePrefixMin = 4, cs_LookalikeSuffixMin = 4, cs_LookalikeSingleSideMin = 6,
       cs_MinInjectionCount = 1,
       cs_ClassifyDust = Some (\<lambda>tr. if tr_AmountRaw tr = ''0'' then DustTrue else DustFalse) \<rparr>"

definition sample_core :: CoreSyncResult where
  "sample_core = (case fst (RunWalletCoreSync (\<lambda>s. s) (Some sample_provider) sample_core_params ()) of Inr r \<Rightarrow> r)"

lemma sample_core_run:
  "RunWalletCoreSync (\<lambda>s. s) (Some sample_provider) sample_core_params () = (Inr sample_core, ())"
proof -
  have "(case fst (RunWalletCoreSync (\<lambda>s. s) (Some sample_provider) sample_core_params ()) of Inr _ \<Rightarrow> True | _ \<Rightarrow> False)"
    by code_simp
  then show ?thesis
    by (cases "RunWalletCoreSync (\<lambda>s. s) (Some sample_provider) sample_core_params ()")
      (auto simp: sample_core_def split: sum.splits)
qed

lemma sample_core_facts:
  "\<not> cr_IncompleteWindow sample_core \<and> cr_BaselineComplete sample_core \<and> length (cr_Candidates sample_core) = 1 \<and>
   length (cr_ScanTransfers sample_core) = 1 \<and> map fst (cr_Counterparties sample_core) = [''LegitAddress1'', ''LegitXXXXess1'']"
  by code_simp

lemma sample_chain_facts:
  "newest_first sample_chain" "serves sample_provider wallet sample_chain"
  by (simp add: newest_first_def sample_chain_def BlockTimeUTC_def time_unix_def wrap64_id
        unix_to_internal_def min_int64_def max_int64_def nanos_per_second_def)
    (auto simp: serves_def sample_provider_def)

theorem incomplete_has_reason_witness: "trim_space (cr_UnknownGateReason sample_core) = []"
  using incomplete_has_reason [OF sample_core_run] sample_core_facts by blast

theorem core_candidates_witness:
  "\<exists>obs l. obs \<in> set (cr_ScanObservations sample_core) \<and>
     injection (materialize_params sample_core_params True) (cr_BaselineObservations sample_core) (cr_ScanObservations sample_core) obs l"
proof -
  have "0 < cs_BaselineStart sample_core_params" "cs_LookalikeRecencyDays sample_core_params \<le> max_recency_days"
    by code_simp+
  from list_all2_lengthD [OF core_candidates [OF sample_core_run this]] sample_core_facts
  have "filter (\<lambda>obs. \<exists>l. injection (materialize_params sample_core_params True) (cr_BaselineObservations sample_core)
      (cr_ScanObservations sample_core) obs l) (cr_ScanObservations sample_core) \<noteq> []"
    by auto
  then show ?thesis unfolding filter_empty_conv by blast
qed

theorem core_counterparties_witness:
  "from_to ''LegitAddress1'' (cr_BaselineObservations sample_core @ cr_ScanObservations sample_core) \<noteq> []"
proof -
  have "map_of (cr_Counterparties sample_core) ''LegitAddress1'' \<noteq> None"
    using sample_core_facts by (simp add: map_of_eq_None_iff flip: set_map)
  then show ?thesis using core_counterparties [OF sample_core_run, of "''LegitAddress1''"] by (auto simp: Let_def)
qed

theorem core_complete_witness:
  "length (concat (map (normalized_of (\<lambda>s. s)) (filter (\<lambda>tx. cs_ScanStart sample_core_params \<le> BlockTimeUTC tx \<and>
     BlockTimeUTC tx < cs_ScanEnd sample_core_params) sample_chain))) = 1"
  using core_complete [OF sample_core_run _ sample_chain_facts(2,1)] sample_core_facts
  by (metis (no_types, lifting) length_map)

end
