(* ===== verification/Config.thy ===== *)
theory Config
imports Materialize Runs_Wallets
begin

text \<open>
  \<open>internal/config\<close>: the configuration, read from the environment and validated. The environment is a
  parameter (a missing variable reads as the empty string); so is \<open>url.ParseRequestURI\<close>, of which the
  code uses the scheme: every fact holds whatever it accepts.
\<close>

section \<open>Configuration\<close>

record Config =
  cfg_DatabaseURL :: string
  cfg_HeliusAPIKey :: string
  cfg_HeliusBaseURL :: string
  cfg_APIBearerToken :: string
  cfg_MaxWalletsPerRun :: int
  cfg_MaxTXPagesPerWallet :: int
  cfg_MaxTXPerWallet :: int
  cfg_MaxConcurrentWallets :: int
  cfg_WalletSyncTimeoutSeconds :: int
  cfg_RunTimeoutSeconds :: int
  cfg_HeliusRequestDelayMS :: int
  cfg_MaxHeliusRetries :: int
  cfg_BaselineLookbackDays :: int
  cfg_ScanWindowDays :: int
  cfg_LookalikeRecencyDays :: int
  cfg_LookalikePrefixMin :: int
  cfg_LookalikeSuffixMin :: int
  cfg_LookalikeSingleSideMin :: int
  cfg_MinInjectionCount :: int
  cfg_DustThresholdsSeedPath :: string

definition getEnv :: "(string \<Rightarrow> string) \<Rightarrow> string \<Rightarrow> string \<Rightarrow> string" where
  "getEnv env key fallback = (if env key = [] then fallback else env key)"

definition getEnvInt :: "(string \<Rightarrow> string) \<Rightarrow> string \<Rightarrow> int \<Rightarrow> go_error + int" where
  "getEnvInt env key fallback =
     (if env key = [] then Inr fallback
      else case atoi (env key) of
          None \<Rightarrow> Inl (Err (''invalid integer env '' @ key @ ''='' @ go_quote (env key)))
        | Some n \<Rightarrow> Inr n)"

section \<open>Validation\<close>

text \<open>The checks both validators end with.\<close>

definition limit_checks :: "Config \<Rightarrow> (bool \<times> go_error) list" where
  "limit_checks c =
    [(cfg_MaxWalletsPerRun c < 1 \<or> cfg_MaxTXPagesPerWallet c < 1 \<or> cfg_MaxTXPerWallet c < 1,
        Err ''wallet/page/tx caps must be >= 1''),
     (cfg_MaxConcurrentWallets c < 1, Err ''MAX_CONCURRENT_WALLETS must be >= 1''),
     (cfg_MaxConcurrentWallets c > cfg_MaxWalletsPerRun c,
        Err ''MAX_CONCURRENT_WALLETS must be <= MAX_WALLETS_PER_RUN''),
     (cfg_WalletSyncTimeoutSeconds c < 10 \<or> cfg_RunTimeoutSeconds c < 10, Err ''timeouts must be >= 10 seconds''),
     (cfg_RunTimeoutSeconds c < cfg_WalletSyncTimeoutSeconds c,
        Err ''RUN_TIMEOUT_SECONDS must be >= WALLET_SYNC_TIMEOUT_SECONDS''),
     (cfg_HeliusRequestDelayMS c < 0, Err ''HELIUS_REQUEST_DELAY_MS must be >= 0''),
     (cfg_MaxHeliusRetries c < 0, Err ''MAX_HELIUS_RETRIES must be >= 0''),
     (cfg_BaselineLookbackDays c < 1 \<or> cfg_ScanWindowDays c < 1, Err ''window days must be >= 1''),
     (cfg_BaselineLookbackDays c \<le> cfg_ScanWindowDays c,
        Err ''BASELINE_LOOKBACK_DAYS must be > SCAN_WINDOW_DAYS''),
     (cfg_LookalikeRecencyDays c < 1, Err ''LOOKALIKE_RECENCY_DAYS must be >= 1''),
     (cfg_LookalikePrefixMin c < 1 \<or> cfg_LookalikeSuffixMin c < 1 \<or> cfg_LookalikeSingleSideMin c < 1,
        Err ''lookalike thresholds must be >= 1''),
     (cfg_LookalikePrefixMin c < 4 \<or> cfg_LookalikeSuffixMin c < 4 \<or> cfg_LookalikeSingleSideMin c < 6,
        Err ''lookalike thresholds must satisfy phase1 minimums: prefix>=4, suffix>=4, single-side>=6''),
     (cfg_MinInjectionCount c < 2, Err ''MIN_INJECTION_COUNT must be >= 2''),
     (trim_space (cfg_DustThresholdsSeedPath c) = [], Err ''DUST_THRESHOLDS_SEED_PATH is required'')]"

definition check_database_url :: "(string \<Rightarrow> go_error + string) \<Rightarrow> Config \<Rightarrow> go_error option" where
  "check_database_url parse_uri c =
     (if cfg_DatabaseURL c = [] then Some (Err ''DATABASE_URL is required'')
      else case parse_uri (cfg_DatabaseURL c) of
          Inl e \<Rightarrow> Some (Wrapped ''DATABASE_URL must be a valid URI: '' e [])
        | Inr _ \<Rightarrow> None)"

definition check_helius_url :: "(string \<Rightarrow> go_error + string) \<Rightarrow> Config \<Rightarrow> go_error option" where
  "check_helius_url parse_uri c =
     (if cfg_HeliusBaseURL c = [] then Some (Err ''HELIUS_BASE_URL is required'')
      else case parse_uri (cfg_HeliusBaseURL c) of
          Inl e \<Rightarrow> Some (Wrapped ''HELIUS_BASE_URL must be a valid URI: '' e [])
        | Inr scheme \<Rightarrow>
            if \<not> equal_fold scheme ''https'' then Some (Err ''HELIUS_BASE_URL must use https'') else None)"

definition Validate :: "(string \<Rightarrow> go_error + string) \<Rightarrow> Config \<Rightarrow> go_error option" where
  "Validate parse_uri c =
     (case check_database_url parse_uri c of
        Some e \<Rightarrow> Some e
      | None \<Rightarrow>
          if cfg_HeliusAPIKey c = [] then Some (Err ''HELIUS_API_KEY is required'')
          else if equal_fold (trim_space (cfg_HeliusAPIKey c)) ''replace_me''
          then Some (Err ''HELIUS_API_KEY must not be a placeholder value'')
          else case check_helius_url parse_uri c of
              Some e \<Rightarrow> Some e
            | None \<Rightarrow> first_error (limit_checks c))"

definition ValidateReadOnlyAPI :: "(string \<Rightarrow> go_error + string) \<Rightarrow> Config \<Rightarrow> go_error option" where
  "ValidateReadOnlyAPI parse_uri c =
     (case check_database_url parse_uri c of
        Some e \<Rightarrow> Some e
      | None \<Rightarrow>
          (case check_helius_url parse_uri c of
             Some e \<Rightarrow> Some e
           | None \<Rightarrow> first_error (limit_checks c)))"

section \<open>Loading\<close>

definition loadBaseConfigFromEnv :: "(string \<Rightarrow> string) \<Rightarrow> go_error + Config" where
  "loadBaseConfigFromEnv env =
     and_then (getEnvInt env ''MAX_WALLETS_PER_RUN'' 25) (\<lambda>maxWalletsPerRun.
     and_then (getEnvInt env ''MAX_TX_PAGES_PER_WALLET'' 20) (\<lambda>maxTXPagesPerWallet.
     and_then (getEnvInt env ''MAX_TX_PER_WALLET'' 1500) (\<lambda>maxTXPerWallet.
     and_then (getEnvInt env ''MAX_CONCURRENT_WALLETS'' 2) (\<lambda>maxConcurrentWallets.
     and_then (getEnvInt env ''WALLET_SYNC_TIMEOUT_SECONDS'' 180) (\<lambda>walletSyncTimeoutSeconds.
     and_then (getEnvInt env ''RUN_TIMEOUT_SECONDS'' 900) (\<lambda>runTimeoutSeconds.
     and_then (getEnvInt env ''HELIUS_REQUEST_DELAY_MS'' 150) (\<lambda>heliusRequestDelayMS.
     and_then (getEnvInt env ''MAX_HELIUS_RETRIES'' 4) (\<lambda>maxHeliusRetries.
     and_then (getEnvInt env ''BASELINE_LOOKBACK_DAYS'' 90) (\<lambda>baselineLookbackDays.
     and_then (getEnvInt env ''SCAN_WINDOW_DAYS'' 7) (\<lambda>scanWindowDays.
     and_then (getEnvInt env ''LOOKALIKE_RECENCY_DAYS'' 30) (\<lambda>lookalikeRecencyDays.
     and_then (getEnvInt env ''LOOKALIKE_PREFIX_MIN'' 4) (\<lambda>lookalikePrefixMin.
     and_then (getEnvInt env ''LOOKALIKE_SUFFIX_MIN'' 4) (\<lambda>lookalikeSuffixMin.
     and_then (getEnvInt env ''LOOKALIKE_SINGLE_SIDE_MIN'' 6) (\<lambda>lookalikeSingleSideMin.
     and_then (getEnvInt env ''MIN_INJECTION_COUNT'' 2) (\<lambda>minInjectionCount.
     Inr \<lparr> cfg_DatabaseURL = env ''DATABASE_URL'',
       cfg_HeliusAPIKey = env ''HELIUS_API_KEY'',
       cfg_HeliusBaseURL = getEnv env ''HELIUS_BASE_URL'' ''https://api.helius.xyz/v0'',
       cfg_APIBearerToken = trim_space (env ''API_BEARER_TOKEN''),
       cfg_MaxWalletsPerRun = maxWalletsPerRun,
       cfg_MaxTXPagesPerWallet = maxTXPagesPerWallet,
       cfg_MaxTXPerWallet = maxTXPerWallet,
       cfg_MaxConcurrentWallets = maxConcurrentWallets,
       cfg_WalletSyncTimeoutSeconds = walletSyncTimeoutSeconds,
       cfg_RunTimeoutSeconds = runTimeoutSeconds,
       cfg_HeliusRequestDelayMS = heliusRequestDelayMS,
       cfg_MaxHeliusRetries = maxHeliusRetries,
       cfg_BaselineLookbackDays = baselineLookbackDays,
       cfg_ScanWindowDays = scanWindowDays,
       cfg_LookalikeRecencyDays = lookalikeRecencyDays,
       cfg_LookalikePrefixMin = lookalikePrefixMin,
       cfg_LookalikeSuffixMin = lookalikeSuffixMin,
       cfg_LookalikeSingleSideMin = lookalikeSingleSideMin,
       cfg_MinInjectionCount = minInjectionCount,
       cfg_DustThresholdsSeedPath = getEnv env ''DUST_THRESHOLDS_SEED_PATH'' ''db/seeds/asset_thresholds.seed.sql'' \<rparr>)))))))))))))))"

text \<open>\<open>LoadFromEnv\<close> repeats the text of \<open>loadBaseConfigFromEnv\<close> and validates.\<close>

definition LoadFromEnv :: "(string \<Rightarrow> go_error + string) \<Rightarrow> (string \<Rightarrow> string) \<Rightarrow> go_error + Config" where
  "LoadFromEnv parse_uri env =
     and_then (loadBaseConfigFromEnv env) (\<lambda>cfg.
     case Validate parse_uri cfg of Some e \<Rightarrow> Inl e | None \<Rightarrow> Inr cfg)"

definition LoadReadOnlyAPIFromEnv ::
  "(string \<Rightarrow> go_error + string) \<Rightarrow> (string \<Rightarrow> string) \<Rightarrow> go_error + Config" where
  "LoadReadOnlyAPIFromEnv parse_uri env =
     (case LoadFromEnv parse_uri env of
        Inr cfg \<Rightarrow> Inr cfg
      | Inl _ \<Rightarrow>
          and_then (loadBaseConfigFromEnv env) (\<lambda>cfg.
          case ValidateReadOnlyAPI parse_uri cfg of Some e \<Rightarrow> Inl e | None \<Rightarrow> Inr cfg))"

section \<open>What a valid configuration gives\<close>

definition within_limits :: "Config \<Rightarrow> bool" where
  "within_limits c \<longleftrightarrow>
     1 \<le> cfg_MaxTXPagesPerWallet c \<and> 1 \<le> cfg_MaxTXPerWallet c \<and>
     1 \<le> cfg_MaxConcurrentWallets c \<and> cfg_MaxConcurrentWallets c \<le> cfg_MaxWalletsPerRun c \<and>
     10 \<le> cfg_WalletSyncTimeoutSeconds c \<and> cfg_WalletSyncTimeoutSeconds c \<le> cfg_RunTimeoutSeconds c \<and>
     0 \<le> cfg_HeliusRequestDelayMS c \<and> 0 \<le> cfg_MaxHeliusRetries c \<and>
     1 \<le> cfg_ScanWindowDays c \<and> cfg_ScanWindowDays c < cfg_BaselineLookbackDays c \<and>
     1 \<le> cfg_LookalikeRecencyDays c \<and> 4 \<le> cfg_LookalikePrefixMin c \<and> 4 \<le> cfg_LookalikeSuffixMin c \<and>
     6 \<le> cfg_LookalikeSingleSideMin c \<and> 2 \<le> cfg_MinInjectionCount c"

lemma limit_checks_iff:
  "first_error (limit_checks c) = None \<longleftrightarrow>
     within_limits c \<and> trim_space (cfg_DustThresholdsSeedPath c) \<noteq> []"
  by (auto simp: first_error_None limit_checks_def within_limits_def)

lemma Validate_readonly: "Validate parse_uri c = None \<Longrightarrow> ValidateReadOnlyAPI parse_uri c = None"
  by (auto simp: Validate_def ValidateReadOnlyAPI_def split: option.splits if_splits)

lemma readonly_limits: "ValidateReadOnlyAPI parse_uri c = None \<Longrightarrow> within_limits c"
  by (auto simp: ValidateReadOnlyAPI_def limit_checks_iff split: option.splits)

section \<open>Properties\<close>

text \<open>Whatever configuration is loaded, for a scan or for the read-only API, respects every bound the
  rest of the program relies on, and its thresholds pass the checks of the detector.\<close>

theorem loaded_config_bounds:
  assumes "LoadReadOnlyAPIFromEnv parse_uri env = Inr c"
  shows "within_limits c \<and> ValidateReadOnlyAPI parse_uri c = None \<and>
    ValidateCandidateMaterializeParams
      \<lparr> mp_BaselineComplete = b, mp_LookalikeRecencyDays = cfg_LookalikeRecencyDays c,
        mp_LookalikePrefixMin = cfg_LookalikePrefixMin c, mp_LookalikeSuffixMin = cfg_LookalikeSuffixMin c,
        mp_LookalikeSingleSideMin = cfg_LookalikeSingleSideMin c,
        mp_MinInjectionCount = cfg_MinInjectionCount c \<rparr> = None"
proof -
  have "ValidateReadOnlyAPI parse_uri c = None"
    using assms Validate_readonly [of parse_uri c]
    by (auto simp: LoadReadOnlyAPIFromEnv_def LoadFromEnv_def and_then_Inr split: sum.splits option.splits)
  moreover from this have "within_limits c" by (rule readonly_limits)
  ultimately show ?thesis
    by (simp add: within_limits_def ValidateCandidateMaterializeParams_def validateLookalikeAndInjectionParams_def)
qed

text \<open>The read-only loader differs from the full one only in the provider credentials: it accepts all the
  full one accepts with the same result, and what it accepts beyond that has a missing or placeholder
  API key.\<close>

theorem readonly_config_extends:
  "(LoadFromEnv parse_uri env = Inr c \<longrightarrow> LoadReadOnlyAPIFromEnv parse_uri env = Inr c) \<and>
   (LoadReadOnlyAPIFromEnv parse_uri env = Inr c \<and> LoadFromEnv parse_uri env \<noteq> Inr c \<longrightarrow>
      cfg_HeliusAPIKey c = [] \<or> equal_fold (trim_space (cfg_HeliusAPIKey c)) ''replace_me'')"
proof -
  have "cfg_HeliusAPIKey c = [] \<or> equal_fold (trim_space (cfg_HeliusAPIKey c)) ''replace_me''"
    if "ValidateReadOnlyAPI parse_uri c = None" "Validate parse_uri c = Some e" for e
    using that by (auto simp: Validate_def ValidateReadOnlyAPI_def split: option.splits if_splits)
  then show ?thesis
    by (cases "loadBaseConfigFromEnv env")
      (auto simp: LoadReadOnlyAPIFromEnv_def LoadFromEnv_def split: sum.splits option.splits)
qed

section \<open>Witnesses\<close>

text \<open>An environment with the required variables only, and a parser that accepts \<open>scheme:\<close> prefixes.\<close>

definition sample_environ :: "string \<Rightarrow> string" where
  "sample_environ key =
     (if key = ''DATABASE_URL'' then ''postgres://db'' else if key = ''HELIUS_API_KEY'' then ''key'' else [])"

definition sample_parse_uri :: "string \<Rightarrow> go_error + string" where
  "sample_parse_uri s = (if CHR '':'' \<in> set s then Inr (takeWhile (\<lambda>c. c \<noteq> CHR '':'') s) else Inl (Err ''invalid URI''))"

definition sample_config :: Config where
  "sample_config = (case LoadFromEnv sample_parse_uri sample_environ of Inr c \<Rightarrow> c)"

lemma sample_config_loads: "\<exists>c. LoadFromEnv sample_parse_uri sample_environ = Inr c"
proof -
  have "(case LoadFromEnv sample_parse_uri sample_environ of Inr c \<Rightarrow> True | Inl _ \<Rightarrow> False)" by code_simp
  then show ?thesis by (auto split: sum.splits)
qed

lemma sample_config: "LoadReadOnlyAPIFromEnv sample_parse_uri sample_environ = Inr sample_config"
  using sample_config_loads by (auto simp: LoadReadOnlyAPIFromEnv_def sample_config_def)

theorem loaded_config_bounds_witness: "within_limits sample_config"
  using loaded_config_bounds [OF sample_config] by blast

theorem readonly_config_extends_witness:
  "\<exists>c. LoadFromEnv sample_parse_uri sample_environ = Inr c \<and> LoadReadOnlyAPIFromEnv sample_parse_uri sample_environ = Inr c"
  using readonly_config_extends [of sample_parse_uri sample_environ] sample_config_loads by blast

end
