(* ===== verification/Wallet_Runner.thy ===== *)
theory Wallet_Runner
imports Core_Sync Config Storage
begin

text \<open>
  \<open>internal/pipeline/wallet_runner.go\<close>: one wallet of a run, from its row in \<open>wallet_sync_runs\<close> through
  the core sync and the persistence of what it found to the deferred finalization. The store and the
  provider are world-passing parameters; the clock and the context are read off the world, and which
  context an operation gets shows only in whether it fails.
\<close>

section \<open>Types\<close>

record RunParams =
  rp_WalletFile :: string
  rp_SkipWalletFile :: string
  rp_WalletAddresses :: "string list"
  rp_ScanStart :: gotime
  rp_ScanEnd :: gotime
  rp_BaselineLookbackDays :: int
  rp_RequestedByCLICommand :: string
  rp_IngestionRunID :: int

record WalletRunLimits =
  rl_MaxTXPagesPerWallet :: int
  rl_MaxTXPerWallet :: int
  rl_MaxHeliusRetries :: int
  rl_HeliusRequestDelay :: duration

record WalletRunReport =
  rr_WalletStatus :: WalletStatus
  rr_IncompleteWindow :: bool
  rr_TruncationObserved :: bool
  rr_TruncationReason :: string
  rr_Counters :: Counters

definition zero_report :: WalletRunReport where
  "zero_report = \<lparr> rr_WalletStatus = WalletStatusNone, rr_IncompleteWindow = False, rr_TruncationObserved = False,
     rr_TruncationReason = [], rr_Counters = zero_counters \<rparr>"

record 'w WalletExecutionRunner =
  wr_cfg :: Config
  wr_store :: "'w store option"
  wr_client :: "'w env option"

text \<open>\<open>time.Now\<close> and \<open>ctx.Err\<close>.\<close>

record 'w runtime =
  rt_Now :: "'w \<Rightarrow> gotime"
  rt_CtxErr :: "'w \<Rightarrow> go_error option"

text \<open>The variables the deferred function closes over, beside \<open>err\<close>.\<close>

record runner =
  rn_report :: WalletRunReport
  rn_progress :: WalletSyncProgress
  rn_status :: WalletStatus
  rn_errorCode :: string
  rn_errorMessage :: string
  rn_notes :: string
  rn_progressPersisted :: bool

definition runner_start :: runner where
  "runner_start = \<lparr> rn_report = zero_report\<lparr> rr_WalletStatus := WalletStatusFailed \<rparr>, rn_progress = zero_progress,
     rn_status = WalletStatusFailed, rn_errorCode = [], rn_errorMessage = [], rn_notes = [],
     rn_progressPersisted = False \<rparr>"

section \<open>Helpers\<close>

definition dedupeTransfers :: "NormalizedTransfer list \<Rightarrow> NormalizedTransfer list" where
  "dedupeTransfers xs = dedup_by (\<lambda>tr. tr_Signature tr @ [CHR 0x00] @ tr_TransferFingerprint tr) [] xs"

definition mergeTruncationReason :: "string \<Rightarrow> string \<Rightarrow> string" where
  "mergeTruncationReason baselineCode scanCode =
     join '';'' ((if trim_space baselineCode \<noteq> [] then [truncationReason ''baseline'' baselineCode] else []) @
                 (if trim_space scanCode \<noteq> [] then [truncationReason ''scan'' scanCode] else []))"

definition buildDustClassifier ::
  "'w store \<Rightarrow> gotime \<Rightarrow> gotime \<Rightarrow> (NormalizedTransfer \<Rightarrow> DustStatus, 'w) call" where
  "buildDustClassifier store startInclusive endExclusive w =
     (case st_ListDustThresholds store startInclusive endExclusive w of
        (Inl e, w1) \<Rightarrow> (Inl e, w1)
      | (Inr recs, w1) \<Rightarrow> (dust_classifier_of recs, w1))"

section \<open>Early returns\<close>

text \<open>The result of the body: the returned error and the variables the deferred function reads.\<close>

definition fail_hard :: "string \<Rightarrow> go_error \<Rightarrow> string \<Rightarrow> runner \<Rightarrow> go_error option \<times> runner" where
  "fail_hard code e what st =
     (Some (Wrapped what e []),
      st\<lparr> rn_errorCode := code, rn_errorMessage := err_msg e, rn_status := WalletStatusFailed \<rparr>)"

definition mark_incomplete :: "string \<Rightarrow> WalletSyncProgress \<Rightarrow> WalletSyncProgress" where
  "mark_incomplete reason progress = progress
     \<lparr> sp_IncompleteWindow := True,
       sp_UnknownGateReason := mergeReasons [sp_UnknownGateReason progress, reason] \<rparr>"

definition fail_partial ::
  "string \<Rightarrow> go_error \<Rightarrow> WalletStatus \<Rightarrow> string \<Rightarrow> string \<Rightarrow> runner \<Rightarrow> go_error option \<times> runner" where
  "fail_partial code e status reason what st =
     (Some (Wrapped what e []),
      st\<lparr> rn_errorCode := code, rn_errorMessage := err_msg e, rn_status := status,
         rn_progress := mark_incomplete reason (rn_progress st) \<rparr>)"

definition core_failed :: "go_error \<Rightarrow> go_error option \<Rightarrow> runner \<Rightarrow> go_error option \<times> runner" where
  "core_failed e ctxErr st =
     (if is_deadline e \<or> (case ctxErr of None \<Rightarrow> False | Some c \<Rightarrow> is_deadline c)
      then fail_partial ''core_sync_failed'' e WalletStatusTimedOut ''unknown_required_gates:wallet_runner_timeout''
             ''run wallet core sync: '' st
      else if IsPartial (rn_progressPersisted st) True
      then fail_partial ''core_sync_failed'' e WalletStatusPartial ''unknown_required_gates:wallet_runner_failure''
             ''run wallet core sync: '' st
      else fail_hard ''core_sync_failed'' e ''run wallet core sync: '' st)"

section \<open>Persistence\<close>

definition on_counters :: "(Counters \<Rightarrow> Counters) \<Rightarrow> runner \<Rightarrow> runner" where
  "on_counters f st = st\<lparr> rn_report := (rn_report st)\<lparr> rr_Counters := f (rr_Counters (rn_report st)) \<rparr> \<rparr>"

definition core_counters :: "CoreSyncResult \<Rightarrow> Counters \<Rightarrow> Counters" where
  "core_counters r c = c
     \<lparr> c_TransactionsFetched := cr_TransactionsFetched r,
       c_TransactionsFailedNormalize := cr_TransactionsFailedNormalize r,
       c_OwnerUnresolvedCount := cr_OwnerUnresolvedCount r,
       c_UnsupportedAssetCount := cr_UnsupportedAssetCount r,
       c_DecimalsUnresolvedCount := cr_DecimalsUnresolvedCount r,
       c_UnknownGateBlockCount := cr_UnknownGateBlockCount r,
       c_CandidateBlockCount := cr_CandidateBlockCount r,
       c_RetryExhaustedCount := (if cr_RetryExhausted r then 1 else c_RetryExhaustedCount c) \<rparr>"

definition event_of :: "int \<Rightarrow> WalletTransferObservation \<Rightarrow> Event" where
  "event_of walletID obs = \<lparr> ev_FocalWalletID = walletID, ev_CounterpartyAddress = obs_CounterpartyAddress obs,
     ev_RelationType = obs_RelationType obs, ev_OccurredAt = tr_BlockTime (obs_Transfer obs) \<rparr>"

fun link_loop ::
  "'w store \<Rightarrow> int \<Rightarrow> WalletTransferObservation list \<Rightarrow> runner \<Rightarrow> 'w \<Rightarrow> (go_error option \<times> runner) \<times> 'w" where
  "link_loop store walletID [] st w = ((None, st), w)"
| "link_loop store walletID (obs # observations) st w =
     (case st_LinkWalletTransfer store walletID (obs_RelationType obs) (obs_Transfer obs) w of
        (Inl e, w1) \<Rightarrow> (fail_partial ''wallet_transfer_link_failed'' e WalletStatusPartial
            ''unknown_required_gates:wallet_link_persistence_failed'' ''link wallet transfer: '' st, w1)
      | (Inr linked, w1) \<Rightarrow>
          if \<not> linked then link_loop store walletID observations st w1
          else
          let st1 = on_counters (\<lambda>c. c\<lparr> c_TransactionsLinked := c_TransactionsLinked c + 1 \<rparr>) st in
          (case st_UpsertCounterpartyEvent store (event_of walletID obs) w1 of
             (Inl e, w2) \<Rightarrow> (fail_partial ''counterparty_upsert_failed'' e WalletStatusPartial
                 ''unknown_required_gates:counterparty_persistence_failed'' ''upsert counterparty event: '' st1, w2)
           | (Inr (created, updated), w2) \<Rightarrow>
               link_loop store walletID observations
                 (on_counters (\<lambda>c. c
                    \<lparr> c_CounterpartiesCreated := c_CounterpartiesCreated c + (if created then 1 else 0),
                      c_CounterpartiesUpdated := c_CounterpartiesUpdated c + (if updated then 1 else 0) \<rparr>) st1) w2))"

definition candidate_record :: "PoisoningCandidate \<Rightarrow> CandidateRecord" where
  "candidate_record c =
     \<lparr> cd_Signature = pc_Signature c, cd_TransferIndex = pc_TransferIndex c,
       cd_SuspiciousCounterparty = pc_SuspiciousCounterparty c,
       cd_MatchedLegitCounterparty = pc_MatchedLegitCounterparty c,
       cd_TokenMint = pc_TokenMint c, cd_AmountRaw = pc_AmountRaw c, cd_BlockTime = pc_BlockTime c,
       cd_IsZeroValue = pc_IsZeroValue c, cd_IsDust = pc_IsDust c,
       cd_IsNewCounterparty = pc_IsNewCounterparty c, cd_IsInbound = pc_IsInbound c,
       cd_LegitLastSeenAt = pc_LegitLastSeenAt c, cd_RecencyDays = pc_RecencyDays c,
       cd_RepeatInjectionCount = pc_RepeatInjectionCount c, cd_IncompleteWindow = pc_IncompleteWindow c,
       cd_UnknownGateReason = pc_UnknownGateReason c, cd_MatchRuleVersion = pc_MatchRuleVersion c \<rparr>"

text \<open>The progress row, with the reason a truncation adds.\<close>

definition progress_of :: "CoreSyncResult \<Rightarrow> Counters \<Rightarrow> int \<Rightarrow> WalletSyncProgress" where
  "progress_of r c insertedCandidates =
     (let p0 =
        \<lparr> sp_BaselineComplete = cr_BaselineComplete r, sp_IncompleteWindow = cr_IncompleteWindow r,
          sp_UnknownGateReason = cr_UnknownGateReason r,
          sp_TruncationReason = mergeTruncationReason (cr_BaselineTruncation r) (cr_ScanTruncation r),
          sp_TransactionsFetched = cr_TransactionsFetched r,
          sp_TransactionsInserted = c_TransactionsInserted c,
          sp_TransactionsLinked = c_TransactionsLinked c,
          sp_TransactionsFailedNormalize = cr_TransactionsFailedNormalize r,
          sp_CounterpartiesCreated = c_CounterpartiesCreated c,
          sp_CounterpartiesUpdated = c_CounterpartiesUpdated c,
          sp_UnsupportedAssetCount = cr_UnsupportedAssetCount r,
          sp_UnknownGateBlockCount = cr_UnknownGateBlockCount r,
          sp_CandidateBlockCount = cr_CandidateBlockCount r,
          sp_PoisoningCandidatesInserted = insertedCandidates \<rparr>;
          p1 = (if sp_TruncationReason p0 \<noteq> []
                then p0\<lparr> sp_IncompleteWindow := True,
                  sp_UnknownGateReason := mergeReasons [sp_UnknownGateReason p0,
                    truncationReason ''baseline'' (cr_BaselineTruncation r),
                    truncationReason ''scan'' (cr_ScanTruncation r)] \<rparr>
                else p0)
      in if sp_IncompleteWindow p1 \<and> trim_space (sp_UnknownGateReason p1) = []
         then p1\<lparr> sp_UnknownGateReason := ''unknown_required_gates:incomplete_window'' \<rparr> else p1)"

text \<open>The last two writes and the status of a run that got this far.\<close>

definition finish_progress ::
  "'w store \<Rightarrow> int \<Rightarrow> int \<Rightarrow> gotime \<Rightarrow> int \<Rightarrow> runner \<Rightarrow> 'w \<Rightarrow> (go_error option \<times> runner) \<times> 'w" where
  "finish_progress store walletID walletSyncRunID scanEnd insertedCandidates st w =
     (case st_UpdateWalletSyncProgress store walletSyncRunID (rn_progress st) w of
        (Inl e, w1) \<Rightarrow> (fail_partial ''wallet_sync_progress_update_failed'' e WalletStatusPartial
            ''unknown_required_gates:wallet_progress_persistence_failed'' ''update wallet sync progress: '' st, w1)
      | (Inr _, w1) \<Rightarrow>
          let st1 = st\<lparr> rn_progressPersisted := True \<rparr> in
          (case st_UpdateWalletLastSyncedAt store walletID scanEnd w1 of
             (Inl e, w2) \<Rightarrow> (fail_partial ''wallet_last_synced_update_failed'' e WalletStatusPartial
                 ''unknown_required_gates:wallet_metadata_update_failed'' ''update wallet last_synced_at: '' st1, w2)
           | (Inr _, w2) \<Rightarrow>
               ((None, st1\<lparr> rn_status := (if sp_IncompleteWindow (rn_progress st1) then WalletStatusPartial
                                           else WalletStatusSucceeded),
                   rn_notes := ''candidates_inserted='' @ show_int insertedCandidates \<rparr>), w2)))"

definition persist ::
  "'w store \<Rightarrow> int \<Rightarrow> int \<Rightarrow> gotime \<Rightarrow> CoreSyncResult \<Rightarrow> runner \<Rightarrow> 'w \<Rightarrow> (go_error option \<times> runner) \<times> 'w" where
  "persist store walletID walletSyncRunID scanEnd r st0 w =
     (let st = on_counters (core_counters r) st0 in
      case st_UpsertNormalizedTransfers store (dedupeTransfers (cr_BaselineTransfers r @ cr_ScanTransfers r)) w of
        (Inl e, w1) \<Rightarrow> (fail_hard ''transfer_upsert_failed'' e ''upsert normalized transfers: '' st, w1)
      | (Inr (inserted, _), w1) \<Rightarrow>
      (case link_loop store walletID (cr_BaselineObservations r @ cr_ScanObservations r)
              (on_counters (\<lambda>c. c\<lparr> c_TransactionsInserted := inserted \<rparr>) st) w1 of
        ((Some e, st1), w2) \<Rightarrow> ((Some e, st1), w2)
      | ((None, st1), w2) \<Rightarrow>
      (case st_InsertPoisoningCandidates store walletSyncRunID walletID (map candidate_record (cr_Candidates r)) w2 of
        (Inl e, w3) \<Rightarrow> (fail_partial ''candidate_insert_failed'' e WalletStatusPartial
            ''unknown_required_gates:candidate_persistence_failed'' ''insert poisoning candidates: '' st1, w3)
      | (Inr n, w3) \<Rightarrow>
          let st2 = on_counters (\<lambda>c. c\<lparr> c_PoisoningCandidatesInserted := n \<rparr>) st1 in
          finish_progress store walletID walletSyncRunID scanEnd n
            (st2\<lparr> rn_progress := progress_of r (rr_Counters (rn_report st2)) n \<rparr>) w3)))"

section \<open>The run of a wallet\<close>

definition core_params ::
  "Config \<Rightarrow> WalletRunLimits \<Rightarrow> string \<Rightarrow> WalletSyncWindow \<Rightarrow> (NormalizedTransfer \<Rightarrow> DustStatus) \<Rightarrow> CoreSyncParams" where
  "core_params cfg limits walletAddress window classifyDust =
     \<lparr> cs_FocalWalletAddress = walletAddress,
       cs_BaselineStart = win_BaselineStart window, cs_BaselineEnd = win_BaselineEnd window,
       cs_ScanStart = win_ScanStart window, cs_ScanEnd = win_ScanEnd window,
       cs_MaxTXPagesPerWallet = rl_MaxTXPagesPerWallet limits, cs_MaxTXPerWallet = rl_MaxTXPerWallet limits,
       cs_MaxHeliusRetries = rl_MaxHeliusRetries limits, cs_HeliusRequestDelay = rl_HeliusRequestDelay limits,
       cs_LookalikeRecencyDays = cfg_LookalikeRecencyDays cfg, cs_LookalikePrefixMin = cfg_LookalikePrefixMin cfg,
       cs_LookalikeSuffixMin = cfg_LookalikeSuffixMin cfg,
       cs_LookalikeSingleSideMin = cfg_LookalikeSingleSideMin cfg,
       cs_MinInjectionCount = cfg_MinInjectionCount cfg, cs_ClassifyDust = Some classifyDust \<rparr>"

text \<open>What runs between the creation of the wallet's row and its finalization.\<close>

definition run_body ::
  "(string \<Rightarrow> string) \<Rightarrow> 'w runtime \<Rightarrow> Config \<Rightarrow> 'w store \<Rightarrow> 'w env option \<Rightarrow> string \<Rightarrow> WalletRunLimits
     \<Rightarrow> WalletSyncWindow \<Rightarrow> int \<Rightarrow> int \<Rightarrow> runner \<Rightarrow> 'w \<Rightarrow> (go_error option \<times> runner) \<times> 'w" where
  "run_body sha rt cfg store client walletAddress limits window walletID walletSyncRunID st w =
     (case buildDustClassifier store (win_BaselineStart window) (win_ScanEnd window) w of
        (Inl e, w1) \<Rightarrow> (fail_hard ''dust_threshold_load_failed'' e ''build dust classifier: '' st, w1)
      | (Inr classifyDust, w1) \<Rightarrow>
      (case RunWalletCoreSync sha client (core_params cfg limits walletAddress window classifyDust) w1 of
        (Inl e, w2) \<Rightarrow> (core_failed e (rt_CtxErr rt w2) st, w2)
      | (Inr r, w2) \<Rightarrow> persist store walletID walletSyncRunID (win_ScanEnd window) r st w2))"

text \<open>The deferred function. A failure of \<open>FinalizeWalletSyncRun\<close> is added to the error.\<close>

definition finalize_run ::
  "'w runtime \<Rightarrow> 'w store \<Rightarrow> int \<Rightarrow> go_error option \<times> runner \<Rightarrow> 'w \<Rightarrow> (WalletRunReport \<times> go_error option) \<times> 'w" where
  "finalize_run rt store walletSyncRunID out w =
     (case out of (err, st) \<Rightarrow>
      let progress = rn_progress st;
          incomplete = sp_IncompleteWindow progress;
          reason0 = sp_UnknownGateReason progress;
          reason = (if incomplete \<and> trim_space reason0 = []
                    then ''unknown_required_gates:runner_incomplete_without_reason'' else reason0);
          report = (rn_report st)
            \<lparr> rr_WalletStatus := rn_status st, rr_IncompleteWindow := incomplete,
              rr_TruncationReason := sp_TruncationReason progress,
              rr_TruncationObserved := (trim_space (sp_TruncationReason progress) \<noteq> []) \<rparr>
      in case st_FinalizeWalletSyncRun store walletSyncRunID (rn_status st) (rt_Now rt w) incomplete reason
             (rn_errorCode st) (rn_errorMessage st) (rn_notes st) w of
           (Inr _, w1) \<Rightarrow> ((report, err), w1)
         | (Inl f, w1) \<Rightarrow>
             ((report, Some (case err of
                None \<Rightarrow> Wrapped ''finalize wallet sync run: '' f []
              | Some e \<Rightarrow> Wrapped [] e (''; finalize wallet sync run: '' @ err_msg f))), w1))"

definition RunWallet ::
  "(string \<Rightarrow> string) \<Rightarrow> 'w runtime \<Rightarrow> 'w WalletExecutionRunner \<Rightarrow> string \<Rightarrow> RunParams \<Rightarrow> WalletRunLimits \<Rightarrow> 'w
     \<Rightarrow> (WalletRunReport \<times> go_error option) \<times> 'w" where
  "RunWallet sha rt runner walletAddress p limits w =
     (let report = zero_report\<lparr> rr_WalletStatus := WalletStatusFailed \<rparr> in
      if trim_space walletAddress = [] then ((report, Some (Err ''wallet address is required'')), w)
      else if rp_IngestionRunID p = 0
      then ((report, Some (Err ''ingestion run id is required for wallet execution'')), w)
      else case wr_store runner of
        None \<Rightarrow> ((report, Some (Err ''wallet execution store is required'')), w)
      | Some store \<Rightarrow>
      if Option.is_none (wr_client runner) then ((report, Some (Err ''helius client is required'')), w)
      else
      let window = BuildWindow (rp_ScanStart p) (rp_ScanEnd p) (rp_BaselineLookbackDays p) in
      case st_EnsureWallet store walletAddress w of
        (Inl e, w1) \<Rightarrow> ((report, Some (Wrapped ''ensure wallet: '' e [])), w1)
      | (Inr walletID, w1) \<Rightarrow>
      (case st_CreateWalletSyncRun store (rp_IngestionRunID p) walletID window (rt_Now rt w1) w1 of
        (Inl e, w2) \<Rightarrow> ((report, Some (Wrapped ''create wallet sync run: '' e [])), w2)
      | (Inr walletSyncRunID, w2) \<Rightarrow>
      (case run_body sha rt (wr_cfg runner) store (wr_client runner) walletAddress limits window walletID
              walletSyncRunID runner_start w2 of
        (out, w3) \<Rightarrow> finalize_run rt store walletSyncRunID out w3)))"

end
