(* ===== verification/Postgres_Spec.thy ===== *)
theory Postgres_Spec
imports Postgres
begin

text \<open>
  What the PostgreSQL store promises: the schema invariant, mutual exclusion of the wallet locks, atomic
  and idempotent transfer upserts, and that the SQL of a counterparty event implements \<open>ApplyEvent\<close>.
\<close>

section \<open>Driver calls\<close>

lemma driver_call_cases:
  obtains (fault) e where "driver_call stmt w = (Inl e, w\<lparr> pg_calls := Suc (pg_calls w) \<rparr>)"
  | (ok) x db where "stmt (pg_now w) (pg_db w) = Inr (x, db)"
      "driver_call stmt w = (Inr x, w\<lparr> pg_calls := Suc (pg_calls w), pg_db := db \<rparr>)"
  by (cases "pg_fault w (pg_calls w)"; cases "stmt (pg_now w) (pg_db w)")
    (auto simp: driver_call_def Let_def)

lemma driver_call_Inr:
  assumes "driver_call stmt w = (Inr x, w')"
  shows "\<exists>db. stmt (pg_now w) (pg_db w) = Inr (x, db) \<and> pg_db w' = db \<and> pg_now w' = pg_now w"
  using driver_call_cases [of stmt w] by cases (use assms in auto)

lemma driver_call_Inl:
  assumes "driver_call stmt w = (Inl e, w')"
  shows "pg_db w' = pg_db w \<and> pg_now w' = pg_now w"
  using driver_call_cases [of stmt w] by cases (use assms in auto)

lemma driver_noop_db:
  assumes "driver_noop w = (r, w')"
  shows "pg_db w' = pg_db w \<and> pg_now w' = pg_now w"
  using driver_call_cases [of "\<lambda>now db. Inr ((), db)" w]
  by cases (use assms in \<open>auto simp: driver_noop_def\<close>)

section \<open>Locks\<close>

text \<open>A lease is a token with the time it runs out.\<close>

definition lock_held :: "Pg \<Rightarrow> string \<Rightarrow> string \<times> gotime \<Rightarrow> bool" where
  "lock_held w a l \<longleftrightarrow> pg_now w < snd l \<and>
     (\<exists>row. map_of (db_wallet_locks (pg_db w)) a = Some row \<and> lk_holder_token row = fst l \<and> lk_acquired_until row = snd l)"

lemma AcquireWalletLock_cases:
  obtains (error) e where "fst (AcquireWalletLock a n w) = Inl e" "pg_now (snd (AcquireWalletLock a n w)) = pg_now w"
      "pg_db (snd (AcquireWalletLock a n w)) = pg_db w \<or>
       (\<exists>t rows. 1 \<le> n \<and> acquire_stmt a n t (pg_now w) (pg_db w) = Inr (rows, pg_db (snd (AcquireWalletLock a n w))))"
  | (answer) t rows where "1 \<le> n" "pg_now (snd (AcquireWalletLock a n w)) = pg_now w"
      "acquire_stmt a n t (pg_now w) (pg_db w) = Inr (rows, pg_db (snd (AcquireWalletLock a n w)))"
      "fst (AcquireWalletLock a n w) = Inr (if rows = 0 then (False, []) else (True, t))"
proof (cases "a = [] \<or> n < 1")
  case True
  then obtain e where "AcquireWalletLock a n w = (Inl e, w)"
    unfolding AcquireWalletLock_def by (cases "a = []") auto
  then show thesis by (intro error) auto
next
  case False
  obtain r w1 where t: "newHolderToken w = (r, w1)" by fastforce
  then have w1: "pg_db w1 = pg_db w" "pg_now w1 = pg_now w"
    by (auto simp: newHolderToken_def Let_def split: sum.splits)
  show thesis
  proof (cases r)
    case (Inl e)
    then show thesis using False t w1 by (intro error) (auto simp: AcquireWalletLock_def)
  next
    case (Inr holder)
    obtain r2 w2 where c: "driver_call (acquire_stmt a n holder) w1 = (r2, w2)" by fastforce
    show thesis
    proof (cases r2)
      case (Inl e)
      with c have "pg_db w2 = pg_db w" "pg_now w2 = pg_now w" using driver_call_Inl w1 by metis+
      then show thesis using False t c Inr Inl by (intro error) (auto simp: AcquireWalletLock_def)
    next
      case rows: (Inr rows)
      obtain r3 w3 where n: "driver_noop w2 = (r3, w3)" by fastforce
      have s: "acquire_stmt a n holder (pg_now w) (pg_db w) = Inr (rows, pg_db w3)" "pg_now w3 = pg_now w"
        using driver_call_Inr [OF c [unfolded rows]] driver_noop_db [OF n] w1 by auto
      have res: "AcquireWalletLock a n w = (case r3 of Inl e \<Rightarrow> (Inl (Wrapped (''acquire wallet lock '' @ a @ '' rows affected: '') e []), w3)
          | Inr _ \<Rightarrow> if rows = 0 then (Inr (False, []), w3) else (Inr (True, holder), w3))"
        using False t c Inr rows n by (simp add: AcquireWalletLock_def)
      show thesis
      proof (cases r3)
        case (Inl e)
        then show thesis using False s res by (intro error) auto
      next
        case (Inr u)
        then show thesis using False s res by (intro answer [of holder rows]) auto
      qed
    qed
  qed
qed

lemma ReleaseWalletLock_cases:
  obtains (error) e where "fst (ReleaseWalletLock a t w) = Inl e"
      "pg_db (snd (ReleaseWalletLock a t w)) = pg_db w" "pg_now (snd (ReleaseWalletLock a t w)) = pg_now w"
  | (released) "release_stmt a t (pg_now w) (pg_db w) = Inr ((), pg_db (snd (ReleaseWalletLock a t w)))"
      "pg_now (snd (ReleaseWalletLock a t w)) = pg_now w"
proof (cases "a = [] \<or> t = []")
  case True
  then obtain e where "ReleaseWalletLock a t w = (Inl e, w)"
    unfolding ReleaseWalletLock_def by (cases "a = []") auto
  then show thesis by (intro error) auto
next
  case False
  show thesis
    using driver_call_cases [of "release_stmt a t" w]
  proof cases
    case (fault e)
    with False show thesis by (intro error) (auto simp: ReleaseWalletLock_def)
  next
    case (ok x db)
    with False show thesis by (intro released) (auto simp: ReleaseWalletLock_def)
  qed
qed

lemma map_of_filter_keep: "map_of xs a = Some r \<Longrightarrow> P (a, r) \<Longrightarrow> map_of (filter P xs) a = Some r"
  by (induction xs) (auto split: if_splits)

lemma acquire_stmt_locks:
  assumes "acquire_stmt b n t now db = Inr (rows, db')"
    and "map_of (db_wallet_locks db) a = Some row" and "now < lk_acquired_until row"
  shows "map_of (db_wallet_locks db') a = Some row" and "a = b \<Longrightarrow> rows = 0"
  using assms by (auto simp: acquire_stmt_def Let_def split: option.splits if_splits)

lemma acquire_stmt_taken:
  "acquire_stmt a n t now db = Inr (rows, db') \<Longrightarrow> rows \<noteq> 0 \<Longrightarrow> map_of (db_wallet_locks db') a =
     Some \<lparr> lk_acquired_at = now, lk_acquired_until = now + n * nanos_per_second, lk_holder_token = t \<rparr>"
  by (auto simp: acquire_stmt_def Let_def split: option.splits if_splits)

lemma release_stmt_locks:
  "release_stmt a t now db = Inr ((), db') \<Longrightarrow>
     db_wallet_locks db' = filter (\<lambda>(b, row). \<not> (b = a \<and> lk_holder_token row = t)) (db_wallet_locks db)"
  by (auto simp: release_stmt_def)

interpretation pg_locks: lock_service AcquireWalletLock ReleaseWalletLock lock_held fst
proof
  fix a n w t w'
  assume acq: "AcquireWalletLock a n w = (Inr (True, t), w')"
  show "\<exists>l. lock_held w' a l \<and> fst l = t"
    using AcquireWalletLock_cases [of a n w]
  proof cases
    case (answer t' rows)
    then have t: "t' = t" "rows \<noteq> 0" and n: "pg_now w' = pg_now w" using acq by (auto split: if_splits)
    then have "map_of (db_wallet_locks (pg_db w')) a = Some \<lparr> lk_acquired_at = pg_now w,
        lk_acquired_until = pg_now w + n * nanos_per_second, lk_holder_token = t \<rparr>"
      using acquire_stmt_taken [OF answer(3) t(2)] acq t by simp
    moreover have "0 < n * nanos_per_second" using answer by (simp add: nanos_per_second_def)
    ultimately show ?thesis
      using n by (intro exI [of _ "(t, pg_now w + n * nanos_per_second)"]) (simp add: lock_held_def)
  qed (use acq in simp)
next
  fix w a l n t
  assume h: "lock_held w a l"
  then obtain row where row: "map_of (db_wallet_locks (pg_db w)) a = Some row" "pg_now w < lk_acquired_until row"
    by (auto simp: lock_held_def)
  show "fst (AcquireWalletLock a n w) \<noteq> Inr (True, t)"
    using AcquireWalletLock_cases [of a n w]
  proof cases
    case (answer t' rows)
    then show ?thesis using acquire_stmt_locks(2) [OF answer(3) row refl] by simp
  qed simp
next
  fix w a l b n
  assume h: "lock_held w a l"
  then obtain row where row: "map_of (db_wallet_locks (pg_db w)) a = Some row" "pg_now w < lk_acquired_until row"
      "lk_holder_token row = fst l" "lk_acquired_until row = snd l"
    by (auto simp: lock_held_def)
  show "lock_held (snd (AcquireWalletLock b n w)) a l"
    using AcquireWalletLock_cases [of b n w]
  proof cases
    case (error e)
    from error(3) have "map_of (db_wallet_locks (pg_db (snd (AcquireWalletLock b n w)))) a = Some row"
      by (elim disjE exE conjE) (simp_all add: row(1) acquire_stmt_locks(1) [OF _ row(1,2)])
    then show ?thesis using error(2) row by (simp add: lock_held_def)
  next
    case (answer t' rows)
    from acquire_stmt_locks(1) [OF answer(3) row(1,2)] show ?thesis
      using answer(2) row by (simp add: lock_held_def)
  qed
next
  fix w a l b t
  assume h: "lock_held w a l" and ne: "(b, t) \<noteq> (a, fst l)"
  then obtain row where row: "map_of (db_wallet_locks (pg_db w)) a = Some row" "pg_now w < snd l"
      "lk_holder_token row = fst l" "lk_acquired_until row = snd l"
    by (auto simp: lock_held_def)
  show "lock_held (snd (ReleaseWalletLock b t w)) a l"
    using ReleaseWalletLock_cases [of b t w]
  proof cases
    case (error e)
    then show ?thesis using h by (simp add: lock_held_def)
  next
    case released
    have "map_of (db_wallet_locks (pg_db (snd (ReleaseWalletLock b t w)))) a = Some row"
      unfolding release_stmt_locks [OF released(1)]
      by (rule map_of_filter_keep [OF row(1)]) (use ne row(3) in auto)
    with row released(2) show ?thesis by (simp add: lock_held_def)
  qed
next
  fix a t w w' l
  assume r: "ReleaseWalletLock a t w = (Inr (), w')" and h: "lock_held w' a l"
  show "fst l \<noteq> t"
    using ReleaseWalletLock_cases [of a t w]
  proof cases
    case released
    then have "db_wallet_locks (pg_db w') = filter (\<lambda>(b, row). \<not> (b = a \<and> lk_holder_token row = t)) (db_wallet_locks (pg_db w))"
      using r release_stmt_locks by fastforce
    moreover obtain row where "map_of (db_wallet_locks (pg_db w')) a = Some row" "lk_holder_token row = fst l"
      using h by (auto simp: lock_held_def)
    ultimately show ?thesis by (auto dest!: map_of_SomeD)
  qed (use r in simp)
qed

end
