(* ===== verification/Postgres_Schema.thy ===== *)
theory Postgres_Schema
imports Postgres_Spec
begin

text \<open>
  The invariant of the tables, and that every operation of the store keeps it on every path, a failing
  call included.
\<close>

section \<open>The schema invariant\<close>

text \<open>Per table: unique keys, ids below the sequence, and the CHECK constraints.\<close>

definition runs_ok :: "int \<Rightarrow> (int \<times> 'a) list \<Rightarrow> bool" where
  "runs_ok n t \<longleftrightarrow> distinct (map_keys t) \<and> (\<forall>i \<in> set (map_keys t). i < n)"

definition ids_ok :: "int \<Rightarrow> ('k \<times> (int \<times> 'a)) list \<Rightarrow> bool" where
  "ids_ok n t \<longleftrightarrow> distinct (map_keys t) \<and> (\<forall>k i x. map_of t k = Some (i, x) \<longrightarrow> i < n) \<and>
     (\<forall>k k' i x x'. map_of t k = Some (i, x) \<and> map_of t k' = Some (i, x') \<longrightarrow> k = k')"

definition sync_ok :: "(int \<times> WalletSyncRunRow) list \<Rightarrow> bool" where
  "sync_ok t \<longleftrightarrow> (\<forall>i row. map_of t i = Some row \<longrightarrow> reason_check (ws_incomplete_window row) (ws_unknown_gate_reason row))"

definition transactions_ok :: "((string \<times> string) \<times> (int \<times> NormalizedTransfer)) list \<Rightarrow> bool" where
  "transactions_ok t \<longleftrightarrow> (\<forall>k i tr. map_of t k = Some (i, tr) \<longrightarrow> transfer_key tr = k)"

definition counterparty_ok :: "int \<times> string \<Rightarrow> Counterparty \<Rightarrow> bool" where
  "counterparty_ok k r \<longleftrightarrow> 1 \<le> cp_InteractionCount r \<and>
     cp_InteractionCount r = cp_InboundCount r + cp_OutboundCount r \<and> cp_FirstSeenAt r \<le> cp_LastSeenAt r \<and>
     (cp_FocalWalletID r, cp_CounterpartyAddress r) = k"

definition counterparties_ok :: "((int \<times> string) \<times> Counterparty) list \<Rightarrow> bool" where
  "counterparties_ok t \<longleftrightarrow> distinct (map_keys t) \<and> (\<forall>k r. map_of t k = Some r \<longrightarrow> counterparty_ok k r)"

definition candidates_ok :: "((int \<times> string \<times> int) \<times> CandidateRow) list \<Rightarrow> bool" where
  "candidates_ok t \<longleftrightarrow> distinct (map_keys t) \<and> (\<forall>k row. map_of t k = Some row \<longrightarrow>
     reason_check (cd_IncompleteWindow (pr_record row)) (pr_unknown_gate_reason row) \<and>
     snd k = (cd_Signature (pr_record row), cd_TransferIndex (pr_record row)))"

definition locks_ok :: "(string \<times> LockRow) list \<Rightarrow> bool" where
  "locks_ok t \<longleftrightarrow> distinct (map_keys t) \<and> (\<forall>a row. map_of t a = Some row \<longrightarrow> lk_acquired_at row < lk_acquired_until row)"

definition db_inv :: "Db \<Rightarrow> bool" where
  "db_inv db \<longleftrightarrow>
     runs_ok (db_next_id db) (db_ingestion_runs db) \<and>
     ids_ok (db_next_id db) (db_wallets db) \<and>
     runs_ok (db_next_id db) (db_wallet_sync_runs db) \<and> sync_ok (db_wallet_sync_runs db) \<and>
     ids_ok (db_next_id db) (db_transactions db) \<and> transactions_ok (db_transactions db) \<and>
     distinct (db_wallet_transactions db) \<and>
     counterparties_ok (db_counterparties db) \<and>
     candidates_ok (db_poisoning_candidates db) \<and>
     locks_ok (db_wallet_locks db)"

lemma fresh_eq: "fresh db = (db_next_id db, db\<lparr> db_next_id := db_next_id db + 1 \<rparr>)"
  by (simp add: fresh_def)

lemma ok_mono [simp]:
  "runs_ok n t \<Longrightarrow> runs_ok (n + 1) t" "ids_ok n u \<Longrightarrow> ids_ok (n + 1) u"
  by (fastforce simp: runs_ok_def ids_ok_def)+

lemma runs_ok_Cons: "runs_ok n t \<Longrightarrow> runs_ok (n + 1) ((n, x) # t)"
  by (fastforce simp: runs_ok_def map_keys_def)

lemma runs_ok_set: "runs_ok n t \<Longrightarrow> map_of t i \<noteq> None \<Longrightarrow> runs_ok n (map_set i x t)"
  by (auto simp: runs_ok_def map_keys_def keys_map_set map_of_eq_None_iff)

lemma ids_ok_new: "ids_ok n t \<Longrightarrow> map_of t k = None \<Longrightarrow> ids_ok (n + 1) (map_set k (n, x) t)"
  by (fastforce simp: ids_ok_def map_keys_def)

lemma ids_ok_set:
  assumes t: "ids_ok n t" and k: "map_of t k = Some (i, y)"
  shows "ids_ok n (map_set k (i, x) t)"
proof -
  have old: "\<exists>y1. map_of t k1 = Some (j, y1)" if "map_of (map_set k (i, x) t) k1 = Some (j, x1)" for k1 j x1
    using that k by (cases "k1 = k") auto
  show ?thesis unfolding ids_ok_def
  proof (intro conjI allI impI)
    show "distinct (map_keys (map_set k (i, x) t))" using t by (simp add: ids_ok_def map_keys_def)
    show "j < n" if "map_of (map_set k (i, x) t) k1 = Some (j, x1)" for k1 j x1
      using old [OF that] t unfolding ids_ok_def by blast
    show "k1 = k2" if "map_of (map_set k (i, x) t) k1 = Some (j, x1) \<and> map_of (map_set k (i, x) t) k2 = Some (j, x2)"
      for k1 k2 j x1 x2
      using old [OF conjunct1 [OF that]] old [OF conjunct2 [OF that]] t unfolding ids_ok_def by blast
  qed
qed

lemma transactions_ok_set: "transactions_ok t \<Longrightarrow> transactions_ok (map_set (transfer_key tr) (i, tr) t)"
  by (simp add: transactions_ok_def)

lemma sync_ok_set:
  "sync_ok t \<Longrightarrow> reason_check (ws_incomplete_window row) (ws_unknown_gate_reason row) \<Longrightarrow> sync_ok (map_set i row t)"
  by (simp add: sync_ok_def)

lemma counterparties_ok_set: "counterparties_ok t \<Longrightarrow> counterparty_ok k r \<Longrightarrow> counterparties_ok (map_set k r t)"
  by (simp add: counterparties_ok_def map_keys_def)

lemma locks_ok_set: "locks_ok t \<Longrightarrow> lk_acquired_at row < lk_acquired_until row \<Longrightarrow> locks_ok (map_set a row t)"
  by (simp add: locks_ok_def map_keys_def)

lemma locks_ok_filter: "locks_ok t \<Longrightarrow> locks_ok (filter P t)"
  by (simp add: locks_ok_def map_keys_def distinct_map_filter map_of_eq_Some_iff)
    (metis filter_is_subset map_of_eq_Some_iff subsetD distinct_map_filter)

lemma counterparty_ok_inserted:
  "counterparty_ok (ev_FocalWalletID e, ev_CounterpartyAddress e) (inserted_counterparty i now e)"
  by (cases "ev_RelationType e") (simp_all add: counterparty_ok_def inserted_counterparty_def Let_def)

lemma counterparty_ok_merged:
  "counterparty_ok k old \<Longrightarrow> counterparty_ok k' new \<Longrightarrow> counterparty_ok k (merged_counterparty old new now)"
  by (auto simp: counterparty_ok_def merged_counterparty_def)

lemma counterparties_ok_merge:
  "counterparties_ok t \<Longrightarrow> map_of t (ev_FocalWalletID e, ev_CounterpartyAddress e) = Some old \<Longrightarrow>
     counterparties_ok (map_set (ev_FocalWalletID e, ev_CounterpartyAddress e)
       (merged_counterparty old (inserted_counterparty i now e) now) t)"
  by (rule counterparties_ok_set, assumption, rule counterparty_ok_merged [OF _ counterparty_ok_inserted])
    (simp add: counterparties_ok_def)

lemmas inv_parts = db_inv_def fresh_eq

section \<open>Statements\<close>

text \<open>A statement that takes good tables to good tables.\<close>

definition keeps :: "(gotime \<Rightarrow> Db \<Rightarrow> go_error + 'a \<times> Db) \<Rightarrow> bool" where
  "keeps stmt \<longleftrightarrow> (\<forall>now db x db'. db_inv db \<longrightarrow> stmt now db = Inr (x, db') \<longrightarrow> db_inv db')"

lemma keepsI: "(\<And>now db x db'. db_inv db \<Longrightarrow> stmt now db = Inr (x, db') \<Longrightarrow> db_inv db') \<Longrightarrow> keeps stmt"
  by (auto simp: keeps_def)

lemma keeps_update_sync_run: "keeps (update_sync_run i f)"
  by (rule keepsI) (auto simp: inv_parts update_sync_run_def intro!: runs_ok_set sync_ok_set split: option.splits if_splits)

lemma keeps_upsert_transfer: "keeps (upsert_transfer tr)"
proof (rule keepsI)
  fix now db x db'
  assume db: "db_inv db" and u: "upsert_transfer tr now db = Inr (x, db')"
  show "db_inv db'"
  proof (cases "map_of (db_transactions db) (transfer_key tr)")
    case None
    then show ?thesis using db u
      by (auto simp: inv_parts upsert_transfer_def intro!: ids_ok_new transactions_ok_set)
  next
    case (Some jt)
    then show ?thesis using db u
      by (cases jt) (auto simp: inv_parts upsert_transfer_def intro!: ok_mono(2) [OF ids_ok_set] transactions_ok_set)
  qed
qed

lemma keeps_link: "keeps (link_stmt wid rel key)"
  by (rule keepsI) (auto simp: inv_parts link_stmt_def split: option.splits if_splits)

lemma keeps_upsert_counterparty: "keeps (upsert_counterparty e)"
  by (rule keepsI) (auto simp: inv_parts upsert_counterparty_def Let_def
      intro!: counterparties_ok_set counterparty_ok_inserted counterparties_ok_merge split: option.splits if_splits)

lemma keeps_insert_candidate: "keeps (insert_candidate run wid c)"
  by (rule keepsI) (auto simp: inv_parts insert_candidate_def candidates_ok_def map_keys_def Let_def split: if_splits)

lemma keeps_acquire: "1 \<le> n \<Longrightarrow> keeps (acquire_stmt a n t)"
  by (rule keepsI) (auto simp: inv_parts acquire_stmt_def nanos_per_second_def Let_def intro!: locks_ok_set split: option.splits if_splits)

lemma keeps_release: "keeps (release_stmt a t)"
  by (rule keepsI) (auto simp: inv_parts release_stmt_def intro: locks_ok_filter)

lemma keeps_read: "keeps (\<lambda>now db. Inr (f now db, db))"
  by (rule keepsI) simp

section \<open>Operations\<close>

lemma driver_call_inv: "driver_call stmt w = (r, w') \<Longrightarrow> db_inv (pg_db w) \<Longrightarrow> keeps stmt \<Longrightarrow> db_inv (pg_db w')"
  by (cases rule: driver_call_cases [of stmt w]) (auto simp: keeps_def)

lemma driver_noop_inv: "driver_noop w = (r, w') \<Longrightarrow> db_inv (pg_db w) \<Longrightarrow> db_inv (pg_db w')"
  using driver_noop_db by metis

lemma rollback_db [simp]: "pg_db (rollback w0 w) = pg_db w0"
  by (simp add: rollback_def)

text \<open>How an operation that is one call and a translation of its result keeps the invariant.\<close>

lemma call_inv:
  assumes "db_inv (pg_db w)" and "keeps stmt" and "\<And>r w1. driver_call stmt w = (r, w1) \<Longrightarrow> pg_db (snd (g r w1)) = pg_db w1"
  shows "db_inv (pg_db (snd (case driver_call stmt w of (r, w1) \<Rightarrow> g r w1)))"
  by (cases "driver_call stmt w") (use assms driver_call_inv in fastforce)

lemma exec_update_inv:
  assumes "db_inv (pg_db w)" and "keeps stmt"
  shows "db_inv (pg_db (snd (exec_update what stmt w)))"
proof -
  obtain r w1 where c: "driver_call stmt w = (r, w1)" by fastforce
  obtain r2 w2 where n: "driver_noop w1 = (r2, w2)" by fastforce
  have "db_inv (pg_db w1)" "db_inv (pg_db w2)"
    using driver_call_inv [OF c] driver_noop_inv [OF n] assms by auto
  then show ?thesis using c n by (auto simp: exec_update_def split: sum.splits)
qed

lemma upsert_rows_inv: "db_inv (pg_db w) \<Longrightarrow> db_inv (pg_db (snd (upsert_rows trs i u w)))"
proof (induction trs arbitrary: i u w)
  case (Cons tr trs)
  obtain r w1 where c: "driver_call (upsert_transfer tr) w = (r, w1)" by fastforce
  with Cons have "db_inv (pg_db w1)" using driver_call_inv keeps_upsert_transfer by blast
  with Cons.IH c show ?case by (auto split: sum.splits)
qed simp

lemma insert_candidate_rows_inv: "db_inv (pg_db w) \<Longrightarrow> db_inv (pg_db (snd (insert_candidate_rows run wid cs i w)))"
proof (induction cs arbitrary: i w)
  case (Cons c cs)
  obtain r w1 where d: "driver_call (insert_candidate run wid c) w = (r, w1)" by fastforce
  with Cons have "db_inv (pg_db w1)" using driver_call_inv keeps_insert_candidate by blast
  with Cons.IH d show ?case by (auto split: sum.splits)
qed simp

lemma scan_rows_db: "pg_db (snd (scan_rows rows out w)) = pg_db w"
proof (induction rows arbitrary: out w)
  case Nil
  then show ?case by (cases "driver_noop w") (auto dest: driver_noop_db split: sum.splits)
next
  case (Cons row rows)
  then show ?case by (cases "driver_noop w") (auto dest: driver_noop_db split: sum.splits)
qed

text \<open>One operation of the store, or the clock moving on.\<close>

inductive pg_step :: "Pg \<Rightarrow> Pg \<Rightarrow> bool" where
  "pg_step w (snd (CreateIngestionRun t w))"
| "pg_step w (snd (FinalizeIngestionRun run status t counters notes w))"
| "pg_step w (snd (CreateWalletSyncRun run wallet window t w))"
| "pg_step w (snd (UpdateWalletSyncProgress i progress w))"
| "pg_step w (snd (FinalizeWalletSyncRun i ws t incomplete reason code msg notes w))"
| "pg_step w (snd (EnsureWallet address w))"
| "pg_step w (snd (UpdateWalletLastSyncedAt wallet t w))"
| "pg_step w (snd (UpsertNormalizedTransfers transfers w))"
| "pg_step w (snd (LinkWalletTransfer wallet relation transfer w))"
| "pg_step w (snd (UpsertCounterpartyEvent event w))"
| "pg_step w (snd (InsertPoisoningCandidates i wallet candidates w))"
| "pg_step w (snd (ListDustThresholds t t' w))"
| "pg_step w (snd (AcquireWalletLock address ttl w))"
| "pg_step w (snd (ReleaseWalletLock address token w))"
| "pg_now w \<le> t \<Longrightarrow> pg_step w (w\<lparr> pg_now := t \<rparr>)"


lemma keeps_new_run:
  "keeps (\<lambda>now db. case fresh db of (i, db1) \<Rightarrow> Inr (i, db1\<lparr> db_ingestion_runs := (i, row) # db_ingestion_runs db1 \<rparr>))"
  by (rule keepsI) (auto simp: inv_parts runs_ok_Cons)

lemma CreateIngestionRun_inv: "db_inv (pg_db w) \<Longrightarrow> db_inv (pg_db (snd (CreateIngestionRun t w)))"
  unfolding CreateIngestionRun_def by (rule call_inv [OF _ keeps_new_run]) (auto split: sum.splits)

lemma FinalizeIngestionRun_inv: "db_inv (pg_db w) \<Longrightarrow> db_inv (pg_db (snd (FinalizeIngestionRun run st t cs notes w)))"
  unfolding FinalizeIngestionRun_def
  by (rule exec_update_inv, assumption, rule keepsI)
    (auto simp: inv_parts intro!: runs_ok_set split: option.splits)

lemma sync_ok_Cons:
  "sync_ok t \<Longrightarrow> \<not> ws_incomplete_window row \<Longrightarrow> sync_ok ((n, row) # t)"
  by (simp add: sync_ok_def reason_check_def)

lemma CreateWalletSyncRun_inv: "db_inv (pg_db w) \<Longrightarrow> db_inv (pg_db (snd (CreateWalletSyncRun run wallet win t w)))"
  unfolding CreateWalletSyncRun_def
  by (rule call_inv, assumption, rule keepsI)
    (auto simp: inv_parts intro!: runs_ok_Cons sync_ok_Cons split: sum.splits if_splits)

lemma UpdateWalletSyncProgress_inv: "db_inv (pg_db w) \<Longrightarrow> db_inv (pg_db (snd (UpdateWalletSyncProgress i p w)))"
  unfolding UpdateWalletSyncProgress_def by (rule exec_update_inv [OF _ keeps_update_sync_run])

lemma FinalizeWalletSyncRun_inv:
  "db_inv (pg_db w) \<Longrightarrow> db_inv (pg_db (snd (FinalizeWalletSyncRun i st t inc reason code msg notes w)))"
  unfolding FinalizeWalletSyncRun_def by (rule exec_update_inv [OF _ keeps_update_sync_run])

lemma EnsureWallet_inv: "db_inv (pg_db w) \<Longrightarrow> db_inv (pg_db (snd (EnsureWallet a w)))"
  unfolding EnsureWallet_def
  by (rule call_inv, assumption, rule keepsI)
    (auto simp: inv_parts intro!: ids_ok_new split: sum.splits option.splits)

lemma ids_ok_find:
  "ids_ok n t \<Longrightarrow> filter P t = (k, i, y) # rest \<Longrightarrow> map_of t k = Some (i, y)"
  by (auto simp: ids_ok_def map_keys_def intro!: map_of_is_SomeI dest: filter_eq_ConsD)

lemma UpdateWalletLastSyncedAt_inv: "db_inv (pg_db w) \<Longrightarrow> db_inv (pg_db (snd (UpdateWalletLastSyncedAt i t w)))"
  unfolding UpdateWalletLastSyncedAt_def
  by (rule exec_update_inv, assumption, rule keepsI)
    (auto simp: inv_parts intro!: ids_ok_set dest: ids_ok_find split: list.splits)

lemma UpsertNormalizedTransfers_inv: "db_inv (pg_db w) \<Longrightarrow> db_inv (pg_db (snd (UpsertNormalizedTransfers trs w)))"
proof -
  assume w: "db_inv (pg_db w)"
  obtain r1 w1 where 1: "driver_noop w = (r1, w1)" by fastforce
  obtain r2 w2 where 2: "driver_noop w1 = (r2, w2)" by fastforce
  obtain r3 w3 where 3: "upsert_rows trs 0 0 w2 = (r3, w3)" by fastforce
  obtain r4 w4 where 4: "driver_noop w3 = (r4, w4)" by fastforce
  have "pg_db w1 = pg_db w" "pg_db w2 = pg_db w" "pg_db w4 = pg_db w3"
    using driver_noop_db 1 2 4 by metis+
  moreover from this have "db_inv (pg_db w3)" using upsert_rows_inv [of w2 trs 0 0] 3 w by simp
  ultimately show ?thesis using 1 2 3 4 w by (auto simp: UpsertNormalizedTransfers_def split: sum.splits)
qed

lemma LinkWalletTransfer_inv: "db_inv (pg_db w) \<Longrightarrow> db_inv (pg_db (snd (LinkWalletTransfer i rel tr w)))"
  unfolding LinkWalletTransfer_def Let_def by (rule call_inv [OF _ keeps_link]) (auto split: sum.splits)

lemma UpsertCounterpartyEvent_inv: "db_inv (pg_db w) \<Longrightarrow> db_inv (pg_db (snd (UpsertCounterpartyEvent e w)))"
  using call_inv [OF _ keeps_upsert_counterparty, of w e]
  by (auto simp: UpsertCounterpartyEvent_def intro!: call_inv [OF _ keeps_upsert_counterparty] split: sum.splits)

lemma InsertPoisoningCandidates_inv: "db_inv (pg_db w) \<Longrightarrow> db_inv (pg_db (snd (InsertPoisoningCandidates i wid cs w)))"
proof -
  assume w: "db_inv (pg_db w)"
  obtain r1 w1 where 1: "driver_noop w = (r1, w1)" by fastforce
  obtain r2 w2 where 2: "driver_noop w1 = (r2, w2)" by fastforce
  obtain r3 w3 where 3: "insert_candidate_rows i wid cs 0 w2 = (r3, w3)" by fastforce
  obtain r4 w4 where 4: "driver_noop w3 = (r4, w4)" by fastforce
  have "pg_db w1 = pg_db w" "pg_db w2 = pg_db w" "pg_db w4 = pg_db w3"
    using driver_noop_db 1 2 4 by metis+
  moreover from this have "db_inv (pg_db w3)" using insert_candidate_rows_inv [of w2 i wid cs 0] 3 w by simp
  ultimately show ?thesis using 1 2 3 4 w by (auto simp: InsertPoisoningCandidates_def split: sum.splits)
qed

lemma ListDustThresholds_db: "pg_db (snd (ListDustThresholds a b w)) = pg_db w"
  by (cases rule: driver_call_cases [of "\<lambda>now db. Inr (sort_slice threshold_lt (filter (\<lambda>row. th_active_from row < b \<and>
          (case th_active_to row of None \<Rightarrow> True | Some to \<Rightarrow> a < to)) (db_asset_thresholds db)), db)" w])
    (simp_all add: ListDustThresholds_def scan_rows_db)

lemma AcquireWalletLock_inv: "db_inv (pg_db w) \<Longrightarrow> db_inv (pg_db (snd (AcquireWalletLock a n w)))"
  using AcquireWalletLock_cases [of a n w] keeps_acquire [of n a] unfolding keeps_def by (metis (no_types, lifting))

lemma ReleaseWalletLock_inv: "db_inv (pg_db w) \<Longrightarrow> db_inv (pg_db (snd (ReleaseWalletLock a t w)))"
  using ReleaseWalletLock_cases [of a t w] keeps_release [of a t] unfolding keeps_def by metis

lemmas store_inv = CreateIngestionRun_inv FinalizeIngestionRun_inv CreateWalletSyncRun_inv UpdateWalletSyncProgress_inv
  FinalizeWalletSyncRun_inv EnsureWallet_inv UpdateWalletLastSyncedAt_inv UpsertNormalizedTransfers_inv
  LinkWalletTransfer_inv UpsertCounterpartyEvent_inv InsertPoisoningCandidates_inv AcquireWalletLock_inv
  ReleaseWalletLock_inv

lemma pg_step_inv: "pg_step w w' \<Longrightarrow> db_inv (pg_db w) \<Longrightarrow> db_inv (pg_db w')"
  by (induction rule: pg_step.induct) (simp_all add: store_inv ListDustThresholds_db)

end
