(* ===== verification/Postgres_Upserts.thy ===== *)
theory Postgres_Upserts
imports Postgres_Schema
begin

text \<open>
  The properties of the store that the pipeline counts on: reachable tables are well formed, a wallet
  lock excludes every other worker until it runs out, writing transfers and candidates is all or
  nothing and repeatable, and the SQL of a counterparty event does what \<open>ApplyEvent\<close> does.
\<close>

section \<open>Writing transfers\<close>

definition stored_transfer :: "Pg \<Rightarrow> (string \<times> string) \<Rightarrow> NormalizedTransfer option" where
  "stored_transfer w k = map_option snd (map_of (db_transactions (pg_db w)) k)"

definition stored_id :: "Pg \<Rightarrow> (string \<times> string) \<Rightarrow> int option" where
  "stored_id w k = map_option fst (map_of (db_transactions (pg_db w)) k)"

text \<open>Later transfers replace earlier ones of the same key.\<close>

definition put_transfers ::
  "((string \<times> string) \<Rightarrow> NormalizedTransfer option) \<Rightarrow> NormalizedTransfer list \<Rightarrow> (string \<times> string) \<Rightarrow> NormalizedTransfer option" where
  "put_transfers m trs = foldl (\<lambda>m tr. m(transfer_key tr \<mapsto> tr)) m trs"

definition new_keys :: "Pg \<Rightarrow> NormalizedTransfer list \<Rightarrow> (string \<times> string) set" where
  "new_keys w trs = transfer_key ` set trs - dom (stored_transfer w)"

lemma put_transfers_simps [simp]:
  "put_transfers m [] = m" "put_transfers m (tr # trs) = put_transfers (m(transfer_key tr \<mapsto> tr)) trs"
  by (simp_all add: put_transfers_def)

lemma dom_put_transfers: "dom (put_transfers m trs) = dom m \<union> transfer_key ` set trs"
  by (induction trs arbitrary: m) auto

lemma upsert_transfer_result:
  assumes "driver_call (upsert_transfer tr) w = (Inr b, w1)"
  shows "stored_transfer w1 = (stored_transfer w)(transfer_key tr \<mapsto> tr)"
    and "b \<longleftrightarrow> transfer_key tr \<notin> dom (stored_transfer w)"
    and "stored_id w k = Some j \<Longrightarrow> stored_id w1 k = Some j"
proof -
  from driver_call_Inr [OF assms] have u: "upsert_transfer tr (pg_now w) (pg_db w) = Inr (b, pg_db w1)" by auto
  obtain i where db1: "db_transactions (pg_db w1) = map_set (transfer_key tr) (i, tr) (db_transactions (pg_db w))"
    and old: "\<And>j t. map_of (db_transactions (pg_db w)) (transfer_key tr) = Some (j, t) \<Longrightarrow> i = j"
    and b: "b \<longleftrightarrow> map_of (db_transactions (pg_db w)) (transfer_key tr) = None"
  proof (cases "map_of (db_transactions (pg_db w)) (transfer_key tr)")
    case None
    with u have "b" "pg_db w1 = (pg_db w)\<lparr> db_next_id := db_next_id (pg_db w) + 1,
        db_transactions := map_set (transfer_key tr) (db_next_id (pg_db w), tr) (db_transactions (pg_db w)) \<rparr>"
      by (simp_all add: upsert_transfer_def fresh_eq)
    with None show thesis by (intro that) auto
  next
    case (Some jt)
    obtain j t where jt: "jt = (j, t)" by fastforce
    with u Some have "\<not> b" "pg_db w1 = (pg_db w)\<lparr> db_next_id := db_next_id (pg_db w) + 1,
        db_transactions := map_set (transfer_key tr) (j, tr) (db_transactions (pg_db w)) \<rparr>"
      by (simp_all add: upsert_transfer_def fresh_eq)
    with Some jt show thesis by (intro that [of j]) auto
  qed
  show "stored_transfer w1 = (stored_transfer w)(transfer_key tr \<mapsto> tr)"
    by (simp add: stored_transfer_def db1 fun_eq_iff)
  show "b \<longleftrightarrow> transfer_key tr \<notin> dom (stored_transfer w)"
    by (cases "map_of (db_transactions (pg_db w)) (transfer_key tr)") (simp_all add: b stored_transfer_def domIff)
  show "stored_id w1 k = Some j" if "stored_id w k = Some j"
    using that old by (auto simp: stored_id_def db1)
qed

lemma upsert_rows_result:
  assumes "upsert_rows trs i u w = (Inr (i', u'), w')"
  shows "stored_transfer w' = put_transfers (stored_transfer w) trs \<and>
    i' = i + int (card (new_keys w trs)) \<and> i' + u' = i + u + int (length trs) \<and>
    (\<forall>k j. stored_id w k = Some j \<longrightarrow> stored_id w' k = Some j)"
  using assms
proof (induction trs arbitrary: i u w)
  case Nil
  then show ?case by (simp add: new_keys_def)
next
  case (Cons tr trs)
  obtain r w1 where c: "driver_call (upsert_transfer tr) w = (r, w1)" by fastforce
  with Cons.prems obtain b where r: "r = Inr b" by (cases r) auto
  note res = upsert_transfer_result [OF c [unfolded r]]
  have rest: "upsert_rows trs (if b then i + 1 else i) (if b then u else u + 1) w1 = (Inr (i', u'), w')"
    using Cons.prems c r by (cases b) auto
  have dom: "dom (stored_transfer w1) = insert (transfer_key tr) (dom (stored_transfer w))" by (simp add: res(1))
  have "new_keys w (tr # trs) = (if b then insert (transfer_key tr) (new_keys w1 trs) else new_keys w1 trs)"
    using res(2) unfolding new_keys_def dom by auto
  moreover have "transfer_key tr \<notin> new_keys w1 trs" "finite (new_keys w1 trs)"
    unfolding new_keys_def dom by auto
  ultimately show ?case
    using Cons.IH [OF rest] res(1,3) by (auto simp del: fun_upd_apply split: if_splits)
qed

lemma UpsertNormalizedTransfers_cases:
  obtains (error) e where "fst (UpsertNormalizedTransfers trs w) = Inl e" "pg_db (snd (UpsertNormalizedTransfers trs w)) = pg_db w"
  | (written) w2 w3 c where "fst (UpsertNormalizedTransfers trs w) = Inr c" "pg_db w2 = pg_db w"
      "upsert_rows trs 0 0 w2 = (Inr c, w3)" "pg_db (snd (UpsertNormalizedTransfers trs w)) = pg_db w3"
proof (cases "trs = []")
  case True
  then show thesis by (intro written [of "(0, 0)" w w]) (auto simp: UpsertNormalizedTransfers_def)
next
  case False
  obtain r1 w1 where r1: "driver_noop w = (r1, w1)" by fastforce
  obtain r2 w2 where r2: "driver_noop w1 = (r2, w2)" by fastforce
  obtain r3 w3 where r3: "upsert_rows trs 0 0 w2 = (r3, w3)" by fastforce
  obtain r4 w4 where r4: "driver_noop w3 = (r4, w4)" by fastforce
  note r = r1 r2 r3 r4
  have db: "pg_db w1 = pg_db w" "pg_db w2 = pg_db w" "pg_db w4 = pg_db w3"
    using driver_noop_db r1 r2 r4 by metis+
  consider c where "r1 = Inr ()" "r2 = Inr ()" "r3 = Inr c" "r4 = Inr ()"
    | "(\<exists>e. r1 = Inl e) \<or> (\<exists>e. r2 = Inl e) \<or> (\<exists>e. r3 = Inl e) \<or> (\<exists>e. r4 = Inl e)"
    by (cases r1; cases r2; cases r3; cases r4) auto
  then show thesis
  proof cases
    case (1 c)
    then show thesis using False r db by (intro written [of c w2 w3]) (auto simp: UpsertNormalizedTransfers_def)
  next
    case 2
    then have "(\<exists>e. fst (UpsertNormalizedTransfers trs w) = Inl e) \<and> pg_db (snd (UpsertNormalizedTransfers trs w)) = pg_db w"
      using False r db by (auto simp: UpsertNormalizedTransfers_def split: sum.splits)
    then show thesis using error by blast
  qed
qed

lemma put_transfers_eq: "put_transfers m trs = m ++ put_transfers Map.empty trs"
proof (induction trs arbitrary: m)
  case (Cons tr trs)
  let ?u = "[transfer_key tr \<mapsto> tr]"
  have "put_transfers m (tr # trs) = (m ++ ?u) ++ put_transfers Map.empty trs"
    using Cons [of "m ++ ?u"] by (simp del: fun_upd_apply)
  also have "\<dots> = m ++ (?u ++ put_transfers Map.empty trs)" by (rule map_add_assoc [symmetric])
  also have "\<dots> = m ++ put_transfers Map.empty (tr # trs)" using Cons [of ?u] by (simp del: fun_upd_apply)
  finally show ?case .
qed simp

lemma map_add_again: "(m ++ p) ++ p = m ++ p"
  by (simp add: map_add_def fun_eq_iff split: option.splits)

lemma put_transfers_again: "put_transfers (put_transfers m trs) trs = put_transfers m trs"
  by (subst (1 2) put_transfers_eq, subst (2) put_transfers_eq) (rule map_add_again)

lemma UpsertNormalizedTransfers_InrD:
  assumes "UpsertNormalizedTransfers trs w = (Inr (i, u), w')"
  shows "stored_transfer w' = put_transfers (stored_transfer w) trs"
    and "stored_id w \<subseteq>\<^sub>m stored_id w'"
    and "i = int (card (new_keys w trs))" and "i + u = int (length trs)"
proof -
  obtain w2 w3 where c: "pg_db w2 = pg_db w" "upsert_rows trs 0 0 w2 = (Inr (i, u), w3)" "pg_db w' = pg_db w3"
    by (cases rule: UpsertNormalizedTransfers_cases [of trs w]) (use assms in auto)
  have same: "stored_transfer w2 = stored_transfer w" "stored_id w2 = stored_id w" "new_keys w2 trs = new_keys w trs"
    "stored_transfer w' = stored_transfer w3" "stored_id w' = stored_id w3"
    using c by (auto simp: stored_transfer_def stored_id_def new_keys_def fun_eq_iff)
  note res = upsert_rows_result [OF c(2), unfolded same(1-3)]
  show "stored_transfer w' = put_transfers (stored_transfer w) trs"
    and "i = int (card (new_keys w trs))" and "i + u = int (length trs)"
    using res same by auto
  show "stored_id w \<subseteq>\<^sub>m stored_id w'"
    unfolding map_le_def using res same by (auto simp: domIff)
qed

lemma UpsertNormalizedTransfers_InlD: "UpsertNormalizedTransfers trs w = (Inl e, w') \<Longrightarrow> pg_db w' = pg_db w"
  by (cases rule: UpsertNormalizedTransfers_cases [of trs w]) auto

section \<open>Writing candidates\<close>

definition candidate_keys :: "int \<Rightarrow> CandidateRecord list \<Rightarrow> (int \<times> string \<times> int) set" where
  "candidate_keys run cs = (\<lambda>c. (run, cd_Signature c, cd_TransferIndex c)) ` set cs"

definition stored_candidates :: "Pg \<Rightarrow> (int \<times> string \<times> int) \<Rightarrow> CandidateRow option" where
  "stored_candidates w = map_of (db_poisoning_candidates (pg_db w))"

lemma insert_candidate_effect:
  assumes "insert_candidate run wid c now db = Inr (b, db')"
  shows "\<exists>row. db' = (if b then db\<lparr> db_poisoning_candidates :=
      map_set (run, cd_Signature c, cd_TransferIndex c) row (db_poisoning_candidates db) \<rparr> else db)"
    and "b \<longleftrightarrow> map_of (db_poisoning_candidates db) (run, cd_Signature c, cd_TransferIndex c) = None"
proof -
  have keys: "k \<in> set (map_keys m) \<longleftrightarrow> map_of m k \<noteq> None" for k and m :: "((int \<times> string \<times> int) \<times> CandidateRow) list"
    by (simp add: map_keys_def map_of_eq_None_iff)
  show "\<exists>row. db' = (if b then db\<lparr> db_poisoning_candidates :=
      map_set (run, cd_Signature c, cd_TransferIndex c) row (db_poisoning_candidates db) \<rparr> else db)"
    and "b \<longleftrightarrow> map_of (db_poisoning_candidates db) (run, cd_Signature c, cd_TransferIndex c) = None"
    using assms unfolding insert_candidate_def Let_def keys by (auto split: if_splits)
qed

lemma insert_candidate_result:
  assumes "driver_call (insert_candidate run wid c) w = (Inr b, w1)"
  shows "b \<longleftrightarrow> (run, cd_Signature c, cd_TransferIndex c) \<notin> dom (stored_candidates w)"
    and "dom (stored_candidates w1) = insert (run, cd_Signature c, cd_TransferIndex c) (dom (stored_candidates w))"
    and "stored_candidates w k = Some row \<Longrightarrow> stored_candidates w1 k = Some row"
proof -
  let ?k = "(run, cd_Signature c, cd_TransferIndex c)"
  from driver_call_Inr [OF assms] have u: "insert_candidate run wid c (pg_now w) (pg_db w) = Inr (b, pg_db w1)" by auto
  note e = insert_candidate_effect [OF u]
  show b: "b \<longleftrightarrow> ?k \<notin> dom (stored_candidates w)" using e(2) by (simp add: stored_candidates_def dom_def)
  have new: "\<exists>r. stored_candidates w1 = (if b then (stored_candidates w)(?k \<mapsto> r) else stored_candidates w)"
    using e(1) by (auto simp: stored_candidates_def)
  then show "dom (stored_candidates w1) = insert ?k (dom (stored_candidates w))"
    using b by (cases b) auto
  show "stored_candidates w1 k = Some row" if "stored_candidates w k = Some row"
    using new b that by (cases b; cases "k = ?k") (auto simp: domIff)
qed

lemma insert_candidate_rows_result:
  assumes "insert_candidate_rows run wid cs i w = (Inr i', w')"
  shows "i' = i + int (card (candidate_keys run cs - dom (stored_candidates w))) \<and>
    dom (stored_candidates w') = dom (stored_candidates w) \<union> candidate_keys run cs \<and>
    (\<forall>k row. stored_candidates w k = Some row \<longrightarrow> stored_candidates w' k = Some row)"
  using assms
proof (induction cs arbitrary: i w)
  case Nil
  then show ?case by (simp add: candidate_keys_def)
next
  case (Cons c cs)
  obtain r w1 where d: "driver_call (insert_candidate run wid c) w = (r, w1)" by fastforce
  with Cons.prems obtain b where r: "r = Inr b" by (cases r) auto
  note res = insert_candidate_result [OF d [unfolded r]]
  have rest: "insert_candidate_rows run wid cs (if b then i + 1 else i) w1 = (Inr i', w')"
    using Cons.prems d r by (cases b) auto
  let ?k = "(run, cd_Signature c, cd_TransferIndex c)"
  have "candidate_keys run (c # cs) = insert ?k (candidate_keys run cs)" by (simp add: candidate_keys_def)
  moreover from this have "candidate_keys run (c # cs) - dom (stored_candidates w) =
      (if b then insert ?k (candidate_keys run cs - dom (stored_candidates w1))
       else candidate_keys run cs - dom (stored_candidates w1))"
    using res(1) unfolding res(2) by auto
  moreover have "?k \<notin> candidate_keys run cs - dom (stored_candidates w1)" "finite (candidate_keys run cs)"
    by (auto simp: res(2) candidate_keys_def)
  ultimately show ?case using Cons.IH [OF rest] res(2,3) by (auto split: if_splits)
qed

lemma InsertPoisoningCandidates_cases:
  obtains (error) e where "fst (InsertPoisoningCandidates run wid cs w) = Inl e"
      "pg_db (snd (InsertPoisoningCandidates run wid cs w)) = pg_db w"
  | (written) w2 w3 c where "fst (InsertPoisoningCandidates run wid cs w) = Inr c" "pg_db w2 = pg_db w"
      "insert_candidate_rows run wid cs 0 w2 = (Inr c, w3)" "pg_db (snd (InsertPoisoningCandidates run wid cs w)) = pg_db w3"
proof (cases "cs = []")
  case True
  then show thesis by (intro written [of 0 w w]) (auto simp: InsertPoisoningCandidates_def)
next
  case False
  obtain r1 w1 where r1: "driver_noop w = (r1, w1)" by fastforce
  obtain r2 w2 where r2: "driver_noop w1 = (r2, w2)" by fastforce
  obtain r3 w3 where r3: "insert_candidate_rows run wid cs 0 w2 = (r3, w3)" by fastforce
  obtain r4 w4 where r4: "driver_noop w3 = (r4, w4)" by fastforce
  note r = r1 r2 r3 r4
  have db: "pg_db w1 = pg_db w" "pg_db w2 = pg_db w" "pg_db w4 = pg_db w3"
    using driver_noop_db r1 r2 r4 by metis+
  consider c where "r1 = Inr ()" "r2 = Inr ()" "r3 = Inr c" "r4 = Inr ()"
    | "(\<exists>e. r1 = Inl e) \<or> (\<exists>e. r2 = Inl e) \<or> (\<exists>e. r3 = Inl e) \<or> (\<exists>e. r4 = Inl e)"
    by (cases r1; cases r2; cases r3; cases r4) auto
  then show thesis
  proof cases
    case (1 c)
    then show thesis using False r db by (intro written [of c w2 w3]) (auto simp: InsertPoisoningCandidates_def)
  next
    case 2
    then have "(\<exists>e. fst (InsertPoisoningCandidates run wid cs w) = Inl e) \<and>
        pg_db (snd (InsertPoisoningCandidates run wid cs w)) = pg_db w"
      using False r db by (auto simp: InsertPoisoningCandidates_def split: sum.splits)
    then show thesis using error by blast
  qed
qed

section \<open>Counterparty events\<close>

text \<open>The columns that summarise events; the others identify the row and say when it was written.\<close>

definition event_columns :: "Counterparty \<Rightarrow> Counterparty" where
  "event_columns r = r\<lparr> cp_ID := 0, cp_FocalWalletID := 0, cp_CounterpartyAddress := [], cp_CreatedAt := 0, cp_UpdatedAt := 0 \<rparr>"

lemma event_columns_merged:
  assumes "0 < cp_InteractionCount old"
  shows "event_columns (merged_counterparty old (inserted_counterparty i now e) now') = ApplyEvent (event_columns old) e"
proof (rule Counterparty.equality)
qed (use assms in \<open>cases "ev_RelationType e"; cases "cp_FirstInboundAt old"; cases "cp_LastInboundAt old";
    cases "cp_FirstOutboundAt old"; cases "cp_LastOutboundAt old";
    simp add: event_columns_def merged_counterparty_def inserted_counterparty_def merge_at_def Let_def\<close>)+

lemma event_columns_inserted:
  assumes "0 \<le> ev_OccurredAt e"
  shows "event_columns (inserted_counterparty i now e) = ApplyEvent zero_counterparty e"
  using assms by (intro Counterparty.equality)
    (cases "ev_RelationType e"; simp add: event_columns_def inserted_counterparty_def zero_counterparty_def Let_def)+

definition event_key :: "Event \<Rightarrow> int \<times> string" where
  "event_key e = (ev_FocalWalletID e, ev_CounterpartyAddress e)"

text \<open>The table holds, for every key, the summary of the events of that key.\<close>

definition rows_summarise :: "Event list \<Rightarrow> Db \<Rightarrow> bool" where
  "rows_summarise es db \<longleftrightarrow> (\<forall>k. map_option event_columns (map_of (db_counterparties db) k) =
     (let mine = filter (\<lambda>e. event_key e = k) es in if mine = [] then None else Some (summary mine)))"

lemma summary_count: "cp_InteractionCount (summary es) = int (length es)"
  by (simp add: summary_def)

lemma upsert_counterparty_row:
  assumes "upsert_counterparty e now db = Inr (b, db')"
  shows "\<exists>i. db_counterparties db' = map_set (event_key e) (case map_of (db_counterparties db) (event_key e) of
      None \<Rightarrow> inserted_counterparty i now e
    | Some old \<Rightarrow> merged_counterparty old (inserted_counterparty i now e) now) (db_counterparties db)"
proof (cases "map_of (db_counterparties db) (event_key e)")
  case None
  with assms show ?thesis
    by (auto simp: upsert_counterparty_def event_key_def fresh_eq Let_def split: if_splits)
next
  case (Some old)
  with assms have "db' = (case fresh db of (i, db1) \<Rightarrow> db1\<lparr> db_counterparties :=
      map_set (event_key e) (merged_counterparty old (inserted_counterparty i now e) now) (db_counterparties db1) \<rparr>)"
    by (simp add: upsert_counterparty_def event_key_def fresh_eq Let_def)
  with Some show ?thesis by (auto simp: fresh_eq)
qed

lemma rows_summarise_step:
  assumes u: "upsert_counterparty e now db = Inr (b, db')" and rows: "rows_summarise es db" and t: "0 \<le> ev_OccurredAt e"
  shows "rows_summarise (es @ [e]) db'"
proof -
  obtain i where db': "db_counterparties db' = map_set (event_key e) (case map_of (db_counterparties db) (event_key e) of
      None \<Rightarrow> inserted_counterparty i now e
    | Some old \<Rightarrow> merged_counterparty old (inserted_counterparty i now e) now) (db_counterparties db)"
    using upsert_counterparty_row [OF u] by blast
  let ?mine = "filter (\<lambda>x. event_key x = event_key e) es"
  have old: "map_option event_columns (map_of (db_counterparties db) (event_key e)) = (if ?mine = [] then None else Some (summary ?mine))"
    using rows unfolding rows_summarise_def Let_def by blast
  have new: "map_option event_columns (map_of (db_counterparties db') (event_key e)) = Some (summary (?mine @ [e]))"
  proof (cases "map_of (db_counterparties db) (event_key e)")
    case None
    with old have "?mine = []" by (metis option.simps(3,8))
    with None show ?thesis using summary_snoc [of "[]" e] by (simp add: db' event_columns_inserted t summary_Nil)
  next
    case (Some r)
    with old have r: "?mine \<noteq> []" "event_columns r = summary ?mine" by (auto split: if_splits)
    then have "0 < cp_InteractionCount (event_columns r)" by (simp add: summary_count)
    then have "0 < cp_InteractionCount r" by (simp add: event_columns_def)
    with Some r show ?thesis by (simp add: db' event_columns_merged summary_snoc)
  qed
  show ?thesis unfolding rows_summarise_def
  proof
    fix k
    show "map_option event_columns (map_of (db_counterparties db') k) =
      (let mine = filter (\<lambda>x. event_key x = k) (es @ [e]) in if mine = [] then None else Some (summary mine))"
    proof (cases "k = event_key e")
      case True
      with new show ?thesis by simp
    next
      case False
      then show ?thesis using rows by (cases k) (simp add: db' rows_summarise_def)
    qed
  qed
qed

text \<open>The events of a wallet are written one after the other; the first failure stops.\<close>

fun upsert_events :: "Event list \<Rightarrow> (unit, Pg) call" where
  "upsert_events [] w = (Inr (), w)"
| "upsert_events (e # es) w =
     (case UpsertCounterpartyEvent e w of (Inl err, w1) \<Rightarrow> (Inl err, w1) | (Inr _, w1) \<Rightarrow> upsert_events es w1)"

lemma UpsertCounterpartyEvent_InrD:
  assumes "UpsertCounterpartyEvent e w = (Inr c, w')"
  shows "upsert_counterparty e (pg_now w) (pg_db w) = Inr (fst c, pg_db w')"
  using assms by (cases rule: driver_call_cases [of "upsert_counterparty e" w])
    (auto simp: UpsertCounterpartyEvent_def split: if_splits)

lemma upsert_events_summarise:
  "upsert_events es w = (Inr (), w') \<Longrightarrow> rows_summarise pre (pg_db w) \<Longrightarrow> list_all (\<lambda>e. 0 \<le> ev_OccurredAt e) es \<Longrightarrow>
     rows_summarise (pre @ es) (pg_db w')"
proof (induction es arbitrary: pre w)
  case (Cons e es)
  obtain r w1 where u: "UpsertCounterpartyEvent e w = (r, w1)" by fastforce
  with Cons.prems obtain c where r: "r = Inr c" by (cases r) auto
  have "rows_summarise (pre @ [e]) (pg_db w1)"
    using UpsertCounterpartyEvent_InrD [OF u [unfolded r]] Cons.prems by (auto intro: rows_summarise_step)
  from Cons.IH [OF _ this] show ?case using Cons.prems u r by simp
qed simp

section \<open>Links\<close>

lemma link_stmt_result:
  assumes "link_stmt wid rel key now db = Inr ((True, linked), db')"
  shows "\<exists>i t. map_of (db_transactions db) key = Some (i, t) \<and>
    set (db_wallet_transactions db') = insert (wid, i, rel) (set (db_wallet_transactions db)) \<and>
    linked = ((wid, i, rel) \<notin> set (db_wallet_transactions db))"
proof (cases "map_of (db_transactions db) key")
  case (Some it)
  obtain i t where it: "it = (i, t)" by fastforce
  show ?thesis
    using assms Some unfolding it by (auto simp: link_stmt_def split: if_splits)
qed (use assms in \<open>simp add: link_stmt_def\<close>)

lemma LinkWalletTransfer_InrD:
  "LinkWalletTransfer wid rel tr w = (Inr linked, w') \<Longrightarrow>
     link_stmt wid rel (transfer_key tr) (pg_now w) (pg_db w) = Inr ((True, linked), pg_db w')"
  by (cases rule: driver_call_cases [of "link_stmt wid rel (transfer_key tr)" w])
    (auto simp: LinkWalletTransfer_def Let_def split: if_splits prod.splits)

section \<open>Locks under interference\<close>

text \<open>What happens to the store while a worker holds the token \<open>t\<close> for \<open>a\<close>: others acquire and release
  (never this token of this wallet), anything that leaves the lock table alone, and time passes.\<close>

inductive foreign_step :: "string \<Rightarrow> string \<Rightarrow> Pg \<Rightarrow> Pg \<Rightarrow> bool" for a t where
  acquires: "foreign_step a t w (snd (AcquireWalletLock b n w))"
| releases: "(b, t') \<noteq> (a, t) \<Longrightarrow> foreign_step a t w (snd (ReleaseWalletLock b t' w))"
| writes: "db_wallet_locks (pg_db w') = db_wallet_locks (pg_db w) \<Longrightarrow> pg_now w' = pg_now w \<Longrightarrow> foreign_step a t w w'"
| ticks: "pg_now w \<le> now \<Longrightarrow> foreign_step a t w (w\<lparr> pg_now := now \<rparr>)"

inductive_cases foreign_stepE: "foreign_step a t w w'"

lemma AcquireWalletLock_now: "pg_now (snd (AcquireWalletLock b n w)) = pg_now w"
  by (cases rule: AcquireWalletLock_cases [of b n w]) auto

lemma ReleaseWalletLock_now: "pg_now (snd (ReleaseWalletLock b t w)) = pg_now w"
  by (cases rule: ReleaseWalletLock_cases [of b t w]) auto

lemma foreign_step_now: "foreign_step a t w w' \<Longrightarrow> pg_now w \<le> pg_now w'"
  by (induction rule: foreign_step.induct) (simp_all add: AcquireWalletLock_now ReleaseWalletLock_now)

lemma foreign_step_held:
  "foreign_step a (fst l) w w' \<Longrightarrow> lock_held w a l \<Longrightarrow> pg_now w' < snd l \<Longrightarrow> lock_held w' a l"
  by (erule foreign_stepE)
    (auto simp: pg_locks.acquire_keeps pg_locks.release_keeps, auto simp: lock_held_def)

lemma foreign_steps_held:
  "rtranclp (foreign_step a (fst l)) w w' \<Longrightarrow> lock_held w a l \<Longrightarrow> pg_now w' < snd l \<Longrightarrow> lock_held w' a l"
proof (induction rule: rtranclp_induct)
  case (step w1 w2)
  then show ?case using foreign_step_now [OF step(2)] foreign_step_held [OF step(2)] by simp
qed

lemma acquired_lease:
  assumes "AcquireWalletLock a n w = (Inr (True, t), w')"
  shows "lock_held w' a (t, pg_now w' + n * nanos_per_second)"
  using AcquireWalletLock_cases [of a n w]
proof cases
  case (answer t' rows)
  then have t: "t' = t" "rows \<noteq> 0" and n: "pg_now w' = pg_now w" using assms by (auto split: if_splits)
  have "0 < n * nanos_per_second" using answer by (simp add: nanos_per_second_def)
  with acquire_stmt_taken [OF answer(3) t(2)] assms t n show ?thesis by (simp add: lock_held_def)
qed (use assms in simp)

section \<open>Properties\<close>

text \<open>C11. Whatever operations run on the store, in whatever order and with whatever failures, the tables
  stay well formed: unique keys, ids below the sequence and never shared, a reason on every incomplete
  run and candidate, counts that add up and times in order for every counterparty, leases that end
  after they begin.\<close>

theorem schema_invariant:
  assumes "rtranclp pg_step w w'" and "db_inv (pg_db w)"
  shows "db_inv (pg_db w')"
  using assms by (induction rule: rtranclp_induct) (auto dest: pg_step_inv)

text \<open>C9. Mutual exclusion: from the moment a lock is acquired until its time has run out, nobody else
  acquires it, whatever the others do, as long as nobody releases it with its own token.\<close>

theorem wallet_lock_exclusive:
  assumes "AcquireWalletLock a n w = (Inr (True, t), w1)"
    and "rtranclp (foreign_step a t) w1 w2"
    and "pg_now w2 < pg_now w1 + n * nanos_per_second"
  shows "fst (AcquireWalletLock a m w2) \<noteq> Inr (True, t')"
  using pg_locks.acquire_blocked [OF foreign_steps_held [of a "(t, pg_now w1 + n * nanos_per_second)" w1 w2]]
    acquired_lease [OF assms(1)] assms(2,3) by simp

text \<open>Writing transfers is all or nothing. When it succeeds, every transfer is stored under its key
  with the last one winning, nothing else changes, ids stay, and the two counts are the number of keys
  that were new and of the other rows.\<close>

theorem transfers_written:
  "case UpsertNormalizedTransfers trs w of
     (Inl e, w') \<Rightarrow> pg_db w' = pg_db w
   | (Inr (inserted, updated), w') \<Rightarrow>
       stored_transfer w' = put_transfers (stored_transfer w) trs \<and>
       stored_id w \<subseteq>\<^sub>m stored_id w' \<and>
       inserted = int (card (new_keys w trs)) \<and> inserted + updated = int (length trs)"
proof -
  obtain r w' where res: "UpsertNormalizedTransfers trs w = (r, w')" by fastforce
  show ?thesis
  proof (cases r)
    case (Inl e)
    with res show ?thesis using UpsertNormalizedTransfers_InlD by simp
  next
    case (Inr c)
    obtain i u where c: "c = (i, u)" by fastforce
    from UpsertNormalizedTransfers_InrD [OF res [unfolded Inr c]] show ?thesis by (simp add: res Inr c)
  qed
qed

text \<open>Writing the same transfers again inserts nothing and changes no stored transfer.\<close>

theorem transfers_rerun:
  assumes "UpsertNormalizedTransfers trs w = (Inr c, w1)"
    and "UpsertNormalizedTransfers trs w2 = (Inr (inserted, updated), w3)" and "pg_db w2 = pg_db w1"
  shows "inserted = 0 \<and> updated = int (length trs) \<and> stored_transfer w3 = stored_transfer w1"
proof -
  obtain i u where c: "c = (i, u)" by fastforce
  note first = UpsertNormalizedTransfers_InrD [OF assms(1) [unfolded c]]
  note second = UpsertNormalizedTransfers_InrD [OF assms(2)]
  have same: "stored_transfer w2 = stored_transfer w1" using assms(3) by (simp add: stored_transfer_def fun_eq_iff)
  then have "new_keys w2 trs = {}" unfolding new_keys_def first(1) by (auto simp: dom_put_transfers)
  with second(3,4) same show ?thesis by (simp add: second(1) first(1) put_transfers_again)
qed

text \<open>C28. Inserting candidates is all or nothing, adds exactly the keys that were missing, counts them, and
  never changes a candidate that is already there.\<close>

theorem candidates_written:
  "case InsertPoisoningCandidates run wid cs w of
     (Inl e, w') \<Rightarrow> pg_db w' = pg_db w
   | (Inr inserted, w') \<Rightarrow>
       stored_candidates w \<subseteq>\<^sub>m stored_candidates w' \<and>
       dom (stored_candidates w') = dom (stored_candidates w) \<union> candidate_keys run cs \<and>
       inserted = int (card (candidate_keys run cs - dom (stored_candidates w)))"
proof (cases rule: InsertPoisoningCandidates_cases [of run wid cs w])
  case (error e)
  then show ?thesis by (auto split: prod.splits)
next
  case (written w2 w3 c)
  have same: "stored_candidates w2 = stored_candidates w"
    "stored_candidates (snd (InsertPoisoningCandidates run wid cs w)) = stored_candidates w3"
    using written by (auto simp: stored_candidates_def)
  have "stored_candidates w \<subseteq>\<^sub>m stored_candidates w3"
    unfolding map_le_def using insert_candidate_rows_result [OF written(3)] same by (auto simp: domIff)
  then show ?thesis
    using insert_candidate_rows_result [OF written(3)] same written(1) by (auto split: prod.splits)
qed

text \<open>C10. The SQL of a counterparty event implements \<open>ApplyEvent\<close>: after the events of any wallets have been
  written one by one into an empty table, the row of every wallet and address holds the summary of
  exactly its own events, and there is no other row.\<close>

theorem counterparty_rows:
  assumes "upsert_events es w = (Inr (), w')" and "db_counterparties (pg_db w) = []"
    and "list_all (\<lambda>e. 0 \<le> ev_OccurredAt e) es"
  shows "map_option event_columns (map_of (db_counterparties (pg_db w')) k) =
    (if event_key ` set es \<inter> {k} = {} then None else Some (summary (filter (\<lambda>e. event_key e = k) es)))"
proof -
  have "rows_summarise [] (pg_db w)" using assms(2) by (simp add: rows_summarise_def)
  from upsert_events_summarise [OF assms(1) this assms(3)]
  have "rows_summarise es (pg_db w')" by simp
  moreover have "event_key ` set es \<inter> {k} = {} \<longleftrightarrow> filter (\<lambda>e. event_key e = k) es = []"
    by (auto simp: filter_empty_conv)
  ultimately show ?thesis by (cases k) (simp add: rows_summarise_def Let_def)
qed

text \<open>Linking: a call that succeeds leaves the link in place, and it reports a new link exactly when there
  was none; the transaction must be stored.\<close>

theorem link_once:
  assumes "LinkWalletTransfer wid rel tr w = (Inr linked, w')"
  shows "\<exists>i. stored_id w (transfer_key tr) = Some i \<and>
    set (db_wallet_transactions (pg_db w')) = insert (wid, i, rel) (set (db_wallet_transactions (pg_db w))) \<and>
    linked = ((wid, i, rel) \<notin> set (db_wallet_transactions (pg_db w)))"
  using link_stmt_result [OF LinkWalletTransfer_InrD [OF assms]] by (auto simp: stored_id_def)

section \<open>Witnesses\<close>

definition empty_db :: Db where
  "empty_db = \<lparr> db_next_id = 1, db_ingestion_runs = [], db_wallets = [], db_wallet_sync_runs = [], db_transactions = [],
     db_wallet_transactions = [], db_counterparties = [], db_poisoning_candidates = [], db_asset_thresholds = [],
     db_wallet_locks = [], db_config_override = None, db_export_jobs = [] \<rparr>"

definition sample_pg :: Pg where
  "sample_pg = \<lparr> pg_db = empty_db, pg_now = 1000, pg_calls = 0, pg_fault = (\<lambda>n. None), pg_draws = 0,
     pg_random = (\<lambda>n. Inr ''0a'') \<rparr>"

lemma empty_db_inv: "db_inv empty_db"
  by (simp add: empty_db_def db_inv_def runs_ok_def ids_ok_def sync_ok_def transactions_ok_def counterparties_ok_def
      candidates_ok_def locks_ok_def map_keys_def)

theorem schema_invariant_witness: "db_inv (pg_db (snd (AcquireWalletLock ''a'' 60 (snd (EnsureWallet ''a'' sample_pg)))))"
proof (rule schema_invariant)
  show "rtranclp pg_step sample_pg (snd (AcquireWalletLock ''a'' 60 (snd (EnsureWallet ''a'' sample_pg))))"
    by (rule rtranclp.rtrancl_into_rtrancl [OF r_into_rtranclp]) (rule pg_step.intros)+
  show "db_inv (pg_db sample_pg)" using empty_db_inv by (simp add: sample_pg_def)
qed

definition sample_locked :: Pg where
  "sample_locked = snd (AcquireWalletLock ''a'' 60 sample_pg)"

lemma sample_locked: "AcquireWalletLock ''a'' 60 sample_pg = (Inr (True, ''rnd:0a''), sample_locked)"
  by (simp add: sample_locked_def prod_eq_iff) code_simp

theorem wallet_lock_exclusive_witness:
  "fst (AcquireWalletLock ''a'' 60 (sample_locked\<lparr> pg_now := 1001 \<rparr>)) \<noteq> Inr (True, ''rnd:0a'')"
proof (rule wallet_lock_exclusive [OF sample_locked])
  show "rtranclp (foreign_step ''a'' ''rnd:0a'') sample_locked (sample_locked\<lparr> pg_now := 1001 \<rparr>)"
    by (rule r_into_rtranclp, rule foreign_step.ticks) code_simp
  show "pg_now (sample_locked\<lparr> pg_now := 1001 \<rparr>) < pg_now sample_locked + 60 * nanos_per_second" by code_simp
qed

definition sample_written :: Pg where
  "sample_written = snd (UpsertNormalizedTransfers [sample_transfer ''5'' 7 DustFalse] sample_pg)"

lemma fst_eq: "fst p = x \<Longrightarrow> p = (x, snd p)"
  by (cases p) simp

theorem transfers_rerun_witness:
  "fst (UpsertNormalizedTransfers [sample_transfer ''5'' 7 DustFalse] sample_written) = Inr (0, 1)"
proof -
  have "fst (UpsertNormalizedTransfers [sample_transfer ''5'' 7 DustFalse] sample_pg) = Inr (1, 0)" by code_simp
  from fst_eq [OF this]
  have 1: "UpsertNormalizedTransfers [sample_transfer ''5'' 7 DustFalse] sample_pg = (Inr (1, 0), sample_written)"
    by (simp add: sample_written_def)
  have "\<not> Option.is_none (case fst (UpsertNormalizedTransfers [sample_transfer ''5'' 7 DustFalse] sample_written) of Inl _ \<Rightarrow> None | Inr c \<Rightarrow> Some c)"
    by code_simp
  then obtain i u where "fst (UpsertNormalizedTransfers [sample_transfer ''5'' 7 DustFalse] sample_written) = Inr (i, u)"
    by (auto split: sum.splits)
  with transfers_rerun [OF 1 fst_eq [OF this] refl] show ?thesis by simp
qed

definition sample_store :: Pg where
  "sample_store = snd (EnsureWallet ''a'' sample_written)"

theorem link_once_witness:
  "set (db_wallet_transactions (pg_db (snd (LinkWalletTransfer 2 RelationSender (sample_transfer ''5'' 7 DustFalse) sample_store)))) =
   {(2, 1, RelationSender)}"
proof -
  have l: "fst (LinkWalletTransfer 2 RelationSender (sample_transfer ''5'' 7 DustFalse) sample_store) = Inr True"
    and i: "stored_id sample_store (transfer_key (sample_transfer ''5'' 7 DustFalse)) = Some 1"
    and n: "db_wallet_transactions (pg_db sample_store) = []"
    by code_simp+
  from link_once [OF fst_eq [OF l]] show ?thesis by (simp add: i n)
qed

theorem counterparty_rows_witness:
  "map_option event_columns (map_of (db_counterparties (pg_db (snd (upsert_events
     [sample_event RelationSender 5, sample_event RelationReceiver 3] (snd (EnsureWallet ''a'' sample_pg)))))) (1, ''c'')) =
   Some (summary [sample_event RelationSender 5, sample_event RelationReceiver 3])"
proof -
  have "fst (upsert_events [sample_event RelationSender 5, sample_event RelationReceiver 3] (snd (EnsureWallet ''a'' sample_pg))) = Inr ()"
    by code_simp
  note rows = counterparty_rows [OF fst_eq [OF this], of "(1, ''c'')"]
  have "db_counterparties (pg_db (snd (EnsureWallet ''a'' sample_pg))) = []"
    by (simp add: sample_pg_def empty_db_def EnsureWallet_def driver_call_def fresh_eq)
  with rows show ?thesis by (simp add: sample_event_def event_key_def)
qed

end
