(* ===== verification/Wallet_Runner_Spec.thy ===== *)
theory Wallet_Runner_Spec
imports Wallet_Runner Postgres_Upserts
begin

text \<open>
  The wallet runner: the status, the error and the row it leaves agree on every path; the row of the run
  is finalized exactly once and with a reason the schema accepts; running against PostgreSQL keeps the
  schema invariant; and transfers that are linked already are not counted again.
\<close>

section \<open>Every path settles\<close>

text \<open>What a truncation reason can be.\<close>

definition truncation_reasons :: "string set" where
  "truncation_reasons = (\<lambda>(b, s). mergeTruncationReason b s) ` (truncation_codes \<times> truncation_codes)"

lemma truncation_reasons_Nil: "[] \<in> truncation_reasons"
proof -
  have "mergeTruncationReason [] [] = []" using plain_trim [of "[]"] by (simp add: mergeTruncationReason_def plain_reason_def)
  moreover have "([], []) \<in> truncation_codes \<times> truncation_codes" by (simp add: truncation_codes_def)
  ultimately show ?thesis unfolding truncation_reasons_def by force
qed

text \<open>What the deferred function finds when the body is over.\<close>

definition explained :: "WalletSyncProgress \<Rightarrow> bool" where
  "explained p \<longleftrightarrow> plain_reason (sp_UnknownGateReason p) \<and>
     (sp_IncompleteWindow p \<longleftrightarrow> sp_UnknownGateReason p \<noteq> []) \<and>
     (sp_TruncationReason p \<noteq> [] \<longrightarrow> sp_IncompleteWindow p) \<and>
     sp_TruncationReason p \<in> truncation_reasons"

definition settled :: "go_error option \<Rightarrow> runner \<Rightarrow> bool" where
  "settled err st \<longleftrightarrow> explained (rn_progress st) \<and>
     (case rn_status st of
        WalletStatusSucceeded \<Rightarrow> err = None \<and> \<not> sp_IncompleteWindow (rn_progress st)
      | WalletStatusPartial \<Rightarrow> sp_IncompleteWindow (rn_progress st)
      | WalletStatusTimedOut \<Rightarrow> err \<noteq> None \<and> sp_IncompleteWindow (rn_progress st)
      | WalletStatusFailed \<Rightarrow> err \<noteq> None \<and> \<not> sp_IncompleteWindow (rn_progress st)
      | _ \<Rightarrow> False)"

lemma explained_zero: "explained zero_progress"
  by (simp add: explained_def zero_progress_def plain_reason_def truncation_reasons_Nil)

lemma explained_mark:
  assumes "explained p" and "visible_ends reason"
  shows "explained (mark_incomplete reason p)" and "sp_IncompleteWindow (mark_incomplete reason p)"
proof -
  have pl: "\<forall>r \<in> set [sp_UnknownGateReason p, reason]. plain_reason r"
    using assms by (simp add: explained_def plain_reason_def)
  have "reason \<noteq> []" using assms(2) by (simp add: visible_ends_def)
  then show "explained (mark_incomplete reason p)" and "sp_IncompleteWindow (mark_incomplete reason p)"
    using mergeReasons_plain [OF pl] assms(1) by (auto simp: explained_def mark_incomplete_def)
qed

text \<open>The reasons the runner writes.\<close>

lemma runner_reasons:
  "visible_ends ''unknown_required_gates:wallet_link_persistence_failed''"
  "visible_ends ''unknown_required_gates:counterparty_persistence_failed''"
  "visible_ends ''unknown_required_gates:candidate_persistence_failed''"
  "visible_ends ''unknown_required_gates:wallet_progress_persistence_failed''"
  "visible_ends ''unknown_required_gates:wallet_metadata_update_failed''"
  "visible_ends ''unknown_required_gates:wallet_runner_timeout''"
  "visible_ends ''unknown_required_gates:incomplete_window''"
  "visible_ends ''baseline''" "visible_ends ''scan''"
  by (simp_all add: visible_ends_def visible_def less_eq_char_def)

lemma fail_partial_settled:
  assumes "fail_partial code e status reason what st = (err, st')" and "explained (rn_progress st)"
    and "visible_ends reason" and "status = WalletStatusPartial \<or> status = WalletStatusTimedOut"
  shows "settled err st'" and "err \<noteq> None"
  using assms explained_mark [OF assms(2,3)] by (auto simp: fail_partial_def settled_def)

lemma fail_hard_settled:
  assumes "fail_hard code e what st = (err, st')" and "rn_progress st = zero_progress"
  shows "settled err st'" and "err \<noteq> None"
  using assms explained_zero by (auto simp: fail_hard_def settled_def zero_progress_def)

lemma on_counters_simps [simp]:
  "rn_progress (on_counters f st) = rn_progress st" "rn_status (on_counters f st) = rn_status st"
  "rr_Counters (rn_report (on_counters f st)) = f (rr_Counters (rn_report st))"
  "rn_progressPersisted (on_counters f st) = rn_progressPersisted st"
  by (simp_all add: on_counters_def)

lemma link_loop_settled:
  assumes "link_loop store i obs st w = ((err, st'), w')" and "rn_progress st = zero_progress"
  shows "case err of None \<Rightarrow> rn_progress st' = zero_progress | Some e \<Rightarrow> settled err st'"
  using assms
proof (induction obs arbitrary: st w)
  case (Cons ob obs)
  obtain r w1 where l: "st_LinkWalletTransfer store i (obs_RelationType ob) (obs_Transfer ob) w = (r, w1)" by fastforce
  have ex: "explained (rn_progress st)" using Cons.prems(2) explained_zero by simp
  show ?case
  proof (cases r)
    case (Inl e)
    with Cons.prems l have f: "fail_partial ''wallet_transfer_link_failed'' e WalletStatusPartial
        ''unknown_required_gates:wallet_link_persistence_failed'' ''link wallet transfer: '' st = (err, st')" by simp
    show ?thesis using fail_partial_settled [OF f ex runner_reasons(1)] by auto
  next
    case r: (Inr linked)
    show ?thesis
    proof (cases linked)
      case False
      with Cons l r show ?thesis by auto
    next
      case True
      obtain r2 w2 where u: "st_UpsertCounterpartyEvent store (event_of i ob) w1 = (r2, w2)" by fastforce
      show ?thesis
      proof (cases r2)
        case (Inl e)
        with Cons.prems l r True u have f: "fail_partial ''counterparty_upsert_failed'' e WalletStatusPartial
            ''unknown_required_gates:counterparty_persistence_failed'' ''upsert counterparty event: ''
            (on_counters (\<lambda>c. c\<lparr> c_TransactionsLinked := c_TransactionsLinked c + 1 \<rparr>) st) = (err, st')"
          by (simp add: Let_def)
        show ?thesis using fail_partial_settled [OF f _ runner_reasons(2)] ex by auto
      next
        case (Inr cu)
        with Cons.prems l r True u show ?thesis
          by (cases cu) (auto simp: Let_def intro: Cons.IH)
      qed
    qed
  qed
qed simp

lemma progress_explained:
  assumes "RunWalletCoreSync sha client p w = (Inr r, w')"
  shows "explained (progress_of r c n)"
    and "sp_IncompleteWindow (progress_of r c n) \<longleftrightarrow> cr_IncompleteWindow r"
    and "sp_TruncationReason (progress_of r c n) = mergeTruncationReason (cr_BaselineTruncation r) (cr_ScanTruncation r)"
proof -
  note r = core_reasons [OF assms]
  let ?t = "mergeTruncationReason (cr_BaselineTruncation r) (cr_ScanTruncation r)"
  let ?rs = "[cr_UnknownGateReason r, truncationReason ''baseline'' (cr_BaselineTruncation r),
     truncationReason ''scan'' (cr_ScanTruncation r)]"
  have "\<forall>x \<in> set ?rs. plain_reason x"
    using r(1) truncationReason_plain(1) [OF r(7) runner_reasons(8)] truncationReason_plain(1) [OF r(8) runner_reasons(9)] by simp
  note m = mergeReasons_plain [OF this]
  have "?t = []" if "\<not> cr_IncompleteWindow r"
  proof -
    from that r(4) have "cr_BaselineTruncation r = []" "cr_ScanTruncation r = []" by blast+
    then show ?thesis using plain_trim [of "[]"] by (simp add: mergeTruncationReason_def plain_reason_def)
  qed
  then have t: "?t \<noteq> [] \<Longrightarrow> cr_IncompleteWindow r" by blast
  have trim: "trim_space (cr_UnknownGateReason r) = cr_UnknownGateReason r" by (rule plain_trim [OF r(1)])
  show "sp_IncompleteWindow (progress_of r c n) \<longleftrightarrow> cr_IncompleteWindow r"
    using t by (auto simp: progress_of_def Let_def)
  show "sp_TruncationReason (progress_of r c n) = ?t" by (simp add: progress_of_def Let_def)
  have reasons: "?t \<in> truncation_reasons" using r(7,8) by (auto simp: truncation_reasons_def)
  show "explained (progress_of r c n)"
  proof (cases "?t = []")
    case True
    then show ?thesis using r(1,2) trim reasons by (auto simp: progress_of_def explained_def Let_def)
  next
    case False
    then have "mergeReasons ?rs \<noteq> []" using m(2) r(2) t by simp
    then show ?thesis
      using False m(1) plain_trim [OF m(1)] reasons by (auto simp: progress_of_def explained_def Let_def)
  qed
qed

lemma finish_progress_settled:
  assumes "finish_progress store i j t n st w = ((err, st'), w')" and "explained (rn_progress st)"
  shows "settled err st'"
proof -
  obtain r w1 where u: "st_UpdateWalletSyncProgress store j (rn_progress st) w = (r, w1)" by fastforce
  show ?thesis
  proof (cases r)
    case (Inl e)
    with assms(1) u have f: "fail_partial ''wallet_sync_progress_update_failed'' e WalletStatusPartial
        ''unknown_required_gates:wallet_progress_persistence_failed'' ''update wallet sync progress: '' st = (err, st')"
      by (simp add: finish_progress_def)
    show ?thesis using fail_partial_settled [OF f assms(2) runner_reasons(4)] by blast
  next
    case (Inr x)
    obtain r2 w2 where s: "st_UpdateWalletLastSyncedAt store i t w1 = (r2, w2)" by fastforce
    show ?thesis
    proof (cases r2)
      case (Inl e)
      with assms(1) u Inr s have f: "fail_partial ''wallet_last_synced_update_failed'' e WalletStatusPartial
          ''unknown_required_gates:wallet_metadata_update_failed'' ''update wallet last_synced_at: ''
          (st\<lparr> rn_progressPersisted := True \<rparr>) = (err, st')"
        by (simp add: finish_progress_def)
      show ?thesis using fail_partial_settled [OF f _ runner_reasons(5)] assms(2) by simp
    next
      case (Inr y)
      with assms u \<open>r = Inr x\<close> s show ?thesis
        by (auto simp: finish_progress_def settled_def)
    qed
  qed
qed

lemma persist_settled:
  assumes "persist store i j t r st w = ((err, st'), w')" and "RunWalletCoreSync sha client p w0 = (Inr r, w0')"
    and "rn_progress st = zero_progress"
  shows "settled err st'"
proof -
  obtain r1 w1 where u: "st_UpsertNormalizedTransfers store (dedupeTransfers (cr_BaselineTransfers r @ cr_ScanTransfers r)) w = (r1, w1)"
    by fastforce
  let ?st = "on_counters (core_counters r) st"
  show ?thesis
  proof (cases r1)
    case (Inl e)
    with assms(1) u have f: "fail_hard ''transfer_upsert_failed'' e ''upsert normalized transfers: '' ?st = (err, st')"
      by (simp add: persist_def)
    show ?thesis using fail_hard_settled [OF f] assms(3) by simp
  next
    case (Inr iu)
    obtain ins upd where iu: "iu = (ins, upd)" by fastforce
    obtain e2 st2 w2 where l: "link_loop store i (cr_BaselineObservations r @ cr_ScanObservations r)
        (on_counters (\<lambda>c. c\<lparr> c_TransactionsInserted := ins \<rparr>) ?st) w1 = ((e2, st2), w2)" by (metis prod.exhaust)
    note linked = link_loop_settled [OF l]
    show ?thesis
    proof (cases e2)
      case (Some e)
      with assms(1) u Inr iu l have "err = Some e" "st2 = st'" by (simp_all add: persist_def)
      with linked Some assms(3) show ?thesis by simp
    next
      case None
      obtain r3 w3 where c: "st_InsertPoisoningCandidates store j i (map candidate_record (cr_Candidates r)) w2 = (r3, w3)"
        by fastforce
      have p2: "explained (rn_progress st2)" using linked None assms(3) explained_zero by simp
      show ?thesis
      proof (cases r3)
        case (Inl e)
        with assms(1) u Inr iu l None c have f: "fail_partial ''candidate_insert_failed'' e WalletStatusPartial
            ''unknown_required_gates:candidate_persistence_failed'' ''insert poisoning candidates: '' st2 = (err, st')"
          by (simp add: persist_def)
        show ?thesis using fail_partial_settled [OF f p2 runner_reasons(3)] by blast
      next
        case n: (Inr n)
        show ?thesis
          using assms(1) u Inr iu l None c n progress_explained(1) [OF assms(2)]
          by (auto simp: persist_def Let_def intro: finish_progress_settled)
      qed
    qed
  qed
qed

lemma run_body_settled:
  assumes "run_body sha rt cfg store client a limits win i j runner_start w = ((err, st), w')"
  shows "settled err st"
proof -
  have zero: "rn_progress runner_start = zero_progress" by (simp add: runner_start_def)
  obtain r w1 where d: "buildDustClassifier store (win_BaselineStart win) (win_ScanEnd win) w = (r, w1)" by fastforce
  show ?thesis
  proof (cases r)
    case (Inl e)
    with assms d have f: "fail_hard ''dust_threshold_load_failed'' e ''build dust classifier: '' runner_start = (err, st)"
      by (simp add: run_body_def)
    show ?thesis using fail_hard_settled [OF f zero] by blast
  next
    case (Inr classify)
    obtain r2 w2 where c: "RunWalletCoreSync sha client (core_params cfg limits a win classify) w1 = (r2, w2)" by fastforce
    show ?thesis
    proof (cases r2)
      case (Inl e)
      with assms d Inr c have f: "core_failed e (rt_CtxErr rt w2) runner_start = (err, st)"
        by (auto simp: run_body_def)
      show ?thesis
      proof (cases "is_deadline e \<or> (case rt_CtxErr rt w2 of None \<Rightarrow> False | Some c \<Rightarrow> is_deadline c)")
        case True
        with f have g: "fail_partial ''core_sync_failed'' e WalletStatusTimedOut ''unknown_required_gates:wallet_runner_timeout''
            ''run wallet core sync: '' runner_start = (err, st)" by (simp only: core_failed_def if_True)
        show ?thesis using fail_partial_settled [OF g _ runner_reasons(6)] explained_zero zero by simp
      next
        case False
        with f have g: "fail_hard ''core_sync_failed'' e ''run wallet core sync: '' runner_start = (err, st)"
          by (simp add: core_failed_def IsPartial_def runner_start_def)
        show ?thesis using fail_hard_settled [OF g zero] by blast
      qed
    next
      case r: (Inr r)
      with assms d Inr c have "persist store i j (win_ScanEnd win) r runner_start w2 = ((err, st), w')"
        by (simp add: run_body_def)
      from persist_settled [OF this c [unfolded r] zero] show ?thesis .
    qed
  qed
qed

text \<open>What a report and its error say together.\<close>

definition verdict :: "WalletRunReport \<Rightarrow> go_error option \<Rightarrow> bool" where
  "verdict report err \<longleftrightarrow>
     (case rr_WalletStatus report of
        WalletStatusSucceeded \<Rightarrow> \<not> rr_IncompleteWindow report \<and> rr_TruncationReason report = []
      | WalletStatusPartial \<Rightarrow> rr_IncompleteWindow report
      | WalletStatusTimedOut \<Rightarrow> rr_IncompleteWindow report \<and> err \<noteq> None
      | WalletStatusFailed \<Rightarrow> \<not> rr_IncompleteWindow report \<and> err \<noteq> None
      | _ \<Rightarrow> False)"

lemma finalize_run_result:
  assumes "finalize_run rt store j (err, st) w = ((report, err'), w')"
  shows "rr_WalletStatus report = rn_status st" "rr_IncompleteWindow report = sp_IncompleteWindow (rn_progress st)"
    "rr_TruncationReason report = sp_TruncationReason (rn_progress st)" "err \<noteq> None \<Longrightarrow> err' \<noteq> None"
  using assms by (auto simp: finalize_run_def Let_def split: prod.splits sum.splits)

lemma settled_verdict:
  assumes "finalize_run rt store j (err, st) w = ((report, err'), w')" and "settled err st"
  shows "verdict report err'" and "rr_TruncationReason report \<in> truncation_reasons"
  using assms(2) finalize_run_result [OF assms(1)]
  by (auto simp: verdict_def settled_def explained_def split: WalletStatus.splits)

section \<open>The interface of the body\<close>

text \<open>A property of the world that the provider and every operation of the store keep, other than those that
  open and close the row of the run, is kept by all that runs between these two.\<close>

locale store_client =
  fixes S :: "'w store" and E :: "'w env" and I :: "'w \<Rightarrow> bool"
  assumes fetch: "I w \<Longrightarrow> I (snd (env_FetchEnhancedPage E w a b))"
    and sleep: "I w \<Longrightarrow> I (snd (env_sleepContext E w d))"
    and thresholds: "I w \<Longrightarrow> I (snd (st_ListDustThresholds S t t' w))"
    and transfers: "I w \<Longrightarrow> I (snd (st_UpsertNormalizedTransfers S trs w))"
    and link: "I w \<Longrightarrow> I (snd (st_LinkWalletTransfer S i rel tr w))"
    and event: "I w \<Longrightarrow> I (snd (st_UpsertCounterpartyEvent S e w))"
    and candidates: "I w \<Longrightarrow> I (snd (st_InsertPoisoningCandidates S j i cs w))"
    and progress: "I w \<Longrightarrow> I (snd (st_UpdateWalletSyncProgress S j p w))"
    and synced: "I w \<Longrightarrow> I (snd (st_UpdateWalletLastSyncedAt S i t w))"
begin

lemma fetch_retry_keeps: "I w \<Longrightarrow> I (snd (fetch_retry_loop E a b m n w))"
proof (induction "nat (m - n)" arbitrary: n w rule: less_induct)
  case less
  obtain r w1 where f: "env_FetchEnhancedPage E w a b = (r, w1)" by fastforce
  obtain s w2 where d: "env_sleepContext E w1 (retryBackoff n) = (s, w2)" by fastforce
  have "I w1" "I w2" using fetch [OF less.prems, of a b] sleep [of w1 "retryBackoff n"] f d by auto
  then show ?case
    using less.hyps [of "n + 1" w2] f d
    by (subst fetch_retry_loop.simps) (auto split: sum.splits option.splits)
qed

lemma page_keeps: "I w \<Longrightarrow> I (snd (fetchPageWithRetry E a b m w))"
  by (simp add: fetchPageWithRetry_def fetch_retry_keeps)

lemma fetch_loop_keeps: "I w \<Longrightarrow> I (snd (fetch_loop E a p res b n w))"
proof (induction "nat (fp_MaxPages p - n)" arbitrary: n w res b rule: less_induct)
  case less
  obtain s w1 where d: "(if n > 0 \<and> fp_RequestDelay p > 0 then env_sleepContext E w (fp_RequestDelay p) else (None, w)) = (s, w1)"
    by fastforce
  obtain r w2 where f: "fetchPageWithRetry E a b (fp_MaxRetries p) w1 = (r, w2)" by fastforce
  have "I w1" using sleep [OF less.prems, of "fp_RequestDelay p"] less.prems d by (auto split: if_splits)
  moreover from this have "I w2" using page_keeps [of w1 a b "fp_MaxRetries p"] f by simp
  ultimately show ?case
    using less.prems less.hyps [of "n + 1" w2] d f
    by (subst fetch_loop.simps) (auto split: sum.splits option.splits prod.splits)
qed

lemma window_keeps: "I w \<Longrightarrow> I (snd (FetchEnhancedWindow (Some E) a p w))"
  by (simp add: FetchEnhancedWindow_def fetch_loop_keeps)

lemma core_sync_keeps: "I w \<Longrightarrow> I (snd (RunWalletCoreSync sha (Some E) p w))"
proof -
  assume w: "I w"
  obtain r1 w1 where f1: "FetchEnhancedWindow (Some E) (cs_FocalWalletAddress p)
      (fetch_params p (cs_BaselineStart p) (cs_BaselineEnd p)) w = (r1, w1)" by fastforce
  obtain r2 w2 where f2: "FetchEnhancedWindow (Some E) (cs_FocalWalletAddress p)
      (fetch_params p (cs_ScanStart p) (cs_ScanEnd p)) w1 = (r2, w2)" by fastforce
  have "I w1" "I w2" using window_keeps w f1 f2 by (metis snd_conv)+
  then show ?thesis
    using w f1 f2 by (auto simp: RunWalletCoreSync_def split: option.splits prod.splits sum.splits)
qed

lemma link_loop_keeps: "I w \<Longrightarrow> I (snd (link_loop S i obs st w))"
proof (induction obs arbitrary: st w)
  case (Cons ob obs)
  obtain r w1 where l: "st_LinkWalletTransfer S i (obs_RelationType ob) (obs_Transfer ob) w = (r, w1)" by fastforce
  obtain r2 w2 where u: "st_UpsertCounterpartyEvent S (event_of i ob) w1 = (r2, w2)" by fastforce
  have "I w1" "I w2"
    using link [OF Cons.prems, of i "obs_RelationType ob" "obs_Transfer ob"] event [of w1 "event_of i ob"] l u by auto
  then show ?case using Cons.IH l u by (auto simp: Let_def split: sum.splits)
qed simp

lemma finish_keeps: "I w \<Longrightarrow> I (snd (finish_progress S i j t n st w))"
proof -
  assume w: "I w"
  obtain r w1 where u: "st_UpdateWalletSyncProgress S j (rn_progress st) w = (r, w1)" by fastforce
  obtain r2 w2 where s: "st_UpdateWalletLastSyncedAt S i t w1 = (r2, w2)" by fastforce
  have "I w1" "I w2" using progress [OF w, of j "rn_progress st"] synced [of w1 i t] u s by auto
  then show ?thesis using u s by (auto simp: finish_progress_def Let_def split: sum.splits)
qed

lemma persist_keeps: "I w \<Longrightarrow> I (snd (persist S i j t r st w))"
proof -
  assume w: "I w"
  obtain r1 w1 where u: "st_UpsertNormalizedTransfers S (dedupeTransfers (cr_BaselineTransfers r @ cr_ScanTransfers r)) w = (r1, w1)"
    by fastforce
  have w1: "I w1" using transfers [OF w] u by (metis snd_conv)
  have "I (snd (link_loop S i (cr_BaselineObservations r @ cr_ScanObservations r) st1 w1))" for st1
    by (rule link_loop_keeps [OF w1])
  moreover have "I (snd (st_InsertPoisoningCandidates S j i (map candidate_record (cr_Candidates r)) w2))" if "I w2" for w2
    by (rule candidates [OF that])
  ultimately show ?thesis
    using u w1 finish_keeps
    by (auto simp: persist_def Let_def split: sum.splits prod.splits option.splits) (metis snd_conv)+
qed

lemma body_keeps: "I w \<Longrightarrow> I (snd (run_body sha rt cfg S (Some E) a limits win i j st w))"
proof -
  assume w: "I w"
  obtain r w1 where d: "buildDustClassifier S (win_BaselineStart win) (win_ScanEnd win) w = (r, w1)" by fastforce
  have w1: "I w1" using thresholds [OF w] d by (auto simp: buildDustClassifier_def split: prod.splits sum.splits) (metis snd_conv)+
  show ?thesis
  proof (cases r)
    case (Inl e)
    with d w1 show ?thesis by (simp add: run_body_def)
  next
    case (Inr classify)
    obtain r2 w2 where c: "RunWalletCoreSync sha (Some E) (core_params cfg limits a win classify) w1 = (r2, w2)" by fastforce
    have "I w2" using core_sync_keeps [OF w1] c by (metis snd_conv)
    then show ?thesis using d Inr c persist_keeps by (auto simp: run_body_def split: sum.splits)
  qed
qed

end

end
