(* ===== verification/Wallet_Runs.thy ===== *)
theory Wallet_Runs
imports Wallet_Runner_Spec
begin

text \<open>
  Runs of a wallet: their report on every path, the one finalization of their row, what they leave in the
  PostgreSQL tables, and what a second run over the same transfers does.
\<close>

section \<open>Worlds side by side\<close>

text \<open>A call on the first component of a world, and the store and the providers built of such calls.\<close>

definition on_fst :: "('a, 'w) call \<Rightarrow> ('a, 'w \<times> 'p) call" where
  "on_fst f w = (case f (fst w) of (r, w') \<Rightarrow> (r, (w', snd w)))"

definition store_on_fst :: "'w store \<Rightarrow> ('w \<times> 'p) store" where
  "store_on_fst S =
     \<lparr> st_CreateIngestionRun = (\<lambda>t. on_fst (st_CreateIngestionRun S t)),
       st_FinalizeIngestionRun = (\<lambda>i s t c n. on_fst (st_FinalizeIngestionRun S i s t c n)),
       st_CreateWalletSyncRun = (\<lambda>i j win t. on_fst (st_CreateWalletSyncRun S i j win t)),
       st_UpdateWalletSyncProgress = (\<lambda>i p. on_fst (st_UpdateWalletSyncProgress S i p)),
       st_FinalizeWalletSyncRun = (\<lambda>i s t b r c m n. on_fst (st_FinalizeWalletSyncRun S i s t b r c m n)),
       st_UpsertNormalizedTransfers = (\<lambda>trs. on_fst (st_UpsertNormalizedTransfers S trs)),
       st_EnsureWallet = (\<lambda>a. on_fst (st_EnsureWallet S a)),
       st_UpdateWalletLastSyncedAt = (\<lambda>i t. on_fst (st_UpdateWalletLastSyncedAt S i t)),
       st_LinkWalletTransfer = (\<lambda>i r tr. on_fst (st_LinkWalletTransfer S i r tr)),
       st_UpsertCounterpartyEvent = (\<lambda>e. on_fst (st_UpsertCounterpartyEvent S e)),
       st_InsertPoisoningCandidates = (\<lambda>i j cs. on_fst (st_InsertPoisoningCandidates S i j cs)),
       st_ListDustThresholds = (\<lambda>t t'. on_fst (st_ListDustThresholds S t t')),
       st_AcquireWalletLock = (\<lambda>a n. on_fst (st_AcquireWalletLock S a n)),
       st_ReleaseWalletLock = (\<lambda>a t. on_fst (st_ReleaseWalletLock S a t)) \<rparr>"

definition env_on_fst :: "'w env \<Rightarrow> ('w \<times> 'p) env" where
  "env_on_fst E =
     \<lparr> env_FetchEnhancedPage = (\<lambda>w a b. case env_FetchEnhancedPage E (fst w) a b of (r, w') \<Rightarrow> (r, (w', snd w))),
       env_sleepContext = (\<lambda>w d. case env_sleepContext E (fst w) d of (r, w') \<Rightarrow> (r, (w', snd w))) \<rparr>"

definition env_on_snd :: "'p env \<Rightarrow> ('w \<times> 'p) env" where
  "env_on_snd E =
     \<lparr> env_FetchEnhancedPage = (\<lambda>w a b. case env_FetchEnhancedPage E (snd w) a b of (r, p) \<Rightarrow> (r, (fst w, p))),
       env_sleepContext = (\<lambda>w d. case env_sleepContext E (snd w) d of (r, p) \<Rightarrow> (r, (fst w, p))) \<rparr>"

lemma on_fst_simps [simp]:
  "fst (on_fst f w) = fst (f (fst w))" "fst (snd (on_fst f w)) = snd (f (fst w))" "snd (snd (on_fst f w)) = snd w"
  by (simp_all add: on_fst_def split: prod.splits)

text \<open>The store with a log of the rows of wallet runs it opens and closes.\<close>

datatype run_event = RunCreated int | RunFinalized int WalletStatus bool string

definition recording :: "'w store \<Rightarrow> ('w \<times> run_event list) store" where
  "recording S = (store_on_fst S)
     \<lparr> st_CreateWalletSyncRun := (\<lambda>i j win t (w, evs). case st_CreateWalletSyncRun S i j win t w of
          (Inl e, w') \<Rightarrow> (Inl e, (w', evs)) | (Inr n, w') \<Rightarrow> (Inr n, (w', evs @ [RunCreated n]))),
       st_FinalizeWalletSyncRun := (\<lambda>i s t b r c m n (w, evs). case st_FinalizeWalletSyncRun S i s t b r c m n w of
          (res, w') \<Rightarrow> (res, (w', evs @ [RunFinalized i s b r]))) \<rparr>"

interpretation recorded: store_client "recording S" "env_on_fst E" "\<lambda>w. snd w = evs" for S E evs
  by unfold_locales (simp_all add: recording_def store_on_fst_def env_on_fst_def split: prod.splits)

lemma pg_store_inv:
  "db_inv (pg_db w) \<Longrightarrow> db_inv (pg_db (snd (st_ListDustThresholds PostgresStore t t' w)))"
  "db_inv (pg_db w) \<Longrightarrow> db_inv (pg_db (snd (st_UpsertNormalizedTransfers PostgresStore trs w)))"
  "db_inv (pg_db w) \<Longrightarrow> db_inv (pg_db (snd (st_LinkWalletTransfer PostgresStore i rel tr w)))"
  "db_inv (pg_db w) \<Longrightarrow> db_inv (pg_db (snd (st_UpsertCounterpartyEvent PostgresStore e w)))"
  "db_inv (pg_db w) \<Longrightarrow> db_inv (pg_db (snd (st_InsertPoisoningCandidates PostgresStore j i cs w)))"
  "db_inv (pg_db w) \<Longrightarrow> db_inv (pg_db (snd (st_UpdateWalletSyncProgress PostgresStore j p w)))"
  "db_inv (pg_db w) \<Longrightarrow> db_inv (pg_db (snd (st_UpdateWalletLastSyncedAt PostgresStore i u w)))"
  by (simp_all add: PostgresStore_def store_inv ListDustThresholds_db)

interpretation pg_runner: store_client "store_on_fst PostgresStore" "env_on_snd E" "\<lambda>w. db_inv (pg_db (fst w))" for E
  by unfold_locales (simp_all add: store_on_fst_def env_on_snd_def pg_store_inv split: prod.splits)

section \<open>Links\<close>

definition linked :: "int \<Rightarrow> Db \<Rightarrow> WalletTransferObservation \<Rightarrow> bool" where
  "linked walletID db obs \<longleftrightarrow>
     (case map_of (db_transactions db) (transfer_key (obs_Transfer obs)) of
        None \<Rightarrow> False
      | Some (i, _) \<Rightarrow> (walletID, i, obs_RelationType obs) \<in> set (db_wallet_transactions db))"

lemma pg_store_simps [simp]:
  "st_LinkWalletTransfer PostgresStore = LinkWalletTransfer"
  "st_UpsertCounterpartyEvent PostgresStore = UpsertCounterpartyEvent"
  "st_UpdateWalletSyncProgress PostgresStore = UpdateWalletSyncProgress"
  "st_UpdateWalletLastSyncedAt PostgresStore = UpdateWalletLastSyncedAt"
  "st_FinalizeWalletSyncRun PostgresStore = FinalizeWalletSyncRun"
  by (simp_all add: PostgresStore_def)

lemma link_stmt_missing: "link_stmt i rel k now db = Inr ((False, b), db') \<Longrightarrow> db' = db"
  by (simp add: link_stmt_def split: option.splits prod.splits if_splits)

lemma link_stmt_counterparties: "link_stmt i rel k now db = Inr (x, db') \<Longrightarrow> db_counterparties db' = db_counterparties db"
  by (auto simp: link_stmt_def split: option.splits if_splits)

lemma LinkWalletTransfer_InlD:
  assumes "LinkWalletTransfer i rel tr w = (Inl e, w')"
  shows "pg_db w' = pg_db w"
  using driver_call_cases [of "link_stmt i rel (transfer_key tr)" w]
proof cases
  case (ok x db)
  obtain a b where x: "x = (a, b)" by fastforce
  from assms have "\<not> a \<and> pg_db w' = db"
    unfolding LinkWalletTransfer_def Let_def ok(2) x by (cases a) auto
  with ok(1) x link_stmt_missing show ?thesis by simp
qed (use assms in \<open>auto simp: LinkWalletTransfer_def Let_def\<close>)

lemma link_linked:
  assumes "linked i (pg_db w) obs" and "LinkWalletTransfer i (obs_RelationType obs) (obs_Transfer obs) w = (r, w')"
  shows "pg_db w' = pg_db w" and "r \<noteq> Inr True"
proof -
  let ?stmt = "link_stmt i (obs_RelationType obs) (transfer_key (obs_Transfer obs))"
  have stmt: "?stmt (pg_now w) (pg_db w) = Inr ((True, False), pg_db w)"
    using assms(1) by (auto simp: link_stmt_def linked_def split: option.splits)
  have "pg_db w' = pg_db w \<and> r \<noteq> Inr True"
    using driver_call_cases [of ?stmt w]
  proof cases
    case (fault e)
    from assms(2) show ?thesis unfolding LinkWalletTransfer_def Let_def fault by auto
  next
    case (ok x db)
    from ok(1) have x: "x = (True, False)" "db = pg_db w" by (simp_all add: stmt)
    from assms(2) show ?thesis unfolding LinkWalletTransfer_def Let_def ok(2) x by auto
  qed
  then show "pg_db w' = pg_db w" and "r \<noteq> Inr True" by auto
qed

text \<open>A wallet that is linked to everything already: the loop changes nothing and counts nothing.\<close>

lemma link_loop_linked:
  assumes "list_all (linked i (pg_db w)) obs" and "link_loop PostgresStore i obs st w = ((err, st'), w')"
  shows "pg_db w' = pg_db w \<and> rr_Counters (rn_report st') = rr_Counters (rn_report st)"
  using assms
proof (induction obs arbitrary: w)
  case (Cons ob obs)
  obtain r w1 where l: "LinkWalletTransfer i (obs_RelationType ob) (obs_Transfer ob) w = (r, w1)" by fastforce
  from link_linked [OF _ l] Cons.prems(1) have d: "pg_db w1 = pg_db w" "r \<noteq> Inr True" by simp_all
  show ?case
  proof (cases r)
    case (Inl e)
    with Cons.prems(2) l d show ?thesis by (auto simp: fail_partial_def)
  next
    case (Inr b)
    with d have "\<not> b" by simp
    with Cons.prems l Inr have "link_loop PostgresStore i obs st w1 = ((err, st'), w')" by simp
    from Cons.IH [OF _ this] Cons.prems(1) d show ?thesis by simp
  qed
qed simp

lemma link_stmt_mono: "link_stmt i rel k now db = Inr (x, db') \<Longrightarrow>
    db_transactions db' = db_transactions db \<and> set (db_wallet_transactions db) \<subseteq> set (db_wallet_transactions db')"
  by (auto simp: link_stmt_def split: option.splits if_splits)

lemma LinkWalletTransfer_mono:
  assumes "LinkWalletTransfer i rel tr w = (r, w')" and "linked j (pg_db w) obs"
  shows "linked j (pg_db w') obs"
proof -
  have "db_transactions (pg_db w') = db_transactions (pg_db w) \<and>
      set (db_wallet_transactions (pg_db w)) \<subseteq> set (db_wallet_transactions (pg_db w'))"
  proof (cases r)
    case (Inl e)
    with LinkWalletTransfer_InlD assms(1) show ?thesis by simp
  next
    case (Inr b)
    with LinkWalletTransfer_InrD assms(1) link_stmt_mono show ?thesis by metis
  qed
  with assms(2) show ?thesis by (auto simp: linked_def split: option.splits)
qed

lemma LinkWalletTransfer_linked:
  assumes "LinkWalletTransfer i (obs_RelationType obs) (obs_Transfer obs) w = (Inr b, w')"
  shows "linked i (pg_db w') obs"
  using link_stmt_result [OF LinkWalletTransfer_InrD [OF assms]] link_stmt_mono [OF LinkWalletTransfer_InrD [OF assms]]
  by (auto simp: linked_def)

lemma UpsertCounterpartyEvent_links:
  assumes "UpsertCounterpartyEvent e w = (r, w')"
  shows "db_transactions (pg_db w') = db_transactions (pg_db w)"
    and "db_wallet_transactions (pg_db w') = db_wallet_transactions (pg_db w)"
    and "r = Inl err \<Longrightarrow> pg_db w' = pg_db w"
proof -
  have u: "db_transactions db' = db_transactions db \<and> db_wallet_transactions db' = db_wallet_transactions db"
    if "upsert_counterparty e now db = Inr (x, db')" for now db x db'
    using that by (auto simp: upsert_counterparty_def fresh_eq Let_def split: option.splits if_splits)
  have "db_transactions (pg_db w') = db_transactions (pg_db w) \<and>
      db_wallet_transactions (pg_db w') = db_wallet_transactions (pg_db w) \<and> (\<forall>err. r = Inl err \<longrightarrow> pg_db w' = pg_db w)"
    using driver_call_cases [of "upsert_counterparty e" w]
  proof cases
    case (fault err)
    with assms show ?thesis by (auto simp: UpsertCounterpartyEvent_def split: if_splits)
  next
    case (ok x db)
    with assms u [OF ok(1)] show ?thesis by (auto simp: UpsertCounterpartyEvent_def split: if_splits)
  qed
  then show "db_transactions (pg_db w') = db_transactions (pg_db w)"
    and "db_wallet_transactions (pg_db w') = db_wallet_transactions (pg_db w)"
    and "r = Inl err \<Longrightarrow> pg_db w' = pg_db w" by auto
qed

lemma link_loop_links:
  assumes "link_loop PostgresStore i obs st w = ((err, st'), w')"
  shows "linked j (pg_db w) ob \<Longrightarrow> linked j (pg_db w') ob" and "err = None \<Longrightarrow> list_all (linked i (pg_db w')) obs"
proof -
  have "(\<forall>j ob. linked j (pg_db w) ob \<longrightarrow> linked j (pg_db w') ob) \<and> (err = None \<longrightarrow> list_all (linked i (pg_db w')) obs)"
    using assms
  proof (induction obs arbitrary: st w)
    case (Cons ob obs)
    obtain r w1 where l: "LinkWalletTransfer i (obs_RelationType ob) (obs_Transfer ob) w = (r, w1)" by fastforce
    note mono = LinkWalletTransfer_mono [OF l]
    show ?case
    proof (cases r)
      case (Inl e)
      with Cons.prems l mono show ?thesis by (auto simp: fail_partial_def)
    next
      case (Inr b)
      note new = LinkWalletTransfer_linked [OF l [unfolded Inr]]
      obtain r2 w2 where u: "UpsertCounterpartyEvent (event_of i ob) w1 = (r2, w2)" by fastforce
      have same: "linked j (pg_db w2) x \<longleftrightarrow> linked j (pg_db w1) x" for j x
        unfolding linked_def UpsertCounterpartyEvent_links(1,2) [OF u] ..
      show ?thesis
      proof (cases "b \<and> (\<exists>e. r2 = Inl e)")
        case True
        with Cons.prems l Inr u mono same show ?thesis by (auto simp: fail_partial_def Let_def)
      next
        case False
        then obtain st1 w3 where n: "link_loop PostgresStore i obs st1 w3 = ((err, st'), w')"
          and w3: "w3 = w1 \<or> w3 = w2"
          using Cons.prems l Inr u by (cases b; cases r2) (auto simp: Let_def)
        from Cons.IH [OF n] mono new same w3 show ?thesis by auto
      qed
    qed
  qed simp
  then show "linked j (pg_db w) ob \<Longrightarrow> linked j (pg_db w') ob" and "err = None \<Longrightarrow> list_all (linked i (pg_db w')) obs"
    by auto
qed

section \<open>The row of a run\<close>

text \<open>The counts of a progress row and of a report.\<close>

definition counts_agree :: "WalletSyncProgress \<Rightarrow> Counters \<Rightarrow> bool" where
  "counts_agree p c \<longleftrightarrow>
     sp_TransactionsFetched p = c_TransactionsFetched c \<and> sp_TransactionsInserted p = c_TransactionsInserted c \<and>
     sp_TransactionsLinked p = c_TransactionsLinked c \<and>
     sp_TransactionsFailedNormalize p = c_TransactionsFailedNormalize c \<and>
     sp_CounterpartiesCreated p = c_CounterpartiesCreated c \<and> sp_CounterpartiesUpdated p = c_CounterpartiesUpdated c \<and>
     sp_PoisoningCandidatesInserted p = c_PoisoningCandidatesInserted c"

lemma link_loop_counters:
  "link_loop store i obs st w = ((None, st'), w') \<Longrightarrow>
     c_TransactionsFetched (rr_Counters (rn_report st')) = c_TransactionsFetched (rr_Counters (rn_report st)) \<and>
     c_TransactionsFailedNormalize (rr_Counters (rn_report st')) = c_TransactionsFailedNormalize (rr_Counters (rn_report st))"
proof (induction obs arbitrary: st w)
  case (Cons ob obs)
  then show ?case
    by (auto simp: fail_partial_def Let_def split: prod.splits sum.splits if_splits)
qed simp

lemma persist_NoneD:
  assumes "persist store i j t r st w = ((None, st'), w')"
  obtains st2 n w2 where "finish_progress store i j t n st2 w2 = ((None, st'), w')"
    and "counts_agree (rn_progress st2) (rr_Counters (rn_report st2))"
proof -
  obtain ins upd w1 where u: "st_UpsertNormalizedTransfers store (dedupeTransfers (cr_BaselineTransfers r @ cr_ScanTransfers r)) w
      = (Inr (ins, upd), w1)"
    using assms by (auto simp: persist_def fail_hard_def Let_def split: prod.splits sum.splits)
  let ?st = "on_counters (\<lambda>c. c\<lparr> c_TransactionsInserted := ins \<rparr>) (on_counters (core_counters r) st)"
  obtain e1 st1 w2 where l: "link_loop store i (cr_BaselineObservations r @ cr_ScanObservations r) ?st w1 = ((e1, st1), w2)"
    by (metis prod.exhaust)
  have e1: "e1 = None" using assms u l by (cases e1) (auto simp: persist_def Let_def)
  obtain r3 w3 where c: "st_InsertPoisoningCandidates store j i (map candidate_record (cr_Candidates r)) w2 = (r3, w3)" by fastforce
  obtain n where n: "r3 = Inr n" using assms u l e1 c by (cases r3) (auto simp: persist_def Let_def fail_partial_def)
  let ?st2 = "on_counters (\<lambda>c. c\<lparr> c_PoisoningCandidatesInserted := n \<rparr>) st1"
  have f: "finish_progress store i j t n (?st2\<lparr> rn_progress := progress_of r (rr_Counters (rn_report ?st2)) n \<rparr>) w3 = ((None, st'), w')"
    using assms u l e1 c n by (simp add: persist_def Let_def)
  have "counts_agree (progress_of r (rr_Counters (rn_report ?st2)) n) (rr_Counters (rn_report ?st2))"
    using link_loop_counters [OF l [unfolded e1]] by (simp add: counts_agree_def progress_of_def core_counters_def Let_def)
  then show thesis by (intro that [OF f]) (simp add: on_counters_def)
qed

lemma update_sync_run_InrD:
  "update_sync_run i f now db = Inr (x, db') \<Longrightarrow> x \<noteq> 0 \<Longrightarrow>
     \<exists>row. map_of (db_wallet_sync_runs db) i = Some row \<and> map_of (db_wallet_sync_runs db') i = Some (f row)"
  by (auto simp: update_sync_run_def split: option.splits if_splits)

lemma exec_update_sync_InrD:
  assumes "exec_update what (update_sync_run i f) w = (Inr x, w')"
  shows "\<exists>row. map_of (db_wallet_sync_runs (pg_db w)) i = Some row \<and>
    map_of (db_wallet_sync_runs (pg_db w')) i = Some (f row)"
proof -
  obtain r w1 where c: "driver_call (update_sync_run i f) w = (r, w1)" by fastforce
  obtain r2 w2 where n: "driver_noop w1 = (r2, w2)" by fastforce
  from assms c n obtain rows where rows: "r = Inr rows" "rows \<noteq> 0" "w' = w2"
    by (cases r; cases r2) (auto simp: exec_update_def split: if_splits)
  from driver_call_Inr [OF c [unfolded rows(1)]] driver_noop_db [OF n]
  have "update_sync_run i f (pg_now w) (pg_db w) = Inr (rows, pg_db w')" using rows by simp
  then show ?thesis using rows(2) by (rule update_sync_run_InrD)
qed

lemma exec_update_field:
  assumes "exec_update what stmt w = (r, w')" and "\<And>now db x db'. stmt now db = Inr (x, db') \<Longrightarrow> f db' = f db"
  shows "f (pg_db w') = f (pg_db w)"
proof -
  obtain r1 w1 where c: "driver_call stmt w = (r1, w1)" by fastforce
  obtain r2 w2 where n: "driver_noop w1 = (r2, w2)" by fastforce
  have "f (pg_db w1) = f (pg_db w)"
  proof (cases r1)
    case (Inl e)
    with driver_call_Inl c show ?thesis by metis
  next
    case (Inr x)
    from driver_call_Inr [OF c [unfolded Inr]] assms(2) show ?thesis by blast
  qed
  moreover have "w' = w1 \<or> w' = w2"
    using assms(1) c n by (cases r1; cases r2) (auto simp: exec_update_def split: if_splits)
  ultimately show ?thesis using driver_noop_db [OF n] by auto
qed

lemma UpdateWalletLastSyncedAt_runs:
  "UpdateWalletLastSyncedAt i t w = (r, w') \<Longrightarrow> db_wallet_sync_runs (pg_db w') = db_wallet_sync_runs (pg_db w)"
  unfolding UpdateWalletLastSyncedAt_def by (erule exec_update_field) (auto split: list.splits)

text \<open>What the columns of the row say after a run that returned no error.\<close>

definition row_matches :: "WalletSyncRunRow \<Rightarrow> WalletRunReport \<Rightarrow> bool" where
  "row_matches row report \<longleftrightarrow>
     ws_status row = rr_WalletStatus report \<and> ws_completed_at row \<noteq> None \<and>
     ws_incomplete_window row = rr_IncompleteWindow report \<and>
     ws_truncation_reason row = nullableText (rr_TruncationReason report) \<and>
     ws_transactions_fetched row = c_TransactionsFetched (rr_Counters report) \<and>
     ws_transactions_inserted row = c_TransactionsInserted (rr_Counters report) \<and>
     ws_transactions_linked row = c_TransactionsLinked (rr_Counters report) \<and>
     ws_transactions_failed_to_normalize row = c_TransactionsFailedNormalize (rr_Counters report) \<and>
     ws_counterparties_created row = c_CounterpartiesCreated (rr_Counters report) \<and>
     ws_counterparties_updated row = c_CounterpartiesUpdated (rr_Counters report) \<and>
     ws_poisoning_candidates_inserted row = c_PoisoningCandidatesInserted (rr_Counters report)"

lemma on_fst_InrD: "on_fst f w = (Inr x, w') \<Longrightarrow> f (fst w) = (Inr x, fst w')"
  by (auto simp: on_fst_def split: prod.splits)

lemma finish_progress_row:
  assumes "finish_progress (store_on_fst PostgresStore) i j t n st w = ((None, st'), w')"
    and "counts_agree (rn_progress st) (rr_Counters (rn_report st))"
    and "finalize_run rt (store_on_fst PostgresStore) j (None, st') w' = ((report, None), w'')"
  shows "\<exists>row. map_of (db_wallet_sync_runs (pg_db (fst w''))) j = Some row \<and> row_matches row report"
proof -
  obtain w1 where u: "on_fst (UpdateWalletSyncProgress j (rn_progress st)) w = (Inr (), w1)"
    and s: "on_fst (UpdateWalletLastSyncedAt i t) w1 = (Inr (), w')"
    and st': "rn_progress st' = rn_progress st" "rn_report st' = rn_report st"
    using assms(1) by (auto simp: finish_progress_def fail_partial_def store_on_fst_def Let_def split: prod.splits sum.splits)
  obtain reason where f: "on_fst (FinalizeWalletSyncRun j (rn_status st') (rt_Now rt w') (sp_IncompleteWindow (rn_progress st'))
      reason (rn_errorCode st') (rn_errorMessage st') (rn_notes st')) w' = (Inr (), w'')"
    and report: "rr_WalletStatus report = rn_status st'" "rr_IncompleteWindow report = sp_IncompleteWindow (rn_progress st')"
      "rr_TruncationReason report = sp_TruncationReason (rn_progress st')" "rr_Counters report = rr_Counters (rn_report st')"
    using assms(3) by (auto simp: finalize_run_def store_on_fst_def Let_def split: prod.splits sum.splits)
  from exec_update_sync_InrD [OF on_fst_InrD [OF u, unfolded UpdateWalletSyncProgress_def]]
    UpdateWalletLastSyncedAt_runs [OF on_fst_InrD [OF s]]
    exec_update_sync_InrD [OF on_fst_InrD [OF f, unfolded FinalizeWalletSyncRun_def]]
  show ?thesis using assms(2) st' report by (auto simp: row_matches_def counts_agree_def)
qed

lemma RunWallet_truncation:
  assumes "RunWallet sha rt runner walletAddress p limits w = ((report, err), w')"
  shows "rr_TruncationReason report \<in> truncation_reasons"
proof -
  have failed: "rr_TruncationReason zero_report \<in> truncation_reasons"
    by (simp add: zero_report_def truncation_reasons_Nil)
  show ?thesis using assms
    by (auto simp: RunWallet_def Let_def failed split: if_splits option.splits prod.splits sum.splits
        intro: settled_verdict(2) run_body_settled)
qed

section \<open>Properties\<close>

text \<open>C4. Whatever fails in the run of a wallet, its report and its error agree: \<open>Succeeded\<close> means a complete
  window with nothing truncated, \<open>Partial\<close> and \<open>TimedOut\<close> mean an incomplete one, \<open>Failed\<close> and \<open>TimedOut\<close>
  come with an error, and there is no other status.\<close>

theorem wallet_run_settles:
  "case RunWallet sha rt runner walletAddress p limits w of ((report, err), w') \<Rightarrow> verdict report err"
proof -
  obtain report err w' where r: "RunWallet sha rt runner walletAddress p limits w = ((report, err), w')" by (metis prod.exhaust)
  have failed: "verdict (zero_report\<lparr> rr_WalletStatus := WalletStatusFailed \<rparr>) (Some e)" for e
    by (simp add: verdict_def zero_report_def)
  have "verdict report err"
    using r
    by (auto simp: RunWallet_def Let_def failed split: if_splits option.splits prod.splits sum.splits
        intro: settled_verdict(1) run_body_settled)
  with r show ?thesis by simp
qed



text \<open>C26. Persisting the same observations a second time links nothing, applies no counterparty event, counts
  nothing and leaves the tables as they are, whether or not the second pass meets an error.\<close>

theorem rerun_counts_nothing:
  assumes "link_loop PostgresStore i obs st w = ((None, st1), w1)" and "pg_db w2 = pg_db w1"
    and "link_loop PostgresStore i obs st2 w2 = ((err, st3), w3)"
  shows "pg_db w3 = pg_db w1 \<and> rr_Counters (rn_report st3) = rr_Counters (rn_report st2)"
  using link_loop_linked [OF _ assms(3)] link_loop_links(2) [OF assms(1)] assms(2) by simp

text \<open>What that costs: when the link of a new transfer is written and the write of its counterparty event
  then fails, no later pass over the same observation applies the event; the counterparty stays as it
  was before the transfer.\<close>

theorem failed_event_is_lost:
  assumes "LinkWalletTransfer i (obs_RelationType obs) (obs_Transfer obs) w = (Inr True, w1)"
    and "UpsertCounterpartyEvent (event_of i obs) w1 = (Inl e, w2)" and "pg_db w3 = pg_db w2"
    and "link_loop PostgresStore i [obs] st w3 = ((err, st'), w4)"
  shows "db_counterparties (pg_db w4) = db_counterparties (pg_db w)"
proof -
  have "pg_db w3 = pg_db w1" using UpsertCounterpartyEvent_links(3) [OF assms(2) refl] assms(3) by simp
  moreover from this have "pg_db w4 = pg_db w3"
    using link_loop_linked [OF _ assms(4)] LinkWalletTransfer_linked [OF assms(1)] by simp
  moreover have "db_counterparties (pg_db w1) = db_counterparties (pg_db w)"
    using link_stmt_counterparties [OF LinkWalletTransfer_InrD [OF assms(1)]] .
  ultimately show ?thesis by simp
qed

section \<open>Witnesses\<close>

definition sample_obs :: WalletTransferObservation where
  "sample_obs = \<lparr> obs_Transfer = sample_transfer ''5'' 7 DustFalse, obs_RelationType = RelationSender,
     obs_CounterpartyAddress = ''c'' \<rparr>"

lemma pair_None: "Option.is_none (fst (fst x)) \<Longrightarrow> x = ((None, snd (fst x)), snd x)"
  by (cases x) (auto simp: Option.is_none_def)

lemma pair_None2: "Option.is_none (snd (fst x)) \<Longrightarrow> x = ((fst (fst x), None), snd x)"
  by (cases x) (auto simp: Option.is_none_def)

definition sample_linked :: Pg where
  "sample_linked = snd (link_loop PostgresStore 2 [sample_obs] runner_start sample_store)"

theorem rerun_counts_nothing_witness:
  "pg_db (snd (link_loop PostgresStore 2 [sample_obs] runner_start sample_linked)) = pg_db sample_linked"
proof -
  have "Option.is_none (fst (fst (link_loop PostgresStore 2 [sample_obs] runner_start sample_store)))" by code_simp
  note first = pair_None [OF this]
  have "link_loop PostgresStore 2 [sample_obs] runner_start sample_linked =
      ((fst (fst (link_loop PostgresStore 2 [sample_obs] runner_start sample_linked)),
        snd (fst (link_loop PostgresStore 2 [sample_obs] runner_start sample_linked))),
       snd (link_loop PostgresStore 2 [sample_obs] runner_start sample_linked))" by simp
  from rerun_counts_nothing [OF first refl this [unfolded sample_linked_def]] show ?thesis
    by (simp add: sample_linked_def)
qed

text \<open>The second call after the store was set up, the write of the event, fails; then the fault is gone.\<close>

definition sample_faulty :: Pg where
  "sample_faulty = sample_store\<lparr> pg_fault := (\<lambda>n. if n = Suc (pg_calls sample_store) then Some (Err ''connection lost'') else None) \<rparr>"

definition sample_half :: Pg where
  "sample_half = snd (UpsertCounterpartyEvent (event_of 2 sample_obs)
     (snd (LinkWalletTransfer 2 RelationSender (sample_transfer ''5'' 7 DustFalse) sample_faulty)))"

theorem failed_event_is_lost_witness:
  "db_counterparties (pg_db (snd (link_loop PostgresStore 2 [sample_obs] runner_start (sample_half\<lparr> pg_fault := (\<lambda>n. None) \<rparr>)))) = []"
proof -
  let ?l = "LinkWalletTransfer 2 RelationSender (sample_transfer ''5'' 7 DustFalse) sample_faulty"
  let ?x = "link_loop PostgresStore 2 [sample_obs] runner_start (sample_half\<lparr> pg_fault := (\<lambda>n. None) \<rparr>)"
  have "fst ?l = Inr True" by code_simp
  from fst_eq [OF this] have l: "LinkWalletTransfer 2 (obs_RelationType sample_obs) (obs_Transfer sample_obs) sample_faulty = (Inr True, snd ?l)"
    by (simp add: sample_obs_def)
  have "\<not> isl (fst (UpsertCounterpartyEvent (event_of 2 sample_obs) (snd ?l))) = False" by code_simp
  then obtain e where u: "UpsertCounterpartyEvent (event_of 2 sample_obs) (snd ?l) = (Inl e, sample_half)"
    by (cases "UpsertCounterpartyEvent (event_of 2 sample_obs) (snd ?l)") (auto simp: sample_half_def isl_def)
  have x: "?x = ((fst (fst ?x), snd (fst ?x)), snd ?x)" by simp
  have "db_counterparties (pg_db sample_faulty) = []" by code_simp
  with failed_event_is_lost [OF l u _ x] show ?thesis by simp
qed

definition sample_empty_chain :: "unit env" where
  "sample_empty_chain = \<lparr> env_FetchEnhancedPage = (\<lambda>w a b. (Inr \<lparr> page_Transactions = [], page_Before = [] \<rparr>, w)),
     env_sleepContext = (\<lambda>w d. (None, w)) \<rparr>"

definition sample_runner :: "(Pg \<times> unit) WalletExecutionRunner" where
  "sample_runner = \<lparr> wr_cfg = sample_config, wr_store = Some (store_on_fst PostgresStore),
     wr_client = Some (env_on_snd sample_empty_chain) \<rparr>"

definition sample_runtime :: "(Pg \<times> unit) runtime" where
  "sample_runtime = \<lparr> rt_Now = (\<lambda>w. pg_now (fst w)), rt_CtxErr = (\<lambda>w. None) \<rparr>"

definition sample_run :: "(WalletRunReport \<times> go_error option) \<times> Pg \<times> unit" where
  "sample_run = RunWallet id sample_runtime sample_runner ''a''
     \<lparr> rp_WalletFile = [], rp_SkipWalletFile = [], rp_WalletAddresses = [], rp_ScanStart = 100 * nanos_per_day,
       rp_ScanEnd = 101 * nanos_per_day, rp_BaselineLookbackDays = 30, rp_RequestedByCLICommand = [],
       rp_IngestionRunID = 1 \<rparr>
     \<lparr> rl_MaxTXPagesPerWallet = 2, rl_MaxTXPerWallet = 10, rl_MaxHeliusRetries = 1, rl_HeliusRequestDelay = 0 \<rparr>
     (snd (CreateIngestionRun 0 sample_pg), ())"


end

