(* ===== verification/Exports_Spec.thy ===== *)
theory Exports_Spec
imports Exports Wallet_Runs
begin

text \<open>
  The exports: the manifest accounts for every file, the CSV files read back, and what makes an export
  reproducible.
\<close>

section \<open>The orders\<close>

lemma lex_order:
  fixes f :: "'a \<Rightarrow> 'b :: linorder" and g :: "'a \<Rightarrow> 'c :: linorder"
  shows "slice_order (\<lambda>a b. f a < f b \<or> f a = f b \<and> g a < g b)"
  by unfold_locales auto

interpretation ingestion: slice_order ingestion_order
  using lex_order [of xi_StartedAt xi_ID] by (simp add: ingestion_order_def [abs_def] slice_order_def) auto

interpretation wallet_syncs: slice_order "wallet_sync_order (<)"
  by unfold_locales (auto simp: wallet_sync_order_def)

interpretation candidates: slice_order "candidate_order (<)"
  by unfold_locales (auto simp: candidate_order_def)

interpretation explanations: slice_order "explanation_order (<)"
  by unfold_locales (auto simp: explanation_order_def)

interpretation summaries: slice_order "summary_order (<)"
  by unfold_locales (auto simp: summary_order_def)

section \<open>Two sources with the same rows\<close>

text \<open>Answers that a sort makes the same.\<close>

definition agree :: "('e \<Rightarrow> 'e \<Rightarrow> bool) \<Rightarrow> (go_error + 'e list) \<times> 'w \<Rightarrow> (go_error + 'e list) \<times> 'w \<Rightarrow> bool" where
  "agree lt r r' \<longleftrightarrow> snd r = snd r' \<and>
     (case fst r of Inl e \<Rightarrow> fst r' = Inl e
      | Inr xs \<Rightarrow> (\<exists>ys. fst r' = Inr ys \<and> sort_slice lt xs = sort_slice lt ys))"

lemma agree_cases:
  assumes "agree lt r r'"
  obtains e w where "r = (Inl e, w)" "r' = (Inl e, w)"
    | xs ys w where "r = (Inr xs, w)" "r' = (Inr ys, w)" "sort_slice lt xs = sort_slice lt ys"
  using assms by (cases r; cases r'; cases "fst r") (auto simp: agree_def)

text \<open>\<open>ok\<close> describes the worlds in which the two sources have the same rows.\<close>

locale same_rows =
  fixes src src' :: "'w DatasetSource" and flt :: ExportFilter and ok :: "'w \<Rightarrow> bool"
  assumes same_runs: "ok w \<Longrightarrow> agree ingestion_order (ds_ListIngestionRuns src flt w) (ds_ListIngestionRuns src' flt w)"
    and same_syncs: "ok w \<Longrightarrow> agree (wallet_sync_order (<)) (ds_ListWalletSyncRuns src flt w) (ds_ListWalletSyncRuns src' flt w)"
    and same_candidates: "ok w \<Longrightarrow>
      agree (candidate_order (<)) (ds_ListPoisoningCandidates src flt w) (ds_ListPoisoningCandidates src' flt w)"
    and same_explanations: "ok w \<Longrightarrow>
      agree (explanation_order (<)) (ds_ListCandidateExplanations src flt w) (ds_ListCandidateExplanations src' flt w)"
    and same_summaries: "ok w \<Longrightarrow>
      agree (summary_order (<)) (ds_ListWalletInspectionSummary src flt w) (ds_ListWalletInspectionSummary src' flt w)"
    and ok_runs: "ok w \<Longrightarrow> ok (snd (ds_ListIngestionRuns src flt w))"
    and ok_syncs: "ok w \<Longrightarrow> ok (snd (ds_ListWalletSyncRuns src flt w))"
    and ok_candidates: "ok w \<Longrightarrow> ok (snd (ds_ListPoisoningCandidates src flt w))"
    and ok_explanations: "ok w \<Longrightarrow> ok (snd (ds_ListCandidateExplanations src flt w))"
begin

lemma same_dataset:
  assumes "ok w" and "xo_Filter opts = flt"
  shows "ExportDataset sha sq fl (Some src) opts w = ExportDataset sha sq fl (Some src') opts w"
proof (cases rule: agree_cases [OF same_runs [OF assms(1)], case_names fails rows])
  case (fails e w1)
  then show ?thesis by (auto simp: ExportDataset_def assms(2) Let_def)
next
  case runs: (rows runs runs' w1)
  have w1: "ok w1" using ok_runs [OF assms(1)] runs by simp
  show ?thesis
  proof (cases rule: agree_cases [OF same_syncs [OF w1], case_names fails rows])
    case (fails e w2)
    then show ?thesis using runs by (auto simp: ExportDataset_def assms(2) Let_def)
  next
    case syncs: (rows syncs syncs' w2)
    have w2: "ok w2" using ok_syncs [OF w1] syncs by simp
    show ?thesis
    proof (cases rule: agree_cases [OF same_candidates [OF w2], case_names fails rows])
      case (fails e w3)
      then show ?thesis using runs syncs by (auto simp: ExportDataset_def assms(2) Let_def)
    next
      case cands: (rows cands cands' w3)
      have w3: "ok w3" using ok_candidates [OF w2] cands by simp
      show ?thesis
      proof (cases rule: agree_cases [OF same_explanations [OF w3], case_names fails rows])
        case (fails e w4)
        then show ?thesis using runs syncs cands by (auto simp: ExportDataset_def assms(2) Let_def)
      next
        case expls: (rows expls expls' w4)
        have w4: "ok w4" using ok_explanations [OF w3] expls by simp
        show ?thesis
        proof (cases rule: agree_cases [OF same_summaries [OF w4], case_names fails rows])
          case (fails e w5)
          then show ?thesis using runs syncs cands expls by (auto simp: ExportDataset_def assms(2) Let_def)
        next
          case (rows sums sums' w5)
          then show ?thesis
            using runs syncs cands expls
            by (auto simp: ExportDataset_def assms(2) Let_def sortIngestionRuns_def sortWalletSyncRuns_def
                sortPoisoningCandidates_def sortCandidateExplanations_def sortWalletInspectionSummary_def)
        qed
      qed
    qed
  qed
qed

end

section \<open>The rows of a query\<close>

lemma scan_records_same:
  "length xs = length ys \<Longrightarrow>
     (\<exists>e w'. scan_records s i xs out w = (Inl e, w') \<and> scan_records s i ys out' w = (Inl e, w')) \<or>
     (\<exists>w'. scan_records s i xs out w = (Inr (out @ xs), w') \<and> scan_records s i ys out' w = (Inr (out' @ ys), w'))"
proof (induction xs ys arbitrary: out out' w rule: list_induct2)
  case Nil
  show ?case by (cases "driver_noop w"; cases "fst (driver_noop w)") auto
next
  case (Cons x xs y ys)
  obtain r w1 where d: "driver_noop w = (r, w1)" by fastforce
  with Cons.IH [of "out @ [x]" w1 "out' @ [y]"] show ?case by (cases r) auto
qed

lemma driver_noop_same [simp]: "pg_db (snd (driver_noop w)) = pg_db w"
  by (metis driver_noop_db prod.exhaust_sel)

lemma scan_records_db [simp]: "pg_db (snd (scan_records s i xs out w)) = pg_db w"
proof (induction xs arbitrary: out w)
  case Nil
  show ?case using driver_noop_same [of w] by (auto split: prod.split sum.split simp del: driver_noop_same)
next
  case (Cons x xs)
  then show ?case using driver_noop_same [of w] by (auto split: prod.split sum.split simp del: driver_noop_same)
qed

lemma export_query_db [simp]: "pg_db (snd (export_query a s i flt sel w)) = pg_db w"
proof -
  have "pg_db w1 = pg_db w" if "driver_call (\<lambda>now db. Inr (sel cl db, db)) w = (r, w1)" for cl r w1
    using that by (auto simp: driver_call_def Let_def split: option.splits)
  then show ?thesis
    unfolding export_query_def list_query_def by (auto split: sum.split prod.split)
qed

lemma export_query_agree:
  assumes "\<And>cl. buildExportFilterWhere flt = Inr cl \<Longrightarrow>
    length (sel cl (pg_db w)) = length (sel' cl (pg_db w)) \<and> sort_slice lt (sel cl (pg_db w)) = sort_slice lt (sel' cl (pg_db w))"
  shows "agree lt (export_query a s i flt sel w) (export_query a s i flt sel' w)"
proof (cases "buildExportFilterWhere flt")
  case (Inl e)
  then show ?thesis by (simp add: export_query_def agree_def)
next
  case (Inr cl)
  note same = assms [OF Inr]
  show ?thesis
  proof (cases "pg_fault w (pg_calls w)")
    case (Some e)
    with Inr show ?thesis by (simp add: export_query_def list_query_def driver_call_def Let_def agree_def)
  next
    case None
    let ?w1 = "w\<lparr> pg_calls := Suc (pg_calls w) \<rparr>"
    have w1: "?w1\<lparr> pg_db := pg_db w \<rparr> = ?w1" by simp
    have "export_query a s i flt f w = scan_records s i (f cl (pg_db w)) [] ?w1" for f :: "_ \<Rightarrow> _ \<Rightarrow> 'a list"
      using Inr None by (simp add: export_query_def list_query_def driver_call_def Let_def)
    with scan_records_same [of "sel cl (pg_db w)" "sel' cl (pg_db w)" s i "[]" ?w1 "[]"] same show ?thesis
      by (auto simp: agree_def)
  qed
qed

section \<open>Keys\<close>

definition candidate_key :: "PoisoningCandidateExportRecord \<Rightarrow> string \<times> gotime \<times> string \<times> int" where
  "candidate_key x = (xc_FocalWallet x, xc_BlockTime x, xc_Signature x, xc_TransferIndex x)"

definition explanation_key :: "CandidateExplanationExportRecord \<Rightarrow> string \<times> gotime \<times> string \<times> int" where
  "explanation_key x = (xe_FocalWallet x, xe_BlockTime x, xe_Signature x, xe_TransferIndex x)"

text \<open>No two selected candidates, and no two explanations, have the key that the export sorts by.\<close>

definition unambiguous :: "ExportFilter \<Rightarrow> Db \<Rightarrow> bool" where
  "unambiguous flt db \<longleftrightarrow>
     (case buildExportFilterWhere flt of
        Inl e \<Rightarrow> True
      | Inr clauses \<Rightarrow> distinct (map candidate_key (candidate_results clauses db)) \<and>
          distinct (map explanation_key (explanation_results clauses db)))"

lemma distinct_key: "distinct (map f xs) \<Longrightarrow> x \<in> set xs \<Longrightarrow> y \<in> set xs \<Longrightarrow> f x = f y \<Longrightarrow> x = y"
  by (auto simp: distinct_map dest: inj_onD)

lemma candidates_sorted:
  assumes "distinct (map candidate_key xs)" and "mset xs = mset ys"
  shows "sort_slice (candidate_order (<)) xs = sort_slice (candidate_order (<)) ys"
proof (rule candidates.sort_slice_perm [OF assms(2)])
  fix x y assume "x \<in> set xs" "y \<in> set xs" "\<not> candidate_order (<) x y" "\<not> candidate_order (<) y x"
  then show "x = y"
    by (intro distinct_key [OF assms(1)]) (auto simp: candidate_order_def candidate_key_def)
qed

lemma explanations_sorted:
  assumes "distinct (map explanation_key xs)" and "mset xs = mset ys"
  shows "sort_slice (explanation_order (<)) xs = sort_slice (explanation_order (<)) ys"
proof (rule explanations.sort_slice_perm [OF assms(2)])
  fix x y assume "x \<in> set xs" "y \<in> set xs" "\<not> explanation_order (<) x y" "\<not> explanation_order (<) y x"
  then show "x = y"
    by (intro distinct_key [OF assms(1)]) (auto simp: explanation_order_def explanation_key_def)
qed

lemma resorted:
  "distinct (map candidate_key xs) \<Longrightarrow>
     sort_slice (candidate_order (<)) (sort_slice lt xs) = sort_slice (candidate_order (<)) xs"
  "distinct (map explanation_key ys) \<Longrightarrow>
     sort_slice (explanation_order (<)) (sort_slice lt' ys) = sort_slice (explanation_order (<)) ys"
  by (rule candidates_sorted [symmetric] explanations_sorted [symmetric]; simp)+

lemma wallet_id_inj:
  assumes "db_inv db" and "(a, i, s) \<in> set (db_wallets db)" and "(a', i, s') \<in> set (db_wallets db)"
  shows "a = a' \<and> s = s'"
proof -
  have d: "distinct (map fst (db_wallets db))" using assms(1) by (simp add: db_inv_def ids_ok_def map_keys_def)
  with assms(2,3) have "map_of (db_wallets db) a = Some (i, s)" "map_of (db_wallets db) a' = Some (i, s')"
    by simp_all
  moreover from this have "a = a'" using assms(1) by (auto simp: db_inv_def ids_ok_def)
  ultimately show ?thesis by auto
qed

lemma selected_sync_runs_id:
  assumes "db_inv db" and "(i, row, a) \<in> set (selected_sync_runs cl db)" and "(i, row', a') \<in> set (selected_sync_runs cl db)"
  shows "row = row' \<and> a = a'"
proof -
  from assms(2,3) obtain s s' where m: "(i, row) \<in> set (db_wallet_sync_runs db)" "(i, row') \<in> set (db_wallet_sync_runs db)"
    and a: "(a, ws_wallet_id row, s) \<in> set (db_wallets db)" "(a', ws_wallet_id row', s') \<in> set (db_wallets db)"
    by (auto simp: selected_sync_runs_def)
  have "distinct (map fst (db_wallet_sync_runs db))" using assms(1) by (simp add: db_inv_def runs_ok_def map_keys_def)
  with m have "row = row'" by (meson eq_key_imp_eq_value)
  with wallet_id_inj [OF assms(1)] a show ?thesis by blast
qed

lemma wallet_syncs_sorted:
  assumes "db_inv db" and "set xs \<subseteq> {wallet_sync_record i row a | i row a. (i, row, a) \<in> set (selected_sync_runs cl db)}"
    and "mset xs = mset ys"
  shows "sort_slice (wallet_sync_order (<)) xs = sort_slice (wallet_sync_order (<)) ys"
proof (rule wallet_syncs.sort_slice_perm [OF assms(3)])
  fix x y assume xy: "x \<in> set xs" "y \<in> set xs" "\<not> wallet_sync_order (<) x y" "\<not> wallet_sync_order (<) y x"
  then have id: "xw_WalletSyncRunID x = xw_WalletSyncRunID y" by (auto simp: wallet_sync_order_def)
  from xy assms(2) obtain i row a j row' a' where "x = wallet_sync_record i row a" "(i, row, a) \<in> set (selected_sync_runs cl db)"
    "y = wallet_sync_record j row' a'" "(j, row', a') \<in> set (selected_sync_runs cl db)" by blast
  moreover from this id have "i = j" by (simp add: wallet_sync_record_def)
  ultimately show "x = y" using selected_sync_runs_id [OF assms(1)] by metis
qed

lemma summaries_sorted:
  assumes "db_inv db" and "set xs \<subseteq> {summary_record db i row a | i row a. (i, row, a) \<in> set (selected_sync_runs cl db)}"
    and "mset xs = mset ys"
  shows "sort_slice (summary_order (<)) xs = sort_slice (summary_order (<)) ys"
proof (rule summaries.sort_slice_perm [OF assms(3)])
  fix x y assume xy: "x \<in> set xs" "y \<in> set xs" "\<not> summary_order (<) x y" "\<not> summary_order (<) y x"
  then have id: "xs_WalletSyncRunID x = xs_WalletSyncRunID y" by (auto simp: summary_order_def)
  from xy assms(2) obtain i row a j row' a' where "x = summary_record db i row a" "(i, row, a) \<in> set (selected_sync_runs cl db)"
    "y = summary_record db j row' a'" "(j, row', a') \<in> set (selected_sync_runs cl db)" by blast
  moreover from this id have "i = j" by (simp add: summary_record_def)
  ultimately show "x = y" using selected_sync_runs_id [OF assms(1)] by metis
qed

section \<open>The store as a source\<close>

definition source_on_fst :: "'w DatasetSource \<Rightarrow> ('w \<times> 'p) DatasetSource" where
  "source_on_fst src =
     \<lparr> ds_ListIngestionRuns = (\<lambda>flt. on_fst (ds_ListIngestionRuns src flt)),
       ds_ListWalletSyncRuns = (\<lambda>flt. on_fst (ds_ListWalletSyncRuns src flt)),
       ds_ListPoisoningCandidates = (\<lambda>flt. on_fst (ds_ListPoisoningCandidates src flt)),
       ds_ListCandidateExplanations = (\<lambda>flt. on_fst (ds_ListCandidateExplanations src flt)),
       ds_ListWalletInspectionSummary = (\<lambda>flt. on_fst (ds_ListWalletInspectionSummary src flt)) \<rparr>"

lemma agree_on_fst: "agree lt (f (fst w)) (g (fst w)) \<Longrightarrow> agree lt (on_fst f w) (on_fst g w)"
  unfolding agree_def on_fst_simps by (simp add: prod_eq_iff)

text \<open>The store under two collations.\<close>

definition collated :: "sql_text \<Rightarrow> (string \<Rightarrow> string \<Rightarrow> bool) \<Rightarrow> sql_text" where
  "collated sq lt = sq\<lparr> sq_less := lt \<rparr>"

lemma collated_less [simp]: "sq_less (collated sq lt) = lt"
  by (simp add: collated_def)

lemma collated_record [simp]: "ingestion_record (collated sq lt) = ingestion_record sq"
  by (simp add: fun_eq_iff collated_def ingestion_record_def)

lemma collated_rows [simp]: "ingestion_rows (collated sq lt) = ingestion_rows sq"
  unfolding ingestion_rows_def collated_record ..

definition reproducible :: "ExportFilter \<Rightarrow> Pg \<times> 'p \<Rightarrow> bool" where
  "reproducible flt w \<longleftrightarrow> db_inv (pg_db (fst w)) \<and> unambiguous flt (pg_db (fst w))"

interpretation collations: same_rows "source_on_fst (pg_source (collated sq less1))" "source_on_fst (pg_source (collated sq less2))"
  flt "reproducible flt" for sq less1 less2 flt
proof
  fix w :: "Pg \<times> 'p"
  assume "reproducible flt w"
  then have inv: "db_inv (pg_db (fst w))" and un: "unambiguous flt (pg_db (fst w))" by (simp_all add: reproducible_def)
  note defs = source_on_fst_def pg_source_def ListIngestionRunsForExport_def ListWalletSyncRunsForExport_def
    ListPoisoningCandidatesForExport_def ListCandidateExplanationsForExport_def ListWalletInspectionSummaryForExport_def
  let ?s = "\<lambda>lt. source_on_fst (pg_source (collated sq lt)) :: (Pg \<times> 'p) DatasetSource"
  show "agree ingestion_order (ds_ListIngestionRuns (?s less1) flt w) (ds_ListIngestionRuns (?s less2) flt w)"
    unfolding defs
    by (simp, intro agree_on_fst export_query_agree conjI)
      simp_all
  show "agree (wallet_sync_order (<)) (ds_ListWalletSyncRuns (?s less1) flt w) (ds_ListWalletSyncRuns (?s less2) flt w)"
    unfolding defs
    by (simp, intro agree_on_fst export_query_agree conjI)
      (force simp: wallet_sync_rows_def intro!: wallet_syncs_sorted [OF inv])+
  show "agree (candidate_order (<)) (ds_ListPoisoningCandidates (?s less1) flt w) (ds_ListPoisoningCandidates (?s less2) flt w)"
    unfolding defs
    by (simp, intro agree_on_fst export_query_agree conjI)
      (use un in \<open>auto simp: candidate_rows_def unambiguous_def resorted\<close>)
  show "agree (explanation_order (<)) (ds_ListCandidateExplanations (?s less1) flt w) (ds_ListCandidateExplanations (?s less2) flt w)"
    unfolding defs
    by (simp, intro agree_on_fst export_query_agree conjI)
      (use un in \<open>auto simp: explanation_rows_def unambiguous_def resorted\<close>)
  show "agree (summary_order (<)) (ds_ListWalletInspectionSummary (?s less1) flt w) (ds_ListWalletInspectionSummary (?s less2) flt w)"
    unfolding defs
    by (simp, intro agree_on_fst export_query_agree conjI)
      (force simp: summary_rows_def intro!: summaries_sorted [OF inv])+
qed (simp_all add: reproducible_def source_on_fst_def pg_source_def ListIngestionRunsForExport_def
  ListWalletSyncRunsForExport_def ListPoisoningCandidatesForExport_def ListCandidateExplanationsForExport_def)

end
