(* ===== verification/Orchestrator.thy ===== *)
theory Orchestrator
imports Wallet_Runner
begin

text \<open>
  \<open>internal/pipeline/orchestrator.go\<close> and \<open>runtime_timing.go\<close>: a run over a list of wallets. One goroutine
  per wallet waits for a slot of the semaphore, works under the wallet's lock and sends its outcome; the
  run then sorts the outcomes, adds them up and closes its row. The goroutines are a step relation on
  the pool of workers; a worker's own calls run as one step.
\<close>

section \<open>Types\<close>

definition walletLockTTLTailSeconds :: int where
  "walletLockTTLTailSeconds = 3 + 2 + 1"

type_synonym 'w wallet_runner =
  "string \<Rightarrow> RunParams \<Rightarrow> WalletRunLimits \<Rightarrow> 'w \<Rightarrow> (WalletRunReport \<times> go_error option) \<times> 'w"

record 'w Orchestrator =
  oc_cfg :: Config
  oc_runRepo :: "'w store option"
  oc_walletLocks :: "'w store option"
  oc_walletRunner :: "'w wallet_runner option"

record walletOutcome =
  wo_address :: string
  wo_report :: WalletRunReport
  wo_err :: "go_error option"

definition ErrWalletAlreadyLocked :: go_error where
  "ErrWalletAlreadyLocked = Err ''wallet sync lock is currently held''"

text \<open>\<open>errors.Is\<close> compares the innermost error; nothing else in the program makes an error of this text.\<close>

definition is_already_locked :: "go_error \<Rightarrow> bool" where
  "is_already_locked e \<longleftrightarrow> root_cause e = ErrWalletAlreadyLocked"

definition errString :: "walletOutcome \<Rightarrow> string" where
  "errString oc = (case wo_err oc of None \<Rightarrow> [] | Some e \<Rightarrow> err_msg e)"

section \<open>One wallet\<close>

definition wallet_limits :: "Config \<Rightarrow> WalletRunLimits" where
  "wallet_limits cfg =
     \<lparr> rl_MaxTXPagesPerWallet = cfg_MaxTXPagesPerWallet cfg, rl_MaxTXPerWallet = cfg_MaxTXPerWallet cfg,
       rl_MaxHeliusRetries = cfg_MaxHeliusRetries cfg,
       rl_HeliusRequestDelay = cfg_HeliusRequestDelayMS cfg * nanos_per_milli \<rparr>"

text \<open>\<open>ctxErr\<close> is \<open>ctx.Err()\<close> of the wallet's context.\<close>

definition call_runner ::
  "('w \<Rightarrow> go_error option) \<Rightarrow> 'w wallet_runner \<Rightarrow> string \<Rightarrow> RunParams \<Rightarrow> WalletRunLimits \<Rightarrow> 'w
     \<Rightarrow> (WalletRunReport \<times> go_error option) \<times> 'w" where
  "call_runner ctxErr runner walletAddress p limits w =
     (case ctxErr w of
        Some e \<Rightarrow> ((zero_report, Some e), w)
      | None \<Rightarrow> (case runner walletAddress p limits w of
            ((report, Some e), w1) \<Rightarrow> ((report, Some (Wrapped ''wallet runner: '' e [])), w1)
          | ((report, None), w1) \<Rightarrow> ((report, None), w1)))"

definition release_lock ::
  "'w store \<Rightarrow> string \<Rightarrow> string \<Rightarrow> (WalletRunReport \<times> go_error option) \<times> 'w \<Rightarrow> (WalletRunReport \<times> go_error option) \<times> 'w" where
  "release_lock locks walletAddress holderToken res =
     (case res of ((report, err), w) \<Rightarrow>
      case st_ReleaseWalletLock locks walletAddress holderToken w of
        (Inr _, w1) \<Rightarrow> ((report, err), w1)
      | (Inl r, w1) \<Rightarrow>
          ((report, Some (case err of None \<Rightarrow> Wrapped ''release lock: '' r []
                          | Some e \<Rightarrow> Wrapped [] e (''; release lock: '' @ err_msg r))), w1))"

definition runWallet ::
  "('w \<Rightarrow> go_error option) \<Rightarrow> 'w Orchestrator \<Rightarrow> 'w wallet_runner \<Rightarrow> string \<Rightarrow> RunParams \<Rightarrow> 'w
     \<Rightarrow> (WalletRunReport \<times> go_error option) \<times> 'w" where
  "runWallet ctxErr orch runner walletAddress p w =
     (let limits = wallet_limits (oc_cfg orch) in
      if rl_MaxTXPagesPerWallet limits < 1 \<or> rl_MaxTXPerWallet limits < 1
      then ((zero_report, Some (Err (''invalid wallet run bounds for '' @ walletAddress))), w)
      else case oc_walletLocks orch of
        None \<Rightarrow> call_runner ctxErr runner walletAddress p limits w
      | Some locks \<Rightarrow>
          (case st_AcquireWalletLock locks walletAddress
                  (cfg_WalletSyncTimeoutSeconds (oc_cfg orch) + walletLockTTLTailSeconds) w of
             (Inl e, w1) \<Rightarrow> ((zero_report, Some (Wrapped ''acquire lock: '' e [])), w1)
           | (Inr (acquired, holderToken), w1) \<Rightarrow>
               if \<not> acquired then ((zero_report, Some ErrWalletAlreadyLocked), w1)
               else release_lock locks walletAddress holderToken
                      (call_runner ctxErr runner walletAddress p limits w1)))"

section \<open>The totals\<close>

definition outcome_lt :: "walletOutcome \<Rightarrow> walletOutcome \<Rightarrow> bool" where
  "outcome_lt a b \<longleftrightarrow> (if wo_address a = wo_address b then errString a < errString b else wo_address a < wo_address b)"

record tally =
  tl_total :: Counters
  tl_errs :: "string list"
  tl_partial :: int

definition add_counters :: "WalletRunReport \<Rightarrow> Counters \<Rightarrow> Counters" where
  "add_counters rep t =
     (let c = rr_Counters rep in t
      \<lparr> c_TruncationWalletCount := c_TruncationWalletCount t + (if rr_TruncationObserved rep then 1 else 0),
        c_TransactionsFetched := c_TransactionsFetched t + c_TransactionsFetched c,
        c_TransactionsInserted := c_TransactionsInserted t + c_TransactionsInserted c,
        c_TransactionsLinked := c_TransactionsLinked t + c_TransactionsLinked c,
        c_TransactionsFailedNormalize := c_TransactionsFailedNormalize t + c_TransactionsFailedNormalize c,
        c_OwnerUnresolvedCount := c_OwnerUnresolvedCount t + c_OwnerUnresolvedCount c,
        c_UnsupportedAssetCount := c_UnsupportedAssetCount t + c_UnsupportedAssetCount c,
        c_DecimalsUnresolvedCount := c_DecimalsUnresolvedCount t + c_DecimalsUnresolvedCount c,
        c_UnknownGateBlockCount := c_UnknownGateBlockCount t + c_UnknownGateBlockCount c,
        c_CandidateBlockCount := c_CandidateBlockCount t + c_CandidateBlockCount c,
        c_CounterpartiesCreated := c_CounterpartiesCreated t + c_CounterpartiesCreated c,
        c_CounterpartiesUpdated := c_CounterpartiesUpdated t + c_CounterpartiesUpdated c,
        c_PoisoningCandidatesInserted := c_PoisoningCandidatesInserted t + c_PoisoningCandidatesInserted c,
        c_RetryExhaustedCount := c_RetryExhaustedCount t + c_RetryExhaustedCount c,
        c_WalletTimeoutCount := c_WalletTimeoutCount t + (if rr_WalletStatus rep = WalletStatusTimedOut then 1 else 0),
        c_WalletCapHitCount := c_WalletCapHitCount t +
          (if contains (rr_TruncationReason rep) ''max_pages_cap'' \<or> contains (rr_TruncationReason rep) ''max_tx_cap''
           then 1 else 0) \<rparr>)"

definition wallet_error :: "string \<Rightarrow> go_error \<Rightarrow> string" where
  "wallet_error address e = ''wallet '' @ address @ '': '' @ err_msg e"

definition add_outcome :: "tally \<Rightarrow> walletOutcome \<Rightarrow> tally" where
  "add_outcome tly oc =
     (let t = add_counters (wo_report oc) (tl_total tly) in
      case wo_err oc of
        None \<Rightarrow>
          tly\<lparr> tl_total := t\<lparr> c_WalletsProcessed := c_WalletsProcessed t + 1 \<rparr>,
              tl_partial := tl_partial tly + (if rr_WalletStatus (wo_report oc) = WalletStatusPartial then 1 else 0) \<rparr>
      | Some e \<Rightarrow>
          tly\<lparr> tl_total := (if is_already_locked e then t\<lparr> c_WalletsSkipped := c_WalletsSkipped t + 1 \<rparr>
                           else t\<lparr> c_WalletsFailed := c_WalletsFailed t + 1 \<rparr>),
              tl_errs := tl_errs tly @ [wallet_error (wo_address oc) e] \<rparr>)"

definition run_tally :: "int \<Rightarrow> walletOutcome list \<Rightarrow> tally" where
  "run_tally requested outcomes =
     (let tly = foldl add_outcome \<lparr> tl_total = zero_counters\<lparr> c_WalletsRequested := requested \<rparr>, tl_errs = [], tl_partial = 0 \<rparr>
                 (sort_slice outcome_lt outcomes);
          t = tl_total tly
      in if c_WalletsRequested t > 0
         then tly\<lparr> tl_total := t\<lparr> c_TruncationWalletRate := of_int (c_TruncationWalletCount t) / of_int (c_WalletsRequested t) \<rparr> \<rparr>
         else tly)"

definition deriveRunStatus :: "go_error option \<Rightarrow> Counters \<Rightarrow> int \<Rightarrow> int \<Rightarrow> RunStatus" where
  "deriveRunStatus runErr totals errorCount partialCount =
     (if (case runErr of None \<Rightarrow> False | Some e \<Rightarrow> is_deadline e) then RunStatusTimedOut
      else if (case runErr of None \<Rightarrow> False | Some e \<Rightarrow> is_canceled e) then RunStatusCancelled
      else if errorCount = 0
      then (if partialCount > 0 then RunStatusPartiallySucceeded else RunStatusSucceeded)
      else if c_WalletsProcessed totals > 0 \<or> c_WalletsSkipped totals > 0 then RunStatusPartiallySucceeded
      else RunStatusFailed)"

section \<open>The run\<close>

text \<open>What precedes the goroutines: the parameters, the wallets, the row of the run.\<close>

definition wallet_list ::
  "(string \<Rightarrow> go_error + WalletFile) \<Rightarrow> Config \<Rightarrow> RunParams \<Rightarrow> go_error + string list" where
  "wallet_list fs cfg p =
     (if rp_WalletAddresses p \<noteq> []
      then (case NormalizeAddresses (rp_WalletAddresses p) (cfg_MaxWalletsPerRun cfg) of (loaded, totalUnique) \<Rightarrow>
        if totalUnique > int (length loaded)
        then Inl (Err (''wallet address count '' @ show_int totalUnique @ '' exceeds MAX_WALLETS_PER_RUN='' @
               show_int (cfg_MaxWalletsPerRun cfg)))
        else Inr loaded)
      else LoadAddressesExcludingFile fs (rp_WalletFile p) (rp_SkipWalletFile p) (cfg_MaxWalletsPerRun cfg))"

definition run_params :: "Config \<Rightarrow> RunParams \<Rightarrow> go_error + RunParams" where
  "run_params cfg p =
     (if \<not> rp_ScanStart p < rp_ScanEnd p then Inl (Err ''scan window must satisfy scan_start < scan_end'')
      else
      let p1 = (if rp_BaselineLookbackDays p < 1 then p\<lparr> rp_BaselineLookbackDays := cfg_BaselineLookbackDays cfg \<rparr> else p) in
      if rp_BaselineLookbackDays p1 \<le> 0 then Inl (Err ''baseline lookback days must be >= 1'') else Inr p1)"

definition run_finish ::
  "'w runtime \<Rightarrow> 'w Orchestrator \<Rightarrow> int \<Rightarrow> int \<Rightarrow> walletOutcome list \<Rightarrow> 'w \<Rightarrow> go_error option \<times> 'w" where
  "run_finish rt orch runID requested outcomes w =
     (let tly = run_tally requested outcomes;
          errs = tl_errs tly;
          runStatus = deriveRunStatus (rt_CtxErr rt w) (tl_total tly) (int (length errs)) (tl_partial tly);
          finish = (\<lambda>errs w.
            if errs \<noteq> [] then (Some (Err (''run completed with wallet errors: '' @ join ''; '' errs)), w)
            else (rt_CtxErr rt w, w))
      in case oc_runRepo orch of
           None \<Rightarrow> finish errs w
         | Some repo \<Rightarrow>
             (case st_FinalizeIngestionRun repo runID runStatus (rt_Now rt w) (tl_total tly) (join ''; '' errs) w of
                (Inr _, w1) \<Rightarrow> finish errs w1
              | (Inl e, w1) \<Rightarrow>
                  if errs = [] then (Some (Wrapped ''finalize ingestion run: '' e []), w1)
                  else finish (errs @ [''finalize ingestion run: '' @ err_msg e]) w1))"

text \<open>\<open>workers\<close> is what the goroutines do to the world and leave in the channel.\<close>

definition Run ::
  "'w runtime \<Rightarrow> (string \<Rightarrow> go_error + WalletFile) \<Rightarrow> 'w Orchestrator
     \<Rightarrow> ('w wallet_runner \<Rightarrow> RunParams \<Rightarrow> string list \<Rightarrow> 'w \<Rightarrow> walletOutcome list \<times> 'w)
     \<Rightarrow> RunParams \<Rightarrow> 'w \<Rightarrow> go_error option \<times> 'w" where
  "Run rt fs orch workers p0 w =
     (case run_params (oc_cfg orch) p0 of
        Inl e \<Rightarrow> (Some e, w)
      | Inr p \<Rightarrow>
     (case wallet_list fs (oc_cfg orch) p of
        Inl e \<Rightarrow> (Some e, w)
      | Inr loaded \<Rightarrow>
      let walletList = sort loaded in
      if walletList = [] then (Some (Err ''no wallets to process''), w)
      else case oc_walletRunner orch of
        None \<Rightarrow> (Some (Err ''wallet runner is not configured''), w)
      | Some runner \<Rightarrow>
      let run = (\<lambda>p w. case workers runner p walletList w of (outcomes, w1) \<Rightarrow>
            run_finish rt orch (rp_IngestionRunID p) (int (length walletList)) outcomes w1) in
      (case oc_runRepo orch of
         None \<Rightarrow> run p w
       | Some repo \<Rightarrow>
           if rp_IngestionRunID p \<noteq> 0 then run p w
           else (case st_CreateIngestionRun repo (rt_Now rt w) w of
               (Inl e, w1) \<Rightarrow> (Some (Wrapped ''create ingestion run: '' e []), w1)
             | (Inr runID, w1) \<Rightarrow> run (p\<lparr> rp_IngestionRunID := runID \<rparr>) w1))))"

section \<open>The workers\<close>

text \<open>A goroutine waits for a slot, then works, then sends. \<open>ps_world\<close> is shared.\<close>

record 'w pool =
  ps_waiting :: "string list"
  ps_working :: "string list"
  ps_channel :: "walletOutcome list"
  ps_world :: 'w

definition pool_start :: "string list \<Rightarrow> 'w \<Rightarrow> 'w pool" where
  "pool_start wallets w = \<lparr> ps_waiting = wallets, ps_working = [], ps_channel = [], ps_world = w \<rparr>"

text \<open>\<open>cancelled\<close> is \<open>runCtx.Err()\<close>; \<open>drift\<close> is what happens to the world meanwhile.\<close>

inductive pool_step ::
  "int \<Rightarrow> ('w \<Rightarrow> go_error option) \<Rightarrow> (string \<Rightarrow> 'w \<Rightarrow> (WalletRunReport \<times> go_error option) \<times> 'w)
     \<Rightarrow> ('w \<Rightarrow> 'w \<Rightarrow> bool) \<Rightarrow> 'w pool \<Rightarrow> 'w pool \<Rightarrow> bool"
  for slots cancelled worker drift where
  takes_slot: "a \<in> set (ps_waiting s) \<Longrightarrow> int (length (ps_working s)) < slots \<Longrightarrow>
     pool_step slots cancelled worker drift s
       (s\<lparr> ps_waiting := remove1 a (ps_waiting s), ps_working := a # ps_working s \<rparr>)"
| gives_up: "a \<in> set (ps_waiting s) \<Longrightarrow> cancelled (ps_world s) = Some e \<Longrightarrow>
     pool_step slots cancelled worker drift s
       (s\<lparr> ps_waiting := remove1 a (ps_waiting s),
          ps_channel := ps_channel s @ [\<lparr> wo_address = a, wo_report = zero_report, wo_err = Some e \<rparr>] \<rparr>)"
| finishes: "a \<in> set (ps_working s) \<Longrightarrow> worker a (ps_world s) = ((report, err), w') \<Longrightarrow>
     pool_step slots cancelled worker drift s
       (s\<lparr> ps_working := remove1 a (ps_working s), ps_world := w',
          ps_channel := ps_channel s @ [\<lparr> wo_address = a, wo_report = report, wo_err = err \<rparr>] \<rparr>)"
| drifts: "drift (ps_world s) w' \<Longrightarrow> pool_step slots cancelled worker drift s (s\<lparr> ps_world := w' \<rparr>)"

text \<open>\<open>wg.Wait()\<close> returns.\<close>

definition pool_over :: "'w pool \<Rightarrow> bool" where
  "pool_over s \<longleftrightarrow> ps_waiting s = [] \<and> ps_working s = []"

text \<open>One schedule, as a function: the wallets one after the other in the order of the list.\<close>

fun serial_workers ::
  "(string \<Rightarrow> 'w \<Rightarrow> (WalletRunReport \<times> go_error option) \<times> 'w) \<Rightarrow> string list \<Rightarrow> 'w \<Rightarrow> walletOutcome list \<times> 'w" where
  "serial_workers worker [] w = ([], w)"
| "serial_workers worker (a # as) w =
     (case worker a w of ((report, err), w1) \<Rightarrow>
      case serial_workers worker as w1 of (outcomes, w2) \<Rightarrow>
        (\<lparr> wo_address = a, wo_report = report, wo_err = err \<rparr> # outcomes, w2))"

end
