(* ===== verification/Daemon.thy ===== *)
theory Daemon
imports Orchestrator Wallet_Source Wallet_Runs
begin

text \<open>
  \<open>cmd/scanner/daemon.go\<close>: cycles of scraping, sourcing and scanning under a daily credit budget and two
  request limiters. The host (clock, files, network, database) is the first component of the world, the
  daemon's own shared state the second. Parameters: the parsing of the command line and of URLs, the HTTP
  clients, the files. Contexts show only in whether an operation fails; log lines are left out.
\<close>

section \<open>Options\<close>

record daemonOptions =
  dm_once :: bool
  dm_workDir :: string
  dm_cycleInterval :: duration
  dm_dailyCreditBudget :: int
  dm_rpcRPS :: int
  dm_enhancedRPS :: int
  dm_maxHeliusRetries :: int
  dm_targetCount :: int
  dm_runMaxTXPages :: int
  dm_runMaxTXPerWallet :: int
  dm_runMaxConcurrent :: int
  dm_maxBlocks :: int
  dm_blockLookback :: int
  dm_maxTXPerBlock :: int
  dm_maxScrapedWallets :: int
  dm_minScrapeCount :: int
  dm_maxSeedWallets :: int
  dm_maxCandidates :: int
  dm_candidateMaxPages :: int
  dm_sourceMaxTXPerWallet :: int
  dm_maxAcceptedTX :: int
  dm_minNativeLamports :: int
  dm_scanWindowDays :: int
  dm_baselineLookbackDays :: int
  dm_maxSameTimestampTX :: int
  dm_maxTransfersPerTX :: int
  dm_maxUnknownDustSPL :: int
  dm_minScanInboundDust :: int
  dm_minUniqueDustRecipients :: int
  dm_deepDiveTopN :: int
  dm_deepDiveMaxPages :: int
  dm_deepDiveMaxTX :: int
  dm_deepDiveMinScore :: int
  dm_maxNoisyInstructions :: int
  dm_minOutbound :: int
  dm_sourceMode :: string

definition nanos_per_minute :: int where "nanos_per_minute = 60000000000"

definition minInt :: "int \<Rightarrow> int \<Rightarrow> int" where
  "minInt a b = (if a < b then a else b)"

text \<open>The values of the flags that are not given.\<close>

definition default_options :: "Config \<Rightarrow> daemonOptions" where
  "default_options cfg =
     \<lparr> dm_once = False, dm_workDir = ''artifacts/daemon'', dm_cycleInterval = 24 * nanos_per_hour,
       dm_dailyCreditBudget = 50000, dm_rpcRPS = 5, dm_enhancedRPS = 1,
       dm_maxHeliusRetries = minInt (cfg_MaxHeliusRetries cfg) 1, dm_targetCount = 5,
       dm_runMaxTXPages = minInt (cfg_MaxTXPagesPerWallet cfg) 5,
       dm_runMaxTXPerWallet = minInt (cfg_MaxTXPerWallet cfg) 400, dm_runMaxConcurrent = 1, dm_maxBlocks = 20,
       dm_blockLookback = 250, dm_maxTXPerBlock = 200, dm_maxScrapedWallets = 500, dm_minScrapeCount = 2,
       dm_maxSeedWallets = 120, dm_maxCandidates = 40, dm_candidateMaxPages = 3, dm_sourceMaxTXPerWallet = 300,
       dm_maxAcceptedTX = 300, dm_minNativeLamports = 10000000, dm_scanWindowDays = cfg_ScanWindowDays cfg,
       dm_baselineLookbackDays = cfg_BaselineLookbackDays cfg, dm_maxSameTimestampTX = 5, dm_maxTransfersPerTX = 4,
       dm_maxUnknownDustSPL = 0, dm_minScanInboundDust = 1, dm_minUniqueDustRecipients = 10, dm_deepDiveTopN = 7,
       dm_deepDiveMaxPages = 8, dm_deepDiveMaxTX = 900, dm_deepDiveMinScore = 30, dm_maxNoisyInstructions = 0,
       dm_minOutbound = 1, dm_sourceMode = SourceModeAttackerOutboundDust \<rparr>"

definition enhancedTransactionCredits :: int where "enhancedTransactionCredits = 100"
definition standardRPCCredits :: int where "standardRPCCredits = 1"

text \<open>The estimate as a number, and as the code computes it: wrapping once at the end is wrapping at every
  step, addition and multiplication being compatible with it.\<close>

definition cycle_credits :: "daemonOptions \<Rightarrow> int" where
  "cycle_credits opts =
     (let rpcCalls = 1 + dm_maxBlocks opts;
          sourceEnhancedCalls = dm_maxCandidates opts * dm_candidateMaxPages opts;
          deepDiveEnhancedCalls = dm_deepDiveTopN opts * dm_deepDiveMaxPages opts;
          runEnhancedCalls = dm_targetCount opts * dm_runMaxTXPages opts * 2;
          enhancedAttempts = dm_maxHeliusRetries opts + 1
      in rpcCalls * standardRPCCredits +
         (sourceEnhancedCalls + deepDiveEnhancedCalls + runEnhancedCalls) * enhancedAttempts * enhancedTransactionCredits)"

definition estimateDaemonCycleCredits :: "daemonOptions \<Rightarrow> int" where
  "estimateDaemonCycleCredits opts = wrap64 (cycle_credits opts)"

definition source_mode_error :: go_error where
  "source_mode_error = Err (''source-mode must be '' @ go_quote SourceModeAttackerOutboundDust @ '' or '' @
     go_quote SourceModeVictimInboundDust)"

definition daemon_checks :: "Config \<Rightarrow> daemonOptions \<Rightarrow> (bool \<times> go_error) list" where
  "daemon_checks cfg o' =
    [(dm_workDir o' = [], Err ''work-dir is required''),
     (dm_cycleInterval o' < nanos_per_minute \<and> \<not> dm_once o', Err ''cycle-interval must be >= 1m''),
     (dm_dailyCreditBudget o' < 1, Err ''daily-credit-budget must be >= 1''),
     (dm_rpcRPS o' < 1 \<or> dm_rpcRPS o' > 10, Err ''rpc-rps must be between 1 and 10 for Helius Free''),
     (dm_enhancedRPS o' < 1 \<or> dm_enhancedRPS o' > 2, Err ''enhanced-rps must be between 1 and 2 for Helius Free''),
     (dm_maxHeliusRetries o' < 0 \<or> dm_maxHeliusRetries o' > cfg_MaxHeliusRetries cfg,
        Err ''max-helius-retries must be between 0 and MAX_HELIUS_RETRIES''),
     (dm_targetCount o' < 1 \<or> dm_targetCount o' > cfg_MaxWalletsPerRun cfg,
        Err ''target-count must be between 1 and MAX_WALLETS_PER_RUN''),
     (dm_runMaxTXPages o' < 1 \<or> dm_runMaxTXPages o' > cfg_MaxTXPagesPerWallet cfg,
        Err ''run-max-tx-pages must be between 1 and MAX_TX_PAGES_PER_WALLET''),
     (dm_runMaxTXPerWallet o' < 1 \<or> dm_runMaxTXPerWallet o' > cfg_MaxTXPerWallet cfg,
        Err ''run-max-tx-per-wallet must be between 1 and MAX_TX_PER_WALLET''),
     (dm_runMaxConcurrent o' < 1 \<or> dm_runMaxConcurrent o' > cfg_MaxConcurrentWallets cfg \<or>
        dm_runMaxConcurrent o' > dm_targetCount o',
        Err ''run-max-concurrent-wallets must be between 1 and both MAX_CONCURRENT_WALLETS and target-count''),
     (dm_maxBlocks o' < 1 \<or> dm_blockLookback o' < 1 \<or> dm_maxTXPerBlock o' < 1,
        Err ''block scrape bounds must be >= 1''),
     (dm_maxScrapedWallets o' < 1 \<or> dm_maxSeedWallets o' < 1 \<or> dm_maxCandidates o' < 1,
        Err ''source wallet bounds must be >= 1''),
     (dm_minScrapeCount o' < 0, Err ''min-scrape-count must be >= 0''),
     (dm_candidateMaxPages o' < 1 \<or> dm_sourceMaxTXPerWallet o' < 1 \<or> dm_maxAcceptedTX o' < 1,
        Err ''source sampling bounds must be >= 1''),
     (dm_deepDiveTopN o' < 0 \<or> dm_deepDiveMaxPages o' < 1 \<or> dm_deepDiveMaxTX o' < 1 \<or> dm_deepDiveMinScore o' < 1,
        Err ''deep-dive bounds must satisfy top-n>=0, max-pages>=1, max-tx>=1, min-score>=1''),
     (dm_scanWindowDays o' < 1 \<or> dm_baselineLookbackDays o' \<le> dm_scanWindowDays o',
        Err ''baseline-lookback-days must be greater than scan-window-days''),
     (dm_minUniqueDustRecipients o' < 1, Err ''min-unique-dust-recipients must be >= 1''),
     (dm_sourceMode o' \<noteq> SourceModeAttackerOutboundDust \<and> dm_sourceMode o' \<noteq> SourceModeVictimInboundDust,
        source_mode_error),
     (estimateDaemonCycleCredits o' > dm_dailyCreditBudget o',
        Err (''daily-credit-budget is below one cycle worst-case estimate ('' @
          show_int (estimateDaemonCycleCredits o') @ '' credits)''))]"

definition validateDaemonOptions :: "Config \<Rightarrow> daemonOptions \<Rightarrow> go_error option" where
  "validateDaemonOptions cfg opts = first_error (daemon_checks cfg opts)"

text \<open>\<open>flags\<close> is the parsing of the arguments over the defaults.\<close>

definition parseDaemonOptions ::
  "(daemonOptions \<Rightarrow> string list \<Rightarrow> go_error + daemonOptions) \<Rightarrow> Config \<Rightarrow> string list \<Rightarrow> go_error + daemonOptions" where
  "parseDaemonOptions flags cfg args =
     (case flags (default_options cfg) args of
        Inl err \<Rightarrow> Inl err
      | Inr opts \<Rightarrow> (case validateDaemonOptions cfg opts of Some err \<Rightarrow> Inl err | None \<Rightarrow> Inr opts))"

section \<open>Limiters\<close>

record requestLimiter =
  lm_interval :: duration
  lm_next :: gotime

definition newRequestLimiter :: "int \<Rightarrow> requestLimiter" where
  "newRequestLimiter rps = \<lparr> lm_interval = nanos_per_second div (if rps < 1 then 1 else rps), lm_next = 0 \<rparr>"

text \<open>What \<open>Wait\<close> does under the mutex: the instant to sleep until, and the next one reserved.\<close>

definition limiter_slot :: "gotime \<Rightarrow> requestLimiter \<Rightarrow> gotime \<times> requestLimiter" where
  "limiter_slot now l =
     (let when = (if lm_next l > now then lm_next l else now) in (when, l\<lparr> lm_next := when + lm_interval l \<rparr>))"

section \<open>The budget\<close>

record dailyCreditBudget =
  cb_limit :: int
  cb_day :: string
  cb_used :: int

definition newDailyCreditBudget :: "int \<Rightarrow> dailyCreditBudget" where
  "newDailyCreditBudget limit = \<lparr> cb_limit = limit, cb_day = [], cb_used = 0 \<rparr>"

definition utc_day :: "gotime \<Rightarrow> string" where
  "utc_day t = (case civil_date (t div nanos_per_day) of (y, m, d) \<Rightarrow> pad 4 y @ ''-'' @ pad 2 m @ ''-'' @ pad 2 d)"

definition errDailyCreditBudgetExhausted :: go_error where
  "errDailyCreditBudgetExhausted = Err ''daily Helius credit budget exhausted''"

definition Reserve :: "gotime \<Rightarrow> int \<Rightarrow> dailyCreditBudget \<Rightarrow> go_error option \<times> dailyCreditBudget" where
  "Reserve now credits b =
     (if cb_limit b \<le> 0 then (None, b)
      else
      let day = utc_day now;
          b1 = (if cb_day b \<noteq> day then b\<lparr> cb_day := day, cb_used := 0 \<rparr> else b)
      in if wrap64 (cb_used b1 + credits) > cb_limit b1
         then (Some (Wrapped [] errDailyCreditBudgetExhausted ('': used='' @ show_int (cb_used b1) @ '' requested='' @
                 show_int credits @ '' limit='' @ show_int (cb_limit b1))), b1)
         else (None, b1\<lparr> cb_used := wrap64 (cb_used b1 + credits) \<rparr>))"

definition is_budget_exhausted :: "go_error \<Rightarrow> bool" where
  "is_budget_exhausted e \<longleftrightarrow> root_cause e = errDailyCreditBudgetExhausted"

section \<open>The world of the daemon\<close>

record daemonState =
  ds_rpcLimiter :: requestLimiter
  ds_enhancedLimiter :: requestLimiter
  ds_budget :: dailyCreditBudget

text \<open>The host: the clock, a timer that the context may cut short, and the files.\<close>

record 'w host =
  ho_Now :: "'w \<Rightarrow> gotime"
  ho_Timer :: "duration \<Rightarrow> 'w \<Rightarrow> go_error option \<times> 'w"
  ho_Read :: "'w \<Rightarrow> string \<Rightarrow> go_error + WalletFile"
  ho_Files :: "'w files"

definition sleepUntil :: "'w host \<Rightarrow> gotime \<Rightarrow> 'w \<Rightarrow> go_error option \<times> 'w" where
  "sleepUntil h when w =
     (let delay = sub_time when (ho_Now h w) in if delay \<le> 0 then (None, w) else ho_Timer h delay w)"

definition sleepContext :: "'w host \<Rightarrow> duration \<Rightarrow> 'w \<Rightarrow> go_error option \<times> 'w" where
  "sleepContext h d w = sleepUntil h (ho_Now h w + d) w"

text \<open>\<open>time.Date\<close> with the day after: midnight.\<close>

definition next_utc_day :: "gotime \<Rightarrow> gotime" where
  "next_utc_day now = (now div nanos_per_day + 1) * nanos_per_day"

definition sleepUntilNextUTCDay :: "'w host \<Rightarrow> 'w \<Rightarrow> go_error option \<times> 'w" where
  "sleepUntilNextUTCDay h w = sleepUntil h (next_utc_day (ho_Now h w)) w"

definition Wait ::
  "'w host \<Rightarrow> (daemonState \<Rightarrow> requestLimiter) \<Rightarrow> (requestLimiter \<Rightarrow> daemonState \<Rightarrow> daemonState) \<Rightarrow> 'w \<times> daemonState
     \<Rightarrow> go_error option \<times> ('w \<times> daemonState)" where
  "Wait h get put w =
     (case limiter_slot (ho_Now h (fst w)) (get (snd w)) of (when, l) \<Rightarrow>
      case sleepUntil h when (fst w) of (err, w1) \<Rightarrow> (err, (w1, put l (snd w))))"

definition enhanced_wait :: "'w host \<Rightarrow> 'w \<times> daemonState \<Rightarrow> go_error option \<times> ('w \<times> daemonState)" where
  "enhanced_wait h = Wait h ds_enhancedLimiter (\<lambda>l s. s\<lparr> ds_enhancedLimiter := l \<rparr>)"

definition rpc_wait :: "'w host \<Rightarrow> 'w \<times> daemonState \<Rightarrow> go_error option \<times> ('w \<times> daemonState)" where
  "rpc_wait h = Wait h ds_rpcLimiter (\<lambda>l s. s\<lparr> ds_rpcLimiter := l \<rparr>)"

text \<open>The two clients behind their limiters. The pipeline's own sleep is the host's timer.\<close>

definition limitedEnhancedClient :: "'w host \<Rightarrow> 'w env \<Rightarrow> ('w \<times> daemonState) env" where
  "limitedEnhancedClient h E =
     \<lparr> env_FetchEnhancedPage = (\<lambda>w a before.
          (case enhanced_wait h w of
             (Some err, w1) \<Rightarrow> (Inl err, w1)
           | (None, w1) \<Rightarrow> env_FetchEnhancedPage (env_on_fst E) w1 a before)),
       env_sleepContext = (\<lambda>w d. (case ho_Timer h d (fst w) of (err, w1) \<Rightarrow> (err, (w1, snd w)))) \<rparr>"

definition limitedRPC :: "'w host \<Rightarrow> 'w rpc \<Rightarrow> ('w \<times> daemonState) rpc" where
  "limitedRPC h rpc =
     \<lparr> rpc_GetSlot = (\<lambda>w.
          (case rpc_wait h w of
             (Some err, w1) \<Rightarrow> (Inl err, w1)
           | (None, w1) \<Rightarrow> (case rpc_GetSlot rpc (fst w1) of (r, w2) \<Rightarrow> (r, (w2, snd w1))))),
       rpc_GetBlock = (\<lambda>w slot.
          (case rpc_wait h w of
             (Some err, w1) \<Rightarrow> (Inl err, w1)
           | (None, w1) \<Rightarrow> (case rpc_GetBlock rpc (fst w1) slot of (r, w2) \<Rightarrow> (r, (w2, snd w1))))),
       rpc_Intn = (\<lambda>w n. case rpc_Intn rpc (fst w) n of (r, w1) \<Rightarrow> (r, (w1, snd w))) \<rparr>"

definition files_on_fst :: "'w files \<Rightarrow> ('w \<times> 'p) files" where
  "files_on_fst fl =
     \<lparr> fl_MkdirAll = (\<lambda>path w. case fl_MkdirAll fl path (fst w) of (r, w1) \<Rightarrow> (r, (w1, snd w))),
       fl_WriteFile = (\<lambda>path body w. case fl_WriteFile fl path body (fst w) of (r, w1) \<Rightarrow> (r, (w1, snd w))) \<rparr>"

section \<open>A cycle\<close>

definition format_cycle_id :: "gotime \<Rightarrow> string" where
  "format_cycle_id t =
     (let secs = t div nanos_per_second; s = secs mod 86400 in
      case civil_date (secs div 86400) of (y, m, d) \<Rightarrow>
        pad 4 y @ pad 2 m @ pad 2 d @ ''T'' @ pad 2 (s div 3600) @ pad 2 (s div 60 mod 60) @ pad 2 (s mod 60) @ ''Z'')"

text \<open>\<open>walletsource.NewHeliusRPCClient\<close> and \<open>helius.NewHTTPClient\<close>.\<close>

record 'w clients =
  cl_RPC :: "string \<Rightarrow> go_error + 'w rpc"
  cl_HTTP :: "string \<Rightarrow> string \<Rightarrow> go_error + 'w env"

definition scrape_options :: "daemonOptions \<Rightarrow> ScrapeOptions" where
  "scrape_options opts =
     \<lparr> so_StartSlot = 0, so_BlockLookback = dm_blockLookback opts, so_MaxBlocks = dm_maxBlocks opts,
       so_MaxWallets = dm_maxScrapedWallets opts, so_MaxTXPerBlock = dm_maxTXPerBlock opts,
       so_MaxNoisyInstructions = dm_maxNoisyInstructions opts, so_MinNativeLamports = dm_minNativeLamports opts,
       so_MinScrapeCount = dm_minScrapeCount opts \<rparr>"

definition source_options ::
  "Config \<Rightarrow> daemonOptions \<Rightarrow> ScrapedWallet list \<Rightarrow> string \<Rightarrow> gotime \<Rightarrow> SourceOptions" where
  "source_options cfg opts scraped cycleDir scanEnd =
     \<lparr> op_SeedWalletFile = [], op_SeedWallets = map sw_Address scraped,
       op_ScrapeStats = foldl (\<lambda>m x. map_set (sw_Address x) x m) [] scraped, op_ScoreSeedWallets = True,
       op_DiscoverNeighbors = False, op_OutPath = path_join [cycleDir, ''accepted_wallets.txt''],
       op_RejectedOutPath = path_join [cycleDir, ''rejected_wallets.tsv''],
       op_ScanStart = scanEnd + wrap64 (- dm_scanWindowDays opts * nanos_per_day), op_ScanEnd = scanEnd,
       op_BaselineLookback = wrap64 (dm_baselineLookbackDays opts * nanos_per_day),
       op_TargetCount = dm_targetCount opts, op_MaxSeedWallets = dm_maxSeedWallets opts,
       op_MaxCandidates = dm_maxCandidates opts, op_SeedMaxPages = 0, op_CandidateMaxPages = dm_candidateMaxPages opts,
       op_MaxTXPerWallet = dm_sourceMaxTXPerWallet opts, op_MaxRetries = dm_maxHeliusRetries opts,
       op_RequestDelay = wrap64 (cfg_HeliusRequestDelayMS cfg * nanos_per_milli), op_MinOutbound = dm_minOutbound opts,
       op_MaxAcceptedTX = dm_maxAcceptedTX opts, op_MaxSameTimestampTX = dm_maxSameTimestampTX opts,
       op_MaxTransfersPerTX = dm_maxTransfersPerTX opts, op_MaxUnknownDustSPL = dm_maxUnknownDustSPL opts,
       op_MinScanInboundDust = dm_minScanInboundDust opts,
       op_MinUniqueDustRecipients = dm_minUniqueDustRecipients opts, op_KnownDustAssetKeys = [],
       op_DeepDiveTopN = dm_deepDiveTopN opts, op_DeepDiveMaxPages = dm_deepDiveMaxPages opts,
       op_DeepDiveMaxTX = dm_deepDiveMaxTX opts, op_DeepDiveMinScore = dm_deepDiveMinScore opts,
       op_SourceMode = dm_sourceMode opts \<rparr>"

definition run_config :: "Config \<Rightarrow> daemonOptions \<Rightarrow> Config" where
  "run_config cfg opts = cfg
     \<lparr> cfg_MaxWalletsPerRun := dm_targetCount opts, cfg_MaxTXPagesPerWallet := dm_runMaxTXPages opts,
       cfg_MaxTXPerWallet := dm_runMaxTXPerWallet opts, cfg_MaxConcurrentWallets := dm_runMaxConcurrent opts,
       cfg_MaxHeliusRetries := dm_maxHeliusRetries opts \<rparr>"

definition cycle_run_params :: "daemonOptions \<Rightarrow> SourceOptions \<Rightarrow> RunParams" where
  "cycle_run_params opts so =
     \<lparr> rp_WalletFile = op_OutPath so, rp_SkipWalletFile = [], rp_WalletAddresses = [],
       rp_ScanStart = op_ScanStart so, rp_ScanEnd = op_ScanEnd so,
       rp_BaselineLookbackDays = dm_baselineLookbackDays opts, rp_RequestedByCLICommand = ''scanner daemon'',
       rp_IngestionRunID = 0 \<rparr>"

definition cycle_orchestrator ::
  "(string \<Rightarrow> string) \<Rightarrow> 'v runtime \<Rightarrow> 'v store \<Rightarrow> 'v env \<Rightarrow> Config \<Rightarrow> 'v Orchestrator" where
  "cycle_orchestrator sha rt S E runCfg =
     \<lparr> oc_cfg = runCfg, oc_runRepo = Some S, oc_walletLocks = Some S,
       oc_walletRunner = Some (RunWallet sha rt \<lparr> wr_cfg = runCfg, wr_store = Some S, wr_client = Some E \<rparr>) \<rparr>"

text \<open>The scan of the accepted wallets. \<open>workers\<close> is what the goroutines of a run do.\<close>

definition cycle_scan ::
  "(string \<Rightarrow> string) \<Rightarrow> 'w host \<Rightarrow> ('w \<times> daemonState) runtime \<Rightarrow> 'w store
     \<Rightarrow> (('w \<times> daemonState) Orchestrator \<Rightarrow> ('w \<times> daemonState) wallet_runner \<Rightarrow> RunParams \<Rightarrow> string list
          \<Rightarrow> 'w \<times> daemonState \<Rightarrow> walletOutcome list \<times> ('w \<times> daemonState))
     \<Rightarrow> 'w env \<Rightarrow> Config \<Rightarrow> daemonOptions \<Rightarrow> SourceOptions \<Rightarrow> 'w \<times> daemonState \<Rightarrow> go_error option \<times> ('w \<times> daemonState)" where
  "cycle_scan sha h rt S workers E cfg opts so w =
     (let orch = cycle_orchestrator sha rt (store_on_fst S) (limitedEnhancedClient h E) (run_config cfg opts) in
      case Run rt (ho_Read h (fst w)) orch (workers orch) (cycle_run_params opts so) w of
        (Some err, w1) \<Rightarrow> (Some (Wrapped ''scanner run: '' err []), w1)
      | (None, w1) \<Rightarrow> (None, w1))"

definition runDaemonCycle ::
  "(string \<Rightarrow> string) \<Rightarrow> (rat \<Rightarrow> int) \<Rightarrow> 'w host \<Rightarrow> 'w clients \<Rightarrow> ('w \<times> daemonState) runtime \<Rightarrow> 'w store
     \<Rightarrow> (('w \<times> daemonState) Orchestrator \<Rightarrow> ('w \<times> daemonState) wallet_runner \<Rightarrow> RunParams \<Rightarrow> string list
          \<Rightarrow> 'w \<times> daemonState \<Rightarrow> walletOutcome list \<times> ('w \<times> daemonState))
     \<Rightarrow> Config \<Rightarrow> daemonOptions \<Rightarrow> 'w \<times> daemonState \<Rightarrow> go_error option \<times> ('w \<times> daemonState)" where
  "runDaemonCycle sha wild h cl rt S workers cfg opts w =
     (case Reserve (ho_Now h (fst w)) (estimateDaemonCycleCredits opts) (ds_budget (snd w)) of
        (Some err, b) \<Rightarrow> (Some err, (fst w, (snd w)\<lparr> ds_budget := b \<rparr>))
      | (None, b) \<Rightarrow>
      let w0 = (fst w, (snd w)\<lparr> ds_budget := b \<rparr>);
          cycleDir = path_join [dm_workDir opts, format_cycle_id (ho_Now h (fst w0))]
      in case fl_MkdirAll (files_on_fst (ho_Files h)) cycleDir w0 of
        (Some err, w1) \<Rightarrow> (Some (Wrapped ''create daemon cycle dir: '' err []), w1)
      | (None, w1) \<Rightarrow>
      let scanEnd = ho_Now h (fst w1) in
      (case cl_RPC cl (cfg_HeliusAPIKey cfg) of
        Inl err \<Rightarrow> (Some (Wrapped ''helius rpc client: '' err []), w1)
      | Inr rpc \<Rightarrow>
      (case ScrapeRecentWallets wild (Some (limitedRPC h rpc)) (scrape_options opts) w1 of
        (Inl err, w2) \<Rightarrow> (Some (Wrapped ''scrape wallets: '' err []), w2)
      | (Inr scraped, w2) \<Rightarrow>
      if scraped = [] then (None, w2)
      else
      (case cl_HTTP cl (cfg_HeliusBaseURL cfg) (cfg_HeliusAPIKey cfg) of
        Inl err \<Rightarrow> (Some (Wrapped ''helius enhanced client: '' err []), w2)
      | Inr E \<Rightarrow>
      let so = source_options cfg opts scraped cycleDir scanEnd in
      (case Source sha (ho_Read h (fst w2)) (files_on_fst (ho_Files h)) (Some (limitedEnhancedClient h E)) so w2 of
        (Inl err, w3) \<Rightarrow> (Some (Wrapped ''source wallets: '' err []), w3)
      | (Inr sourced, w3) \<Rightarrow>
          if sr_Accepted sourced = [] then (None, w3)
          else cycle_scan sha h rt S workers E cfg opts so w3)))))"

section \<open>The daemon\<close>

text \<open>One turn of the loop: whether it returns. \<open>cycle\<close> is \<open>runDaemonCycle\<close> with its arguments.\<close>

definition daemon_turn ::
  "'w host \<Rightarrow> daemonOptions \<Rightarrow> ('w \<times> daemonState \<Rightarrow> go_error option \<times> ('w \<times> daemonState)) \<Rightarrow> 'w \<times> daemonState
     \<Rightarrow> bool \<times> ('w \<times> daemonState)" where
  "daemon_turn h opts cycle w =
     (case cycle w of (err, w1) \<Rightarrow>
      let next = (\<lambda>w. if dm_once opts then (True, w)
            else case sleepContext h (dm_cycleInterval opts) (fst w) of (e, w') \<Rightarrow> (e \<noteq> None, (w', snd w)))
      in case err of
           None \<Rightarrow> next w1
         | Some e \<Rightarrow>
             if is_budget_exhausted e
             then (case sleepUntilNextUTCDay h (fst w1) of
                 (Some _, w2) \<Rightarrow> (True, (w2, snd w1)) | (None, w2) \<Rightarrow> next (w2, snd w1))
             else next w1)"

definition daemon_start :: "daemonOptions \<Rightarrow> daemonState" where
  "daemon_start opts =
     \<lparr> ds_rpcLimiter = newRequestLimiter (dm_rpcRPS opts), ds_enhancedLimiter = newRequestLimiter (dm_enhancedRPS opts),
       ds_budget = newDailyCreditBudget (dm_dailyCreditBudget opts) \<rparr>"

text \<open>The first \<open>n\<close> turns.\<close>

fun daemon_loop ::
  "'w host \<Rightarrow> daemonOptions \<Rightarrow> ('w \<times> daemonState \<Rightarrow> go_error option \<times> ('w \<times> daemonState)) \<Rightarrow> nat \<Rightarrow> 'w \<times> daemonState
     \<Rightarrow> bool \<times> ('w \<times> daemonState)" where
  "daemon_loop h opts cycle 0 w = (False, w)"
| "daemon_loop h opts cycle (Suc n) w =
     (case daemon_turn h opts cycle w of
        (True, w1) \<Rightarrow> (True, w1)
      | (False, w1) \<Rightarrow> daemon_loop h opts cycle n w1)"

end
