(* ===== verification/Exports_Results.thy ===== *)
theory Exports_Results
imports Exports_Spec Daemon "HOL-Library.Sublist"
begin

text \<open>
  What holds of an exported dataset.
\<close>

section \<open>Rows in the files\<close>

lemma csv_of_table: "list_all (\<lambda>row. cells row \<noteq> []) rows \<Longrightarrow> header \<noteq> [] \<Longrightarrow>
    csv_rows (csv_text (header # map cells rows)) = Some (header # map cells rows)"
  by (rule csv_rows_text) (simp add: list_all_iff)

lemma encoded_tables:
  "csv_rows (encodeCandidateExplanationsCSV explanations) = Some (explanation_header # map explanation_fields explanations)"
  "csv_rows (encodeWalletInspectionSummaryCSV summaries) = Some (summary_header # map summary_fields summaries)"
  "csv_rows (encodeOperationalHealthWalletSyncCSV syncs) = Some (wallet_health_header # map wallet_health_fields syncs)"
  unfolding encodeCandidateExplanationsCSV_def encodeWalletInspectionSummaryCSV_def encodeOperationalHealthWalletSyncCSV_def
  by (rule csv_of_table; simp add: list_all_iff explanation_fields_def summary_fields_def wallet_health_fields_def
      explanation_header_def summary_header_def wallet_health_header_def)+


lemma json_lines: "count_list (encodeJSONL rows) (CHR 0x0A) = length rows"
proof (induction rows)
  case (Cons row rows)
  have "count_list (json_text row) (CHR 0x0A) = 0"
    using printing_no_newline [OF json_text_printing] by simp
  with Cons show ?case by (simp add: encodeJSONL_def)
qed (simp add: encodeJSONL_def)

text \<open>The rows of a file: its lines, or those of its table less the header.\<close>

definition rows_in :: "string \<Rightarrow> string \<Rightarrow> int option" where
  "rows_in name body =
     (if rev (take 6 (rev name)) = ''.jsonl'' then Some (int (count_list body (CHR 0x0A)))
      else map_option (\<lambda>rows. int (length rows) - 1) (csv_rows body))"

lemma artifact_rows:
  "a \<in> set (artifacts sq runs syncs candidates explanations summaries) \<Longrightarrow> rows_in (af_name a) (af_payload a) = Some (af_rows a)"
  by (auto simp: artifacts_def rows_in_def json_lines encoded_tables buildOperationalHealthRuns_def)

section \<open>Files and manifest\<close>

text \<open>A file system with a log of what was written.\<close>

definition written :: "'w files \<Rightarrow> ('w \<times> (string \<times> string) list) files" where
  "written fl = (files_on_fst fl)
     \<lparr> fl_WriteFile := (\<lambda>path body (w, log). case fl_WriteFile fl path body w of
          (None, w') \<Rightarrow> (None, (w', log @ [(path, body)]))
        | (Some e, w') \<Rightarrow> (Some e, (w', log))) \<rparr>"

lemma artifacts_written:
  assumes "write_artifacts (written fl) dir as w = (None, w')"
  shows "snd w' = snd w @ map (\<lambda>a. (path_join [dir, af_name a], af_payload a)) as"
  using assms
proof (induction as arbitrary: w)
  case (Cons a as)
  obtain u log where w: "w = (u, log)" by fastforce
  obtain r u' where f: "fl_WriteFile fl (path_join [dir, af_name a]) (af_payload a) u = (r, u')" by fastforce
  with Cons.prems w have "r = None" by (cases r) (simp_all add: written_def)
  with Cons.prems Cons.IH [of "(u', log @ [(path_join [dir, af_name a], af_payload a)])"] f w show ?case
    by (simp add: written_def)
qed simp

text \<open>The entry of a file in the manifest.\<close>

definition accounts_for :: "(string \<Rightarrow> string) \<Rightarrow> string \<Rightarrow> ManifestFile \<Rightarrow> string \<times> string \<Rightarrow> bool" where
  "accounts_for sha dir f file \<longleftrightarrow>
     fst file = path_join [dir, mf_Name f] \<and> mf_SHA256 f = sha (snd file) \<and>
     rows_in (mf_Name f) (snd file) = Some (mf_RowCount f)"

definition dataset_names :: "string list" where
  "dataset_names =
     [''candidate_explanations.csv'', ''candidate_explanations.jsonl'', ''ingestion_runs.jsonl'',
      ''operational_health_runs.jsonl'', ''operational_health_wallet_sync.csv'', ''poisoning_candidates.jsonl'',
      ''wallet_inspection_summary.csv'', ''wallet_sync_runs.jsonl'']"

lemma manifest_names:
  "map mf_Name (mn_Files (build_manifest sha flt runs (artifacts sq runs' syncs candidates explanations summaries))) =
     dataset_names"
  by (simp add: build_manifest_def artifacts_def manifest_file_def dataset_names_def)

lemma files_of_manifest: "set (mn_Files (build_manifest sha flt runs as)) = manifest_file sha ` set as"
  by (simp add: build_manifest_def)

lemma dataset_written:
  assumes "write_dataset sha (written fl) opts runs (artifacts sq runs' syncs candidates explanations summaries) w = (Inr m, w')"
  shows "\<exists>files. snd w' = snd w @ files @ [(path_join [xo_OutDir opts, ''report_manifest.json''], manifest_text m)] \<and>
    length files = length dataset_names \<and> map mf_Name (mn_Files m) = dataset_names \<and>
    (\<forall>f\<in>set (mn_Files m). \<exists>file\<in>set files. accounts_for sha (xo_OutDir opts) f file) \<and>
    (\<forall>file\<in>set files. \<exists>f\<in>set (mn_Files m). accounts_for sha (xo_OutDir opts) f file)"
proof -
  let ?as = "artifacts sq runs' syncs candidates explanations summaries"
  let ?files = "map (\<lambda>a. (path_join [xo_OutDir opts, af_name a], af_payload a)) ?as"
  have acc: "accounts_for sha (xo_OutDir opts) (manifest_file sha a) (path_join [xo_OutDir opts, af_name a], af_payload a)"
    if "a \<in> set ?as" for a
    using artifact_rows [OF that] by (simp add: accounts_for_def manifest_file_def)
  obtain w1 w2 where dir: "snd w1 = snd w" and files: "write_artifacts (written fl) (xo_OutDir opts) ?as w1 = (None, w2)"
    and m: "m = build_manifest sha (xo_Filter opts) runs ?as"
    and last: "fl_WriteFile (written fl) (path_join [xo_OutDir opts, ''report_manifest.json'']) (manifest_text m) w2 = (None, w')"
    using assms
    by (auto simp: write_dataset_def Let_def written_def files_on_fst_def split: prod.splits option.splits)
  have "snd w' = snd w2 @ [(path_join [xo_OutDir opts, ''report_manifest.json''], manifest_text m)]"
    using last by (auto simp: written_def split: prod.splits option.splits)
  moreover have "snd w2 = snd w @ ?files" using artifacts_written [OF files] dir by simp
  ultimately show ?thesis
    using acc by (intro exI [of _ ?files]) (auto simp: m files_of_manifest manifest_names, auto simp: artifacts_def dataset_names_def)
qed

text \<open>C32. An export that succeeds has written exactly nine files into its directory: the eight of the dataset and
  the manifest, last. The manifest lists the eight, in the order of their names, each with the SHA-256 of what was
  written and the number of rows in it: lines of a \<open>.jsonl\<close> file, rows below the header of a CSV table.\<close>

theorem dataset_accounts:
  assumes "ExportDataset sha sq (written fl) (Some (source_on_fst src)) opts (w, []) = (Inr m, (w', entries))"
  shows "\<exists>files. entries = files @ [(path_join [xo_OutDir opts, ''report_manifest.json''], manifest_text m)] \<and>
    length files = length dataset_names \<and> map mf_Name (mn_Files m) = dataset_names \<and>
    (\<forall>f\<in>set (mn_Files m). \<exists>file\<in>set files. accounts_for sha (xo_OutDir opts) f file) \<and>
    (\<forall>file\<in>set files. \<exists>f\<in>set (mn_Files m). accounts_for sha (xo_OutDir opts) f file)"
proof -
  from assms obtain runs runs' syncs candidates explanations summaries w5
    where "write_dataset sha (written fl) opts runs (artifacts sq runs' syncs candidates explanations summaries) (w5, []) = (Inr m, (w', entries))"
    by (auto simp: ExportDataset_def Let_def source_on_fst_def on_fst_def split: if_splits sum.splits prod.splits)
  from dataset_written [OF this] show ?thesis by simp
qed

section \<open>Explanations\<close>

lemma concat_at_most_one:
  "distinct xs \<Longrightarrow> (\<And>x. x \<in> set xs \<Longrightarrow> length (f x) \<le> 1) \<Longrightarrow>
     (\<And>x y. x \<in> set xs \<Longrightarrow> y \<in> set xs \<Longrightarrow> f x \<noteq> [] \<Longrightarrow> f y \<noteq> [] \<Longrightarrow> x = y) \<Longrightarrow> length (concat (map f xs)) \<le> 1"
proof (induction xs)
  case (Cons x xs)
  show ?case
  proof (cases "f x = []")
    case False
    with Cons.prems have "f y = []" if "y \<in> set xs" for y
      using that by (metis distinct.simps(2) list.set_intros)
    then have rest: "concat (map f xs) = []" by simp
    from Cons.prems(2) [of x] show ?thesis unfolding list.map concat.simps rest by simp
  qed (use Cons in auto)
qed simp

text \<open>A transfer is stored once for its signature and index, and linked to a wallet in one direction.\<close>

definition one_transfer :: "Db \<Rightarrow> bool" where
  "one_transfer db \<longleftrightarrow>
     inj_on (\<lambda>(key, txID, tr). (tr_Signature tr, tr_TransferIndex tr)) (set (db_transactions db)) \<and>
     inj_on (\<lambda>(walletID, txID, rel). (walletID, txID)) (set (db_wallet_transactions db))"

lemma one_transferD:
  assumes "one_transfer db"
  shows "(k, i, tr) \<in> set (db_transactions db) \<Longrightarrow> (k', i', tr') \<in> set (db_transactions db) \<Longrightarrow>
      tr_Signature tr = tr_Signature tr' \<Longrightarrow> tr_TransferIndex tr = tr_TransferIndex tr' \<Longrightarrow> (k, i, tr) = (k', i', tr')"
    and "(a, n, rel) \<in> set (db_wallet_transactions db) \<Longrightarrow> (a, n, rel') \<in> set (db_wallet_transactions db) \<Longrightarrow>
      (a, n, rel) = (a, n, rel')"
  using assms unfolding one_transfer_def by (elim conjE inj_onD; simp)+

lemma explaining_transfers_once:
  assumes "db_inv db" and "one_transfer db"
  shows "length (explaining_transfers db row c) \<le> 1"
proof -
  let ?links = "\<lambda>txID tr (walletID, linkedID, rel). if linkedID = txID \<and> walletID = ws_wallet_id row then [(tr, rel)] else []"
  have links: "length (concat (map (?links txID tr) (db_wallet_transactions db))) \<le> 1" for txID and tr :: NormalizedTransfer
  proof (rule concat_at_most_one)
    show "distinct (db_wallet_transactions db)" using assms(1) by (simp add: db_inv_def)
  next
    fix x y assume x: "x \<in> set (db_wallet_transactions db)" "?links txID tr x \<noteq> []"
      and y: "y \<in> set (db_wallet_transactions db)" "?links txID tr y \<noteq> []"
    obtain a n rel a' n' rel' where xy: "x = (a, n, rel)" "y = (a', n', rel')" by (metis prod.exhaust)
    with x y have "a = a'" "n = n'" by (simp_all split: if_split_asm)
    with x y xy show "x = y" using one_transferD(2) [OF assms(2)] by blast
  qed (simp split: prod.split)
  let ?f = "\<lambda>(key, txID, tr). if tr_Signature tr = cd_Signature (pr_record c) \<and> tr_TransferIndex tr = cd_TransferIndex (pr_record c)
      then concat (map (?links txID tr) (db_wallet_transactions db)) else []"
  have "length (concat (map ?f (db_transactions db))) \<le> 1"
  proof (rule concat_at_most_one)
    show "distinct (db_transactions db)"
      using assms(1) unfolding db_inv_def ids_ok_def map_keys_def by (meson distinct_map)
  next
    fix x y assume x: "x \<in> set (db_transactions db)" "?f x \<noteq> []" and y: "y \<in> set (db_transactions db)" "?f y \<noteq> []"
    obtain k i tr k' i' tr' where xy: "x = (k, i, tr)" "y = (k', i', tr')" by (metis prod.exhaust)
    with x y have "tr_Signature tr = tr_Signature tr'" "tr_TransferIndex tr = tr_TransferIndex tr'"
      by (simp_all split: if_split_asm)
    with x y xy show "x = y" using one_transferD(1) [OF assms(2)] by blast
  qed (use links in \<open>simp split: prod.split del: length_concat\<close>)
  then show ?thesis unfolding explaining_transfers_def .
qed

lemma subseq_concat:
  "(\<And>x. x \<in> set xs \<Longrightarrow> length (f x) \<le> 1) \<Longrightarrow> (\<And>x y. x \<in> set xs \<Longrightarrow> y \<in> set (f x) \<Longrightarrow> y = g x) \<Longrightarrow>
     subseq (concat (map f xs)) (map g xs)"
proof (induction xs)
  case (Cons x xs)
  then have rest: "subseq (concat (map f xs)) (map g xs)" by simp
  from Cons.prems have "length (f x) \<le> 1" "\<And>y. y \<in> set (f x) \<Longrightarrow> y = g x" by auto
  then have "f x = [] \<or> f x = [g x]" by (cases "f x") auto
  with rest show ?case by auto
qed simp

text \<open>C38. Where every transfer is stored once for its signature and index and linked to a wallet in one direction
  only, the exported explanations are, in order, those of some of the exported candidates: none is explained twice,
  nothing else is explained.\<close>

theorem explained_once:
  assumes "db_inv db" and "one_transfer db"
  shows "subseq (map explanation_key (explanation_results clauses db)) (map candidate_key (candidate_results clauses db))"
proof -
  let ?f = "\<lambda>(i, row, address, c). map (\<lambda>(tr, rel). explanation_key (explanation_record i row address c tr rel)) (explaining_transfers db row c)"
  have "map explanation_key (explanation_results clauses db) = concat (map ?f (selected_candidates clauses db))"
    by (simp add: explanation_results_def map_concat o_def split_def)
  moreover have "map candidate_key (candidate_results clauses db) =
      map (\<lambda>(i, row, address, c). candidate_key (candidate_export_record i row address c)) (selected_candidates clauses db)"
    by (simp add: candidate_results_def split_def)
  moreover have "subseq (concat (map ?f (selected_candidates clauses db)))
      (map (\<lambda>(i, row, address, c). candidate_key (candidate_export_record i row address c)) (selected_candidates clauses db))"
    using explaining_transfers_once [OF assms]
    by (intro subseq_concat)
      (auto simp: explanation_key_def candidate_key_def explanation_record_def candidate_export_record_def)
  ultimately show ?thesis by simp
qed

text \<open>C37. The dataset does not depend on the collation of the database: two exports of the same rows under two
  collations write the same files and return the same manifest, provided no two candidates and no two explanations
  have the same wallet, time, signature and index. Every query sorts by the database's collation; the export sorts
  again, in the order of bytes.\<close>

theorem export_reproducible:
  assumes "db_inv (pg_db (fst w))" and "unambiguous (xo_Filter opts) (pg_db (fst w))"
  shows "ExportDataset sha sq fl (Some (source_on_fst (pg_source (collated sq less1)))) opts w =
    ExportDataset sha sq fl (Some (source_on_fst (pg_source (collated sq less2)))) opts w"
  using assms by (intro collations.same_dataset) (simp_all add: reproducible_def)

section \<open>Witnesses\<close>

text \<open>A store with one wallet, its run and a candidate whose transfer was stored and linked.\<close>

definition sample_window :: WalletSyncWindow where
  "sample_window = \<lparr> win_BaselineStart = 0, win_BaselineEnd = 0, win_ScanStart = 0, win_ScanEnd = 10 \<rparr>"

definition sample_candidate :: CandidateRecord where
  "sample_candidate = \<lparr> cd_Signature = ''sig'', cd_TransferIndex = 0, cd_SuspiciousCounterparty = ''s'',
     cd_MatchedLegitCounterparty = ''l'', cd_TokenMint = [], cd_AmountRaw = ''0'', cd_BlockTime = 7, cd_IsZeroValue = True,
     cd_IsDust = False, cd_IsNewCounterparty = True, cd_IsInbound = True, cd_LegitLastSeenAt = 3, cd_RecencyDays = 0,
     cd_RepeatInjectionCount = 1, cd_IncompleteWindow = False, cd_UnknownGateReason = [], cd_MatchRuleVersion = ''v1'' \<rparr>"

definition sample_scanned :: Pg where
  "sample_scanned =
     snd (InsertPoisoningCandidates 3 1 [sample_candidate]
       (snd (LinkWalletTransfer 1 RelationReceiver (sample_transfer ''0'' 7 DustFalse)
         (snd (UpsertNormalizedTransfers [sample_transfer ''0'' 7 DustFalse]
           (snd (CreateWalletSyncRun 2 1 sample_window 5 (snd (CreateIngestionRun 5 (snd (EnsureWallet ''d'' sample_pg)))))))))))"

lemma sample_scanned_inv: "db_inv (pg_db sample_scanned)"
  unfolding sample_scanned_def by (intro store_inv) (simp add: sample_pg_def empty_db_inv)

text \<open>The provider reports the transfer once more, with another amount, and the wallet is linked to that one too.\<close>

definition restated_transfer :: NormalizedTransfer where
  "restated_transfer = (sample_transfer ''1'' 7 DustFalse) \<lparr> tr_TransferFingerprint := ''fp2'' \<rparr>"

definition sample_rescanned :: Pg where
  "sample_rescanned =
     snd (LinkWalletTransfer 1 RelationReceiver restated_transfer
       (snd (UpsertNormalizedTransfers [restated_transfer] sample_scanned)))"

definition sample_filter :: ExportFilter where
  "sample_filter = \<lparr> ef_RunID = Some 2, ef_StartedAtFrom = None, ef_StartedAtTo = None \<rparr>"

definition sample_export :: ExportOptions where
  "sample_export = \<lparr> xo_OutDir = ''out'', xo_Filter = sample_filter \<rparr>"

definition sample_sql :: sql_text where
  "sample_sql = \<lparr> sq_less = (<), sq_numeric = (\<lambda>r. ''0''), sq_time = format_rfc3339_nano \<rparr>"

definition quiet_files :: "'w files" where
  "quiet_files = \<lparr> fl_MkdirAll = (\<lambda>path w. (None, w)), fl_WriteFile = (\<lambda>path body w. (None, w)) \<rparr>"

text \<open>A stored transfer that was restated explains its candidate twice.\<close>

lemma restated_explained_twice:
  "db_inv (pg_db sample_rescanned) \<and>
   map candidate_key (candidate_results [RunIdIs 2] (pg_db sample_rescanned)) = [(''d'', 7, ''sig'', 0)] \<and>
   map explanation_key (explanation_results [RunIdIs 2] (pg_db sample_rescanned)) = [(''d'', 7, ''sig'', 0), (''d'', 7, ''sig'', 0)]"
proof (intro conjI)
  show "db_inv (pg_db sample_rescanned)"
    unfolding sample_rescanned_def by (intro store_inv sample_scanned_inv)
  show "map candidate_key (candidate_results [RunIdIs 2] (pg_db sample_rescanned)) = [(''d'', 7, ''sig'', 0)]" by code_simp
  show "map explanation_key (explanation_results [RunIdIs 2] (pg_db sample_rescanned)) = [(''d'', 7, ''sig'', 0), (''d'', 7, ''sig'', 0)]"
    by code_simp
qed

theorem explained_once_witness:
  "subseq (map explanation_key (explanation_results [RunIdIs 2] (pg_db sample_scanned)))
     (map candidate_key (candidate_results [RunIdIs 2] (pg_db sample_scanned)))"
proof (rule explained_once [OF sample_scanned_inv])
  have "db_wallet_transactions (pg_db sample_scanned) = [(1, 4, RelationReceiver)]" by code_simp
  moreover have "db_transactions (pg_db sample_scanned) = [((''sig'', ''fp''), (4, sample_transfer ''0'' 7 DustFalse))]" by code_simp
  ultimately show "one_transfer (pg_db sample_scanned)" by (simp add: one_transfer_def)
qed

lemma sample_unambiguous: "unambiguous sample_filter (pg_db sample_scanned)"
  by code_simp

theorem export_reproducible_witness:
  "ExportDataset id sample_sql quiet_files (Some (source_on_fst (pg_source (collated sample_sql (<))))) sample_export (sample_scanned, ()) =
   ExportDataset id sample_sql quiet_files (Some (source_on_fst (pg_source (collated sample_sql (\<lambda>a b. b < a))))) sample_export (sample_scanned, ())"
  by (rule export_reproducible) (simp_all add: sample_scanned_inv sample_unambiguous sample_export_def)

text \<open>A source that has the rows of that store.\<close>

definition sample_source :: "unit DatasetSource" where
  "sample_source =
     (let db = pg_db sample_scanned; clauses = [RunIdIs 2] in
      \<lparr> ds_ListIngestionRuns = (\<lambda>flt w. (Inr (ingestion_rows sample_sql clauses db), w)),
        ds_ListWalletSyncRuns = (\<lambda>flt w. (Inr (wallet_sync_rows sample_sql clauses db), w)),
        ds_ListPoisoningCandidates = (\<lambda>flt w. (Inr (candidate_rows sample_sql clauses db), w)),
        ds_ListCandidateExplanations = (\<lambda>flt w. (Inr (explanation_rows sample_sql clauses db), w)),
        ds_ListWalletInspectionSummary = (\<lambda>flt w. (Inr (summary_rows sample_sql clauses db), w)) \<rparr>)"

lemma quiet_artifacts: "fst (write_artifacts (written quiet_files) dir as w) = None"
  by (induction as arbitrary: w) (auto simp: written_def quiet_files_def split: prod.split)

lemma quiet_dataset: "\<exists>m w'. write_dataset sha (written quiet_files) opts runs as w = (Inr m, w')"
  using quiet_artifacts [of "xo_OutDir opts" as w]
  by (cases w; cases "write_artifacts (written quiet_files) (xo_OutDir opts) as w")
    (auto simp: write_dataset_def Let_def written_def quiet_files_def files_on_fst_def)

theorem dataset_accounts_witness:
  "\<exists>m w entries. ExportDataset id sample_sql (written quiet_files) (Some (source_on_fst sample_source)) sample_export ((), []) =
     (Inr m, (w, entries)) \<and> map mf_Name (mn_Files m) = dataset_names \<and> length entries = 9"
proof -
  let ?r = "ExportDataset id sample_sql (written quiet_files) (Some (source_on_fst sample_source)) sample_export ((), [])"
  have "trim_space (xo_OutDir sample_export) \<noteq> []" by code_simp
  then have "\<exists>runs as w. ?r = write_dataset id (written quiet_files) sample_export runs as w"
    by (auto simp: ExportDataset_def Let_def source_on_fst_def on_fst_def sample_source_def sample_export_def sample_filter_def)
  then obtain m w entries where r: "?r = (Inr m, (w, entries))"
    using quiet_dataset by (metis prod.exhaust)
  from dataset_accounts [OF r] have "map mf_Name (mn_Files m) = dataset_names \<and> length entries = 9"
    by (auto simp: dataset_names_def)
  with r show ?thesis by blast
qed

end
