(* ===== verification/Redaction.thy ===== *)
theory Redaction
imports Go_Prelude
begin

text \<open>
  \<open>redactSensitiveValues\<close> of \<open>internal/helius/client.go\<close> and as much of \<open>regexp\<close> as its five patterns use: matching
  by the first alternative at the leftmost place, without regard to case, and replacing every match.
\<close>

section \<open>Regular expressions\<close>

text \<open>A set of characters is the number of bytes of the character at the start of a text, 0 if it is not in the set.\<close>

type_synonym rx_set = "string \<Rightarrow> nat"

datatype rx =
    RxSet rx_set
  | RxPlus rx_set
  | RxStar rx_set
  | RxSeq rx rx
  | RxAlt rx rx
  | RxOpt rx
  | RxGroup rx
  | RxBoundary

text \<open>Where a match stands: the byte before, the text that is left, and the text of the group.\<close>

record rx_state =
  rs_prev :: "char option"
  rs_rest :: string
  rs_group :: string

definition ascii_word :: "char \<Rightarrow> bool" where
  "ascii_word c \<longleftrightarrow> (CHR ''0'' \<le> c \<and> c \<le> CHR ''9'') \<or> (CHR ''A'' \<le> c \<and> c \<le> CHR ''Z'') \<or> (CHR ''a'' \<le> c \<and> c \<le> CHR ''z'') \<or> c = CHR ''_''"

definition at_boundary :: "rx_state \<Rightarrow> bool" where
  "at_boundary st \<longleftrightarrow>
     (case rs_prev st of None \<Rightarrow> False | Some c \<Rightarrow> ascii_word c) \<noteq> (case rs_rest st of [] \<Rightarrow> False | c # _ \<Rightarrow> ascii_word c)"

definition rx_advance :: "nat \<Rightarrow> rx_state \<Rightarrow> rx_state" where
  "rx_advance n st =
     (if n = 0 then st else st\<lparr> rs_prev := Some (last (take n (rs_rest st))), rs_rest := drop n (rs_rest st) \<rparr>)"

text \<open>How far the characters of a set go, all the ways, the longest first.\<close>

fun rx_run :: "nat \<Rightarrow> rx_set \<Rightarrow> string \<Rightarrow> nat list" where
  "rx_run 0 p s = []"
| "rx_run (Suc fuel) p s = (if p s = 0 then [] else map (\<lambda>n. p s + n) (rx_run fuel p (drop (p s) s)) @ [p s])"

text \<open>The ways to match, the preferred one first.\<close>

fun rx_match :: "rx \<Rightarrow> rx_state \<Rightarrow> rx_state list" where
  "rx_match (RxSet p) st = (if p (rs_rest st) = 0 then [] else [rx_advance (p (rs_rest st)) st])"
| "rx_match (RxPlus p) st = map (\<lambda>n. rx_advance n st) (rx_run (length (rs_rest st)) p (rs_rest st))"
| "rx_match (RxStar p) st = map (\<lambda>n. rx_advance n st) (rx_run (length (rs_rest st)) p (rs_rest st)) @ [st]"
| "rx_match (RxSeq r q) st = concat (map (rx_match q) (rx_match r st))"
| "rx_match (RxAlt r q) st = rx_match r st @ rx_match q st"
| "rx_match (RxOpt r) st = rx_match r st @ [st]"
| "rx_match (RxGroup r) st =
     map (\<lambda>st'. st'\<lparr> rs_group := take (length (rs_rest st) - length (rs_rest st')) (rs_rest st) \<rparr>) (rx_match r st)"
| "rx_match RxBoundary st = (if at_boundary st then [st] else [])"

definition rx_at :: "rx \<Rightarrow> char option \<Rightarrow> string \<Rightarrow> (nat \<times> string) option" where
  "rx_at r prev s =
     (case rx_match r \<lparr> rs_prev = prev, rs_rest = s, rs_group = [] \<rparr> of
        [] \<Rightarrow> None
      | st # _ \<Rightarrow> Some (length s - length (rs_rest st), rs_group st))"

text \<open>\<open>ReplaceAllStringFunc\<close>, the function given the match and its group; no pattern here matches the empty text.\<close>

fun rx_replace :: "rx \<Rightarrow> (string \<Rightarrow> string \<Rightarrow> string) \<Rightarrow> char option \<Rightarrow> string \<Rightarrow> string" where
  "rx_replace r f prev [] = []"
| "rx_replace r f prev (c # s) =
     (case rx_at r prev (c # s) of
        None \<Rightarrow> c # rx_replace r f (Some c) s
      | Some (n, g) \<Rightarrow> f (take n (c # s)) g @ rx_replace r f (Some (last (c # take (n - 1) s))) (drop (n - 1) s))"

section \<open>Sets\<close>

text \<open>A letter in either case, with the two characters beyond ASCII that fold to one (U+212A to \<open>k\<close>, U+017F to \<open>s\<close>).\<close>

definition folds_to :: "char \<Rightarrow> char \<Rightarrow> bool" where
  "folds_to a c \<longleftrightarrow> a = c \<or> (CHR ''a'' \<le> c \<and> c \<le> CHR ''z'' \<and> of_char a + 32 = (of_char c :: nat))"

definition rx_letter :: "char \<Rightarrow> rx_set" where
  "rx_letter c s =
     (case s of [] \<Rightarrow> 0
      | a # t \<Rightarrow>
          if folds_to a c then 1
          else if c = CHR ''k'' \<and> take 3 s = [CHR 0xE2, CHR 0x84, CHR 0xAA] then 3
          else if c = CHR ''s'' \<and> take 2 s = [CHR 0xC5, CHR 0xBF] then 2
          else 0)"

definition rx_ascii :: "(char \<Rightarrow> bool) \<Rightarrow> rx_set" where
  "rx_ascii p s = (case s of [] \<Rightarrow> 0 | a # t \<Rightarrow> if p a then 1 else 0)"

definition regexp_space :: "char \<Rightarrow> bool" where
  "regexp_space c \<longleftrightarrow> c = CHR 0x09 \<or> c = CHR 0x0A \<or> c = CHR 0x0C \<or> c = CHR 0x0D \<or> c = CHR '' ''"

text \<open>\<open>[A-Za-z0-9._~+/\-=]\<close> without regard to case.\<close>

definition rx_token68 :: rx_set where
  "rx_token68 s =
     (case s of [] \<Rightarrow> 0
      | a # t \<Rightarrow>
          if ascii_word a \<or> a \<in> set ''.~+/-=''
          then 1 else max (rx_letter CHR ''k'' s) (rx_letter CHR ''s'' s))"

fun rx_word :: "string \<Rightarrow> rx" where
  "rx_word [] = RxStar (\<lambda>s. 0)"
| "rx_word [c] = RxSet (rx_letter c)"
| "rx_word (c # d # s) = RxSeq (RxSet (rx_letter c)) (rx_word (d # s))"

abbreviation rx_spaces :: rx where
  "rx_spaces \<equiv> RxStar (rx_ascii regexp_space)"

section \<open>The patterns\<close>

definition rx_seqs :: "rx list \<Rightarrow> rx" where
  "rx_seqs rs = foldr RxSeq (butlast rs) (last rs)"

definition rx_alts :: "rx list \<Rightarrow> rx" where
  "rx_alts rs = foldr RxAlt (butlast rs) (last rs)"

definition rx_dash :: rx where
  "rx_dash = RxOpt (RxSet (rx_ascii (\<lambda>c. c = CHR ''-'' \<or> c = CHR ''_'')))"

definition rx_char :: "char \<Rightarrow> rx" where
  "rx_char c = RxSet (rx_ascii (\<lambda>a. a = c))"

text \<open>\<open>api[-_]?key|apikey|token|access[-_]?token|authorization|auth|secret|password\<close>.\<close>

definition sensitive_names :: rx where
  "sensitive_names = rx_alts
     [RxSeq (rx_word ''api'') (RxSeq rx_dash (rx_word ''key'')), rx_word ''apikey'', rx_word ''token'',
      RxSeq (rx_word ''access'') (RxSeq rx_dash (rx_word ''token'')), rx_word ''authorization'', rx_word ''auth'',
      rx_word ''secret'', rx_word ''password'']"

definition sensitiveQueryPairPattern :: rx where
  "sensitiveQueryPairPattern = rx_seqs
     [RxBoundary, RxGroup sensitive_names, rx_char CHR ''='',
      RxPlus (rx_ascii (\<lambda>c. c \<noteq> CHR ''&'' \<and> \<not> regexp_space c \<and> c \<noteq> CHR 0x22))]"

definition authorizationHeaderRegex :: rx where
  "authorizationHeaderRegex = rx_seqs
     [RxBoundary, rx_word ''authorization'', rx_spaces, rx_char CHR '':'', rx_spaces,
      RxOpt (RxAlt (RxSeq (rx_word ''bearer'') (RxPlus (rx_ascii regexp_space)))
                   (RxSeq (rx_word ''basic'') (RxPlus (rx_ascii regexp_space)))),
      RxPlus rx_token68]"

definition sensitiveHeaderPattern :: rx where
  "sensitiveHeaderPattern = rx_seqs
     [RxBoundary, RxGroup (rx_alts [rx_word ''x-api-key'', rx_word ''api-key'', rx_word ''x-auth-token'']), rx_spaces,
      rx_char CHR '':'', rx_spaces, RxPlus (rx_ascii (\<lambda>c. \<not> regexp_space c \<and> c \<noteq> CHR '','' \<and> c \<noteq> CHR '';''))]"

definition sensitiveJSONPattern :: rx where
  "sensitiveJSONPattern = rx_seqs
     [rx_char CHR 0x22, RxGroup sensitive_names, rx_char CHR 0x22, rx_spaces, rx_char CHR '':'', rx_spaces,
      rx_char CHR 0x22, RxStar (rx_ascii (\<lambda>c. c \<noteq> CHR 0x22)), rx_char CHR 0x22]"

definition bearerTokenPattern :: rx where
  "bearerTokenPattern = rx_seqs [RxBoundary, RxGroup (rx_word ''bearer''), RxPlus (rx_ascii regexp_space), RxPlus rx_token68]"

text \<open>A header is kept up to its colon.\<close>

definition header_redacted :: "string \<Rightarrow> string" where
  "header_redacted s =
     (if CHR '':'' \<notin> set s then ''REDACTED'' else takeWhile (\<lambda>c. c \<noteq> CHR '':'') s @ '': REDACTED'')"

definition redactSensitiveValues :: "string \<Rightarrow> string" where
  "redactSensitiveValues text0 =
     (if text0 = [] then []
      else let
        redacted = rx_replace sensitiveQueryPairPattern (\<lambda>m g. g @ ''=REDACTED'') None text0;
        redacted = rx_replace authorizationHeaderRegex (\<lambda>m g. ''authorization: REDACTED'') None redacted;
        redacted = rx_replace sensitiveHeaderPattern (\<lambda>m g. header_redacted m) None redacted;
        redacted = rx_replace sensitiveJSONPattern
          (\<lambda>m g. CHR 0x22 # g @ [CHR 0x22, CHR '':'', CHR 0x22] @ ''REDACTED'' @ [CHR 0x22]) None redacted
      in rx_replace bearerTokenPattern (\<lambda>m g. g @ '' REDACTED'') None redacted)"

section \<open>What the patterns do\<close>

lemma redact_samples:
  "redactSensitiveValues ''Get https://h/v0?api-key=K1&limit=100: eof'' = ''Get https://h/v0?api-key=REDACTED&limit=100: eof''"
  "redactSensitiveValues ''Authorization: Bearer abc.def, x'' = ''authorization: REDACTED, x''"
  "redactSensitiveValues ''X-API-Key : k9;'' = ''X-API-Key : REDACTED;''"
  "redactSensitiveValues ''a bearer  t0k'' = ''a bearer REDACTED''"
  by code_simp+

section \<open>The key of a URL\<close>

lemma rx_ascii_simps [simp]: "rx_ascii p [] = 0" "rx_ascii p (a # t) = (if p a then 1 else 0)"
  by (simp_all add: rx_ascii_def)

lemma rx_run_upto:
  assumes "list_all p k" and "post = [] \<or> \<not> p (hd post)" and "length k \<le> fuel"
  shows "rx_run fuel (rx_ascii p) (k @ post) = rev [1..<Suc (length k)]"
  using assms
proof (induction fuel arbitrary: k)
  case (Suc fuel)
  show ?case
  proof (cases k)
    case Nil
    with Suc.prems show ?thesis by (cases post) simp_all
  next
    case (Cons c cs)
    with Suc have "rx_run fuel (rx_ascii p) (cs @ post) = rev [1..<Suc (length cs)]" by simp
    moreover have "rev [1..<Suc (Suc n)] = map Suc (rev [1..<Suc n]) @ [1]" for n
      by (simp add: rev_map [symmetric] map_Suc_upt upt_conv_Cons del: upt_Suc)
    ultimately show ?thesis using Suc.prems Cons by (simp add: plus_1_eq_Suc del: upt_Suc)
  qed
qed auto

definition key_char :: "char \<Rightarrow> bool" where
  "key_char c \<longleftrightarrow> c \<noteq> CHR ''&'' \<and> \<not> regexp_space c \<and> c \<noteq> CHR 0x22"

lemma query_pattern:
  "sensitiveQueryPairPattern =
     RxSeq RxBoundary (RxSeq (RxGroup sensitive_names) (RxSeq (RxSet (rx_ascii (\<lambda>a. a = CHR ''=''))) (RxPlus (rx_ascii key_char))))"
proof -
  have "key_char = (\<lambda>c. c \<noteq> CHR ''&'' \<and> \<not> regexp_space c \<and> c \<noteq> CHR 0x22)" by (simp add: fun_eq_iff key_char_def)
  then show ?thesis by (simp add: sensitiveQueryPairPattern_def rx_seqs_def rx_char_def)
qed

lemma pair_at_key:
  assumes "list_all key_char k" and "k \<noteq> []" and "post = [] \<or> \<not> key_char (hd post)"
    and "case prev of None \<Rightarrow> True | Some c \<Rightarrow> \<not> ascii_word c"
  shows "rx_at sensitiveQueryPairPattern prev (''api-key='' @ k @ post) = Some (8 + length k, ''api-key'')"
proof -
  have run: "rx_run (length k + length post) (rx_ascii key_char) (k @ post) = length k # rev [1..<length k]"
    using rx_run_upto [of key_char k post "length k + length post"] assms(1,2,3) by (cases k) simp_all
  have names: "rx_match sensitive_names \<lparr> rs_prev = prev, rs_rest = ''api-key='' @ s, rs_group = [] \<rparr> =
      [\<lparr> rs_prev = Some CHR ''y'', rs_rest = CHR ''='' # s, rs_group = [] \<rparr>]" for s
    by (simp add: sensitive_names_def rx_alts_def rx_letter_def folds_to_def rx_advance_def rx_dash_def)
  have bound: "at_boundary \<lparr> rs_prev = prev, rs_rest = ''api-key='' @ s, rs_group = [] \<rparr>" for s
    using assms(4) by (auto simp: at_boundary_def ascii_word_def split: option.splits)
  show ?thesis
    using assms(2) by (simp add: rx_at_def query_pattern bound [simplified] names [simplified] rx_advance_def run)
qed

text \<open>What the names match: the letters of a name in either case.\<close>

definition letter_text :: "char \<Rightarrow> string \<Rightarrow> bool" where
  "letter_text c u \<longleftrightarrow>
     (\<exists>a. u = [a] \<and> folds_to a c) \<or> (c = CHR ''k'' \<and> u = [CHR 0xE2, CHR 0x84, CHR 0xAA]) \<or> (c = CHR ''s'' \<and> u = [CHR 0xC5, CHR 0xBF])"

lemma rx_letter_text:
  assumes "rx_letter c s \<noteq> 0"
  shows "letter_text c (take (rx_letter c s) s)"
  using assms by (auto simp: rx_letter_def letter_text_def take_Cons' split: list.splits if_splits)

lemma advance_rest: "rs_rest (rx_advance n st) = drop n (rs_rest st)"
  by (simp add: rx_advance_def)

lemma rx_word_text:
  "st' \<in> set (rx_match (rx_word w) st) \<Longrightarrow> \<exists>us. rs_rest st = concat us @ rs_rest st' \<and> list_all2 letter_text w us"
proof (induction w arbitrary: st rule: rx_word.induct)
  case 1
  then show ?case by (cases "length (rs_rest st)") (auto intro: exI [of _ "[]"])
next
  case (2 c)
  then have "rs_rest st = concat [take (rx_letter c (rs_rest st)) (rs_rest st)] @ rs_rest st'"
    and "list_all2 letter_text [c] [take (rx_letter c (rs_rest st)) (rs_rest st)]"
    by (auto simp: advance_rest rx_letter_text split: if_splits)
  then show ?case by blast
next
  case (3 c d w)
  let ?u = "take (rx_letter c (rs_rest st)) (rs_rest st)"
  from 3(2) have u: "letter_text c ?u" and "st' \<in> set (rx_match (rx_word (d # w)) (rx_advance (rx_letter c (rs_rest st)) st))"
    by (auto simp: rx_letter_text split: if_splits)
  from 3(1) [OF this(2)] obtain us where "drop (rx_letter c (rs_rest st)) (rs_rest st) = concat us @ rs_rest st'"
    and "list_all2 letter_text (d # w) us" by (auto simp: advance_rest)
  then have "rs_rest st = concat (?u # us) @ rs_rest st' \<and> list_all2 letter_text (c # d # w) (?u # us)"
    using u append_take_drop_id [of "rx_letter c (rs_rest st)" "rs_rest st"] by simp
  then show ?case by blast
qed

lemma rx_dash_text:
  "st' \<in> set (rx_match rx_dash st) \<Longrightarrow> \<exists>d. rs_rest st = d @ rs_rest st' \<and> d \<in> {[], ''-'', ''_''}"
  by (cases "rs_rest st") (auto simp: rx_dash_def advance_rest split: if_splits)

definition name_text :: "string \<Rightarrow> bool" where
  "name_text u \<longleftrightarrow>
     (\<exists>w us. w \<in> {''apikey'', ''token'', ''authorization'', ''auth'', ''secret'', ''password''} \<and> u = concat us \<and> list_all2 letter_text w us) \<or>
     (\<exists>v w us d vs. (v, w) \<in> {(''api'', ''key''), (''access'', ''token'')} \<and> u = concat us @ d @ concat vs \<and>
        list_all2 letter_text v us \<and> d \<in> {[], ''-'', ''_''} \<and> list_all2 letter_text w vs)"

lemma name_text_cases:
  assumes "name_text u"
  obtains (plain) w us where "w \<in> {''apikey'', ''token'', ''authorization'', ''auth'', ''secret'', ''password''}"
      "u = concat us" "list_all2 letter_text w us"
    | (dashed) v w us d vs where "(v, w) \<in> {(''api'', ''key''), (''access'', ''token'')}" "u = concat us @ d @ concat vs"
      "list_all2 letter_text v us" "d \<in> {[], ''-'', ''_''}" "list_all2 letter_text w vs"
  using assms unfolding name_text_def
  by (elim disjE exE conjE) ((rule plain, assumption+) | (rule dashed, assumption+))+

lemma dashed_text:
  assumes "st' \<in> set (rx_match (RxSeq (rx_word v) (RxSeq rx_dash (rx_word w))) st)"
  shows "\<exists>us d vs. rs_rest st = (concat us @ d @ concat vs) @ rs_rest st' \<and> list_all2 letter_text v us \<and> d \<in> {[], ''-'', ''_''} \<and>
    list_all2 letter_text w vs"
proof -
  from assms obtain s1 s2 where "s1 \<in> set (rx_match (rx_word v) st)" "s2 \<in> set (rx_match rx_dash s1)" "st' \<in> set (rx_match (rx_word w) s2)"
    by auto
  then obtain us d vs where "rs_rest st = concat us @ rs_rest s1" "list_all2 letter_text v us"
    "rs_rest s1 = d @ rs_rest s2" "d \<in> {[], ''-'', ''_''}" "rs_rest s2 = concat vs @ rs_rest st'" "list_all2 letter_text w vs"
    using rx_word_text rx_dash_text by metis
  then show ?thesis by auto
qed

lemma names_alternatives:
  "sensitive_names = RxAlt (RxSeq (rx_word ''api'') (RxSeq rx_dash (rx_word ''key''))) (RxAlt (rx_word ''apikey'') (RxAlt (rx_word ''token'')
     (RxAlt (RxSeq (rx_word ''access'') (RxSeq rx_dash (rx_word ''token''))) (RxAlt (rx_word ''authorization'')
        (RxAlt (rx_word ''auth'') (RxAlt (rx_word ''secret'') (rx_word ''password'')))))))"
  by (simp only: sensitive_names_def rx_alts_def butlast.simps last.simps foldr.simps list.distinct if_True if_False refl
      id_apply comp_apply simp_thms)

lemma rx_alt_set: "set (rx_match (RxAlt r q) st) = set (rx_match r st) \<union> set (rx_match q st)"
  by simp

lemma word_name:
  "st' \<in> set (rx_match (rx_word w) st) \<Longrightarrow> w \<in> {''apikey'', ''token'', ''authorization'', ''auth'', ''secret'', ''password''} \<Longrightarrow>
     \<exists>u. rs_rest st = u @ rs_rest st' \<and> name_text u"
proof -
  assume m: "st' \<in> set (rx_match (rx_word w) st)"
    and w: "w \<in> {''apikey'', ''token'', ''authorization'', ''auth'', ''secret'', ''password''}"
  from rx_word_text [OF m] obtain us where u: "rs_rest st = concat us @ rs_rest st'" and us: "list_all2 letter_text w us" by auto
  have "name_text (concat us)"
    unfolding name_text_def by (rule disjI1) (intro exI conjI, fact w, rule refl, fact us)
  with u show ?thesis by auto
qed

lemma dashed_name:
  "st' \<in> set (rx_match (RxSeq (rx_word v) (RxSeq rx_dash (rx_word w))) st) \<Longrightarrow> (v, w) \<in> {(''api'', ''key''), (''access'', ''token'')} \<Longrightarrow>
     \<exists>u. rs_rest st = u @ rs_rest st' \<and> name_text u"
proof -
  assume m: "st' \<in> set (rx_match (RxSeq (rx_word v) (RxSeq rx_dash (rx_word w))) st)"
    and vw: "(v, w) \<in> {(''api'', ''key''), (''access'', ''token'')}"
  from dashed_text [OF m] obtain us d vs where u: "rs_rest st = (concat us @ d @ concat vs) @ rs_rest st'"
    and parts: "list_all2 letter_text v us" "d \<in> {[], ''-'', ''_''}" "list_all2 letter_text w vs" by auto
  have "name_text (concat us @ d @ concat vs)"
    unfolding name_text_def by (rule disjI2) (intro exI conjI, fact vw, rule refl, (fact parts)+)
  with u show ?thesis by auto
qed

lemma names_text:
  assumes "st' \<in> set (rx_match sensitive_names st)"
  shows "\<exists>u. rs_rest st = u @ rs_rest st' \<and> name_text u"
proof -
  let ?m = "\<lambda>r. st' \<in> set (rx_match r st)"
  from assms have "?m (RxSeq (rx_word ''api'') (RxSeq rx_dash (rx_word ''key''))) \<or> ?m (rx_word ''apikey'') \<or> ?m (rx_word ''token'') \<or>
      ?m (RxSeq (rx_word ''access'') (RxSeq rx_dash (rx_word ''token''))) \<or> ?m (rx_word ''authorization'') \<or>
      ?m (rx_word ''auth'') \<or> ?m (rx_word ''secret'') \<or> ?m (rx_word ''password'')"
    by (simp only: names_alternatives rx_alt_set Un_iff)
  then show ?thesis
  proof (elim disjE)
    assume "?m (RxSeq (rx_word ''api'') (RxSeq rx_dash (rx_word ''key'')))" then show ?thesis by (rule dashed_name) simp
  next
    assume "?m (RxSeq (rx_word ''access'') (RxSeq rx_dash (rx_word ''token'')))" then show ?thesis by (rule dashed_name) simp
  next
    assume "?m (rx_word ''apikey'')" then show ?thesis by (rule word_name) simp
  next
    assume "?m (rx_word ''token'')" then show ?thesis by (rule word_name) simp
  next
    assume "?m (rx_word ''authorization'')" then show ?thesis by (rule word_name) simp
  next
    assume "?m (rx_word ''auth'')" then show ?thesis by (rule word_name) simp
  next
    assume "?m (rx_word ''secret'')" then show ?thesis by (rule word_name) simp
  next
    assume "?m (rx_word ''password'')" then show ?thesis by (rule word_name) simp
  qed
qed

text \<open>A name is free of \<open>=\<close>, and one that ends in \<open>api-key\<close> is just that.\<close>

lemma letter_text_no: "list_all2 letter_text w us \<Longrightarrow> CHR ''='' \<notin> set w \<Longrightarrow> CHR ''='' \<notin> set (concat us)"
proof (induction rule: list_all2_induct)
  case (Cons c w u us)
  then show ?case by (auto simp: letter_text_def folds_to_def less_eq_char_def)
qed simp

lemma name_no_equals: "name_text u \<Longrightarrow> CHR ''='' \<notin> set u"
  unfolding name_text_def by (elim disjE exE conjE) (auto dest!: letter_text_no)

lemma last_letter: "list_all2 letter_text (w @ [c]) us \<Longrightarrow> \<exists>vs v. us = vs @ [v] \<and> list_all2 letter_text w vs \<and> letter_text c v"
  by (auto simp: list_all2_append1 list_all2_Cons1)

lemma name_ends:
  assumes "list_all2 letter_text (w @ [c]) us" and "p @ concat us = s @ [x]" and "c \<noteq> CHR ''k'' \<or> x = CHR ''k''" and "c \<noteq> CHR ''s''"
  shows "folds_to x c" and "\<exists>vs. list_all2 letter_text w vs \<and> p @ concat vs = s"
proof -
  from last_letter [OF assms(1)] obtain vs v where us: "us = vs @ [v]" and vs: "list_all2 letter_text w vs" and v: "letter_text c v"
    by blast
  from v assms(2-4) us have "v = [x] \<and> folds_to x c" by (auto simp: letter_text_def)
  with assms(2) us vs show "folds_to x c" and "\<exists>vs. list_all2 letter_text w vs \<and> p @ concat vs = s" by auto
qed

lemma api_key_name:
  assumes "name_text (pre @ ''api-key'')"
  shows "pre = []"
proof -
  have other: False if "list_all2 letter_text (w @ [c]) us" "p @ concat us = pre @ ''api-key''" "c \<in> set ''nhtd''" for w c us p
    using name_ends(1) [of w c us p "pre @ ''api-ke''" "CHR ''y''"] that by (auto simp: folds_to_def)
  have i: False if "list_all2 letter_text ''api'' us" "p @ concat us = pre @ ''api-''" for us p
    using name_ends(1) [of "''ap''" "CHR ''i''" us p "pre @ ''api''" "CHR ''-''"] that by (simp add: folds_to_def)
  have key: "p = pre @ ''api-''" if "list_all2 letter_text ''key'' us" "p @ concat us = pre @ ''api-key''" for us p
    using name_ends(2) [of "''ke''" "CHR ''y''" us p "pre @ ''api-ke''" "CHR ''y''"] that
      name_ends(2) [of "''k''" "CHR ''e''" _ p "pre @ ''api-k''" "CHR ''e''"]
      name_ends(2) [of "[]" "CHR ''k''" _ p "pre @ ''api-''" "CHR ''k''"] by auto
  from assms show ?thesis
  proof (cases rule: name_text_cases)
    case (plain w us)
    show ?thesis
    proof (cases "w = ''apikey''")
      case True
      with plain have "list_all2 letter_text (''api'' @ ''key'') us" by simp
      then obtain vs ws where "us = vs @ ws" "list_all2 letter_text ''api'' vs" "list_all2 letter_text ''key'' ws"
        unfolding list_all2_append1 by blast
      with key [of ws "concat vs"] i [of vs "[]"] plain(2) show ?thesis by simp
    next
      case False
      with plain have "\<exists>v c. w = v @ [c] \<and> c \<in> set ''nhtd''"
        by (intro exI [of _ "butlast w"] exI [of _ "last w"]) auto
      with other [of _ _ us "[]"] plain(2,3) show ?thesis by auto
    qed
  next
    case (dashed v w us d vs)
    show ?thesis
    proof (cases "w = ''key''")
      case True
      with dashed key [of vs "concat us @ d"] have d: "concat us @ d = pre @ ''api-''" and us: "list_all2 letter_text ''api'' us"
        by auto
      from dashed(4) consider "d = []" | "d = ''-''" | "d = ''_''" by blast
      then show ?thesis
      proof cases
        case 1
        with d us i [of us "[]"] show ?thesis by simp
      next
        case 2
        with d have "[] @ concat us = pre @ ''api''" by simp
        moreover have "length (concat us) = 3" using us by (auto simp: list_all2_Cons1 letter_text_def)
        ultimately show ?thesis using arg_cong [of "concat us" "pre @ ''api''" length] by simp
      next
        case 3
        with d show ?thesis by simp
      qed
    next
      case False
      with dashed have "list_all2 letter_text (''toke'' @ ''n'') vs" by auto
      with other [of "''toke''" "CHR ''n''" vs "concat us @ d"] dashed(2) show ?thesis by simp
    qed
  qed
qed

text \<open>Nothing is found before the key.\<close>

lemma query_match_name:
  assumes "rx_at sensitiveQueryPairPattern prev s \<noteq> None"
  shows "\<exists>u t. s = u @ CHR ''='' # t \<and> name_text u"
proof -
  from assms obtain st where "st \<in> set (rx_match sensitiveQueryPairPattern \<lparr> rs_prev = prev, rs_rest = s, rs_group = [] \<rparr>)"
    unfolding rx_at_def by (cases "rx_match sensitiveQueryPairPattern \<lparr> rs_prev = prev, rs_rest = s, rs_group = [] \<rparr>") auto
  then obtain s1 where s1: "s1 \<in> set (rx_match sensitive_names \<lparr> rs_prev = prev, rs_rest = s, rs_group = [] \<rparr>)"
    and eq: "rx_ascii (\<lambda>a. a = CHR ''='') (rs_rest s1) \<noteq> 0"
    unfolding query_pattern by (auto split: if_splits)
  from names_text [OF s1] obtain u where "s = u @ rs_rest s1" "name_text u" by auto
  moreover from eq obtain t where "rs_rest s1 = CHR ''='' # t" by (cases "rs_rest s1") (auto split: if_splits)
  ultimately show ?thesis by auto
qed

lemma split_at_equals: "u @ CHR ''='' # t = v @ CHR ''='' # s \<Longrightarrow> CHR ''='' \<notin> set u \<Longrightarrow> CHR ''='' \<notin> set v \<Longrightarrow> u = v"
proof (induction u arbitrary: v)
  case Nil
  then show ?case by (cases v) auto
next
  case (Cons a u)
  then show ?case by (cases v) auto
qed

lemma nothing_before_key:
  assumes "CHR ''='' \<notin> set pre" and "pre \<noteq> []"
  shows "rx_at sensitiveQueryPairPattern prev (pre @ ''api-key='' @ s) = None"
proof (rule ccontr)
  assume "rx_at sensitiveQueryPairPattern prev (pre @ ''api-key='' @ s) \<noteq> None"
  from query_match_name [OF this] obtain u t where ut: "(pre @ ''api-key'') @ CHR ''='' # s = u @ CHR ''='' # t" and u: "name_text u"
    by auto
  have "u = pre @ ''api-key''"
    by (rule split_at_equals [OF ut [symmetric] name_no_equals [OF u]]) (simp add: assms(1))
  with u api_key_name assms(2) show False by blast
qed

lemma replace_up_to_key:
  assumes "CHR ''='' \<notin> set pre"
  shows "rx_replace sensitiveQueryPairPattern f prev (pre @ ''api-key='' @ s) =
    pre @ rx_replace sensitiveQueryPairPattern f (if pre = [] then prev else Some (last pre)) (''api-key='' @ s)"
  using assms
proof (induction pre arbitrary: prev)
  case (Cons c pre)
  from nothing_before_key [OF Cons.prems, of prev s]
  have "rx_at sensitiveQueryPairPattern prev (c # pre @ ''api-key='' @ s) = None" by simp
  with Cons.IH [of "Some c"] Cons.prems show ?case by (cases pre) (simp_all del: append.simps(2) add: append_Cons)
qed simp

lemma letter_starts:
  "letter_text a y \<Longrightarrow> a \<in> set ''apts'' \<Longrightarrow>
     \<exists>b r. y = b # r \<and> b \<notin> {CHR ''&'', CHR 0x22, CHR 0x09, CHR 0x0A, CHR 0x0C, CHR 0x0D, CHR '' ''}"
  by (auto simp: letter_text_def folds_to_def)

lemma texts_start:
  assumes "list_all2 letter_text (a # w) us" and "a \<in> set ''apts''"
  shows "\<exists>b r. concat us @ q = b # r \<and> b \<notin> {CHR ''&'', CHR 0x22, CHR 0x09, CHR 0x0A, CHR 0x0C, CHR 0x0D, CHR '' ''}"
proof -
  from assms(1) obtain y ys where "us = y # ys" "letter_text a y" by (auto simp: list_all2_Cons1)
  with letter_starts [OF this(2) assms(2)] show ?thesis by auto
qed

lemma name_starts:
  assumes "name_text u"
  shows "\<exists>b r. u = b # r \<and> b \<notin> {CHR ''&'', CHR 0x22, CHR 0x09, CHR 0x0A, CHR 0x0C, CHR 0x0D, CHR '' ''}"
  using assms
proof (cases rule: name_text_cases)
  case (plain w us)
  then obtain a v where "w = a # v" "a \<in> set ''apts''" by auto
  with texts_start [of a v us "[]"] plain(2,3) show ?thesis by simp
next
  case (dashed v w us d vs)
  then obtain a x where "v = a # x" "a \<in> set ''apts''" by auto
  with texts_start [of a x us "d @ concat vs"] dashed(2,3) show ?thesis by simp
qed

text \<open>And what stops the value of the key is not the start of a match, whatever was there before.\<close>

lemma stop_no_match:
  assumes "\<not> key_char c"
  shows "rx_at sensitiveQueryPairPattern prev (c # s) = None"
proof (rule ccontr)
  assume "rx_at sensitiveQueryPairPattern prev (c # s) \<noteq> None"
  from query_match_name [OF this] obtain u t where u: "c # s = u @ CHR ''='' # t" "name_text u" by blast
  have c: "c \<in> {CHR ''&'', CHR 0x22, CHR 0x09, CHR 0x0A, CHR 0x0C, CHR 0x0D, CHR '' ''}"
    using assms by (auto simp: key_char_def regexp_space_def)
  from name_starts [OF u(2)] u(1) c show False by (auto simp: Cons_eq_append_conv)
qed

lemma replace_after_stop:
  assumes "post = [] \<or> \<not> key_char (hd post)"
  shows "rx_replace sensitiveQueryPairPattern f prev post = rx_replace sensitiveQueryPairPattern f prev' post"
  using assms by (cases post) (simp_all add: stop_no_match)

text \<open>The text of an error does not depend on the key in the URL.\<close>

lemma rx_replace_step:
  "rx_at r prev (c # x @ s) = Some (Suc (length x), g) \<Longrightarrow>
     rx_replace r f prev (c # x @ s) = f (c # x) g @ rx_replace r f (Some (last (c # x))) s"
  by simp

lemma pair_replaced:
  assumes "CHR ''='' \<notin> set pre" and "pre = [] \<or> \<not> ascii_word (last pre)" and "list_all key_char k" and "k \<noteq> []"
    and "post = [] \<or> \<not> key_char (hd post)"
  shows "rx_replace sensitiveQueryPairPattern f None (pre @ ''api-key='' @ k @ post) =
    pre @ f (''api-key='' @ k) ''api-key'' @ rx_replace sensitiveQueryPairPattern f None post"
proof -
  let ?prev = "if pre = [] then None else Some (last pre)"
  have "rx_at sensitiveQueryPairPattern ?prev (''api-key='' @ k @ post) = Some (8 + length k, ''api-key'')"
    using assms by (intro pair_at_key) auto
  then have "rx_at sensitiveQueryPairPattern ?prev (CHR ''a'' # (''pi-key='' @ k) @ post) =
      Some (Suc (length (''pi-key='' @ k)), ''api-key'')" by (simp add: eval_nat_numeral)
  from rx_replace_step [OF this, of f]
  have "rx_replace sensitiveQueryPairPattern f ?prev (''api-key='' @ k @ post) =
      f (''api-key='' @ k) ''api-key'' @ rx_replace sensitiveQueryPairPattern f (Some (last (CHR ''a'' # ''pi-key='' @ k))) post"
    by (simp only: append_Cons append_Nil append_assoc)
  also have "rx_replace sensitiveQueryPairPattern f (Some (last (CHR ''a'' # ''pi-key='' @ k))) post = rx_replace sensitiveQueryPairPattern f None post"
    by (rule replace_after_stop [OF assms(5)])
  finally show ?thesis using replace_up_to_key [OF assms(1), of f None "k @ post"] by simp
qed

end
