(* ===== verification/Http_Clients.thy ===== *)
theory Http_Clients
imports Block_Scrape Go_Encoding Redaction
begin

text \<open>
  The two HTTP clients, \<open>internal/helius/client.go\<close> and the first part of \<open>walletsource/block_scrape.go\<close>, and the
  values that decode themselves (\<open>internal/helius/types.go\<close>). Parameters: the network, \<open>net/url\<close> and the decoding of
  JSON into structs.
\<close>

section \<open>The network\<close>

text \<open>A URL with the parameters of its query.\<close>

record URL =
  ul_Scheme :: string
  ul_Host :: string
  ul_Path :: string
  ul_Query :: "(string \<times> string list) list"

record http_request =
  hr_Method :: string
  hr_URL :: string
  hr_Header :: "(string \<times> string) list"
  hr_Body :: string

text \<open>A response; the body may fail while it is read.\<close>

record http_response =
  hs_StatusCode :: int
  hs_Body :: "go_error + string"

record 'w network =
  nw_ParseURL :: "string \<Rightarrow> go_error + URL"
  nw_URLString :: "URL \<Rightarrow> string"
  nw_NewRequest :: "http_request \<Rightarrow> go_error option"
  nw_Do :: "duration \<Rightarrow> http_request \<Rightarrow> 'w \<Rightarrow> (go_error + http_response) \<times> 'w"

text \<open>What \<open>encoding/json\<close> makes of a text, with the fields whose types decode themselves left as texts.\<close>

record decoders =
  dc_String :: "string \<Rightarrow> go_error + string"
  dc_Number :: "string \<Rightarrow> go_error + string"
  dc_TokenAmount :: "string \<Rightarrow> go_error + TokenAmount"
  dc_NativeTransfer :: "string \<Rightarrow> go_error + NativeTransfer \<times> string"
  dc_Transactions :: "string \<Rightarrow> go_error + EnhancedTransaction list"
  dc_Page :: "string \<Rightarrow> go_error + EnhancedTransaction list \<times> string"
  dc_Instruction :: "string \<Rightarrow> go_error + string \<times> string"
  dc_Parsed :: "string \<Rightarrow> go_error + RPCParsedInstruction"

definition read_body :: "nat \<Rightarrow> http_response \<Rightarrow> go_error + string" where
  "read_body limit resp = (case hs_Body resp of Inl err \<Rightarrow> Inl err | Inr body \<Rightarrow> Inr (take limit body))"

definition ok_status :: "int \<Rightarrow> bool" where
  "ok_status code \<longleftrightarrow> 200 \<le> code \<and> code \<le> 299"

section \<open>Values that decode themselves\<close>

definition decodeFlexibleJSONNumber :: "decoders \<Rightarrow> string \<Rightarrow> go_error + string" where
  "decodeFlexibleJSONNumber dc raw =
     (let trimmed = trim_space raw in
      if trimmed = [] \<or> trimmed = ''null'' then Inr []
      else if has_prefix trimmed [CHR 0x22]
      then and_then (dc_String dc raw) (\<lambda>s. Inr (trim_space s))
      else and_then (dc_Number dc raw) (\<lambda>n. Inr (trim_space n)))"

text \<open>\<open>UnmarshalJSON\<close> of the amount of a native transfer and of a token amount.\<close>

definition decode_native_transfer :: "decoders \<Rightarrow> string \<Rightarrow> go_error + NativeTransfer" where
  "decode_native_transfer dc raw =
     and_then (dc_NativeTransfer dc raw) (\<lambda>(wire, rawAmount).
       case decodeFlexibleJSONNumber dc rawAmount of
         Inl err \<Rightarrow> Inl (Wrapped ''decode native transfer amount: '' err [])
       | Inr amount \<Rightarrow> Inr (wire\<lparr> nat_Amount := amount \<rparr>))"

definition decode_token_amount :: "decoders \<Rightarrow> string \<Rightarrow> go_error + TokenAmount" where
  "decode_token_amount dc raw =
     (let trimmed = trim_space raw in
      if trimmed = [] \<or> trimmed = ''null'' then Inr \<lparr> ta_Amount = [], ta_Decimals = None \<rparr>
      else if has_prefix trimmed [CHR 0x7B] then dc_TokenAmount dc raw
      else case decodeFlexibleJSONNumber dc raw of
          Inl err \<Rightarrow> Inl (Wrapped ''decode token amount: '' err [])
        | Inr amount \<Rightarrow> Inr \<lparr> ta_Amount = amount, ta_Decimals = None \<rparr>)"

text \<open>An instruction whose \<open>parsed\<close> is not an object, or not one of the expected shape, is taken as not parsed.\<close>

definition decode_instruction :: "decoders \<Rightarrow> string \<Rightarrow> go_error + RPCInstruction" where
  "decode_instruction dc raw =
     and_then (dc_Instruction dc raw) (\<lambda>(program, rawParsed).
       let trimmed = trim_space rawParsed in
       Inr \<lparr> ix_Program = program,
             ix_Parsed =
               (if trimmed = [] \<or> trimmed = ''null'' \<or> \<not> has_prefix trimmed [CHR 0x7B] then None
                else case dc_Parsed dc trimmed of Inl _ \<Rightarrow> None | Inr parsed \<Rightarrow> Some parsed) \<rparr>)"

section \<open>The Helius client\<close>

record HTTPClient =
  hc_baseURL :: URL
  hc_apiKey :: string
  hc_timeout :: duration
  hc_pageLimit :: int

definition client_timeout :: "duration \<Rightarrow> duration" where
  "client_timeout timeout = (if timeout \<le> 0 then 15 * nanos_per_second else timeout)"

definition NewHTTPClient :: "'w network \<Rightarrow> string \<Rightarrow> string \<Rightarrow> duration \<Rightarrow> go_error + HTTPClient" where
  "NewHTTPClient nw baseURL0 apiKey timeout =
     (let baseURL = trim_space baseURL0 in
      if baseURL = [] then Inl (Err ''baseURL is required'')
      else if trim_space apiKey = [] then Inl (Err ''apiKey is required'')
      else case nw_ParseURL nw baseURL of
        Inl err \<Rightarrow> Inl (Wrapped ''parse baseURL: '' err [])
      | Inr parsed \<Rightarrow>
          if trim_space (ul_Scheme parsed) = [] \<or> trim_space (ul_Host parsed) = []
          then Inl (Err ''baseURL must include scheme and host (e.g. https://api.helius.xyz)'')
          else if to_lower (ul_Scheme parsed) \<noteq> ''https'' then Inl (Err ''baseURL scheme must be https'')
          else Inr \<lparr> hc_baseURL = parsed, hc_apiKey = apiKey, hc_timeout = client_timeout timeout, hc_pageLimit = 100 \<rparr>)"

text \<open>\<open>StatusError.Error\<close>: the text of the error that \<open>StatusErr\<close> holds.\<close>

definition status_text :: "int \<Rightarrow> string \<Rightarrow> string" where
  "status_text code body0 =
     (let body = take 256 (redactSensitiveValues body0) in
      if body = [] then ''helius status '' @ show_int code
      else ''helius status '' @ show_int code @ '': '' @ body)"

definition redactedError :: "go_error \<Rightarrow> go_error" where
  "redactedError err = Told (redactSensitiveValues (err_msg err)) err"

definition decodeEnhancedPage :: "decoders \<Rightarrow> string \<Rightarrow> go_error + EnhancedPage" where
  "decodeEnhancedPage dc raw =
     (let trimmed = trim_space raw in
      if trimmed = [] then Inr \<lparr> page_Transactions = [], page_Before = [] \<rparr>
      else if has_prefix trimmed ''[''
      then and_then (dc_Transactions dc raw) (\<lambda>txs. Inr \<lparr> page_Transactions = txs, page_Before = [] \<rparr>)
      else and_then (dc_Page dc raw) (\<lambda>(txs, before). Inr \<lparr> page_Transactions = txs, page_Before = before \<rparr>))"

definition page_request :: "'w network \<Rightarrow> HTTPClient \<Rightarrow> string \<Rightarrow> string \<Rightarrow> http_request" where
  "page_request nw c walletAddress before =
     (let base = hc_baseURL c;
          q = map_set ''api-key'' [hc_apiKey c] (map_set ''limit'' [show_int (hc_pageLimit c)] (ul_Query base));
          q = (if before \<noteq> [] then map_set ''before'' [before] q else q);
          u = base\<lparr> ul_Path := path_join [ul_Path base, ''addresses'', walletAddress, ''transactions''], ul_Query := q \<rparr>
      in \<lparr> hr_Method = ''GET'', hr_URL = nw_URLString nw u,
           hr_Header = [(''Accept'', ''application/json''), (''X-API-Key'', hc_apiKey c)], hr_Body = [] \<rparr>)"

text \<open>The cursor of a page that has none is its last signature.\<close>

definition with_cursor :: "EnhancedPage \<Rightarrow> EnhancedPage" where
  "with_cursor page =
     (if page_Before page = [] \<and> page_Transactions page \<noteq> []
      then page\<lparr> page_Before := tx_Signature (last (page_Transactions page)) \<rparr> else page)"

definition page_response :: "decoders \<Rightarrow> http_response \<Rightarrow> go_error + EnhancedPage" where
  "page_response dc resp =
     (case read_body 4194304 resp of
        Inl err \<Rightarrow> Inl (Wrapped ''read helius response: '' err [])
      | Inr body \<Rightarrow>
          if \<not> ok_status (hs_StatusCode resp)
          then Inl (StatusErr (hs_StatusCode resp) (status_text (hs_StatusCode resp) (trim_space body)))
          else case decodeEnhancedPage dc body of
              Inl err \<Rightarrow> Inl (Wrapped ''decode helius enhanced page: '' err [])
            | Inr page \<Rightarrow> Inr (with_cursor page))"

definition FetchEnhancedPage ::
  "'w network \<Rightarrow> decoders \<Rightarrow> HTTPClient \<Rightarrow> string \<Rightarrow> string \<Rightarrow> 'w \<Rightarrow> (go_error + EnhancedPage) \<times> 'w" where
  "FetchEnhancedPage nw dc c walletAddress0 before w =
     (let walletAddress = trim_space walletAddress0 in
      if walletAddress = [] then (Inl (Err ''wallet address is required''), w)
      else let req = page_request nw c walletAddress before in
      case nw_NewRequest nw req of
        Some err \<Rightarrow> (Inl (Wrapped ''build helius request: '' err []), w)
      | None \<Rightarrow>
      (case nw_Do nw (hc_timeout c) req w of
        (Inl err, w1) \<Rightarrow> (Inl (Wrapped ''helius request: '' (redactedError err) []), w1)
      | (Inr resp, w1) \<Rightarrow> (page_response dc resp, w1)))"

text \<open>The provider of the pipeline.\<close>

definition helius_env ::
  "'w network \<Rightarrow> decoders \<Rightarrow> (duration \<Rightarrow> 'w \<Rightarrow> go_error option \<times> 'w) \<Rightarrow> HTTPClient \<Rightarrow> 'w env" where
  "helius_env nw dc sleep c =
     \<lparr> env_FetchEnhancedPage = (\<lambda>w a before. FetchEnhancedPage nw dc c a before w),
       env_sleepContext = (\<lambda>w d. sleep d w) \<rparr>"

section \<open>The RPC client\<close>

record HeliusRPCClient =
  rc_endpoint :: string
  rc_timeout :: duration

definition NewHeliusRPCClient :: "'w network \<Rightarrow> string \<Rightarrow> duration \<Rightarrow> go_error + HeliusRPCClient" where
  "NewHeliusRPCClient nw apiKey0 timeout =
     (let apiKey = trim_space apiKey0 in
      if apiKey = [] then Inl (Err ''api key is required'')
      else Inr
        \<lparr> rc_endpoint = nw_URLString nw
            \<lparr> ul_Scheme = ''https'', ul_Host = ''mainnet.helius-rpc.com'', ul_Path = [], ul_Query = [(''api-key'', [apiKey])] \<rparr>,
          rc_timeout = client_timeout timeout \<rparr>)"

definition rpc_request_json :: "string \<Rightarrow> json \<Rightarrow> json" where
  "rpc_request_json name params = JObject
     [(''jsonrpc'', JString ''2.0''), (''id'', JInt 1), (''method'', JString name), (''params'', params)]"

text \<open>\<open>decode\<close> gives the result and, if there is one, the code and the message of the error.\<close>

definition rpc_response ::
  "(string \<Rightarrow> go_error + 'a \<times> (int \<times> string) option) \<Rightarrow> http_response \<Rightarrow> go_error + 'a" where
  "rpc_response decode resp =
     (case read_body 8388608 resp of
        Inl err \<Rightarrow> Inl (Wrapped ''read rpc response: '' err [])
      | Inr raw \<Rightarrow>
          if \<not> ok_status (hs_StatusCode resp) then Inl (Err (''rpc http status '' @ show_int (hs_StatusCode resp)))
          else case decode raw of
              Inl err \<Rightarrow> Inl (Wrapped ''decode rpc response: '' err [])
            | Inr (res, Some (code, message)) \<Rightarrow> Inl (Err (''rpc error '' @ show_int code @ '': '' @ message))
            | Inr (res, None) \<Rightarrow> Inr res)"

definition rpcCall ::
  "'w network \<Rightarrow> HeliusRPCClient \<Rightarrow> string \<Rightarrow> json \<Rightarrow> (string \<Rightarrow> go_error + 'a \<times> (int \<times> string) option)
     \<Rightarrow> 'w \<Rightarrow> (go_error + 'a) \<times> 'w" where
  "rpcCall nw c name params decode w =
     (if rc_endpoint c = [] then (Inl (Err ''rpc client is not initialized''), w)
      else let req = \<lparr> hr_Method = ''POST'', hr_URL = rc_endpoint c,
             hr_Header = [(''Content-Type'', ''application/json''), (''Accept'', ''application/json'')],
             hr_Body = json_text (rpc_request_json name params) \<rparr> in
      case nw_NewRequest nw req of
        Some err \<Rightarrow> (Inl (Wrapped ''build rpc request: '' err []), w)
      | None \<Rightarrow>
      (case nw_Do nw (rc_timeout c) req w of
        (Inl err, w1) \<Rightarrow> (Inl (Wrapped ''rpc request: '' err []), w1)
      | (Inr resp, w1) \<Rightarrow> (rpc_response decode resp, w1)))"

definition GetSlot ::
  "'w network \<Rightarrow> (string \<Rightarrow> go_error + int \<times> (int \<times> string) option) \<Rightarrow> HeliusRPCClient \<Rightarrow> 'w \<Rightarrow> (go_error + int) \<times> 'w" where
  "GetSlot nw decode c = rpcCall nw c ''getSlot'' (JArray [JObject [(''commitment'', JString ''finalized'')]]) decode"

definition GetBlock ::
  "'w network \<Rightarrow> (string \<Rightarrow> go_error + RPCBlock \<times> (int \<times> string) option) \<Rightarrow> HeliusRPCClient \<Rightarrow> int \<Rightarrow> 'w
     \<Rightarrow> (go_error + RPCBlock) \<times> 'w" where
  "GetBlock nw decode c slot = rpcCall nw c ''getBlock''
     (JArray [JInt slot, JObject
       [(''encoding'', JString ''jsonParsed''), (''maxSupportedTransactionVersion'', JInt 0), (''rewards'', JBool False),
        (''transactionDetails'', JString ''full'')]]) decode"

text \<open>The client of the scraper; \<open>intn\<close> is its random generator.\<close>

definition helius_rpc ::
  "'w network \<Rightarrow> (string \<Rightarrow> go_error + int \<times> (int \<times> string) option)
     \<Rightarrow> (string \<Rightarrow> go_error + RPCBlock \<times> (int \<times> string) option) \<Rightarrow> ('w \<Rightarrow> int \<Rightarrow> int \<times> 'w) \<Rightarrow> HeliusRPCClient \<Rightarrow> 'w rpc" where
  "helius_rpc nw slots blocks intn c =
     \<lparr> rpc_GetSlot = GetSlot nw slots c, rpc_GetBlock = (\<lambda>w slot. GetBlock nw blocks c slot w), rpc_Intn = intn \<rparr>"

end
