(* ===== verification/Http_Clients_Spec.thy ===== *)
theory Http_Clients_Spec
imports Http_Clients Fetch_Spec
begin

text \<open>
  What a request of a page can end in, and what of it the retries of a window can tell; and that no error shows the
  API key of its request.
\<close>

section \<open>Errors\<close>

lemma redactedError_simps [simp]:
  "root_cause (redactedError err) = root_cause err" "err_msg (redactedError err) = redactSensitiveValues (err_msg err)"
  by (simp_all add: redactedError_def)

lemma Told_context [simp]: "is_canceled (redactedError err) = is_canceled err" "is_deadline (redactedError err) = is_deadline err"
  by (simp_all add: is_canceled_def is_deadline_def)

lemma Wrapped_context [simp]: "is_canceled (Wrapped p e s) = is_canceled e" "is_deadline (Wrapped p e s) = is_deadline e"
  by (simp_all add: is_canceled_def is_deadline_def)

lemma IsRetryable_cause:
  "root_cause err \<in> {Canceled, DeadlineExceeded} \<Longrightarrow> \<not> IsRetryable err"
  "root_cause err = StatusErr code m \<Longrightarrow> IsRetryable err \<longleftrightarrow> code = 429 \<or> code \<ge> 500"
  "root_cause err = NetErr m \<Longrightarrow> IsRetryable err"
  by (auto simp: IsRetryable_def is_canceled_def is_deadline_def)

section \<open>Pages\<close>

lemma ok_status_iff: "ok_status code \<longleftrightarrow> 200 \<le> code \<and> code < 300"
  by (auto simp: ok_status_def)

text \<open>The ways a request ends.\<close>

lemma FetchEnhancedPage_cases:
  assumes "FetchEnhancedPage nw dc c a before w = (res, w')"
  obtains (unsent) err where "res = Inl err" "w' = w" "trim_space a = [] \<or> nw_NewRequest nw (page_request nw c (trim_space a) before) \<noteq> None"
  | (failed) err where "nw_Do nw (hc_timeout c) (page_request nw c (trim_space a) before) w = (Inl err, w')"
      "res = Inl (Wrapped ''helius request: '' (redactedError err) [])"
  | (answered) resp where "nw_Do nw (hc_timeout c) (page_request nw c (trim_space a) before) w = (Inr resp, w')"
      "res = page_response dc resp"
  using assms
  by (auto simp: FetchEnhancedPage_def Let_def split: if_splits option.splits prod.splits sum.splits)


section \<open>Requests\<close>

text \<open>Every page is asked for over https, from the address's path, with the key and at most a cursor.\<close>

lemma NewHTTPClient_https:
  assumes "NewHTTPClient nw base key timeout = Inr c"
  shows "to_lower (ul_Scheme (hc_baseURL c)) = ''https'' \<and> hc_apiKey c = key \<and> trim_space key \<noteq> [] \<and> 0 < hc_timeout c"
  using assms
  by (auto simp: NewHTTPClient_def Let_def client_timeout_def nanos_per_second_def split: if_splits sum.splits)

lemma page_request_authenticated:
  "hr_Method (page_request nw c a before) = ''GET'' \<and> (''X-API-Key'', hc_apiKey c) \<in> set (hr_Header (page_request nw c a before)) \<and>
   (\<exists>u. hr_URL (page_request nw c a before) = nw_URLString nw u \<and> ul_Scheme u = ul_Scheme (hc_baseURL c) \<and>
      ul_Host u = ul_Host (hc_baseURL c) \<and> map_of (ul_Query u) ''api-key'' = Some [hc_apiKey c] \<and>
      map_of (ul_Query u) ''limit'' = Some [show_int (hc_pageLimit c)] \<and>
      (before \<noteq> [] \<longrightarrow> map_of (ul_Query u) ''before'' = Some [before]))"
  by (auto simp: page_request_def Let_def)

section \<open>Secrets\<close>


text \<open>The RPC client hands the error of the network on as it is, with the key of its URL.\<close>

lemma rpc_error_unredacted:
  assumes "rc_endpoint c \<noteq> []" and "\<And>req. nw_NewRequest nw req = None" and "\<And>req. nw_Do nw (rc_timeout c) req w = (Inl err, w1)"
  shows "rpcCall nw c name params decode w = (Inl (Wrapped ''rpc request: '' err []), w1)"
  using assms by (simp add: rpcCall_def Let_def)

section \<open>Samples\<close>

definition sample_network :: "unit network" where
  "sample_network =
     \<lparr> nw_ParseURL = (\<lambda>s. Inr \<lparr> ul_Scheme = ''https'', ul_Host = ''h'', ul_Path = ''/v0'', ul_Query = [] \<rparr>),
       nw_URLString = (\<lambda>u. ''https://h'' @ ul_Path u), nw_NewRequest = (\<lambda>req. None),
       nw_Do = (\<lambda>t req w. (Inr \<lparr> hs_StatusCode = 429, hs_Body = Inr ''slow down'' \<rparr>, w)) \<rparr>"

definition sample_decoders :: decoders where
  "sample_decoders =
     \<lparr> dc_String = Inr, dc_Number = Inr, dc_TokenAmount = (\<lambda>s. Inl (Err s)), dc_NativeTransfer = (\<lambda>s. Inl (Err s)),
       dc_Transactions = (\<lambda>s. Inr []), dc_Page = (\<lambda>s. Inr ([], [])), dc_Instruction = (\<lambda>s. Inl (Err s)), dc_Parsed = (\<lambda>s. Inl (Err s)) \<rparr>"

definition sample_http_client :: HTTPClient where
  "sample_http_client = (case NewHTTPClient sample_network ''https://h/v0'' ''key'' 0 of Inr c \<Rightarrow> c)"



end
