(* ===== verification/App_Store.thy ===== *)
theory App_Store
imports Export_Data
begin

text \<open>
  \<open>internal/storage/phase6_repository.go\<close>: the row of configuration overrides, the export jobs, and the
  health of runs.
\<close>

section \<open>Rows that are there or not\<close>

text \<open>\<open>QueryRow(..).Scan(..)\<close>, where \<open>sql.ErrNoRows\<close> is not an error.\<close>

definition query_row :: "string \<Rightarrow> (Db \<Rightarrow> go_error + 'a option) \<Rightarrow> ('a option, Pg) call" where
  "query_row what select w =
     (case driver_call (\<lambda>now db. case select db of Inl e \<Rightarrow> Inl e | Inr r \<Rightarrow> Inr (r, db)) w of
        (Inl e, w1) \<Rightarrow> (Inl (Wrapped (what @ '': '') e []), w1)
      | (Inr r, w1) \<Rightarrow> (Inr r, w1))"

text \<open>\<open>Exec\<close> without a look at the number of rows.\<close>

definition exec_only :: "string \<Rightarrow> (gotime \<Rightarrow> Db \<Rightarrow> go_error + Db) \<Rightarrow> (unit, Pg) call" where
  "exec_only what stmt w =
     (case driver_call (\<lambda>now db. case stmt now db of Inl e \<Rightarrow> Inl e | Inr db' \<Rightarrow> Inr ((), db')) w of
        (Inl e, w1) \<Rightarrow> (Inl (Wrapped (what @ '': '') e []), w1)
      | (Inr _, w1) \<Rightarrow> (Inr (), w1))"

section \<open>Overrides of the configuration\<close>

definition no_override :: ConfigOverrideRecord where
  "no_override =
     \<lparr> ov_MaxWalletsPerRun = None, ov_MaxTXPagesPerWallet = None, ov_MaxTXPerWallet = None, ov_MaxConcurrentWallets = None,
       ov_WalletSyncTimeoutSeconds = None, ov_RunTimeoutSeconds = None, ov_MaxHeliusRetries = None,
       ov_HeliusRequestDelayMS = None, ov_BaselineLookbackDays = None, ov_ScanWindowDays = None,
       ov_LookalikeRecencyDays = None, ov_LookalikePrefixMin = None, ov_LookalikeSuffixMin = None,
       ov_LookalikeSingleSideMin = None, ov_MinInjectionCount = None, ov_UpdatedAt = None \<rparr>"

text \<open>The columns are \<open>INT\<close>.\<close>

definition override_values :: "ConfigOverrideRecord \<Rightarrow> int option list" where
  "override_values r =
     [ov_MaxWalletsPerRun r, ov_MaxTXPagesPerWallet r, ov_MaxTXPerWallet r, ov_MaxConcurrentWallets r,
      ov_WalletSyncTimeoutSeconds r, ov_RunTimeoutSeconds r, ov_MaxHeliusRetries r, ov_HeliusRequestDelayMS r,
      ov_BaselineLookbackDays r, ov_ScanWindowDays r, ov_LookalikeRecencyDays r, ov_LookalikePrefixMin r,
      ov_LookalikeSuffixMin r, ov_LookalikeSingleSideMin r, ov_MinInjectionCount r]"

definition fits_int4 :: "int option \<Rightarrow> bool" where
  "fits_int4 v = (case v of None \<Rightarrow> True | Some i \<Rightarrow> - (2 ^ 31) \<le> i \<and> i < 2 ^ 31)"

definition range_error :: go_error where
  "range_error = Err ''value out of range for type integer''"

definition GetConfigOverride :: "(ConfigOverrideRecord \<times> bool, Pg) call" where
  "GetConfigOverride w =
     (case query_row ''get config override'' (\<lambda>db. Inr (db_config_override db)) w of
        (Inl e, w1) \<Rightarrow> (Inl e, w1)
      | (Inr None, w1) \<Rightarrow> (Inr (no_override, False), w1)
      | (Inr (Some r), w1) \<Rightarrow> (Inr (r, True), w1))"

definition UpsertConfigOverride :: "ConfigOverrideRecord \<Rightarrow> (unit, Pg) call" where
  "UpsertConfigOverride r =
     exec_only ''upsert config override'' (\<lambda>now db.
       if list_all fits_int4 (override_values r)
       then Inr (db\<lparr> db_config_override := Some (r\<lparr> ov_UpdatedAt := Some now \<rparr>) \<rparr>)
       else Inl range_error)"

section \<open>Export jobs\<close>

record ExportJobRecord =
  jr_ID :: int
  jr_RunID :: int
  jr_Status :: string
  jr_OutDir :: string
  jr_ErrorMessage :: string
  jr_CreatedAt :: gotime
  jr_StartedAt :: "gotime option"
  jr_CompletedAt :: "gotime option"

definition job_statuses :: "string list" where
  "job_statuses = [''queued'', ''running'', ''succeeded'', ''failed'']"

definition CreateExportJob :: "int \<Rightarrow> string \<Rightarrow> (int, Pg) call" where
  "CreateExportJob runID outDir w =
     (case driver_call (\<lambda>now db. case fresh db of (i, db1) \<Rightarrow>
          if runID \<notin> set (map_keys (db_ingestion_runs db)) then Inl fk_violation
          else Inr (i, db1\<lparr> db_export_jobs := (i,
            \<lparr> ej_run_id = runID, ej_status = ''queued'', ej_out_dir = outDir, ej_error_message = None,
              ej_created_at = now, ej_started_at = None, ej_completed_at = None \<rparr>) # db_export_jobs db1 \<rparr>)) w of
        (Inl e, w1) \<Rightarrow> (Inl (Wrapped ''create export job: '' e []), w1)
      | (Inr i, w1) \<Rightarrow> (Inr i, w1))"

definition deref :: "string option \<Rightarrow> string" where
  "deref s = (case s of None \<Rightarrow> [] | Some v \<Rightarrow> v)"

definition update_job :: "int \<Rightarrow> (ExportJobRow \<Rightarrow> ExportJobRow) \<Rightarrow> gotime \<Rightarrow> Db \<Rightarrow> go_error + Db" where
  "update_job jobID f now db =
     (case map_of (db_export_jobs db) jobID of
        None \<Rightarrow> Inr db
      | Some row \<Rightarrow>
          if ej_status (f row) \<in> set job_statuses
          then Inr (db\<lparr> db_export_jobs := map_set jobID (f row) (db_export_jobs db) \<rparr>)
          else Inl check_violation)"

definition UpdateExportJobStatus ::
  "int \<Rightarrow> string \<Rightarrow> string option \<Rightarrow> gotime option \<Rightarrow> gotime option \<Rightarrow> (unit, Pg) call" where
  "UpdateExportJobStatus jobID status errMsg startedAt completedAt =
     exec_only ''update export job status'' (update_job jobID (\<lambda>row. row
       \<lparr> ej_status := status, ej_error_message := nullableText (deref errMsg),
         ej_started_at := (case startedAt of None \<Rightarrow> ej_started_at row | Some t \<Rightarrow> Some t),
         ej_completed_at := completedAt \<rparr>))"

definition job_record :: "int \<Rightarrow> ExportJobRow \<Rightarrow> ExportJobRecord" where
  "job_record i row =
     \<lparr> jr_ID = i, jr_RunID = ej_run_id row, jr_Status = ej_status row, jr_OutDir = ej_out_dir row,
       jr_ErrorMessage = coalesce_text (ej_error_message row), jr_CreatedAt = ej_created_at row,
       jr_StartedAt = ej_started_at row, jr_CompletedAt = ej_completed_at row \<rparr>"

text \<open>Whether there is such a job is the \<open>bool\<close> of the Go function.\<close>

definition GetExportJob :: "int \<Rightarrow> (ExportJobRecord option, Pg) call" where
  "GetExportJob jobID =
     query_row ''get export job'' (\<lambda>db. Inr (map_option (job_record jobID) (map_of (db_export_jobs db) jobID)))"

definition newest_id :: "('a \<Rightarrow> int) \<Rightarrow> 'a \<Rightarrow> 'a \<Rightarrow> bool" where
  "newest_id f a b \<longleftrightarrow> f b < f a"

definition ListExportJobsForRun :: "int \<Rightarrow> int \<Rightarrow> (ExportJobRecord list, Pg) call" where
  "ListExportJobsForRun runID limit =
     list_query ''list export jobs'' ''scan export job'' ''iterate export jobs'' (\<lambda>db.
       take (nat limit) (sort_slice (newest_id jr_ID)
         [job_record i row. (i, row) \<leftarrow> db_export_jobs db, ej_run_id row = runID]))"

section \<open>Pages\<close>

text \<open>A count and the rows of one page. PostgreSQL refuses a negative \<open>LIMIT\<close> or \<open>OFFSET\<close>.\<close>

definition page_rows :: "int \<Rightarrow> int \<Rightarrow> 'a list \<Rightarrow> go_error + 'a list" where
  "page_rows limit offset rows =
     (if limit < 0 then Inl (Err ''LIMIT must not be negative'')
      else if offset < 0 then Inl (Err ''OFFSET must not be negative'')
      else Inr (take (nat limit) (drop (nat offset) rows)))"

definition page_query :: "string \<Rightarrow> string \<Rightarrow> string \<Rightarrow> int \<Rightarrow> int \<Rightarrow> (Db \<Rightarrow> 'e list) \<Rightarrow> ('e list, Pg) call" where
  "page_query what scan iterate limit offset select w =
     (case driver_call (\<lambda>now db. case page_rows limit offset (select db) of Inl e \<Rightarrow> Inl e | Inr rows \<Rightarrow> Inr (rows, db)) w of
        (Inl e, w1) \<Rightarrow> (Inl (Wrapped (what @ '': '') e []), w1)
      | (Inr rows, w1) \<Rightarrow> scan_records scan iterate rows [] w1)"

definition counted_page ::
  "string \<times> string \<times> string \<times> string \<Rightarrow> (Db \<Rightarrow> int) \<Rightarrow> (Db \<Rightarrow> 'e list) \<Rightarrow> int \<Rightarrow> int \<Rightarrow> ('e list \<times> int, Pg) call" where
  "counted_page names total_rows select limit offset w =
     (case names of (how, what, scan, iterate) \<Rightarrow>
     (case driver_call (\<lambda>now db. Inr (total_rows db, db)) w of
        (Inl e, w1) \<Rightarrow> (Inl (Wrapped (how @ '': '') e []), w1)
      | (Inr n, w1) \<Rightarrow>
          (case page_query what scan iterate limit offset select w1 of
             (Inl e, w2) \<Rightarrow> (Inl e, w2)
           | (Inr rows, w2) \<Rightarrow> (Inr (rows, n), w2))))"

section \<open>Health of runs\<close>

record OpsRunHealthRecord =
  or_RunID :: int
  or_Status :: string
  or_StartedAt :: gotime
  or_CompletedAt :: "gotime option"
  or_WalletsRequested :: int
  or_WalletsProcessed :: int
  or_WalletsFailed :: int
  or_WalletsSkipped :: int
  or_TruncationWalletRate :: string
  or_RetryExhaustedCount :: int
  or_WalletTimeoutCount :: int
  or_WalletCapHitCount :: int
  or_UnsupportedAssetCount :: int
  or_UnknownGateBlockCount :: int
  or_CandidateBlockCount :: int

definition ops_record :: "sql_text \<Rightarrow> int \<Rightarrow> IngestionRunRow \<Rightarrow> OpsRunHealthRecord" where
  "ops_record sq i row =
     (let c = ir_counters row in
      \<lparr> or_RunID = i, or_Status = run_status_str (ir_status row), or_StartedAt = ir_started_at row,
        or_CompletedAt = ir_completed_at row, or_WalletsRequested = c_WalletsRequested c,
        or_WalletsProcessed = c_WalletsProcessed c, or_WalletsFailed = c_WalletsFailed c,
        or_WalletsSkipped = c_WalletsSkipped c, or_TruncationWalletRate = sq_numeric sq (c_TruncationWalletRate c),
        or_RetryExhaustedCount = c_RetryExhaustedCount c, or_WalletTimeoutCount = c_WalletTimeoutCount c,
        or_WalletCapHitCount = c_WalletCapHitCount c, or_UnsupportedAssetCount = c_UnsupportedAssetCount c,
        or_UnknownGateBlockCount = c_UnknownGateBlockCount c, or_CandidateBlockCount = c_CandidateBlockCount c \<rparr>)"

definition ListOpsRunHealth :: "sql_text \<Rightarrow> int \<Rightarrow> int \<Rightarrow> (OpsRunHealthRecord list \<times> int, Pg) call" where
  "ListOpsRunHealth sq =
     counted_page (''count ops runs'', ''list ops runs'', ''scan ops run row'', ''iterate ops runs'')
       (\<lambda>db. int (length (db_ingestion_runs db)))
       (\<lambda>db. sort_slice (newest_id or_RunID) (map (\<lambda>(i, row). ops_record sq i row) (db_ingestion_runs db)))"

text \<open>\<open>COALESCE(NULLIF(BTRIM(x), ''), '')\<close>.\<close>

definition trimmed_text :: "string option \<Rightarrow> string" where
  "trimmed_text v = btrim (coalesce_text v)"

definition run_class :: "string \<Rightarrow> string" where
  "run_class status =
     (if status = ''timed_out'' then ''timeout''
      else if status = ''cancelled'' then ''canceled''
      else if status = ''failed'' then ''failed''
      else if status = ''partially_succeeded'' then ''partial''
      else ''other'')"

text \<open>\<open>LIKE '%retry_exhausted%'\<close>: an underscore stands for any character.\<close>

fun like_at :: "string \<Rightarrow> string \<Rightarrow> bool" where
  "like_at [] s = True"
| "like_at (p # ps) [] = False"
| "like_at (p # ps) (c # s) = ((p = CHR ''_'' \<or> p = c) \<and> like_at ps s)"

fun like_within :: "string \<Rightarrow> string \<Rightarrow> bool" where
  "like_within p [] = (p = [])"
| "like_within p (c # s) = (like_at p (c # s) \<or> like_within p s)"

definition wallet_class :: "string \<Rightarrow> string option \<Rightarrow> string option \<Rightarrow> string" where
  "wallet_class status errorCode reason =
     (if status = ''timed_out'' then ''timeout''
      else if trimmed_text errorCode \<noteq> [] then ''persistence_error''
      else if like_within ''retry_exhausted'' (trimmed_text reason) then ''retry_exhausted''
      else if status = ''partial'' then ''partial''
      else if status = ''failed'' then ''failed''
      else ''other'')"

record FailureClassCountRecord =
  fc_FailureClass :: string
  fc_Count :: int

definition failure_classes :: "Db \<Rightarrow> string list" where
  "failure_classes db =
     map (\<lambda>(i, row). run_class (run_status_str (ir_status row))) (db_ingestion_runs db) @
     map (\<lambda>(i, row). wallet_class (wallet_status_str (ws_status row)) (ws_error_code row) (ws_unknown_gate_reason row))
       (db_wallet_sync_runs db)"

definition class_counts :: "(string \<Rightarrow> string \<Rightarrow> bool) \<Rightarrow> string list \<Rightarrow> FailureClassCountRecord list" where
  "class_counts lt classes =
     map (\<lambda>c. \<lparr> fc_FailureClass = c, fc_Count = int (count_list classes c) \<rparr>) (sort_slice lt (remdups classes))"

definition ListFailureClassCounts :: "sql_text \<Rightarrow> (FailureClassCountRecord list, Pg) call" where
  "ListFailureClassCounts sq =
     list_query ''list failure class counts'' ''scan failure class row'' ''iterate failure class rows''
       (\<lambda>db. class_counts (sq_less sq) (failure_classes db))"

end
