(* ===== verification/Read_Models.thy ===== *)
theory Read_Models
imports App_Store
begin

text \<open>
  \<open>internal/storage/read_api_repository.go\<close>: the queries behind the pages of the API, on the tables of the
  store. Ids the tables here do not have, and the time a candidate was inserted, are in \<open>row_ids\<close>.
\<close>

record row_ids =
  id_counterparty :: "int \<times> string \<Rightarrow> int"
  id_wallet_transaction :: "int \<times> int \<times> RelationType \<Rightarrow> int"
  id_candidate_created :: "int \<times> string \<times> int \<Rightarrow> gotime"

section \<open>Records\<close>

record OverviewMetricsRecord =
  om_CandidatesEmitted :: int
  om_UnknownGateBlocks :: int
  om_TransactionsScanned :: int
  om_PassedTransactions :: int
  om_LastScanUpdateAt :: "gotime option"

record OverviewCandidateRecord =
  oc_WalletSyncRunID :: int
  oc_FocalWallet :: string
  oc_Signature :: string
  oc_TransferIndex :: int
  oc_BlockTime :: gotime
  oc_SuspiciousCounterparty :: string
  oc_RepeatInjectionCount :: int
  oc_RecencyDays :: int

record CandidateListRecord =
  cl_WalletSyncRunID :: int
  cl_FocalWallet :: string
  cl_Signature :: string
  cl_TransferIndex :: int
  cl_BlockTime :: gotime
  cl_SuspiciousCounterparty :: string
  cl_MatchedLegitCounterparty :: string
  cl_RepeatInjectionCount :: int
  cl_RecencyDays :: int
  cl_UnknownGateReason :: string
  cl_IncompleteWindow :: bool

record TransactionListRecord =
  tl_FocalWallet :: string
  tl_Signature :: string
  tl_TransferIndex :: int
  tl_BlockTime :: gotime
  tl_NormalizationStatus :: string
  tl_PoisoningEligible :: bool
  tl_RelationType :: string
  tl_DustStatus :: string
  tl_AmountRaw :: string
  tl_AssetType :: string

record IngestionRunListRecord =
  rl_ID :: int
  rl_Status :: string
  rl_StartedAt :: gotime
  rl_CompletedAt :: "gotime option"
  rl_WalletsProcessed :: int
  rl_WalletsFailed :: int
  rl_WalletsSkipped :: int
  rl_IncompleteWindows :: int
  rl_TruncationWalletRate :: string
  rl_UnknownGatePresent :: bool

record WalletSyncListRecord =
  wl_WalletSyncRunID :: int
  wl_IngestionRunID :: int
  wl_FocalWallet :: string
  wl_Status :: string
  wl_BaselineStartAt :: gotime
  wl_BaselineEndAt :: gotime
  wl_ScanStartAt :: gotime
  wl_ScanEndAt :: gotime
  wl_BaselineComplete :: bool
  wl_IncompleteWindow :: bool
  wl_UnknownGateReason :: string
  wl_TransactionsFetched :: int
  wl_UnsupportedAssetCount :: int
  wl_UnknownGateBlockCount :: int
  wl_CandidateBlockCount :: int
  wl_TruncationReason :: string
  wl_UpdatedAt :: gotime

record CounterpartyListRecord =
  pl_FocalWallet :: string
  pl_CounterpartyAddress :: string
  pl_FirstSeenAt :: gotime
  pl_LastSeenAt :: gotime
  pl_InboundCount :: int
  pl_OutboundCount :: int
  pl_LastOutboundAt :: "gotime option"
  pl_CandidateLinks :: int

record CandidateExplanationRecord =
  ce_WalletSyncRunID :: int
  ce_IngestionRunID :: int
  ce_FocalWallet :: string
  ce_Signature :: string
  ce_TransferIndex :: int
  ce_BlockTime :: gotime
  ce_SuspiciousCounterparty :: string
  ce_MatchedLegitCounterparty :: string
  ce_ScanStartAt :: gotime
  ce_ScanEndAt :: gotime
  ce_BaselineStartAt :: gotime
  ce_BaselineEndAt :: gotime
  ce_BaselineComplete :: bool
  ce_IncompleteWindow :: bool
  ce_UnknownGateReason :: string
  ce_RelationType :: string
  ce_AssetType :: string
  ce_NormalizationStatus :: string
  ce_PoisoningEligible :: bool
  ce_SourceOwner :: string
  ce_DestinationOwner :: string
  ce_FromTokenAccount :: string
  ce_ToTokenAccount :: string
  ce_TokenMint :: string
  ce_AmountRaw :: string
  ce_DustStatus :: string
  ce_IsDust :: bool
  ce_IsZeroValue :: bool
  ce_IsInbound :: bool
  ce_IsNewCounterparty :: bool
  ce_RecencyDays :: int
  ce_RepeatInjectionCount :: int
  ce_LookalikePrefixMatch :: int
  ce_LookalikeSuffixMatch :: int
  ce_MatchRuleVersion :: string
  ce_LegitLastSeenAt :: gotime
  ce_CandidateCreatedAt :: gotime
  ce_WalletTransactionID :: int
  ce_TransactionID :: int
  ce_CounterpartyID :: int

record WalletInspectionSummaryRecord =
  is_RunID :: int
  is_WalletSyncRunID :: int
  is_FocalWallet :: string
  is_CandidateCount :: int
  is_UnknownGateBlockCount :: int
  is_IncompleteWindow :: bool
  is_UnknownGateReason :: string
  is_TruncationReason :: string
  is_BaselineComplete :: bool
  is_ScanStartAt :: gotime
  is_ScanEndAt :: gotime
  is_BaselineStartAt :: gotime
  is_BaselineEndAt :: gotime
  is_TransactionsFetched :: int
  is_PoisoningCandidatesSeen :: int

section \<open>Emitted candidates\<close>

definition emitted_row :: "CandidateRow \<Rightarrow> bool" where
  "emitted_row c \<longleftrightarrow> \<not> cd_IncompleteWindow (pr_record c) \<and> trimmed_text (pr_unknown_gate_reason c) = []"

definition emitted_rows :: "Db \<Rightarrow> ((int \<times> string \<times> int) \<times> CandidateRow) list" where
  "emitted_rows db = filter (\<lambda>(key, c). emitted_row c) (db_poisoning_candidates db)"

text \<open>Joined with the focal wallet.\<close>

definition emitted_candidates :: "Db \<Rightarrow> (int \<times> string \<times> CandidateRow) list" where
  "emitted_candidates db =
     [(i, address, c).
        ((i, key), c) \<leftarrow> emitted_rows db, (address, walletID, synced) \<leftarrow> db_wallets db, walletID = pr_focal_wallet_id c]"

text \<open>\<open>ORDER BY block_time DESC, signature DESC, transfer_index DESC\<close>.\<close>

definition latest_first :: "(string \<Rightarrow> string \<Rightarrow> bool) \<Rightarrow> ('a \<Rightarrow> gotime \<times> string \<times> int) \<Rightarrow> 'a \<Rightarrow> 'a \<Rightarrow> bool" where
  "latest_first lt key a b \<longleftrightarrow>
     (case (key a, key b) of ((t, s, i), (t', s', i')) \<Rightarrow>
        t' < t \<or> t' = t \<and> (lt s' s \<or> \<not> lt s s' \<and> i' < i))"

definition candidate_order_key :: "int \<times> string \<times> CandidateRow \<Rightarrow> gotime \<times> string \<times> int" where
  "candidate_order_key x =
     (case x of (i, address, c) \<Rightarrow>
        (cd_BlockTime (pr_record c), cd_Signature (pr_record c), cd_TransferIndex (pr_record c)))"

definition latest_candidates :: "sql_text \<Rightarrow> Db \<Rightarrow> (int \<times> string \<times> CandidateRow) list" where
  "latest_candidates sq db = sort_slice (latest_first (sq_less sq) candidate_order_key) (emitted_candidates db)"

definition overview_record :: "int \<times> string \<times> CandidateRow \<Rightarrow> OverviewCandidateRecord" where
  "overview_record x =
     (case x of (i, address, c) \<Rightarrow>
      \<lparr> oc_WalletSyncRunID = i, oc_FocalWallet = address, oc_Signature = cd_Signature (pr_record c),
        oc_TransferIndex = cd_TransferIndex (pr_record c), oc_BlockTime = cd_BlockTime (pr_record c),
        oc_SuspiciousCounterparty = cd_SuspiciousCounterparty (pr_record c),
        oc_RepeatInjectionCount = cd_RepeatInjectionCount (pr_record c), oc_RecencyDays = cd_RecencyDays (pr_record c) \<rparr>)"

definition ListOverviewCandidates :: "sql_text \<Rightarrow> int \<Rightarrow> (OverviewCandidateRecord list, Pg) call" where
  "ListOverviewCandidates sq limit =
     page_query ''list overview candidates'' ''scan overview candidate row'' ''iterate overview candidate rows'' limit 0
       (\<lambda>db. map overview_record (latest_candidates sq db))"

definition candidate_list_record :: "int \<times> string \<times> CandidateRow \<Rightarrow> CandidateListRecord" where
  "candidate_list_record x =
     (case x of (i, address, c) \<Rightarrow>
      \<lparr> cl_WalletSyncRunID = i, cl_FocalWallet = address, cl_Signature = cd_Signature (pr_record c),
        cl_TransferIndex = cd_TransferIndex (pr_record c), cl_BlockTime = cd_BlockTime (pr_record c),
        cl_SuspiciousCounterparty = cd_SuspiciousCounterparty (pr_record c),
        cl_MatchedLegitCounterparty = cd_MatchedLegitCounterparty (pr_record c),
        cl_RepeatInjectionCount = cd_RepeatInjectionCount (pr_record c), cl_RecencyDays = cd_RecencyDays (pr_record c),
        cl_UnknownGateReason = coalesce_text (pr_unknown_gate_reason c),
        cl_IncompleteWindow = cd_IncompleteWindow (pr_record c) \<rparr>)"

definition ListCandidates :: "sql_text \<Rightarrow> int \<Rightarrow> int \<Rightarrow> (CandidateListRecord list \<times> int, Pg) call" where
  "ListCandidates sq =
     counted_page (''count candidates'', ''list candidates'', ''scan candidate row'', ''iterate candidate rows'')
       (\<lambda>db. int (length (emitted_rows db)))
       (\<lambda>db. map candidate_list_record (latest_candidates sq db))"

section \<open>Overview\<close>

definition latest_time :: "gotime list \<Rightarrow> gotime option" where
  "latest_time ts = (case ts of [] \<Rightarrow> None | t # ts' \<Rightarrow> Some (foldl max t ts'))"

definition synced_at :: "WalletSyncRunRow \<Rightarrow> gotime" where
  "synced_at row = (case ws_completed_at row of None \<Rightarrow> ws_started_at row | Some t \<Rightarrow> t)"

definition overview_metrics :: "gotime \<Rightarrow> Db \<Rightarrow> OverviewMetricsRecord" where
  "overview_metrics since db =
     (let scans = filter (\<lambda>row. since \<le> win_ScanEnd (ws_window row)) (map snd (db_wallet_sync_runs db)) in
      \<lparr> om_CandidatesEmitted = int (length (filter (\<lambda>(key, c). since \<le> cd_BlockTime (pr_record c)) (emitted_rows db))),
        om_UnknownGateBlocks = int (length (filter (\<lambda>row. ws_incomplete_window row \<and> trimmed_text (ws_unknown_gate_reason row) \<noteq> []) scans)),
        om_TransactionsScanned = sum_list (map ws_transactions_fetched scans),
        om_PassedTransactions = int (length
          [(tr, walletID).
             (key, txID, tr) \<leftarrow> db_transactions db,
             (walletID, linkedID, rel) \<leftarrow> db_wallet_transactions db,
             linkedID = txID \<and> tr_NormalizationStatus tr = NormalizationResolved \<and> tr_PoisoningEligible tr \<and>
               list_ex (\<lambda>row. ws_wallet_id row = walletID) scans]),
        om_LastScanUpdateAt = latest_time (map (synced_at \<circ> snd) (db_wallet_sync_runs db)) \<rparr>)"

definition GetOverviewMetrics :: "gotime \<Rightarrow> (OverviewMetricsRecord, Pg) call" where
  "GetOverviewMetrics since w =
     (case driver_call (\<lambda>now db. Inr (overview_metrics since db, db)) w of
        (Inl e, w1) \<Rightarrow> (Inl (Wrapped ''get overview metrics: '' e []), w1)
      | (Inr r, w1) \<Rightarrow> (Inr r, w1))"

section \<open>Lists\<close>

definition linked_transfers :: "Db \<Rightarrow> (string \<times> RelationType \<times> NormalizedTransfer) list" where
  "linked_transfers db =
     [(address, rel, tr).
        (walletID, linkedID, rel) \<leftarrow> db_wallet_transactions db,
        (address, i, synced) \<leftarrow> db_wallets db, i = walletID,
        (key, txID, tr) \<leftarrow> db_transactions db, txID = linkedID]"

definition transaction_record :: "string \<times> RelationType \<times> NormalizedTransfer \<Rightarrow> TransactionListRecord" where
  "transaction_record x =
     (case x of (address, rel, tr) \<Rightarrow>
      \<lparr> tl_FocalWallet = address, tl_Signature = tr_Signature tr, tl_TransferIndex = tr_TransferIndex tr,
        tl_BlockTime = tr_BlockTime tr, tl_NormalizationStatus = normalization_status_str (tr_NormalizationStatus tr),
        tl_PoisoningEligible = tr_PoisoningEligible tr, tl_RelationType = relation_str rel,
        tl_DustStatus = dust_status_str (tr_DustStatus tr), tl_AmountRaw = numeric_text (tr_AmountRaw tr),
        tl_AssetType = asset_type_str (tr_AssetType tr) \<rparr>)"

definition ListTransactions :: "sql_text \<Rightarrow> int \<Rightarrow> int \<Rightarrow> (TransactionListRecord list \<times> int, Pg) call" where
  "ListTransactions sq =
     counted_page (''count transactions'', ''list transactions'', ''scan transaction row'', ''iterate transaction rows'')
       (\<lambda>db. int (length (db_wallet_transactions db)))
       (\<lambda>db. map transaction_record (sort_slice
         (latest_first (sq_less sq) (\<lambda>(address, rel, tr). (tr_BlockTime tr, tr_Signature tr, tr_TransferIndex tr)))
         (linked_transfers db)))"

definition runs_of :: "Db \<Rightarrow> int \<Rightarrow> WalletSyncRunRow list" where
  "runs_of db runID = filter (\<lambda>row. ws_ingestion_run_id row = runID) (map snd (db_wallet_sync_runs db))"

definition run_list_record :: "sql_text \<Rightarrow> Db \<Rightarrow> int \<times> IngestionRunRow \<Rightarrow> IngestionRunListRecord" where
  "run_list_record sq db x =
     (case x of (i, row) \<Rightarrow>
      \<lparr> rl_ID = i, rl_Status = run_status_str (ir_status row), rl_StartedAt = ir_started_at row,
        rl_CompletedAt = ir_completed_at row, rl_WalletsProcessed = c_WalletsProcessed (ir_counters row),
        rl_WalletsFailed = c_WalletsFailed (ir_counters row), rl_WalletsSkipped = c_WalletsSkipped (ir_counters row),
        rl_IncompleteWindows = int (length (filter ws_incomplete_window (runs_of db i))),
        rl_TruncationWalletRate = sq_numeric sq (c_TruncationWalletRate (ir_counters row)),
        rl_UnknownGatePresent = list_ex (\<lambda>r. trimmed_text (ws_unknown_gate_reason r) \<noteq> []) (runs_of db i) \<rparr>)"

definition ListRuns :: "sql_text \<Rightarrow> int \<Rightarrow> int \<Rightarrow> (IngestionRunListRecord list \<times> int, Pg) call" where
  "ListRuns sq =
     counted_page (''count runs'', ''list runs'', ''scan run row'', ''iterate run rows'')
       (\<lambda>db. int (length (db_ingestion_runs db)))
       (\<lambda>db. map (run_list_record sq db) (sort_slice
         (\<lambda>(i, a) (j, b). ir_started_at b < ir_started_at a \<or> ir_started_at b = ir_started_at a \<and> j < i)
         (db_ingestion_runs db)))"

definition wallet_runs :: "Db \<Rightarrow> (int \<times> WalletSyncRunRow \<times> string) list" where
  "wallet_runs db =
     [(i, row, address).
        (i, row) \<leftarrow> db_wallet_sync_runs db, (address, walletID, synced) \<leftarrow> db_wallets db, walletID = ws_wallet_id row]"

definition wallet_list_record :: "int \<times> WalletSyncRunRow \<times> string \<Rightarrow> WalletSyncListRecord" where
  "wallet_list_record x =
     (case x of (i, row, address) \<Rightarrow>
      \<lparr> wl_WalletSyncRunID = i, wl_IngestionRunID = ws_ingestion_run_id row, wl_FocalWallet = address,
        wl_Status = wallet_status_str (ws_status row), wl_BaselineStartAt = win_BaselineStart (ws_window row),
        wl_BaselineEndAt = win_BaselineEnd (ws_window row), wl_ScanStartAt = win_ScanStart (ws_window row),
        wl_ScanEndAt = win_ScanEnd (ws_window row), wl_BaselineComplete = ws_baseline_complete row,
        wl_IncompleteWindow = ws_incomplete_window row,
        wl_UnknownGateReason = coalesce_text (ws_unknown_gate_reason row),
        wl_TransactionsFetched = ws_transactions_fetched row, wl_UnsupportedAssetCount = ws_unsupported_asset_count row,
        wl_UnknownGateBlockCount = ws_unknown_gate_block_count row,
        wl_CandidateBlockCount = ws_candidate_block_count row,
        wl_TruncationReason = coalesce_text (ws_truncation_reason row), wl_UpdatedAt = synced_at row \<rparr>)"

definition ListWalletSyncRuns :: "int \<Rightarrow> int \<Rightarrow> (WalletSyncListRecord list \<times> int, Pg) call" where
  "ListWalletSyncRuns =
     counted_page (''count wallet sync runs'', ''list wallet sync runs'', ''scan wallet sync row'', ''iterate wallet sync rows'')
       (\<lambda>db. int (length (db_wallet_sync_runs db)))
       (\<lambda>db. map wallet_list_record (sort_slice
         (\<lambda>(i, a, x) (j, b, y). win_ScanEnd (ws_window b) < win_ScanEnd (ws_window a) \<or>
            win_ScanEnd (ws_window b) = win_ScanEnd (ws_window a) \<and> j < i)
         (wallet_runs db)))"

definition counterparty_rows_of :: "Db \<Rightarrow> (string \<times> (int \<times> string) \<times> Counterparty) list" where
  "counterparty_rows_of db =
     [(address, key, cp). (key, cp) \<leftarrow> db_counterparties db, (address, walletID, synced) \<leftarrow> db_wallets db, walletID = fst key]"

definition counterparty_record :: "Db \<Rightarrow> string \<times> (int \<times> string) \<times> Counterparty \<Rightarrow> CounterpartyListRecord" where
  "counterparty_record db x =
     (case x of (address, key, cp) \<Rightarrow>
      \<lparr> pl_FocalWallet = address, pl_CounterpartyAddress = snd key, pl_FirstSeenAt = cp_FirstSeenAt cp,
        pl_LastSeenAt = cp_LastSeenAt cp, pl_InboundCount = cp_InboundCount cp, pl_OutboundCount = cp_OutboundCount cp,
        pl_LastOutboundAt = cp_LastOutboundAt cp,
        pl_CandidateLinks = int (length (filter (\<lambda>(k, c). pr_focal_wallet_id c = fst key \<and>
          cd_SuspiciousCounterparty (pr_record c) = snd key) (emitted_rows db))) \<rparr>)"

definition ListCounterparties :: "row_ids \<Rightarrow> int \<Rightarrow> int \<Rightarrow> (CounterpartyListRecord list \<times> int, Pg) call" where
  "ListCounterparties ids =
     counted_page (''count counterparties'', ''list counterparties'', ''scan counterparty row'', ''iterate counterparties rows'')
       (\<lambda>db. int (length (db_counterparties db)))
       (\<lambda>db. map (counterparty_record db) (sort_slice
         (\<lambda>(x, k, a) (y, l, b). cp_LastSeenAt b < cp_LastSeenAt a \<or>
            cp_LastSeenAt b = cp_LastSeenAt a \<and> id_counterparty ids l < id_counterparty ids k)
         (counterparty_rows_of db)))"

section \<open>Explanations\<close>

record explained_candidate =
  ex_key :: "int \<times> string \<times> int"
  ex_run :: WalletSyncRunRow
  ex_address :: string
  ex_candidate :: CandidateRow
  ex_transactionID :: int
  ex_transfer :: NormalizedTransfer
  ex_link :: "int \<times> int \<times> RelationType"

definition explained_candidates :: "Db \<Rightarrow> explained_candidate list" where
  "explained_candidates db =
     [\<lparr> ex_key = key, ex_run = row, ex_address = address, ex_candidate = c, ex_transactionID = txID, ex_transfer = tr,
        ex_link = link \<rparr>.
        (key, c) \<leftarrow> db_poisoning_candidates db,
        (i, row) \<leftarrow> db_wallet_sync_runs db, i = fst key,
        (address, walletID, synced) \<leftarrow> db_wallets db, walletID = pr_focal_wallet_id c,
        (k, txID, tr) \<leftarrow> db_transactions db,
        tr_Signature tr = cd_Signature (pr_record c) \<and> tr_TransferIndex tr = cd_TransferIndex (pr_record c),
        link \<leftarrow> db_wallet_transactions db, fst (snd link) = txID \<and> fst link = ws_wallet_id row]"

definition counterparty_of :: "row_ids \<Rightarrow> Db \<Rightarrow> CandidateRow \<Rightarrow> int option" where
  "counterparty_of ids db c =
     (let key = (pr_focal_wallet_id c, cd_SuspiciousCounterparty (pr_record c)) in
      map_option (\<lambda>cp. id_counterparty ids key) (map_of (db_counterparties db) key))"

definition detail_record :: "row_ids \<Rightarrow> int \<Rightarrow> explained_candidate \<Rightarrow> CandidateExplanationRecord" where
  "detail_record ids counterpartyID x =
     (let c = pr_record (ex_candidate x); run = ex_run x; tr = ex_transfer x in
      \<lparr> ce_WalletSyncRunID = fst (ex_key x), ce_IngestionRunID = ws_ingestion_run_id run, ce_FocalWallet = ex_address x,
        ce_Signature = cd_Signature c, ce_TransferIndex = cd_TransferIndex c, ce_BlockTime = cd_BlockTime c,
        ce_SuspiciousCounterparty = cd_SuspiciousCounterparty c,
        ce_MatchedLegitCounterparty = cd_MatchedLegitCounterparty c,
        ce_ScanStartAt = win_ScanStart (ws_window run), ce_ScanEndAt = win_ScanEnd (ws_window run),
        ce_BaselineStartAt = win_BaselineStart (ws_window run), ce_BaselineEndAt = win_BaselineEnd (ws_window run),
        ce_BaselineComplete = ws_baseline_complete run, ce_IncompleteWindow = cd_IncompleteWindow c,
        ce_UnknownGateReason = trimmed_text (pr_unknown_gate_reason (ex_candidate x)),
        ce_RelationType = relation_str (snd (snd (ex_link x))), ce_AssetType = asset_type_str (tr_AssetType tr),
        ce_NormalizationStatus = normalization_status_str (tr_NormalizationStatus tr),
        ce_PoisoningEligible = tr_PoisoningEligible tr, ce_SourceOwner = tr_SourceOwnerAddress tr,
        ce_DestinationOwner = tr_DestinationOwnerAddress tr, ce_FromTokenAccount = tr_SourceTokenAccount tr,
        ce_ToTokenAccount = tr_DestinationTokenAccount tr, ce_TokenMint = tr_TokenMint tr,
        ce_AmountRaw = numeric_text (tr_AmountRaw tr), ce_DustStatus = dust_status_str (tr_DustStatus tr),
        ce_IsDust = cd_IsDust c, ce_IsZeroValue = cd_IsZeroValue c, ce_IsInbound = cd_IsInbound c,
        ce_IsNewCounterparty = cd_IsNewCounterparty c, ce_RecencyDays = cd_RecencyDays c,
        ce_RepeatInjectionCount = cd_RepeatInjectionCount c, ce_LookalikePrefixMatch = 0, ce_LookalikeSuffixMatch = 0,
        ce_MatchRuleVersion = cd_MatchRuleVersion c, ce_LegitLastSeenAt = cd_LegitLastSeenAt c,
        ce_CandidateCreatedAt = id_candidate_created ids (ex_key x),
        ce_WalletTransactionID = id_wallet_transaction ids (ex_link x), ce_TransactionID = ex_transactionID x,
        ce_CounterpartyID = counterpartyID \<rparr>)"

text \<open>One row, whichever comes first; here a counterparty that is not stored is a NULL, which cannot be scanned.\<close>

definition scan_null :: go_error where
  "scan_null = Err ''sql: Scan error on column index 39, name \"id\": converting NULL to int64 is unsupported''"

definition GetCandidateExplanation :: "row_ids \<Rightarrow> int \<Rightarrow> string \<Rightarrow> int \<Rightarrow> (CandidateExplanationRecord option, Pg) call" where
  "GetCandidateExplanation ids walletSyncRunID sig transferIndex =
     query_row ''get candidate explanation'' (\<lambda>db.
       case filter (\<lambda>x. fst (ex_key x) = walletSyncRunID \<and> cd_Signature (pr_record (ex_candidate x)) = sig \<and>
           cd_TransferIndex (pr_record (ex_candidate x)) = transferIndex) (explained_candidates db) of
         [] \<Rightarrow> Inr None
       | x # _ \<Rightarrow> (case counterparty_of ids db (ex_candidate x) of
             None \<Rightarrow> Inl scan_null
           | Some i \<Rightarrow> Inr (Some (detail_record ids i x))))"

definition detail_order :: "(string \<Rightarrow> string \<Rightarrow> bool) \<Rightarrow> explained_candidate \<Rightarrow> explained_candidate \<Rightarrow> bool" where
  "detail_order lt a b \<longleftrightarrow>
     (let c = pr_record (ex_candidate a); d = pr_record (ex_candidate b) in
      lt (ex_address a) (ex_address b) \<or>
      \<not> lt (ex_address b) (ex_address a) \<and>
        (cd_BlockTime c < cd_BlockTime d \<or> cd_BlockTime c = cd_BlockTime d \<and>
          (lt (cd_Signature c) (cd_Signature d) \<or>
           \<not> lt (cd_Signature d) (cd_Signature c) \<and> cd_TransferIndex c < cd_TransferIndex d)))"

text \<open>The count is that of the candidates, the rows are their explanations.\<close>

definition ListCandidateExplanationsForRun ::
  "sql_text \<Rightarrow> row_ids \<Rightarrow> int \<Rightarrow> int \<Rightarrow> int \<Rightarrow> (CandidateExplanationRecord list \<times> int, Pg) call" where
  "ListCandidateExplanationsForRun sq ids runID =
     counted_page (''count candidate explanations'', ''list candidate explanations'', ''scan candidate explanation row'',
         ''iterate candidate explanation rows'')
       (\<lambda>db. int (length
         [c. (key, c) \<leftarrow> db_poisoning_candidates db,
             (i, row) \<leftarrow> db_wallet_sync_runs db, i = fst key \<and> ws_ingestion_run_id row = runID]))
       (\<lambda>db. map (\<lambda>x. detail_record ids (case counterparty_of ids db (ex_candidate x) of None \<Rightarrow> 0 | Some i \<Rightarrow> i) x)
         (sort_slice (detail_order (sq_less sq))
           (filter (\<lambda>x. ws_ingestion_run_id (ex_run x) = runID) (explained_candidates db))))"

definition inspection_record :: "Db \<Rightarrow> int \<times> WalletSyncRunRow \<times> string \<Rightarrow> WalletInspectionSummaryRecord" where
  "inspection_record db x =
     (case x of (i, row, address) \<Rightarrow>
      \<lparr> is_RunID = ws_ingestion_run_id row, is_WalletSyncRunID = i, is_FocalWallet = address,
        is_CandidateCount = int (length (filter (\<lambda>(key, c). fst key = i) (db_poisoning_candidates db))),
        is_UnknownGateBlockCount = (if ws_incomplete_window row \<and> trimmed_text (ws_unknown_gate_reason row) \<noteq> [] then 1 else 0),
        is_IncompleteWindow = ws_incomplete_window row, is_UnknownGateReason = trimmed_text (ws_unknown_gate_reason row),
        is_TruncationReason = trimmed_text (ws_truncation_reason row), is_BaselineComplete = ws_baseline_complete row,
        is_ScanStartAt = win_ScanStart (ws_window row), is_ScanEndAt = win_ScanEnd (ws_window row),
        is_BaselineStartAt = win_BaselineStart (ws_window row), is_BaselineEndAt = win_BaselineEnd (ws_window row),
        is_TransactionsFetched = ws_transactions_fetched row,
        is_PoisoningCandidatesSeen = ws_poisoning_candidates_inserted row \<rparr>)"

definition inspection_order ::
  "(string \<Rightarrow> string \<Rightarrow> bool) \<Rightarrow> int \<times> WalletSyncRunRow \<times> string \<Rightarrow> int \<times> WalletSyncRunRow \<times> string \<Rightarrow> bool" where
  "inspection_order lt x y \<longleftrightarrow>
     (case (x, y) of ((i, a, address), (j, b, address')) \<Rightarrow>
        lt address address' \<or>
        \<not> lt address' address \<and>
          (win_ScanEnd (ws_window a) < win_ScanEnd (ws_window b) \<or>
           win_ScanEnd (ws_window a) = win_ScanEnd (ws_window b) \<and> i < j))"

definition ListWalletInspectionSummaryForRun ::
  "sql_text \<Rightarrow> int \<Rightarrow> int \<Rightarrow> int \<Rightarrow> (WalletInspectionSummaryRecord list \<times> int, Pg) call" where
  "ListWalletInspectionSummaryForRun sq runID =
     counted_page (''count wallet inspection summaries'', ''list wallet inspection summaries'',
         ''scan wallet inspection summary row'', ''iterate wallet inspection summary rows'')
       (\<lambda>db. int (length (runs_of db runID)))
       (\<lambda>db. map (inspection_record db) (sort_slice (inspection_order (sq_less sq))
         (filter (\<lambda>(i, row, address). ws_ingestion_run_id row = runID) (wallet_runs db))))"

end
