(* ===== verification/Api_Core.thy ===== *)
theory Api_Core
imports Read_Models Exports Config
begin

text \<open>
  \<open>internal/api/server.go\<close>, first part: what the server is made of, requests and responses, the readers of
  parameters and the settings. Of \<open>net/http\<close> there is what the handlers use: the method, the decoded path, the
  parameters of the query and one header of a request; the status, the headers and the payload of a response.
\<close>

section \<open>Interfaces\<close>

record 'w ReadRepository =
  rr_GetOverviewMetrics :: "gotime \<Rightarrow> (OverviewMetricsRecord, 'w) call"
  rr_ListOverviewCandidates :: "int \<Rightarrow> (OverviewCandidateRecord list, 'w) call"
  rr_ListCandidates :: "int \<Rightarrow> int \<Rightarrow> (CandidateListRecord list \<times> int, 'w) call"
  rr_ListTransactions :: "int \<Rightarrow> int \<Rightarrow> (TransactionListRecord list \<times> int, 'w) call"
  rr_ListRuns :: "int \<Rightarrow> int \<Rightarrow> (IngestionRunListRecord list \<times> int, 'w) call"
  rr_ListWalletSyncRuns :: "int \<Rightarrow> int \<Rightarrow> (WalletSyncListRecord list \<times> int, 'w) call"
  rr_ListCounterparties :: "int \<Rightarrow> int \<Rightarrow> (CounterpartyListRecord list \<times> int, 'w) call"
  rr_GetCandidateExplanation :: "int \<Rightarrow> string \<Rightarrow> int \<Rightarrow> (CandidateExplanationRecord option, 'w) call"
  rr_ListCandidateExplanationsForRun :: "int \<Rightarrow> int \<Rightarrow> int \<Rightarrow> (CandidateExplanationRecord list \<times> int, 'w) call"
  rr_ListWalletInspectionSummaryForRun :: "int \<Rightarrow> int \<Rightarrow> int \<Rightarrow> (WalletInspectionSummaryRecord list \<times> int, 'w) call"

record 'w SettingsStore =
  ss_GetConfigOverride :: "(ConfigOverrideRecord \<times> bool, 'w) call"
  ss_UpsertConfigOverride :: "ConfigOverrideRecord \<Rightarrow> (unit, 'w) call"

record 'w ExportJobStore =
  js_CreateExportJob :: "int \<Rightarrow> string \<Rightarrow> (int, 'w) call"
  js_UpdateExportJobStatus :: "int \<Rightarrow> string \<Rightarrow> string option \<Rightarrow> gotime option \<Rightarrow> gotime option \<Rightarrow> (unit, 'w) call"
  js_GetExportJob :: "int \<Rightarrow> (ExportJobRecord option, 'w) call"
  js_ListExportJobsForRun :: "int \<Rightarrow> int \<Rightarrow> (ExportJobRecord list, 'w) call"

record 'w OpsStore =
  os_ListOpsRunHealth :: "int \<Rightarrow> int \<Rightarrow> (OpsRunHealthRecord list \<times> int, 'w) call"
  os_ListFailureClassCounts :: "(FailureClassCountRecord list, 'w) call"

record RunStartRequest =
  rs_WalletAddresses :: "string list"
  rs_ScanStart :: gotime
  rs_ScanEnd :: gotime
  rs_BaselineLookbackDays :: int
  rs_RequestedBy :: string

record RunStartResult =
  sr_RunID :: int
  sr_WalletCount :: int
  sr_ScanStart :: gotime
  sr_ScanEnd :: gotime
  sr_BaselineLookbackDays :: int

type_synonym 'w RunStarter = "RunStartRequest \<Rightarrow> (RunStartResult, 'w) call"

record 'w Server =
  sv_repo :: "'w ReadRepository"
  sv_cfg :: Config
  sv_exportSource :: "'w DatasetSource option"
  sv_exportRoot :: string
  sv_settings :: "'w SettingsStore option"
  sv_exportJobs :: "'w ExportJobStore option"
  sv_ops :: "'w OpsStore option"
  sv_runStarter :: "'w RunStarter option"

text \<open>The repository, and which of the optional interfaces its type implements.\<close>

record 'w repository =
  rp_Read :: "'w ReadRepository"
  rp_DatasetSource :: "'w DatasetSource option"
  rp_SettingsStore :: "'w SettingsStore option"
  rp_ExportJobStore :: "'w ExportJobStore option"
  rp_OpsStore :: "'w OpsStore option"

definition NewServer :: "'w repository \<Rightarrow> Config \<Rightarrow> 'w Server" where
  "NewServer repo cfg =
     \<lparr> sv_repo = rp_Read repo, sv_cfg = cfg, sv_exportSource = rp_DatasetSource repo,
       sv_exportRoot = path_join [''artifacts'', ''web_exports''], sv_settings = rp_SettingsStore repo,
       sv_exportJobs = rp_ExportJobStore repo, sv_ops = rp_OpsStore repo, sv_runStarter = None \<rparr>"

definition WithRunStarter :: "'w RunStarter \<Rightarrow> 'w Server \<Rightarrow> 'w Server" where
  "WithRunStarter starter s = s\<lparr> sv_runStarter := Some starter \<rparr>"

definition pg_repository :: "sql_text \<Rightarrow> row_ids \<Rightarrow> Pg repository" where
  "pg_repository sq ids =
     \<lparr> rp_Read =
         \<lparr> rr_GetOverviewMetrics = GetOverviewMetrics, rr_ListOverviewCandidates = ListOverviewCandidates sq,
           rr_ListCandidates = ListCandidates sq, rr_ListTransactions = ListTransactions sq, rr_ListRuns = ListRuns sq,
           rr_ListWalletSyncRuns = ListWalletSyncRuns, rr_ListCounterparties = ListCounterparties ids,
           rr_GetCandidateExplanation = GetCandidateExplanation ids,
           rr_ListCandidateExplanationsForRun = ListCandidateExplanationsForRun sq ids,
           rr_ListWalletInspectionSummaryForRun = ListWalletInspectionSummaryForRun sq \<rparr>,
       rp_DatasetSource = Some (pg_source sq),
       rp_SettingsStore = Some \<lparr> ss_GetConfigOverride = GetConfigOverride, ss_UpsertConfigOverride = UpsertConfigOverride \<rparr>,
       rp_ExportJobStore = Some
         \<lparr> js_CreateExportJob = CreateExportJob, js_UpdateExportJobStatus = UpdateExportJobStatus,
           js_GetExportJob = GetExportJob, js_ListExportJobsForRun = ListExportJobsForRun \<rparr>,
       rp_OpsStore = Some
         \<lparr> os_ListOpsRunHealth = ListOpsRunHealth sq, os_ListFailureClassCounts = ListFailureClassCounts sq \<rparr> \<rparr>"

section \<open>Requests and responses\<close>

record Request =
  rq_Method :: string
  rq_Path :: string
  rq_Query :: "string \<Rightarrow> string"
  rq_Authorization :: string
  rq_Body :: "go_error + string"

datatype payload = JsonPayload json | FilePayload string | TextPayload string | NoPayload

text \<open>\<open>re_Started\<close> are the export jobs that were started in the background: id, run and directory.\<close>

record Response =
  re_Status :: int
  re_Header :: "(string \<times> string) list"
  re_Payload :: payload
  re_Started :: "(int \<times> int \<times> string) list"

type_synonym 'w handler = "Request \<Rightarrow> 'w \<Rightarrow> Response \<times> 'w"

text \<open>A Go map is written with its keys in order.\<close>

definition json_map :: "(string \<times> json) list \<Rightarrow> json" where
  "json_map fs = JObject (sort_slice (\<lambda>a b. fst a < fst b) fs)"

definition writeJSON :: "int \<Rightarrow> json \<Rightarrow> Response" where
  "writeJSON status payload =
     \<lparr> re_Status = status, re_Header = [(''Content-Type'', ''application/json'')], re_Payload = JsonPayload payload,
       re_Started = [] \<rparr>"

definition error_response :: "int \<Rightarrow> string \<Rightarrow> Response" where
  "error_response status msg = writeJSON status (json_map [(''error'', JString msg)])"

definition methodNotAllowed :: Response where
  "methodNotAllowed = error_response 405 ''method not allowed''"

definition writeError :: "go_error \<Rightarrow> Response" where
  "writeError err =
     (if is_deadline err then error_response 504 ''request timeout'' else error_response 500 ''internal server error'')"

definition writePaged :: "json list \<Rightarrow> int \<Rightarrow> int \<Rightarrow> int \<Rightarrow> Response" where
  "writePaged items total_rows page pageSize =
     writeJSON 200 (json_map [(''items'', JArray items), (''total'', JInt total_rows), (''page'', JInt page),
       (''pageSize'', JInt pageSize)])"

section \<open>Parameters\<close>

definition parseIntDefault :: "string \<Rightarrow> int \<Rightarrow> int" where
  "parseIntDefault raw fallback = (case atoi (trim_space raw) of None \<Rightarrow> fallback | Some v \<Rightarrow> v)"

definition parsePage :: "Request \<Rightarrow> int \<times> int" where
  "parsePage r =
     (let page = parseIntDefault (rq_Query r ''page'') 1; page = (if page < 1 then 1 else page);
          pageSize = parseIntDefault (rq_Query r ''page_size'') 50;
          pageSize = (if pageSize < 1 then 50 else pageSize);
          pageSize = (if 500 < pageSize then 500 else pageSize)
      in (page, pageSize))"

definition page_offset :: "int \<Rightarrow> int \<Rightarrow> int" where
  "page_offset page pageSize = wrap64 ((page - 1) * pageSize)"

text \<open>The run, or the response that says what is wrong.\<close>

definition parseRunID :: "Request \<Rightarrow> Response + int" where
  "parseRunID r =
     (let raw = trim_space (rq_Query r ''run_id'') in
      if raw = [] then Inl (error_response 400 ''run_id is required'')
      else case atoi raw of
          None \<Rightarrow> Inl (error_response 400 ''invalid run_id'')
        | Some runID \<Rightarrow> if runID \<le> 0 then Inl (error_response 400 ''invalid run_id'') else Inr runID)"

text \<open>\<open>strings.FieldsFunc\<close>.\<close>

fun fields_func :: "(char \<Rightarrow> bool) \<Rightarrow> string \<Rightarrow> string \<Rightarrow> string list" where
  "fields_func p cur [] = (if cur = [] then [] else [cur])"
| "fields_func p cur (c # s) =
     (if p c then (if cur = [] then fields_func p [] s else cur # fields_func p [] s) else fields_func p (cur @ [c]) s)"

definition address_separator :: "char \<Rightarrow> bool" where
  "address_separator c \<longleftrightarrow>
     c = CHR '','' \<or> c = CHR '';'' \<or> c = CHR 0x0A \<or> c = CHR 0x0D \<or> c = CHR 0x09 \<or> c = CHR '' ''"

definition parseAddressInput :: "string \<Rightarrow> string list \<Rightarrow> string list" where
  "parseAddressInput raw wallets =
     dedup_by (\<lambda>a. a) []
       (filter (\<lambda>addr. addr \<noteq> [] \<and> \<not> has_prefix addr ''#'') (map trim_space (wallets @ fields_func address_separator [] raw)))"

text \<open>\<open>filepath.Base\<close>.\<close>

definition path_base :: "string \<Rightarrow> string" where
  "path_base path =
     (if path = [] then ''.''
      else let p = rev (dropWhile (\<lambda>c. c = CHR ''/'') (rev path)) in
        if p = [] then ''/'' else last (split_on CHR ''/'' p))"

definition trim_prefix :: "string \<Rightarrow> string \<Rightarrow> string" where
  "trim_prefix s p = (if has_prefix s p then drop (length p) s else s)"

section \<open>Settings\<close>

definition applyConfigOverride :: "Config \<Rightarrow> ConfigOverrideRecord \<Rightarrow> Config" where
  "applyConfigOverride cfg override =
     (let get = (\<lambda>v d. case v of None \<Rightarrow> d | Some i \<Rightarrow> i) in
      cfg\<lparr> cfg_MaxWalletsPerRun := get (ov_MaxWalletsPerRun override) (cfg_MaxWalletsPerRun cfg),
        cfg_MaxTXPagesPerWallet := get (ov_MaxTXPagesPerWallet override) (cfg_MaxTXPagesPerWallet cfg),
        cfg_MaxTXPerWallet := get (ov_MaxTXPerWallet override) (cfg_MaxTXPerWallet cfg),
        cfg_MaxConcurrentWallets := get (ov_MaxConcurrentWallets override) (cfg_MaxConcurrentWallets cfg),
        cfg_WalletSyncTimeoutSeconds := get (ov_WalletSyncTimeoutSeconds override) (cfg_WalletSyncTimeoutSeconds cfg),
        cfg_RunTimeoutSeconds := get (ov_RunTimeoutSeconds override) (cfg_RunTimeoutSeconds cfg),
        cfg_MaxHeliusRetries := get (ov_MaxHeliusRetries override) (cfg_MaxHeliusRetries cfg),
        cfg_HeliusRequestDelayMS := get (ov_HeliusRequestDelayMS override) (cfg_HeliusRequestDelayMS cfg),
        cfg_BaselineLookbackDays := get (ov_BaselineLookbackDays override) (cfg_BaselineLookbackDays cfg),
        cfg_ScanWindowDays := get (ov_ScanWindowDays override) (cfg_ScanWindowDays cfg),
        cfg_LookalikeRecencyDays := get (ov_LookalikeRecencyDays override) (cfg_LookalikeRecencyDays cfg),
        cfg_LookalikePrefixMin := get (ov_LookalikePrefixMin override) (cfg_LookalikePrefixMin cfg),
        cfg_LookalikeSuffixMin := get (ov_LookalikeSuffixMin override) (cfg_LookalikeSuffixMin cfg),
        cfg_LookalikeSingleSideMin := get (ov_LookalikeSingleSideMin override) (cfg_LookalikeSingleSideMin cfg),
        cfg_MinInjectionCount := get (ov_MinInjectionCount override) (cfg_MinInjectionCount cfg) \<rparr>)"

definition loadSettingsOverride :: "'w Server \<Rightarrow> (ConfigOverrideRecord \<times> bool, 'w) call" where
  "loadSettingsOverride s w =
     (case sv_settings s of None \<Rightarrow> (Inr (no_override, False), w) | Some st \<Rightarrow> ss_GetConfigOverride st w)"

definition effectiveConfig :: "(string \<Rightarrow> go_error + string) \<Rightarrow> 'w Server \<Rightarrow> (Config, 'w) call" where
  "effectiveConfig parse_uri s w =
     (case loadSettingsOverride s w of
        (Inl err, w1) \<Rightarrow> (Inl err, w1)
      | (Inr (override, found), w1) \<Rightarrow>
          let cfg = applyConfigOverride (sv_cfg s) override in
          (case ValidateReadOnlyAPI parse_uri cfg of
             Some err \<Rightarrow> (Inl err, w1)
           | None \<Rightarrow> (Inr cfg, w1)))"

definition settings_json :: "Config \<Rightarrow> json" where
  "settings_json cfg = json_map
     [(''maxWalletsPerRun'', JInt (cfg_MaxWalletsPerRun cfg)), (''maxTXPagesPerWallet'', JInt (cfg_MaxTXPagesPerWallet cfg)),
      (''maxTXPerWallet'', JInt (cfg_MaxTXPerWallet cfg)), (''maxConcurrentWallets'', JInt (cfg_MaxConcurrentWallets cfg)),
      (''walletSyncTimeoutSeconds'', JInt (cfg_WalletSyncTimeoutSeconds cfg)),
      (''runTimeoutSeconds'', JInt (cfg_RunTimeoutSeconds cfg)), (''maxHeliusRetries'', JInt (cfg_MaxHeliusRetries cfg)),
      (''heliusRequestDelayMS'', JInt (cfg_HeliusRequestDelayMS cfg)),
      (''baselineLookbackDays'', JInt (cfg_BaselineLookbackDays cfg)), (''scanWindowDays'', JInt (cfg_ScanWindowDays cfg)),
      (''lookalikeRecencyDays'', JInt (cfg_LookalikeRecencyDays cfg)),
      (''lookalikePrefixMin'', JInt (cfg_LookalikePrefixMin cfg)), (''lookalikeSuffixMin'', JInt (cfg_LookalikeSuffixMin cfg)),
      (''lookalikeSingleSideMin'', JInt (cfg_LookalikeSingleSideMin cfg)),
      (''minInjectionCount'', JInt (cfg_MinInjectionCount cfg))]"

section \<open>What the handlers take from elsewhere\<close>

record runPayload =
  py_Addresses :: string
  py_WalletAddresses :: "string list"
  py_ScanStart :: string
  py_ScanEnd :: string
  py_BaselineLookbackDays :: "int option"

record dirEntry =
  de_Name :: string
  de_IsDir :: bool
  de_Info :: "(int \<times> gotime) option"

text \<open>\<open>json.Unmarshal\<close> into the two payloads, \<open>url.ParseRequestURI\<close> and \<open>time.Parse\<close> for RFC 3339, the clock, the
  directories, SHA-256, the text of \<open>numeric\<close> and \<open>timestamptz\<close> columns, and a rate as a JSON number. A directory
  or a file that does not exist is \<open>None\<close>.\<close>

record 'w platform =
  pf_DecodeRun :: "string \<Rightarrow> runPayload option"
  pf_DecodeSettings :: "string \<Rightarrow> ConfigOverrideRecord option"
  pf_ParseURI :: "string \<Rightarrow> go_error + string"
  pf_ParseTime :: "string \<Rightarrow> gotime option"
  pf_Now :: "'w \<Rightarrow> gotime"
  pf_ReadDir :: "string \<Rightarrow> (dirEntry list option, 'w) call"
  pf_Stat :: "string \<Rightarrow> (unit option, 'w) call"
  pf_Files :: "'w files"
  pf_SHA :: "string \<Rightarrow> string"
  pf_SQL :: sql_text
  pf_Rate :: "rat \<Rightarrow> json"

text \<open>\<open>io.ReadAll(io.LimitReader(r.Body, 1<<20))\<close>.\<close>

definition limited_body :: "Request \<Rightarrow> go_error + string" where
  "limited_body r = (case rq_Body r of Inl e \<Rightarrow> Inl e | Inr b \<Rightarrow> Inr (take 1048576 b))"

end
