(* ===== verification/Api_Server.thy ===== *)
theory Api_Server
imports Api_Core
begin

text \<open>
  \<open>internal/api/server.go\<close>, second part: the handlers, the routes, and the checks in front of them. A handler maps
  a request and the world to the response and the world after it. The mux is a table of the registered paths: a
  request it redirects because its path is not canonical is not looked at here.
\<close>

section \<open>Pages\<close>

definition paged :: "(int \<Rightarrow> int \<Rightarrow> ('e list \<times> int, 'w) call) \<Rightarrow> ('e \<Rightarrow> json) \<Rightarrow> 'w handler" where
  "paged list_rows item r w =
     (if rq_Method r \<noteq> ''GET'' then (methodNotAllowed, w)
      else case parsePage r of (page, pageSize) \<Rightarrow>
      (case list_rows pageSize (page_offset page pageSize) w of
        (Inl err, w1) \<Rightarrow> (writeError err, w1)
      | (Inr (rows, n), w1) \<Rightarrow> (writePaged (map item rows) n page pageSize, w1)))"

definition json_utc :: "gotime \<Rightarrow> json" where
  "json_utc t = JString (format_rfc3339 t)"

definition json_utc_ptr :: "gotime option \<Rightarrow> json" where
  "json_utc_ptr v = (case v of None \<Rightarrow> JString [] | Some t \<Rightarrow> json_utc t)"

definition candidate_item :: "CandidateListRecord \<Rightarrow> json" where
  "candidate_item rec = json_map
     [(''walletSyncRunId'', JInt (cl_WalletSyncRunID rec)), (''focalWallet'', JString (cl_FocalWallet rec)),
      (''signature'', JString (cl_Signature rec)), (''transferIndex'', JInt (cl_TransferIndex rec)),
      (''blockTime'', json_utc (cl_BlockTime rec)),
      (''suspiciousCounterparty'', JString (cl_SuspiciousCounterparty rec)),
      (''matchedLegitCounterparty'', JString (cl_MatchedLegitCounterparty rec)),
      (''repeatInjectionCount'', JInt (cl_RepeatInjectionCount rec)), (''recencyDays'', JInt (cl_RecencyDays rec)),
      (''unknownGateReason'', JString (cl_UnknownGateReason rec)), (''incompleteWindow'', JBool (cl_IncompleteWindow rec))]"

definition handleCandidates :: "'w Server \<Rightarrow> 'w handler" where
  "handleCandidates s = paged (rr_ListCandidates (sv_repo s)) candidate_item"

definition transaction_item :: "TransactionListRecord \<Rightarrow> json" where
  "transaction_item rec = json_map
     [(''focalWallet'', JString (tl_FocalWallet rec)), (''signature'', JString (tl_Signature rec)),
      (''transferIndex'', JInt (tl_TransferIndex rec)), (''blockTime'', json_utc (tl_BlockTime rec)),
      (''normalizationStatus'', JString (tl_NormalizationStatus rec)),
      (''poisoningEligible'', JBool (tl_PoisoningEligible rec)), (''relationType'', JString (tl_RelationType rec)),
      (''dustStatus'', JString (tl_DustStatus rec)), (''amountRaw'', JString (tl_AmountRaw rec)),
      (''assetType'', JString (tl_AssetType rec))]"

definition handleTransactions :: "'w Server \<Rightarrow> 'w handler" where
  "handleTransactions s = paged (rr_ListTransactions (sv_repo s)) transaction_item"

definition run_item :: "IngestionRunListRecord \<Rightarrow> json" where
  "run_item rec = json_map
     [(''runId'', JInt (rl_ID rec)), (''status'', JString (rl_Status rec)), (''startedAt'', json_utc (rl_StartedAt rec)),
      (''completedAt'', json_utc_ptr (rl_CompletedAt rec)), (''walletsProcessed'', JInt (rl_WalletsProcessed rec)),
      (''walletsFailed'', JInt (rl_WalletsFailed rec)), (''walletsSkipped'', JInt (rl_WalletsSkipped rec)),
      (''incompleteWindows'', JInt (rl_IncompleteWindows rec)),
      (''truncationWalletRate'', JString (rl_TruncationWalletRate rec)),
      (''unknownGatePresent'', JBool (rl_UnknownGatePresent rec))]"

definition wallet_sync_item :: "WalletSyncListRecord \<Rightarrow> json" where
  "wallet_sync_item rec = json_map
     [(''walletSyncRunId'', JInt (wl_WalletSyncRunID rec)), (''runId'', JInt (wl_IngestionRunID rec)),
      (''focalWallet'', JString (wl_FocalWallet rec)), (''status'', JString (wl_Status rec)),
      (''baselineStartAt'', json_utc (wl_BaselineStartAt rec)), (''baselineEndAt'', json_utc (wl_BaselineEndAt rec)),
      (''scanStartAt'', json_utc (wl_ScanStartAt rec)), (''scanEndAt'', json_utc (wl_ScanEndAt rec)),
      (''baselineComplete'', JBool (wl_BaselineComplete rec)), (''incompleteWindow'', JBool (wl_IncompleteWindow rec)),
      (''unknownGateReason'', JString (wl_UnknownGateReason rec)),
      (''transactionsFetched'', JInt (wl_TransactionsFetched rec)),
      (''unsupportedAssetCount'', JInt (wl_UnsupportedAssetCount rec)),
      (''unknownGateBlockCount'', JInt (wl_UnknownGateBlockCount rec)),
      (''candidateBlockCount'', JInt (wl_CandidateBlockCount rec)),
      (''truncationReason'', JString (wl_TruncationReason rec)), (''updatedAt'', json_utc (wl_UpdatedAt rec))]"

definition unexplained :: "WalletSyncListRecord \<Rightarrow> bool" where
  "unexplained rec \<longleftrightarrow> wl_IncompleteWindow rec \<and> trim_space (wl_UnknownGateReason rec) = []"

definition handleWalletSync :: "'w Server \<Rightarrow> 'w handler" where
  "handleWalletSync s r w =
     (if rq_Method r \<noteq> ''GET'' then (methodNotAllowed, w)
      else case parsePage r of (page, pageSize) \<Rightarrow>
      (case rr_ListWalletSyncRuns (sv_repo s) pageSize (page_offset page pageSize) w of
        (Inl err, w1) \<Rightarrow> (writeError err, w1)
      | (Inr (rows, n), w1) \<Rightarrow>
          if list_ex unexplained rows
          then (error_response 500 ''wallet sync row missing unknown_gate_reason while incomplete_window=true'', w1)
          else (writePaged (map wallet_sync_item rows) n page pageSize, w1)))"

definition counterparty_item :: "CounterpartyListRecord \<Rightarrow> json" where
  "counterparty_item rec = json_map
     [(''focalWallet'', JString (pl_FocalWallet rec)), (''counterpartyAddress'', JString (pl_CounterpartyAddress rec)),
      (''firstSeenAt'', json_utc (pl_FirstSeenAt rec)), (''lastSeenAt'', json_utc (pl_LastSeenAt rec)),
      (''inboundCount'', JInt (pl_InboundCount rec)), (''outboundCount'', JInt (pl_OutboundCount rec)),
      (''lastOutboundAt'', json_utc_ptr (pl_LastOutboundAt rec)), (''candidateLinks'', JInt (pl_CandidateLinks rec))]"

definition handleCounterparties :: "'w Server \<Rightarrow> 'w handler" where
  "handleCounterparties s = paged (rr_ListCounterparties (sv_repo s)) counterparty_item"

section \<open>Health and overview\<close>

definition handleHealth :: "'w handler" where
  "handleHealth r w = (writeJSON 200 (json_map [(''status'', JString ''ok'')]), w)"

definition overview_item :: "OverviewCandidateRecord \<Rightarrow> json" where
  "overview_item rec = JObject
     [(''walletSyncRunId'', JInt (oc_WalletSyncRunID rec)), (''focalWallet'', JString (oc_FocalWallet rec)),
      (''signature'', JString (oc_Signature rec)), (''transferIndex'', JInt (oc_TransferIndex rec)),
      (''blockTime'', json_utc (oc_BlockTime rec)),
      (''suspiciousCounterparty'', JString (oc_SuspiciousCounterparty rec)),
      (''repeatInjectionCount'', JInt (oc_RepeatInjectionCount rec)), (''recencyDays'', JInt (oc_RecencyDays rec))]"

definition overview_json :: "'w platform \<Rightarrow> Config \<Rightarrow> OverviewMetricsRecord \<Rightarrow> OverviewCandidateRecord list \<Rightarrow> json" where
  "overview_json pf cfg metrics recent = json_map
     [(''metrics'', json_map
        [(''candidatesEmitted'', JInt (om_CandidatesEmitted metrics)),
         (''unknownGateBlocks'', JInt (om_UnknownGateBlocks metrics)),
         (''transactionsScanned'', JInt (om_TransactionsScanned metrics)),
         (''passedTransactions'', JInt (om_PassedTransactions metrics)),
         (''lastScanUpdateAt'', json_utc_ptr (om_LastScanUpdateAt metrics)),
         (''scanWindowLabel'', JString (show_int (cfg_ScanWindowDays cfg) @ ''d'')),
         (''passRatePct'', pf_Rate pf
            (if 0 < om_TransactionsScanned metrics
             then of_int (om_PassedTransactions metrics) / of_int (om_TransactionsScanned metrics) * 100 else 0))]),
      (''recentCandidates'', JArray (map overview_item recent))]"

definition handleOverview :: "'w platform \<Rightarrow> 'w Server \<Rightarrow> 'w handler" where
  "handleOverview pf s r w =
     (if rq_Method r \<noteq> ''GET'' then (methodNotAllowed, w)
      else let since = pf_Now pf w + wrap64 (- cfg_ScanWindowDays (sv_cfg s) * 24 * nanos_per_hour) in
      (case rr_GetOverviewMetrics (sv_repo s) since w of
        (Inl err, w1) \<Rightarrow> (writeError err, w1)
      | (Inr metrics, w1) \<Rightarrow>
      (case rr_ListOverviewCandidates (sv_repo s) 5 w1 of
        (Inl err, w2) \<Rightarrow> (writeError err, w2)
      | (Inr recent, w2) \<Rightarrow> (writeJSON 200 (overview_json pf (sv_cfg s) metrics recent), w2))))"

section \<open>Starting a run\<close>

definition requested_end :: "'w platform \<Rightarrow> runPayload \<Rightarrow> gotime \<Rightarrow> gotime option" where
  "requested_end pf p now =
     (if trim_space (py_ScanEnd p) = [] then Some now else pf_ParseTime pf (trim_space (py_ScanEnd p)))"

definition requested_start :: "'w platform \<Rightarrow> runPayload \<Rightarrow> Config \<Rightarrow> gotime \<Rightarrow> gotime option" where
  "requested_start pf p cfg scanEnd =
     (if trim_space (py_ScanStart p) = [] then Some (scanEnd + wrap64 (- cfg_ScanWindowDays cfg * 24 * nanos_per_hour))
      else pf_ParseTime pf (trim_space (py_ScanStart p)))"

definition run_started_json :: "RunStartResult \<Rightarrow> json" where
  "run_started_json res = json_map
     [(''runId'', JInt (sr_RunID res)), (''walletCount'', JInt (sr_WalletCount res)),
      (''scanStart'', json_utc (sr_ScanStart res)), (''scanEnd'', json_utc (sr_ScanEnd res)),
      (''baselineLookbackDays'', JInt (sr_BaselineLookbackDays res)), (''status'', JString ''running'')]"

definition start_run ::
  "'w platform \<Rightarrow> 'w RunStarter \<Rightarrow> runPayload \<Rightarrow> string list \<Rightarrow> Config \<Rightarrow> 'w \<Rightarrow> Response \<times> 'w" where
  "start_run pf starter p addresses cfg w =
     (if addresses = [] then (error_response 400 ''at least one wallet address is required'', w)
      else if cfg_MaxWalletsPerRun cfg < int (length addresses)
      then (error_response 400 (''wallet address count '' @ show_int (int (length addresses)) @
              '' exceeds MAX_WALLETS_PER_RUN='' @ show_int (cfg_MaxWalletsPerRun cfg)), w)
      else case requested_end pf p (pf_Now pf w) of
        None \<Rightarrow> (error_response 400 ''invalid scanEnd; expected RFC3339'', w)
      | Some scanEnd \<Rightarrow>
      (case requested_start pf p cfg scanEnd of
        None \<Rightarrow> (error_response 400 ''invalid scanStart; expected RFC3339'', w)
      | Some scanStart \<Rightarrow>
          if scanEnd \<le> scanStart then (error_response 400 ''scanStart must be before scanEnd'', w)
          else let days = (case py_BaselineLookbackDays p of None \<Rightarrow> cfg_BaselineLookbackDays cfg | Some d \<Rightarrow> d) in
          if wrap64 (days * 24 * nanos_per_hour) \<le> sub_time scanEnd scanStart
          then (error_response 400 ''baselineLookbackDays must be greater than the scan window days'', w)
          else (case starter \<lparr> rs_WalletAddresses = addresses, rs_ScanStart = scanStart, rs_ScanEnd = scanEnd,
                  rs_BaselineLookbackDays = days, rs_RequestedBy = ''web manual address run'' \<rparr> w of
              (Inl err, w1) \<Rightarrow> (writeError err, w1)
            | (Inr res, w1) \<Rightarrow> (writeJSON 202 (run_started_json res), w1))))"

definition handleRunStart :: "'w platform \<Rightarrow> 'w Server \<Rightarrow> 'w handler" where
  "handleRunStart pf s r w =
     (case sv_runStarter s of
        None \<Rightarrow> (error_response 501 ''manual run start is not configured'', w)
      | Some starter \<Rightarrow>
      (case limited_body r of
        Inl _ \<Rightarrow> (error_response 400 ''invalid body'', w)
      | Inr body \<Rightarrow>
      (case pf_DecodeRun pf body of
        None \<Rightarrow> (error_response 400 ''invalid json'', w)
      | Some p \<Rightarrow>
      (case effectiveConfig (pf_ParseURI pf) s w of
        (Inl err, w1) \<Rightarrow> (writeError err, w1)
      | (Inr cfg, w1) \<Rightarrow>
          start_run pf starter p (parseAddressInput (py_Addresses p) (py_WalletAddresses p)) cfg w1))))"

definition handleRuns :: "'w platform \<Rightarrow> 'w Server \<Rightarrow> 'w handler" where
  "handleRuns pf s r w =
     (if rq_Method r = ''POST'' then handleRunStart pf s r w else paged (rr_ListRuns (sv_repo s)) run_item r w)"

section \<open>Settings\<close>

definition handleSettingsGet :: "'w platform \<Rightarrow> 'w Server \<Rightarrow> 'w handler" where
  "handleSettingsGet pf s r w =
     (case effectiveConfig (pf_ParseURI pf) s w of
        (Inl err, w1) \<Rightarrow> (writeError err, w1)
      | (Inr cfg, w1) \<Rightarrow> (writeJSON 200 (settings_json cfg), w1))"

definition handleSettingsWrite :: "'w platform \<Rightarrow> 'w Server \<Rightarrow> 'w handler" where
  "handleSettingsWrite pf s r w =
     (case sv_settings s of
        None \<Rightarrow> (error_response 501 ''settings write is not configured'', w)
      | Some st \<Rightarrow>
      (case limited_body r of
        Inl _ \<Rightarrow> (error_response 400 ''invalid body'', w)
      | Inr body \<Rightarrow>
      (case pf_DecodeSettings pf body of
        None \<Rightarrow> (error_response 400 ''invalid json'', w)
      | Some rec \<Rightarrow>
      (case ValidateReadOnlyAPI (pf_ParseURI pf) (applyConfigOverride (sv_cfg s) rec) of
        Some err \<Rightarrow> (error_response 400 (err_msg err), w)
      | None \<Rightarrow>
      (case ss_UpsertConfigOverride st rec w of
        (Inl err, w1) \<Rightarrow> (writeError err, w1)
      | (Inr _, w1) \<Rightarrow> handleSettingsGet pf s r w1)))))"

definition handleSettings :: "'w platform \<Rightarrow> 'w Server \<Rightarrow> 'w handler" where
  "handleSettings pf s r w =
     (if rq_Method r = ''GET'' then handleSettingsGet pf s r w
      else if rq_Method r = ''PUT'' \<or> rq_Method r = ''PATCH'' then handleSettingsWrite pf s r w
      else (methodNotAllowed, w))"

section \<open>Reports\<close>

definition candidateExplanationPayload :: "CandidateExplanationRecord \<Rightarrow> json" where
  "candidateExplanationPayload rec = json_map
     [(''walletSyncRunId'', JInt (ce_WalletSyncRunID rec)), (''runId'', JInt (ce_IngestionRunID rec)),
      (''focalWallet'', JString (ce_FocalWallet rec)), (''signature'', JString (ce_Signature rec)),
      (''transferIndex'', JInt (ce_TransferIndex rec)), (''blockTime'', json_utc (ce_BlockTime rec)),
      (''suspiciousCounterparty'', JString (ce_SuspiciousCounterparty rec)),
      (''matchedLegitCounterparty'', JString (ce_MatchedLegitCounterparty rec)),
      (''relationType'', JString (ce_RelationType rec)), (''assetType'', JString (ce_AssetType rec)),
      (''normalizationStatus'', JString (ce_NormalizationStatus rec)),
      (''poisoningEligible'', JBool (ce_PoisoningEligible rec)), (''sourceOwner'', JString (ce_SourceOwner rec)),
      (''destinationOwner'', JString (ce_DestinationOwner rec)),
      (''fromTokenAccount'', JString (ce_FromTokenAccount rec)), (''toTokenAccount'', JString (ce_ToTokenAccount rec)),
      (''tokenMint'', JString (ce_TokenMint rec)), (''amountRaw'', JString (ce_AmountRaw rec)),
      (''dustStatus'', JString (ce_DustStatus rec)), (''isDust'', JBool (ce_IsDust rec)),
      (''isZeroValue'', JBool (ce_IsZeroValue rec)), (''isInbound'', JBool (ce_IsInbound rec)),
      (''isNewCounterparty'', JBool (ce_IsNewCounterparty rec)), (''recencyDays'', JInt (ce_RecencyDays rec)),
      (''repeatInjectionCount'', JInt (ce_RepeatInjectionCount rec)),
      (''lookalikePrefixMatch'', JInt (ce_LookalikePrefixMatch rec)),
      (''lookalikeSuffixMatch'', JInt (ce_LookalikeSuffixMatch rec)),
      (''matchRuleVersion'', JString (ce_MatchRuleVersion rec)),
      (''legitLastSeenAt'', json_utc (ce_LegitLastSeenAt rec)), (''baselineComplete'', JBool (ce_BaselineComplete rec)),
      (''incompleteWindow'', JBool (ce_IncompleteWindow rec)), (''unknownGateReason'', JString (ce_UnknownGateReason rec)),
      (''scanStartAt'', json_utc (ce_ScanStartAt rec)), (''scanEndAt'', json_utc (ce_ScanEndAt rec)),
      (''baselineStartAt'', json_utc (ce_BaselineStartAt rec)), (''baselineEndAt'', json_utc (ce_BaselineEndAt rec)),
      (''sourceReferences'', json_map
        [(''walletSyncRunId'', JInt (ce_WalletSyncRunID rec)), (''runId'', JInt (ce_IngestionRunID rec)),
         (''transactionId'', JInt (ce_TransactionID rec)), (''walletTransactionId'', JInt (ce_WalletTransactionID rec)),
         (''counterpartyId'', JInt (ce_CounterpartyID rec))])]"

definition handleCandidateDetail :: "'w Server \<Rightarrow> 'w handler" where
  "handleCandidateDetail s r w =
     (if rq_Method r \<noteq> ''GET'' then (methodNotAllowed, w)
      else case split_on CHR ''/'' (trim_prefix (rq_Path r) ''/api/candidates/'') of
        [p0, p1, p2] \<Rightarrow>
          (case atoi p0 of
             None \<Rightarrow> (error_response 400 ''invalid walletSyncRunId'', w)
           | Some walletSyncRunID \<Rightarrow>
               if walletSyncRunID \<le> 0 then (error_response 400 ''invalid walletSyncRunId'', w)
               else if trim_space p1 = [] then (error_response 400 ''invalid signature'', w)
               else (case atoi p2 of
                   None \<Rightarrow> (error_response 400 ''invalid transferIndex'', w)
                 | Some transferIndex \<Rightarrow>
                     if transferIndex < 0 then (error_response 400 ''invalid transferIndex'', w)
                     else (case rr_GetCandidateExplanation (sv_repo s) walletSyncRunID (trim_space p1) transferIndex w of
                         (Inl err, w1) \<Rightarrow> (writeError err, w1)
                       | (Inr None, w1) \<Rightarrow> (error_response 404 ''candidate not found'', w1)
                       | (Inr (Some rec), w1) \<Rightarrow> (writeJSON 200 (candidateExplanationPayload rec), w1))))
      | _ \<Rightarrow> (error_response 400 ''expected path: /api/candidates/:walletSyncRunId/:signature/:transferIndex'', w))"

definition for_run :: "(int \<Rightarrow> 'w handler) \<Rightarrow> 'w handler" where
  "for_run h r w = (case parseRunID r of Inl response \<Rightarrow> (response, w) | Inr runID \<Rightarrow> h runID r w)"

definition handleCandidateReports :: "'w Server \<Rightarrow> 'w handler" where
  "handleCandidateReports s r w =
     (if rq_Method r \<noteq> ''GET'' then (methodNotAllowed, w)
      else for_run (\<lambda>runID. paged (rr_ListCandidateExplanationsForRun (sv_repo s) runID) candidateExplanationPayload) r w)"

definition inspection_item :: "WalletInspectionSummaryRecord \<Rightarrow> json" where
  "inspection_item rec = json_map
     [(''runId'', JInt (is_RunID rec)), (''walletSyncRunId'', JInt (is_WalletSyncRunID rec)),
      (''focalWallet'', JString (is_FocalWallet rec)), (''candidateCount'', JInt (is_CandidateCount rec)),
      (''unknownGateBlockCount'', JInt (is_UnknownGateBlockCount rec)),
      (''incompleteWindow'', JBool (is_IncompleteWindow rec)), (''unknownGateReason'', JString (is_UnknownGateReason rec)),
      (''truncationReason'', JString (is_TruncationReason rec)), (''baselineComplete'', JBool (is_BaselineComplete rec)),
      (''scanStartAt'', json_utc (is_ScanStartAt rec)), (''scanEndAt'', json_utc (is_ScanEndAt rec)),
      (''baselineStartAt'', json_utc (is_BaselineStartAt rec)), (''baselineEndAt'', json_utc (is_BaselineEndAt rec)),
      (''transactionsFetched'', JInt (is_TransactionsFetched rec)),
      (''sourceReferences'', json_map
        [(''walletSyncRunId'', JInt (is_WalletSyncRunID rec)), (''runId'', JInt (is_RunID rec))])]"

definition handleWalletReports :: "'w Server \<Rightarrow> 'w handler" where
  "handleWalletReports s r w =
     (if rq_Method r \<noteq> ''GET'' then (methodNotAllowed, w)
      else for_run (\<lambda>runID. paged (rr_ListWalletInspectionSummaryForRun (sv_repo s) runID) inspection_item) r w)"

section \<open>Exports\<close>

definition run_dir :: "'w Server \<Rightarrow> int \<Rightarrow> string" where
  "run_dir s runID = path_join [sv_exportRoot s, ''run_'' @ show_int runID]"

definition run_filter :: "int \<Rightarrow> ExportFilter" where
  "run_filter runID = \<lparr> ef_RunID = Some runID, ef_StartedAtFrom = None, ef_StartedAtTo = None \<rparr>"

definition download_url :: "int \<Rightarrow> string \<Rightarrow> string" where
  "download_url runID name = ''/api/exports/download?run_id='' @ show_int runID @ ''&file='' @ name"

definition manifest_item :: "int \<Rightarrow> ManifestFile \<Rightarrow> json" where
  "manifest_item runID f = JObject
     [(''name'', JString (mf_Name f)), (''rowCount'', JInt (mf_RowCount f)), (''sha256'', JString (mf_SHA256 f)),
      (''downloadUrl'', JString (download_url runID (mf_Name f)))]"

definition export_run :: "'w platform \<Rightarrow> 'w DatasetSource \<Rightarrow> int \<Rightarrow> string \<Rightarrow> (Manifest, 'w) call" where
  "export_run pf src runID outDir =
     ExportDataset (pf_SHA pf) (pf_SQL pf) (pf_Files pf) (Some src) \<lparr> xo_OutDir = outDir, xo_Filter = run_filter runID \<rparr>"

definition handleExportGenerate :: "'w platform \<Rightarrow> 'w Server \<Rightarrow> 'w handler" where
  "handleExportGenerate pf s r w =
     (if rq_Method r \<noteq> ''GET'' \<and> rq_Method r \<noteq> ''POST'' then (methodNotAllowed, w)
      else case sv_exportSource s of
        None \<Rightarrow> (error_response 501 ''export generation is not configured'', w)
      | Some src \<Rightarrow>
      for_run (\<lambda>runID r w.
        case export_run pf src runID (run_dir s runID) w of
          (Inl err, w1) \<Rightarrow> (writeError err, w1)
        | (Inr m, w1) \<Rightarrow> (writeJSON 200 (json_map
            [(''runId'', JInt runID), (''outDir'', JString (run_dir s runID)), (''schemaVersion'', JString (mn_SchemaVersion m)),
             (''generatedAt'', JString (mn_GeneratedAt m)), (''files'', JArray (map (manifest_item runID) (mn_Files m)))]), w1)) r w)"

definition exportJobPayload :: "ExportJobRecord \<Rightarrow> json" where
  "exportJobPayload rec = json_map
     [(''jobId'', JInt (jr_ID rec)), (''runId'', JInt (jr_RunID rec)), (''status'', JString (jr_Status rec)),
      (''outDir'', JString (jr_OutDir rec)), (''errorMessage'', JString (jr_ErrorMessage rec)),
      (''createdAt'', json_utc (jr_CreatedAt rec)), (''startedAt'', json_utc_ptr (jr_StartedAt rec)),
      (''completedAt'', json_utc_ptr (jr_CompletedAt rec))]"

definition handleExportJobs :: "'w Server \<Rightarrow> 'w handler" where
  "handleExportJobs s r w =
     (case (sv_exportJobs s, sv_exportSource s) of
        (Some jobs, Some src) \<Rightarrow>
          if rq_Method r = ''POST''
          then for_run (\<lambda>runID r w. case js_CreateExportJob jobs runID (run_dir s runID) w of
              (Inl err, w1) \<Rightarrow> (writeError err, w1)
            | (Inr jobID, w1) \<Rightarrow> ((writeJSON 202 (json_map
                [(''jobId'', JInt jobID), (''runId'', JInt runID), (''status'', JString ''queued'')]))
                \<lparr> re_Started := [(jobID, runID, run_dir s runID)] \<rparr>, w1)) r w
          else if rq_Method r = ''GET''
          then for_run (\<lambda>runID r w. case js_ListExportJobsForRun jobs runID 50 w of
              (Inl err, w1) \<Rightarrow> (writeError err, w1)
            | (Inr rows, w1) \<Rightarrow> (writeJSON 200 (json_map [(''items'', JArray (map exportJobPayload rows))]), w1)) r w
          else (methodNotAllowed, w)
      | _ \<Rightarrow> (error_response 501 ''export jobs are not configured'', w))"

definition handleExportJobByID :: "'w Server \<Rightarrow> 'w handler" where
  "handleExportJobByID s r w =
     (if rq_Method r \<noteq> ''GET'' then (methodNotAllowed, w)
      else case sv_exportJobs s of
        None \<Rightarrow> (error_response 501 ''export jobs are not configured'', w)
      | Some jobs \<Rightarrow>
      (case atoi (trim_space (trim_prefix (rq_Path r) ''/api/exports/jobs/'')) of
        None \<Rightarrow> (error_response 400 ''invalid job id'', w)
      | Some jobID \<Rightarrow>
          if jobID \<le> 0 then (error_response 400 ''invalid job id'', w)
          else (case js_GetExportJob jobs jobID w of
              (Inl err, w1) \<Rightarrow> (writeError err, w1)
            | (Inr None, w1) \<Rightarrow> (error_response 404 ''job not found'', w1)
            | (Inr (Some rec), w1) \<Rightarrow> (writeJSON 200 (exportJobPayload rec), w1))))"

text \<open>The background job, with the errors of its updates dropped.\<close>

definition runExportJob :: "'w platform \<Rightarrow> 'w ExportJobStore \<Rightarrow> 'w DatasetSource \<Rightarrow> int \<Rightarrow> int \<Rightarrow> string \<Rightarrow> 'w \<Rightarrow> 'w" where
  "runExportJob pf jobs src jobID runID outDir w =
     (let w1 = snd (js_UpdateExportJobStatus jobs jobID ''running'' None (Some (pf_Now pf w)) None w) in
      case export_run pf src runID outDir w1 of
        (Inl err, w2) \<Rightarrow> snd (js_UpdateExportJobStatus jobs jobID ''failed'' (Some (err_msg err)) None (Some (pf_Now pf w2)) w2)
      | (Inr m, w2) \<Rightarrow> snd (js_UpdateExportJobStatus jobs jobID ''succeeded'' None None (Some (pf_Now pf w2)) w2))"

definition dir_items :: "int \<Rightarrow> dirEntry list \<Rightarrow> (string \<times> json) list" where
  "dir_items runID entries =
     [(de_Name e, JObject [(''name'', JString (de_Name e)), (''sizeBytes'', JInt bytes), (''modifiedAt'', json_utc modified),
        (''downloadUrl'', JString (download_url runID (de_Name e)))]).
        e \<leftarrow> entries, \<not> de_IsDir e, (bytes, modified) \<leftarrow> (case de_Info e of None \<Rightarrow> [] | Some i \<Rightarrow> [i])]"

definition handleExportFiles :: "'w platform \<Rightarrow> 'w Server \<Rightarrow> 'w handler" where
  "handleExportFiles pf s r w =
     (if rq_Method r \<noteq> ''GET'' then (methodNotAllowed, w)
      else for_run (\<lambda>runID r w.
        case pf_ReadDir pf (run_dir s runID) w of
          (Inl err, w1) \<Rightarrow> (writeError err, w1)
        | (Inr entries, w1) \<Rightarrow>
            let items = dir_items runID (case entries of None \<Rightarrow> [] | Some es \<Rightarrow> es) in
            (writeJSON 200 (json_map [(''runId'', JInt runID),
              (''files'', JArray (map snd (sort_slice (\<lambda>a b. fst a < fst b) items)))]), w1)) r w)"

definition handleExportDownload :: "'w platform \<Rightarrow> 'w Server \<Rightarrow> 'w handler" where
  "handleExportDownload pf s r w =
     (if rq_Method r \<noteq> ''GET'' then (methodNotAllowed, w)
      else for_run (\<lambda>runID r w.
        let name = trim_space (rq_Query r ''file''); base = path_base name in
        if name = [] then (error_response 400 ''file is required'', w)
        else if base \<noteq> name then (error_response 400 ''invalid file'', w)
        else let path = path_join [sv_exportRoot s, ''run_'' @ show_int runID, base] in
          (case pf_Stat pf path w of
             (Inl err, w1) \<Rightarrow> (writeError err, w1)
           | (Inr None, w1) \<Rightarrow> (error_response 404 ''file not found'', w1)
           | (Inr (Some _), w1) \<Rightarrow>
               (\<lparr> re_Status = 200, re_Header = [(''Content-Disposition'', ''attachment; filename='' @ go_quote base)],
                  re_Payload = FilePayload path, re_Started = [] \<rparr>, w1))) r w)"

section \<open>Operations\<close>

definition ops_item :: "OpsRunHealthRecord \<Rightarrow> json" where
  "ops_item rec = json_map
     [(''runId'', JInt (or_RunID rec)), (''status'', JString (or_Status rec)), (''startedAt'', json_utc (or_StartedAt rec)),
      (''completedAt'', json_utc_ptr (or_CompletedAt rec)), (''walletsRequested'', JInt (or_WalletsRequested rec)),
      (''walletsProcessed'', JInt (or_WalletsProcessed rec)), (''walletsFailed'', JInt (or_WalletsFailed rec)),
      (''walletsSkipped'', JInt (or_WalletsSkipped rec)),
      (''truncationWalletRate'', JString (or_TruncationWalletRate rec)),
      (''retryExhaustedCount'', JInt (or_RetryExhaustedCount rec)),
      (''walletTimeoutCount'', JInt (or_WalletTimeoutCount rec)), (''walletCapHitCount'', JInt (or_WalletCapHitCount rec)),
      (''unsupportedAssetCount'', JInt (or_UnsupportedAssetCount rec)),
      (''unknownGateBlockCount'', JInt (or_UnknownGateBlockCount rec)),
      (''candidateBlockCount'', JInt (or_CandidateBlockCount rec))]"

definition ops_missing :: Response where
  "ops_missing = error_response 501 ''ops read model is not configured''"

definition handleOpsRuns :: "'w Server \<Rightarrow> 'w handler" where
  "handleOpsRuns s r w =
     (if rq_Method r \<noteq> ''GET'' then (methodNotAllowed, w)
      else case sv_ops s of None \<Rightarrow> (ops_missing, w) | Some ops \<Rightarrow> paged (os_ListOpsRunHealth ops) ops_item r w)"

definition handleOpsWalletSync :: "'w Server \<Rightarrow> 'w handler" where
  "handleOpsWalletSync = handleWalletSync"

definition handleOpsFailures :: "'w Server \<Rightarrow> 'w handler" where
  "handleOpsFailures s r w =
     (if rq_Method r \<noteq> ''GET'' then (methodNotAllowed, w)
      else case sv_ops s of
        None \<Rightarrow> (ops_missing, w)
      | Some ops \<Rightarrow>
      (case os_ListFailureClassCounts ops w of
        (Inl err, w1) \<Rightarrow> (writeError err, w1)
      | (Inr rows, w1) \<Rightarrow> (writeJSON 200 (json_map [(''items'', JArray (map (\<lambda>rec. json_map
            [(''failureClass'', JString (fc_FailureClass rec)), (''count'', JInt (fc_Count rec))]) rows))]), w1)))"

section \<open>Routes\<close>

definition routes :: "'w platform \<Rightarrow> 'w Server \<Rightarrow> (string \<times> 'w handler) list" where
  "routes pf s =
     [(''/api/overview'', handleOverview pf s), (''/api/candidates'', handleCandidates s),
      (''/api/reports/candidates'', handleCandidateReports s), (''/api/reports/wallets'', handleWalletReports s),
      (''/api/exports/generate'', handleExportGenerate pf s), (''/api/exports/jobs'', handleExportJobs s),
      (''/api/exports/files'', handleExportFiles pf s), (''/api/exports/download'', handleExportDownload pf s),
      (''/api/ops/runs'', handleOpsRuns s), (''/api/ops/wallet-sync'', handleOpsWalletSync s),
      (''/api/ops/failures'', handleOpsFailures s), (''/api/transactions'', handleTransactions s),
      (''/api/runs'', handleRuns pf s), (''/api/wallet-sync'', handleWalletSync s),
      (''/api/counterparties'', handleCounterparties s), (''/api/settings'', handleSettings pf s), (''/healthz'', handleHealth)]"

definition not_found :: Response where
  "not_found = \<lparr> re_Status = 404, re_Header = [(''Content-Type'', ''text/plain; charset=utf-8'')],
     re_Payload = TextPayload (''404 page not found'' @ [CHR 0x0A]), re_Started = [] \<rparr>"

definition mux :: "'w platform \<Rightarrow> 'w Server \<Rightarrow> 'w handler" where
  "mux pf s r w =
     (case map_of (routes pf s) (rq_Path r) of
        Some h \<Rightarrow> h r w
      | None \<Rightarrow>
          if has_prefix (rq_Path r) ''/api/candidates/'' then handleCandidateDetail s r w
          else if has_prefix (rq_Path r) ''/api/exports/jobs/'' then handleExportJobByID s r w
          else (not_found, w))"

definition withAuth :: "'w handler \<Rightarrow> string \<Rightarrow> 'w handler" where
  "withAuth next bearerToken r w =
     (let token = trim_space bearerToken; auth = trim_space (rq_Authorization r) in
      if token = [] \<or> rq_Path r = ''/healthz'' then next r w
      else if \<not> has_prefix auth ''Bearer '' \<or> trim_space (trim_prefix auth ''Bearer '') \<noteq> token
      then (error_response 401 ''unauthorized'', w)
      else next r w)"

definition cors_headers :: "(string \<times> string) list" where
  "cors_headers =
     [(''Access-Control-Allow-Origin'', ''*''), (''Access-Control-Allow-Methods'', ''GET, POST, PUT, PATCH, OPTIONS''),
      (''Access-Control-Allow-Headers'', ''Content-Type, Authorization'')]"

definition withCORS :: "'w handler \<Rightarrow> 'w handler" where
  "withCORS next r w =
     (if rq_Method r = ''OPTIONS''
      then (\<lparr> re_Status = 204, re_Header = cors_headers, re_Payload = NoPayload, re_Started = [] \<rparr>, w)
      else case next r w of (response, w1) \<Rightarrow> (response\<lparr> re_Header := cors_headers @ re_Header response \<rparr>, w1))"

definition Handler :: "'w platform \<Rightarrow> 'w Server \<Rightarrow> 'w handler" where
  "Handler pf s = withCORS (withAuth (mux pf s) (cfg_APIBearerToken (sv_cfg s)))"

end
