(* ===== verification/Cli.thy ===== *)
theory Cli
imports Daemon Api_Server
begin

text \<open>
  \<open>cmd/scanner/main.go\<close>: the commands. A command ends with an exit code and the lines it has printed; the world
  is what the store, the files and the clients act on. Parameters: the parsing of flags over their defaults (a
  failure there ends the process), of RFC 3339, the connection to the database, the clients, the goroutines of a run.
  Deadlines and signals show only in whether an operation fails; log lines and the flags' help are left out.
\<close>

section \<open>The process\<close>

record console =
  co_Code :: int
  co_Stdout :: "string list"
  co_Stderr :: "string list"

definition succeed :: "string list \<Rightarrow> console" where
  "succeed lines = \<lparr> co_Code = 0, co_Stdout = lines, co_Stderr = [] \<rparr>"

definition exit_with :: "int \<Rightarrow> string \<Rightarrow> console" where
  "exit_with code msg = \<lparr> co_Code = code, co_Stdout = [], co_Stderr = [msg] \<rparr>"

text \<open>What \<open>storage.NewPostgresStore(db)\<close> gives, and the advisory lock of the daemon.\<close>

record 'w database =
  da_Ping :: "'w \<Rightarrow> go_error option \<times> 'w"
  da_Store :: "'w store"
  da_Repository :: "'w repository"
  da_Settings :: "'w SettingsStore"
  da_TryLock :: "'w \<Rightarrow> (go_error + bool) \<times> 'w"
  da_Unlock :: "'w \<Rightarrow> 'w"

record runFlags =
  rf_wallets :: string
  rf_skip_wallets :: string
  rf_scan_start :: string
  rf_scan_end :: string
  rf_baseline_lookback_days :: int

record sourceFlags =
  sf_seed_wallets :: string
  sf_scrape_blocks :: bool
  sf_start_slot :: int
  sf_block_lookback :: int
  sf_max_blocks :: int
  sf_max_scraped_wallets :: int
  sf_min_scrape_count :: int
  sf_max_tx_per_block :: int
  sf_max_noisy_instructions :: int
  sf_min_native_lamports :: int
  sf_out :: string
  sf_rejected_out :: string
  sf_scan_start :: string
  sf_scan_end :: string
  sf_baseline_lookback_days :: int
  sf_target_count :: int
  sf_max_seed_wallets :: int
  sf_max_candidates :: int
  sf_seed_max_pages :: int
  sf_candidate_max_pages :: int
  sf_max_tx_per_wallet :: int
  sf_min_outbound :: int
  sf_max_accepted_tx :: int
  sf_max_same_timestamp_tx :: int
  sf_max_transfers_per_tx :: int
  sf_max_unknown_dust_spl :: int
  sf_min_scan_inbound_dust :: int
  sf_min_unique_dust_recipients :: int
  sf_source_mode :: string
  sf_deep_dive_top_n :: int
  sf_deep_dive_max_pages :: int
  sf_deep_dive_max_tx :: int
  sf_deep_dive_min_score :: int
  sf_known_dust_assets :: string

record exportFlags =
  xf_out_dir :: string
  xf_run_id :: int
  xf_started_at_from :: string
  xf_started_at_to :: string

record 'w cli =
  ci_RunFlags :: "runFlags \<Rightarrow> string list \<Rightarrow> console + runFlags"
  ci_SourceFlags :: "sourceFlags \<Rightarrow> string list \<Rightarrow> console + sourceFlags"
  ci_ExportFlags :: "exportFlags \<Rightarrow> string list \<Rightarrow> console + exportFlags"
  ci_ServeFlags :: "string \<Rightarrow> string list \<Rightarrow> console + string"
  ci_DaemonFlags :: "daemonOptions \<Rightarrow> string list \<Rightarrow> go_error + daemonOptions"
  ci_ParseTime :: "string \<Rightarrow> go_error + gotime"
  ci_ParseURI :: "string \<Rightarrow> go_error + string"
  ci_OpenDB :: "string \<Rightarrow> go_error + 'w database"
  ci_Clients :: "'w clients"
  ci_Host :: "'w host"
  ci_Runtime :: "'w runtime"
  ci_Workers :: "'w Orchestrator \<Rightarrow> 'w wallet_runner \<Rightarrow> RunParams \<Rightarrow> string list \<Rightarrow> 'w \<Rightarrow> walletOutcome list \<times> 'w"
  ci_SHA :: "string \<Rightarrow> string"
  ci_SQL :: sql_text
  ci_Wild :: "rat \<Rightarrow> int"

section \<open>What the commands share\<close>

text \<open>The scan window of \<open>run\<close> and \<open>source-wallets\<close>.\<close>

definition parse_window :: "'w cli \<Rightarrow> string \<Rightarrow> string \<Rightarrow> console + gotime \<times> gotime" where
  "parse_window ci scanStart scanEnd =
     (case ci_ParseTime ci scanStart of
        Inl err \<Rightarrow> Inl (exit_with 2 (''invalid --scan-start: '' @ err_msg err))
      | Inr startAt \<Rightarrow>
      (case ci_ParseTime ci scanEnd of
        Inl err \<Rightarrow> Inl (exit_with 2 (''invalid --scan-end: '' @ err_msg err))
      | Inr endAt \<Rightarrow> Inr (startAt, endAt)))"

definition connect :: "'w cli \<Rightarrow> Config \<Rightarrow> 'w \<Rightarrow> (console + 'w database) \<times> 'w" where
  "connect ci cfg w =
     (case ci_OpenDB ci (cfg_DatabaseURL cfg) of
        Inl err \<Rightarrow> (Inl (exit_with 1 (''database connection error: '' @ err_msg err)), w)
      | Inr db \<Rightarrow>
      (case da_Ping db w of
        (Some err, w1) \<Rightarrow> (Inl (exit_with 1 (''database ping error: '' @ err_msg err)), w1)
      | (None, w1) \<Rightarrow> (Inr db, w1)))"

definition splitCSV :: "string \<Rightarrow> string list" where
  "splitCSV s = filter (\<lambda>part. part \<noteq> []) (map trim_space (split_on CHR '','' s))"

section \<open>run\<close>

definition default_run_flags :: "Config \<Rightarrow> runFlags" where
  "default_run_flags cfg =
     \<lparr> rf_wallets = [], rf_skip_wallets = [], rf_scan_start = [], rf_scan_end = [],
       rf_baseline_lookback_days = cfg_BaselineLookbackDays cfg \<rparr>"

definition cli_run_params :: "runFlags \<Rightarrow> gotime \<Rightarrow> gotime \<Rightarrow> RunParams" where
  "cli_run_params f startAt endAt =
     \<lparr> rp_WalletFile = rf_wallets f, rp_SkipWalletFile = rf_skip_wallets f, rp_WalletAddresses = [],
       rp_ScanStart = startAt, rp_ScanEnd = endAt, rp_BaselineLookbackDays = rf_baseline_lookback_days f,
       rp_RequestedByCLICommand = ''scanner run'', rp_IngestionRunID = 0 \<rparr>"

definition runCmd :: "'w cli \<Rightarrow> Config \<Rightarrow> string list \<Rightarrow> 'w \<Rightarrow> console \<times> 'w" where
  "runCmd ci cfg args w =
     (case ci_RunFlags ci (default_run_flags cfg) args of
        Inl c \<Rightarrow> (c, w)
      | Inr f \<Rightarrow>
      if rf_wallets f = [] \<or> rf_scan_start f = [] \<or> rf_scan_end f = []
      then (exit_with 2 ''missing required flags: --wallets --scan-start --scan-end'', w)
      else case parse_window ci (rf_scan_start f) (rf_scan_end f) of
        Inl c \<Rightarrow> (c, w)
      | Inr (startAt, endAt) \<Rightarrow>
      (case connect ci cfg w of
        (Inl c, w1) \<Rightarrow> (c, w1)
      | (Inr db, w1) \<Rightarrow>
      (case cl_HTTP (ci_Clients ci) (cfg_HeliusBaseURL cfg) (cfg_HeliusAPIKey cfg) of
        Inl err \<Rightarrow> (exit_with 1 (''helius client error: '' @ err_msg err), w1)
      | Inr client \<Rightarrow>
      let orch = cycle_orchestrator (ci_SHA ci) (ci_Runtime ci) (da_Store db) client cfg in
      (case Run (ci_Runtime ci) (ho_Read (ci_Host ci) w1) orch (ci_Workers ci orch) (cli_run_params f startAt endAt) w1 of
        (Some err, w2) \<Rightarrow> (exit_with 1 (''run failed: '' @ err_msg err), w2)
      | (None, w2) \<Rightarrow> (succeed [], w2)))))"

section \<open>source-wallets\<close>

definition default_source_flags :: "Config \<Rightarrow> sourceFlags" where
  "default_source_flags cfg =
     \<lparr> sf_seed_wallets = [], sf_scrape_blocks = False, sf_start_slot = 0, sf_block_lookback = 100, sf_max_blocks = 100,
       sf_max_scraped_wallets = 100, sf_min_scrape_count = 2, sf_max_tx_per_block = 200, sf_max_noisy_instructions = 0,
       sf_min_native_lamports = 10000000, sf_out = [], sf_rejected_out = [], sf_scan_start = [], sf_scan_end = [],
       sf_baseline_lookback_days = cfg_BaselineLookbackDays cfg, sf_target_count = 30, sf_max_seed_wallets = 10,
       sf_max_candidates = 100, sf_seed_max_pages = 3, sf_candidate_max_pages = cfg_MaxTXPagesPerWallet cfg,
       sf_max_tx_per_wallet = cfg_MaxTXPerWallet cfg, sf_min_outbound = 1, sf_max_accepted_tx = cfg_MaxTXPerWallet cfg,
       sf_max_same_timestamp_tx = 5, sf_max_transfers_per_tx = 4, sf_max_unknown_dust_spl = 0,
       sf_min_scan_inbound_dust = 0, sf_min_unique_dust_recipients = 10, sf_source_mode = SourceModeAttackerOutboundDust,
       sf_deep_dive_top_n = 0, sf_deep_dive_max_pages = 0, sf_deep_dive_max_tx = 0, sf_deep_dive_min_score = 0,
       sf_known_dust_assets = join '','' DefaultKnownDustAssetKeys \<rparr>"

definition cli_scrape_options :: "sourceFlags \<Rightarrow> ScrapeOptions" where
  "cli_scrape_options f =
     \<lparr> so_StartSlot = sf_start_slot f, so_BlockLookback = sf_block_lookback f, so_MaxBlocks = sf_max_blocks f,
       so_MaxWallets = sf_max_scraped_wallets f, so_MaxTXPerBlock = sf_max_tx_per_block f,
       so_MaxNoisyInstructions = sf_max_noisy_instructions f, so_MinNativeLamports = sf_min_native_lamports f,
       so_MinScrapeCount = sf_min_scrape_count f \<rparr>"

definition cli_source_options :: "Config \<Rightarrow> sourceFlags \<Rightarrow> ScrapedWallet list \<Rightarrow> gotime \<Rightarrow> gotime \<Rightarrow> SourceOptions" where
  "cli_source_options cfg f scraped startAt endAt =
     \<lparr> op_SeedWalletFile = sf_seed_wallets f, op_SeedWallets = map sw_Address scraped,
       op_ScrapeStats = foldl (\<lambda>m x. map_set (sw_Address x) x m) [] scraped,
       op_ScoreSeedWallets = sf_scrape_blocks f, op_DiscoverNeighbors = (\<not> sf_scrape_blocks f),
       op_OutPath = sf_out f, op_RejectedOutPath = sf_rejected_out f, op_ScanStart = startAt, op_ScanEnd = endAt,
       op_BaselineLookback = wrap64 (sf_baseline_lookback_days f * nanos_per_day), op_TargetCount = sf_target_count f,
       op_MaxSeedWallets = sf_max_seed_wallets f, op_MaxCandidates = sf_max_candidates f,
       op_SeedMaxPages = sf_seed_max_pages f, op_CandidateMaxPages = sf_candidate_max_pages f,
       op_MaxTXPerWallet = sf_max_tx_per_wallet f, op_MaxRetries = cfg_MaxHeliusRetries cfg,
       op_RequestDelay = wrap64 (cfg_HeliusRequestDelayMS cfg * nanos_per_milli), op_MinOutbound = sf_min_outbound f,
       op_MaxAcceptedTX = sf_max_accepted_tx f, op_MaxSameTimestampTX = sf_max_same_timestamp_tx f,
       op_MaxTransfersPerTX = sf_max_transfers_per_tx f, op_MaxUnknownDustSPL = sf_max_unknown_dust_spl f,
       op_MinScanInboundDust = sf_min_scan_inbound_dust f,
       op_MinUniqueDustRecipients = sf_min_unique_dust_recipients f,
       op_KnownDustAssetKeys = splitCSV (sf_known_dust_assets f), op_DeepDiveTopN = sf_deep_dive_top_n f,
       op_DeepDiveMaxPages = sf_deep_dive_max_pages f, op_DeepDiveMaxTX = sf_deep_dive_max_tx f,
       op_DeepDiveMinScore = sf_deep_dive_min_score f, op_SourceMode = sf_source_mode f \<rparr>"

text \<open>The seeds from the blocks, and the line that says how many.\<close>

definition scrape_seeds :: "'w cli \<Rightarrow> Config \<Rightarrow> sourceFlags \<Rightarrow> 'w \<Rightarrow> (console + ScrapedWallet list \<times> string list) \<times> 'w" where
  "scrape_seeds ci cfg f w =
     (if \<not> sf_scrape_blocks f then (Inr ([], []), w)
      else case cl_RPC (ci_Clients ci) (cfg_HeliusAPIKey cfg) of
        Inl err \<Rightarrow> (Inl (exit_with 1 (''helius rpc client error: '' @ err_msg err)), w)
      | Inr rpc \<Rightarrow>
      (case ScrapeRecentWallets (ci_Wild ci) (Some rpc) (cli_scrape_options f) w of
        (Inl err, w1) \<Rightarrow> (Inl (exit_with 1 (''scrape wallets failed: '' @ err_msg err)), w1)
      | (Inr scraped, w1) \<Rightarrow>
          if scraped = [] \<and> sf_seed_wallets f = []
          then (Inl (exit_with 1 ''scrape wallets found no seed wallets''), w1)
          else (Inr (scraped, [''scraped seed wallets: '' @ show_int (int (length scraped))]), w1)))"

definition sourceWalletsCmd :: "'w cli \<Rightarrow> Config \<Rightarrow> string list \<Rightarrow> 'w \<Rightarrow> console \<times> 'w" where
  "sourceWalletsCmd ci cfg args w =
     (case ci_SourceFlags ci (default_source_flags cfg) args of
        Inl c \<Rightarrow> (c, w)
      | Inr f \<Rightarrow>
      if \<not> sf_scrape_blocks f \<and> sf_seed_wallets f = []
      then (exit_with 2 ''missing required seed source: provide --seed-wallets or --scrape-blocks'', w)
      else if sf_out f = [] \<or> sf_rejected_out f = [] \<or> sf_scan_start f = [] \<or> sf_scan_end f = []
      then (exit_with 2 ''missing required flags: --out --rejected-out --scan-start --scan-end'', w)
      else case parse_window ci (sf_scan_start f) (sf_scan_end f) of
        Inl c \<Rightarrow> (c, w)
      | Inr (startAt, endAt) \<Rightarrow>
      (case cl_HTTP (ci_Clients ci) (cfg_HeliusBaseURL cfg) (cfg_HeliusAPIKey cfg) of
        Inl err \<Rightarrow> (exit_with 1 (''helius client error: '' @ err_msg err), w)
      | Inr client \<Rightarrow>
      (case scrape_seeds ci cfg f w of
        (Inl c, w1) \<Rightarrow> (c, w1)
      | (Inr (scraped, printed), w1) \<Rightarrow>
      (case Source (ci_SHA ci) (ho_Read (ci_Host ci) w1) (ho_Files (ci_Host ci)) (Some client)
              (cli_source_options cfg f scraped startAt endAt) w1 of
        (Inl err, w2) \<Rightarrow> ((exit_with 1 (''source wallets failed: '' @ err_msg err))\<lparr> co_Stdout := printed \<rparr>, w2)
      | (Inr result, w2) \<Rightarrow>
          (succeed (printed @
            [''accepted wallets: '' @ show_int (int (length (sr_Accepted result))) @ '' -> '' @ sf_out f,
             ''rejected wallets: '' @ show_int (int (length (sr_Rejected result))) @ '' -> '' @ sf_rejected_out f]), w2)))))"

section \<open>export-dataset\<close>

definition default_export_flags :: exportFlags where
  "default_export_flags = \<lparr> xf_out_dir = [], xf_run_id = 0, xf_started_at_from = [], xf_started_at_to = [] \<rparr>"

definition export_filter :: "'w cli \<Rightarrow> exportFlags \<Rightarrow> console + ExportFilter" where
  "export_filter ci f =
     (let runID = (if xf_run_id f > 0 then Some (xf_run_id f) else None) in
      if xf_started_at_from f = [] \<and> xf_started_at_to f = []
      then Inr \<lparr> ef_RunID = runID, ef_StartedAtFrom = None, ef_StartedAtTo = None \<rparr>
      else if xf_started_at_from f = [] \<or> xf_started_at_to f = []
      then Inl (exit_with 2 ''both --started-at-from and --started-at-to are required for time-window export'')
      else case ci_ParseTime ci (xf_started_at_from f) of
        Inl err \<Rightarrow> Inl (exit_with 2 (''invalid --started-at-from: '' @ err_msg err))
      | Inr from' \<Rightarrow>
      (case ci_ParseTime ci (xf_started_at_to f) of
        Inl err \<Rightarrow> Inl (exit_with 2 (''invalid --started-at-to: '' @ err_msg err))
      | Inr to' \<Rightarrow>
          if \<not> from' < to' then Inl (exit_with 2 ''invalid range: started-at-from must be before started-at-to'')
          else Inr \<lparr> ef_RunID = runID, ef_StartedAtFrom = Some from', ef_StartedAtTo = Some to' \<rparr>))"

definition exported_line :: "ManifestFile \<Rightarrow> string" where
  "exported_line file = ''exported '' @ mf_Name file @ '' rows='' @ show_int (mf_RowCount file) @ '' sha256='' @ mf_SHA256 file"

definition exportDatasetCmd :: "'w cli \<Rightarrow> Config \<Rightarrow> string list \<Rightarrow> 'w \<Rightarrow> console \<times> 'w" where
  "exportDatasetCmd ci cfg args w =
     (case ci_ExportFlags ci default_export_flags args of
        Inl c \<Rightarrow> (c, w)
      | Inr f \<Rightarrow>
      if xf_out_dir f = [] then (exit_with 2 ''missing required flag: --out-dir'', w)
      else case export_filter ci f of
        Inl c \<Rightarrow> (c, w)
      | Inr flt \<Rightarrow>
      (case connect ci cfg w of
        (Inl c, w1) \<Rightarrow> (c, w1)
      | (Inr db, w1) \<Rightarrow>
      (case ExportDataset (ci_SHA ci) (ci_SQL ci) (ho_Files (ci_Host ci)) (rp_DatasetSource (da_Repository db))
              \<lparr> xo_OutDir = xf_out_dir f, xo_Filter = flt \<rparr> w1 of
        (Inl err, w2) \<Rightarrow> (exit_with 1 (''export dataset failed: '' @ err_msg err), w2)
      | (Inr manifest, w2) \<Rightarrow>
          (succeed (map exported_line (mn_Files manifest) @
            [''manifest: '' @ rev (dropWhile (\<lambda>c. c = CHR ''/'') (rev (xf_out_dir f))) @ ''/report_manifest.json'']), w2))))"

end
