(* ===== verification/Cli_Serve.thy ===== *)
theory Cli_Serve
imports Cli
begin

text \<open>
  \<open>cmd/scanner/main.go\<close> and \<open>daemon.go\<close>, the commands that stay: \<open>serve-api\<close>, with the runs it starts in the
  background, and \<open>daemon\<close>; and the dispatch of \<open>main\<close>.
\<close>

section \<open>Runs started over the API\<close>

definition stored_value :: "int option \<Rightarrow> int \<Rightarrow> int" where
  "stored_value v d = (case v of None \<Rightarrow> d | Some i \<Rightarrow> i)"

definition applyStoredConfigOverride :: "Config \<Rightarrow> ConfigOverrideRecord \<Rightarrow> Config" where
  "applyStoredConfigOverride cfg override = cfg
     \<lparr> cfg_MaxWalletsPerRun := stored_value (ov_MaxWalletsPerRun override) (cfg_MaxWalletsPerRun cfg),
       cfg_MaxTXPagesPerWallet := stored_value (ov_MaxTXPagesPerWallet override) (cfg_MaxTXPagesPerWallet cfg),
       cfg_MaxTXPerWallet := stored_value (ov_MaxTXPerWallet override) (cfg_MaxTXPerWallet cfg),
       cfg_MaxConcurrentWallets := stored_value (ov_MaxConcurrentWallets override) (cfg_MaxConcurrentWallets cfg),
       cfg_WalletSyncTimeoutSeconds := stored_value (ov_WalletSyncTimeoutSeconds override) (cfg_WalletSyncTimeoutSeconds cfg),
       cfg_RunTimeoutSeconds := stored_value (ov_RunTimeoutSeconds override) (cfg_RunTimeoutSeconds cfg),
       cfg_MaxHeliusRetries := stored_value (ov_MaxHeliusRetries override) (cfg_MaxHeliusRetries cfg),
       cfg_HeliusRequestDelayMS := stored_value (ov_HeliusRequestDelayMS override) (cfg_HeliusRequestDelayMS cfg),
       cfg_BaselineLookbackDays := stored_value (ov_BaselineLookbackDays override) (cfg_BaselineLookbackDays cfg),
       cfg_ScanWindowDays := stored_value (ov_ScanWindowDays override) (cfg_ScanWindowDays cfg),
       cfg_LookalikeRecencyDays := stored_value (ov_LookalikeRecencyDays override) (cfg_LookalikeRecencyDays cfg),
       cfg_LookalikePrefixMin := stored_value (ov_LookalikePrefixMin override) (cfg_LookalikePrefixMin cfg),
       cfg_LookalikeSuffixMin := stored_value (ov_LookalikeSuffixMin override) (cfg_LookalikeSuffixMin cfg),
       cfg_LookalikeSingleSideMin := stored_value (ov_LookalikeSingleSideMin override) (cfg_LookalikeSingleSideMin cfg),
       cfg_MinInjectionCount := stored_value (ov_MinInjectionCount override) (cfg_MinInjectionCount cfg) \<rparr>"

text \<open>What the goroutine of a started run closes over.\<close>

record 'w backgroundRun =
  br_orch :: "'w Orchestrator"
  br_params :: RunParams

definition api_run_params :: "RunStartRequest \<Rightarrow> int \<Rightarrow> RunParams" where
  "api_run_params q runID =
     \<lparr> rp_WalletFile = [], rp_SkipWalletFile = [], rp_WalletAddresses = rs_WalletAddresses q, rp_ScanStart = rs_ScanStart q,
       rp_ScanEnd = rs_ScanEnd q, rp_BaselineLookbackDays = rs_BaselineLookbackDays q,
       rp_RequestedByCLICommand = rs_RequestedBy q, rp_IngestionRunID = runID \<rparr>"

text \<open>The starter up to the goroutine.\<close>

definition prepare_run :: "'w cli \<Rightarrow> 'w database \<Rightarrow> Config \<Rightarrow> RunStartRequest \<Rightarrow> ('w backgroundRun, 'w) call" where
  "prepare_run ci db cfg q w =
     (case ss_GetConfigOverride (da_Settings db) w of
        (Inl err, w1) \<Rightarrow> (Inl err, w1)
      | (Inr (override, ok), w1) \<Rightarrow>
      let runCfg = (if ok then applyStoredConfigOverride cfg override else cfg) in
      case Validate (ci_ParseURI ci) runCfg of
        Some err \<Rightarrow> (Inl err, w1)
      | None \<Rightarrow>
      (case cl_HTTP (ci_Clients ci) (cfg_HeliusBaseURL runCfg) (cfg_HeliusAPIKey runCfg) of
        Inl err \<Rightarrow> (Inl err, w1)
      | Inr client \<Rightarrow>
      (case st_CreateIngestionRun (da_Store db) (ho_Now (ci_Host ci) w1) w1 of
        (Inl err, w2) \<Rightarrow> (Inl err, w2)
      | (Inr runID, w2) \<Rightarrow>
          (Inr \<lparr> br_orch = cycle_orchestrator (ci_SHA ci) (ci_Runtime ci) (da_Store db) client runCfg,
                 br_params = api_run_params q runID \<rparr>, w2))))"

definition started_result :: "RunStartRequest \<Rightarrow> int \<Rightarrow> RunStartResult" where
  "started_result q runID =
     \<lparr> sr_RunID = runID, sr_WalletCount = int (length (rs_WalletAddresses q)), sr_ScanStart = rs_ScanStart q,
       sr_ScanEnd = rs_ScanEnd q, sr_BaselineLookbackDays = rs_BaselineLookbackDays q \<rparr>"

definition run_starter :: "'w cli \<Rightarrow> 'w database \<Rightarrow> Config \<Rightarrow> 'w RunStarter" where
  "run_starter ci db cfg q w =
     (case prepare_run ci db cfg q w of
        (Inl err, w1) \<Rightarrow> (Inl err, w1)
      | (Inr br, w1) \<Rightarrow> (Inr (started_result q (rp_IngestionRunID (br_params br))), w1))"

text \<open>The goroutine. An error it returns is logged.\<close>

definition background_run :: "'w cli \<Rightarrow> 'w backgroundRun \<Rightarrow> 'w \<Rightarrow> go_error option \<times> 'w" where
  "background_run ci br w =
     Run (ci_Runtime ci) (ho_Read (ci_Host ci) w) (br_orch br) (ci_Workers ci (br_orch br)) (br_params br) w"

section \<open>serve-api\<close>

definition served_api :: "'w cli \<Rightarrow> 'w database \<Rightarrow> Config \<Rightarrow> 'w Server" where
  "served_api ci db cfg = WithRunStarter (run_starter ci db cfg) (NewServer (da_Repository db) cfg)"

definition ErrServerClosed :: go_error where "ErrServerClosed = Err ''http: Server closed''"

text \<open>How serving ends: a signal, with the result of \<open>Shutdown\<close>, or the result of \<open>ListenAndServe\<close>.\<close>

datatype serve_end = Signalled "go_error option" | Stopped "go_error option"

definition serve_exit :: "serve_end \<Rightarrow> console" where
  "serve_exit e =
     (case e of
        Signalled (Some err) \<Rightarrow> exit_with 1 (''api server shutdown failed: '' @ err_msg err)
      | Stopped (Some err) \<Rightarrow>
          if root_cause err \<noteq> ErrServerClosed then exit_with 1 (''api server failed: '' @ err_msg err) else succeed []
      | _ \<Rightarrow> succeed [])"

text \<open>\<open>serve\<close> is the HTTP server at the address: what it and the goroutines do until it ends.\<close>

definition serveAPICmd ::
  "'w cli \<Rightarrow> (string \<Rightarrow> 'w Server \<Rightarrow> 'w \<Rightarrow> serve_end \<times> 'w) \<Rightarrow> Config \<Rightarrow> string list \<Rightarrow> 'w \<Rightarrow> console \<times> 'w" where
  "serveAPICmd ci serve cfg args w =
     (case ci_ServeFlags ci '':8080'' args of
        Inl c \<Rightarrow> (c, w)
      | Inr addr \<Rightarrow>
      (case connect ci cfg w of
        (Inl c, w1) \<Rightarrow> (c, w1)
      | (Inr db, w1) \<Rightarrow> (case serve addr (served_api ci db cfg) w1 of (e, w2) \<Rightarrow> (serve_exit e, w2))))"

section \<open>daemon\<close>

definition acquireDaemonLock :: "'w database \<Rightarrow> 'w \<Rightarrow> go_error option \<times> 'w" where
  "acquireDaemonLock db w =
     (case da_TryLock db w of
        (Inl err, w1) \<Rightarrow> (Some err, w1)
      | (Inr ok, w1) \<Rightarrow>
          if \<not> ok then (Some (Err ''another scanner daemon already holds the database lock''), w1) else (None, w1))"

text \<open>The first \<open>n\<close> turns of the loop; no exit code when it is still running. The lock is released when the
  function returns. \<open>rt\<close> and \<open>workers\<close> are those of the runs inside the cycles.\<close>

definition daemonCmd ::
  "'w cli \<Rightarrow> ('w \<times> daemonState) runtime
     \<Rightarrow> (('w \<times> daemonState) Orchestrator \<Rightarrow> ('w \<times> daemonState) wallet_runner \<Rightarrow> RunParams \<Rightarrow> string list
          \<Rightarrow> 'w \<times> daemonState \<Rightarrow> walletOutcome list \<times> ('w \<times> daemonState))
     \<Rightarrow> nat \<Rightarrow> Config \<Rightarrow> string list \<Rightarrow> 'w \<Rightarrow> console option \<times> 'w" where
  "daemonCmd ci rt workers n cfg args w =
     (case parseDaemonOptions (ci_DaemonFlags ci) cfg args of
        Inl err \<Rightarrow> (Some (exit_with 2 (''daemon config error: '' @ err_msg err)), w)
      | Inr opts \<Rightarrow>
      (case connect ci cfg w of
        (Inl c, w1) \<Rightarrow> (Some c, w1)
      | (Inr db, w1) \<Rightarrow>
      (case acquireDaemonLock db w1 of
        (Some err, w2) \<Rightarrow> (Some (exit_with 1 (''daemon lock error: '' @ err_msg err)), w2)
      | (None, w2) \<Rightarrow>
      (case daemon_loop (ci_Host ci) opts
              (runDaemonCycle (ci_SHA ci) (ci_Wild ci) (ci_Host ci) (ci_Clients ci) rt (da_Store db) workers cfg opts)
              n (w2, daemon_start opts) of
        (False, w3) \<Rightarrow> (None, fst w3)
      | (True, w3) \<Rightarrow> (Some (succeed []), da_Unlock db (fst w3))))))"

section \<open>main\<close>

definition usage :: "string list" where
  "usage =
     [''PoisonTrace scanner'', '''', ''Usage:'',
      ''  scanner run --wallets <path> --scan-start <RFC3339> --scan-end <RFC3339> [--baseline-lookback-days N]'',
      ''  scanner source-wallets (--seed-wallets <path> | --scrape-blocks) --out <path> --rejected-out <path> --scan-start <RFC3339> --scan-end <RFC3339>'',
      ''  scanner daemon [--once] [--cycle-interval 24h] [--daily-credit-budget 50000]'',
      ''  scanner replay-fixture --fixture <case_id> [--fixtures-root data/fixtures] [--write-expected]'',
      ''  scanner validate-corpus [--fixtures-root data/fixtures] [--report-out path] [--strict-miss-reason]'',
      ''  scanner export-dataset --out-dir <dir> [--run-id N | --started-at-from <RFC3339> --started-at-to <RFC3339>]'',
      ''  scanner serve-api [--addr :8080]'']"

text \<open>The commands of \<open>main\<close>, those that run under a configuration and those that do not.\<close>

record 'w commands =
  cm_run :: "Config \<Rightarrow> string list \<Rightarrow> 'w \<Rightarrow> console option \<times> 'w"
  cm_source_wallets :: "Config \<Rightarrow> string list \<Rightarrow> 'w \<Rightarrow> console option \<times> 'w"
  cm_daemon :: "Config \<Rightarrow> string list \<Rightarrow> 'w \<Rightarrow> console option \<times> 'w"
  cm_export_dataset :: "Config \<Rightarrow> string list \<Rightarrow> 'w \<Rightarrow> console option \<times> 'w"
  cm_serve_api :: "Config \<Rightarrow> string list \<Rightarrow> 'w \<Rightarrow> console option \<times> 'w"
  cm_replay_fixture :: "string list \<Rightarrow> 'w \<Rightarrow> console option \<times> 'w"
  cm_validate_corpus :: "string list \<Rightarrow> 'w \<Rightarrow> console option \<times> 'w"

definition with_config ::
  "(go_error + Config) \<Rightarrow> (Config \<Rightarrow> string list \<Rightarrow> 'w \<Rightarrow> console option \<times> 'w) \<Rightarrow> string list \<Rightarrow> 'w \<Rightarrow> console option \<times> 'w" where
  "with_config loaded cmd args w =
     (case loaded of
        Inl err \<Rightarrow> (Some (exit_with 1 (''config error: '' @ err_msg err)), w)
      | Inr cfg \<Rightarrow> cmd cfg args w)"

definition main :: "(string \<Rightarrow> go_error + string) \<Rightarrow> (string \<Rightarrow> string) \<Rightarrow> 'w commands \<Rightarrow> string list \<Rightarrow> 'w \<Rightarrow> console option \<times> 'w" where
  "main parse_uri getenv cm argv w =
     (let bad = (Some ((succeed usage)\<lparr> co_Code := 2 \<rparr>), w) in
      case argv of
        program # command # args \<Rightarrow>
          if command = ''run'' then with_config (LoadFromEnv parse_uri getenv) (cm_run cm) args w
          else if command = ''source-wallets'' then with_config (LoadFromEnv parse_uri getenv) (cm_source_wallets cm) args w
          else if command = ''daemon'' then with_config (LoadFromEnv parse_uri getenv) (cm_daemon cm) args w
          else if command = ''replay-fixture'' then cm_replay_fixture cm args w
          else if command = ''validate-corpus'' then cm_validate_corpus cm args w
          else if command = ''export-dataset'' then with_config (LoadFromEnv parse_uri getenv) (cm_export_dataset cm) args w
          else if command = ''serve-api'' then with_config (LoadReadOnlyAPIFromEnv parse_uri getenv) (cm_serve_api cm) args w
          else bad
      | _ \<Rightarrow> bad)"

text \<open>The commands of the scanner; the fixtures' are parameters.\<close>

definition scanner_commands ::
  "'w cli \<Rightarrow> ('w \<times> daemonState) runtime
     \<Rightarrow> (('w \<times> daemonState) Orchestrator \<Rightarrow> ('w \<times> daemonState) wallet_runner \<Rightarrow> RunParams \<Rightarrow> string list
          \<Rightarrow> 'w \<times> daemonState \<Rightarrow> walletOutcome list \<times> ('w \<times> daemonState))
     \<Rightarrow> nat \<Rightarrow> (string \<Rightarrow> 'w Server \<Rightarrow> 'w \<Rightarrow> serve_end \<times> 'w) \<Rightarrow> (string list \<Rightarrow> 'w \<Rightarrow> console option \<times> 'w)
     \<Rightarrow> (string list \<Rightarrow> 'w \<Rightarrow> console option \<times> 'w) \<Rightarrow> 'w commands" where
  "scanner_commands ci rt workers n serve replay corpus =
     (let ended = (\<lambda>cmd cfg args w. case cmd cfg args w of (c, w1) \<Rightarrow> (Some c, w1)) in
      \<lparr> cm_run = ended (runCmd ci), cm_source_wallets = ended (sourceWalletsCmd ci),
        cm_daemon = daemonCmd ci rt workers n, cm_export_dataset = ended (exportDatasetCmd ci),
        cm_serve_api = ended (serveAPICmd ci serve), cm_replay_fixture = replay, cm_validate_corpus = corpus \<rparr>)"

end
