(* ===== verification/Api_Spec.thy ===== *)
theory Api_Spec
imports Api_Server Exports_Results
begin

text \<open>
  What the API promises whatever store is behind it: who gets past the token, which runs can be started, which
  files can be downloaded, and what the numbers of a page are.
\<close>

section \<open>The token\<close>

definition presents_token :: "string \<Rightarrow> Request \<Rightarrow> bool" where
  "presents_token token r \<longleftrightarrow> (\<exists>x. trim_space (rq_Authorization r) = ''Bearer '' @ x \<and> trim_space x = token)"

definition unauthorized :: Response where
  "unauthorized = (error_response 401 ''unauthorized'')\<lparr> re_Header := cors_headers @ [(''Content-Type'', ''application/json'')] \<rparr>"

lemma trim_prefix_append [simp]: "trim_prefix (p @ s) p = s"
  by (simp add: trim_prefix_def has_prefix_def)

lemma has_prefixE: "has_prefix s p \<longleftrightarrow> (\<exists>x. s = p @ x)"
  by (metis append_eq_conv_conj append_take_drop_id has_prefix_def)

lemma trimmed_after:
  "(\<exists>x. a = p @ x \<and> trim_space x = t) \<longleftrightarrow> has_prefix a p \<and> trim_space (trim_prefix a p) = t"
  by (auto simp: has_prefixE)

text \<open>C23. When a token is configured, a request other than a preflight or a health check is handled only if its
  \<open>Authorization\<close> header carries that token; otherwise the answer is 401, nothing is started and nothing changes.\<close>

theorem auth_guards:
  assumes "trim_space (cfg_APIBearerToken (sv_cfg s)) \<noteq> []" and "rq_Method r \<noteq> ''OPTIONS''" and "rq_Path r \<noteq> ''/healthz''"
  shows "Handler pf s r w =
    (if presents_token (trim_space (cfg_APIBearerToken (sv_cfg s))) r then withCORS (mux pf s) r w else (unauthorized, w))"
proof -
  let ?token = "trim_space (cfg_APIBearerToken (sv_cfg s))" and ?auth = "trim_space (rq_Authorization r)"
  note presented = presents_token_def [of ?token r, unfolded trimmed_after]
  from assms show ?thesis
    by (simp add: presented Handler_def withCORS_def withAuth_def Let_def unauthorized_def error_response_def writeJSON_def)
qed

section \<open>Runs\<close>

definition admissible :: "Config \<Rightarrow> RunStartRequest \<Rightarrow> bool" where
  "admissible cfg q \<longleftrightarrow>
     rs_WalletAddresses q \<noteq> [] \<and> int (length (rs_WalletAddresses q)) \<le> cfg_MaxWalletsPerRun cfg \<and>
     distinct (rs_WalletAddresses q) \<and>
     (\<forall>a\<in>set (rs_WalletAddresses q). a \<noteq> [] \<and> trim_space a = a \<and> \<not> has_prefix a ''#'') \<and>
     rs_ScanStart q < rs_ScanEnd q \<and>
     (- 106751 \<le> rs_BaselineLookbackDays q \<and> rs_BaselineLookbackDays q \<le> 106751 \<longrightarrow>
        rs_ScanEnd q - rs_ScanStart q < rs_BaselineLookbackDays q * nanos_per_day)"

lemma parsed_addresses:
  "distinct (parseAddressInput raw wallets)"
  "a \<in> set (parseAddressInput raw wallets) \<Longrightarrow> a \<noteq> [] \<and> trim_space a = a \<and> \<not> has_prefix a ''#''"
  using dedup_by_distinct [of "\<lambda>a. a"] dedup_by_subset [of "\<lambda>a. a"]
  by (force simp: parseAddressInput_def)+

lemma lookback_exceeds:
  assumes "t < t'" and "sub_time t' t < wrap64 (days * 24 * nanos_per_hour)" and "- 106751 \<le> days" and "days \<le> 106751"
  shows "t' - t < days * nanos_per_day"
proof -
  have "wrap64 (days * 24 * nanos_per_hour) = days * nanos_per_day"
    using assms(3,4) by (subst wrap64_id) (simp_all add: nanos_per_hour_def nanos_per_day_def min_int64_def max_int64_def)
  moreover have "days * nanos_per_day \<le> max_int64"
    using assms(4) by (simp add: nanos_per_day_def max_int64_def)
  ultimately show ?thesis using assms(1,2) by (auto simp: sub_time_def split: if_splits)
qed

lemma start_run_cases:
  assumes "start_run pf starter p addresses cfg w = (response, w')"
  obtains (refused) "400 = re_Status response" "w' = w"
  | (started) q where "rs_WalletAddresses q = addresses" "addresses \<noteq> []" "int (length addresses) \<le> cfg_MaxWalletsPerRun cfg"
      "rs_ScanStart q < rs_ScanEnd q"
      "sub_time (rs_ScanEnd q) (rs_ScanStart q) < wrap64 (rs_BaselineLookbackDays q * 24 * nanos_per_hour)"
      "response = (case fst (starter q w) of Inl err \<Rightarrow> writeError err | Inr res \<Rightarrow> writeJSON 202 (run_started_json res))"
      "w' = snd (starter q w)"
proof -
  note defs = start_run_def Let_def error_response_def writeJSON_def
  show thesis
  proof (cases "addresses = [] \<or> cfg_MaxWalletsPerRun cfg < int (length addresses)")
    case True
    with assms show ?thesis by (intro refused) (auto simp: defs split: if_splits)
  next
    case few: False
    show ?thesis
    proof (cases "requested_end pf p (pf_Now pf w)")
      case None
      with assms few show ?thesis by (intro refused) (auto simp: defs)
    next
      case e: (Some scanEnd)
      show ?thesis
      proof (cases "requested_start pf p cfg scanEnd")
        case None
        with assms few e show ?thesis by (intro refused) (auto simp: defs)
      next
        case b: (Some scanStart)
        let ?days = "case py_BaselineLookbackDays p of None \<Rightarrow> cfg_BaselineLookbackDays cfg | Some d \<Rightarrow> d"
        let ?q = "\<lparr> rs_WalletAddresses = addresses, rs_ScanStart = scanStart, rs_ScanEnd = scanEnd,
          rs_BaselineLookbackDays = ?days, rs_RequestedBy = ''web manual address run'' \<rparr>"
        show ?thesis
        proof (cases "scanEnd \<le> scanStart \<or> wrap64 (?days * 24 * nanos_per_hour) \<le> sub_time scanEnd scanStart")
          case True
          with assms few e b show ?thesis by (intro refused) (auto simp: defs split: if_splits)
        next
          case False
          with assms few e b show ?thesis
            by (intro started [of ?q]) (auto simp: start_run_def Let_def split: prod.splits sum.splits)
        qed
      qed
    qed
  qed
qed

lemma run_start_outcome:
  assumes "handleRunStart pf s r w = (response, w')" and "sv_runStarter s = Some starter"
  shows "400 \<le> re_Status response \<and> (w' = w \<or> w' = snd (effectiveConfig (pf_ParseURI pf) s w)) \<or>
    (\<exists>cfg w1 q. effectiveConfig (pf_ParseURI pf) s w = (Inr cfg, w1) \<and> admissible cfg q \<and> w' = snd (starter q w1) \<and>
       (re_Status response = 202 \<longleftrightarrow> \<not> isl (fst (starter q w1))))"
proof -
  note defs = handleRunStart_def error_response_def writeJSON_def writeError_def
  show ?thesis
  proof (cases "limited_body r")
    case (Inl e)
    with assms show ?thesis by (auto simp: defs)
  next
    case body: (Inr body)
    show ?thesis
    proof (cases "pf_DecodeRun pf body")
      case None
      with assms body show ?thesis by (auto simp: defs)
    next
      case p: (Some p)
      obtain c w1 where c: "effectiveConfig (pf_ParseURI pf) s w = (c, w1)" by fastforce
      show ?thesis
      proof (cases c)
        case (Inl err)
        with assms body p c show ?thesis by (auto simp: defs)
      next
        case (Inr cfg)
        have run: "start_run pf starter p (parseAddressInput (py_Addresses p) (py_WalletAddresses p)) cfg w1 = (response, w')"
          using assms body p c Inr by (simp add: handleRunStart_def)
        show ?thesis
        proof (cases rule: start_run_cases [OF run])
          case 1
          with c show ?thesis by auto
        next
          case (2 q)
          have "admissible cfg q"
            unfolding admissible_def using 2 parsed_addresses lookback_exceeds [OF 2(4,5)] by auto
          moreover have "re_Status response = 202 \<longleftrightarrow> \<not> isl (fst (starter q w1))"
            using 2(6) by (auto simp: writeJSON_def writeError_def error_response_def split: sum.splits)
          ultimately show ?thesis using c Inr 2(7) by auto
        qed
      qed
    qed
  qed
qed

text \<open>C16. Whatever is posted to \<open>/api/runs\<close>, the runner is either not called, or called once, with between one and
  \<open>MaxWalletsPerRun\<close> distinct, trimmed, non-empty addresses that are not comments, a window that starts before it
  ends, and a baseline that is longer than the window (lookbacks of up to 106751 days: beyond that the check
  overflows). The answer is 202 exactly when the runner has started the run.\<close>

theorem run_start_guarded:
  assumes "handleRunStart pf s r w = (response, w')" and "sv_runStarter s = Some starter"
  shows "400 \<le> re_Status response \<and> (w' = w \<or> w' = snd (effectiveConfig (pf_ParseURI pf) s w)) \<or>
    (\<exists>cfg w1 q. effectiveConfig (pf_ParseURI pf) s w = (Inr cfg, w1) \<and> admissible cfg q \<and> w' = snd (starter q w1) \<and>
       (re_Status response = 202 \<longleftrightarrow> \<not> isl (fst (starter q w1))))"
  by (rule run_start_outcome [OF assms])

section \<open>Downloads\<close>

lemma split_on_snoc2: "split_on c (s @ c # t) = split_on c s @ split_on c t"
  by (induction s) (auto split: list.splits)

lemma join_snoc2: "join sep (xs @ [a, b]) = join sep (xs @ [a]) @ sep @ b"
  by (induction xs rule: induct_list012) auto

lemma split_on_no_sep: "x \<in> set (split_on c s) \<Longrightarrow> c \<notin> set x"
  by (induction s arbitrary: x) (auto split: list.splits if_splits)

lemma path_base_fixed:
  assumes "path_base name = name" and "name \<noteq> []"
  shows "name = ''/'' \<or> CHR ''/'' \<notin> set name"
proof -
  let ?p = "rev (dropWhile (\<lambda>c. c = CHR ''/'') (rev name))"
  have "name = (if ?p = [] then ''/'' else last (split_on CHR ''/'' ?p))"
    using assms by (simp add: path_base_def Let_def)
  then show ?thesis
    using split_on_no_sep [of "last (split_on CHR ''/'' ?p)" "CHR ''/''" ?p] by (metis last_in_set split_on_nonempty)
qed

text \<open>The path of a name below a directory of a rootdir.\<close>

definition plain_name :: "string \<Rightarrow> bool" where
  "plain_name name \<longleftrightarrow> name \<noteq> [] \<and> name \<noteq> ''.'' \<and> name \<noteq> ''..'' \<and> CHR ''/'' \<notin> set name"

definition clean_stack :: "string \<Rightarrow> string list" where
  "clean_stack path = foldl (clean_push (has_prefix path ''/'')) [] (split_on CHR ''/'' path)"

lemma path_clean_stack:
  "path_clean path =
    (let out = (if has_prefix path ''/'' then ''/'' else []) @ join ''/'' (rev (clean_stack path)) in if out = [] then ''.'' else out)"
  by (simp add: path_clean_def clean_stack_def Let_def)

lemma clean_push_plain: "plain_name c \<Longrightarrow> clean_push rooted stack c = c # stack"
  by (simp add: clean_push_def plain_name_def)

lemma has_prefix_root: "rootdir \<noteq> [] \<Longrightarrow> has_prefix (rootdir @ s) ''/'' = has_prefix rootdir ''/''"
  by (cases rootdir) (auto simp: has_prefix_def)

lemma clean_stack_snoc:
  assumes "rootdir \<noteq> []"
  shows "clean_stack (rootdir @ CHR ''/'' # s) = foldl (clean_push (has_prefix rootdir ''/'')) (clean_stack rootdir) (split_on CHR ''/'' s)"
  using has_prefix_root [OF assms] by (simp add: clean_stack_def split_on_snoc2)

lemma path_join_root: "rootdir \<noteq> [] \<Longrightarrow> dir \<noteq> [] \<Longrightarrow> path_join [rootdir, dir] = path_clean (rootdir @ CHR ''/'' # dir)"
  by (simp add: path_join_def)

lemma path_join_root2:
  "rootdir \<noteq> [] \<Longrightarrow> dir \<noteq> [] \<Longrightarrow> name \<noteq> [] \<Longrightarrow> path_join [rootdir, dir, name] = path_clean (rootdir @ CHR ''/'' # dir @ CHR ''/'' # name)"
  by (simp add: path_join_def)

lemma path_join_plain:
  assumes "rootdir \<noteq> []" and "plain_name dir" and "name \<noteq> []"
  shows "plain_name name \<Longrightarrow> path_join [rootdir, dir, name] = path_join [rootdir, dir] @ CHR ''/'' # name"
    and "name = ''.'' \<or> name = ''/'' \<Longrightarrow> path_join [rootdir, dir, name] = path_join [rootdir, dir]"
    and "name = ''..'' \<Longrightarrow> path_join [rootdir, dir, name] = path_clean rootdir"
proof -
  have dir: "dir \<noteq> []" "split_on CHR ''/'' dir = [dir]" "dir \<noteq> ''..''"
    using assms(2) by (auto simp: plain_name_def intro: split_on_id)
  have one: "clean_stack (rootdir @ CHR ''/'' # dir) = dir # clean_stack rootdir"
    using assms dir by (simp add: clean_stack_snoc clean_push_plain)
  have two: "clean_stack (rootdir @ CHR ''/'' # dir @ CHR ''/'' # name) =
      foldl (clean_push (has_prefix rootdir ''/'')) (dir # clean_stack rootdir) (split_on CHR ''/'' name)"
    using assms dir by (simp add: clean_stack_snoc split_on_snoc2 clean_push_plain)
  note joins = path_join_root [OF assms(1) dir(1)] path_join_root2 [OF assms(1) dir(1) assms(3)] path_clean_stack Let_def
    has_prefix_root [OF assms(1)] one two
  show "path_join [rootdir, dir, name] = path_join [rootdir, dir] @ CHR ''/'' # name" if "plain_name name"
  proof -
    have "split_on CHR ''/'' name = [name]" using that by (auto simp: plain_name_def intro: split_on_id)
    with that dir show ?thesis by (simp add: joins clean_push_plain join_snoc2 join_eq_Nil)
  qed
  show "path_join [rootdir, dir, name] = path_join [rootdir, dir]" if "name = ''.'' \<or> name = ''/''"
    using that by (auto simp: joins clean_push_def)
  show "path_join [rootdir, dir, name] = path_clean rootdir" if "name = ''..''"
    unfolding joins using dir by (simp add: that clean_push_def)
qed

lemma show_int_plain: "plain_name (''run_'' @ show_int i)"
  using show_int_not_in [of "CHR ''/''" i] by (auto simp: plain_name_def is_ascii_digit_def less_eq_char_def)

text \<open>Only the download serves a file.\<close>

definition no_file :: "Response \<Rightarrow> bool" where
  "no_file response \<longleftrightarrow> (\<forall>path. re_Payload response \<noteq> FilePayload path)"

lemma no_file_simps [simp]:
  "no_file (writeJSON i j)" "no_file (error_response i m)" "no_file methodNotAllowed" "no_file (writeError e)"
  "no_file (writePaged js n p ps)" "no_file ops_missing" "no_file not_found" "no_file (response\<lparr> re_Started := started \<rparr>) = no_file response"
  "no_file (response\<lparr> re_Header := hs \<rparr>) = no_file response"
  by (simp_all add: no_file_def writeJSON_def error_response_def methodNotAllowed_def writeError_def writePaged_def
      ops_missing_def not_found_def)

lemma parseRunID_no_file: "parseRunID r = Inl response \<Longrightarrow> no_file response"
  by (auto simp: parseRunID_def Let_def split: if_splits option.splits)

lemma paged_no_file [simp]: "no_file (fst (paged rows item r w))"
  by (auto simp: paged_def split: prod.splits sum.splits)

lemma for_run_no_file: "(\<And>runID. no_file (fst (h runID r w))) \<Longrightarrow> no_file (fst (for_run h r w))"
  using parseRunID_no_file by (auto simp: for_run_def split: sum.splits)

lemma start_run_no_file [simp]: "no_file (fst (start_run pf starter p addresses cfg w))"
  by (auto simp: start_run_def Let_def split: option.splits prod.splits sum.splits)

lemma read_no_file [simp]:
  "no_file (fst (handleOverview pf s r w))" "no_file (fst (handleCandidates s r w))" "no_file (fst (handleTransactions s r w))"
  "no_file (fst (handleRuns pf s r w))" "no_file (fst (handleWalletSync s r w))" "no_file (fst (handleCounterparties s r w))"
  "no_file (fst (handleHealth r w))" "no_file (fst (handleOpsRuns s r w))" "no_file (fst (handleOpsFailures s r w))"
  "no_file (fst (handleSettingsGet pf s r w))"
  by (auto simp: handleOverview_def handleCandidates_def handleTransactions_def handleRuns_def handleRunStart_def handleWalletSync_def
      handleCounterparties_def handleHealth_def handleOpsRuns_def handleOpsFailures_def handleSettingsGet_def Let_def
      split: prod.splits sum.splits option.splits)

lemma write_no_file [simp]: "no_file (fst (handleSettings pf s r w))"
  using read_no_file(10) [of pf s r]
  by (auto simp: handleSettings_def handleSettingsWrite_def split: prod.splits sum.splits option.splits)

lemma report_no_file [simp]:
  "no_file (fst (handleCandidateReports s r w))" "no_file (fst (handleWalletReports s r w))"
  "no_file (fst (handleExportGenerate pf s r w))" "no_file (fst (handleExportJobs s r w))" "no_file (fst (handleExportFiles pf s r w))"
  by (auto simp: handleCandidateReports_def handleWalletReports_def handleExportGenerate_def handleExportJobs_def
      handleExportFiles_def Let_def split: option.split prod.split sum.split intro!: for_run_no_file)

lemma detail_no_file [simp]: "no_file (fst (handleCandidateDetail s r w))"
  by (auto simp: handleCandidateDetail_def split: list.split option.split prod.split sum.split)

lemma job_no_file [simp]: "no_file (fst (handleExportJobByID s r w))"
  by (auto simp: handleExportJobByID_def split: option.split prod.split sum.split)

lemma routes_no_file:
  "(path, h) \<in> set (routes pf s) \<Longrightarrow> h = handleExportDownload pf s \<or> no_file (fst (h r w))"
  by (auto simp: routes_def handleOpsWalletSync_def)

lemma mux_no_file: "fst (mux pf s r w) = fst (handleExportDownload pf s r w) \<or> no_file (fst (mux pf s r w))"
proof (cases "map_of (routes pf s) (rq_Path r)")
  case (Some h)
  with routes_no_file [OF map_of_SomeD [OF Some], of r w] show ?thesis by (auto simp: mux_def)
qed (simp add: mux_def)

lemma download_path:
  assumes "re_Payload (fst (handleExportDownload pf s r w)) = FilePayload path"
  shows "\<exists>runID name. name \<noteq> [] \<and> path_base name = name \<and>
    path = path_join [sv_exportRoot s, ''run_'' @ show_int runID, name]"
proof -
  have quiet: "re_Payload (writeError e) \<noteq> FilePayload path" "re_Payload (error_response i m) \<noteq> FilePayload path"
    "re_Payload methodNotAllowed \<noteq> FilePayload path" for e i m
    using no_file_simps unfolding no_file_def by blast+
  have "re_Payload response \<noteq> FilePayload path" if "parseRunID r = Inl response" for response
    using parseRunID_no_file [OF that] by (simp add: no_file_def)
  with assms quiet show ?thesis
    by (auto simp: handleExportDownload_def for_run_def Let_def split: if_splits sum.splits option.splits prod.splits)
qed

text \<open>C34. Every file the API serves is below the directory of an export: the path is the directory of a run, a slash
  and one name. The exceptions are the names that pass the check although they are none: \<open>.\<close> and \<open>/\<close> name the
  directory of the run itself, and \<open>..\<close> names the root of all exports.\<close>

theorem download_confined:
  assumes "re_Payload (fst (Handler pf s r w)) = FilePayload path" and "sv_exportRoot s \<noteq> []"
  shows "\<exists>runID name. (if plain_name name then path = run_dir s runID @ ''/'' @ name
    else if name = ''..'' then path = path_clean (sv_exportRoot s)
    else (name = ''.'' \<or> name = ''/'') \<and> path = run_dir s runID)"
proof -
  have "re_Payload (fst (mux pf s r w)) = FilePayload path"
    using assms(1) no_file_simps(2)
    by (auto simp: Handler_def withCORS_def withAuth_def Let_def no_file_def split: if_splits prod.splits)
  moreover from this have "fst (mux pf s r w) = fst (handleExportDownload pf s r w)"
    using mux_no_file [of pf s r w] by (auto simp: no_file_def)
  ultimately obtain runID name where name: "name \<noteq> []" "path_base name = name"
    and path: "path = path_join [sv_exportRoot s, ''run_'' @ show_int runID, name]"
    using download_path [of pf s r w path] by auto
  show ?thesis
    using path_join_plain [OF assms(2) show_int_plain name(1)] path_base_fixed [OF name(2,1)] name(1)
    by (intro exI [of _ runID] exI [of _ name]) (auto simp: path run_dir_def plain_name_def)
qed

end
