(* ===== verification/Api_Reads.thy ===== *)
theory Api_Reads
imports Api_Spec Wallet_Runs
begin

text \<open>
  Which requests change the store. A view of the world that the reading operations keep is kept by every request
  with the method GET, and by every other request except the three that write: settings, run starts and export
  jobs.
\<close>

definition undisturbed :: "('w \<Rightarrow> 'v) \<Rightarrow> ('w \<Rightarrow> 'r \<times> 'w) \<Rightarrow> bool" where
  "undisturbed view c \<longleftrightarrow> (\<forall>w. view (snd (c w)) = view w)"

lemma undisturbedD: "undisturbed view c \<Longrightarrow> view (snd (c w)) = view w"
  by (simp add: undisturbed_def)

section \<open>Exports\<close>

locale undisturbed_files =
  fixes view :: "'w \<Rightarrow> 'v" and fl :: "'w files"
  assumes mkdir_kept: "undisturbed view (fl_MkdirAll fl path)"
    and write_kept: "undisturbed view (fl_WriteFile fl path body)"
begin

lemma write_artifacts_view: "view (snd (write_artifacts fl dir as w)) = view w"
  by (induction as arbitrary: w) (simp_all add: split_def undisturbedD [OF write_kept] split: option.split)

lemma write_dataset_view: "view (snd (write_dataset sha fl opts runs as w)) = view w"
  by (simp add: write_dataset_def Let_def split_def write_artifacts_view undisturbedD [OF write_kept] undisturbedD [OF mkdir_kept]
      split: option.split)

end

locale undisturbed_export = undisturbed_files +
  fixes src :: "'w DatasetSource"
  assumes source: "undisturbed view (ds_ListIngestionRuns src flt)" "undisturbed view (ds_ListWalletSyncRuns src flt)"
    "undisturbed view (ds_ListPoisoningCandidates src flt)" "undisturbed view (ds_ListCandidateExplanations src flt)"
    "undisturbed view (ds_ListWalletInspectionSummary src flt)"
begin

lemma export_view: "view (snd (ExportDataset sha sq fl (Some src) opts w)) = view w"
  by (simp add: ExportDataset_def Let_def split_def write_dataset_view source [THEN undisturbedD] split: sum.split)

end

section \<open>Handlers\<close>

definition calm :: "('w \<Rightarrow> 'v) \<Rightarrow> Response \<times> 'w \<Rightarrow> 'w \<Rightarrow> bool" where
  "calm view result w \<longleftrightarrow> view (snd result) = view w \<and> re_Started (fst result) = []"

text \<open>The requests that write.\<close>

definition writing :: "Request \<Rightarrow> bool" where
  "writing r \<longleftrightarrow>
     rq_Path r = ''/api/settings'' \<and> rq_Method r \<in> {''PUT'', ''PATCH''} \<or>
     rq_Path r \<in> {''/api/runs'', ''/api/exports/jobs''} \<and> rq_Method r = ''POST''"

lemma started_simps [simp]:
  "re_Started (writeJSON i j) = []" "re_Started (error_response i m) = []" "re_Started methodNotAllowed = []"
  "re_Started (writeError e) = []" "re_Started (writePaged js n p ps) = []" "re_Started ops_missing = []" "re_Started not_found = []"
  by (simp_all add: writeJSON_def error_response_def methodNotAllowed_def writeError_def writePaged_def
      ops_missing_def not_found_def)

lemma parseRunID_started: "parseRunID r = Inl response \<Longrightarrow> re_Started response = []"
  by (auto simp: parseRunID_def Let_def split: if_splits option.splits)

text \<open>What the API only reads.\<close>

locale reading_api = undisturbed_files view "pf_Files pf"
  for view :: "'w \<Rightarrow> 'v" and pf :: "'w platform" +
  fixes s :: "'w Server"
  assumes overview: "undisturbed view (rr_GetOverviewMetrics (sv_repo s) t)"
    "undisturbed view (rr_ListOverviewCandidates (sv_repo s) n)"
    and pages: "undisturbed view (rr_ListCandidates (sv_repo s) l off)" "undisturbed view (rr_ListTransactions (sv_repo s) l off)"
    "undisturbed view (rr_ListRuns (sv_repo s) l off)" "undisturbed view (rr_ListWalletSyncRuns (sv_repo s) l off)"
    "undisturbed view (rr_ListCounterparties (sv_repo s) l off)"
    "undisturbed view (rr_ListCandidateExplanationsForRun (sv_repo s) runID l off)"
    "undisturbed view (rr_ListWalletInspectionSummaryForRun (sv_repo s) runID l off)"
    and detail: "undisturbed view (rr_GetCandidateExplanation (sv_repo s) run sig i)"
    and settings: "sv_settings s = Some st \<Longrightarrow> undisturbed view (ss_GetConfigOverride st)"
    and jobs: "sv_exportJobs s = Some jst \<Longrightarrow> undisturbed view (js_GetExportJob jst job)"
    "sv_exportJobs s = Some jst \<Longrightarrow> undisturbed view (js_ListExportJobsForRun jst runID n)"
    and ops: "sv_ops s = Some ost \<Longrightarrow> undisturbed view (os_ListOpsRunHealth ost l off)"
    "sv_ops s = Some ost \<Longrightarrow> undisturbed view (os_ListFailureClassCounts ost)"
    and dirs: "undisturbed view (pf_ReadDir pf path)" "undisturbed view (pf_Stat pf path)"
    and exports: "sv_exportSource s = Some src \<Longrightarrow> undisturbed_export view (pf_Files pf) src"
begin

lemmas read_views = overview [THEN undisturbedD] pages [THEN undisturbedD] detail [THEN undisturbedD] dirs [THEN undisturbedD]

lemma paged_calm: "(\<And>l off. undisturbed view (rows l off)) \<Longrightarrow> calm view (paged rows item r w) w"
  by (simp add: paged_def calm_def split_def undisturbedD split: sum.split)

lemma for_run_calm: "(\<And>runID. calm view (h runID r w) w) \<Longrightarrow> calm view (for_run h r w) w"
  using parseRunID_started by (auto simp: for_run_def calm_def split: sum.split)

lemma refused_calm [simp]:
  "calm view (methodNotAllowed, w) w" "calm view (error_response i m, w) w" "calm view (writeError e, w) w" "calm view (ops_missing, w) w"
  "calm view (not_found, w) w" "calm view (writeJSON i j, w) w"
  by (simp_all add: calm_def)

lemma list_calm:
  "calm view (handleCandidates s r w) w" "calm view (handleTransactions s r w) w" "calm view (handleCounterparties s r w) w"
  unfolding handleCandidates_def handleTransactions_def handleCounterparties_def
  by (intro paged_calm pages)+

lemma wallet_sync_calm: "calm view (handleWalletSync s r w) w"
  by (simp add: handleWalletSync_def calm_def split_def read_views split: sum.split)

lemma overview_calm: "calm view (handleOverview pf s r w) w"
  by (simp add: handleOverview_def calm_def Let_def split_def read_views split: sum.split)

lemma effective_view: "view (snd (effectiveConfig parse s w)) = view w"
  using settings [THEN undisturbedD]
  by (simp add: effectiveConfig_def loadSettingsOverride_def split_def Let_def split: sum.split option.split)

lemma settings_calm: "calm view (handleSettingsGet pf s r w) w"
  by (simp add: handleSettingsGet_def calm_def split_def effective_view split: sum.split)

lemma detail_calm: "calm view (handleCandidateDetail s r w) w"
  by (simp add: handleCandidateDetail_def calm_def split_def read_views split: list.split option.split sum.split)

lemma report_calm: "calm view (handleCandidateReports s r w) w" "calm view (handleWalletReports s r w) w"
  by (simp_all add: handleCandidateReports_def handleWalletReports_def for_run_calm paged_calm pages)

lemma generate_calm: "calm view (handleExportGenerate pf s r w) w"
proof (cases "sv_exportSource s")
  case (Some src)
  note kept = exports [OF Some, THEN undisturbed_export.export_view]
  show ?thesis
    by (auto simp: handleExportGenerate_def Some intro!: for_run_calm)
      (simp_all add: calm_def export_run_def split_def kept split: sum.split)
qed (simp add: handleExportGenerate_def)

lemma files_calm: "calm view (handleExportFiles pf s r w) w" "calm view (handleExportDownload pf s r w) w"
  unfolding handleExportFiles_def handleExportDownload_def
  by (cases "rq_Method r = ''GET''"; simp; intro for_run_calm;
      simp add: calm_def Let_def split_def read_views split: option.split sum.split)+

lemma job_calm: "calm view (handleExportJobByID s r w) w"
  using jobs [THEN undisturbedD]
  by (simp add: handleExportJobByID_def calm_def split_def split: option.split sum.split)

lemma jobs_calm:
  assumes "rq_Method r \<noteq> ''POST''"
  shows "calm view (handleExportJobs s r w) w"
proof (cases "sv_exportJobs s")
  case (Some jst)
  note kept = jobs(2) [OF Some, THEN undisturbedD]
  show ?thesis
    using assms
    by (auto simp: handleExportJobs_def Some intro!: for_run_calm split: option.split)
      (simp_all add: calm_def split_def kept split: sum.split)
qed (simp add: handleExportJobs_def)

lemma ops_calm: "calm view (handleOpsRuns s r w) w" "calm view (handleOpsFailures s r w) w"
  using ops(2) [THEN undisturbedD]
  by (auto simp: handleOpsRuns_def intro!: paged_calm ops split: option.split)
    (simp add: handleOpsFailures_def calm_def split_def split: option.split sum.split)

lemma runs_calm: "rq_Method r \<noteq> ''POST'' \<Longrightarrow> calm view (handleRuns pf s r w) w"
  by (simp add: handleRuns_def paged_calm pages)

lemma mux_calm: "\<not> writing r \<Longrightarrow> calm view (mux pf s r w) w"
  by (auto simp: mux_def routes_def writing_def handleSettings_def handleOpsWalletSync_def handleHealth_def
      list_calm wallet_sync_calm overview_calm settings_calm detail_calm report_calm generate_calm
      files_calm job_calm jobs_calm ops_calm runs_calm split: option.split)

lemma handler_calm: "\<not> writing r \<Longrightarrow> calm view (Handler pf s r w) w"
  using mux_calm [of r w]
  by (auto simp: Handler_def withCORS_def withAuth_def Let_def calm_def split: prod.split)

end

end
