(* ===== verification/Api_Apart.thy ===== *)
theory Api_Apart
imports Api_Reads
begin

text \<open>
  The scanner and the API share one database. No operation of the scanner's store touches the rows that only the
  API writes, the overrides and the export jobs.
\<close>

definition apart :: "Pg \<Rightarrow> Pg \<Rightarrow> bool" where
  "apart w w' \<longleftrightarrow>
     db_config_override (pg_db w') = db_config_override (pg_db w) \<and> db_export_jobs (pg_db w') = db_export_jobs (pg_db w) \<and>
     db_next_id (pg_db w) \<le> db_next_id (pg_db w') \<and> pg_fault w' = pg_fault w"

lemma apart_refl [simp, intro]: "apart w w"
  by (simp add: apart_def)

lemma apart_trans [trans]: "apart w w' \<Longrightarrow> apart w' w'' \<Longrightarrow> apart w w''"
  by (auto simp: apart_def)

definition spares :: "(gotime \<Rightarrow> Db \<Rightarrow> go_error + 'a \<times> Db) \<Rightarrow> bool" where
  "spares stmt \<longleftrightarrow> (\<forall>now db x db'. stmt now db = Inr (x, db') \<longrightarrow>
     db_config_override db' = db_config_override db \<and> db_export_jobs db' = db_export_jobs db \<and> db_next_id db \<le> db_next_id db')"

lemma sparesI:
  "(\<And>now db x db'. stmt now db = Inr (x, db') \<Longrightarrow>
     db_config_override db' = db_config_override db \<and> db_export_jobs db' = db_export_jobs db \<and> db_next_id db \<le> db_next_id db') \<Longrightarrow> spares stmt"
  by (auto simp: spares_def)

section \<open>Calls\<close>

lemma driver_call_apart: "spares stmt \<Longrightarrow> apart w (snd (driver_call stmt w))"
  by (auto simp: driver_call_def Let_def apart_def spares_def split: option.split sum.split prod.split)

lemma driver_noop_apart: "apart w (snd (driver_noop w))"
  by (simp add: driver_noop_def driver_call_apart spares_def)

lemma rollback_apart: "apart w0 w \<Longrightarrow> apart w0 (rollback w0 w)"
  by (simp add: apart_def rollback_def)

text \<open>An operation that is one call and a translation of its result.\<close>

lemma call_apart:
  assumes "spares stmt" and "\<And>r w1. snd (g r w1) = w1"
  shows "apart w (snd (case driver_call stmt w of (r, w1) \<Rightarrow> g r w1))"
  using driver_call_apart [OF assms(1), of w] assms(2) by (simp add: split_def)

lemma exec_update_apart: "spares stmt \<Longrightarrow> apart w (snd (exec_update what stmt w))"
  using driver_call_apart [of stmt w] driver_noop_apart [of "snd (driver_call stmt w)"]
  by (auto simp: exec_update_def split_def split: sum.split intro: apart_trans)

lemma spares_update_sync_run: "spares (update_sync_run i f)"
  by (rule sparesI) (auto simp: update_sync_run_def split: option.splits if_splits)

lemma upsert_rows_apart: "apart w (snd (upsert_rows trs i u w))"
proof (induction trs arbitrary: i u w)
  case (Cons tr trs)
  have "apart w (snd (driver_call (upsert_transfer tr) w))"
    by (rule driver_call_apart, rule sparesI) (auto simp: upsert_transfer_def fresh_eq split: option.splits)
  with Cons show ?case by (auto simp: split_def split: sum.split intro: apart_trans)
qed simp

lemma insert_candidate_rows_apart: "apart w (snd (insert_candidate_rows run wid cs i w))"
proof (induction cs arbitrary: i w)
  case (Cons c cs)
  have "apart w (snd (driver_call (insert_candidate run wid c) w))"
    by (rule driver_call_apart, rule sparesI) (auto simp: insert_candidate_def Let_def split: if_splits)
  with Cons show ?case by (auto simp: split_def split: sum.split intro: apart_trans)
qed simp

lemma scan_rows_apart: "apart w (snd (scan_rows rows out w))"
proof (induction rows arbitrary: out w)
  case Nil
  then show ?case using driver_noop_apart [of w] by (auto simp: split_def split: sum.split)
next
  case (Cons row rows)
  then show ?case using driver_noop_apart [of w] by (auto simp: split_def split: sum.split intro: apart_trans)
qed

text \<open>A transaction: two calls, the rows, the commit.\<close>

lemma transaction_apart:
  assumes "\<And>w. apart w (snd (rows w))"
  shows "apart w (snd (case driver_noop w of
        (Inl e, w1) \<Rightarrow> (Inl (f1 e), w1)
      | (Inr _, w1) \<Rightarrow>
      (case driver_noop w1 of
        (Inl e, w2) \<Rightarrow> (Inl (f2 e), rollback w w2)
      | (Inr _, w2) \<Rightarrow>
      (case rows w2 of
        (Inl e, w3) \<Rightarrow> (Inl e, rollback w w3)
      | (Inr counts, w3) \<Rightarrow>
      (case driver_noop w3 of
        (Inl e, w4) \<Rightarrow> (Inl (f4 e), rollback w w4)
      | (Inr _, w4) \<Rightarrow> (Inr counts, w4))))))"
proof -
  let ?w1 = "snd (driver_noop w)" let ?w2 = "snd (driver_noop ?w1)" let ?w3 = "snd (rows ?w2)" let ?w4 = "snd (driver_noop ?w3)"
  have "apart w ?w1" "apart w ?w2" "apart w ?w3" "apart w ?w4"
    using assms driver_noop_apart by (meson apart_trans)+
  then show ?thesis by (auto simp: split_def rollback_apart split: sum.split)
qed

section \<open>Operations\<close>

lemma pg_step_apart: "pg_step w w' \<Longrightarrow> apart w w'"
proof (induction rule: pg_step.induct)
  case (1 w t)
  show ?case unfolding CreateIngestionRun_def
    by (rule call_apart, rule sparesI) (auto simp: fresh_eq split: sum.split)
next
  case (2 w run status t counters comment)
  show ?case unfolding FinalizeIngestionRun_def
    by (rule exec_update_apart, rule sparesI) (auto split: option.splits)
next
  case (3 w run wallet window t)
  show ?case unfolding CreateWalletSyncRun_def
    by (rule call_apart, rule sparesI) (auto simp: fresh_eq split: sum.split if_splits)
next
  case (6 w address)
  show ?case unfolding EnsureWallet_def
    by (rule call_apart, rule sparesI) (auto simp: fresh_eq split: sum.split option.splits)
next
  case (7 w wallet t)
  show ?case unfolding UpdateWalletLastSyncedAt_def
    by (rule exec_update_apart, rule sparesI) (auto split: list.splits)
next
  case (8 w transfers)
  show ?case unfolding UpsertNormalizedTransfers_def
    using transaction_apart [where rows = "upsert_rows transfers 0 0", OF upsert_rows_apart] by simp
next
  case (9 w wallet relation transfer)
  show ?case unfolding LinkWalletTransfer_def Let_def
    by (rule call_apart, rule sparesI) (auto simp: link_stmt_def split: sum.split option.splits if_splits)
next
  case (10 w event)
  have "apart w (snd (driver_call (upsert_counterparty event) w))"
    by (rule driver_call_apart, rule sparesI)
      (auto simp: upsert_counterparty_def fresh_eq Let_def split: option.splits if_splits)
  then show ?case by (simp add: UpsertCounterpartyEvent_def split_def split: sum.split)
next
  case (11 w i wallet candidates)
  show ?case unfolding InsertPoisoningCandidates_def
    using transaction_apart [where rows = "insert_candidate_rows i wallet candidates 0", OF insert_candidate_rows_apart] by simp
next
  case (12 w t t')
  have read: "spares (\<lambda>now db. Inr (f db, db))" for f :: "Db \<Rightarrow> ThresholdRow list"
    by (simp add: spares_def)
  note called = driver_call_apart [OF read, of w]
  from called apart_trans [OF called scan_rows_apart] show ?case
    by (simp add: ListDustThresholds_def split_def split: sum.split)
next
  case (13 w address ttl)
  have new: "apart w (snd (newHolderToken w))"
    by (auto simp: newHolderToken_def Let_def apart_def split: sum.split)
  have "apart w (snd (driver_call (acquire_stmt address ttl holder) w))" for holder w
    by (rule driver_call_apart, rule sparesI) (auto simp: acquire_stmt_def Let_def split: option.splits if_splits)
  with new driver_noop_apart show ?case
    by (simp add: AcquireWalletLock_def split_def split: sum.split) (meson apart_trans)
next
  case (14 w address token)
  have "apart w (snd (driver_call (release_stmt address token) w))"
    by (rule driver_call_apart, rule sparesI) (auto simp: release_stmt_def)
  then show ?case by (auto simp: ReleaseWalletLock_def split_def split: sum.split)
next
  case (15 w t)
  show ?case by (simp add: apart_def)
qed (simp_all only: UpdateWalletSyncProgress_def FinalizeWalletSyncRun_def exec_update_apart spares_update_sync_run)

text \<open>What the scanner does, in the API's process or in another one, is a sequence of operations of its store and of
  calls that read.\<close>

definition scanner_step :: "Pg \<Rightarrow> Pg \<Rightarrow> bool" where
  "scanner_step w w' \<longleftrightarrow> pg_step w w' \<or> (pg_db w' = pg_db w \<and> pg_fault w' = pg_fault w)"

definition scanner_steps :: "Pg \<times> 'p \<Rightarrow> Pg \<times> 'p \<Rightarrow> bool" where
  "scanner_steps w w' \<longleftrightarrow> scanner_step\<^sup>*\<^sup>* (fst w) (fst w')"

lemma scanner_steps_refl [simp, intro]: "scanner_steps w w"
  by (simp add: scanner_steps_def)

lemma scanner_steps_trans [trans]: "scanner_steps w w' \<Longrightarrow> scanner_steps w' w'' \<Longrightarrow> scanner_steps w w''"
  by (simp add: scanner_steps_def)

lemma scanner_steps_op: "pg_step (fst w) (fst w') \<Longrightarrow> scanner_steps w w'"
  by (auto simp: scanner_steps_def scanner_step_def)

lemma scanner_steps_read: "pg_db (fst w') = pg_db (fst w) \<Longrightarrow> pg_fault (fst w') = pg_fault (fst w) \<Longrightarrow> scanner_steps w w'"
  by (auto simp: scanner_steps_def scanner_step_def)

lemma scanner_step_apart: "scanner_step w w' \<Longrightarrow> apart w w'"
  unfolding scanner_step_def by (auto dest: pg_step_apart) (simp add: apart_def)

lemma scanner_step_inv: "scanner_step w w' \<Longrightarrow> db_inv (pg_db w) \<Longrightarrow> db_inv (pg_db w')"
  by (auto simp: scanner_step_def intro: pg_step_inv)

lemma scanner_steps_apart: "scanner_steps w w' \<Longrightarrow> apart (fst w) (fst w')"
  unfolding scanner_steps_def by (induction rule: rtranclp_induct) (auto intro: apart_trans scanner_step_apart)

lemma scanner_steps_inv: "scanner_steps w w' \<Longrightarrow> db_inv (pg_db (fst w)) \<Longrightarrow> db_inv (pg_db (fst w'))"
  unfolding scanner_steps_def by (induction rule: rtranclp_induct) (auto intro: scanner_step_inv)

end
