(* ===== verification/Api_Store.thy ===== *)
theory Api_Store
imports Api_Apart
begin

text \<open>
  The API on the PostgreSQL store: a world is the store and, beside it, the files. Which requests change the
  tables, and how.
\<close>

section \<open>The API of a store\<close>

definition on_snd :: "('p \<Rightarrow> 'r \<times> 'p) \<Rightarrow> 'w \<times> 'p \<Rightarrow> 'r \<times> ('w \<times> 'p)" where
  "on_snd f w = (case f (snd w) of (r, p) \<Rightarrow> (r, (fst w, p)))"

lemma on_snd_simps [simp]: "fst (on_snd f w) = fst (f (snd w))" "fst (snd (on_snd f w)) = fst w" "snd (snd (on_snd f w)) = snd (f (snd w))"
  by (simp_all add: on_snd_def split: prod.splits)

definition files_on_snd :: "'p files \<Rightarrow> ('w \<times> 'p) files" where
  "files_on_snd fl =
     \<lparr> fl_MkdirAll = (\<lambda>path. on_snd (fl_MkdirAll fl path)), fl_WriteFile = (\<lambda>path body. on_snd (fl_WriteFile fl path body)) \<rparr>"

definition hosted :: "'p platform \<Rightarrow> ('w \<times> 'p) platform" where
  "hosted pf =
     \<lparr> pf_DecodeRun = pf_DecodeRun pf, pf_DecodeSettings = pf_DecodeSettings pf, pf_ParseURI = pf_ParseURI pf,
       pf_ParseTime = pf_ParseTime pf, pf_Now = (\<lambda>w. pf_Now pf (snd w)), pf_ReadDir = (\<lambda>dir. on_snd (pf_ReadDir pf dir)),
       pf_Stat = (\<lambda>path. on_snd (pf_Stat pf path)), pf_Files = files_on_snd (pf_Files pf), pf_SHA = pf_SHA pf,
       pf_SQL = pf_SQL pf, pf_Rate = pf_Rate pf \<rparr>"

definition read_on_fst :: "'w ReadRepository \<Rightarrow> ('w \<times> 'p) ReadRepository" where
  "read_on_fst rr =
     \<lparr> rr_GetOverviewMetrics = (\<lambda>t. on_fst (rr_GetOverviewMetrics rr t)),
       rr_ListOverviewCandidates = (\<lambda>n. on_fst (rr_ListOverviewCandidates rr n)),
       rr_ListCandidates = (\<lambda>l off. on_fst (rr_ListCandidates rr l off)),
       rr_ListTransactions = (\<lambda>l off. on_fst (rr_ListTransactions rr l off)),
       rr_ListRuns = (\<lambda>l off. on_fst (rr_ListRuns rr l off)),
       rr_ListWalletSyncRuns = (\<lambda>l off. on_fst (rr_ListWalletSyncRuns rr l off)),
       rr_ListCounterparties = (\<lambda>l off. on_fst (rr_ListCounterparties rr l off)),
       rr_GetCandidateExplanation = (\<lambda>i sig n. on_fst (rr_GetCandidateExplanation rr i sig n)),
       rr_ListCandidateExplanationsForRun = (\<lambda>i l off. on_fst (rr_ListCandidateExplanationsForRun rr i l off)),
       rr_ListWalletInspectionSummaryForRun = (\<lambda>i l off. on_fst (rr_ListWalletInspectionSummaryForRun rr i l off)) \<rparr>"

definition settings_on_fst :: "'w SettingsStore \<Rightarrow> ('w \<times> 'p) SettingsStore" where
  "settings_on_fst st =
     \<lparr> ss_GetConfigOverride = on_fst (ss_GetConfigOverride st),
       ss_UpsertConfigOverride = (\<lambda>r. on_fst (ss_UpsertConfigOverride st r)) \<rparr>"

definition jobs_on_fst :: "'w ExportJobStore \<Rightarrow> ('w \<times> 'p) ExportJobStore" where
  "jobs_on_fst js =
     \<lparr> js_CreateExportJob = (\<lambda>i dir. on_fst (js_CreateExportJob js i dir)),
       js_UpdateExportJobStatus = (\<lambda>i st msg t t'. on_fst (js_UpdateExportJobStatus js i st msg t t')),
       js_GetExportJob = (\<lambda>i. on_fst (js_GetExportJob js i)),
       js_ListExportJobsForRun = (\<lambda>i n. on_fst (js_ListExportJobsForRun js i n)) \<rparr>"

definition ops_on_fst :: "'w OpsStore \<Rightarrow> ('w \<times> 'p) OpsStore" where
  "ops_on_fst os =
     \<lparr> os_ListOpsRunHealth = (\<lambda>l off. on_fst (os_ListOpsRunHealth os l off)),
       os_ListFailureClassCounts = on_fst (os_ListFailureClassCounts os) \<rparr>"

definition repository_on_fst :: "'w repository \<Rightarrow> ('w \<times> 'p) repository" where
  "repository_on_fst rp =
     \<lparr> rp_Read = read_on_fst (rp_Read rp), rp_DatasetSource = map_option source_on_fst (rp_DatasetSource rp),
       rp_SettingsStore = map_option settings_on_fst (rp_SettingsStore rp),
       rp_ExportJobStore = map_option jobs_on_fst (rp_ExportJobStore rp), rp_OpsStore = map_option ops_on_fst (rp_OpsStore rp) \<rparr>"

definition api_server ::
  "sql_text \<Rightarrow> row_ids \<Rightarrow> Config \<Rightarrow> (Pg \<times> 'p) RunStarter option \<Rightarrow> (Pg \<times> 'p) Server" where
  "api_server sq ids cfg starter = (NewServer (repository_on_fst (pg_repository sq ids)) cfg)\<lparr> sv_runStarter := starter \<rparr>"

definition pg_settings :: "(Pg \<times> 'p) SettingsStore" where
  "pg_settings = settings_on_fst \<lparr> ss_GetConfigOverride = GetConfigOverride, ss_UpsertConfigOverride = UpsertConfigOverride \<rparr>"

definition pg_jobs :: "(Pg \<times> 'p) ExportJobStore" where
  "pg_jobs = jobs_on_fst
     \<lparr> js_CreateExportJob = CreateExportJob, js_UpdateExportJobStatus = UpdateExportJobStatus,
       js_GetExportJob = GetExportJob, js_ListExportJobsForRun = ListExportJobsForRun \<rparr>"

lemma api_server_simps [simp]:
  "sv_cfg (api_server sq ids cfg starter) = cfg" "sv_runStarter (api_server sq ids cfg starter) = starter"
  "sv_settings (api_server sq ids cfg starter) = Some pg_settings" "sv_exportJobs (api_server sq ids cfg starter) = Some pg_jobs"
  "sv_exportSource (api_server sq ids cfg starter) = Some (source_on_fst (pg_source sq))"
  "sv_exportRoot (api_server sq ids cfg starter) = path_join [''artifacts'', ''web_exports'']"
  by (simp_all add: api_server_def NewServer_def repository_on_fst_def pg_repository_def pg_settings_def pg_jobs_def)

section \<open>Reading keeps the tables\<close>

lemma read_call_db [simp]: "pg_db (snd (driver_call (\<lambda>now db. case f db of Inl e \<Rightarrow> Inl e | Inr r \<Rightarrow> Inr (r, db)) w)) = pg_db w"
  by (auto simp: driver_call_def Let_def split: option.split sum.split)

lemma pure_call_db [simp]: "pg_db (snd (driver_call (\<lambda>now db. Inr (f db, db)) w)) = pg_db w"
  using read_call_db [of "\<lambda>db. Inr (f db)" w] by simp

lemma list_query_db [simp]: "pg_db (snd (list_query a b c f w)) = pg_db w"
  by (simp add: list_query_def split_def split: sum.split)

lemma query_row_db [simp]: "pg_db (snd (query_row what f w)) = pg_db w"
  by (simp add: query_row_def split_def split: sum.split)

lemma page_query_db [simp]: "pg_db (snd (page_query a b c l off f w)) = pg_db w"
  by (simp add: page_query_def split_def split: sum.split)

lemma counted_page_db [simp]: "pg_db (snd (counted_page names n f l off w)) = pg_db w"
  by (simp add: counted_page_def split_def split: sum.split prod.split)

lemma repository_db [simp]:
  "pg_db (snd (GetOverviewMetrics t w)) = pg_db w" "pg_db (snd (ListOverviewCandidates sq n w)) = pg_db w"
  "pg_db (snd (ListCandidates sq l off w)) = pg_db w" "pg_db (snd (ListTransactions sq l off w)) = pg_db w"
  "pg_db (snd (ListRuns sq l off w)) = pg_db w" "pg_db (snd (ListWalletSyncRuns l off w)) = pg_db w"
  "pg_db (snd (ListCounterparties ids l off w)) = pg_db w" "pg_db (snd (GetCandidateExplanation ids i sig n w)) = pg_db w"
  "pg_db (snd (ListCandidateExplanationsForRun sq ids i l off w)) = pg_db w"
  "pg_db (snd (ListWalletInspectionSummaryForRun sq i l off w)) = pg_db w"
  "pg_db (snd (GetConfigOverride w)) = pg_db w" "pg_db (snd (GetExportJob i w)) = pg_db w"
  "pg_db (snd (ListExportJobsForRun i l w)) = pg_db w" "pg_db (snd (ListOpsRunHealth sq l off w)) = pg_db w"
  "pg_db (snd (ListFailureClassCounts sq w)) = pg_db w"
  unfolding GetOverviewMetrics_def ListOverviewCandidates_def ListCandidates_def ListTransactions_def ListRuns_def
    ListWalletSyncRuns_def ListCounterparties_def GetCandidateExplanation_def ListCandidateExplanationsForRun_def
    ListWalletInspectionSummaryForRun_def GetConfigOverride_def GetExportJob_def ListExportJobsForRun_def
    ListOpsRunHealth_def ListFailureClassCounts_def
  by (simp_all add: split_def split: sum.split option.split)

lemma export_source_db [simp]:
  "pg_db (snd (ListIngestionRunsForExport sq flt w)) = pg_db w" "pg_db (snd (ListWalletSyncRunsForExport sq flt w)) = pg_db w"
  "pg_db (snd (ListPoisoningCandidatesForExport sq flt w)) = pg_db w"
  "pg_db (snd (ListCandidateExplanationsForExport sq flt w)) = pg_db w"
  "pg_db (snd (ListWalletInspectionSummaryForExport sq flt w)) = pg_db w"
  by (simp_all add: ListIngestionRunsForExport_def ListWalletSyncRunsForExport_def ListPoisoningCandidatesForExport_def
      ListCandidateExplanationsForExport_def ListWalletInspectionSummaryForExport_def)

interpretation exporting: undisturbed_export "\<lambda>w. pg_db (fst w)" "files_on_snd fl" "source_on_fst (pg_source sq)" for fl sq
  by unfold_locales (simp_all add: undisturbed_def files_on_snd_def source_on_fst_def pg_source_def)

interpretation served: reading_api "\<lambda>w. pg_db (fst w)" "hosted pf" "api_server sq ids cfg starter" for pf sq ids cfg starter
  by unfold_locales
    (auto simp: undisturbed_def hosted_def files_on_snd_def api_server_def NewServer_def repository_on_fst_def
      pg_repository_def read_on_fst_def settings_on_fst_def jobs_on_fst_def ops_on_fst_def source_on_fst_def pg_source_def)

text \<open>C33. A request with the method GET changes no table and starts nothing, and neither does any other request
  than the three that are meant to: writing the settings, starting a run, queueing an export.\<close>

theorem api_reads_only:
  "(rq_Method r = ''GET'' \<longrightarrow> \<not> writing r) \<and>
   (writing r \<or> pg_db (fst (snd (Handler (hosted pf) (api_server sq ids cfg starter) r w))) = pg_db (fst w) \<and>
      re_Started (fst (Handler (hosted pf) (api_server sq ids cfg starter) r w)) = [])"
  using served.handler_calm [of r pf sq ids cfg starter w] by (auto simp: calm_def writing_def)

section \<open>Writing\<close>

lemma handler_mux:
  "Handler pf s r w = (fst (Handler pf s r w), w) \<and> re_Started (fst (Handler pf s r w)) = [] \<or>
   snd (Handler pf s r w) = snd (mux pf s r w) \<and> re_Started (fst (Handler pf s r w)) = re_Started (fst (mux pf s r w))"
  by (auto simp: Handler_def withCORS_def withAuth_def Let_def error_response_def writeJSON_def split: prod.splits)

lemma mux_writing:
  "rq_Path r = ''/api/settings'' \<Longrightarrow> mux pf s r w = handleSettings pf s r w"
  "rq_Path r = ''/api/runs'' \<Longrightarrow> mux pf s r w = handleRuns pf s r w"
  "rq_Path r = ''/api/exports/jobs'' \<Longrightarrow> mux pf s r w = handleExportJobs s r w"
  by (simp_all add: mux_def routes_def)

text \<open>The override in effect.\<close>

definition stored_override :: "Db \<Rightarrow> ConfigOverrideRecord" where
  "stored_override db = (case db_config_override db of None \<Rightarrow> no_override | Some r \<Rightarrow> r)"

definition override_valid :: "(string \<Rightarrow> go_error + string) \<Rightarrow> Config \<Rightarrow> Db \<Rightarrow> bool" where
  "override_valid parse_uri cfg db \<longleftrightarrow> ValidateReadOnlyAPI parse_uri (applyConfigOverride cfg (stored_override db)) = None"

text \<open>The scanner a run is handed to: all it does to the store is operations of the scanner's store.\<close>

definition starter_scans :: "(Pg \<times> 'p) RunStarter option \<Rightarrow> bool" where
  "starter_scans starter \<longleftrightarrow> (\<forall>st q w. starter = Some st \<longrightarrow> scanner_steps w (snd (st q w)))"

lemma UpsertConfigOverride_db:
  "pg_db (snd (UpsertConfigOverride r w)) = pg_db w \<or>
   pg_db (snd (UpsertConfigOverride r w)) = (pg_db w)\<lparr> db_config_override := Some (r\<lparr> ov_UpdatedAt := Some (pg_now w) \<rparr>) \<rparr>"
  by (auto simp: UpsertConfigOverride_def exec_only_def driver_call_def Let_def split: option.split sum.split prod.split)

lemma CreateExportJob_cases:
  obtains (failed) "isl (fst (CreateExportJob runID dir w))" "pg_db (snd (CreateExportJob runID dir w)) = pg_db w"
  | (created) row where "fst (CreateExportJob runID dir w) = Inr (db_next_id (pg_db w))"
      "ej_status row = ''queued'' \<and> ej_error_message row = None \<and> ej_completed_at row = None"
      "pg_db (snd (CreateExportJob runID dir w)) = (pg_db w)
         \<lparr> db_next_id := db_next_id (pg_db w) + 1,
           db_export_jobs := (db_next_id (pg_db w), row) # db_export_jobs (pg_db w) \<rparr>"
proof (cases "pg_fault w (pg_calls w) \<noteq> None \<or> runID \<notin> set (map_keys (db_ingestion_runs (pg_db w)))")
  case True
  then show thesis
    by (intro failed) (auto simp: CreateExportJob_def driver_call_def fresh_eq Let_def split: option.splits)
next
  case False
  then show thesis
    by (intro created [of "\<lparr> ej_run_id = runID, ej_status = ''queued'', ej_out_dir = dir, ej_error_message = None,
        ej_created_at = pg_now w, ej_started_at = None, ej_completed_at = None \<rparr>"])
      (auto simp: CreateExportJob_def driver_call_def fresh_eq Let_def)
qed

lemma jobs_request:
  assumes "rq_Method r = ''POST''"
  obtains (refused) "pg_db (fst (snd (handleExportJobs (api_server sq ids cfg starter) r w))) = pg_db (fst w)"
      "re_Started (fst (handleExportJobs (api_server sq ids cfg starter) r w)) = []"
  | (queued) runID where
      "fst (CreateExportJob runID (run_dir (api_server sq ids cfg starter) runID) (fst w)) = Inr (db_next_id (pg_db (fst w)))"
      "pg_db (fst (snd (handleExportJobs (api_server sq ids cfg starter) r w))) =
         pg_db (snd (CreateExportJob runID (run_dir (api_server sq ids cfg starter) runID) (fst w)))"
      "re_Started (fst (handleExportJobs (api_server sq ids cfg starter) r w)) =
         [(db_next_id (pg_db (fst w)), runID, run_dir (api_server sq ids cfg starter) runID)]"
proof (cases "parseRunID r")
  case (Inl response)
  with assms show ?thesis
    by (intro refused) (simp_all add: handleExportJobs_def for_run_def parseRunID_started)
next
  case run: (Inr runID)
  let ?s = "api_server sq ids cfg starter"
  have "handleExportJobs ?s r w =
    (case CreateExportJob runID (run_dir ?s runID) (fst w) of
       (Inl err, w1) \<Rightarrow> (writeError err, (w1, snd w))
     | (Inr jobID, w1) \<Rightarrow> ((writeJSON 202 (json_map
         [(''jobId'', JInt jobID), (''runId'', JInt runID), (''status'', JString ''queued'')]))
         \<lparr> re_Started := [(jobID, runID, run_dir ?s runID)] \<rparr>, (w1, snd w)))"
    using assms run by (simp add: handleExportJobs_def for_run_def pg_jobs_def jobs_on_fst_def on_fst_def split_def split: sum.split)
  then show ?thesis
    using refused queued
    by (cases rule: CreateExportJob_cases [of runID "run_dir ?s runID" "fst w"]) (auto simp: split_def isl_def)
qed

lemma start_run_world: "snd (start_run pf starter p addresses cfg w) = w \<or> (\<exists>q. snd (start_run pf starter p addresses cfg w) = snd (starter q w))"
proof -
  obtain response w' where run: "start_run pf starter p addresses cfg w = (response, w')" by fastforce
  then show ?thesis by (cases rule: start_run_cases [OF run]) (auto simp: run)
qed

lemma effective_db [simp]: "pg_db (fst (snd (effectiveConfig parse (api_server sq ids cfg starter) w))) = pg_db (fst w)"
  by (rule served.effective_view)

lemma runs_request:
  "re_Started (fst (handleRunStart pf s r w)) = []"
  by (auto simp: handleRunStart_def start_run_def Let_def split: prod.split sum.split option.split)

lemma run_start_world:
  "(let w1 = snd (effectiveConfig (pf_ParseURI pf) s w); w' = snd (handleRunStart pf s r w) in
    w' = w \<or> w' = w1 \<or>
    (\<exists>st p addresses cfg. sv_runStarter s = Some st \<and> w' = snd (start_run pf st p addresses cfg w1)))"
  by (auto simp: handleRunStart_def Let_def split_def split: option.split sum.split)

lemma runs_request_world:
  "\<exists>w1. pg_db (fst w1) = pg_db (fst w) \<and>
     (snd (handleRunStart (hosted pf) (api_server sq ids cfg starter) r w) = w1 \<or>
      (\<exists>st q. starter = Some st \<and> snd (handleRunStart (hosted pf) (api_server sq ids cfg starter) r w) = snd (st q w1)))"
  (is "\<exists>w1. _ \<and> (?w' = w1 \<or> _ w1)")
proof -
  let ?w1 = "snd (effectiveConfig (pf_ParseURI pf) (api_server sq ids cfg starter) w)"
  have same: "pg_db (fst ?w1) = pg_db (fst w)" by simp
  from run_start_world [of "hosted pf" "api_server sq ids cfg starter" w r]
  consider "?w' = w" | "?w' = ?w1"
    | st p addresses cfg' where "starter = Some st" "?w' = snd (start_run (hosted pf) st p addresses cfg' ?w1)"
    by (auto simp: Let_def hosted_def)
  then show ?thesis
  proof cases
    case (3 st p addresses cfg')
    with start_run_world [of "hosted pf" st p addresses cfg' ?w1] same show ?thesis by metis
  qed (use same in blast)+
qed

lemma settings_request:
  assumes "rq_Method r \<in> {''PUT'', ''PATCH''}"
  shows "re_Started (fst (handleSettings (hosted pf) (api_server sq ids cfg starter) r w)) = [] \<and>
    (pg_db (fst (snd (handleSettings (hosted pf) (api_server sq ids cfg starter) r w))) = pg_db (fst w) \<or>
     (\<exists>body rec. limited_body r = Inr body \<and> pf_DecodeSettings pf body = Some rec \<and>
        ValidateReadOnlyAPI (pf_ParseURI pf) (applyConfigOverride cfg rec) = None \<and>
        pg_db (fst (snd (handleSettings (hosted pf) (api_server sq ids cfg starter) r w))) = (pg_db (fst w))
          \<lparr> db_config_override := Some (rec\<lparr> ov_UpdatedAt := Some (pg_now (fst w)) \<rparr>) \<rparr>))"
proof -
  have get: "pg_db (fst (snd (handleSettingsGet (hosted pf) (api_server sq ids cfg starter) r w1))) = pg_db (fst w1)"
    "re_Started (fst (handleSettingsGet (hosted pf) (api_server sq ids cfg starter) r w1)) = []" for w1
    using served.settings_calm [of pf sq ids cfg starter r w1] by (simp_all add: calm_def)
  show ?thesis
    using assms UpsertConfigOverride_db [of _ "fst w"]
    by (auto simp: handleSettings_def handleSettingsWrite_def pg_settings_def settings_on_fst_def hosted_def [of pf] on_fst_def
        split_def get [unfolded hosted_def] split: option.split sum.split)
qed

end
