(* ===== verification/Api_Jobs.thy ===== *)
theory Api_Jobs
imports Api_Store
begin

text \<open>
  The settings stay valid, and the export jobs as a state machine: requests and the background jobs they start,
  interleaved.
\<close>

section \<open>What a request does to the store\<close>

lemma starter_scansD: "starter_scans (Some st) \<Longrightarrow> scanner_steps w (snd (st q w))"
  unfolding starter_scans_def by blast

text \<open>The overrides, the export jobs and the number of the next row are not among what the schema's invariant is about.\<close>

lemma db_inv_api:
  "db_inv (db\<lparr> db_config_override := r \<rparr>) = db_inv db"
  "db_inv db \<Longrightarrow> db_inv (db\<lparr> db_next_id := db_next_id db + 1, db_export_jobs := jobs \<rparr>)"
  by (simp_all add: db_inv_def)

text \<open>What a request leaves: the API's rows as they were, another override, or a job more that has been started.\<close>

definition request_effect ::
  "'p platform \<Rightarrow> Config \<Rightarrow> (Pg \<times> 'p) Server \<Rightarrow> Request \<Rightarrow> Pg \<times> 'p \<Rightarrow> Pg \<times> 'p \<Rightarrow> (int \<times> int \<times> string) list \<Rightarrow> bool" where
  "request_effect pf cfg s r w w' started \<longleftrightarrow>
     (db_config_override (pg_db (fst w')) = db_config_override (pg_db (fst w)) \<and>
        db_export_jobs (pg_db (fst w')) = db_export_jobs (pg_db (fst w)) \<and>
        db_next_id (pg_db (fst w)) \<le> db_next_id (pg_db (fst w')) \<and> started = [] \<and>
        (db_inv (pg_db (fst w)) \<longrightarrow> db_inv (pg_db (fst w')))) \<or>
     (\<exists>body rec. limited_body r = Inr body \<and> pf_DecodeSettings pf body = Some rec \<and>
        ValidateReadOnlyAPI (pf_ParseURI pf) (applyConfigOverride cfg rec) = None \<and>
        pg_db (fst w') = (pg_db (fst w))\<lparr> db_config_override := Some (rec\<lparr> ov_UpdatedAt := Some (pg_now (fst w)) \<rparr>) \<rparr> \<and> started = []) \<or>
     (\<exists>runID row. ej_status row = ''queued'' \<and> ej_error_message row = None \<and> ej_completed_at row = None \<and>
        pg_db (fst w') = (pg_db (fst w))
          \<lparr> db_next_id := db_next_id (pg_db (fst w)) + 1, db_export_jobs := (db_next_id (pg_db (fst w)), row) # db_export_jobs (pg_db (fst w)) \<rparr> \<and>
        started = [(db_next_id (pg_db (fst w)), runID, run_dir s runID)])"

lemma effect_same: "pg_db (fst w') = pg_db (fst w) \<Longrightarrow> request_effect pf cfg s r w w' []"
  by (simp add: request_effect_def)

lemma effect_apart:
  assumes "scanner_steps w1 w'" and "pg_db (fst w1) = pg_db (fst w)"
  shows "request_effect pf cfg s r w w' []"
  using scanner_steps_apart [OF assms(1)] scanner_steps_inv [OF assms(1)]
  by (simp add: request_effect_def apart_def assms(2))

lemma effect_mux:
  assumes "request_effect pf cfg s r w (snd (mux pf' s r w)) (re_Started (fst (mux pf' s r w)))"
  shows "request_effect pf cfg s r w (snd (Handler pf' s r w)) (re_Started (fst (Handler pf' s r w)))"
  using handler_mux [of pf' s r w] assms effect_same [of w w] by (metis snd_conv)

lemma settings_effect:
  assumes "rq_Path r = ''/api/settings''" and "rq_Method r \<in> {''PUT'', ''PATCH''}"
  shows "request_effect pf cfg (api_server sq ids cfg starter) r w
    (snd (mux (hosted pf) (api_server sq ids cfg starter) r w)) (re_Started (fst (mux (hosted pf) (api_server sq ids cfg starter) r w)))"
proof -
  note written = settings_request [OF assms(2), of pf sq ids cfg starter w]
  from conjunct2 [OF written] show ?thesis
    unfolding mux_writing(1) [OF assms(1)] conjunct1 [OF written]
  proof (elim disjE exE conjE)
    assume "pg_db (fst (snd (handleSettings (hosted pf) (api_server sq ids cfg starter) r w))) = pg_db (fst w)"
    then show "request_effect pf cfg (api_server sq ids cfg starter) r w (snd (handleSettings (hosted pf) (api_server sq ids cfg starter) r w)) []"
      by (rule effect_same)
  qed (unfold request_effect_def, blast)
qed

lemma runs_effect:
  assumes "starter_scans starter" and "rq_Path r = ''/api/runs''" and "rq_Method r = ''POST''"
  shows "request_effect pf cfg (api_server sq ids cfg starter) r w
    (snd (mux (hosted pf) (api_server sq ids cfg starter) r w)) (re_Started (fst (mux (hosted pf) (api_server sq ids cfg starter) r w)))"
proof -
  let ?s = "api_server sq ids cfg starter"
  have mux: "mux (hosted pf) ?s r w = handleRunStart (hosted pf) ?s r w"
    using assms(3) by (simp add: mux_writing(2) [OF assms(2)] handleRuns_def)
  from runs_request_world [of w pf sq ids cfg starter r] obtain w1 where w1: "pg_db (fst w1) = pg_db (fst w)"
    and world: "snd (mux (hosted pf) ?s r w) = w1 \<or> (\<exists>st q. starter = Some st \<and> snd (mux (hosted pf) ?s r w) = snd (st q w1))"
    unfolding mux by blast
  from world have "scanner_steps w1 (snd (mux (hosted pf) ?s r w))"
    using assms(1) starter_scansD by (elim disjE exE conjE) simp_all
  from effect_apart [OF this w1] show ?thesis by (simp add: mux runs_request)
qed

lemma jobs_effect:
  assumes "rq_Path r = ''/api/exports/jobs''" and "rq_Method r = ''POST''"
  shows "request_effect pf cfg (api_server sq ids cfg starter) r w
    (snd (mux (hosted pf) (api_server sq ids cfg starter) r w)) (re_Started (fst (mux (hosted pf) (api_server sq ids cfg starter) r w)))"
  unfolding mux_writing(3) [OF assms(1)]
proof (cases rule: jobs_request [OF assms(2), of sq ids cfg starter w])
  case 1
  then show "request_effect pf cfg (api_server sq ids cfg starter) r w
      (snd (handleExportJobs (api_server sq ids cfg starter) r w)) (re_Started (fst (handleExportJobs (api_server sq ids cfg starter) r w)))"
    by (simp add: effect_same)
next
  case (2 runID)
  then show "request_effect pf cfg (api_server sq ids cfg starter) r w
      (snd (handleExportJobs (api_server sq ids cfg starter) r w)) (re_Started (fst (handleExportJobs (api_server sq ids cfg starter) r w)))"
    by (cases rule: CreateExportJob_cases [of runID "run_dir (api_server sq ids cfg starter) runID" "fst w"])
      (auto simp: request_effect_def isl_def)
qed

lemma request_effect:
  assumes "starter_scans starter"
  shows "request_effect pf cfg (api_server sq ids cfg starter) r w
    (snd (Handler (hosted pf) (api_server sq ids cfg starter) r w)) (re_Started (fst (Handler (hosted pf) (api_server sq ids cfg starter) r w)))"
proof -
  consider "\<not> writing r" | "rq_Path r = ''/api/settings''" "rq_Method r \<in> {''PUT'', ''PATCH''}"
    | "rq_Path r = ''/api/runs''" "rq_Method r = ''POST''" | "rq_Path r = ''/api/exports/jobs''" "rq_Method r = ''POST''"
    by (auto simp: writing_def)
  then show ?thesis
  proof cases
    case 1
    then show ?thesis
      using served.handler_calm [of r pf sq ids cfg starter w] by (simp add: calm_def effect_same)
  next
    case 2
    then show ?thesis by (intro effect_mux settings_effect)
  next
    case 3
    then show ?thesis by (intro effect_mux runs_effect [OF assms])
  next
    case 4
    then show ?thesis by (intro effect_mux jobs_effect)
  qed
qed

lemma request_cases:
  fixes w :: "Pg \<times> 'p" and pf :: "'p platform" and sq :: sql_text and ids :: row_ids and cfg :: Config and r :: Request
  assumes "starter_scans starter"
  defines "s \<equiv> api_server sq ids cfg starter"
  defines "result \<equiv> Handler (hosted pf) s r w"
  defines "db \<equiv> pg_db (fst w)" and "db' \<equiv> pg_db (fst (snd result))"
  obtains (kept) "db_config_override db' = db_config_override db" "db_export_jobs db' = db_export_jobs db"
      "db_next_id db \<le> db_next_id db'" "re_Started (fst result) = []" "db_inv db \<Longrightarrow> db_inv db'"
  | (settings) body rec where "limited_body r = Inr body" "pf_DecodeSettings pf body = Some rec"
      "ValidateReadOnlyAPI (pf_ParseURI pf) (applyConfigOverride cfg rec) = None"
      "db' = db\<lparr> db_config_override := Some (rec\<lparr> ov_UpdatedAt := Some (pg_now (fst w)) \<rparr>) \<rparr>" "re_Started (fst result) = []"
  | (queued) runID row where "ej_status row = ''queued'' \<and> ej_error_message row = None \<and> ej_completed_at row = None"
      "db' = db\<lparr> db_next_id := db_next_id db + 1, db_export_jobs := (db_next_id db, row) # db_export_jobs db \<rparr>"
      "re_Started (fst result) = [(db_next_id db, runID, run_dir s runID)]"
  using request_effect [OF assms(1), of pf cfg sq ids r w, unfolded request_effect_def, folded s_def, folded result_def, folded db_def,
      folded db'_def]
  by (elim disjE exE conjE)
    ((rule kept; (assumption | (erule (1) mp))) | (rule settings; assumption) | (rule queued; (intro conjI)?; assumption))+

lemma override_updated [simp]: "applyConfigOverride cfg (rec\<lparr> ov_UpdatedAt := t \<rparr>) = applyConfigOverride cfg rec"
  by (simp add: applyConfigOverride_def)

lemma same_override: "db_config_override db' = db_config_override db \<Longrightarrow> override_valid parse cfg db' = override_valid parse cfg db"
  by (simp add: override_valid_def stored_override_def)

lemma request_keeps_valid:
  assumes "starter_scans starter" and "override_valid (pf_ParseURI pf) cfg (pg_db (fst w))"
  shows "override_valid (pf_ParseURI pf) cfg (pg_db (fst (snd (Handler (hosted pf) (api_server sq ids cfg starter) r w))))"
  by (cases rule: request_cases [OF assms(1), where sq = sq and ids = ids and cfg = cfg and pf = pf and r = r and w = w])
    (use assms(2) in \<open>simp_all add: override_valid_def stored_override_def\<close>)

text \<open>C22. No request makes the stored override invalid, so the configuration in effect always respects the limits of
  the pipeline. A request leaves the override as it is, or replaces it as a whole by the one in its body.\<close>

theorem settings_stay_valid:
  assumes "override_valid (pf_ParseURI pf) cfg (pg_db (fst w))" and "starter_scans starter"
    and "db = pg_db (fst (snd (Handler (hosted pf) (api_server sq ids cfg starter) r w)))"
  shows "override_valid (pf_ParseURI pf) cfg db \<and>
    (db_config_override db = db_config_override (pg_db (fst w)) \<or>
     (\<exists>body rec. limited_body r = Inr body \<and> pf_DecodeSettings pf body = Some rec \<and>
        db_config_override db = Some (rec\<lparr> ov_UpdatedAt := Some (pg_now (fst w)) \<rparr>)))"
  using request_keeps_valid [OF assms(2,1), of sq ids r]
  by (cases rule: request_cases [OF assms(2), where sq = sq and ids = ids and cfg = cfg and pf = pf and r = r and w = w])
    (use assms(3) in simp_all)

section \<open>What can fail stays the same\<close>

lemma driver_call_fault [simp]: "pg_fault (snd (driver_call stmt w)) = pg_fault w"
  by (auto simp: driver_call_def Let_def split: option.split sum.split)

lemma scan_records_fault [simp]: "pg_fault (snd (scan_records s i xs out w)) = pg_fault w"
  by (induction xs arbitrary: out w) (simp_all add: driver_noop_def split_def split: sum.split)

lemma query_fault [simp]:
  "pg_fault (snd (list_query a b c f w)) = pg_fault w" "pg_fault (snd (query_row what g w)) = pg_fault w"
  "pg_fault (snd (exec_only what stmt w)) = pg_fault w" "pg_fault (snd (page_query a b c l off f w)) = pg_fault w"
  by (simp_all add: list_query_def query_row_def exec_only_def page_query_def split_def split: sum.split)

lemma counted_page_fault [simp]: "pg_fault (snd (counted_page names n f l off w)) = pg_fault w"
  by (simp add: counted_page_def split_def split: sum.split prod.split)

lemma export_query_fault [simp]: "pg_fault (snd (export_query a b c flt sel w)) = pg_fault w"
  by (simp add: export_query_def split: sum.split)

lemma api_store_fault [simp]:
  "pg_fault (snd (GetOverviewMetrics t w)) = pg_fault w" "pg_fault (snd (ListOverviewCandidates sq n w)) = pg_fault w"
  "pg_fault (snd (ListCandidates sq l off w)) = pg_fault w" "pg_fault (snd (ListTransactions sq l off w)) = pg_fault w"
  "pg_fault (snd (ListRuns sq l off w)) = pg_fault w" "pg_fault (snd (ListWalletSyncRuns l off w)) = pg_fault w"
  "pg_fault (snd (ListCounterparties ids l off w)) = pg_fault w" "pg_fault (snd (GetCandidateExplanation ids i sig n w)) = pg_fault w"
  "pg_fault (snd (ListCandidateExplanationsForRun sq ids i l off w)) = pg_fault w"
  "pg_fault (snd (ListWalletInspectionSummaryForRun sq i l off w)) = pg_fault w"
  "pg_fault (snd (GetConfigOverride w)) = pg_fault w" "pg_fault (snd (GetExportJob i w)) = pg_fault w"
  "pg_fault (snd (ListExportJobsForRun i l w)) = pg_fault w" "pg_fault (snd (ListOpsRunHealth sq l off w)) = pg_fault w"
  "pg_fault (snd (ListFailureClassCounts sq w)) = pg_fault w" "pg_fault (snd (UpsertConfigOverride rec w)) = pg_fault w"
  "pg_fault (snd (CreateExportJob i dir w)) = pg_fault w" "pg_fault (snd (UpdateExportJobStatus i st msg t1 t2 w)) = pg_fault w"
  unfolding GetOverviewMetrics_def ListOverviewCandidates_def ListCandidates_def ListTransactions_def ListRuns_def
    ListWalletSyncRuns_def ListCounterparties_def GetCandidateExplanation_def ListCandidateExplanationsForRun_def
    ListWalletInspectionSummaryForRun_def GetConfigOverride_def GetExportJob_def ListExportJobsForRun_def
    ListOpsRunHealth_def ListFailureClassCounts_def UpsertConfigOverride_def CreateExportJob_def UpdateExportJobStatus_def
  by (simp_all add: split_def split: sum.split option.split)

lemma export_source_fault [simp]:
  "pg_fault (snd (ListIngestionRunsForExport sq flt w)) = pg_fault w" "pg_fault (snd (ListWalletSyncRunsForExport sq flt w)) = pg_fault w"
  "pg_fault (snd (ListPoisoningCandidatesForExport sq flt w)) = pg_fault w"
  "pg_fault (snd (ListCandidateExplanationsForExport sq flt w)) = pg_fault w"
  "pg_fault (snd (ListWalletInspectionSummaryForExport sq flt w)) = pg_fault w"
  by (simp_all add: ListIngestionRunsForExport_def ListWalletSyncRunsForExport_def ListPoisoningCandidatesForExport_def
      ListCandidateExplanationsForExport_def ListWalletInspectionSummaryForExport_def)

interpretation export_faults: undisturbed_export "\<lambda>w. pg_fault (fst w)" "files_on_snd fl" "source_on_fst (pg_source sq)" for fl sq
  by unfold_locales (simp_all add: undisturbed_def files_on_snd_def source_on_fst_def pg_source_def)

interpretation faults: reading_api "\<lambda>w. pg_fault (fst w)" "hosted pf" "api_server sq ids cfg starter" for pf sq ids cfg starter
  by unfold_locales
    (auto simp: undisturbed_def hosted_def files_on_snd_def api_server_def NewServer_def repository_on_fst_def
      pg_repository_def read_on_fst_def settings_on_fst_def jobs_on_fst_def ops_on_fst_def source_on_fst_def pg_source_def)

lemma jobs_fault: "pg_fault (fst (snd (handleExportJobs (api_server sq ids cfg starter) r w))) = pg_fault (fst w)"
  by (simp add: handleExportJobs_def for_run_def pg_jobs_def jobs_on_fst_def split_def split: sum.split)

lemma settings_fault: "pg_fault (fst (snd (handleSettings (hosted pf) (api_server sq ids cfg starter) r w))) = pg_fault (fst w)"
  using faults.settings_calm [of pf sq ids cfg starter r]
  by (simp add: handleSettings_def handleSettingsWrite_def calm_def pg_settings_def settings_on_fst_def split_def
      split: sum.split option.split)

lemma runs_fault:
  assumes "starter_scans starter"
  shows "pg_fault (fst (snd (handleRunStart (hosted pf) (api_server sq ids cfg starter) r w))) = pg_fault (fst w)"
    (is "pg_fault (fst ?w') = _")
proof -
  let ?w1 = "snd (effectiveConfig (pf_ParseURI pf) (api_server sq ids cfg starter) w)"
  have same: "pg_fault (fst ?w1) = pg_fault (fst w)" by (rule faults.effective_view)
  from run_start_world [of "hosted pf" "api_server sq ids cfg starter" w r]
  consider "?w' = w" | "?w' = ?w1"
    | st p addresses cfg' where "starter = Some st" "?w' = snd (start_run (hosted pf) st p addresses cfg' ?w1)"
    by (auto simp: Let_def hosted_def)
  then show ?thesis
  proof cases
    case (3 st p addresses cfg')
    then have "apart (fst ?w1) (fst (snd (st q ?w1)))" for q
      using assms scanner_steps_apart starter_scansD by blast
    with 3 start_run_world [of "hosted pf" st p addresses cfg' ?w1] same show ?thesis
      unfolding apart_def by metis
  qed (use same in simp_all)
qed

lemma request_fault:
  assumes "starter_scans starter"
  shows "pg_fault (fst (snd (Handler (hosted pf) (api_server sq ids cfg starter) r w))) = pg_fault (fst w)"
proof (cases "writing r")
  case False
  with faults.handler_calm [OF False, of pf sq ids cfg starter w] show ?thesis by (simp add: calm_def)
next
  case True
  let ?s = "api_server sq ids cfg starter"
  have "snd (mux (hosted pf) ?s r w) = snd (handleSettings (hosted pf) ?s r w) \<or>
      snd (mux (hosted pf) ?s r w) = snd (handleRunStart (hosted pf) ?s r w) \<or>
      snd (mux (hosted pf) ?s r w) = snd (handleExportJobs ?s r w)"
    using True by (auto simp: writing_def mux_writing handleRuns_def)
  then have "pg_fault (fst (snd (mux (hosted pf) ?s r w))) = pg_fault (fst w)"
    using settings_fault [of pf sq ids cfg starter r w] runs_fault [OF assms, of pf sq ids cfg r w]
      jobs_fault [of sq ids cfg starter r w]
    by (elim disjE) simp_all
  with handler_mux [of "hosted pf" "api_server sq ids cfg starter" r w] show ?thesis by (metis snd_conv)
qed

section \<open>Background jobs\<close>

text \<open>A job that was started, and how far it is: before the first update, before the export, before the last update.\<close>

datatype job_phase = JobQueued | JobExporting | JobClosing "go_error option"

record running_job =
  jb_ID :: int
  jb_Run :: int
  jb_Dir :: string
  jb_Phase :: job_phase

definition queued_job :: "int \<times> int \<times> string \<Rightarrow> running_job" where
  "queued_job j = (case j of (i, runID, dir) \<Rightarrow> \<lparr> jb_ID = i, jb_Run = runID, jb_Dir = dir, jb_Phase = JobQueued \<rparr>)"

definition job_step ::
  "'w platform \<Rightarrow> 'w ExportJobStore \<Rightarrow> 'w DatasetSource \<Rightarrow> running_job \<Rightarrow> 'w \<Rightarrow> running_job option \<times> 'w" where
  "job_step pf jobs src j w =
     (case jb_Phase j of
        JobQueued \<Rightarrow> (Some (j\<lparr> jb_Phase := JobExporting \<rparr>),
          snd (js_UpdateExportJobStatus jobs (jb_ID j) ''running'' None (Some (pf_Now pf w)) None w))
      | JobExporting \<Rightarrow>
          (case export_run pf src (jb_Run j) (jb_Dir j) w of
             (Inl err, w1) \<Rightarrow> (Some (j\<lparr> jb_Phase := JobClosing (Some err) \<rparr>), w1)
           | (Inr m, w1) \<Rightarrow> (Some (j\<lparr> jb_Phase := JobClosing None \<rparr>), w1))
      | JobClosing (Some err) \<Rightarrow> (None,
          snd (js_UpdateExportJobStatus jobs (jb_ID j) ''failed'' (Some (err_msg err)) None (Some (pf_Now pf w)) w))
      | JobClosing None \<Rightarrow> (None,
          snd (js_UpdateExportJobStatus jobs (jb_ID j) ''succeeded'' None None (Some (pf_Now pf w)) w)))"

text \<open>Three steps in a row are the goroutine.\<close>

lemma runExportJob_steps:
  assumes "job_step pf jobs src (queued_job (i, runID, dir)) w = (Some j1, w1)" and "job_step pf jobs src j1 w1 = (Some j2, w2)"
  shows "job_step pf jobs src j2 w2 = (None, runExportJob pf jobs src i runID dir w)"
  using assms by (auto simp: job_step_def queued_job_def runExportJob_def Let_def split: sum.splits prod.splits)

text \<open>A request is handled and may start a job, a job goes on, or something else happens to the world meanwhile.\<close>

inductive api_step ::
  "'w platform \<Rightarrow> 'w Server \<Rightarrow> 'w ExportJobStore \<Rightarrow> 'w DatasetSource \<Rightarrow> ('w \<Rightarrow> 'w \<Rightarrow> bool)
     \<Rightarrow> 'w \<times> running_job list \<Rightarrow> 'w \<times> running_job list \<Rightarrow> bool"
  for pf s jobs src others where
    serve: "api_step pf s jobs src others (w, js) (snd (Handler pf s r w), js @ map queued_job (re_Started (fst (Handler pf s r w))))"
  | work: "job_step pf jobs src j w = (next_j, w') \<Longrightarrow>
      api_step pf s jobs src others (w, before @ j # after) (w', before @ (case next_j of None \<Rightarrow> [] | Some j' \<Rightarrow> [j']) @ after)"
  | elsewhere: "others w w' \<Longrightarrow> api_step pf s jobs src others (w, js) (w', js)"

inductive_cases api_stepE: "api_step pf s jobs src others st st'"

definition job_row_ok :: "ExportJobRow \<Rightarrow> bool" where
  "job_row_ok row \<longleftrightarrow>
     ej_status row \<in> set job_statuses \<and> (ej_completed_at row \<noteq> None \<longleftrightarrow> ej_status row \<in> {''succeeded'', ''failed''}) \<and>
     (ej_error_message row \<noteq> None \<longrightarrow> ej_status row = ''failed'')"

definition jobs_inv :: "Db \<Rightarrow> running_job list \<Rightarrow> bool" where
  "jobs_inv db js \<longleftrightarrow>
     distinct (map_keys (db_export_jobs db)) \<and> (\<forall>i\<in>set (map_keys (db_export_jobs db)). i < db_next_id db) \<and>
     distinct (map jb_ID js) \<and>
     (\<forall>j\<in>set js. \<exists>row. map_of (db_export_jobs db) (jb_ID j) = Some row \<and> ej_completed_at row = None) \<and>
     (\<forall>i row. map_of (db_export_jobs db) i = Some row \<longrightarrow> job_row_ok row)"

text \<open>Without failing calls, a row that is not closed belongs to a job that runs.\<close>

definition jobs_tended :: "Db \<Rightarrow> running_job list \<Rightarrow> bool" where
  "jobs_tended db js \<longleftrightarrow>
     (\<forall>i row. map_of (db_export_jobs db) i = Some row \<and> ej_completed_at row = None \<longrightarrow> i \<in> jb_ID ` set js)"

definition updated_row :: "string \<Rightarrow> string option \<Rightarrow> gotime option \<Rightarrow> gotime option \<Rightarrow> ExportJobRow \<Rightarrow> ExportJobRow" where
  "updated_row status errMsg startedAt completedAt row = row
     \<lparr> ej_status := status, ej_error_message := nullableText (deref errMsg),
       ej_started_at := (case startedAt of None \<Rightarrow> ej_started_at row | Some t \<Rightarrow> Some t),
       ej_completed_at := completedAt \<rparr>"

lemma UpdateExportJobStatus_db:
  assumes "map_of (db_export_jobs (pg_db w)) i = Some row" and "status \<in> set job_statuses"
  shows "pg_db (snd (UpdateExportJobStatus i status msg t t' w)) =
    (if pg_fault w (pg_calls w) = None
     then (pg_db w)\<lparr> db_export_jobs := map_set i (updated_row status msg t t' row) (db_export_jobs (pg_db w)) \<rparr> else pg_db w)"
  using assms
  by (auto simp: UpdateExportJobStatus_def exec_only_def update_job_def driver_call_def Let_def updated_row_def split: option.splits)

definition same_job :: "running_job \<Rightarrow> running_job option \<Rightarrow> bool" where
  "same_job j next_j \<longleftrightarrow> next_j = None \<or> (\<exists>j'. next_j = Some j' \<and> jb_ID j' = jb_ID j)"

lemma same_job_simps [simp]: "same_job j None" "same_job j (Some j') \<longleftrightarrow> jb_ID j' = jb_ID j"
  by (auto simp: same_job_def)

lemma jobs_inv_next:
  assumes "jobs_inv db (before @ j # after)" and "same_job j next_j"
  shows "jobs_inv db (before @ (case next_j of None \<Rightarrow> [] | Some j' \<Rightarrow> [j']) @ after)"
  using assms by (cases next_j) (auto simp: jobs_inv_def)

lemma jobs_inv_update:
  assumes "jobs_inv db (before @ j # after)" and "same_job j next_j"
    and "job_row_ok row" and "ej_completed_at row = None \<longleftrightarrow> next_j \<noteq> None"
  shows "jobs_inv (db\<lparr> db_export_jobs := map_set (jb_ID j) row (db_export_jobs db) \<rparr>)
    (before @ (case next_j of None \<Rightarrow> [] | Some j' \<Rightarrow> [j']) @ after)"
proof -
  have "map_of (db_export_jobs db) (jb_ID j) \<noteq> None" using assms(1) by (auto simp: jobs_inv_def)
  then have "jb_ID j \<in> fst ` set (db_export_jobs db)" by (simp add: map_of_eq_None_iff)
  then have ids: "fst ` set (map_set (jb_ID j) row (db_export_jobs db)) = fst ` set (db_export_jobs db)"
    by (simp add: keys_map_set insert_absorb)
  have others: "jb_ID j' \<noteq> jb_ID j" if "j' \<in> set before \<union> set after" for j'
    using assms(1) that by (auto simp: jobs_inv_def) (metis imageI)+
  let ?js = "before @ (case next_j of None \<Rightarrow> [] | Some j' \<Rightarrow> [j']) @ after" and ?t = "map_set (jb_ID j) row (db_export_jobs db)"
  have old: "jobs_inv db ?js" by (rule jobs_inv_next [OF assms(1,2)])
  have "distinct (map_keys ?t)" "\<forall>i\<in>set (map_keys ?t). i < db_next_id db" "distinct (map jb_ID ?js)"
    using old by (simp_all add: jobs_inv_def map_keys_def ids del: map_append)
  moreover have "\<exists>r. map_of ?t (jb_ID j') = Some r \<and> ej_completed_at r = None" if "j' \<in> set ?js" for j'
  proof (cases "j' \<in> set before \<union> set after")
    case True
    then have "\<exists>r. map_of (db_export_jobs db) (jb_ID j') = Some r \<and> ej_completed_at r = None"
      using assms(1) unfolding jobs_inv_def by auto
    with others [OF True] show ?thesis by simp
  next
    case False
    with that have "next_j = Some j'" by (cases next_j) auto
    with assms(2,4) show ?thesis by simp
  qed
  moreover have "job_row_ok r" if "map_of ?t i = Some r" for i r
    using that old assms(3) unfolding jobs_inv_def map_of_map_set by (cases "i = jb_ID j") simp_all
  ultimately show ?thesis by (simp add: jobs_inv_def del: map_append set_append)
qed

lemma jobs_tended_update:
  assumes "jobs_tended db (before @ j # after)" and "same_job j next_j"
    and "ej_completed_at row = None \<longleftrightarrow> next_j \<noteq> None"
  shows "jobs_tended (db\<lparr> db_export_jobs := map_set (jb_ID j) row (db_export_jobs db) \<rparr>)
    (before @ (case next_j of None \<Rightarrow> [] | Some j' \<Rightarrow> [j']) @ after)"
  using assms by (auto simp: jobs_tended_def split: option.splits)

text \<open>A step of a job writes its own row, unless the call fails.\<close>

lemma job_step_db:
  fixes w :: "Pg \<times> 'p"
  defines "db \<equiv> pg_db (fst w)"
  assumes step: "job_step (hosted pf) pg_jobs (source_on_fst (pg_source sq)) j w = (next_j, w')"
    and row: "map_of (db_export_jobs db) (jb_ID j) = Some row"
  obtains (kept) "same_job j next_j" "pg_db (fst w') = db" "pg_fault (fst w') = pg_fault (fst w)"
      "next_j = None \<Longrightarrow> pg_fault (fst w) \<noteq> (\<lambda>_. None)"
  | (updated) row' where "same_job j next_j"
      "pg_db (fst w') = db\<lparr> db_export_jobs := map_set (jb_ID j) row' (db_export_jobs db) \<rparr>"
      "pg_fault (fst w') = pg_fault (fst w)" "job_row_ok row'" "ej_completed_at row' = None \<longleftrightarrow> next_j \<noteq> None"
proof -
  have update: thesis
    if next_j: "next_j = None \<and> t' \<noteq> None \<or> next_j = Some (j\<lparr> jb_Phase := JobExporting \<rparr>) \<and> t' = None"
      and status: "status \<in> set job_statuses" "t' \<noteq> None \<longleftrightarrow> status \<in> {''succeeded'', ''failed''}" "msg = None \<or> status = ''failed''"
      and w': "w' = snd (js_UpdateExportJobStatus pg_jobs (jb_ID j) status msg t t' w)" for status msg t t'
  proof -
    have fst_w': "fst w' = snd (UpdateExportJobStatus (jb_ID j) status msg t t' (fst w))"
      by (simp add: w' pg_jobs_def jobs_on_fst_def)
    note written = UpdateExportJobStatus_db [OF row [unfolded db_def] status(1), of msg t t', folded fst_w' db_def]
    have same: "pg_fault (fst w') = pg_fault (fst w)" by (simp add: fst_w')
    show thesis
    proof (cases "pg_fault (fst w) (pg_calls (fst w)) = None")
      case True
      have "job_row_ok (updated_row status msg t t' row)" and completed: "ej_completed_at (updated_row status msg t t' row) = t'"
        using status by (auto simp: job_row_ok_def updated_row_def deref_def nullableText_def)
      moreover have "same_job j next_j" "t' = None \<longleftrightarrow> next_j \<noteq> None" using next_j by auto
      ultimately show thesis using updated [OF _ _ same] written True by simp
    next
      case False
      then have "pg_fault (fst w) \<noteq> (\<lambda>_. None)" by auto
      moreover have "same_job j next_j" using next_j by auto
      ultimately show thesis using kept [OF _ _ same] written False by simp
    qed
  qed
  show thesis
  proof (cases "jb_Phase j")
    case JobQueued
    with step show thesis
      by (intro update [of None "''running''" None "Some (pf_Now (hosted pf) w)"]) (auto simp: job_step_def job_statuses_def)
  next
    case JobExporting
    let ?run = "export_run (hosted pf) (source_on_fst (pg_source sq)) (jb_Run j) (jb_Dir j) w"
    have w': "w' = snd ?run" "same_job j next_j" "next_j \<noteq> None"
      using step JobExporting by (auto simp: job_step_def split: prod.splits sum.splits)
    have "pg_db (fst w') = db" "pg_fault (fst w') = pg_fault (fst w)"
      unfolding w'(1) db_def export_run_def hosted_def
      using exporting.export_view export_faults.export_view by simp_all
    with w'(2,3) show thesis by (intro kept) simp_all
  next
    case (JobClosing err)
    with step show thesis
      by (cases err) (auto simp: job_step_def job_statuses_def intro: update)
  qed
qed

section \<open>Every job is closed\<close>

text \<open>What holds between requests and steps of jobs.\<close>

definition jobs_consistent :: "(nat \<Rightarrow> go_error option) \<Rightarrow> (Pg \<times> 'p) \<times> running_job list \<Rightarrow> bool" where
  "jobs_consistent fault st \<longleftrightarrow>
     pg_fault (fst (fst st)) = fault \<and> jobs_inv (pg_db (fst (fst st))) (snd st) \<and>
     (fault = (\<lambda>_. None) \<longrightarrow> jobs_tended (pg_db (fst (fst st))) (snd st))"

lemma jobs_inv_same_rows:
  assumes "db_export_jobs db' = db_export_jobs db"
  shows "db_next_id db \<le> db_next_id db' \<Longrightarrow> jobs_inv db js \<Longrightarrow> jobs_inv db' js" and "jobs_tended db js \<Longrightarrow> jobs_tended db' js"
  using assms by (auto simp: jobs_inv_def jobs_tended_def)

lemma jobs_inv_queued:
  assumes "jobs_inv db js" and row: "ej_status row = ''queued'' \<and> ej_error_message row = None \<and> ej_completed_at row = None"
  shows "jobs_inv (db\<lparr> db_next_id := db_next_id db + 1, db_export_jobs := (db_next_id db, row) # db_export_jobs db \<rparr>)
    (js @ [queued_job (db_next_id db, runID, dir)])"
proof -
  have "job_row_ok row" using row by (simp add: job_row_ok_def job_statuses_def)
  have "jb_ID j < db_next_id db" if "j \<in> set js" for j
  proof -
    have "jb_ID j \<in> fst ` set (db_export_jobs db)"
      using assms(1) that map_of_eq_None_iff [of "db_export_jobs db" "jb_ID j"] unfolding jobs_inv_def by auto
    with assms(1) show ?thesis by (auto simp: jobs_inv_def map_keys_def)
  qed
  then have fresh: "jb_ID j \<noteq> db_next_id db" if "j \<in> set js" for j using that by force
  have new: "db_next_id db \<notin> set (map_keys (db_export_jobs db))" using assms(1) by (auto simp: jobs_inv_def)
  show ?thesis
    using assms(1) \<open>job_row_ok row\<close> row new fresh
    by (simp add: jobs_inv_def queued_job_def map_keys_def) (force simp: less_Suc_eq)
qed

lemma jobs_tended_queued:
  "jobs_tended db js \<Longrightarrow>
    jobs_tended (db\<lparr> db_next_id := n, db_export_jobs := (i, row) # db_export_jobs db \<rparr>) (js @ [queued_job (i, runID, dir)])"
  by (auto simp: jobs_tended_def queued_job_def)

lemma serve_consistent:
  fixes w :: "Pg \<times> 'p" and pf :: "'p platform" and sq :: sql_text and ids :: row_ids and cfg :: Config and r :: Request
  assumes "starter_scans starter" and "jobs_consistent fault (w, js)"
  defines "result \<equiv> Handler (hosted pf) (api_server sq ids cfg starter) r w"
  shows "jobs_consistent fault (snd result, js @ map queued_job (re_Started (fst result)))"
proof -
  have fault: "pg_fault (fst (snd result)) = fault"
    using request_fault [OF assms(1), of pf sq ids cfg r w] assms(2) by (simp add: result_def jobs_consistent_def)
  have inv: "jobs_inv (pg_db (fst w)) js" and tended: "fault = (\<lambda>_. None) \<Longrightarrow> jobs_tended (pg_db (fst w)) js"
    using assms(2) by (simp_all add: jobs_consistent_def)
  show ?thesis
  proof (cases rule: request_cases [OF assms(1), of pf sq ids cfg r w, folded result_def])
    case 1
    with fault jobs_inv_same_rows [OF 1(2)] inv tended show ?thesis by (simp add: jobs_consistent_def)
  next
    case (2 body rec)
    then have "db_export_jobs (pg_db (fst (snd result))) = db_export_jobs (pg_db (fst w))"
      and "db_next_id (pg_db (fst w)) \<le> db_next_id (pg_db (fst (snd result)))" by simp_all
    with fault jobs_inv_same_rows inv tended 2(5) show ?thesis by (simp add: jobs_consistent_def)
  next
    case (3 runID row)
    with fault inv tended show ?thesis
      by (simp add: jobs_consistent_def jobs_inv_queued jobs_tended_queued)
  qed
qed

lemma work_consistent:
  assumes "jobs_consistent fault (w, before @ j # after)"
    and step: "job_step (hosted pf) pg_jobs (source_on_fst (pg_source sq)) j w = (next_j, w')"
  shows "jobs_consistent fault (w', before @ (case next_j of None \<Rightarrow> [] | Some j' \<Rightarrow> [j']) @ after)"
proof -
  have inv: "jobs_inv (pg_db (fst w)) (before @ j # after)" and fault: "pg_fault (fst w) = fault"
    and tended: "fault = (\<lambda>_. None) \<Longrightarrow> jobs_tended (pg_db (fst w)) (before @ j # after)"
    using assms(1) by (simp_all add: jobs_consistent_def)
  from inv obtain row where row: "map_of (db_export_jobs (pg_db (fst w))) (jb_ID j) = Some row"
    by (auto simp: jobs_inv_def)
  show ?thesis
  proof (cases rule: job_step_db [OF step row])
    case 1
    have "jobs_tended (pg_db (fst w)) (before @ (case next_j of None \<Rightarrow> [] | Some j' \<Rightarrow> [j']) @ after)" if "fault = (\<lambda>_. None)"
      using tended [OF that] 1(1,4) that fault by (cases next_j) (auto simp: jobs_tended_def)
    with 1 fault jobs_inv_next [OF inv 1(1)] show ?thesis by (simp add: jobs_consistent_def)
  next
    case (2 row')
    with fault jobs_inv_update [OF inv 2(1,4,5)] jobs_tended_update [OF tended 2(1,5)]
    show ?thesis by (simp add: jobs_consistent_def)
  qed
qed

lemma elsewhere_consistent:
  assumes "jobs_consistent fault (w, js)" and "scanner_steps w w'"
  shows "jobs_consistent fault (w', js)"
  using assms(1) scanner_steps_apart [OF assms(2)] jobs_inv_same_rows [of "pg_db (fst w')" "pg_db (fst w)" js]
  by (auto simp: jobs_consistent_def apart_def)

lemma api_step_consistent:
  assumes "starter_scans starter" and "jobs_consistent fault st"
    and "api_step (hosted pf) (api_server sq ids cfg starter) pg_jobs (source_on_fst (pg_source sq)) scanner_steps st st'"
  shows "jobs_consistent fault st'"
  using assms(3,2) by (elim api_stepE) (auto simp: serve_consistent [OF assms(1)] work_consistent elsewhere_consistent)

text \<open>C19. However requests, background jobs and the scanner's operations interleave, the row of an export job has a known status, a time of
  completion exactly when it is \<open>succeeded\<close> or \<open>failed\<close>, and a message only when it is \<open>failed\<close>. When no call of
  the store fails, a row is open exactly as long as its job runs: once the jobs are through (three steps each), every
  row is closed.\<close>

theorem export_jobs_settle:
  assumes "starter_scans starter" and "db_export_jobs (pg_db (fst w0)) = []"
    and "(api_step (hosted pf) (api_server sq ids cfg starter) pg_jobs (source_on_fst (pg_source sq)) scanner_steps)\<^sup>*\<^sup>* (w0, []) (w, js)"
    and "map_of (db_export_jobs (pg_db (fst w))) i = Some row"
  shows "job_row_ok row \<and>
    (pg_fault (fst w0) = (\<lambda>_. None) \<longrightarrow> (ej_completed_at row = None \<longleftrightarrow> i \<in> jb_ID ` set js))"
proof -
  have "jobs_consistent (pg_fault (fst w0)) (w0, [])"
    using assms(2) by (simp add: jobs_consistent_def jobs_inv_def jobs_tended_def map_keys_def)
  with assms(3) have "jobs_consistent (pg_fault (fst w0)) (w, js)"
    by (induction rule: rtranclp_induct) (auto intro: api_step_consistent [OF assms(1)])
  with assms(4) show ?thesis by (fastforce simp: jobs_consistent_def jobs_inv_def jobs_tended_def)
qed

section \<open>The database the API and the scanner share\<close>

lemma request_db_inv:
  assumes "starter_scans starter" and "db_inv (pg_db (fst w))"
  shows "db_inv (pg_db (fst (snd (Handler (hosted pf) (api_server sq ids cfg starter) r w))))"
  by (cases rule: request_cases [OF assms(1), where sq = sq and ids = ids and cfg = cfg and pf = pf and r = r and w = w])
    (use assms(2) in \<open>simp_all add: db_inv_api\<close>)

text \<open>A background job touches its own row only.\<close>

definition same_but_jobs :: "Db \<Rightarrow> Db \<Rightarrow> bool" where
  "same_but_jobs db db' \<longleftrightarrow> (\<exists>jobs. db' = db\<lparr> db_export_jobs := jobs \<rparr>)"

lemma same_but_jobs_refl [simp, intro]: "same_but_jobs db db"
  unfolding same_but_jobs_def by (rule exI [where x = "db_export_jobs db"]) simp

lemma same_but_jobs_update [simp, intro]: "same_but_jobs db (db\<lparr> db_export_jobs := jobs \<rparr>)"
  unfolding same_but_jobs_def by blast

lemma same_but_jobs_inv: "same_but_jobs db db' \<Longrightarrow> db_inv db' = db_inv db"
  by (auto simp: same_but_jobs_def db_inv_def)

lemma same_but_jobs_valid: "same_but_jobs db db' \<Longrightarrow> override_valid parse cfg db' = override_valid parse cfg db"
  by (auto simp: same_but_jobs_def override_valid_def stored_override_def)

lemma UpdateExportJobStatus_keeps: "same_but_jobs (pg_db w) (pg_db (snd (UpdateExportJobStatus i status msg t t' w)))"
  by (simp add: UpdateExportJobStatus_def exec_only_def update_job_def driver_call_def Let_def split_def
      split: option.split sum.split)

lemma job_step_keeps:
  assumes "job_step (hosted pf) pg_jobs (source_on_fst (pg_source sq)) j w = (next_j, w')"
  shows "same_but_jobs (pg_db (fst w)) (pg_db (fst w'))"
proof (cases "jb_Phase j = JobExporting")
  case True
  have "w' = snd (export_run (hosted pf) (source_on_fst (pg_source sq)) (jb_Run j) (jb_Dir j) w)"
    using assms True by (auto simp: job_step_def split: prod.splits sum.splits)
  then have "pg_db (fst w') = pg_db (fst w)"
    unfolding export_run_def hosted_def using exporting.export_view by simp
  then show ?thesis by simp
next
  case False
  with assms obtain status msg t t' where "w' = snd (on_fst (UpdateExportJobStatus (jb_ID j) status msg t t') w)"
    by (simp add: job_step_def pg_jobs_def jobs_on_fst_def split: job_phase.splits option.splits) blast+
  then show ?thesis by (simp add: on_fst_def split_def UpdateExportJobStatus_keeps)
qed

text \<open>C12. What the scanner and the API do together keeps the database well formed: from a well-formed store without
  export jobs and with a valid override, whatever requests, export jobs and operations of the scanner follow each other,
  the schema's invariant holds, the override in effect is valid, and every export job is consistent.\<close>

theorem shared_database:
  assumes "starter_scans starter"
    and "db_inv (pg_db (fst w0)) \<and> db_export_jobs (pg_db (fst w0)) = [] \<and> override_valid (pf_ParseURI pf) cfg (pg_db (fst w0))"
    and "(api_step (hosted pf) (api_server sq ids cfg starter) pg_jobs (source_on_fst (pg_source sq)) scanner_steps)\<^sup>*\<^sup>*
      (w0, []) (w, js)"
  shows "db_inv (pg_db (fst w)) \<and> override_valid (pf_ParseURI pf) cfg (pg_db (fst w)) \<and>
    list_all job_row_ok (map snd (db_export_jobs (pg_db (fst w))))"
proof -
  have "db_inv (pg_db (fst (fst st))) \<and> override_valid (pf_ParseURI pf) cfg (pg_db (fst (fst st))) \<and>
      jobs_consistent (pg_fault (fst w0)) st"
    if "(api_step (hosted pf) (api_server sq ids cfg starter) pg_jobs (source_on_fst (pg_source sq)) scanner_steps)\<^sup>*\<^sup>*
      (w0, []) st" for st
    using that
  proof (induction rule: rtranclp_induct)
    case base
    with assms(2) show ?case by (simp add: jobs_consistent_def jobs_inv_def jobs_tended_def map_keys_def)
  next
    case (step st st')
    have "db_inv (pg_db (fst (fst st'))) \<and> override_valid (pf_ParseURI pf) cfg (pg_db (fst (fst st')))"
      using step(2)
    proof cases
      case (serve w r js)
      with step.IH request_db_inv [OF assms(1)] request_keeps_valid [OF assms(1)] show ?thesis by simp
    next
      case (work j w next_j w' before after)
      with step.IH same_but_jobs_inv [OF job_step_keeps [OF work(3)]] same_but_jobs_valid [OF job_step_keeps [OF work(3)]]
      show ?thesis by simp
    next
      case (elsewhere w w' js)
      have "db_config_override (pg_db (fst w')) = db_config_override (pg_db (fst w))"
        using scanner_steps_apart [OF elsewhere(3)] by (simp add: apart_def)
      with step.IH elsewhere scanner_steps_inv [OF elsewhere(3)] show ?thesis
        by (simp add: same_override [of "pg_db (fst w')" "pg_db (fst w)"])
    qed
    with step.IH api_step_consistent [OF assms(1) _ step(2)] show ?case by blast
  qed
  from this [OF assms(3)] have inv: "db_inv (pg_db (fst w))" "override_valid (pf_ParseURI pf) cfg (pg_db (fst w))"
    and jobs: "jobs_inv (pg_db (fst w)) js" by (simp_all add: jobs_consistent_def)
  have "job_row_ok row" if "(i, row) \<in> set (db_export_jobs (pg_db (fst w)))" for i row
    using jobs that map_of_is_SomeI [of "db_export_jobs (pg_db (fst w))" i row] by (auto simp: jobs_inv_def map_keys_def)
  with inv show ?thesis by (auto simp: list_all_iff)
qed

end
