(* ===== verification/Orchestrator_Spec.thy ===== *)
theory Orchestrator_Spec
imports Orchestrator Wallet_Runs
begin

text \<open>
  A run over many wallets: the pool of workers stays within its slots, loses no wallet and always gets to
  the end; the totals account for every wallet and do not depend on the schedule; a wallet locked by
  somebody else is left alone.
\<close>

section \<open>The pool\<close>

definition pool_wallets :: "'w pool \<Rightarrow> string multiset" where
  "pool_wallets s = mset (ps_waiting s) + mset (ps_working s) + mset (map wo_address (ps_channel s))"

definition pool_work :: "'w pool \<Rightarrow> nat" where
  "pool_work s = 2 * length (ps_waiting s) + length (ps_working s)"

lemma length_remove1_mem: "a \<in> set xs \<Longrightarrow> Suc (length (remove1 a xs)) = length xs"
  by (simp add: length_remove1) (metis Suc_pred length_pos_if_in_set)

lemma mset_remove1_mem: "a \<in> set xs \<Longrightarrow> add_mset a (mset (remove1 a xs)) = mset xs"
  by simp

lemma pool_step_inv:
  assumes "pool_step slots cancelled worker drift s s'"
  shows "pool_wallets s' = pool_wallets s"
    and "int (length (ps_working s)) \<le> slots \<Longrightarrow> int (length (ps_working s')) \<le> slots"
    and "pool_work s' \<le> pool_work s"
  using assms
proof (induction rule: pool_step.induct)
  case (takes_slot a s)
  { case 1 then show ?case using takes_slot mset_remove1_mem [of a "ps_waiting s"] by (simp add: pool_wallets_def) }
  { case 2 then show ?case using takes_slot by simp }
  { case 3 then show ?case using length_remove1_mem [OF takes_slot(1)] by (simp add: pool_work_def) }
next
  case (gives_up a s e)
  { case 1 then show ?case using gives_up mset_remove1_mem [of a "ps_waiting s"] by (simp add: pool_wallets_def) }
  { case 2 then show ?case by simp }
  { case 3 then show ?case using length_remove1_mem [OF gives_up(1)] by (simp add: pool_work_def) }
next
  case (finishes a s report err w')
  { case 1 then show ?case using finishes mset_remove1_mem [of a "ps_working s"] by (simp add: pool_wallets_def) }
  { case 2 then show ?case using length_remove1_mem [OF finishes(1)] by simp }
  { case 3 then show ?case using length_remove1_mem [OF finishes(1)] by (simp add: pool_work_def) }
next
  case (drifts s w')
  { case 1 then show ?case by (simp add: pool_wallets_def) }
  { case 2 then show ?case by simp }
  { case 3 then show ?case by (simp add: pool_work_def) }
qed

lemma pool_reach:
  assumes "rtranclp (pool_step slots cancelled worker drift) (pool_start wallets w) s" and "0 \<le> slots"
  shows "pool_wallets s = mset wallets" and "int (length (ps_working s)) \<le> slots"
proof -
  have "pool_wallets s = mset wallets \<and> int (length (ps_working s)) \<le> slots"
    using assms(1)
  proof (induction rule: rtranclp_induct)
    case base
    then show ?case using assms(2) by (simp add: pool_wallets_def pool_start_def)
  next
    case (step s1 s2)
    then show ?case using pool_step_inv [OF step(2)] by simp
  qed
  then show "pool_wallets s = mset wallets" and "int (length (ps_working s)) \<le> slots" by auto
qed

lemma pool_can_work:
  assumes "\<not> pool_over s" and "1 \<le> slots"
  shows "\<exists>s'. pool_step slots cancelled worker drift s s' \<and> pool_work s' < pool_work s"
proof (cases "ps_working s")
  case Nil
  then obtain a as where a: "ps_waiting s = a # as" using assms(1) by (cases "ps_waiting s") (auto simp: pool_over_def)
  then have st: "pool_step slots cancelled worker drift s (s\<lparr> ps_waiting := remove1 a (ps_waiting s), ps_working := a # ps_working s \<rparr>)"
    using Nil assms(2) by (intro takes_slot) simp_all
  show ?thesis by (intro exI conjI, rule st) (simp add: pool_work_def a Nil)
next
  case (Cons a as)
  obtain report err w' where w: "worker a (ps_world s) = ((report, err), w')" by (metis prod.exhaust)
  then have st: "pool_step slots cancelled worker drift s (s\<lparr> ps_working := remove1 a (ps_working s), ps_world := w',
          ps_channel := ps_channel s @ [\<lparr> wo_address = a, wo_report = report, wo_err = err \<rparr>] \<rparr>)"
    using Cons by (intro finishes) simp_all
  show ?thesis by (intro exI conjI, rule st) (simp add: pool_work_def Cons)
qed

lemma serial_schedule:
  assumes "serial_workers worker as w = (outcomes, w')" and "1 \<le> slots"
  shows "rtranclp (pool_step slots cancelled worker drift) \<lparr> ps_waiting = as, ps_working = [], ps_channel = ch, ps_world = w \<rparr>
    \<lparr> ps_waiting = [], ps_working = [], ps_channel = ch @ outcomes, ps_world = w' \<rparr>"
  using assms(1)
proof (induction as arbitrary: w ch outcomes)
  case (Cons a as)
  obtain report err w1 where r: "worker a w = ((report, err), w1)" by (metis prod.exhaust)
  obtain os w2 where rest: "serial_workers worker as w1 = (os, w2)" by fastforce
  let ?oc = "\<lparr> wo_address = a, wo_report = report, wo_err = err \<rparr>"
  have out: "outcomes = ?oc # os" and w2: "w2 = w'" using Cons.prems r rest by auto
  let ?s = "\<lparr> ps_waiting = a # as, ps_working = [], ps_channel = ch, ps_world = w \<rparr>"
  have "pool_step slots cancelled worker drift ?s (?s\<lparr> ps_waiting := remove1 a (ps_waiting ?s), ps_working := a # ps_working ?s \<rparr>)"
    using assms(2) by (intro takes_slot) simp_all
  then have 1: "pool_step slots cancelled worker drift ?s (?s\<lparr> ps_waiting := as, ps_working := [a] \<rparr>)" by simp
  let ?t = "?s\<lparr> ps_waiting := as, ps_working := [a] \<rparr>"
  have "pool_step slots cancelled worker drift ?t (?t\<lparr> ps_working := remove1 a (ps_working ?t), ps_world := w1,
      ps_channel := ps_channel ?t @ [?oc] \<rparr>)"
    using r by (intro finishes) simp_all
  then have 2: "pool_step slots cancelled worker drift ?t \<lparr> ps_waiting = as, ps_working = [], ps_channel = ch @ [?oc], ps_world = w1 \<rparr>"
    by simp
  from Cons.IH [OF rest [unfolded w2], of "ch @ [?oc]"] 1 2 out show ?case
    by (auto intro: converse_rtranclp_into_rtranclp)
qed simp

section \<open>The totals\<close>

interpretation outcome_order: slice_order outcome_lt
  by unfold_locales (auto simp: outcome_lt_def split: if_splits)

text \<open>The outcomes by kind.\<close>

definition oc_ok :: "walletOutcome \<Rightarrow> bool" where "oc_ok oc \<longleftrightarrow> wo_err oc = None"

definition oc_skipped :: "walletOutcome \<Rightarrow> bool" where
  "oc_skipped oc \<longleftrightarrow> (case wo_err oc of None \<Rightarrow> False | Some e \<Rightarrow> is_already_locked e)"

definition oc_failed :: "walletOutcome \<Rightarrow> bool" where
  "oc_failed oc \<longleftrightarrow> (case wo_err oc of None \<Rightarrow> False | Some e \<Rightarrow> \<not> is_already_locked e)"

definition oc_partial :: "walletOutcome \<Rightarrow> bool" where
  "oc_partial oc \<longleftrightarrow> oc_ok oc \<and> rr_WalletStatus (wo_report oc) = WalletStatusPartial"

definition number :: "(walletOutcome \<Rightarrow> bool) \<Rightarrow> walletOutcome list \<Rightarrow> int" where
  "number P ocs = int (length (filter P ocs))"

definition summed :: "(Counters \<Rightarrow> int) \<Rightarrow> walletOutcome list \<Rightarrow> int" where
  "summed f ocs = sum_list (map (\<lambda>oc. f (rr_Counters (wo_report oc))) ocs)"

lemma number_simps [simp]:
  "number P [] = 0" "number P (oc # ocs) = (if P oc then 1 else 0) + number P ocs"
  by (simp_all add: number_def)

lemma summed_simps [simp]:
  "summed f [] = 0" "summed f (oc # ocs) = f (rr_Counters (wo_report oc)) + summed f ocs"
  by (simp_all add: summed_def)

lemma number_sort [simp]: "number P (sort_slice lt ocs) = number P ocs"
proof -
  have "size (mset (filter P (sort_slice lt ocs))) = size (mset (filter P ocs))" by (simp only: mset_filter mset_sort_slice)
  then show ?thesis unfolding size_mset by (simp add: number_def)
qed

lemma summed_sort [simp]: "summed f (sort_slice lt ocs) = summed f ocs"
proof -
  let ?f = "\<lambda>oc. f (rr_Counters (wo_report oc))"
  have "sum_mset (mset (map ?f (sort_slice lt ocs))) = sum_mset (mset (map ?f ocs))" by (simp only: mset_map mset_sort_slice)
  then show ?thesis unfolding sum_mset_sum_list by (simp add: summed_def)
qed

lemma kinds: "number oc_ok ocs + number oc_failed ocs + number oc_skipped ocs = int (length ocs)"
  by (induction ocs) (auto simp: oc_ok_def oc_failed_def oc_skipped_def split: option.splits)

lemma add_counters_fields:
  "c_WalletsRequested (add_counters rep t) = c_WalletsRequested t"
  "c_WalletsProcessed (add_counters rep t) = c_WalletsProcessed t"
  "c_WalletsFailed (add_counters rep t) = c_WalletsFailed t"
  "c_WalletsSkipped (add_counters rep t) = c_WalletsSkipped t"
  "c_TransactionsLinked (add_counters rep t) = c_TransactionsLinked t + c_TransactionsLinked (rr_Counters rep)"
  "c_TransactionsFetched (add_counters rep t) = c_TransactionsFetched t + c_TransactionsFetched (rr_Counters rep)"
  "c_PoisoningCandidatesInserted (add_counters rep t) =
     c_PoisoningCandidatesInserted t + c_PoisoningCandidatesInserted (rr_Counters rep)"
  by (simp_all add: add_counters_def Let_def)

lemma add_outcome_fields:
  "c_WalletsRequested (tl_total (add_outcome tly oc)) = c_WalletsRequested (tl_total tly)"
  "c_WalletsProcessed (tl_total (add_outcome tly oc)) = c_WalletsProcessed (tl_total tly) + (if oc_ok oc then 1 else 0)"
  "c_WalletsFailed (tl_total (add_outcome tly oc)) = c_WalletsFailed (tl_total tly) + (if oc_failed oc then 1 else 0)"
  "c_WalletsSkipped (tl_total (add_outcome tly oc)) = c_WalletsSkipped (tl_total tly) + (if oc_skipped oc then 1 else 0)"
  "c_TransactionsLinked (tl_total (add_outcome tly oc)) =
     c_TransactionsLinked (tl_total tly) + c_TransactionsLinked (rr_Counters (wo_report oc))"
  "c_TransactionsFetched (tl_total (add_outcome tly oc)) =
     c_TransactionsFetched (tl_total tly) + c_TransactionsFetched (rr_Counters (wo_report oc))"
  "c_PoisoningCandidatesInserted (tl_total (add_outcome tly oc)) =
     c_PoisoningCandidatesInserted (tl_total tly) + c_PoisoningCandidatesInserted (rr_Counters (wo_report oc))"
  "int (length (tl_errs (add_outcome tly oc))) =
     int (length (tl_errs tly)) + (if oc_failed oc then 1 else 0) + (if oc_skipped oc then 1 else 0)"
  "tl_partial (add_outcome tly oc) = tl_partial tly + (if oc_partial oc then 1 else 0)"
  by (cases "wo_err oc";
      simp add: add_outcome_def add_counters_fields oc_ok_def oc_failed_def oc_skipped_def oc_partial_def Let_def)+

lemma tally_loop:
  "c_WalletsRequested (tl_total (foldl add_outcome tly ocs)) = c_WalletsRequested (tl_total tly)"
  "c_WalletsProcessed (tl_total (foldl add_outcome tly ocs)) = c_WalletsProcessed (tl_total tly) + number oc_ok ocs"
  "c_WalletsFailed (tl_total (foldl add_outcome tly ocs)) = c_WalletsFailed (tl_total tly) + number oc_failed ocs"
  "c_WalletsSkipped (tl_total (foldl add_outcome tly ocs)) = c_WalletsSkipped (tl_total tly) + number oc_skipped ocs"
  "c_TransactionsLinked (tl_total (foldl add_outcome tly ocs)) =
     c_TransactionsLinked (tl_total tly) + summed c_TransactionsLinked ocs"
  "c_TransactionsFetched (tl_total (foldl add_outcome tly ocs)) =
     c_TransactionsFetched (tl_total tly) + summed c_TransactionsFetched ocs"
  "c_PoisoningCandidatesInserted (tl_total (foldl add_outcome tly ocs)) =
     c_PoisoningCandidatesInserted (tl_total tly) + summed c_PoisoningCandidatesInserted ocs"
  "int (length (tl_errs (foldl add_outcome tly ocs))) =
     int (length (tl_errs tly)) + number oc_failed ocs + number oc_skipped ocs"
  "tl_partial (foldl add_outcome tly ocs) = tl_partial tly + number oc_partial ocs"
  by (induction ocs arbitrary: tly; simp add: add_outcome_fields)+

text \<open>The rate does not touch the other totals.\<close>

lemma run_tally_fields:
  "c_WalletsRequested (tl_total (run_tally n ocs)) = n"
  "c_WalletsProcessed (tl_total (run_tally n ocs)) = number oc_ok ocs"
  "c_WalletsFailed (tl_total (run_tally n ocs)) = number oc_failed ocs"
  "c_WalletsSkipped (tl_total (run_tally n ocs)) = number oc_skipped ocs"
  "c_TransactionsLinked (tl_total (run_tally n ocs)) = summed c_TransactionsLinked ocs"
  "c_TransactionsFetched (tl_total (run_tally n ocs)) = summed c_TransactionsFetched ocs"
  "c_PoisoningCandidatesInserted (tl_total (run_tally n ocs)) = summed c_PoisoningCandidatesInserted ocs"
  "int (length (tl_errs (run_tally n ocs))) = number oc_failed ocs + number oc_skipped ocs"
  "tl_partial (run_tally n ocs) = number oc_partial ocs"
  by (simp_all add: run_tally_def Let_def tally_loop zero_counters_def)

lemma kinds_none: "number oc_failed ocs + number oc_skipped ocs = 0 \<longleftrightarrow> list_all oc_ok ocs"
proof -
  have "0 \<le> number P ocs" for P by (simp add: number_def)
  then have "number oc_failed ocs + number oc_skipped ocs = 0 \<longleftrightarrow> number oc_ok ocs = int (length ocs)"
    using kinds [of ocs] by linarith
  also have "\<dots> \<longleftrightarrow> list_all oc_ok ocs"
    by (simp add: number_def list_all_iff) (metis filter_id_conv length_filter_less less_irrefl)
  finally show ?thesis .
qed

lemma no_partial: "0 < number oc_partial ocs \<longleftrightarrow> list_ex oc_partial ocs"
  by (auto simp: number_def list_ex_iff filter_empty_conv)

lemma no_cap_codes:
  assumes "x \<in> truncation_reasons"
  shows "\<not> contains x ''max_pages_cap'' \<and> \<not> contains x ''max_tx_cap''"
proof -
  let ?codes = "[[], ''max_tx_pages_per_wallet_reached'', ''max_tx_per_wallet_reached'', ''helius_retry_exhausted'']"
  have "list_all (\<lambda>b. list_all (\<lambda>s. \<not> contains (mergeTruncationReason b s) ''max_pages_cap'' \<and>
      \<not> contains (mergeTruncationReason b s) ''max_tx_cap'') ?codes) ?codes" by code_simp
  moreover obtain b s where "x = mergeTruncationReason b s" "b \<in> set ?codes" "s \<in> set ?codes"
    using assms unfolding truncation_reasons_def truncation_codes_def by auto
  ultimately show ?thesis unfolding list_all_iff by blast
qed

section \<open>Locked wallets\<close>

lemma pg_lock_simps [simp]:
  "st_AcquireWalletLock PostgresStore = AcquireWalletLock" "st_ReleaseWalletLock PostgresStore = ReleaseWalletLock"
  by (simp_all add: PostgresStore_def)

section \<open>Properties\<close>

text \<open>C29. The workers of a run: at no time do more of them work than there are slots, every wallet of the list
  is waiting, worked on or reported, exactly once, and none is reported that is not on the list.\<close>

theorem pool_bounded:
  assumes "rtranclp (pool_step slots cancelled worker drift) (pool_start wallets w) s" and "0 \<le> slots"
  shows "int (length (ps_working s)) \<le> slots \<and>
    mset (ps_waiting s) + mset (ps_working s) + mset (map wo_address (ps_channel s)) = mset wallets"
  using pool_reach [OF assms] by (simp add: pool_wallets_def)

text \<open>C30. The workers always get to the end: as long as \<open>wg.Wait()\<close> has not returned some worker can take a
  step that leaves less to do, and no step, of a worker or of the world, adds work.\<close>

theorem pool_completes:
  assumes "1 \<le> slots"
  shows "(pool_over s \<or> (\<exists>s'. pool_step slots cancelled worker drift s s' \<and> pool_work s' < pool_work s)) \<and>
    (pool_step slots cancelled worker drift s t \<longrightarrow> pool_work t \<le> pool_work s)"
  using pool_can_work [OF _ assms] pool_step_inv(3) by blast

text \<open>C8. When the workers are done, the totals account for every wallet once: processed, failed or skipped;
  the transaction and candidate counts are the sums over the wallets; there is an error message for
  every wallet that was not processed; and the run is \<open>Succeeded\<close> exactly when every wallet was processed
  completely and the run's context has neither expired nor been cancelled.\<close>

theorem run_accounts:
  assumes "rtranclp (pool_step slots cancelled worker drift) (pool_start wallets w) s" and "pool_over s" and "0 \<le> slots"
  defines "ocs \<equiv> ps_channel s" and "tly \<equiv> run_tally (int (length wallets)) (ps_channel s)"
  defines "t \<equiv> tl_total (run_tally (int (length wallets)) (ps_channel s))"
  shows "c_WalletsProcessed t + c_WalletsFailed t + c_WalletsSkipped t = c_WalletsRequested t \<and>
    c_WalletsProcessed t = number oc_ok ocs \<and> c_WalletsSkipped t = number oc_skipped ocs \<and>
    c_TransactionsFetched t = summed c_TransactionsFetched ocs \<and>
    c_TransactionsLinked t = summed c_TransactionsLinked ocs \<and>
    c_PoisoningCandidatesInserted t = summed c_PoisoningCandidatesInserted ocs \<and>
    int (length (tl_errs tly)) = c_WalletsFailed t + c_WalletsSkipped t \<and>
    (deriveRunStatus ctxErr t (int (length (tl_errs tly))) (tl_partial tly) = RunStatusSucceeded \<longleftrightarrow>
       list_all oc_ok ocs \<and> \<not> list_ex oc_partial ocs \<and>
       (case ctxErr of None \<Rightarrow> True | Some e \<Rightarrow> \<not> is_deadline e \<and> \<not> is_canceled e))"
proof -
  have "mset (map wo_address ocs) = mset wallets"
    using pool_reach(1) [OF assms(1,3)] assms(2) by (simp add: pool_wallets_def pool_over_def ocs_def)
  then have len: "length ocs = length wallets" by (metis length_map mset_eq_length)
  note f = run_tally_fields [of "int (length wallets)" ocs, folded ocs_def]
  show ?thesis
    using kinds [of ocs] kinds_none [of ocs] no_partial [of ocs]
    unfolding t_def tly_def ocs_def [symmetric] f
    by (auto simp: len deriveRunStatus_def f split: option.splits)
qed

text \<open>C31. The result of a run does not depend on the order in which the goroutines report.\<close>

theorem run_order_irrelevant:
  assumes "mset ocs = mset ocs'" and "distinct (map wo_address ocs)"
  shows "run_finish rt orch runID n ocs w = run_finish rt orch runID n ocs' w"
proof -
  have "x = y" if "x \<in> set ocs" "y \<in> set ocs" "\<not> outcome_lt x y" "\<not> outcome_lt y x" for x y
  proof -
    have "wo_address x = wo_address y" using that(3,4) by (auto simp: outcome_lt_def split: if_splits)
    then show ?thesis using assms(2) that(1,2) by (simp add: distinct_map inj_on_def)
  qed
  then have "sort_slice outcome_lt ocs = sort_slice outcome_lt ocs'"
    using assms(1) by (intro outcome_order.sort_slice_perm) auto
  then show ?thesis by (simp add: run_finish_def run_tally_def)
qed

text \<open>A wallet whose lock somebody else holds is left alone: the wallet runner is not called, the attempt
  changes nothing but what the failed acquisition did, and the outcome is an error.\<close>

theorem locked_out:
  assumes "lock_held w walletAddress l" and "oc_walletLocks orch = Some PostgresStore"
  shows "\<exists>e. fst (runWallet ctxErr orch runner walletAddress p w) = (zero_report, Some e) \<and>
    (snd (runWallet ctxErr orch runner walletAddress p w) = w \<or>
     snd (runWallet ctxErr orch runner walletAddress p w) =
       snd (AcquireWalletLock walletAddress (cfg_WalletSyncTimeoutSeconds (oc_cfg orch) + walletLockTTLTailSeconds) w))"
proof -
  obtain r w1 where a: "AcquireWalletLock walletAddress (cfg_WalletSyncTimeoutSeconds (oc_cfg orch) + walletLockTTLTailSeconds) w
      = (r, w1)" by fastforce
  have "r \<noteq> Inr (True, t)" for t
    using pg_locks.acquire_blocked [OF assms(1)] a by (metis fst_conv)
  then show ?thesis using assms(2) a by (auto simp: runWallet_def Let_def split: sum.splits)
qed

text \<open>The caps are never counted: \<open>WalletCapHitCount\<close> looks for codes no fetch uses, so the outcome of a
  wallet run leaves it as it was, also when the run was cut short by a cap.\<close>

theorem cap_hit_never_counted:
  "case RunWallet sha rt runner walletAddress p limits w of ((report, err), w') \<Rightarrow>
     c_WalletCapHitCount (tl_total (add_outcome tly \<lparr> wo_address = walletAddress, wo_report = report, wo_err = err \<rparr>)) =
     c_WalletCapHitCount (tl_total tly)"
proof -
  obtain report err w' where r: "RunWallet sha rt runner walletAddress p limits w = ((report, err), w')" by (metis prod.exhaust)
  have "\<not> contains (rr_TruncationReason report) ''max_pages_cap''"
    "\<not> contains (rr_TruncationReason report) ''max_tx_cap''"
    using no_cap_codes [OF RunWallet_truncation [OF r]] by blast+
  with r show ?thesis by (simp add: add_outcome_def add_counters_def Let_def split: option.splits)
qed

section \<open>Witnesses\<close>

text \<open>Two wallets, one slot; the second fails.\<close>

definition sample_worker :: "string \<Rightarrow> unit \<Rightarrow> (WalletRunReport \<times> go_error option) \<times> unit" where
  "sample_worker a w = ((zero_report\<lparr> rr_WalletStatus := WalletStatusSucceeded \<rparr>,
     if a = ''b'' then Some (Err ''down'') else None), w)"

definition sample_channel :: "walletOutcome list" where
  "sample_channel = fst (serial_workers sample_worker [''a'', ''b''] ())"

definition sample_pool :: "unit pool" where
  "sample_pool = \<lparr> ps_waiting = [], ps_working = [], ps_channel = sample_channel, ps_world = () \<rparr>"

lemma sample_schedule:
  "rtranclp (pool_step 1 (\<lambda>w. None) sample_worker (\<lambda>w w'. False)) (pool_start [''a'', ''b''] ()) sample_pool"
proof -
  have "serial_workers sample_worker [''a'', ''b''] () = (sample_channel, ())"
    by (simp add: sample_channel_def prod_eq_iff)
  from serial_schedule [OF this, of 1 "\<lambda>w. None" "\<lambda>w w'. False" "[]"] show ?thesis
    by (simp add: pool_start_def sample_pool_def)
qed

theorem pool_bounded_witness: "mset (map wo_address sample_channel) = mset [''a'', ''b'']"
  using pool_bounded [OF sample_schedule] by (simp add: sample_pool_def)

theorem pool_completes_witness:
  "\<exists>s'. pool_step 1 (\<lambda>w. None) sample_worker (\<lambda>w w'. False) (pool_start [''a''] ()) s' \<and> pool_work s' < 2"
  using pool_completes [of 1 "pool_start [''a''] ()" "\<lambda>w. None" sample_worker "\<lambda>w w'. False"]
  by (simp add: pool_over_def pool_start_def pool_work_def)

theorem run_accounts_witness:
  "c_WalletsProcessed (tl_total (run_tally 2 sample_channel)) + c_WalletsFailed (tl_total (run_tally 2 sample_channel)) +
   c_WalletsSkipped (tl_total (run_tally 2 sample_channel)) = 2"
proof -
  have "pool_over sample_pool" by (simp add: pool_over_def sample_pool_def)
  from run_accounts [OF sample_schedule this, of None] show ?thesis
    by (simp add: sample_pool_def run_tally_fields)
qed

definition sample_orch :: "unit Orchestrator" where
  "sample_orch = \<lparr> oc_cfg = sample_config, oc_runRepo = None, oc_walletLocks = None, oc_walletRunner = None \<rparr>"

theorem run_order_irrelevant_witness:
  "run_finish \<lparr> rt_Now = (\<lambda>w. 0), rt_CtxErr = (\<lambda>w. None) \<rparr> sample_orch 1 2 sample_channel () =
   run_finish \<lparr> rt_Now = (\<lambda>w. 0), rt_CtxErr = (\<lambda>w. None) \<rparr> sample_orch 1 2 (rev sample_channel) ()"
  by (rule run_order_irrelevant) (simp_all add: sample_channel_def sample_worker_def)

definition sample_pg_orch :: "Pg Orchestrator" where
  "sample_pg_orch = \<lparr> oc_cfg = sample_config, oc_runRepo = None, oc_walletLocks = Some PostgresStore, oc_walletRunner = None \<rparr>"

theorem locked_out_witness:
  "\<exists>e. fst (runWallet (\<lambda>w. None) sample_pg_orch (\<lambda>a p limits w. ((zero_report, None), w)) ''a''
     \<lparr> rp_WalletFile = [], rp_SkipWalletFile = [], rp_WalletAddresses = [], rp_ScanStart = 0, rp_ScanEnd = 1,
       rp_BaselineLookbackDays = 30, rp_RequestedByCLICommand = [], rp_IngestionRunID = 1 \<rparr> sample_locked) = (zero_report, Some e)"
  using locked_out [OF acquired_lease [OF sample_locked], of sample_pg_orch] by (auto simp: sample_pg_orch_def)

end
