(* ===== verification/Metered_Run.thy ===== *)
theory Metered_Run
imports Orchestrator_Spec Metered
begin

text \<open>
  The price of a run: with a metered client and a store that does not touch the meter, a wallet costs at most
  two window fetches, and a pool of workers at most that for every wallet, in any schedule.
\<close>

section \<open>A store that costs nothing\<close>

locale metered_store =
  fixes S :: "'w store" and cost :: "'w \<Rightarrow> int"
  assumes create_run: "cost (snd (st_CreateIngestionRun S t w)) \<le> cost w"
    and finalize_run: "cost (snd (st_FinalizeIngestionRun S i s t c m w)) \<le> cost w"
    and create_sync: "cost (snd (st_CreateWalletSyncRun S i j win t w)) \<le> cost w"
    and progress: "cost (snd (st_UpdateWalletSyncProgress S j p w)) \<le> cost w"
    and finalize_sync: "cost (snd (st_FinalizeWalletSyncRun S j ws t b r c' m n w)) \<le> cost w"
    and transfers: "cost (snd (st_UpsertNormalizedTransfers S trs w)) \<le> cost w"
    and ensure: "cost (snd (st_EnsureWallet S a w)) \<le> cost w"
    and synced: "cost (snd (st_UpdateWalletLastSyncedAt S i t w)) \<le> cost w"
    and link: "cost (snd (st_LinkWalletTransfer S i rel tr w)) \<le> cost w"
    and event: "cost (snd (st_UpsertCounterpartyEvent S e w)) \<le> cost w"
    and candidates: "cost (snd (st_InsertPoisoningCandidates S j i cs w)) \<le> cost w"
    and thresholds: "cost (snd (st_ListDustThresholds S t t' w)) \<le> cost w"
    and acquire: "cost (snd (st_AcquireWalletLock S a k w)) \<le> cost w"
    and release: "cost (snd (st_ReleaseWalletLock S a tok w)) \<le> cost w"

text \<open>A provider that is never asked: the part of a run without fetches.\<close>

definition idle_env :: "'w env" where
  "idle_env = \<lparr> env_FetchEnhancedPage = (\<lambda>w a b. (Inl Canceled, w)), env_sleepContext = (\<lambda>w d. (None, w)) \<rparr>"

sublocale metered_store \<subseteq> budgeted: store_client S idle_env "\<lambda>w. cost w \<le> c" for c
  by unfold_locales
    (auto simp: idle_env_def intro: order_trans [OF progress] order_trans [OF transfers] order_trans [OF synced]
      order_trans [OF link] order_trans [OF event] order_trans [OF candidates] order_trans [OF thresholds])

text \<open>Any store whose operations act on the other part of the world.\<close>

interpretation store_costs_nothing: metered_store "store_on_fst S" "\<lambda>w. cost (snd w)" for S cost
  by unfold_locales (simp_all add: store_on_fst_def)

section \<open>A wallet\<close>

locale metered_pipeline = metered_client E cost price + metered_store S cost
  for E :: "'w env" and S :: "'w store" and cost :: "'w \<Rightarrow> int" and price :: int
begin

text \<open>The most a wallet can cost with so many pages and retries.\<close>

definition wallet_price :: "int \<Rightarrow> int \<Rightarrow> int" where
  "wallet_price pages retries = 2 * (price * ((int (nat retries) + 1) * int (nat pages)))"

lemma wallet_price_pos: "0 \<le> wallet_price pages retries"
  using price_pos by (simp add: wallet_price_def)

lemma core_sync_cost:
  "cost (snd (RunWalletCoreSync sha (Some E) p w)) \<le>
     cost w + wallet_price (cs_MaxTXPagesPerWallet p) (cs_MaxHeliusRetries p)"
proof -
  let ?f = "price * ((int (nat (cs_MaxHeliusRetries p)) + 1) * int (nat (cs_MaxTXPagesPerWallet p)))"
  have pos: "0 \<le> ?f" using price_pos by simp
  obtain r1 w1 where f1: "FetchEnhancedWindow (Some E) (cs_FocalWalletAddress p)
      (fetch_params p (cs_BaselineStart p) (cs_BaselineEnd p)) w = (r1, w1)" by fastforce
  obtain r2 w2 where f2: "FetchEnhancedWindow (Some E) (cs_FocalWalletAddress p)
      (fetch_params p (cs_ScanStart p) (cs_ScanEnd p)) w1 = (r2, w2)" by fastforce
  have "cost w1 \<le> cost w + ?f"
    using window_cost [of "cs_FocalWalletAddress p" "fetch_params p (cs_BaselineStart p) (cs_BaselineEnd p)" w] f1
    by (simp add: fetch_params_def)
  moreover have "cost w2 \<le> cost w1 + ?f"
    using window_cost [of "cs_FocalWalletAddress p" "fetch_params p (cs_ScanStart p) (cs_ScanEnd p)" w1] f2
    by (simp add: fetch_params_def)
  moreover have "snd (RunWalletCoreSync sha (Some E) p w) \<in> {w, w1, w2}"
    using f1 f2 by (auto simp: RunWalletCoreSync_def split: option.split prod.split sum.split)
  ultimately show ?thesis using pos unfolding wallet_price_def by auto
qed

lemma run_body_cost:
  "cost (snd (run_body sha rt cfg S (Some E) a limits win i j st w)) \<le>
     cost w + wallet_price (rl_MaxTXPagesPerWallet limits) (rl_MaxHeliusRetries limits)"
proof -
  let ?p = "wallet_price (rl_MaxTXPagesPerWallet limits) (rl_MaxHeliusRetries limits)"
  obtain r w1 where d: "buildDustClassifier S (win_BaselineStart win) (win_ScanEnd win) w = (r, w1)" by fastforce
  have "cost w1 \<le> cost w"
    using thresholds [of "win_BaselineStart win" "win_ScanEnd win" w] d
    by (auto simp: buildDustClassifier_def split: prod.splits sum.splits)
  moreover have "cost (snd (RunWalletCoreSync sha (Some E) (core_params cfg limits a win classify) w1)) \<le> cost w1 + ?p" for classify
    using core_sync_cost [of sha "core_params cfg limits a win classify" w1] by (simp add: core_params_def)
  moreover have "cost (snd (persist S i j t r' st' w2)) \<le> cost w2" for t r' st' w2
    by (rule budgeted.persist_keeps) simp
  moreover note wallet_price_pos [of "rl_MaxTXPagesPerWallet limits" "rl_MaxHeliusRetries limits"]
  ultimately have w1: "cost w1 \<le> cost w + ?p"
    and core: "cost (snd (RunWalletCoreSync sha (Some E) (core_params cfg limits a win classify) w1)) \<le> cost w + ?p"
    and rest: "cost w2 \<le> cost w + ?p \<Longrightarrow> cost (snd (persist S i j t r' st' w2)) \<le> cost w + ?p" for classify t r' st' w2
    by (simp, smt (verit), smt (verit))
  show ?thesis
  proof (cases r)
    case (Inl e)
    with d w1 show ?thesis by (simp add: run_body_def)
  next
    case (Inr classify)
    obtain r2 w2 where c: "RunWalletCoreSync sha (Some E) (core_params cfg limits a win classify) w1 = (r2, w2)" by fastforce
    with core [of classify] have "cost w2 \<le> cost w + ?p" by simp
    with rest d Inr c show ?thesis by (simp add: run_body_def split: sum.split)
  qed
qed

lemma finalize_run_cost: "cost (snd (finalize_run rt S j out w)) \<le> cost w"
proof -
  obtain err st where o: "out = (err, st)" by fastforce
  show ?thesis
    unfolding o finalize_run_def Let_def
    by (auto split: prod.split sum.split) (metis finalize_sync snd_conv)+
qed

lemma RunWallet_cost:
  "cost (snd (RunWallet sha rt \<lparr> wr_cfg = cfg, wr_store = Some S, wr_client = Some E \<rparr> a p limits w)) \<le>
     cost w + wallet_price (rl_MaxTXPagesPerWallet limits) (rl_MaxHeliusRetries limits)"
proof -
  let ?p = "wallet_price (rl_MaxTXPagesPerWallet limits) (rl_MaxHeliusRetries limits)"
  let ?win = "BuildWindow (rp_ScanStart p) (rp_ScanEnd p) (rp_BaselineLookbackDays p)"
  obtain r1 w1 where e: "st_EnsureWallet S a w = (r1, w1)" by fastforce
  have c1: "cost w1 \<le> cost w" using ensure [of a w] e by simp
  show ?thesis
  proof (cases r1)
    case (Inl err)
    with e c1 wallet_price_pos show ?thesis by (simp add: RunWallet_def Let_def add_increasing2)
  next
    case (Inr i)
    obtain r2 w2 where c: "st_CreateWalletSyncRun S (rp_IngestionRunID p) i ?win (rt_Now rt w1) w1 = (r2, w2)" by fastforce
    have c2: "cost w2 \<le> cost w1" using create_sync [of "rp_IngestionRunID p" i ?win "rt_Now rt w1" w1] c by simp
    show ?thesis
    proof (cases r2)
      case (Inl err)
      have "cost w \<le> cost w + ?p" "cost w2 \<le> cost w + ?p" using c1 c2 wallet_price_pos by (simp_all add: add_increasing2)
      with e c Inr Inl show ?thesis by (simp add: RunWallet_def Let_def)
    next
      case r2: (Inr j)
      obtain out w3 where b: "run_body sha rt cfg S (Some E) a limits ?win i j runner_start w2 = (out, w3)" by fastforce
      have c3: "cost w3 \<le> cost w2 + ?p"
        using run_body_cost [of sha rt cfg a limits ?win i j runner_start w2] b by simp
      have "cost (snd (finalize_run rt S j out w3)) \<le> cost w + ?p"
        using finalize_run_cost [of rt j out w3] c1 c2 c3 by linarith
      moreover have "cost w \<le> cost w + ?p" using wallet_price_pos by simp
      ultimately show ?thesis using e c Inr r2 b by (simp add: RunWallet_def Let_def)
    qed
  qed
qed

lemma runWallet_cost:
  assumes "oc_walletLocks orch = Some S"
    and "runner = RunWallet sha rt \<lparr> wr_cfg = cfg, wr_store = Some S, wr_client = Some E \<rparr>"
  shows "cost (snd (runWallet ctxErr orch runner a p w)) \<le>
    cost w + wallet_price (cfg_MaxTXPagesPerWallet (oc_cfg orch)) (cfg_MaxHeliusRetries (oc_cfg orch))"
proof -
  let ?l = "wallet_limits (oc_cfg orch)"
  let ?p = "wallet_price (cfg_MaxTXPagesPerWallet (oc_cfg orch)) (cfg_MaxHeliusRetries (oc_cfg orch))"
  obtain r w1 where k: "st_AcquireWalletLock S a (cfg_WalletSyncTimeoutSeconds (oc_cfg orch) + walletLockTTLTailSeconds) w = (r, w1)"
    by fastforce
  have c1: "cost w1 \<le> cost w" using acquire [of a "cfg_WalletSyncTimeoutSeconds (oc_cfg orch) + walletLockTTLTailSeconds" w] k
    by simp
  have "cost (snd (runner a p ?l w1)) \<le> cost w1 + ?p"
    using RunWallet_cost [of sha rt cfg a p ?l w1] unfolding assms(2) by (simp add: wallet_limits_def)
  then have call: "cost (snd (call_runner ctxErr runner a p ?l w1)) \<le> cost w + ?p"
    using c1 wallet_price_pos [of "cfg_MaxTXPagesPerWallet (oc_cfg orch)" "cfg_MaxHeliusRetries (oc_cfg orch)"]
    by (auto simp: call_runner_def split: option.split prod.split)
  have rel: "cost (snd (release_lock S a tok res)) \<le> cost (snd res)" for tok res
  proof -
    obtain rep err w2 where res: "res = ((rep, err), w2)" by (metis prod.exhaust)
    show ?thesis unfolding res release_lock_def by (auto split: prod.split sum.split) (metis release snd_conv)+
  qed
  have "cost (snd (release_lock S a tok (call_runner ctxErr runner a p ?l w1))) \<le> cost w + ?p" for tok
    by (rule order_trans [OF rel call])
  moreover have "cost w \<le> cost w + ?p" "cost w1 \<le> cost w + ?p"
    using c1 wallet_price_pos by (simp_all add: add_increasing2)
  ultimately show ?thesis using assms(1) k by (auto simp: runWallet_def Let_def split: sum.split)
qed

end

section \<open>The pool\<close>

definition pool_left :: "'w pool \<Rightarrow> int" where
  "pool_left s = int (length (ps_waiting s) + length (ps_working s))"

lemma pool_step_cost:
  assumes "pool_step slots cancelled worker drift s s'"
    and "\<And>a w. cost (snd (worker a w)) \<le> cost w + (b :: int)" and "\<And>w w'. drift w w' \<Longrightarrow> cost w' \<le> cost w" and "0 \<le> b"
  shows "cost (ps_world s') + pool_left s' * b \<le> cost (ps_world s) + pool_left s * b"
  using assms
proof (induction rule: pool_step.induct)
  case (takes_slot a s)
  have "pool_left (s\<lparr> ps_waiting := remove1 a (ps_waiting s), ps_working := a # ps_working s \<rparr>) = pool_left s"
    using length_remove1_mem [OF takes_slot(1)] by (simp add: pool_left_def)
  then show ?case by simp
next
  case (gives_up a s e)
  have "pool_left s = int (length (remove1 a (ps_waiting s)) + length (ps_working s)) + 1"
    using length_remove1_mem [OF gives_up(1)] by (simp add: pool_left_def)
  then show ?case using gives_up(5) by (simp add: pool_left_def distrib_right)
next
  case (finishes a s report err w')
  have "pool_left s = int (length (ps_waiting s) + length (remove1 a (ps_working s))) + 1"
    using length_remove1_mem [OF finishes(1)] by (simp add: pool_left_def)
  moreover have "cost w' \<le> cost (ps_world s) + b" using finishes(3) [of a "ps_world s"] finishes(2) by simp
  ultimately show ?case by (simp add: pool_left_def distrib_right)
next
  case (drifts s w')
  show ?case using drifts(3) [OF drifts(1)] by (simp add: pool_left_def)
qed

lemma pool_cost:
  assumes "rtranclp (pool_step slots cancelled worker drift) (pool_start wallets w) s" and "pool_over s"
    and "\<And>a w. cost (snd (worker a w)) \<le> cost w + (b :: int)" and "\<And>w w'. drift w w' \<Longrightarrow> cost w' \<le> cost w" and "0 \<le> b"
  shows "cost (ps_world s) \<le> cost w + int (length wallets) * b"
proof -
  have "cost (ps_world s) + pool_left s * b \<le> cost w + int (length wallets) * b"
    using assms(1)
  proof (induction rule: rtranclp_induct)
    case base
    then show ?case by (simp add: pool_start_def pool_left_def)
  next
    case (step s s')
    have "cost (ps_world s') + pool_left s' * b \<le> cost (ps_world s) + pool_left s * b"
      by (rule pool_step_cost [where cost = cost and b = b, OF step(2)]) (fact assms)+
    with step.IH show ?case by linarith
  qed
  moreover have "pool_left s = 0" using assms(2) by (simp add: pool_left_def pool_over_def)
  ultimately show ?thesis by simp
qed

end
