(* ===== verification/Cli_Spec.thy ===== *)
theory Cli_Spec
imports Cli_Serve Api_Jobs Metered_Run
begin

text \<open>
  The processes put together on the PostgreSQL store: what \<open>serve-api\<close> serves is the server of the API's theorems,
  with a starter and background runs that do nothing to the database but operations of the scanner's store; and a
  run that the API has accepted is accepted by the pipeline.
\<close>

section \<open>The database\<close>

text \<open>The advisory lock of the daemon is a parameter.\<close>

definition pg_database ::
  "sql_text \<Rightarrow> row_ids \<Rightarrow> (Pg \<times> 'p \<Rightarrow> (go_error + bool) \<times> (Pg \<times> 'p)) \<Rightarrow> (Pg \<times> 'p \<Rightarrow> Pg \<times> 'p) \<Rightarrow> (Pg \<times> 'p) database" where
  "pg_database sq ids try_lock unlock =
     \<lparr> da_Ping = (\<lambda>w. case on_fst driver_noop w of (Inl err, w1) \<Rightarrow> (Some err, w1) | (Inr _, w1) \<Rightarrow> (None, w1)),
       da_Store = store_on_fst PostgresStore, da_Repository = repository_on_fst (pg_repository sq ids),
       da_Settings = pg_settings, da_TryLock = try_lock, da_Unlock = unlock \<rparr>"

lemma served_api_pg: "served_api ci (pg_database sq ids lk ul) cfg = api_server sq ids cfg (Some (run_starter ci (pg_database sq ids lk ul) cfg))"
  by (simp add: served_api_def WithRunStarter_def api_server_def pg_database_def)

section \<open>The scanner's steps\<close>

lemma GetConfigOverride_reads: "pg_db (snd (GetConfigOverride w)) = pg_db w \<and> pg_fault (snd (GetConfigOverride w)) = pg_fault w"
  by (auto simp: GetConfigOverride_def query_row_def driver_call_def Let_def split_def split: option.split sum.split)

lemma pg_store_steps:
  "scanner_steps w (snd (st_CreateIngestionRun (store_on_fst PostgresStore) t w))"
  "scanner_steps w (snd (st_FinalizeIngestionRun (store_on_fst PostgresStore) i s t c m w))"
  "scanner_steps w (snd (st_CreateWalletSyncRun (store_on_fst PostgresStore) i j win t w))"
  "scanner_steps w (snd (st_UpdateWalletSyncProgress (store_on_fst PostgresStore) j p w))"
  "scanner_steps w (snd (st_FinalizeWalletSyncRun (store_on_fst PostgresStore) j ws t b r c' m n w))"
  "scanner_steps w (snd (st_UpsertNormalizedTransfers (store_on_fst PostgresStore) trs w))"
  "scanner_steps w (snd (st_EnsureWallet (store_on_fst PostgresStore) a w))"
  "scanner_steps w (snd (st_UpdateWalletLastSyncedAt (store_on_fst PostgresStore) i t w))"
  "scanner_steps w (snd (st_LinkWalletTransfer (store_on_fst PostgresStore) i rel tr w))"
  "scanner_steps w (snd (st_UpsertCounterpartyEvent (store_on_fst PostgresStore) e w))"
  "scanner_steps w (snd (st_InsertPoisoningCandidates (store_on_fst PostgresStore) j i cs w))"
  "scanner_steps w (snd (st_ListDustThresholds (store_on_fst PostgresStore) t t' w))"
  "scanner_steps w (snd (st_AcquireWalletLock (store_on_fst PostgresStore) a k w))"
  "scanner_steps w (snd (st_ReleaseWalletLock (store_on_fst PostgresStore) a tok w))"
  by (rule scanner_steps_op, simp add: store_on_fst_def PostgresStore_def pg_step.intros)+

text \<open>How far a world is from one that the scanner has made of \<open>w0\<close>, as a meter that no operation moves.\<close>

definition strayed :: "Pg \<times> 'p \<Rightarrow> Pg \<times> 'p \<Rightarrow> int" where
  "strayed w0 w = (if scanner_steps w0 w then 0 else 1)"

lemma strayed_mono: "scanner_steps w w' \<Longrightarrow> strayed w0 w' \<le> strayed w0 w"
  by (auto simp: strayed_def intro: scanner_steps_trans)

lemma env_on_snd_steps:
  "scanner_steps w (snd (env_FetchEnhancedPage (env_on_snd E) w a b))" "scanner_steps w (snd (env_sleepContext (env_on_snd E) w d))"
  by (rule scanner_steps_read; simp add: env_on_snd_def split: prod.split)+

interpretation scanning: metered_pipeline "env_on_snd E" "store_on_fst PostgresStore" "strayed w0" 0 for E w0
  by unfold_locales (simp_all add: strayed_mono pg_store_steps env_on_snd_steps)

text \<open>The goroutines of a run are a pool; whatever else happens meanwhile is the scanner of another process.\<close>

definition pools :: "('w \<Rightarrow> go_error option) \<Rightarrow> ('w \<Rightarrow> 'w \<Rightarrow> bool)
     \<Rightarrow> ('w Orchestrator \<Rightarrow> 'w wallet_runner \<Rightarrow> RunParams \<Rightarrow> string list \<Rightarrow> 'w \<Rightarrow> walletOutcome list \<times> 'w) \<Rightarrow> bool" where
  "pools ctxErr drift workers \<longleftrightarrow>
     (\<forall>orch runner p wallets w. \<exists>slots cancelled s.
        rtranclp (pool_step slots cancelled (\<lambda>a. runWallet ctxErr orch runner a p) drift) (pool_start wallets w) s \<and>
        pool_over s \<and> workers orch runner p wallets w = (ps_channel s, ps_world s))"

lemma workers_scan:
  assumes "pools ctxErr scanner_steps workers"
    and "orch = cycle_orchestrator sha rt (store_on_fst PostgresStore) (env_on_snd E) cfg"
    and "oc_walletRunner orch = Some runner"
  shows "scanner_steps w (snd (workers orch runner p wallets w))"
proof -
  from assms(1) obtain slots cancelled s where
    reach: "rtranclp (pool_step slots cancelled (\<lambda>a. runWallet ctxErr orch runner a p) scanner_steps) (pool_start wallets w) s"
    and over: "pool_over s" and res: "workers orch runner p wallets w = (ps_channel s, ps_world s)"
    unfolding pools_def by metis
  have runner: "oc_walletLocks orch = Some (store_on_fst PostgresStore)"
    "runner = RunWallet sha rt \<lparr> wr_cfg = cfg, wr_store = Some (store_on_fst PostgresStore), wr_client = Some (env_on_snd E) \<rparr>"
    using assms(2,3) by (simp_all add: cycle_orchestrator_def)
  have "strayed w (snd (runWallet ctxErr orch runner a p v)) \<le> strayed w v + 0" for a v
    using scanning.runWallet_cost [OF runner, of w ctxErr a p v] by (simp add: scanning.wallet_price_def)
  from pool_cost [where cost = "strayed w" and b = 0, OF reach over this strayed_mono]
  have "strayed w (ps_world s) \<le> strayed w w" by simp
  then show ?thesis by (simp add: res strayed_def split: if_splits)
qed

lemma run_finish_scans:
  assumes "oc_runRepo orch = Some (store_on_fst PostgresStore)"
  shows "scanner_steps w (snd (run_finish rt orch i n outcomes w))"
proof -
  have finalized: "scanner_steps w w1" if "st_FinalizeIngestionRun (store_on_fst PostgresStore) j s t c m w = (r, w1)" for j s t c m r w1
    using pg_store_steps(2) [of w j s t c m] that by simp
  show ?thesis using assms by (auto simp: run_finish_def Let_def split: prod.split sum.split dest: finalized)
qed

lemma Run_scans:
  assumes "pools ctxErr scanner_steps workers"
    and "orch = cycle_orchestrator sha rt (store_on_fst PostgresStore) (env_on_snd E) cfg"
  shows "scanner_steps w (snd (Run rt fs orch (workers orch) p w))"
proof -
  let ?runner = "RunWallet sha rt \<lparr> wr_cfg = cfg, wr_store = Some (store_on_fst PostgresStore), wr_client = Some (env_on_snd E) \<rparr>"
  have parts: "oc_walletRunner orch = Some ?runner" "oc_runRepo orch = Some (store_on_fst PostgresStore)" "oc_cfg orch = cfg"
    using assms(2) by (simp_all add: cycle_orchestrator_def)
  note work = workers_scan [OF assms parts(1)]
  have rest: "scanner_steps v (snd (case workers orch ?runner q wallets v of (outcomes, w1) \<Rightarrow> run_finish rt orch i n outcomes w1))"
    for v q wallets i n
    using scanner_steps_trans [OF work run_finish_scans [OF parts(2)]] by (simp add: split_def)
  have create: "scanner_steps w w1" if "st_CreateIngestionRun (store_on_fst PostgresStore) t w = (r, w1)" for t r w1
    using pg_store_steps(1) [of w t] that by simp
  show ?thesis
    using rest scanner_steps_trans [OF create rest]
    by (auto simp: Run_def parts Let_def split: sum.split prod.split dest: create)
qed

section \<open>What a start does\<close>

definition stored_config :: "Config \<Rightarrow> ConfigOverrideRecord \<times> bool \<Rightarrow> Config" where
  "stored_config cfg found = (if snd found then applyStoredConfigOverride cfg (fst found) else cfg)"

lemma prepare_run_cases:
  assumes "prepare_run ci db cfg q w = (r, w')"
  obtains (refused) err where "r = Inl err" "w' = snd (ss_GetConfigOverride (da_Settings db) w)"
  | (created) found w1 client created where "ss_GetConfigOverride (da_Settings db) w = (Inr found, w1)"
      "Validate (ci_ParseURI ci) (stored_config cfg found) = None"
      "cl_HTTP (ci_Clients ci) (cfg_HeliusBaseURL (stored_config cfg found)) (cfg_HeliusAPIKey (stored_config cfg found)) = Inr client"
      "st_CreateIngestionRun (da_Store db) (ho_Now (ci_Host ci) w1) w1 = (created, w')"
      "r = (case created of Inl err \<Rightarrow> Inl err | Inr runID \<Rightarrow>
         Inr \<lparr> br_orch = cycle_orchestrator (ci_SHA ci) (ci_Runtime ci) (da_Store db) client (stored_config cfg found),
               br_params = api_run_params q runID \<rparr>)"
proof (cases "ss_GetConfigOverride (da_Settings db) w")
  case (Pair got w1)
  show thesis
  proof (cases got)
    case (Inl err)
    with Pair assms show ?thesis by (intro refused [of err]) (simp_all add: prepare_run_def)
  next
    case (Inr found)
    note run = assms [unfolded prepare_run_def Pair Inr Let_def, simplified split_def, folded stored_config_def]
    show ?thesis
    proof (cases "Validate (ci_ParseURI ci) (stored_config cfg found)")
      case (Some err)
      with run Pair show ?thesis by (intro refused) auto
    next
      case None
      show ?thesis
      proof (cases "cl_HTTP (ci_Clients ci) (cfg_HeliusBaseURL (stored_config cfg found)) (cfg_HeliusAPIKey (stored_config cfg found))")
        case (Inl err)
        with run None Pair show ?thesis by (intro refused) auto
      next
        case client: (Inr client)
        show ?thesis
        proof (rule created [OF _ None client])
          show "ss_GetConfigOverride (da_Settings db) w = (Inr found, w1)" by (simp add: Pair Inr)
          show "st_CreateIngestionRun (da_Store db) (ho_Now (ci_Host ci) w1) w1 =
              (fst (st_CreateIngestionRun (da_Store db) (ho_Now (ci_Host ci) w1) w1), w')"
            using run None client by (auto simp: prod_eq_iff split: sum.splits)
        qed (use run None client in \<open>auto split: sum.splits\<close>)
      qed
    qed
  qed
qed

lemma pg_database_simps [simp]:
  "ss_GetConfigOverride (da_Settings (pg_database sq ids lk ul)) = on_fst GetConfigOverride"
  "da_Store (pg_database sq ids lk ul) = store_on_fst PostgresStore"
  by (simp_all add: pg_database_def pg_settings_def settings_on_fst_def fun_eq_iff)

lemma override_read_steps: "scanner_steps w (snd (on_fst GetConfigOverride w))"
  using GetConfigOverride_reads [of "fst w"] by (intro scanner_steps_read) simp_all


section \<open>What the API has accepted\<close>

lemma stored_override_agrees: "applyStoredConfigOverride cfg override = applyConfigOverride cfg override"
  by (simp add: applyStoredConfigOverride_def applyConfigOverride_def stored_value_def Let_def)

lemma apply_no_override: "applyConfigOverride cfg no_override = cfg"
  by (simp add: applyConfigOverride_def no_override_def)

lemma GetConfigOverride_found:
  "GetConfigOverride w = (Inr found, w1) \<Longrightarrow> stored_config cfg found = applyConfigOverride cfg (stored_override (pg_db w))"
  by (auto simp: GetConfigOverride_def query_row_def driver_call_def Let_def stored_config_def stored_override_def
      stored_override_agrees apply_no_override split: prod.splits sum.splits option.splits)

lemma effective_stored:
  assumes "effectiveConfig parse (api_server sq ids cfg starter) w = (Inr runCfg, w1)"
  shows "runCfg = applyConfigOverride cfg (stored_override (pg_db (fst w)))" and "pg_db (fst w1) = pg_db (fst w)"
proof -
  from assms obtain found v where "GetConfigOverride (fst w) = (Inr found, v)" "runCfg = applyConfigOverride cfg (fst found)"
    and w1: "w1 = (v, snd w)"
    by (auto simp: effectiveConfig_def loadSettingsOverride_def pg_settings_def settings_on_fst_def on_fst_def Let_def
        split: prod.splits sum.splits option.splits)
  moreover from this have "applyConfigOverride cfg (fst found) = applyConfigOverride cfg (stored_override (pg_db (fst w)))"
    using GetConfigOverride_found [of "fst w" found v cfg]
    by (auto simp: GetConfigOverride_def query_row_def driver_call_def Let_def stored_override_def
        split: prod.splits sum.splits option.splits)
  ultimately show "runCfg = applyConfigOverride cfg (stored_override (pg_db (fst w)))"
    and "pg_db (fst w1) = pg_db (fst w)"
    using GetConfigOverride_reads [of "fst w"] by simp_all
qed

text \<open>The orchestrator takes the parameters of an admissible request as they are.\<close>

lemma admissible_listed:
  assumes "admissible cfg q"
  shows "wallet_list fs cfg (api_run_params q i) = Inr (rs_WalletAddresses q)"
proof -
  have "map trim_space (rs_WalletAddresses q) = rs_WalletAddresses q"
    using assms by (intro map_idI) (simp add: admissible_def)
  then have "listed [] (rs_WalletAddresses q) = rs_WalletAddresses q"
    using assms dedup_by_id [of "\<lambda>a. a" "rs_WalletAddresses q" "[]"]
    by (simp add: listed_def admissible_def is_address_line_def cong: filter_cong)
  with assms show ?thesis
    by (auto simp: wallet_list_def api_run_params_def NormalizeAddresses_eq bounded_def admissible_def)
qed

definition accepted_params :: "Config \<Rightarrow> RunStartRequest \<Rightarrow> int \<Rightarrow> RunParams" where
  "accepted_params cfg q i = (api_run_params q i)
     \<lparr> rp_BaselineLookbackDays :=
         (if rs_BaselineLookbackDays q < 1 then cfg_BaselineLookbackDays cfg else rs_BaselineLookbackDays q) \<rparr>"

lemma admissible_params:
  assumes "admissible cfg q" and "1 \<le> cfg_BaselineLookbackDays cfg"
  shows "run_params cfg (api_run_params q i) = Inr (accepted_params cfg q i)"
  using assms by (simp add: run_params_def api_run_params_def admissible_def accepted_params_def)

lemma background_run_admitted:
  assumes "admissible cfg q" and "1 \<le> cfg_BaselineLookbackDays cfg" and "i \<noteq> 0"
    and "orch = cycle_orchestrator sha rt S E cfg"
  shows "Run rt fs orch workers (api_run_params q i) w =
    (case workers (RunWallet sha rt \<lparr> wr_cfg = cfg, wr_store = Some S, wr_client = Some E \<rparr>) (accepted_params cfg q i)
            (sort (rs_WalletAddresses q)) w of
       (outcomes, w1) \<Rightarrow> run_finish rt orch i (int (length (rs_WalletAddresses q))) outcomes w1)"
proof -
  have "wallet_list fs cfg (accepted_params cfg q i) = wallet_list fs cfg (api_run_params q i)"
    by (simp add: wallet_list_def accepted_params_def)
  then have "wallet_list fs cfg (accepted_params cfg q i) = Inr (rs_WalletAddresses q)"
    by (simp add: admissible_listed [OF assms(1)])
  moreover have "sort (rs_WalletAddresses q) \<noteq> []"
    using assms(1) by (metis admissible_def length_0_conv length_sort)
  moreover have "rp_IngestionRunID (accepted_params cfg q i) = i" by (simp add: accepted_params_def api_run_params_def)
  ultimately show ?thesis
    using admissible_params [OF assms(1,2), of i] assms(3)
    by (simp add: Run_def assms(4) cycle_orchestrator_def Let_def split_def)
qed

lemma CreateIngestionRun_id: "CreateIngestionRun t w = (Inr i, w1) \<Longrightarrow> i = db_next_id (pg_db w)"
  using driver_call_Inr by (fastforce simp: CreateIngestionRun_def fresh_eq split: prod.splits sum.splits)


end
