(* ===== verification/Api_Results.thy ===== *)
theory Api_Results
imports Api_Jobs
begin

text \<open>The properties of the API at concrete requests.\<close>

definition sample_platform :: "unit platform" where
  "sample_platform =
     \<lparr> pf_DecodeRun = (\<lambda>body. Some
         \<lparr> py_Addresses = ''b, a'', py_WalletAddresses = [''a''], py_ScanStart = [], py_ScanEnd = [], py_BaselineLookbackDays = None \<rparr>),
       pf_DecodeSettings = (\<lambda>body. Some (no_override\<lparr> ov_MaxWalletsPerRun := Some 3 \<rparr>)), pf_ParseURI = sample_parse_uri,
       pf_ParseTime = (\<lambda>s. None), pf_Now = (\<lambda>w. 100 * nanos_per_day), pf_ReadDir = (\<lambda>dir w. (Inr None, w)),
       pf_Stat = (\<lambda>path w. (Inr (Some ()), w)), pf_Files = quiet_files, pf_SHA = (\<lambda>s. ''sha''), pf_SQL = sample_sql,
       pf_Rate = (\<lambda>r. JInt 0) \<rparr>"

definition sample_ids :: row_ids where
  "sample_ids = \<lparr> id_counterparty = (\<lambda>k. 1), id_wallet_transaction = (\<lambda>k. 1), id_candidate_created = (\<lambda>k. 0) \<rparr>"

definition sample_request :: "string \<Rightarrow> string \<Rightarrow> (string \<Rightarrow> string) \<Rightarrow> Request" where
  "sample_request method path query =
     \<lparr> rq_Method = method, rq_Path = path, rq_Query = query, rq_Authorization = ''Bearer wrong'', rq_Body = Inr ''{}'' \<rparr>"

definition sample_starter :: "(Pg \<times> unit) RunStarter" where
  "sample_starter q w = (Inr \<lparr> sr_RunID = 1, sr_WalletCount = int (length (rs_WalletAddresses q)), sr_ScanStart = rs_ScanStart q,
     sr_ScanEnd = rs_ScanEnd q, sr_BaselineLookbackDays = rs_BaselineLookbackDays q \<rparr>, w)"

definition sample_api :: "(Pg \<times> unit) Server" where
  "sample_api = api_server sample_sql sample_ids sample_config (Some sample_starter)"

abbreviation sample_world :: "Pg \<times> unit" where
  "sample_world \<equiv> (sample_scanned, ())"

theorem auth_guards_witness:
  "Handler (hosted sample_platform) (sample_api\<lparr> sv_cfg := sample_config\<lparr> cfg_APIBearerToken := ''secret'' \<rparr> \<rparr>)
     (sample_request ''GET'' ''/api/overview'' (\<lambda>k. [])) sample_world = (unauthorized, sample_world)"
proof -
  have "\<not> presents_token (trim_space ''secret'') (sample_request ''GET'' ''/api/overview'' (\<lambda>k. []))"
    unfolding presents_token_def trimmed_after by code_simp
  moreover have "trim_space ''secret'' \<noteq> []" by code_simp
  ultimately show ?thesis
    by (subst auth_guards) (simp_all add: sample_request_def)
qed

lemma sample_body: "limited_body (sample_request method path query) = Inr ''{}''"
  by (simp add: limited_body_def sample_request_def)

lemma sample_api_simps [simp]:
  "sv_runStarter sample_api = Some sample_starter" "pf_ParseURI (hosted sample_platform) = sample_parse_uri"
  by (simp_all add: sample_api_def hosted_def sample_platform_def)

theorem run_start_guarded_witness:
  "\<exists>q w1. admissible sample_config q \<and> snd (handleRunStart (hosted sample_platform) sample_api
     (sample_request ''POST'' ''/api/runs'' (\<lambda>k. [])) sample_world) = snd (sample_starter q w1)"
proof -
  let ?run = "handleRunStart (hosted sample_platform) sample_api (sample_request ''POST'' ''/api/runs'' (\<lambda>k. [])) sample_world"
  have status: "re_Status (fst ?run) = 202" unfolding handleRunStart_def sample_body by code_simp
  have effective: "fst (effectiveConfig sample_parse_uri sample_api sample_world) = Inr sample_config" by code_simp
  have run: "?run = (fst ?run, snd ?run)" by simp
  from run_start_guarded [OF run sample_api_simps(1), unfolded sample_api_simps(2) status] obtain cfg w1 q
    where "effectiveConfig sample_parse_uri sample_api sample_world = (Inr cfg, w1)" "admissible cfg q"
      "snd ?run = snd (sample_starter q w1)"
    by auto
  then show ?thesis using effective by (metis fst_conv sum.inject(2))
qed

theorem download_confined_witness:
  "\<exists>runID name. ''artifacts/web_exports/run_2/a.csv'' = run_dir sample_api runID @ ''/'' @ name \<or>
     name \<noteq> [] \<and> \<not> plain_name name"
proof -
  let ?r = "sample_request ''GET'' ''/api/exports/download'' (\<lambda>k. if k = ''file'' then ''a.csv'' else ''2'')"
  have "re_Payload (fst (Handler (hosted sample_platform) sample_api ?r sample_world)) =
      FilePayload ''artifacts/web_exports/run_2/a.csv''" by code_simp
  moreover have "sv_exportRoot sample_api \<noteq> []" by code_simp
  ultimately show ?thesis using download_confined by (metis list.distinct(1))
qed

theorem api_reads_only_witness:
  "pg_db (fst (snd (Handler (hosted sample_platform) sample_api (sample_request ''GET'' ''/api/candidates'' (\<lambda>k. [])) sample_world))) =
     pg_db sample_scanned"
  using api_reads_only [of "sample_request ''GET'' ''/api/candidates'' (\<lambda>k. [])" sample_platform
      sample_sql sample_ids sample_config "Some sample_starter" sample_world]
  by (simp add: sample_api_def sample_request_def writing_def)

lemma sample_scans: "starter_scans (Some sample_starter)"
  by (simp add: starter_scans_def sample_starter_def scanner_steps_def)

theorem settings_stay_valid_witness:
  "override_valid sample_parse_uri sample_config (pg_db (fst (snd (Handler (hosted sample_platform) sample_api
     (sample_request ''PUT'' ''/api/settings'' (\<lambda>k. [])) sample_world))))"
proof -
  have "override_valid (pf_ParseURI sample_platform) sample_config (pg_db (fst sample_world))" by code_simp
  from settings_stay_valid [OF this sample_scans refl] show ?thesis
    by (simp add: sample_api_def sample_platform_def)
qed

text \<open>A job is queued, exports and is closed.\<close>

definition sample_queue :: Request where
  "sample_queue = sample_request ''POST'' ''/api/exports/jobs'' (\<lambda>k. ''2'')"

definition sample_job_step :: "running_job \<times> Pg \<times> unit \<Rightarrow> running_job option \<times> Pg \<times> unit" where
  "sample_job_step st = job_step (hosted sample_platform) pg_jobs (source_on_fst (pg_source sample_sql)) (fst st) (snd st)"

definition sample_queued :: "Pg \<times> unit" where
  "sample_queued = snd (Handler (hosted sample_platform) sample_api sample_queue sample_world)"

lemma sample_started:
  "re_Started (fst (Handler (hosted sample_platform) sample_api sample_queue sample_world)) = [(5, 2, ''artifacts/web_exports/run_2'')]"
  by code_simp

definition sample_running :: "running_job \<times> Pg \<times> unit" where
  "sample_running = (case sample_job_step (queued_job (5, 2, ''artifacts/web_exports/run_2''), sample_queued) of (j, w) \<Rightarrow> (the j, w))"

lemma sample_job:
  "job_step (hosted sample_platform) pg_jobs (source_on_fst (pg_source sample_sql))
     (queued_job (5, 2, ''artifacts/web_exports/run_2'')) sample_queued = (Some (fst sample_running), snd sample_running)"
  by (simp add: sample_running_def sample_job_step_def job_step_def queued_job_def)

lemma sample_row: "\<exists>row. map_of (db_export_jobs (pg_db (fst (snd sample_running)))) 5 = Some row \<and> ej_status row = ''running''"
proof -
  have "map_option ej_status (map_of (db_export_jobs (pg_db (fst (snd sample_running)))) 5) = Some ''running''" by code_simp
  then show ?thesis by auto
qed

abbreviation sample_step :: "(Pg \<times> unit) \<times> running_job list \<Rightarrow> (Pg \<times> unit) \<times> running_job list \<Rightarrow> bool" where
  "sample_step \<equiv> api_step (hosted sample_platform) sample_api pg_jobs (source_on_fst (pg_source sample_sql)) scanner_steps"

lemma sample_reached: "sample_step\<^sup>*\<^sup>* (sample_world, []) (snd sample_running, [fst sample_running])"
proof -
  have "sample_step (sample_world, []) (sample_queued, [queued_job (5, 2, ''artifacts/web_exports/run_2'')])"
    using api_step.serve [of "hosted sample_platform" sample_api pg_jobs "source_on_fst (pg_source sample_sql)" scanner_steps
        sample_world "[]" sample_queue]
    unfolding sample_started by (simp add: sample_queued_def)
  moreover have "sample_step (sample_queued, [queued_job (5, 2, ''artifacts/web_exports/run_2'')]) (snd sample_running, [fst sample_running])"
    using api_step.work [where before = "[]" and after = "[]" and next_j = "Some (fst sample_running)"] sample_job by simp
  ultimately show ?thesis by (meson r_into_rtranclp rtranclp.rtrancl_into_rtrancl)
qed

lemma sample_no_jobs: "db_export_jobs (pg_db (fst sample_world)) = []"
  by code_simp

theorem export_jobs_settle_witness:
  "\<exists>row. map_of (db_export_jobs (pg_db (fst (snd sample_running)))) 5 = Some row \<and> job_row_ok row \<and> ej_completed_at row = None"
proof -
  from sample_row obtain row where row: "map_of (db_export_jobs (pg_db (fst (snd sample_running)))) 5 = Some row" by blast
  have id: "jb_ID (fst sample_running) = 5" by (simp add: sample_running_def sample_job_step_def job_step_def queued_job_def)
  have "pg_fault (fst sample_world) n = None" for n by code_simp
  then have "pg_fault (fst sample_world) = (\<lambda>_. None)" ..
  then show ?thesis
    using export_jobs_settle [OF sample_scans sample_no_jobs sample_reached [unfolded sample_api_def] row] row id by auto
qed

theorem shared_database_witness:
  "db_inv (pg_db (fst (snd sample_running))) \<and> list_all job_row_ok (map snd (db_export_jobs (pg_db (fst (snd sample_running)))))"
proof -
  have "override_valid (pf_ParseURI sample_platform) sample_config (pg_db (fst sample_world))" by code_simp
  with sample_scanned_inv sample_no_jobs
  have "db_inv (pg_db (fst sample_world)) \<and> db_export_jobs (pg_db (fst sample_world)) = [] \<and>
      override_valid (pf_ParseURI sample_platform) sample_config (pg_db (fst sample_world))" by simp
  from shared_database [OF sample_scans this sample_reached [unfolded sample_api_def]] show ?thesis by blast
qed

end
