(* ===== verification/Daemon_Budget.thy ===== *)
theory Daemon_Budget
imports Daemon
begin

text \<open>
  The daemon's shared state: what its limiters and its credit budget guarantee for any sequence of calls.
\<close>

section \<open>Limiters\<close>

text \<open>The instants that callers at the clock readings \<open>ts\<close> are told to sleep until.\<close>

fun limiter_slots :: "requestLimiter \<Rightarrow> gotime list \<Rightarrow> gotime list" where
  "limiter_slots l [] = []"
| "limiter_slots l (t # ts) = (case limiter_slot t l of (when, l') \<Rightarrow> when # limiter_slots l' ts)"

lemma length_limiter_slots [simp]: "length (limiter_slots l ts) = length ts"
  by (induction l ts rule: limiter_slots.induct) (simp_all split: prod.split)

lemma limiter_slot_fields:
  "limiter_slot t l = (when, l') \<Longrightarrow>
     t \<le> when \<and> lm_next l \<le> when \<and> lm_next l' = when + lm_interval l \<and> lm_interval l' = lm_interval l"
  by (auto simp: limiter_slot_def Let_def)

lemma limiter_slots_gaps:
  "0 \<le> lm_interval l \<Longrightarrow>
     sorted_wrt (\<lambda>x y. x + lm_interval l \<le> y) (limiter_slots l ts) \<and> list_all ((\<le>) (lm_next l)) (limiter_slots l ts)"
proof (induction ts arbitrary: l)
  case (Cons t ts)
  obtain s l' where s: "limiter_slot t l = (s, l')" by fastforce
  note f = limiter_slot_fields [OF s]
  have "sorted_wrt (\<lambda>x y. x + lm_interval l \<le> y) (limiter_slots l' ts) \<and> list_all ((\<le>) (lm_next l')) (limiter_slots l' ts)"
    using Cons.IH [of l'] Cons.prems f by simp
  then show ?case using s f Cons.prems by (fastforce simp: list_all_iff)
qed simp

lemma limiter_slots_after: "list_all2 (\<le>) ts (limiter_slots l ts)"
  by (induction l ts rule: limiter_slots.induct) (auto split: prod.split dest: limiter_slot_fields)

lemma gapped_span:
  "sorted_wrt (\<lambda>x y. x + d \<le> y) (x # xs) \<Longrightarrow> 0 \<le> (d :: int) \<Longrightarrow> x + int (length xs) * d \<le> last (x # xs)"
proof (induction xs arbitrary: x)
  case (Cons y ys)
  then have "y + int (length ys) * d \<le> last (y # ys)" and "x + d \<le> y" by auto
  then show ?case by (simp add: algebra_simps)
qed simp

text \<open>An interval is rounded down, so a second may hold one grant more than asked for.\<close>

definition grants_per_second :: "int \<Rightarrow> int" where
  "grants_per_second rps = rps + (if nanos_per_second mod rps = 0 then 0 else 1)"

lemma interval_fills_second:
  assumes "1 \<le> rps" and "rps \<le> 10"
  shows "nanos_per_second \<le> grants_per_second rps * lm_interval (newRequestLimiter rps)"
proof -
  from assms have "rps = 1 \<or> rps = 2 \<or> rps = 3 \<or> rps = 4 \<or> rps = 5 \<or> rps = 6 \<or> rps = 7 \<or> rps = 8 \<or> rps = 9 \<or> rps = 10"
    by presburger
  then show ?thesis
    by (auto simp: grants_per_second_def newRequestLimiter_def nanos_per_second_def)
qed

section \<open>The budget\<close>

text \<open>The reservations that are granted, of those asked for at the given times.\<close>

fun granted :: "dailyCreditBudget \<Rightarrow> (gotime \<times> int) list \<Rightarrow> (gotime \<times> int) list" where
  "granted b [] = []"
| "granted b ((t, c) # rs) =
     (case Reserve t c b of
        (None, b') \<Rightarrow> (t, c) # granted b' rs
      | (Some err, b') \<Rightarrow> granted b' rs)"

definition credits_on :: "int \<Rightarrow> (gotime \<times> int) list \<Rightarrow> int" where
  "credits_on day rs = sum_list (map snd (filter (\<lambda>(t, c). t div nanos_per_day = day) rs))"

lemma credits_on_simps [simp]:
  "credits_on day [] = 0"
  "credits_on day ((t, c) # rs) = (if t div nanos_per_day = day then c else 0) + credits_on day rs"
  by (simp_all add: credits_on_def)

lemma Reserve_cases:
  assumes "0 < cb_limit b" and "0 \<le> cb_used b" and "cb_used b \<le> cb_limit b" and "0 \<le> c" and "cb_limit b + c \<le> max_int64"
  obtains (granted) b' where "Reserve t c b = (None, b')" and "cb_limit b' = cb_limit b" and "cb_day b' = utc_day t"
      and "cb_used b' = (if cb_day b = utc_day t then cb_used b else 0) + c" and "cb_used b' \<le> cb_limit b"
    | (refused) e b' where "Reserve t c b = (Some e, b')" and "cb_limit b' = cb_limit b" and "cb_day b' = utc_day t"
      and "cb_used b' = (if cb_day b = utc_day t then cb_used b else 0)" and "cb_limit b < cb_used b' + c"
proof -
  define u where "u = (if cb_day b = utc_day t then cb_used b else 0)"
  have u: "0 \<le> u" "u \<le> cb_limit b" using assms(1-3) by (simp_all add: u_def)
  have w: "wrap64 (u + c) = u + c"
    using u assms(4,5) by (intro wrap64_id) (simp_all add: min_int64_def)
  define b1 where "b1 = b\<lparr> cb_day := utc_day t, cb_used := u \<rparr>"
  have b1: "(if cb_day b \<noteq> utc_day t then b\<lparr> cb_day := utc_day t, cb_used := 0 \<rparr> else b) = b1"
    by (cases b) (auto simp: b1_def u_def)
  show ?thesis
  proof (cases "u + c \<le> cb_limit b")
    case True
    then show ?thesis
      using assms(1) w by (intro granted [of "b1\<lparr> cb_used := u + c \<rparr>"])
        (simp_all add: Reserve_def Let_def b1 [unfolded b1_def] b1_def u_def [symmetric])
  next
    case False
    then show ?thesis
      using assms(1) w by (intro refused [of _ b1])
        (simp_all add: Reserve_def Let_def b1 [unfolded b1_def] b1_def u_def [symmetric])
  qed
qed

lemma utc_day_cong: "t div nanos_per_day = t' div nanos_per_day \<Longrightarrow> utc_day t = utc_day t'"
  by (simp add: utc_day_def)

lemma granted_subset: "set (granted b rs) \<subseteq> set rs"
proof (induction rs arbitrary: b)
  case (Cons r rs)
  obtain t c where r: "r = (t, c)" by fastforce
  show ?case using Cons.IH by (auto simp: r split: prod.split option.split)
qed simp

text \<open>\<open>opened\<close>: some reservation of the day was asked for already.\<close>

lemma granted_bound:
  assumes "sorted (map fst rs)" and "0 < cb_limit b" and "0 \<le> cb_used b" and "cb_used b \<le> cb_limit b"
    and "\<forall>(t, c) \<in> set rs. 0 \<le> c \<and> cb_limit b + c \<le> max_int64"
    and "opened \<Longrightarrow> (\<forall>t \<in> set (map fst rs). day \<le> t div nanos_per_day) \<and> cb_day b = utc_day (day * nanos_per_day)"
  shows "credits_on day (granted b rs) \<le> cb_limit b - (if opened then cb_used b else 0)"
  using assms
proof (induction rs arbitrary: b opened)
  case (Cons r rs)
  obtain t c where r: "r = (t, c)" by fastforce
  let ?today = "t div nanos_per_day = day"
  have c: "0 \<le> c" "cb_limit b + c \<le> max_int64" using Cons.prems(5) r by auto
  have later: "day \<le> t' div nanos_per_day" if ?today "t' \<in> set (map fst rs)" for t'
  proof -
    from that Cons.prems(1) r have "t \<le> t'" by auto
    then have "t div nanos_per_day \<le> t' div nanos_per_day" by (simp add: nanos_per_day_def zdiv_mono1)
    with that(1) show ?thesis by simp
  qed
  have past: "credits_on day (granted b' rs) = 0" if "opened" "\<not> ?today" for b'
  proof -
    have "day < t div nanos_per_day" using Cons.prems(6) [OF that(1)] that(2) r by auto
    moreover have "t div nanos_per_day \<le> t' div nanos_per_day" if "t' \<in> set (map fst rs)" for t'
      using Cons.prems(1) r that by (auto simp: nanos_per_day_def intro: zdiv_mono1)
    ultimately have "t' div nanos_per_day \<noteq> day" if "t' \<in> set (map fst rs)" for t'
      using that by fastforce
    then have "filter (\<lambda>(t, c). t div nanos_per_day = day) (granted b' rs) = []"
      using granted_subset [of b' rs] by (fastforce simp: filter_empty_conv)
    then show ?thesis by (simp add: credits_on_def)
  qed
  have same: "cb_day b = utc_day t" if "opened" ?today
    using Cons.prems(6) [OF that(1)] that(2) utc_day_cong [of t "day * nanos_per_day"] by (simp add: nanos_per_day_def)
  have day: "utc_day t = utc_day (day * nanos_per_day)" if ?today
    using that by (intro utc_day_cong) (simp add: nanos_per_day_def)
  show ?case
  proof (cases rule: Reserve_cases [OF Cons.prems(2-4) c, where t = t, case_names granted refused])
    case (granted b')
    have "credits_on day (granted b' rs) \<le> cb_limit b' - (if ?today then cb_used b' else 0)"
      by (rule Cons.IH) (use Cons.prems c granted r later day in \<open>auto split: if_splits\<close>)
    with granted r past [of b'] same c Cons.prems(3,4) show ?thesis by (auto split: if_splits)
  next
    case (refused e b')
    have "credits_on day (granted b' rs) \<le> cb_limit b' - (if ?today then cb_used b' else 0)"
      by (rule Cons.IH) (use Cons.prems c refused r later day in \<open>auto split: if_splits\<close>)
    with refused r past [of b'] same c Cons.prems(3,4) show ?thesis by (auto split: if_splits)
  qed
qed simp

section \<open>Properties\<close>

text \<open>A limiter paces its callers, whatever their clock readings: nobody is let through before asking, two
  grants are at least the interval apart, and no second holds more than \<open>rps\<close> grants, or one more where
  \<open>rps\<close> does not divide a second.\<close>

theorem limiter_paces:
  assumes "1 \<le> rps" and "rps \<le> 10"
  shows "list_all2 (\<le>) clocks (limiter_slots (newRequestLimiter rps) clocks) \<and>
    sorted_wrt (\<lambda>x y. x + nanos_per_second div rps \<le> y) (limiter_slots (newRequestLimiter rps) clocks) \<and>
    int (length (filter (\<lambda>x. s \<le> x \<and> x < s + nanos_per_second) (limiter_slots (newRequestLimiter rps) clocks))) \<le>
      rps + (if nanos_per_second mod rps = 0 then 0 else 1)"
proof -
  let ?l = "newRequestLimiter rps"
  define d where "d = lm_interval ?l"
  have d: "d = nanos_per_second div rps" "0 < d"
    using assms by (simp_all add: d_def newRequestLimiter_def nanos_per_second_def pos_imp_zdiv_pos_iff)
  have gaps: "sorted_wrt (\<lambda>x y. x + d \<le> y) (limiter_slots ?l clocks)"
    using limiter_slots_gaps [of ?l clocks] d by (simp add: d_def)
  let ?in = "filter (\<lambda>x. s \<le> x \<and> x < s + nanos_per_second) (limiter_slots ?l clocks)"
  have "int (length ?in) \<le> grants_per_second rps"
  proof (cases ?in)
    case Nil
    then show ?thesis using assms by (simp add: grants_per_second_def)
  next
    case (Cons x xs)
    have "sorted_wrt (\<lambda>x y. x + d \<le> y) (x # xs)" using gaps Cons by (metis sorted_wrt_filter)
    from gapped_span [OF this] d have "x + int (length xs) * d \<le> last (x # xs)" by simp
    moreover have "list_all (\<lambda>x. s \<le> x \<and> x < s + nanos_per_second) (x # xs)"
      using Cons [symmetric] by (simp add: list_all_iff)
    then have "s \<le> x" "last (x # xs) < s + nanos_per_second"
      by (simp_all add: list_all_iff)
    ultimately have "int (length xs) * d < grants_per_second rps * d"
      using interval_fills_second [OF assms] by (simp add: d_def)
    then show ?thesis using d Cons by simp
  qed
  with gaps limiter_slots_after show ?thesis by (simp add: d grants_per_second_def)
qed

text \<open>C25. The budget of a day: as long as the clock does not go back, the credits granted on any one day of UTC add
  up to no more than the limit, whatever is asked for and when.\<close>

theorem budget_per_day:
  assumes "0 < limit" and "sorted (map fst requests)"
    and "\<forall>(t, c) \<in> set requests. 0 \<le> c \<and> limit + c \<le> max_int64"
  shows "credits_on day (granted (newDailyCreditBudget limit) requests) \<le> limit"
  using granted_bound [of requests "newDailyCreditBudget limit" False day] assms
  by (simp add: newDailyCreditBudget_def)

text \<open>A daemon whose options pass validation is admitted on every new day: its first reservation is granted.\<close>

theorem validated_cycle_admitted:
  assumes "validateDaemonOptions cfg opts = None" and "cb_limit b = dm_dailyCreditBudget opts" and "cb_day b \<noteq> utc_day now"
  shows "\<exists>b'. Reserve now (estimateDaemonCycleCredits opts) b = (None, b') \<and> cb_day b' = utc_day now \<and>
    cb_used b' = estimateDaemonCycleCredits opts \<and> cb_used b' \<le> cb_limit b'"
proof -
  have "0 < dm_dailyCreditBudget opts" "estimateDaemonCycleCredits opts \<le> dm_dailyCreditBudget opts"
    using assms(1) by (simp_all add: validateDaemonOptions_def daemon_checks_def split: if_splits)
  moreover have "wrap64 (estimateDaemonCycleCredits opts) = estimateDaemonCycleCredits opts"
    using wrap64_range [of "cycle_credits opts"] by (simp add: estimateDaemonCycleCredits_def wrap64_id)
  ultimately show ?thesis using assms(2,3) by (simp add: Reserve_def Let_def)
qed

section \<open>Samples\<close>

text \<open>Three requests per second let a fourth through within it.\<close>

theorem limiter_paces_witness:
  "limiter_slots (newRequestLimiter 3) [0, 0, 0, 0] = [0, 333333333, 666666666, 999999999] \<and>
   int (length (filter (\<lambda>x. 0 \<le> x \<and> x < 0 + nanos_per_second) (limiter_slots (newRequestLimiter 3) [0, 0, 0, 0]))) \<le> 4"
proof
  show "limiter_slots (newRequestLimiter 3) [0, 0, 0, 0] = [0, 333333333, 666666666, 999999999]" by code_simp
  show "int (length (filter (\<lambda>x. 0 \<le> x \<and> x < 0 + nanos_per_second) (limiter_slots (newRequestLimiter 3) [0, 0, 0, 0]))) \<le> 4"
    using limiter_paces [of 3 "[0, 0, 0, 0]" 0] by (simp add: nanos_per_second_def split: if_splits)
qed

theorem budget_per_day_witness:
  "credits_on 0 (granted (newDailyCreditBudget 50) [(0, 30), (1, 30), (2, 20), (nanos_per_day, 30)]) \<le> 50 \<and>
   granted (newDailyCreditBudget 50) [(0, 30), (1, 30), (2, 20), (nanos_per_day, 30)] = [(0, 30), (2, 20), (nanos_per_day, 30)]"
proof
  show "credits_on 0 (granted (newDailyCreditBudget 50) [(0, 30), (1, 30), (2, 20), (nanos_per_day, 30)]) \<le> 50"
    by (rule budget_per_day) (simp_all add: nanos_per_day_def max_int64_def)
  show "granted (newDailyCreditBudget 50) [(0, 30), (1, 30), (2, 20), (nanos_per_day, 30)] = [(0, 30), (2, 20), (nanos_per_day, 30)]"
    by code_simp
qed

definition sample_options :: daemonOptions where
  "sample_options = default_options sample_config"

lemma sample_config_limits:
  "cfg_MaxWalletsPerRun sample_config = 25" "cfg_MaxTXPagesPerWallet sample_config = 20"
  "cfg_MaxTXPerWallet sample_config = 1500" "cfg_MaxConcurrentWallets sample_config = 2"
  "cfg_MaxHeliusRetries sample_config = 4" "cfg_ScanWindowDays sample_config = 7" "cfg_BaselineLookbackDays sample_config = 90"
  by code_simp+

lemmas sample_options_simps = sample_options_def default_options_def minInt_def sample_config_limits validateDaemonOptions_def
  daemon_checks_def estimateDaemonCycleCredits_def cycle_credits_def wrap64_def nanos_per_minute_def nanos_per_hour_def
  standardRPCCredits_def enhancedTransactionCredits_def

lemma sample_options_valid: "validateDaemonOptions sample_config sample_options = None"
  by (simp add: sample_options_simps)

lemma utc_day_nonempty: "utc_day t \<noteq> []" "[] \<noteq> utc_day t"
  by (simp_all add: utc_day_def split: prod.split)

theorem validated_cycle_admitted_witness:
  "\<exists>b'. Reserve 0 (estimateDaemonCycleCredits sample_options) (newDailyCreditBudget (dm_dailyCreditBudget sample_options)) = (None, b')"
  using validated_cycle_admitted [OF sample_options_valid, of "newDailyCreditBudget (dm_dailyCreditBudget sample_options)" 0]
  by (auto simp: newDailyCreditBudget_def utc_day_nonempty)

text \<open>The estimate wraps: with so many candidates allowed, validation passes although a cycle may cost more than
  the budget of a day.\<close>

lemma overflow_passes_validation:
  "let opts = sample_options\<lparr> dm_maxCandidates := 4611686018427387904 \<rparr> in
     validateDaemonOptions sample_config opts = None \<and> dm_dailyCreditBudget opts < cycle_credits opts"
  by (simp add: sample_options_simps)

end
