(* ===== verification/Daemon_Spec.thy ===== *)
theory Daemon_Spec
imports Daemon_Budget Metered_Run Wallet_Source_Results
begin

text \<open>
  A cycle of the daemon costs no more than the estimate it reserved, whatever the provider answers and
  however its workers interleave.
\<close>

section \<open>The price of a run\<close>

context metered_pipeline begin

lemma run_finish_cost:
  assumes "oc_runRepo orch = Some S"
  shows "cost (snd (run_finish rt orch i n ocs w)) \<le> cost w"
  using assms unfolding run_finish_def Let_def
  by (auto split: prod.split sum.split) (metis finalize_run snd_conv)+

lemma Run_cost:
  assumes "oc_runRepo orch = Some S" and "rp_WalletAddresses p = []" and "0 < cfg_MaxWalletsPerRun (oc_cfg orch)"
    and work: "\<And>p' wallets w runner. int (length wallets) \<le> cfg_MaxWalletsPerRun (oc_cfg orch) \<Longrightarrow>
      oc_walletRunner orch = Some runner \<Longrightarrow> cost (snd (workers runner p' wallets w)) \<le> cost w + b" and "0 \<le> b"
  shows "cost (snd (Run rt fs orch workers p w)) \<le> cost w + b"
proof -
  define run where "run = (\<lambda>runner ws p w. case workers runner p ws w of (outcomes, w1) \<Rightarrow>
            run_finish rt orch (rp_IngestionRunID p) (int (length ws)) outcomes w1)"
  have run: "cost (snd (run runner (sort loaded) p' w')) \<le> cost w' + b"
    if "wallet_list fs (oc_cfg orch) p1 = Inr loaded" "rp_WalletAddresses p1 = []" "oc_walletRunner orch = Some runner"
    for runner loaded p1 p' w'
  proof -
    from that(1,2) have "int (length loaded) \<le> cfg_MaxWalletsPerRun (oc_cfg orch)"
      using load_addresses_InrD length_bounded [OF assms(3)]
      by (fastforce simp: wallet_list_def LoadAddressesExcludingFile_def split: if_splits sum.splits)
    then have "cost (snd (workers runner p' (sort loaded) w')) \<le> cost w' + b"
      using that(3) by (intro work) simp_all
    moreover obtain ocs w1 where "workers runner p' (sort loaded) w' = (ocs, w1)" by fastforce
    moreover from this have "cost (snd (run runner (sort loaded) p' w')) \<le> cost w1"
      unfolding run_def by (simp add: run_finish_cost [OF assms(1)])
    ultimately show ?thesis by simp
  qed
  have w: "cost w \<le> cost w + b" using assms(5) by simp
  have create: "cost w1 \<le> cost w" if "st_CreateIngestionRun S t w = (r, w1)" for t r w1
    using create_run [of t w] that by simp
  show ?thesis
  proof (cases "run_params (oc_cfg orch) p")
    case (Inl e)
    with w show ?thesis by (simp add: Run_def)
  next
    case p1: (Inr p1)
    then have a: "rp_WalletAddresses p1 = []"
      using assms(2) by (auto simp: run_params_def Let_def split: if_splits)
    show ?thesis
    proof (cases "wallet_list fs (oc_cfg orch) p1")
      case (Inl e)
      with p1 w show ?thesis by (simp add: Run_def)
    next
      case l: (Inr loaded)
      show ?thesis
      proof (cases "oc_walletRunner orch")
        case None
        with p1 l w show ?thesis by (simp add: Run_def Let_def)
      next
        case (Some runner)
        note run' = run [OF l a Some]
        obtain r w1 where c: "st_CreateIngestionRun S (rt_Now rt w) w = (r, w1)" by fastforce
        have w1: "cost w1 \<le> cost w + b" using create [OF c] assms(5) by simp
        define go where "go = (\<lambda>p w. run runner (sort loaded) p w)"
        have go: "cost (snd (go p' w1)) \<le> cost w + b" "cost (snd (go p' w)) \<le> cost w + b" for p'
          using run' [of p' w1] run' [of p' w] create [OF c] by (simp_all add: go_def)
        have "Run rt fs orch workers p w =
          (if sort loaded = [] then (Some (Err ''no wallets to process''), w)
           else if rp_IngestionRunID p1 \<noteq> 0 then go p1 w
           else (case r of Inl e \<Rightarrow> (Some (Wrapped ''create ingestion run: '' e []), w1)
             | Inr i \<Rightarrow> go (p1\<lparr> rp_IngestionRunID := i \<rparr>) w1))"
          using p1 l Some assms(1) c unfolding go_def run_def by (cases r) (simp_all add: Run_def Let_def)
        moreover have "cost (snd (case r of Inl e \<Rightarrow> (Some (Wrapped ''create ingestion run: '' e []), w1)
             | Inr i \<Rightarrow> go (p1\<lparr> rp_IngestionRunID := i \<rparr>) w1)) \<le> cost w + b"
          using w1 go(1) by (cases r) simp_all
        ultimately show ?thesis using w go(2) by (cases "sort loaded = []"; cases "rp_IngestionRunID p1 = 0") simp_all
      qed
    qed
  qed
qed

end

section \<open>The price of a cycle\<close>

text \<open>What the goroutines of a run do: some schedule of the pool, during which the rest of the world does not
  touch the meter.\<close>

definition pooled ::
  "('v \<Rightarrow> go_error option) \<Rightarrow> ('v \<Rightarrow> int) \<Rightarrow> ('v Orchestrator \<Rightarrow> 'v wallet_runner \<Rightarrow> RunParams \<Rightarrow> string list \<Rightarrow> 'v
     \<Rightarrow> walletOutcome list \<times> 'v) \<Rightarrow> bool" where
  "pooled ctxErr cost workers \<longleftrightarrow>
     (\<forall>orch runner p wallets w. \<exists>slots cancelled drift s.
        rtranclp (pool_step slots cancelled (\<lambda>a. runWallet ctxErr orch runner a p) drift) (pool_start wallets w) s \<and>
        pool_over s \<and> (\<forall>w w'. drift w w' \<longrightarrow> cost w' \<le> cost w) \<and>
        workers orch runner p wallets w = (ps_channel s, ps_world s))"

locale metered_host = rpc: metered_rpc rpc meter + enhanced: metered_client E meter enhancedTransactionCredits + metered_store S meter
  for rpc :: "'w rpc" and E :: "'w env" and S :: "'w store" and meter :: "'w \<Rightarrow> int" +
  fixes h :: "'w host"
  assumes timer_cost: "meter (snd (ho_Timer h d w)) \<le> meter w"
    and mkdir_cost: "meter (snd (fl_MkdirAll (ho_Files h) path w)) \<le> meter w"
    and write_cost: "meter (snd (fl_WriteFile (ho_Files h) path body w)) \<le> meter w"
begin

lemma wait_cost: "meter (fst (snd (Wait h get put w))) \<le> meter (fst w)"
  using timer_cost by (auto simp: Wait_def sleepUntil_def Let_def split: prod.splits) (metis snd_conv)+

lemma enhanced_wait_cost: "enhanced_wait h w = (r, w') \<Longrightarrow> meter (fst w') \<le> meter (fst w)"
  using wait_cost [of ds_enhancedLimiter "\<lambda>l s. s\<lparr> ds_enhancedLimiter := l \<rparr>" w] by (simp add: enhanced_wait_def)

lemma rpc_wait_cost: "rpc_wait h w = (r, w') \<Longrightarrow> meter (fst w') \<le> meter (fst w)"
  using wait_cost [of ds_rpcLimiter "\<lambda>l s. s\<lparr> ds_rpcLimiter := l \<rparr>" w] by (simp add: rpc_wait_def)

end

text \<open>The limiters and the first component of the world do not hide the meter.\<close>

sublocale metered_host \<subseteq> limited: metered_rpc "limitedRPC h rpc" "\<lambda>w. meter (fst w)"
proof
  fix w :: "'w \<times> daemonState" and slot n :: int
  note wait = rpc_wait_cost and costs = rpc.slot_cost rpc.block_cost rpc.random_cost
  show "meter (fst (snd (rpc_GetSlot (limitedRPC h rpc) w))) \<le> meter (fst w) + 1"
    using wait [of w] costs(1) [of "fst (snd (rpc_wait h w))"]
    by (auto simp: limitedRPC_def split: prod.split option.split)
  show "meter (fst (snd (rpc_GetBlock (limitedRPC h rpc) w slot))) \<le> meter (fst w) + 1"
    using wait [of w] costs(2) [of "fst (snd (rpc_wait h w))" slot]
    by (auto simp: limitedRPC_def split: prod.split option.split)
  show "meter (fst (snd (rpc_Intn (limitedRPC h rpc) w n))) \<le> meter (fst w)"
    using costs(3) [of "fst w" n] by (auto simp: limitedRPC_def split: prod.split)
qed

sublocale metered_host \<subseteq> sourced: metered_source "limitedEnhancedClient h E" "\<lambda>w. meter (fst w)"
  enhancedTransactionCredits "files_on_fst (ho_Files h)"
proof
  fix w :: "'w \<times> daemonState" and a before path and body :: string and d :: duration
  show "meter (fst (snd (env_FetchEnhancedPage (limitedEnhancedClient h E) w a before))) \<le>
      meter (fst w) + enhancedTransactionCredits"
    using enhanced_wait_cost [of w] enhanced.fetch_cost [of "fst (snd (enhanced_wait h w))" a before] enhanced.price_pos
    by (auto simp: limitedEnhancedClient_def env_on_fst_def split: prod.split option.split)
  show "meter (fst (snd (env_sleepContext (limitedEnhancedClient h E) w d))) \<le> meter (fst w)"
    using timer_cost [of d "fst w"] by (auto simp: limitedEnhancedClient_def split: prod.split)
  show "meter (fst (snd (fl_MkdirAll (files_on_fst (ho_Files h)) path w))) \<le> meter (fst w)"
    using mkdir_cost [of path "fst w"] by (auto simp: files_on_fst_def split: prod.split)
  show "meter (fst (snd (fl_WriteFile (files_on_fst (ho_Files h)) path body w))) \<le> meter (fst w)"
    using write_cost [of path body "fst w"] by (auto simp: files_on_fst_def split: prod.split)
qed (rule enhanced.price_pos)

sublocale metered_host \<subseteq> scanned: metered_pipeline "limitedEnhancedClient h E" "store_on_fst S" "\<lambda>w. meter (fst w)"
  enhancedTransactionCredits
  by unfold_locales
    (simp_all add: store_on_fst_def create_run finalize_run create_sync progress finalize_sync transfers ensure synced
      link event candidates thresholds acquire release)

text \<open>What validation leaves of the options.\<close>

lemma validated_bounds:
  assumes "validateDaemonOptions cfg opts = None"
  shows "0 < dm_maxBlocks opts" "0 < dm_blockLookback opts" "0 < dm_maxCandidates opts" "0 < dm_candidateMaxPages opts"
    "0 \<le> dm_deepDiveTopN opts" "0 < dm_deepDiveMaxPages opts" "0 < dm_targetCount opts" "0 < dm_runMaxTXPages opts"
    "0 \<le> dm_maxHeliusRetries opts" "0 < dm_dailyCreditBudget opts"
    "estimateDaemonCycleCredits opts \<le> dm_dailyCreditBudget opts"
  using assms by (simp_all add: validateDaemonOptions_def daemon_checks_def split: if_splits)

text \<open>A cycle by its stages: the reservation, the directory, the scrape, sourcing and the scan.\<close>

lemma runDaemonCycle_stages:
  assumes "Reserve (ho_Now h (fst w)) (estimateDaemonCycleCredits opts) (ds_budget (snd w)) = (r0, bd)"
    and "w0 = (fst w, (snd w)\<lparr> ds_budget := bd \<rparr>)"
    and "cycleDir = path_join [dm_workDir opts, format_cycle_id (ho_Now h (fst w))]"
    and "fl_MkdirAll (files_on_fst (ho_Files h)) cycleDir w0 = (r1, w1)"
  shows "runDaemonCycle sha wild h cl rt S workers cfg opts w =
    (case r0 of Some err \<Rightarrow> (Some err, w0) | None \<Rightarrow>
     case r1 of Some err \<Rightarrow> (Some (Wrapped ''create daemon cycle dir: '' err []), w1) | None \<Rightarrow>
     case cl_RPC cl (cfg_HeliusAPIKey cfg) of
        Inl err \<Rightarrow> (Some (Wrapped ''helius rpc client: '' err []), w1)
      | Inr rpc \<Rightarrow>
      (case ScrapeRecentWallets wild (Some (limitedRPC h rpc)) (scrape_options opts) w1 of
        (Inl err, w2) \<Rightarrow> (Some (Wrapped ''scrape wallets: '' err []), w2)
      | (Inr scraped, w2) \<Rightarrow>
      if scraped = [] then (None, w2)
      else
      (case cl_HTTP cl (cfg_HeliusBaseURL cfg) (cfg_HeliusAPIKey cfg) of
        Inl err \<Rightarrow> (Some (Wrapped ''helius enhanced client: '' err []), w2)
      | Inr E \<Rightarrow>
      (case Source sha (ho_Read h (fst w2)) (files_on_fst (ho_Files h)) (Some (limitedEnhancedClient h E)) (source_options cfg opts scraped cycleDir (ho_Now h (fst w1))) w2 of
        (Inl err, w3) \<Rightarrow> (Some (Wrapped ''source wallets: '' err []), w3)
      | (Inr sourced, w3) \<Rightarrow>
          if sr_Accepted sourced = [] then (None, w3)
          else cycle_scan sha h rt S workers E cfg opts (source_options cfg opts scraped cycleDir (ho_Now h (fst w1))) w3))))"
  using assms(4) unfolding runDaemonCycle_def assms(1-3) Let_def prod.case fst_conv by (cases r0; cases r1) simp_all

context metered_host begin

lemma scrape_price:
  assumes "validateDaemonOptions cfg opts = None"
  shows "meter (fst (snd (ScrapeRecentWallets wild (Some (limitedRPC h rpc)) (scrape_options opts) w))) \<le>
    meter (fst w) + 1 + dm_maxBlocks opts"
  using limited.scrape_cost [of wild "scrape_options opts" w] validated_bounds(1,2) [OF assms]
  by (simp add: withScrapeDefaults_def scrape_options_def Let_def del: scrape_defaults)

lemma sourcing_price:
  assumes "validateDaemonOptions cfg opts = None"
  shows "meter (fst (snd (Source sha fs (files_on_fst (ho_Files h)) (Some (limitedEnhancedClient h E))
      (source_options cfg opts scraped dir scanEnd) w))) \<le>
    meter (fst w) + (dm_maxCandidates opts * dm_candidateMaxPages opts + dm_deepDiveTopN opts * dm_deepDiveMaxPages opts) *
      (dm_maxHeliusRetries opts + 1) * enhancedTransactionCredits"
proof -
  let ?o = "withDefaults (source_options cfg opts scraped dir scanEnd)"
  note v = validated_bounds [OF assms]
  have "sourced.source_price ?o = (dm_maxCandidates opts * dm_candidateMaxPages opts + dm_deepDiveTopN opts * dm_deepDiveMaxPages opts) *
      (dm_maxHeliusRetries opts + 1) * enhancedTransactionCredits"
    using v by (simp add: sourced.source_price_def sourced.window_price_def withDefaults_def source_options_def Let_def
      algebra_simps del: target_pos)
  then show ?thesis
    using sourced.source_cost [of sha fs "source_options cfg opts scraped dir scanEnd" w] by simp
qed

lemma scan_price:
  assumes "validateDaemonOptions cfg opts = None" and "pooled ctxErr (\<lambda>w. meter (fst w)) workers"
  shows "meter (fst (snd (cycle_scan sha h rt S workers E cfg opts so w))) \<le>
    meter (fst w) + dm_targetCount opts * dm_runMaxTXPages opts * 2 * (dm_maxHeliusRetries opts + 1) * enhancedTransactionCredits"
proof -
  note v = validated_bounds [OF assms(1)]
  let ?p = "scanned.wallet_price (dm_runMaxTXPages opts) (dm_maxHeliusRetries opts)"
  let ?orch = "cycle_orchestrator sha rt (store_on_fst S) (limitedEnhancedClient h E) (run_config cfg opts)"
  have p: "dm_targetCount opts * ?p =
      dm_targetCount opts * dm_runMaxTXPages opts * 2 * (dm_maxHeliusRetries opts + 1) * enhancedTransactionCredits"
    using v by (simp add: scanned.wallet_price_def algebra_simps)
  have work: "meter (fst (snd (workers ?orch runner p' wallets w'))) \<le> meter (fst w') + dm_targetCount opts * ?p"
    if "int (length wallets) \<le> cfg_MaxWalletsPerRun (oc_cfg ?orch)" "oc_walletRunner ?orch = Some runner"
    for p' wallets w' runner
  proof -
    from assms(2) obtain slots cancelled drift s where
      run: "rtranclp (pool_step slots cancelled (\<lambda>a. runWallet ctxErr ?orch runner a p') drift) (pool_start wallets w') s"
      and over: "pool_over s" and drift: "\<And>w w'. drift w w' \<Longrightarrow> meter (fst w') \<le> meter (fst w)"
      and eq: "workers ?orch runner p' wallets w' = (ps_channel s, ps_world s)"
      unfolding pooled_def by metis
    have each: "meter (fst (snd (runWallet ctxErr ?orch runner a p' w))) \<le> meter (fst w) + ?p" for a w
      using scanned.runWallet_cost [of ?orch runner sha rt "run_config cfg opts" ctxErr a p' w] that(2)
      by (simp add: cycle_orchestrator_def run_config_def)
    have "meter (fst (ps_world s)) \<le> meter (fst w') + int (length wallets) * ?p"
      by (rule pool_cost [where cost = "\<lambda>w. meter (fst w)" and b = ?p, OF run over])
        (fact each drift scanned.wallet_price_pos)+
    moreover have "int (length wallets) * ?p \<le> dm_targetCount opts * ?p"
      using that(1) scanned.wallet_price_pos
      by (intro mult_right_mono) (simp_all add: cycle_orchestrator_def run_config_def)
    ultimately show ?thesis by (simp add: eq)
  qed
  have "meter (fst (snd (Run rt (ho_Read h (fst w)) ?orch (workers ?orch) (cycle_run_params opts so) w))) \<le>
      meter (fst w) + dm_targetCount opts * ?p"
    by (rule scanned.Run_cost [OF _ _ _ work])
      (use v scanned.wallet_price_pos in \<open>simp_all add: cycle_orchestrator_def run_config_def cycle_run_params_def\<close>)
  then show ?thesis
    unfolding p by (auto simp: cycle_scan_def Let_def split: prod.split option.split)
qed

lemma source_scan_price:
  assumes v: "validateDaemonOptions cfg opts = None" and pool: "pooled ctxErr (\<lambda>w. meter (fst w)) workers"
    and b: "b = (dm_maxCandidates opts * dm_candidateMaxPages opts + dm_deepDiveTopN opts * dm_deepDiveMaxPages opts) *
      (dm_maxHeliusRetries opts + 1) * enhancedTransactionCredits"
    and c: "c = dm_targetCount opts * dm_runMaxTXPages opts * 2 * (dm_maxHeliusRetries opts + 1) * enhancedTransactionCredits"
    and so: "so = source_options cfg opts scraped dir scanEnd"
  shows "meter (fst (snd (case Source sha fs (files_on_fst (ho_Files h)) (Some (limitedEnhancedClient h E)) so w of
        (Inl err, w3) \<Rightarrow> (Some (Wrapped ''source wallets: '' err []), w3)
      | (Inr sourced, w3) \<Rightarrow>
          if sr_Accepted sourced = [] then (None, w3)
          else cycle_scan sha h rt S workers E cfg opts so w3))) \<le> meter (fst w) + b + c"
proof -
  obtain r w3 where src: "Source sha fs (files_on_fst (ho_Files h)) (Some (limitedEnhancedClient h E)) so w = (r, w3)"
    by (metis prod.exhaust)
  have "meter (fst w3) \<le> meter (fst w) + b"
    using sourcing_price [OF v, of sha fs scraped dir scanEnd w] src so b by simp
  moreover have "0 \<le> c" using validated_bounds [OF v] by (simp add: c enhancedTransactionCredits_def)
  moreover have "meter (fst (snd (cycle_scan sha h rt S workers E cfg opts so w3))) \<le> meter (fst w3) + c"
    unfolding c by (rule scan_price [OF v pool])
  ultimately show ?thesis using src by (cases r) auto
qed

lemma cycle_cost:
  assumes v: "validateDaemonOptions cfg opts = None" and pool: "pooled ctxErr (\<lambda>w. meter (fst w)) workers"
    and clients: "\<And>r. cl_RPC cl (cfg_HeliusAPIKey cfg) = Inr r \<Longrightarrow> r = rpc"
      "\<And>e. cl_HTTP cl (cfg_HeliusBaseURL cfg) (cfg_HeliusAPIKey cfg) = Inr e \<Longrightarrow> e = E"
  shows "meter (fst (snd (runDaemonCycle sha wild h cl rt S workers cfg opts w))) \<le> meter (fst w) + cycle_credits opts"
proof -
  let ?files = "files_on_fst (ho_Files h)"
  define b where "b = (dm_maxCandidates opts * dm_candidateMaxPages opts + dm_deepDiveTopN opts * dm_deepDiveMaxPages opts) *
      (dm_maxHeliusRetries opts + 1) * enhancedTransactionCredits"
  define c where "c = dm_targetCount opts * dm_runMaxTXPages opts * 2 * (dm_maxHeliusRetries opts + 1) * enhancedTransactionCredits"
  have pos: "0 \<le> 1 + dm_maxBlocks opts" "0 \<le> b" "0 \<le> c"
    using validated_bounds [OF v] by (simp_all add: b_def c_def enhancedTransactionCredits_def)
  have total: "cycle_credits opts = 1 + dm_maxBlocks opts + b + c"
    by (simp add: cycle_credits_def b_def c_def Let_def standardRPCCredits_def algebra_simps)
  obtain r0 bd where res: "Reserve (ho_Now h (fst w)) (estimateDaemonCycleCredits opts) (ds_budget (snd w)) = (r0, bd)" by fastforce
  obtain w0 where w0: "w0 = (fst w, (snd w)\<lparr> ds_budget := bd \<rparr>)" by blast
  obtain dir where dir: "dir = path_join [dm_workDir opts, format_cycle_id (ho_Now h (fst w))]" by blast
  obtain r1 w1 where mk: "fl_MkdirAll ?files dir w0 = (r1, w1)" by (metis prod.exhaust)
  obtain r2 w2 where sc: "ScrapeRecentWallets wild (Some (limitedRPC h rpc)) (scrape_options opts) w1 = (r2, w2)" by (metis prod.exhaust)
  note eq = runDaemonCycle_stages [OF res w0 dir mk, where sha = sha and wild = wild and cl = cl and rt = rt and S = S
      and workers = workers and cfg = cfg]
  have ends: "meter (fst w0) \<le> meter (fst w) + cycle_credits opts" "meter (fst w1) \<le> meter (fst w) + cycle_credits opts"
      "meter (fst w2) \<le> meter (fst w) + cycle_credits opts"
    and m2: "meter (fst w2) \<le> meter (fst w) + (1 + dm_maxBlocks opts)"
    using sourced.mkdir_cost [of dir w0] mk w0 scrape_price [OF v, of wild w1] sc pos unfolding total by simp_all
  have step: "meter (fst (snd (case Source sha (ho_Read h (fst w2)) ?files (Some (limitedEnhancedClient h E))
          (source_options cfg opts scraped dir (ho_Now h (fst w1))) w2 of
        (Inl err, w3) \<Rightarrow> (Some (Wrapped ''source wallets: '' err []), w3)
      | (Inr sourced, w3) \<Rightarrow>
          if sr_Accepted sourced = [] then (None, w3)
          else cycle_scan sha h rt S workers E cfg opts (source_options cfg opts scraped dir (ho_Now h (fst w1))) w3)))
      \<le> meter (fst w) + cycle_credits opts" for scraped
    unfolding total by (rule order_trans [OF source_scan_price [OF v pool b_def c_def refl]]) (use m2 in simp)
  show ?thesis
  proof (cases "r0 = None \<and> r1 = None \<and> cl_RPC cl (cfg_HeliusAPIKey cfg) = Inr rpc")
    case False
    then show ?thesis
      using ends clients(1) unfolding eq by (auto split: option.split sum.split)
  next
    case True
    then show ?thesis
      using sc ends step clients(2) unfolding eq by (auto split: sum.split)
  qed
qed

end

section \<open>The bill\<close>

text \<open>The world with a bill: what Helius charges for every call of its clients. The rest of the host and the
  database act on the other part.\<close>

definition charging :: "'w env \<Rightarrow> ('w \<times> int) env" where
  "charging E =
     \<lparr> env_FetchEnhancedPage = (\<lambda>(w, n) a before.
          case env_FetchEnhancedPage E w a before of (r, w') \<Rightarrow> (r, (w', n + enhancedTransactionCredits))),
       env_sleepContext = env_sleepContext (env_on_fst E) \<rparr>"

definition charging_clients :: "'w clients \<Rightarrow> ('w \<times> int) clients" where
  "charging_clients cl =
     \<lparr> cl_RPC = (\<lambda>key. map_sum id counting_rpc (cl_RPC cl key)),
       cl_HTTP = (\<lambda>url key. map_sum id charging (cl_HTTP cl url key)) \<rparr>"

definition host_on_fst :: "'w host \<Rightarrow> ('w \<times> int) host" where
  "host_on_fst h =
     \<lparr> ho_Now = (\<lambda>w. ho_Now h (fst w)), ho_Timer = (\<lambda>d w. case ho_Timer h d (fst w) of (err, w1) \<Rightarrow> (err, (w1, snd w))),
       ho_Read = (\<lambda>w. ho_Read h (fst w)), ho_Files = files_on_fst (ho_Files h) \<rparr>"

interpretation billed: metered_host "counting_rpc rpc" "charging E" "store_on_fst S" snd "host_on_fst h" for rpc E S h
  by unfold_locales
    (simp_all add: charging_def enhancedTransactionCredits_def env_on_fst_def host_on_fst_def files_on_fst_def on_fst_def
      split: prod.splits)

text \<open>C6. A cycle with validated options costs no more than its estimate: whatever the provider answers, whatever
  fails and however the workers of the scan interleave, the credits that the calls of the cycle are charged, one
  for a block or slot and a hundred for a page of transactions, are at most \<open>cycle_credits\<close>; and unless that number
  overflows 64 bits, it is what the cycle reserves and within the budget of a day. Workers may interleave as any
  schedule of the pool, with other activity that charges nothing.\<close>

theorem daemon_cycle_within_estimate:
  assumes "validateDaemonOptions cfg opts = None" and "pooled ctxErr (\<lambda>w. snd (fst w)) workers"
  shows "snd (fst (snd (runDaemonCycle sha wild (host_on_fst h) (charging_clients cl) rt (store_on_fst S) workers cfg opts
      ((w, 0), state)))) \<le> cycle_credits opts \<and>
    (cycle_credits opts \<le> max_int64 \<longrightarrow>
       estimateDaemonCycleCredits opts = cycle_credits opts \<and> cycle_credits opts \<le> dm_dailyCreditBudget opts)"
proof
  let ?rpc = "projr (cl_RPC cl (cfg_HeliusAPIKey cfg))"
  let ?E = "projr (cl_HTTP cl (cfg_HeliusBaseURL cfg) (cfg_HeliusAPIKey cfg))"
  have "snd (fst (snd (runDaemonCycle sha wild (host_on_fst h) (charging_clients cl) rt (store_on_fst S) workers cfg opts
      ((w, 0), state)))) \<le> snd (fst ((w, 0 :: int), state)) + cycle_credits opts"
  proof (rule billed.cycle_cost [of cfg opts ctxErr workers "charging_clients cl" ?rpc ?E, OF assms])
    show "r = counting_rpc ?rpc" if "cl_RPC (charging_clients cl) (cfg_HeliusAPIKey cfg) = Inr r" for r
      using that by (cases "cl_RPC cl (cfg_HeliusAPIKey cfg)") (auto simp: charging_clients_def)
    show "e = charging ?E" if "cl_HTTP (charging_clients cl) (cfg_HeliusBaseURL cfg) (cfg_HeliusAPIKey cfg) = Inr e" for e
      using that by (cases "cl_HTTP cl (cfg_HeliusBaseURL cfg) (cfg_HeliusAPIKey cfg)") (auto simp: charging_clients_def)
  qed
  then show "snd (fst (snd (runDaemonCycle sha wild (host_on_fst h) (charging_clients cl) rt (store_on_fst S) workers cfg opts
      ((w, 0), state)))) \<le> cycle_credits opts" by simp
  show "cycle_credits opts \<le> max_int64 \<longrightarrow>
       estimateDaemonCycleCredits opts = cycle_credits opts \<and> cycle_credits opts \<le> dm_dailyCreditBudget opts"
  proof
    assume "cycle_credits opts \<le> max_int64"
    note v = validated_bounds [OF assms(1)]
    have "0 \<le> cycle_credits opts"
      using v by (simp add: cycle_credits_def Let_def standardRPCCredits_def enhancedTransactionCredits_def)
    with \<open>cycle_credits opts \<le> max_int64\<close> have "estimateDaemonCycleCredits opts = cycle_credits opts"
      unfolding estimateDaemonCycleCredits_def by (intro wrap64_id) (simp_all add: min_int64_def)
    with v(11) show "estimateDaemonCycleCredits opts = cycle_credits opts \<and> cycle_credits opts \<le> dm_dailyCreditBudget opts"
      by simp
  qed
qed

section \<open>Samples\<close>

text \<open>A machine on which every wallet is worked on in turn, an empty chain and a fresh database.\<close>

definition sample_workers ::
  "('v Orchestrator \<Rightarrow> 'v wallet_runner \<Rightarrow> RunParams \<Rightarrow> string list \<Rightarrow> 'v \<Rightarrow> walletOutcome list \<times> 'v)" where
  "sample_workers orch runner p = serial_workers (\<lambda>a. runWallet (\<lambda>w. None) orch runner a p)"

lemma sample_pooled:
  fixes cost :: "'v \<Rightarrow> int"
  shows "pooled (\<lambda>w. None) cost sample_workers"
proof -
  have "\<exists>slots cancelled drift s.
        rtranclp (pool_step slots cancelled (\<lambda>a. runWallet (\<lambda>w. None) orch runner a p) drift) (pool_start wallets w) s \<and>
        pool_over s \<and> (\<forall>w w'. drift w w' \<longrightarrow> cost w' \<le> cost w) \<and>
        sample_workers orch runner p wallets w = (ps_channel s, ps_world s)" for orch runner p wallets and w :: 'v
  proof -
    obtain ocs w' where r: "sample_workers orch runner p wallets w = (ocs, w')" by fastforce
    let ?s = "\<lparr> ps_waiting = [], ps_working = [], ps_channel = [] @ ocs, ps_world = w' \<rparr>"
    have "rtranclp (pool_step 1 (\<lambda>w. None) (\<lambda>a. runWallet (\<lambda>w. None) orch runner a p) (\<lambda>w w'. False)) (pool_start wallets w) ?s"
      unfolding pool_start_def using r by (intro serial_schedule) (simp_all add: sample_workers_def)
    moreover have "pool_over ?s" by (simp add: pool_over_def)
    ultimately show ?thesis using r by (intro exI [of _ 1] exI [of _ "\<lambda>w. None"] exI [of _ "\<lambda>w w'. False"] exI [of _ ?s]) simp
  qed
  then show ?thesis unfolding pooled_def by blast
qed

definition sample_host :: "Pg host" where
  "sample_host =
     \<lparr> ho_Now = pg_now, ho_Timer = (\<lambda>d w. (None, w\<lparr> pg_now := pg_now w + d \<rparr>)),
       ho_Read = (\<lambda>w path. Inr \<lparr> wf_lines = [], wf_break_err = (\<lambda>n. None), wf_end_err = None \<rparr>),
       ho_Files = \<lparr> fl_MkdirAll = (\<lambda>path w. (None, w)), fl_WriteFile = (\<lambda>path body w. (None, w)) \<rparr> \<rparr>"

definition sample_clients :: "'w clients" where
  "sample_clients =
     \<lparr> cl_RPC = (\<lambda>key. Inr
          \<lparr> rpc_GetSlot = (\<lambda>w. (Inr 100, w)),
            rpc_GetBlock = (\<lambda>w slot. (Inr \<lparr> bl_BlockTime = None, bl_Transactions = [sample_transfer_tx] \<rparr>, w)), rpc_Intn = (\<lambda>w n. (0, w)) \<rparr>),
       cl_HTTP = (\<lambda>url key. Inr
          \<lparr> env_FetchEnhancedPage = (\<lambda>w a before. (Inr \<lparr> page_Transactions = [], page_Before = [] \<rparr>, w)),
            env_sleepContext = (\<lambda>w d. (None, w)) \<rparr>) \<rparr>"

theorem daemon_cycle_within_estimate_witness:
  "snd (fst (snd (runDaemonCycle id (\<lambda>_. 0) (host_on_fst sample_host) (charging_clients sample_clients)
     \<lparr> rt_Now = (\<lambda>w. 0), rt_CtxErr = (\<lambda>w. None) \<rparr> (store_on_fst PostgresStore) sample_workers sample_config sample_options
     ((sample_pg, 0), daemon_start sample_options)))) \<le> 45221"
proof -
  have "cycle_credits sample_options = 45221" by (simp add: sample_options_simps)
  with daemon_cycle_within_estimate [OF sample_options_valid sample_pooled, of id "\<lambda>_. 0" sample_host sample_clients
      "\<lparr> rt_Now = (\<lambda>w. 0), rt_CtxErr = (\<lambda>w. None) \<rparr>" PostgresStore sample_pg "daemon_start sample_options"]
  show ?thesis by simp
qed

end
