(* ===== verification/Cli_Results.thy ===== *)
theory Cli_Results
imports Cli_Spec Api_Results Daemon_Spec
begin

text \<open>The commands at concrete arguments, and what a command line can do wrong.\<close>

section \<open>Runs over the API\<close>

definition sample_cli :: "(Pg \<times> unit) cli" where
  "sample_cli =
     \<lparr> ci_RunFlags = (\<lambda>f args. Inr f), ci_SourceFlags = (\<lambda>f args. Inr f), ci_ExportFlags = (\<lambda>f args. Inr f),
       ci_ServeFlags = (\<lambda>addr args. Inr addr), ci_DaemonFlags = (\<lambda>o' args. Inr o'), ci_ParseTime = (\<lambda>s. Inr 0),
       ci_ParseURI = sample_parse_uri, ci_OpenDB = (\<lambda>url. Inl (Err url)),
       ci_Clients = \<lparr> cl_RPC = (\<lambda>key. Inl (Err key)), cl_HTTP = (\<lambda>url key. Inr (env_on_snd sample_empty_chain)) \<rparr>,
       ci_Host = \<lparr> ho_Now = (\<lambda>w. pg_now (fst w)), ho_Timer = (\<lambda>d w. (None, w)),
         ho_Read = (\<lambda>w path. Inl (Err path)),
         ho_Files = \<lparr> fl_MkdirAll = (\<lambda>path w. (None, w)), fl_WriteFile = (\<lambda>path body w. (None, w)) \<rparr> \<rparr>,
       ci_Runtime = sample_runtime, ci_Workers = sample_workers, ci_SHA = id, ci_SQL = sample_sql, ci_Wild = (\<lambda>_. 0) \<rparr>"

definition sample_database :: "(Pg \<times> unit) database" where
  "sample_database = pg_database sample_sql sample_ids (\<lambda>w. (Inr True, w)) (\<lambda>w. w)"

lemma sample_pools: "pools (\<lambda>w. None) drift sample_workers"
proof -
  have "\<exists>slots cancelled s.
        rtranclp (pool_step slots cancelled (\<lambda>a. runWallet (\<lambda>w. None) orch runner a p) drift) (pool_start wallets w) s \<and>
        pool_over s \<and> sample_workers orch runner p wallets w = (ps_channel s, ps_world s)" for orch runner p wallets w
  proof -
    obtain ocs w' where r: "sample_workers orch runner p wallets w = (ocs, w')" by fastforce
    let ?s = "\<lparr> ps_waiting = [], ps_working = [], ps_channel = [] @ ocs, ps_world = w' \<rparr>"
    have "rtranclp (pool_step 1 (\<lambda>w. None) (\<lambda>a. runWallet (\<lambda>w. None) orch runner a p) drift) (pool_start wallets w) ?s"
      unfolding pool_start_def using r by (intro serial_schedule) (simp_all add: sample_workers_def)
    moreover have "pool_over ?s" by (simp add: pool_over_def)
    ultimately show ?thesis using r by (intro exI [of _ 1] exI [of _ "\<lambda>w. None"] exI [of _ ?s]) simp
  qed
  then show ?thesis unfolding pools_def by blast
qed



section \<open>The command line\<close>

text \<open>A flag that is wrong ends the process with code 2 before anything has been touched, and no other code than 0 and
  1 is used later on.\<close>

definition only_before :: "console \<times> 'w \<Rightarrow> 'w \<Rightarrow> bool" where
  "only_before res w \<longleftrightarrow> co_Code (fst res) \<in> {0, 1} \<or> snd res = w"

lemma exit_codes [simp]: "co_Code (succeed lines) = 0" "co_Code (exit_with k msg) = k"
  by (simp_all add: succeed_def exit_with_def)

lemma connect_code: "connect ci cfg w = (Inl c, w1) \<Longrightarrow> co_Code c = 1"
  by (auto simp: connect_def split: sum.splits prod.splits option.splits)

lemma scrape_code: "scrape_seeds ci cfg f w = (Inl c, w1) \<Longrightarrow> co_Code c = 1"
  by (auto simp: scrape_seeds_def split: sum.splits prod.splits if_splits)

lemma usage_errors:
  "only_before (runCmd ci cfg args w) w" "only_before (sourceWalletsCmd ci cfg args w) w"
  "only_before (exportDatasetCmd ci cfg args w) w"
  by (auto simp: only_before_def runCmd_def sourceWalletsCmd_def exportDatasetCmd_def Let_def
      dest: connect_code scrape_code split: sum.split prod.split option.split)

text \<open>The default of \<open>--known-dust-assets\<close> is read back as the default keys.\<close>

lemma default_dust_assets: "splitCSV (sf_known_dust_assets (default_source_flags cfg)) = DefaultKnownDustAssetKeys"
proof -
  have "splitCSV (join '','' DefaultKnownDustAssetKeys) = DefaultKnownDustAssetKeys" by code_simp
  then show ?thesis by (simp add: default_source_flags_def)
qed

end
