(* ===== verification/Spec2Isabelle.thy ===== *)
theory Spec2Isabelle
imports Wallet_Source_Results Exports_Results Http_Clients_Spec Cli_Results
begin

text \<open>
  PoisonTrace: a bounded scanner that looks for address poisoning in the transfers of Solana wallets. Address
  poisoning is a transfer of dust (or of nothing) to a victim from an address that looks like one the victim has paid
  before; PoisonTrace reads a wallet's history from the Helius API in two windows, a baseline of what is known to be
  legitimate and a scan of what is suspected, and records the transfers of the scan that pass eleven gates. This
  library models its Go code, the program \<open>cmd/scanner\<close> and the packages under \<open>internal/\<close>, and proves what makes it
  correct.

  \<^bold>\<open>The program.\<close> \<open>cmd/scanner/main.go\<close> has the commands \<open>run\<close> (scan the wallets of a file), \<open>source-wallets\<close> (find
  wallets worth scanning), \<open>daemon\<close> (both, in cycles, under a budget of API credits), \<open>export-dataset\<close> and \<open>serve-api\<close>.
  A run (\<open>pipeline/orchestrator.go\<close>) starts a worker per wallet behind a semaphore; a worker takes the wallet's lock in
  the database and calls the wallet runner (\<open>wallet_runner.go\<close>), which opens a row, runs the core sync (\<open>core.go\<close>:
  fetch both windows page by page, normalize, record counterparties, materialize candidates), persists the result and
  closes its row whatever happened. All processes share one PostgreSQL database: the scanner's workers, the daemon, the
  API with its background export jobs and the runs it starts.

  \<^bold>\<open>Worlds.\<close> An operation with effects maps a world to a result and a world. The world is a type variable wherever the
  code does not look at it: \<open>store\<close> (\<open>Storage\<close>), \<open>env\<close> (the provider and the timer, \<open>Helius\<close>), \<open>rpc\<close>, \<open>files\<close>,
  \<open>host\<close>, \<open>network\<close> and \<open>cli\<close> are records of such operations. \<open>Pg\<close> (\<open>Postgres\<close>) is the concrete world of the store:
  the tables, the clock, the random source and, for every call, whether the driver fails. Pairs of worlds put a store
  beside a provider (\<open>store_on_fst\<close>, \<open>env_on_snd\<close>). An error is a value of \<open>go_error\<close> in a sum; every early return
  is a branch. Integers that can wrap are cut to 64 bits (\<open>wrap64\<close>); instants and durations are nanoseconds.

  \<^bold>\<open>Theories and sources.\<close>
    \<^item> \<open>Go_Prelude\<close>, \<open>Go_Encoding\<close>: strings as bytes, \<open>TrimSpace\<close>, \<open>Split\<close>, \<open>Atoi\<close>, UTF-8, \<open>filepath\<close>, time, errors,
      maps, \<open>sort.Slice\<close> (the locale \<open>slice_order\<close> is its contract); CSV and JSON texts.
    \<^item> \<open>Helius\<close>, \<open>Redaction\<close>, \<open>Http_Clients\<close> (\<open>internal/helius\<close>, the RPC client of \<open>block_scrape.go\<close>): data, retry
      classification, requests and responses, decoding of amounts, and the five redaction patterns on a small
      matcher with Go's leftmost-first rule.
    \<^item> \<open>Transactions\<close>, \<open>Counterparties\<close>, \<open>Detection\<close>, \<open>Materialize\<close> (\<open>internal/transactions\<close>,
      \<open>internal/counterparties\<close>, \<open>pipeline/detection.go\<close>, \<open>candidate_materialize.go\<close>, \<open>validation.go\<close>).
    \<^item> \<open>Fetch\<close>, \<open>Core_Sync\<close>, \<open>Dust\<close>, \<open>Wallet_Runner\<close>, \<open>Orchestrator\<close> (the rest of \<open>internal/pipeline\<close>), with
      \<open>Runs_Wallets\<close> (\<open>internal/runs\<close>, \<open>internal/wallets\<close>), \<open>Config\<close> (\<open>internal/config\<close>) and \<open>Storage\<close>
      (\<open>storage/repository.go\<close>).
    \<^item> \<open>Postgres\<close> (\<open>postgres_repository.go\<close>), \<open>Export_Data\<close> (\<open>export_repository.go\<close>), \<open>App_Store\<close>
      (\<open>phase6_repository.go\<close>), \<open>Read_Models\<close> (\<open>read_api_repository.go\<close>): statements as functions on tables that
      check the constraints of \<open>db/migrations\<close>.
    \<^item> \<open>Block_Scrape\<close>, \<open>Wallet_Stats\<close>, \<open>Wallet_Source\<close> (\<open>internal/walletsource\<close>), \<open>Exports\<close> (\<open>internal/exports\<close>).
    \<^item> \<open>Api_Core\<close>, \<open>Api_Server\<close> (\<open>internal/api/server.go\<close>), \<open>Daemon\<close> (\<open>cmd/scanner/daemon.go\<close>), \<open>Cli\<close>,
      \<open>Cli_Serve\<close> (\<open>cmd/scanner/main.go\<close>).

  \<^bold>\<open>What the lemmas show.\<close>
    \<^item> \<open>Injection_Spec\<close>: a specification of a poisoning injection over the observations alone, and that the indexed
      computation emits exactly the injections; \<open>Core_Sync\<close> carries it to a sync. \<open>Detection\<close>: an unknown gate blocks.
    \<^item> \<open>Fetch_Spec\<close>: a fetch ends, within a number of calls, and is complete for a newest-first provider unless it
      says it is partial. \<open>Metered\<close> and \<open>Metered_Run\<close> price a client and carry the price through a run;
      \<open>Daemon_Spec\<close>: a cycle costs no more than its estimate, \<open>Daemon_Budget\<close>: a day no more than its budget.
    \<^item> \<open>Wallet_Runner_Spec\<close>, \<open>Wallet_Runs\<close>: status, error and row agree on every path, the row is closed once, a rerun
      counts nothing. \<open>Orchestrator_Spec\<close>: the pool of workers as a step relation, its bound, its progress, its totals
      and their independence of the schedule.
    \<^item> \<open>Postgres_Spec\<close>, \<open>Postgres_Schema\<close>, \<open>Postgres_Upserts\<close>: the schema's invariant on every path, locks that
      exclude, atomic writes, the SQL of an event as a refinement of \<open>ApplyEvent\<close>.
    \<^item> \<open>Block_Scrape_Spec\<close>, \<open>Wallet_Stats_Spec\<close>, \<open>Wallet_Source_Spec\<close>, \<open>Wallet_Source_Results\<close>: what scraping and
      sourcing return. \<open>Exports_Spec\<close>, \<open>Exports_Results\<close>: manifests, CSV round trips, reproducibility.
    \<^item> \<open>Http_Clients_Spec\<close>: what a page request can end in, and that its error does not depend on the API key.
    \<^item> \<open>Api_Spec\<close>, \<open>Api_Reads\<close>: who gets past the token, which runs may start, which files are served, which requests
      write (the locale \<open>reading_api\<close>). \<open>Api_Store\<close>, \<open>Api_Jobs\<close>: on the PostgreSQL store, settings stay valid and
      export jobs settle. \<open>Api_Apart\<close>: no operation of the scanner touches the API's rows, so all of it holds while
      the scanner works on the same database, whose invariant the two keep together.
    \<^item> \<open>Cli_Spec\<close>: \<open>serve-api\<close> is the server of these theorems, its starter and its background runs are steps of the
      scanner, and a run it has accepted reaches the workers. \<open>Api_Results\<close> and \<open>Cli_Results\<close> hold concrete requests.

  \<^bold>\<open>Interfaces.\<close> The contracts between components are locales, each interpreted on the model: \<open>slice_order\<close> and
  \<open>commuting_loop\<close> (the prelude), \<open>dust_classifier\<close>, \<open>lock_service\<close>, \<open>store_client\<close> (what the runner's body needs of
  store and provider), \<open>metered_client\<close>, \<open>metered_store\<close>, \<open>metered_pipeline\<close>, \<open>metered_rpc\<close>, \<open>metered_source\<close>,
  \<open>metered_host\<close>, \<open>same_rows\<close>, \<open>undisturbed_files\<close>, \<open>undisturbed_export\<close> and \<open>reading_api\<close>.

  \<^bold>\<open>Bounds and termination.\<close> Every loop is total: pages and retries go down to a limit, lists and slots are finite.
  Fuel appears in three places. \<open>daemon_loop\<close> and \<open>daemonCmd\<close> run the first \<open>n\<close> turns of a loop meant not to end.
  \<open>rx_run\<close> has the length of the text, and every character it takes has a byte. The workers of a run are the pool's
  steps: until they are done some worker can take one that leaves less to do, so a run ends.

  \<^bold>\<open>Parameters.\<close> SHA-256; the HTTP network, \<open>net/url\<close>, the decoding of JSON into structs and of RFC 3339; the parsing
  of flags; the clock, timers, files and random numbers; the goroutines of a run (any function whose result the pool
  can reach); the collation of the database and the text it gives to \<open>numeric\<close> and \<open>timestamptz\<close> values; ids of rows
  the tables key otherwise. A hypothesis about a parameter is named in the theorem that needs it.

  \<^bold>\<open>Not modelled.\<close> Contexts show only in whether an operation fails: deadlines are not counted down. Log lines, the
  help of \<open>flag\<close>, signals, connection pools, and the redirects of \<open>ServeMux\<close> and the content of \<open>ServeFile\<close> are left
  out. A worker's calls are one step of the pool, so two workers' statements do not interleave (their locks keep them on
  different wallets; the statements of the store are atomic each). \<open>internal/fixtures\<close> and the commands
  \<open>replay-fixture\<close> and \<open>validate-corpus\<close> are the test harness, an in-memory store that replays recorded cases;
  \<open>wallets/types.go\<close> is a type without use; the web front end under \<open>apps\<close> and \<open>packages\<close> is TypeScript over the API.
\<close>

end
